(* ===== verification/Prelude.thy ===== *)
theory Prelude
  imports Main "HOL-Library.Word" "HOL-Library.Multiset"
begin

text \<open>
  Shared ground of the development: names for the machine types of the client, the
  propagation of errors by the \<^verbatim>\<open>?\<close> operator as a bind on sums, the big-endian byte codecs
  (\<^verbatim>\<open>to_be_bytes\<close> / \<^verbatim>\<open>from_be_bytes\<close>) that every serializer and the block decoder use,
  and the facts about stable sorting of row indices that the tablet and the one-device
  record path share.
\<close>

section \<open>Machine types\<close>

text \<open>
  Signed integers are words read with \<open>sint\<close>; \<open>f32\<close> and \<open>f64\<close> are their IEEE bit
  patterns, because the client only ever moves the bits (\<^verbatim>\<open>to_be_bytes\<close>, \<^verbatim>\<open>from_bits\<close>).
\<close>

type_synonym u8 = "8 word"
type_synonym u16 = "16 word"
type_synonym i8 = "8 word"
type_synonym i32 = "32 word"
type_synonym i64 = "64 word"
type_synonym u64 = "64 word"
type_synonym f32 = "32 word"
type_synonym f64 = "64 word"
type_synonym bytes = "u8 list"

named_theorems res_simps \<open>evaluation of results: bind, traversal\<close>
named_theorems codec_simps \<open>what a reader returns on a prefix some writer produced\<close>
named_theorems codec_len \<open>lengths of encodings\<close>

section \<open>Results\<close>

text \<open>The \<^verbatim>\<open>?\<close> operator: an error returns at once, a value goes on.\<close>

definition bindr :: "'e + 'a \<Rightarrow> ('a \<Rightarrow> 'e + 'b) \<Rightarrow> 'e + 'b" where
  "bindr m f = (case m of Inl e \<Rightarrow> Inl e | Inr x \<Rightarrow> f x)"

lemma bindr_Inl [simp, res_simps]: "bindr (Inl e) f = Inl e"
  by (simp add: bindr_def)

lemma bindr_Inr [simp, res_simps]: "bindr (Inr x) f = f x"
  by (simp add: bindr_def)

lemma bindr_eq_Inr: "bindr m f = Inr y \<longleftrightarrow> (\<exists>x. m = Inr x \<and> f x = Inr y)"
  by (cases m) auto

lemma bindr_eq_Inl: "bindr m f = Inl e \<longleftrightarrow> m = Inl e \<or> (\<exists>x. m = Inr x \<and> f x = Inl e)"
  by (cases m) auto

text \<open>\<^verbatim>\<open>iter().map(f).collect::<Result<Vec<_>>>()\<close>: the first error stops the traversal.\<close>

fun traverse :: "('a \<Rightarrow> 'e + 'b) \<Rightarrow> 'a list \<Rightarrow> 'e + 'b list" where
  "traverse f [] = Inr []"
| "traverse f (x # xs) = bindr (f x) (\<lambda>y. bindr (traverse f xs) (\<lambda>ys. Inr (y # ys)))"

lemma traverse_eq_Inr: "traverse f xs = Inr ys \<longleftrightarrow> list_all2 (\<lambda>x y. f x = Inr y) xs ys"
proof (induction xs arbitrary: ys)
  case Nil
  then show ?case by auto
next
  case (Cons x xs)
  then show ?case by (auto simp: bindr_eq_Inr list_all2_Cons1)
qed

text \<open>
  A value of an option type that stands for "does this panic": the concatenation of the
  outputs of a loop is defined when no iteration panics.
\<close>

fun concat_opt :: "'a list option list \<Rightarrow> 'a list option" where
  "concat_opt [] = Some []"
| "concat_opt (x # xs) =
     (case x of None \<Rightarrow> None
      | Some a \<Rightarrow> (case concat_opt xs of None \<Rightarrow> None | Some b \<Rightarrow> Some (a @ b)))"

lemma concat_opt_map_Some: "concat_opt (map (\<lambda>x. Some (f x)) xs) = Some (concat (map f xs))"
  by (induction xs) auto

lemma concat_opt_eq_None: "concat_opt xs = None \<longleftrightarrow> None \<in> set xs"
  by (induction xs) (auto split: option.splits)

lemma concat_opt_map_None: "concat_opt (map f xs) = None \<longleftrightarrow> (\<exists>x \<in> set xs. f x = None)"
  by (induction xs) (auto split: option.splits)

lemma concat_opt_cong_Some:
  assumes "\<And>x. x \<in> set xs \<Longrightarrow> f x = Some (g x)"
  shows "concat_opt (map f xs) = Some (concat (map g xs))"
  using assms by (induction xs) auto

section \<open>Big-endian byte codecs\<close>

text \<open>
  \<open>to_be n w\<close> is the \<open>n\<close> low bytes of \<open>w\<close>, most significant first
  (\<^verbatim>\<open>i32::to_be_bytes\<close> is \<open>to_be 4\<close>, \<^verbatim>\<open>i64::to_be_bytes\<close> is \<open>to_be 8\<close>); \<open>from_be\<close> reads
  them back.
\<close>

fun to_be :: "nat \<Rightarrow> 'a::len word \<Rightarrow> bytes" where
  "to_be 0 w = []"
| "to_be (Suc n) w = ucast (drop_bit (8 * n) w) # to_be n w"

definition be_nat :: "nat \<Rightarrow> bytes \<Rightarrow> nat" where
  "be_nat acc bs = foldl (\<lambda>a b. a * 256 + unat b) acc bs"

definition from_be :: "bytes \<Rightarrow> 'a::len word" where
  "from_be bs = word_of_nat (be_nat 0 bs)"

lemma length_to_be [simp, codec_len]: "length (to_be n w) = n"
  by (induction n) auto

lemma unat_top_byte:
  fixes w :: "'a::len word"
  shows "unat (ucast (drop_bit (8 * n) w) :: u8) = unat w div 256 ^ n mod 256"
proof -
  have "unat (ucast (drop_bit (8 * n) w) :: u8) = take_bit 8 (unat (drop_bit (8 * n) w))"
    by (simp add: unsigned_ucast_eq)
  also have "unat (drop_bit (8 * n) w) = unat w div 256 ^ n"
    unfolding unat_drop_bit_eq by (simp add: drop_bit_eq_div power_mult)
  finally show ?thesis by (simp add: take_bit_eq_mod)
qed

lemma be_nat_to_be: "be_nat acc (to_be n w) = acc * 256 ^ n + unat w mod 256 ^ n"
proof (induction n arbitrary: acc)
  case 0
  then show ?case by (simp add: be_nat_def)
next
  case (Suc n)
  have "be_nat acc (to_be (Suc n) w) = be_nat (acc * 256 + unat w div 256 ^ n mod 256) (to_be n w)"
    by (simp add: be_nat_def unat_top_byte)
  also have "\<dots> = acc * 256 ^ Suc n + ((unat w div 256 ^ n mod 256) * 256 ^ n + unat w mod 256 ^ n)"
    by (simp add: Suc.IH algebra_simps)
  also have "(unat w div 256 ^ n mod 256) * 256 ^ n + unat w mod 256 ^ n = unat w mod 256 ^ Suc n"
    using mod_mult2_eq [of "unat w" "256 ^ n" 256] by (simp add: algebra_simps)
  finally show ?case .
qed

lemma from_be_to_be:
  fixes w :: "'a::len word"
  assumes "LENGTH('a) \<le> 8 * n"
  shows "from_be (to_be n w) = w"
proof -
  have "unat w < 2 ^ LENGTH('a)" by (rule unsigned_less)
  also have "(2::nat) ^ LENGTH('a) \<le> 2 ^ (8 * n)" using assms by (intro power_increasing) auto
  finally have "unat w mod 256 ^ n = unat w" by (simp add: power_mult)
  then show ?thesis by (simp add: from_be_def be_nat_to_be)
qed

lemma from_be_to_be_32 [simp, codec_simps]: "from_be (to_be 4 (w :: 32 word)) = w"
  by (rule from_be_to_be) simp

lemma from_be_to_be_64 [simp, codec_simps]: "from_be (to_be 8 (w :: 64 word)) = w"
  by (rule from_be_to_be) simp

lemma to_be_inject: "LENGTH('a) \<le> 8 * n \<Longrightarrow> to_be n (v :: 'a::len word) = to_be n w \<longleftrightarrow> v = w"
  by (metis from_be_to_be)

text \<open>\<^verbatim>\<open>len as i32\<close> is faithful, and non-negative, below \<open>2 ^ 31\<close>.\<close>

lemma sint_of_nat_i32: "n < 2 ^ 31 \<Longrightarrow> sint (word_of_nat n :: i32) = int n"
  by (simp add: signed_of_nat signed_take_bit_int_eq_self)

lemma nat_sint_of_nat_i32 [codec_simps]: "n < 2 ^ 31 \<Longrightarrow> nat (sint (word_of_nat n :: i32)) = n"
  by (simp add: sint_of_nat_i32)

section \<open>Stable sorting of row indices\<close>

text \<open>
  \<^verbatim>\<open>order.sort_by_key(|&i| ts[i])\<close> on \<^verbatim>\<open>0..n\<close>: Rust's \<^verbatim>\<open>sort_by_key\<close> is stable, and so is
  the library's \<open>sort_key\<close>. Timestamps are compared as signed 64-bit integers.
\<close>

definition sort_order :: "i64 list \<Rightarrow> nat list" where
  "sort_order ts = sort_key (\<lambda>i. sint (ts ! i)) [0..<length ts]"

text \<open>\<^verbatim>\<open>order.iter().map(|&i| xs[i]).collect()\<close>\<close>

definition permute :: "nat list \<Rightarrow> 'a list \<Rightarrow> 'a list" where
  "permute ord xs = map (\<lambda>i. xs ! i) ord"

lemma length_permute [simp]: "length (permute ord xs) = length ord"
  by (simp add: permute_def)

lemma length_sort_order [simp]: "length (sort_order ts) = length ts"
  by (simp add: sort_order_def)

lemma set_sort_order [simp]: "set (sort_order ts) = {..<length ts}"
  by (auto simp: sort_order_def)

lemma mset_sort_order: "mset (sort_order ts) = mset [0..<length ts]"
  by (simp add: sort_order_def)

lemma permute_identity [simp]: "permute [0..<length xs] xs = xs"
  by (simp add: permute_def map_nth)

lemma mset_permute:
  assumes "mset ord = mset [0..<length xs]"
  shows "mset (permute ord xs) = mset xs"
proof -
  have "mset (permute ord xs) = image_mset (\<lambda>i. xs ! i) (mset ord)"
    by (simp add: permute_def)
  also have "\<dots> = mset (permute [0..<length xs] xs)"
    by (simp add: assms permute_def del: map_nth)
  finally show ?thesis by simp
qed

lemma sorted_sort_order: "sorted (map sint (permute (sort_order ts) ts))"
proof -
  have "sorted (map (\<lambda>i. sint (ts ! i)) (sort_order ts))"
    unfolding sort_order_def by (rule sorted_sort_key)
  then show ?thesis by (simp add: permute_def comp_def)
qed

lemma permute_zip:
  assumes "set ord \<subseteq> {..<length xs}" "length ys = length xs"
  shows "permute ord (zip xs ys) = zip (permute ord xs) (permute ord ys)"
  using assms by (intro nth_equalityI) (auto simp: permute_def subset_iff)

lemma filter_permute:
  assumes "set ord \<subseteq> {..<length xs}"
  shows "filter P (permute ord xs) = permute (filter (\<lambda>i. P (xs ! i)) ord) xs"
  by (simp add: permute_def filter_map comp_def)

text \<open>Rows with equal keys keep their order: the list of rows at any one key is unchanged.\<close>

lemma sort_order_stable:
  assumes "length rows = length ts"
  shows "filter (\<lambda>(t, r). sint t = k) (permute (sort_order ts) (zip ts rows)) =
         filter (\<lambda>(t, r). sint t = k) (zip ts rows)"
proof -
  let ?z = "zip ts rows" and ?P = "\<lambda>(t, r). sint t = k"
  have key: "filter (\<lambda>i. ?P (?z ! i)) ord = filter (\<lambda>i. k = sint (ts ! i)) ord"
    if "set ord \<subseteq> {..<length ts}" for ord
    using that assms by (intro filter_cong) (auto simp: subset_iff)
  have stable: "filter (\<lambda>i. sint (ts ! i) = k) (sort_order ts) =
      filter (\<lambda>i. sint (ts ! i) = k) [0..<length ts]"
    unfolding sort_order_def by (rule sort_key_stable)
  have "filter ?P (permute (sort_order ts) ?z) = permute (filter (\<lambda>i. ?P (?z ! i)) (sort_order ts)) ?z"
    using assms by (intro filter_permute) auto
  also have "\<dots> = permute (filter (\<lambda>i. ?P (?z ! i)) [0..<length ts]) ?z"
    using stable by (simp add: key eq_commute [of k] atLeast_upt)
  also have "\<dots> = filter ?P (permute [0..<length ts] ?z)"
    using assms by (intro filter_permute [symmetric]) auto
  also have "permute [0..<length ts] ?z = ?z"
    using assms permute_identity [of ?z] by simp
  finally show ?thesis .
qed

lemma sort_key_agree: "(\<And>x. x \<in> set xs \<Longrightarrow> f x = g x) \<Longrightarrow> sort_key f xs = sort_key g xs"
proof (induction xs)
  case (Cons x xs)
  have ins: "insort_key f x ys = insort_key g x ys" if "\<forall>y \<in> insert x (set ys). f y = g y" for ys
    using that by (induction ys) auto
  have "insort_key f x (sort_key g xs) = insort_key g x (sort_key g xs)"
    using Cons.prems by (intro ins) auto
  with Cons show ?case by simp
qed simp

text \<open>The early return of the sorting routines: an order that is already the identity.\<close>

definition is_identity_order :: "nat list \<Rightarrow> bool" where
  "is_identity_order ord = list_all (\<lambda>(pos, i). pos = i) (List.enumerate 0 ord)"

lemma is_identity_order_iff: "is_identity_order ord \<longleftrightarrow> ord = [0..<length ord]"
proof
  assume "is_identity_order ord"
  then have "ord ! i = i" if "i < length ord" for i
    using that by (auto simp: is_identity_order_def list_all_length nth_enumerate_eq)
  then show "ord = [0..<length ord]" by (intro nth_equalityI) auto
next
  assume "ord = [0..<length ord]"
  then have "ord ! i = i" if "i < length ord" for i
    using that by (metis add_0 nth_upt)
  then show "is_identity_order ord"
    by (auto simp: is_identity_order_def list_all_length nth_enumerate_eq)
qed

lemma permute_is_identity:
  "is_identity_order (sort_order ts) \<Longrightarrow> length xs = length ts \<Longrightarrow> permute (sort_order ts) xs = xs"
  by (metis is_identity_order_iff length_sort_order permute_identity)

text \<open>Sums of 64-bit counters below the bound, where they do not wrap around.\<close>

lemma unat_add_of_nat:
  assumes "unat (x :: u64) + n < 2 ^ 64"
  shows "unat (x + of_nat n) = unat x + n"
proof -
  have "x + of_nat n = of_nat (unat x + n)" by simp
  also have "unat (of_nat (unat x + n) :: u64) = unat x + n"
    using assms by (simp only: unat_of_nat) (simp add: take_bit_eq_mod)
  finally show ?thesis .
qed

lemma unat_succ: "unat (x :: u64) < 2 ^ 64 - 1 \<Longrightarrow> unat (x + 1) = Suc (unat x)"
  using unat_add_of_nat [of x 1] by simp

lemma less_succ: "unat (x :: u64) < 2 ^ 64 - 1 \<Longrightarrow> x < x + 1"
  by (simp add: word_less_nat_alt unat_succ)

end
