(* ===== verification/RustStd.thy ===== *)
theory RustStd
  imports Prelude
begin

text \<open>
  What the client uses of Rust's standard library, beyond integers: \<^verbatim>\<open>String\<close> and its UTF-8
  bytes (\<^verbatim>\<open>as_bytes\<close>, \<^verbatim>\<open>String::from_utf8\<close>), \<^verbatim>\<open>str::trim\<close>, the decimal \<^verbatim>\<open>Display\<close> of unsigned
  integers and \<^verbatim>\<open>u16::from_str\<close>. A \<^verbatim>\<open>String\<close> is modelled by its bytes, one \<open>char\<close> per byte, so
  that literals stay readable; that a \<^verbatim>\<open>String\<close> is valid UTF-8 is the predicate \<open>valid_str\<close>.
\<close>

section \<open>Strings and UTF-8\<close>

definition as_bytes :: "string \<Rightarrow> bytes" where
  "as_bytes s = map of_char s"

definition str_of_bytes :: "bytes \<Rightarrow> string" where
  "str_of_bytes bs = map (\<lambda>b. char_of (unat b)) bs"

definition in_range :: "nat \<Rightarrow> nat \<Rightarrow> u8 \<Rightarrow> bool" where
  "in_range lo hi b \<longleftrightarrow> lo \<le> unat b \<and> unat b \<le> hi"

text \<open>Well-formed UTF-8 byte sequences (Unicode table 3-7), the check \<^verbatim>\<open>from_utf8\<close> makes.\<close>

fun utf8_valid :: "bytes \<Rightarrow> bool" where
  "utf8_valid [] = True"
| "utf8_valid (b # bs) =
     (if in_range 0x00 0x7F b then utf8_valid bs
      else if in_range 0xC2 0xDF b then
        (case bs of c1 # r \<Rightarrow> in_range 0x80 0xBF c1 \<and> utf8_valid r | _ \<Rightarrow> False)
      else if in_range 0xE0 0xEF b then
        (case bs of c1 # c2 # r \<Rightarrow>
             in_range (if b = 0xE0 then 0xA0 else 0x80) (if b = 0xED then 0x9F else 0xBF) c1 \<and>
             in_range 0x80 0xBF c2 \<and> utf8_valid r
         | _ \<Rightarrow> False)
      else if in_range 0xF0 0xF4 b then
        (case bs of c1 # c2 # c3 # r \<Rightarrow>
             in_range (if b = 0xF0 then 0x90 else 0x80) (if b = 0xF4 then 0x8F else 0xBF) c1 \<and>
             in_range 0x80 0xBF c2 \<and> in_range 0x80 0xBF c3 \<and> utf8_valid r
         | _ \<Rightarrow> False)
      else False)"

text \<open>\<^verbatim>\<open>String::from_utf8\<close>: \<open>None\<close> is the error, which returns the bytes to the caller.\<close>

definition from_utf8 :: "bytes \<Rightarrow> string option" where
  "from_utf8 bs = (if utf8_valid bs then Some (str_of_bytes bs) else None)"

definition valid_str :: "string \<Rightarrow> bool" where
  "valid_str s = utf8_valid (as_bytes s)"

lemma unat_of_char: "unat (of_char c :: u8) = of_char c"
proof -
  have "(of_char c :: u8) = word_of_nat (of_char c)"
    by (rule of_nat_of_char [symmetric])
  then have "unat (of_char c :: u8) = (of_char c :: nat) mod 256"
    by (simp only: unat_of_nat) simp
  also have "\<dots> = of_char c"
    by simp
  finally show ?thesis .
qed

lemma length_as_bytes [simp, codec_len]: "length (as_bytes s) = length s"
  by (simp add: as_bytes_def)

lemma str_of_as_bytes [simp]: "str_of_bytes (as_bytes s) = s"
  by (simp add: as_bytes_def str_of_bytes_def unat_of_char comp_def)

lemma as_bytes_of_str [simp]: "as_bytes (str_of_bytes bs) = bs"
proof -
  have "(of_char (char_of (unat b)) :: u8) = b" for b :: u8
  proof -
    have "unat b < 256" using unsigned_less [of b, where 'a = nat] by simp
    then have "unat (of_char (char_of (unat b)) :: u8) = unat b"
      by (simp only: unat_of_char of_char_of) simp
    then show ?thesis by (rule unsigned_word_eqI)
  qed
  then show ?thesis by (simp add: as_bytes_def str_of_bytes_def comp_def)
qed

lemma from_utf8_as_bytes: "valid_str s \<Longrightarrow> from_utf8 (as_bytes s) = Some s"
  by (simp add: from_utf8_def valid_str_def)

lemma from_utf8_Some: "from_utf8 bs = Some s \<Longrightarrow> valid_str s \<and> as_bytes s = bs"
  by (auto simp: from_utf8_def valid_str_def split: if_splits)

section \<open>Trimming\<close>

text \<open>The UTF-8 encodings of the characters with the Unicode property White\_Space.\<close>

definition white_space :: "string list" where
  "white_space =
     [[CHR 0x09], [CHR 0x0A], [CHR 0x0B], [CHR 0x0C], [CHR 0x0D], [CHR 0x20],
      [CHR 0xC2, CHR 0x85], [CHR 0xC2, CHR 0xA0], [CHR 0xE1, CHR 0x9A, CHR 0x80]] @
     map (\<lambda>n. [CHR 0xE2, CHR 0x80, char_of n]) [0x80..<0x8B] @
     [[CHR 0xE2, CHR 0x80, CHR 0xA8], [CHR 0xE2, CHR 0x80, CHR 0xA9],
      [CHR 0xE2, CHR 0x80, CHR 0xAF], [CHR 0xE2, CHR 0x81, CHR 0x9F],
      [CHR 0xE3, CHR 0x80, CHR 0x80]]"

definition has_prefix :: "string \<Rightarrow> string \<Rightarrow> bool" where
  "has_prefix w s \<longleftrightarrow> w \<noteq> [] \<and> take (length w) s = w"

lemma has_prefix_shorter: "has_prefix w s \<Longrightarrow> length s - length w < length s"
  by (cases s) (auto simp: has_prefix_def)

function strip_front :: "string list \<Rightarrow> string \<Rightarrow> string" where
  "strip_front ws s =
     (case find (\<lambda>w. has_prefix w s) ws of
        None \<Rightarrow> s
      | Some w \<Rightarrow> strip_front ws (drop (length w) s))"
  by pat_completeness auto
termination
  by (relation "measure (\<lambda>(ws, s). length s)")
    (auto simp: find_Some_iff dest!: has_prefix_shorter)

declare strip_front.simps [simp del]

definition trim :: "string \<Rightarrow> string" where
  "trim s = rev (strip_front (map rev white_space) (rev (strip_front white_space s)))"

lemma strip_front_fix:
  assumes "\<And>w. w \<in> set ws \<Longrightarrow> \<not> has_prefix w s"
  shows "strip_front ws s = s"
proof -
  have "find (\<lambda>w. has_prefix w s) ws = None" using assms by (simp add: find_None_iff)
  then show ?thesis by (subst strip_front.simps) simp
qed

text \<open>A text that starts and ends with characters no white-space encoding starts or ends with.\<close>

definition trimmed :: "string \<Rightarrow> bool" where
  "trimmed s \<longleftrightarrow> (\<forall>w \<in> set white_space. \<not> has_prefix w s \<and> \<not> has_prefix (rev w) (rev s))"

lemma trim_trimmed: "trimmed s \<Longrightarrow> trim s = s"
proof -
  assume t: "trimmed s"
  then have "strip_front white_space s = s"
    by (intro strip_front_fix) (auto simp: trimmed_def)
  moreover from t have "strip_front (map rev white_space) (rev s) = rev s"
    by (intro strip_front_fix) (auto simp: trimmed_def)
  ultimately show ?thesis by (simp add: trim_def)
qed

section \<open>Decimal numbers\<close>

definition digit_char :: "nat \<Rightarrow> char" where
  "digit_char d = char_of (48 + d)"

definition is_digit :: "char \<Rightarrow> bool" where
  "is_digit c \<longleftrightarrow> 48 \<le> (of_char c :: nat) \<and> (of_char c :: nat) \<le> 57"

text \<open>\<^verbatim>\<open>Display\<close> of an unsigned integer.\<close>

fun show_nat :: "nat \<Rightarrow> string" where
  "show_nat n = (if n < 10 then [digit_char n] else show_nat (n div 10) @ [digit_char (n mod 10)])"

declare show_nat.simps [simp del]

definition digits_val :: "nat \<Rightarrow> string \<Rightarrow> nat" where
  "digits_val acc s = foldl (\<lambda>a c. a * 10 + (of_char c - 48)) acc s"

text \<open>
  \<^verbatim>\<open>u16::from_str\<close>: an optional \<open>+\<close>, then at least one ASCII digit and nothing else, value
  at most 65535.
\<close>

definition parse_u16 :: "string \<Rightarrow> u16 option" where
  "parse_u16 s =
     (let d = (case s of [] \<Rightarrow> [] | c # r \<Rightarrow> if c = CHR ''+'' then r else s) in
      if d = [] \<or> \<not> list_all is_digit d then None
      else let n = digits_val 0 d in if n \<le> 65535 then Some (word_of_nat n) else None)"

lemma of_char_digit: "d < 10 \<Longrightarrow> (of_char (digit_char d) :: nat) = 48 + d"
  by (simp add: digit_char_def)

lemma is_digit_digit_char: "d < 10 \<Longrightarrow> is_digit (digit_char d)"
  by (simp add: is_digit_def of_char_digit)

lemma show_nat_digits: "list_all is_digit (show_nat n)"
proof (induction n rule: show_nat.induct)
  case (1 n)
  then show ?case
    by (subst show_nat.simps) (auto simp: is_digit_digit_char)
qed

lemma show_nat_nonempty: "show_nat n \<noteq> []"
  by (subst show_nat.simps) simp

lemma digits_val_show_nat: "digits_val 0 (show_nat n) = n"
proof (induction n rule: show_nat.induct)
  case (1 n)
  show ?case
  proof (cases "n < 10")
    case True
    then show ?thesis by (subst show_nat.simps) (simp add: digits_val_def of_char_digit)
  next
    case False
    then have "digits_val 0 (show_nat (n div 10)) = n div 10" by (rule "1.IH")
    with False show ?thesis
      by (subst show_nat.simps) (simp add: digits_val_def of_char_digit)
  qed
qed

lemma parse_u16_show: "parse_u16 (show_nat (unat (p :: u16))) = Some p"
proof -
  have plus: "\<not> is_digit (CHR ''+'')" by (simp add: is_digit_def)
  have "unat p \<le> 65535" using unsigned_less [of p, where 'a = nat] by simp
  moreover obtain c r where s: "show_nat (unat p) = c # r"
    using show_nat_nonempty [of "unat p"] by (cases "show_nat (unat p)") auto
  moreover have "c \<noteq> CHR ''+''"
    using show_nat_digits [of "unat p"] plus unfolding s by auto
  ultimately show ?thesis
    using show_nat_digits [of "unat p"] digits_val_show_nat [of "unat p"]
    by (auto simp: parse_u16_def Let_def)
qed

lemma parse_u16_bounds: "parse_u16 s = Some p \<Longrightarrow> \<exists>n \<le> 65535. p = word_of_nat n"
  by (auto simp: parse_u16_def Let_def split: if_splits)

end
