(* ===== verification/DataTypes.thy ===== *)
theory DataTypes
  imports RustStd
begin

text \<open>
  The data model of \<^verbatim>\<open>src/data/mod.rs\<close> and \<^verbatim>\<open>src/data/value.rs\<close>: the TSFile type codes, the
  table-model column categories and the dynamically typed cell value.
\<close>

section \<open>Type codes\<close>

datatype ts_data_type =
    TBoolean | TInt32 | TInt64 | TFloat | TDouble | TText | TVector | TUnknown
  | TTimestamp | TDate | TBlob | TString

fun type_code_of :: "ts_data_type \<Rightarrow> i32" where
  "type_code_of TBoolean = 0"
| "type_code_of TInt32 = 1"
| "type_code_of TInt64 = 2"
| "type_code_of TFloat = 3"
| "type_code_of TDouble = 4"
| "type_code_of TText = 5"
| "type_code_of TVector = 6"
| "type_code_of TUnknown = 7"
| "type_code_of TTimestamp = 8"
| "type_code_of TDate = 9"
| "type_code_of TBlob = 10"
| "type_code_of TString = 11"

definition from_code :: "u8 \<Rightarrow> ts_data_type option" where
  "from_code c =
     (if c = 0 then Some TBoolean
      else if c = 1 then Some TInt32
      else if c = 2 then Some TInt64
      else if c = 3 then Some TFloat
      else if c = 4 then Some TDouble
      else if c = 5 then Some TText
      else if c = 6 then Some TVector
      else if c = 7 then Some TUnknown
      else if c = 8 then Some TTimestamp
      else if c = 9 then Some TDate
      else if c = 10 then Some TBlob
      else if c = 11 then Some TString
      else None)"

datatype column_category = Tag | Field | Attribute

fun category_code :: "column_category \<Rightarrow> i8" where
  "category_code Tag = 0"
| "category_code Field = 1"
| "category_code Attribute = 2"

section \<open>Cell values\<close>

datatype ts_value =
    VBoolean bool
  | VInt32 i32
  | VInt64 i64
  | VFloat f32
  | VDouble f64
  | VText string
  | VTimestamp i64
  | VDate i32
  | VBlob bytes
  | VString string
  | VNull

fun data_type :: "ts_value \<Rightarrow> ts_data_type option" where
  "data_type (VBoolean _) = Some TBoolean"
| "data_type (VInt32 _) = Some TInt32"
| "data_type (VInt64 _) = Some TInt64"
| "data_type (VFloat _) = Some TFloat"
| "data_type (VDouble _) = Some TDouble"
| "data_type (VText _) = Some TText"
| "data_type (VTimestamp _) = Some TTimestamp"
| "data_type (VDate _) = Some TDate"
| "data_type (VBlob _) = Some TBlob"
| "data_type (VString _) = Some TString"
| "data_type VNull = None"

definition type_code :: "ts_value \<Rightarrow> i32 option" where
  "type_code v = map_option type_code_of (data_type v)"

fun is_null :: "ts_value \<Rightarrow> bool" where
  "is_null VNull = True"
| "is_null _ = False"

text \<open>The type invariant of a value: its strings are Rust strings.\<close>

fun wf_value :: "ts_value \<Rightarrow> bool" where
  "wf_value (VText s) = valid_str s"
| "wf_value (VString s) = valid_str s"
| "wf_value _ = True"

section \<open>Facts\<close>

lemma from_code_code: "from_code (ucast (type_code_of ty)) = Some ty"
  by (cases ty) (simp_all add: from_code_def)

lemma code_from_code: "from_code c = Some ty \<Longrightarrow> type_code_of ty = ucast c"
  by (auto simp: from_code_def split: if_splits)

lemma type_code_of_less: "unat (type_code_of ty) < 12"
  by (cases ty) simp_all

lemma type_code_of_inject: "type_code_of a = type_code_of b \<longleftrightarrow> a = b"
  by (metis from_code_code option.inject)

lemma category_code_inject: "category_code a = category_code b \<longleftrightarrow> a = b"
  by (cases a; cases b) simp_all

lemma data_type_None: "data_type v = None \<longleftrightarrow> v = VNull"
  by (cases v) auto

lemma is_null_iff: "is_null v \<longleftrightarrow> v = VNull"
  by (cases v) auto

lemma data_type_insertable: "data_type v = Some ty \<Longrightarrow> ty \<noteq> TVector \<and> ty \<noteq> TUnknown"
  by (cases v) auto

end
