(* ===== verification/Errors.thy ===== *)
theory Errors
  imports DataTypes
begin

text \<open>
  The error type of \<^verbatim>\<open>src/error.rs\<close>. A client or decode error carries a message that the code
  formats from a few values; the model keeps the values and leaves out the wording, one
  constructor per \<^verbatim>\<open>format!\<close> of the sources. \<^verbatim>\<open>thrift::Error\<close> is the thrift crate's enum.
\<close>

datatype thrift_error =
    TransportError string
  | ProtocolError string
  | ApplicationError string
  | UserError string

datatype client_msg =
    MeasurementTypeCount nat nat
  | CategoryTypeCount nat nat
  | RowArity nat nat
  | ColumnTypeMismatch nat string ts_data_type ts_value
  | NodeUrlNoPort string
  | NodeUrlBadPort string string
  | NodeUrlEmptyHost string
  | UnresolvedEndpoint string u16
  | InvalidServerName string
  | CannotReadFile string string
  | MutualTlsIncomplete
  | SessionAlreadyOpen
  | NoEndpoints
  | MissingSessionId
  | ReconnectFailed
  | SessionNotOpen
  | MissingQueryId
  | NoTablets
  | TableModelTablet string
  | AllValuesNull
  | RecordArity nat nat
  | RecordsLengthMismatch nat nat nat nat
  | OneDeviceLengthMismatch nat nat nat
  | RequiresTableTablet
  | PoolMinMax nat nat
  | PoolClosed
  | PoolExhausted nat nat nat

datatype decode_msg =
    Truncated nat nat nat
  | NegativeColumnCount i32
  | UnknownTypeCode u8
  | NegativePositionCount i32
  | NonInt64Time ts_value
  | NestedRle
  | EmptyRle
  | IncompatibleInt32 ts_data_type
  | IncompatibleInt64 ts_data_type
  | NegativeBinaryLength i32
  | IncompatibleBinary ts_data_type
  | UnknownEncoding u8
  | TruncatedBits
  | InvalidUtf8 bytes
  | IndexMapShort nat nat
  | IndexMapRange i32 nat

datatype error =
    Thrift thrift_error
  | Server i32 string
  | Client client_msg
  | Decode decode_msg
  | Tls string

type_synonym 'a result = "error + 'a"

fun is_thrift :: "error \<Rightarrow> bool" where
  "is_thrift (Thrift _) = True"
| "is_thrift _ = False"

fun is_decode :: "error \<Rightarrow> bool" where
  "is_decode (Decode _) = True"
| "is_decode _ = False"

text \<open>\<^verbatim>\<open>impl From<thrift::Error> for Error\<close>: what \<^verbatim>\<open>?\<close> does with a transport error.\<close>

definition lift_thrift :: "thrift_error + 'a \<Rightarrow> 'a result" where
  "lift_thrift r = map_sum Thrift id r"

lemma lift_thrift_simps [simp]:
  "lift_thrift (Inl e) = Inl (Thrift e)"
  "lift_thrift (Inr x) = Inr x"
  by (simp_all add: lift_thrift_def)

end
