(* ===== verification/Bitmap.thy ===== *)
theory Bitmap
  imports RustStd
begin

unbundle bit_operations_syntax

text \<open>
  The two bit conventions of \<^verbatim>\<open>src/data/bitmap.rs\<close>: \<open>pack_bits_lsb_first\<close> writes the null
  bitmaps of tablets, \<open>unpack_bits_msb_first\<close> reads the null indicators and the boolean columns
  of query results. Each is characterised bit by bit.
\<close>

text \<open>\<^verbatim>\<open>usize::div_ceil\<close>\<close>

definition div_ceil :: "nat \<Rightarrow> nat \<Rightarrow> nat" where
  "div_ceil n d = n div d + (if n mod d = 0 then 0 else 1)"

text \<open>The loop \<^verbatim>\<open>for (i, &b) in bits.iter().enumerate()\<close>.\<close>

fun pack_loop :: "nat \<Rightarrow> bool list \<Rightarrow> bytes \<Rightarrow> bytes" where
  "pack_loop i [] out = out"
| "pack_loop i (b # bs) out =
     pack_loop (Suc i) bs
       (if b then out[i div 8 := out ! (i div 8) OR push_bit (i mod 8) 1] else out)"

definition pack_bits_lsb_first :: "bool list \<Rightarrow> bytes" where
  "pack_bits_lsb_first bits = pack_loop 0 bits (replicate (div_ceil (length bits) 8) 0)"

definition unpack_bits_msb_first :: "bytes \<Rightarrow> nat \<Rightarrow> bool list option" where
  "unpack_bits_msb_first bs n =
     (if length bs < div_ceil n 8 then None
      else Some (map (\<lambda>i. bs ! (i div 8) AND drop_bit (i mod 8) 0x80 \<noteq> 0) [0..<n]))"

section \<open>Writing: bit \<open>j\<close> of the packed bytes is element \<open>j\<close> of the input\<close>

lemma div_ceil_8_bound: "n \<le> 8 * div_ceil n 8"
  by (auto simp: div_ceil_def)

lemma div_ceil_8_less: "j < n \<Longrightarrow> j div 8 < div_ceil n 8"
  by (auto simp: div_ceil_def)

lemma div_ceil_8_le: "div_ceil n 8 \<le> n div 8 + 1"
  by (simp add: div_ceil_def)

lemma bit_byte_one_iff: "bit (push_bit m (1 :: u8)) n \<longleftrightarrow> n = m \<and> m < 8"
  by (auto simp: bit_simps)

lemma bit_set_step:
  fixes out :: bytes
  assumes "i div 8 < length out"
  shows "bit (out[i div 8 := out ! (i div 8) OR push_bit (i mod 8) 1] ! (j div 8)) (j mod 8) \<longleftrightarrow>
         bit (out ! (j div 8)) (j mod 8) \<or> i = j"
proof (cases "i div 8 = j div 8")
  case True
  then have "j mod 8 = i mod 8 \<longleftrightarrow> i = j" by (metis div_mult_mod_eq)
  with True assms show ?thesis
    by (auto simp: bit_or_iff bit_byte_one_iff simp del: push_bit_of_1)
next
  case False
  then show ?thesis by auto
qed

lemma length_pack_loop [simp]: "length (pack_loop i bs out) = length out"
  by (induction i bs out rule: pack_loop.induct) auto

lemma pack_loop_bit:
  assumes "i + length bs \<le> 8 * length out"
  shows "bit (pack_loop i bs out ! (j div 8)) (j mod 8) \<longleftrightarrow>
         bit (out ! (j div 8)) (j mod 8) \<or> (i \<le> j \<and> j < i + length bs \<and> bs ! (j - i))"
  using assms
proof (induction i bs out rule: pack_loop.induct)
  case (1 i out)
  then show ?case by auto
next
  case (2 i b bs out)
  have len: "i div 8 < length out" using "2.prems" by simp
  have split: "(i \<le> j \<and> j < i + length (b # bs) \<and> (b # bs) ! (j - i)) \<longleftrightarrow>
      (b \<and> i = j) \<or> (Suc i \<le> j \<and> j < Suc i + length bs \<and> bs ! (j - Suc i))"
    by (auto simp: nth_Cons')
  show ?case
    unfolding split using "2.IH" "2.prems" bit_set_step [OF len] by (cases b) auto
qed

lemma length_pack_bits [simp, codec_len]:
  "length (pack_bits_lsb_first bits) = div_ceil (length bits) 8"
  by (simp add: pack_bits_lsb_first_def)

lemma pack_bits_bit:
  assumes "j < 8 * div_ceil (length bits) 8"
  shows "bit (pack_bits_lsb_first bits ! (j div 8)) (j mod 8) \<longleftrightarrow> j < length bits \<and> bits ! j"
proof -
  have "j div 8 < div_ceil (length bits) 8" using assms by simp
  then show ?thesis
    unfolding pack_bits_lsb_first_def
    by (subst pack_loop_bit) (use div_ceil_8_bound in auto)
qed

section \<open>Reading: element \<open>i\<close> of the result is bit \<open>7 - i mod 8\<close> of byte \<open>i div 8\<close>\<close>

lemma and_mask_nonzero:
  assumes "k < 8"
  shows "b AND drop_bit k 0x80 \<noteq> 0 \<longleftrightarrow> bit (b :: u8) (7 - k)"
proof -
  have mask: "bit (drop_bit k 0x80 :: u8) n \<longleftrightarrow> n = 7 - k" for n
  proof -
    have "(0x80 :: u8) = push_bit 7 1" by simp
    then have "bit (0x80 :: u8) m \<longleftrightarrow> m = 7" for m
      by (simp only: bit_byte_one_iff) simp
    then have "bit (drop_bit k 0x80 :: u8) n \<longleftrightarrow> k + n = 7" by (simp add: bit_drop_bit_eq)
    then show ?thesis using assms by auto
  qed
  have "b AND drop_bit k 0x80 \<noteq> 0 \<longleftrightarrow> (\<exists>n. bit (b AND drop_bit k 0x80) n)"
    using bit_eqI [of "b AND drop_bit k 0x80" 0] by auto
  then show ?thesis by (simp add: bit_and_iff mask)
qed

lemma unpack_bits_eq:
  "unpack_bits_msb_first bs n =
     (if length bs < div_ceil n 8 then None
      else Some (map (\<lambda>i. bit (bs ! (i div 8)) (7 - i mod 8)) [0..<n]))"
proof -
  have "(\<lambda>i. bs ! (i div 8) AND drop_bit (i mod 8) 0x80 \<noteq> 0) =
      (\<lambda>i. bit (bs ! (i div 8)) (7 - i mod 8))"
    by (rule ext) (rule and_mask_nonzero, simp)
  then show ?thesis by (simp only: unpack_bits_msb_first_def)
qed

lemma unpack_bits_length: "unpack_bits_msb_first bs n = Some bits \<Longrightarrow> length bits = n"
  by (auto simp: unpack_bits_msb_first_def split: if_splits)

lemma unpack_bits_None: "unpack_bits_msb_first bs n = None \<longleftrightarrow> length bs < div_ceil n 8"
  by (simp add: unpack_bits_msb_first_def)

section \<open>Properties\<close>

text \<open>
  \<^verbatim>\<open>pack_bits_lsb_first\<close> writes one byte per eight bits, rounded up, and bit \<open>j\<close> of the output
  (least significant first) is set exactly when element \<open>j\<close> of the input is; padding bits are clear.
\<close>

lemma pack_bits_spec:
  "length (pack_bits_lsb_first bits) = div_ceil (length bits) 8 \<and>
   (j < 8 * div_ceil (length bits) 8 \<longrightarrow>
      bit (pack_bits_lsb_first bits ! (j div 8)) (j mod 8) = (j < length bits \<and> bits ! j))"
  by (simp add: pack_bits_bit)

text \<open>
  \<^verbatim>\<open>unpack_bits_msb_first\<close> returns \<^verbatim>\<open>None\<close> exactly when the buffer is too short for the count,
  and otherwise exactly the first \<open>n\<close> bits, most significant first.
\<close>

lemma unpack_bits_spec:
  "unpack_bits_msb_first bs n =
     (if 8 * length bs < n then None
      else Some (map (\<lambda>i. bit (bs ! (i div 8)) (7 - i mod 8)) [0..<n]))"
proof -
  have "length bs < div_ceil n 8 \<longleftrightarrow> 8 * length bs < n"
  proof (cases "n mod 8 = 0")
    case False
    have "n = n div 8 * 8 + n mod 8" "n mod 8 < 8" by simp_all
    moreover have "div_ceil n 8 = Suc (n div 8)" using False by (simp add: div_ceil_def)
    ultimately show ?thesis using False by (intro iffI) linarith+
  qed (auto simp: div_ceil_def)
  then show ?thesis by (simp add: unpack_bits_eq)
qed

end
