(* ===== verification/Codec.thy ===== *)
theory Codec
  imports RustStd
begin

text \<open>
  The interface every wire format of the client meets: a writer, and a reader that takes what
  the writer produced off the front of its input and hands the rest on. From this one law come
  unique readability and the round trip of sequences. The readers here are the reference
  decoders of the formats (what the other side of the wire does); the client's own block
  decoder is in \<open>TsBlock\<close>.
\<close>

section \<open>The interface\<close>

fun dec_many :: "(bytes \<Rightarrow> ('a \<times> bytes) option) \<Rightarrow> nat \<Rightarrow> bytes \<Rightarrow> ('a list \<times> bytes) option" where
  "dec_many dec 0 bs = Some ([], bs)"
| "dec_many dec (Suc n) bs =
     (case dec bs of None \<Rightarrow> None
      | Some (x, r) \<Rightarrow> map_option (apfst (Cons x)) (dec_many dec n r))"

locale codec =
  fixes enc :: "'a \<Rightarrow> bytes"
    and dec :: "bytes \<Rightarrow> ('a \<times> bytes) option"
    and ok :: "'a \<Rightarrow> bool"
  assumes dec_enc: "ok x \<Longrightarrow> dec (enc x @ rest) = Some (x, rest)"
begin

lemma unique_readable:
  "ok x \<Longrightarrow> ok y \<Longrightarrow> enc x @ r = enc y @ s \<Longrightarrow> x = y \<and> r = s"
  by (metis dec_enc option.inject prod.inject)

lemma enc_inject: "ok x \<Longrightarrow> ok y \<Longrightarrow> enc x = enc y \<Longrightarrow> x = y"
  using unique_readable [of x y "[]" "[]"] by simp

lemma dec_many_enc:
  "list_all ok xs \<Longrightarrow> dec_many dec (length xs) (concat (map enc xs) @ rest) = Some (xs, rest)"
  by (induction xs) (auto simp: dec_enc)

end

section \<open>Fixed-width big-endian integers\<close>

definition read_be :: "nat \<Rightarrow> bytes \<Rightarrow> ('a::len word \<times> bytes) option" where
  "read_be n bs = (if length bs < n then None else Some (from_be (take n bs), drop n bs))"

interpretation be32: codec "to_be 4 :: i32 \<Rightarrow> bytes" "read_be 4" "\<lambda>_. True"
  by unfold_locales (simp add: read_be_def)

interpretation be64: codec "to_be 8 :: i64 \<Rightarrow> bytes" "read_be 8" "\<lambda>_. True"
  by unfold_locales (simp add: read_be_def)

section \<open>Length-prefixed byte strings\<close>

text \<open>Big-endian signed 32-bit length, then the bytes; a negative length is refused.\<close>

definition read_binary :: "bytes \<Rightarrow> (bytes \<times> bytes) option" where
  "read_binary bs =
     (case read_be 4 bs of None \<Rightarrow> None
      | Some (len :: i32, r) \<Rightarrow>
          if sint len < 0 \<or> length r < nat (sint len) then None
          else Some (take (nat (sint len)) r, drop (nat (sint len)) r))"

end
