(* ===== verification/Tablet.thy ===== *)
theory Tablet
  imports Errors Bitmap Codec
begin

text \<open>
  The tablet of \<^verbatim>\<open>src/data/tablet.rs\<close>: a column-major batch of rows, its constructors,
  \<^verbatim>\<open>add_row\<close>, the stable sort by timestamp and the two serializers of \<^verbatim>\<open>insertTablet\<close>.
  Abstractly a tablet is its list of rows (\<open>tablet_rows\<close>): \<^verbatim>\<open>add_row\<close> appends and
  \<^verbatim>\<open>sort_by_timestamp\<close> is a stable sort of that list. The value buffer is read back by the
  reference decoder \<open>decode_values\<close>.
\<close>

section \<open>State and operations\<close>

record tablet =
  tb_target :: string
  tb_measurements :: "string list"
  tb_types :: "ts_data_type list"
  tb_timestamps :: "i64 list"
  tb_values :: "ts_value option list list"
  tb_categories :: "column_category list option"
  tb_aligned :: bool

definition tablet_new :: "string \<Rightarrow> string list \<Rightarrow> ts_data_type list \<Rightarrow> tablet result" where
  "tablet_new device_id ms tys =
     (if length ms \<noteq> length tys then Inl (Client (MeasurementTypeCount (length ms) (length tys)))
      else Inr \<lparr>tb_target = device_id, tb_measurements = ms, tb_types = tys, tb_timestamps = [],
                tb_values = replicate (length ms) [], tb_categories = None, tb_aligned = False\<rparr>)"

definition tablet_new_aligned :: "string \<Rightarrow> string list \<Rightarrow> ts_data_type list \<Rightarrow> tablet result" where
  "tablet_new_aligned device_id ms tys =
     bindr (tablet_new device_id ms tys) (\<lambda>t. Inr (t\<lparr>tb_aligned := True\<rparr>))"

definition tablet_new_table ::
    "string \<Rightarrow> string list \<Rightarrow> ts_data_type list \<Rightarrow> column_category list \<Rightarrow> tablet result" where
  "tablet_new_table table_name column_names tys cats =
     (if length cats \<noteq> length tys then Inl (Client (CategoryTypeCount (length cats) (length tys)))
      else bindr (tablet_new table_name column_names tys)
             (\<lambda>t. Inr (t\<lparr>tb_categories := Some cats\<rparr>)))"

definition row_count :: "tablet \<Rightarrow> nat" where
  "row_count t = length (tb_timestamps t)"

definition is_table_model :: "tablet \<Rightarrow> bool" where
  "is_table_model t \<longleftrightarrow> tb_categories t \<noteq> None"

text \<open>
  \<^verbatim>\<open>timestamps_mut\<close> lends the slice of timestamps: a write through it replaces one element, an
  index out of range panics (\<open>None\<close>).
\<close>

definition timestamps_mut :: "tablet \<Rightarrow> nat \<Rightarrow> i64 \<Rightarrow> tablet option" where
  "timestamps_mut t i ts =
     (if i < length (tb_timestamps t)
      then Some (t\<lparr>tb_timestamps := (tb_timestamps t)[i := ts]\<rparr>) else None)"

fun check_cells :: "tablet \<Rightarrow> nat \<Rightarrow> ts_value option list \<Rightarrow> unit result" where
  "check_cells t i [] = Inr ()"
| "check_cells t i (cell # cells) =
     (case cell of
        None \<Rightarrow> check_cells t (Suc i) cells
      | Some VNull \<Rightarrow> check_cells t (Suc i) cells
      | Some v \<Rightarrow>
          if data_type v = Some (tb_types t ! i) then check_cells t (Suc i) cells
          else Inl (Client (ColumnTypeMismatch i (tb_measurements t ! i) (tb_types t ! i) v)))"

text \<open>\<^verbatim>\<open>cell.filter(|v| !v.is_null())\<close>\<close>

definition norm_cell :: "ts_value option \<Rightarrow> ts_value option" where
  "norm_cell cell = (case cell of Some v \<Rightarrow> if is_null v then None else Some v | None \<Rightarrow> None)"

text \<open>\<^verbatim>\<open>for (col, cell) in self.values.iter_mut().zip(row)\<close>\<close>

fun push_row :: "ts_value option list list \<Rightarrow> ts_value option list \<Rightarrow> ts_value option list list" where
  "push_row (col # cols) (cell # cells) = (col @ [norm_cell cell]) # push_row cols cells"
| "push_row cols _ = cols"

definition add_row :: "tablet \<Rightarrow> i64 \<Rightarrow> ts_value option list \<Rightarrow> tablet result" where
  "add_row t ts row =
     (if length row \<noteq> length (tb_types t)
      then Inl (Client (RowArity (length row) (length (tb_types t))))
      else bindr (check_cells t 0 row)
             (\<lambda>_. Inr (t\<lparr>tb_timestamps := tb_timestamps t @ [ts],
                        tb_values := push_row (tb_values t) row\<rparr>)))"

definition sort_by_timestamp :: "tablet \<Rightarrow> tablet" where
  "sort_by_timestamp t =
     (let ord = sort_order (tb_timestamps t) in
      if is_identity_order ord then t
      else t\<lparr>tb_timestamps := permute ord (tb_timestamps t),
             tb_values := map (permute ord) (tb_values t)\<rparr>)"

text \<open>\<^verbatim>\<open>write_binary\<close>: the length is cast with \<^verbatim>\<open>as i32\<close>, which keeps the low 32 bits.\<close>

definition write_binary :: "bytes \<Rightarrow> bytes" where
  "write_binary bs = to_be 4 (word_of_nat (length bs) :: i32) @ bs"

definition i32_min :: i32 where "i32_min = 0x80000000"

definition i64_min :: i64 where "i64_min = 0x8000000000000000"

text \<open>The bit patterns of \<^verbatim>\<open>f32::MIN\<close> and \<^verbatim>\<open>f64::MIN\<close> (the most negative finite numbers).\<close>

definition f32_min :: f32 where "f32_min = 0xFF7FFFFF"

definition f64_min :: f64 where "f64_min = 0xFFEFFFFFFFFFFFFF"

definition bool_byte :: "bool \<Rightarrow> u8" where
  "bool_byte b = (if b then 1 else 0)"

text \<open>One cell as bytes; \<open>None\<close> is the \<^verbatim>\<open>unreachable!\<close> panic.\<close>

definition write_cell :: "ts_data_type \<Rightarrow> ts_value option \<Rightarrow> bytes option" where
  "write_cell ty cell =
     (case ty of
        TBoolean \<Rightarrow> (case cell of Some (VBoolean b) \<Rightarrow> Some [bool_byte b] | None \<Rightarrow> Some [0] | _ \<Rightarrow> None)
      | TInt32 \<Rightarrow> (case cell of Some (VInt32 v) \<Rightarrow> Some (to_be 4 v)
                   | None \<Rightarrow> Some (to_be 4 i32_min) | _ \<Rightarrow> None)
      | TInt64 \<Rightarrow> (case cell of Some (VInt64 v) \<Rightarrow> Some (to_be 8 v)
                   | None \<Rightarrow> Some (to_be 8 i64_min) | _ \<Rightarrow> None)
      | TTimestamp \<Rightarrow> (case cell of Some (VTimestamp v) \<Rightarrow> Some (to_be 8 v)
                   | None \<Rightarrow> Some (to_be 8 i64_min) | _ \<Rightarrow> None)
      | TFloat \<Rightarrow> (case cell of Some (VFloat v) \<Rightarrow> Some (to_be 4 v)
                   | None \<Rightarrow> Some (to_be 4 f32_min) | _ \<Rightarrow> None)
      | TDouble \<Rightarrow> (case cell of Some (VDouble v) \<Rightarrow> Some (to_be 8 v)
                   | None \<Rightarrow> Some (to_be 8 f64_min) | _ \<Rightarrow> None)
      | TText \<Rightarrow> (case cell of Some (VText s) \<Rightarrow> Some (write_binary (as_bytes s))
                   | None \<Rightarrow> Some (write_binary []) | _ \<Rightarrow> None)
      | TString \<Rightarrow> (case cell of Some (VString s) \<Rightarrow> Some (write_binary (as_bytes s))
                   | None \<Rightarrow> Some (write_binary []) | _ \<Rightarrow> None)
      | TBlob \<Rightarrow> (case cell of Some (VBlob b) \<Rightarrow> Some (write_binary b)
                   | None \<Rightarrow> Some (write_binary []) | _ \<Rightarrow> None)
      | TDate \<Rightarrow> (case cell of Some (VDate v) \<Rightarrow> Some (to_be 4 v)
                   | None \<Rightarrow> Some (to_be 4 (10000101 :: i32)) | _ \<Rightarrow> None)
      | TVector \<Rightarrow> None
      | TUnknown \<Rightarrow> None)"

text \<open>\<^verbatim>\<open>Vec::resize\<close>\<close>

definition vec_resize :: "nat \<Rightarrow> 'a \<Rightarrow> 'a list \<Rightarrow> 'a list" where
  "vec_resize n x xs = take n xs @ replicate (n - length xs) x"

text \<open>The trailing bitmap entry of one column.\<close>

definition null_section :: "nat \<Rightarrow> ts_value option list \<Rightarrow> bytes" where
  "null_section rows col =
     (let nulls = map Option.is_none col in
      if list_ex (\<lambda>n. n) nulls
      then 1 # vec_resize (rows div 8 + 1) 0 (pack_bits_lsb_first nulls)
      else [0])"

definition write_columns :: "ts_value option list list \<Rightarrow> ts_data_type list \<Rightarrow> bytes option" where
  "write_columns cols tys = concat_opt (map (\<lambda>(col, ty). concat_opt (map (write_cell ty) col)) (zip cols tys))"

definition serialize_values :: "tablet \<Rightarrow> bytes option \<times> tablet" where
  "serialize_values t =
     (let t' = sort_by_timestamp t; rows = row_count t' in
      (map_option (\<lambda>body. body @ concat (map (null_section rows) (tb_values t')))
         (write_columns (tb_values t') (tb_types t')), t'))"

definition serialize_timestamps :: "tablet \<Rightarrow> bytes \<times> tablet" where
  "serialize_timestamps t =
     (let t' = sort_by_timestamp t in (concat (map (to_be 8) (tb_timestamps t')), t'))"

section \<open>Well-formed tablets\<close>

definition insertable :: "ts_data_type \<Rightarrow> bool" where
  "insertable ty \<longleftrightarrow> ty \<noteq> TVector \<and> ty \<noteq> TUnknown"

definition cell_ok :: "ts_data_type \<Rightarrow> ts_value option \<Rightarrow> bool" where
  "cell_ok ty cell = (case cell of None \<Rightarrow> True | Some v \<Rightarrow> data_type v = Some ty)"

text \<open>
  The invariant: as many measurements and columns as types, every column as long as the
  timestamps, every cell of its column's type, and a table-model tablet has one category per
  column and is not aligned.
\<close>

fun cats_ok :: "column_category list option \<Rightarrow> nat \<Rightarrow> bool \<Rightarrow> bool" where
  "cats_ok None n aligned = True"
| "cats_ok (Some cats) n aligned = (length cats = n \<and> \<not> aligned)"

definition wf_tablet :: "tablet \<Rightarrow> bool" where
  "wf_tablet t \<longleftrightarrow>
     length (tb_measurements t) = length (tb_types t) \<and>
     list_all2 (\<lambda>ty col. length col = row_count t \<and> list_all (cell_ok ty) col)
       (tb_types t) (tb_values t) \<and>
     cats_ok (tb_categories t) (length (tb_types t)) (tb_aligned t)"

text \<open>The rows of a tablet: the abstraction the operations refine.\<close>

definition tablet_rows :: "tablet \<Rightarrow> (i64 \<times> ts_value option list) list" where
  "tablet_rows t = map (\<lambda>i. (tb_timestamps t ! i, map (\<lambda>col. col ! i) (tb_values t))) [0..<row_count t]"

lemma wf_tablet_lengths:
  assumes "wf_tablet t"
  shows "length (tb_values t) = length (tb_types t)"
    and "col \<in> set (tb_values t) \<Longrightarrow> length col = row_count t"
  using assms by (auto simp: wf_tablet_def list_all2_conv_all_nth in_set_conv_nth)

lemma wf_tablet_new: "tablet_new d ms tys = Inr t \<Longrightarrow> wf_tablet t \<and> tablet_rows t = []"
  by (auto simp: tablet_new_def wf_tablet_def row_count_def tablet_rows_def list_all2_conv_all_nth
      split: if_splits)

lemma wf_tablet_new_aligned:
  "tablet_new_aligned d ms tys = Inr t \<Longrightarrow> wf_tablet t \<and> tablet_rows t = []"
  by (auto simp: tablet_new_aligned_def tablet_new_def wf_tablet_def row_count_def tablet_rows_def
      list_all2_conv_all_nth bindr_eq_Inr split: if_splits)

lemma wf_tablet_new_table:
  "tablet_new_table d ms tys cats = Inr t \<Longrightarrow> wf_tablet t \<and> tablet_rows t = []"
  by (auto simp: tablet_new_table_def tablet_new_def wf_tablet_def row_count_def tablet_rows_def
      list_all2_conv_all_nth bindr_eq_Inr split: if_splits)

section \<open>Adding a row\<close>

definition row_cell_ok :: "ts_data_type \<Rightarrow> ts_value option \<Rightarrow> bool" where
  "row_cell_ok ty cell = cell_ok ty (norm_cell cell)"

lemma row_cell_ok_simps:
  "row_cell_ok ty None"
  "row_cell_ok ty (Some v) \<longleftrightarrow> v = VNull \<or> data_type v = Some ty"
  by (auto simp: row_cell_ok_def norm_cell_def cell_ok_def is_null_iff)

lemma check_cells_step:
  "check_cells t i (cell # cells) =
     (if row_cell_ok (tb_types t ! i) cell then check_cells t (Suc i) cells
      else Inl (Client (ColumnTypeMismatch i (tb_measurements t ! i) (tb_types t ! i) (the cell))))"
  by (cases cell rule: option.exhaust; (cases "the cell")?) (auto simp: row_cell_ok_simps)

lemma check_cells_Inr:
  "check_cells t i row = Inr u \<longleftrightarrow> (\<forall>k < length row. row_cell_ok (tb_types t ! (i + k)) (row ! k))"
proof (induction row arbitrary: i)
  case Nil
  then show ?case by simp
next
  case (Cons cell cells)
  then show ?case
    by (simp add: check_cells_step All_less_Suc2 del: check_cells.simps(2))
qed

text \<open>The first offending cell decides the error.\<close>

lemma check_cells_Inl:
  "check_cells t i row = Inl e \<longleftrightarrow>
     (\<exists>k < length row. (\<forall>j < k. row_cell_ok (tb_types t ! (i + j)) (row ! j)) \<and>
        \<not> row_cell_ok (tb_types t ! (i + k)) (row ! k) \<and>
        e = Client (ColumnTypeMismatch (i + k) (tb_measurements t ! (i + k))
              (tb_types t ! (i + k)) (the (row ! k))))"
proof (induction row arbitrary: i)
  case Nil
  then show ?case by simp
next
  case (Cons cell cells)
  then show ?case
    by (simp add: check_cells_step Ex_less_Suc2 All_less_Suc2 del: check_cells.simps(2)) auto
qed

lemma push_row_map2:
  "length row = length cols \<Longrightarrow> push_row cols row = map2 (\<lambda>col cell. col @ [norm_cell cell]) cols row"
  by (induction cols row rule: push_row.induct) auto

lemma add_row_Inr:
  "add_row t ts row = Inr t' \<longleftrightarrow>
     list_all2 row_cell_ok (tb_types t) row \<and>
     t' = t\<lparr>tb_timestamps := tb_timestamps t @ [ts], tb_values := push_row (tb_values t) row\<rparr>"
  by (auto simp: add_row_def bindr_eq_Inr check_cells_Inr list_all2_conv_all_nth split: if_splits)

lemma wf_add_row:
  assumes wf: "wf_tablet t" and add: "add_row t ts row = Inr t'"
  shows "wf_tablet t'"
proof -
  have t': "t' = t\<lparr>tb_timestamps := tb_timestamps t @ [ts], tb_values := push_row (tb_values t) row\<rparr>"
    and row: "list_all2 row_cell_ok (tb_types t) row"
    using add by (auto simp: add_row_Inr)
  have "length row = length (tb_values t)"
    using row wf_tablet_lengths(1) [OF wf] by (auto dest: list_all2_lengthD)
  with wf row show ?thesis
    by (auto simp: t' wf_tablet_def push_row_map2 row_count_def list_all2_conv_all_nth row_cell_ok_def)
qed

lemma rows_add_row:
  assumes wf: "wf_tablet t" and add: "add_row t ts row = Inr t'"
  shows "tablet_rows t' = tablet_rows t @ [(ts, map norm_cell row)]"
proof -
  have t': "t' = t\<lparr>tb_timestamps := tb_timestamps t @ [ts], tb_values := push_row (tb_values t) row\<rparr>"
    and row: "list_all2 row_cell_ok (tb_types t) row"
    using add by (auto simp: add_row_Inr)
  have len: "length row = length (tb_values t)"
    using row wf_tablet_lengths(1) [OF wf] by (auto dest: list_all2_lengthD)
  have cols: "length (tb_values t ! k) = length (tb_timestamps t)" if "k < length (tb_values t)" for k
    using that wf_tablet_lengths(2) [OF wf, of "tb_values t ! k"] by (simp add: row_count_def)
  have old: "map (\<lambda>col. col ! i) (push_row (tb_values t) row) = map (\<lambda>col. col ! i) (tb_values t)"
    if "i < length (tb_timestamps t)" for i
    using that len cols by (intro nth_equalityI) (auto simp: push_row_map2 nth_append)
  have new: "map (\<lambda>col. col ! length (tb_timestamps t)) (push_row (tb_values t) row) = map norm_cell row"
    using len cols by (intro nth_equalityI) (auto simp: push_row_map2 nth_append)
  show ?thesis
    using old new by (auto simp: t' tablet_rows_def row_count_def nth_append)
qed

lemma wf_timestamps_mut: "wf_tablet t \<Longrightarrow> timestamps_mut t i ts = Some t' \<Longrightarrow> wf_tablet t'"
  by (auto simp: timestamps_mut_def wf_tablet_def row_count_def split: if_splits)

section \<open>Sorting\<close>

lemma map_sort_key: "map g (sort_key (\<lambda>x. f (g x)) xs) = sort_key f (map g xs)"
proof -
  have ins: "map g (insort_key (\<lambda>x. f (g x)) x ys) = insort_key f (g x) (map g ys)" for x ys
    by (induction ys) auto
  show ?thesis by (induction xs) (auto simp: ins)
qed

lemma sort_by_timestamp_eq:
  assumes "wf_tablet t"
  shows "sort_by_timestamp t =
    t\<lparr>tb_timestamps := permute (sort_order (tb_timestamps t)) (tb_timestamps t),
      tb_values := map (permute (sort_order (tb_timestamps t))) (tb_values t)\<rparr>"
proof (cases "is_identity_order (sort_order (tb_timestamps t))")
  case True
  have "map (permute (sort_order (tb_timestamps t))) (tb_values t) = tb_values t"
    using True wf_tablet_lengths(2) [OF assms]
    by (intro map_idI) (simp add: permute_is_identity row_count_def)
  with True show ?thesis by (simp add: sort_by_timestamp_def permute_is_identity)
next
  case False
  then show ?thesis by (simp add: sort_by_timestamp_def Let_def)
qed

lemma sort_fields [simp]:
  "tb_types (sort_by_timestamp t) = tb_types t"
  "tb_target (sort_by_timestamp t) = tb_target t"
  "tb_measurements (sort_by_timestamp t) = tb_measurements t"
  "tb_categories (sort_by_timestamp t) = tb_categories t"
  "tb_aligned (sort_by_timestamp t) = tb_aligned t"
  "row_count (sort_by_timestamp t) = row_count t"
  by (auto simp: sort_by_timestamp_def Let_def row_count_def)

lemma wf_sort_by_timestamp:
  assumes "wf_tablet t"
  shows "wf_tablet (sort_by_timestamp t)"
proof -
  let ?ord = "sort_order (tb_timestamps t)"
  have "list_all (cell_ok ty) (permute ?ord col)"
    if "list_all (cell_ok ty) col" "length col = row_count t" for ty col
    using that by (auto simp: permute_def list_all_iff row_count_def)
  then have "list_all2 (\<lambda>ty col. length col = row_count t \<and> list_all (cell_ok ty) col)
      (tb_types t) (map (permute ?ord) (tb_values t))"
    using assms by (auto simp: wf_tablet_def list_all2_conv_all_nth row_count_def)
  moreover have "tb_values (sort_by_timestamp t) = map (permute ?ord) (tb_values t)"
    by (simp add: sort_by_timestamp_eq [OF assms])
  ultimately show ?thesis using assms unfolding wf_tablet_def by simp
qed

text \<open>Sorting a tablet is the stable sort of its rows by signed timestamp.\<close>

lemma rows_sort_by_timestamp:
  assumes "wf_tablet t"
  shows "tablet_rows (sort_by_timestamp t) = sort_key (\<lambda>(ts, _). sint ts) (tablet_rows t)"
proof -
  let ?ts = "tb_timestamps t" and ?ord = "sort_order (tb_timestamps t)"
  let ?row = "\<lambda>i. (?ts ! i, map (\<lambda>col. col ! i) (tb_values t))"
  have "tablet_rows (sort_by_timestamp t) = map ?row ?ord"
    by (intro nth_equalityI)
      (auto simp: tablet_rows_def sort_by_timestamp_eq [OF assms] row_count_def permute_def comp_def)
  also have "\<dots> = sort_key (\<lambda>(ts, _). sint ts) (map ?row [0..<length ?ts])"
    unfolding sort_order_def by (subst map_sort_key [symmetric]) simp
  finally show ?thesis by (simp add: tablet_rows_def row_count_def)
qed

lemma sort_by_timestamp_sorted: "sorted (map sint (tb_timestamps (sort_by_timestamp t)))"
proof (cases "is_identity_order (sort_order (tb_timestamps t))")
  case True
  then show ?thesis
    using sorted_sort_order [of "tb_timestamps t"]
    by (simp add: sort_by_timestamp_def permute_is_identity)
next
  case False
  then show ?thesis by (simp add: sort_by_timestamp_def Let_def sorted_sort_order)
qed

lemma sort_order_sorted:
  assumes "sorted (map sint ts)"
  shows "sort_order ts = [0..<length ts]"
proof -
  have "map (\<lambda>i. sint (ts ! i)) [0..<length ts] = map sint ts"
    by (intro nth_equalityI) auto
  then show ?thesis unfolding sort_order_def using assms by (intro sort_key_id_if_sorted) simp
qed

lemma sort_by_timestamp_idem: "sort_by_timestamp (sort_by_timestamp t) = sort_by_timestamp t"
proof -
  have "is_identity_order (sort_order (tb_timestamps (sort_by_timestamp t)))"
    using sort_order_sorted [OF sort_by_timestamp_sorted [of t]]
    by (simp add: is_identity_order_iff)
  then show ?thesis by (simp add: sort_by_timestamp_def [of "sort_by_timestamp t"])
qed

section \<open>Tablets built through the API\<close>

text \<open>
  What client code can do with a tablet: build it with one of the three constructors, add rows,
  write a timestamp, serialize it (which sorts it in place). A failed \<^verbatim>\<open>add_row\<close> leaves it unchanged.
\<close>

inductive api_tablet :: "tablet \<Rightarrow> bool" where
  tree: "tablet_new d ms tys = Inr t \<Longrightarrow> api_tablet t"
| aligned: "tablet_new_aligned d ms tys = Inr t \<Longrightarrow> api_tablet t"
| table_model: "tablet_new_table d ms tys cats = Inr t \<Longrightarrow> api_tablet t"
| add: "api_tablet t \<Longrightarrow> add_row t ts row = Inr t' \<Longrightarrow> api_tablet t'"
| set_time: "api_tablet t \<Longrightarrow> timestamps_mut t i ts = Some t' \<Longrightarrow> api_tablet t'"
| write_values: "api_tablet t \<Longrightarrow> api_tablet (snd (serialize_values t))"
| write_times: "api_tablet t \<Longrightarrow> api_tablet (snd (serialize_timestamps t))"

definition sample_tablet :: tablet where
  "sample_tablet =
     \<lparr>tb_target = ''root.sg.d1'', tb_measurements = [''s1'', ''s2''], tb_types = [TInt32, TText],
      tb_timestamps = [2, 1, 2], tb_values =
        [[Some (VInt32 7), None, Some (VInt32 9)], [None, Some (VText ''x''), Some (VText [])]],
      tb_categories = None, tb_aligned = False\<rparr>"

lemma sample_tablet_wf: "wf_tablet sample_tablet"
  by code_simp

section \<open>Properties\<close>

text \<open>
  C35: every tablet client code can build, by any sequence of constructor calls, added rows,
  timestamp writes and serializations, is well-formed: as many columns as types, every column as
  long as the timestamps, every cell null or of its column's type.
\<close>

theorem api_tablet_wf: "api_tablet t \<Longrightarrow> wf_tablet t"
proof (induction rule: api_tablet.induct)
  case (write_values t)
  then show ?case by (simp add: serialize_values_def Let_def wf_sort_by_timestamp)
next
  case (write_times t)
  then show ?case by (simp add: serialize_timestamps_def Let_def wf_sort_by_timestamp)
qed (auto dest: wf_tablet_new wf_tablet_new_aligned wf_tablet_new_table wf_add_row wf_timestamps_mut)

theorem api_tablet_wf_witness:
  "\<exists>t. api_tablet t \<and> row_count t = 1 \<and> wf_tablet t"
proof -
  let ?t = "\<lparr>tb_target = ''d'', tb_measurements = [''s''], tb_types = [TInt32], tb_timestamps = [],
      tb_values = [[]], tb_categories = None, tb_aligned = False\<rparr>"
  let ?u = "?t\<lparr>tb_timestamps := [5], tb_values := [[Some (VInt32 7)]]\<rparr>"
  have "api_tablet ?t" by (rule api_tablet.tree [of "''d''" "[''s'']" "[TInt32]"]) (simp add: tablet_new_def)
  then have "api_tablet ?u"
    by (rule api_tablet.add [of _ 5 "[Some (VInt32 7)]"]) (simp add: add_row_def norm_cell_def)
  then show ?thesis using api_tablet_wf [of ?u] by (auto simp: row_count_def)
qed

text \<open>
  C34: \<^verbatim>\<open>add_row\<close> on every branch. A row of the wrong arity is refused with both counts; otherwise
  the first cell whose type is not its column's decides the error; otherwise exactly that row,
  nulls normalised, is appended.
\<close>

theorem add_row_spec:
  assumes "wf_tablet t"
  shows "(length row \<noteq> length (tb_types t) \<longrightarrow>
       add_row t ts row = Inl (Client (RowArity (length row) (length (tb_types t))))) \<and>
     (length row = length (tb_types t) \<and> k < length row \<and>
       list_all2 row_cell_ok (take k (tb_types t)) (take k row) \<and>
       row ! k = Some v \<and> v \<noteq> VNull \<and> data_type v \<noteq> Some (tb_types t ! k) \<longrightarrow>
       add_row t ts row =
         Inl (Client (ColumnTypeMismatch k (tb_measurements t ! k) (tb_types t ! k) v))) \<and>
     (list_all2 row_cell_ok (tb_types t) row \<longrightarrow>
       (\<exists>t'. add_row t ts row = Inr t' \<and> wf_tablet t' \<and>
         tablet_rows t' = tablet_rows t @ [(ts, map norm_cell row)]))"
proof (intro conjI impI)
  assume "length row \<noteq> length (tb_types t)"
  then show "add_row t ts row = Inl (Client (RowArity (length row) (length (tb_types t))))"
    by (simp add: add_row_def)
next
  assume bad: "length row = length (tb_types t) \<and> k < length row \<and>
      list_all2 row_cell_ok (take k (tb_types t)) (take k row) \<and>
      row ! k = Some v \<and> v \<noteq> VNull \<and> data_type v \<noteq> Some (tb_types t ! k)"
  then have "check_cells t 0 row =
      Inl (Client (ColumnTypeMismatch k (tb_measurements t ! k) (tb_types t ! k) v))"
    unfolding check_cells_Inl
    by (intro exI [of _ k]) (auto simp: list_all2_conv_all_nth row_cell_ok_simps)
  with bad show "add_row t ts row =
      Inl (Client (ColumnTypeMismatch k (tb_measurements t ! k) (tb_types t ! k) v))"
    by (simp add: add_row_def)
next
  assume "list_all2 row_cell_ok (tb_types t) row"
  then show "\<exists>t'. add_row t ts row = Inr t' \<and> wf_tablet t' \<and>
      tablet_rows t' = tablet_rows t @ [(ts, map norm_cell row)]"
    using add_row_Inr [of t ts row] wf_add_row [OF assms] rows_add_row [OF assms] by blast
qed

theorem add_row_spec_witness:
  "add_row sample_tablet 3 [None] = Inl (Client (RowArity 1 2)) \<and>
   add_row sample_tablet 3 [None, Some (VInt32 1)] =
     Inl (Client (ColumnTypeMismatch 1 ''s2'' TText (VInt32 1))) \<and>
   (\<exists>t'. add_row sample_tablet 3 [Some VNull, None] = Inr t' \<and>
      tablet_rows t' = tablet_rows sample_tablet @ [(3, [None, None])])"
  using add_row_spec [OF sample_tablet_wf, of "[None]" 3]
    add_row_spec [OF sample_tablet_wf, of "[None, Some (VInt32 1)]" 3 1 "VInt32 1"]
    add_row_spec [OF sample_tablet_wf, of "[Some VNull, None]" 3]
  by (auto simp: sample_tablet_def row_cell_ok_simps norm_cell_def)

text \<open>
  C16: \<^verbatim>\<open>sort_by_timestamp\<close> refines a stable sort: on the abstraction of a tablet as a list of rows
  it is the stable sort by signed timestamp, it keeps the tablet well-formed and every other field,
  and sorting twice is sorting once.
\<close>

theorem sort_by_timestamp_refines:
  assumes "wf_tablet t"
  shows "tablet_rows (sort_by_timestamp t) = sort_key (\<lambda>(ts, _). sint ts) (tablet_rows t) \<and>
    wf_tablet (sort_by_timestamp t) \<and>
    tb_types (sort_by_timestamp t) = tb_types t \<and>
    tb_measurements (sort_by_timestamp t) = tb_measurements t \<and>
    sort_by_timestamp (sort_by_timestamp t) = sort_by_timestamp t"
  by (simp add: rows_sort_by_timestamp [OF assms] wf_sort_by_timestamp [OF assms] sort_by_timestamp_idem)

theorem sort_by_timestamp_refines_witness:
  "map fst (tablet_rows (sort_by_timestamp sample_tablet)) = [1, 2, 2] \<and>
   wf_tablet (sort_by_timestamp sample_tablet)"
proof -
  have "map fst (sort_key (\<lambda>(ts, _). sint ts) (tablet_rows sample_tablet)) = [1, 2, 2]"
    by code_simp
  then show ?thesis using sort_by_timestamp_refines [OF sample_tablet_wf] by simp
qed

end
