(* ===== verification/TabletWire.thy ===== *)
theory TabletWire
  imports Tablet
begin

text \<open>
  The wire format of a tablet, read from the other side: \<open>decode_values\<close> is the reference
  reader of the value buffer that \<^verbatim>\<open>serialize_values\<close> documents (columns one after the other,
  every row present, then a flag and a bitmap per column). The serializer is its inverse, and
  the only tablets it cannot serialize are those with a cell in a VECTOR or UNKNOWN column.
\<close>

section \<open>The reference reader\<close>

definition read_payload :: "ts_data_type \<Rightarrow> bytes \<Rightarrow> (ts_value \<times> bytes) option" where
  "read_payload ty bs =
     (case ty of
        TBoolean \<Rightarrow> (case bs of [] \<Rightarrow> None | b # r \<Rightarrow> Some (VBoolean (b \<noteq> 0), r))
      | TInt32 \<Rightarrow> map_option (apfst VInt32) (read_be 4 bs)
      | TDate \<Rightarrow> map_option (apfst VDate) (read_be 4 bs)
      | TFloat \<Rightarrow> map_option (apfst VFloat) (read_be 4 bs)
      | TInt64 \<Rightarrow> map_option (apfst VInt64) (read_be 8 bs)
      | TTimestamp \<Rightarrow> map_option (apfst VTimestamp) (read_be 8 bs)
      | TDouble \<Rightarrow> map_option (apfst VDouble) (read_be 8 bs)
      | TBlob \<Rightarrow> map_option (apfst VBlob) (read_binary bs)
      | TText \<Rightarrow> (case read_binary bs of None \<Rightarrow> None
                  | Some (b, r) \<Rightarrow> map_option (\<lambda>s. (VText s, r)) (from_utf8 b))
      | TString \<Rightarrow> (case read_binary bs of None \<Rightarrow> None
                  | Some (b, r) \<Rightarrow> map_option (\<lambda>s. (VString s, r)) (from_utf8 b))
      | TVector \<Rightarrow> None
      | TUnknown \<Rightarrow> None)"

fun read_columns :: "ts_data_type list \<Rightarrow> nat \<Rightarrow> bytes \<Rightarrow> (ts_value list list \<times> bytes) option" where
  "read_columns [] n bs = Some ([], bs)"
| "read_columns (ty # tys) n bs =
     (case dec_many (read_payload ty) n bs of None \<Rightarrow> None
      | Some (col, r) \<Rightarrow> map_option (apfst (Cons col)) (read_columns tys n r))"

definition read_nulls :: "nat \<Rightarrow> bytes \<Rightarrow> (bool list \<times> bytes) option" where
  "read_nulls n bs =
     (case bs of [] \<Rightarrow> None
      | flag # r \<Rightarrow>
          if flag = 0 then Some (replicate n False, r)
          else if length r < n div 8 + 1 then None
          else Some (map (\<lambda>i. bit (r ! (i div 8)) (i mod 8)) [0..<n], drop (n div 8 + 1) r))"

definition mask_nulls :: "bool list \<Rightarrow> ts_value list \<Rightarrow> ts_value option list" where
  "mask_nulls nulls col = map2 (\<lambda>null v. if null then None else Some v) nulls col"

definition decode_values :: "ts_data_type list \<Rightarrow> nat \<Rightarrow> bytes \<Rightarrow> ts_value option list list option" where
  "decode_values tys n bs =
     (case read_columns tys n bs of None \<Rightarrow> None
      | Some (cols, r) \<Rightarrow>
          (case dec_many (read_nulls n) (length tys) r of
             Some (nulls, []) \<Rightarrow> Some (map2 mask_nulls nulls cols)
           | _ \<Rightarrow> None))"

section \<open>One cell\<close>

text \<open>What fits the 32-bit length prefix of a binary payload.\<close>

fun small_value :: "ts_value \<Rightarrow> bool" where
  "small_value (VText s) = (length s < 2 ^ 31)"
| "small_value (VString s) = (length s < 2 ^ 31)"
| "small_value (VBlob b) = (length b < 2 ^ 31)"
| "small_value _ = True"

lemma small_value_code [code]:
  "small_value v =
     (case v of VText s \<Rightarrow> int (length s) < 2 ^ 31 | VString s \<Rightarrow> int (length s) < 2 ^ 31
      | VBlob b \<Rightarrow> int (length b) < 2 ^ 31 | _ \<Rightarrow> True)"
  by (cases v) auto

definition payload_ok :: "ts_data_type \<Rightarrow> ts_value \<Rightarrow> bool" where
  "payload_ok ty v \<longleftrightarrow> data_type v = Some ty \<and> wf_value v \<and> small_value v"

definition payload :: "ts_data_type \<Rightarrow> ts_value \<Rightarrow> bytes" where
  "payload ty v = the (write_cell ty (Some v))"

lemma read_write_binary [codec_simps]:
  "length b < 2 ^ 31 \<Longrightarrow> read_binary (write_binary b @ rest) = Some (b, rest)"
  using be32.dec_enc [of "word_of_nat (length b)" "b @ rest"]
  by (simp add: read_binary_def write_binary_def sint_of_nat_i32 del: word_of_nat_eq_0_iff)

lemma bool_byte_nonzero [simp]: "bool_byte b \<noteq> 0 \<longleftrightarrow> b" "bool_byte b = 0 \<longleftrightarrow> \<not> b"
  by (auto simp: bool_byte_def)

lemma read_be_32 [codec_simps]: "read_be 4 (to_be 4 (w :: i32) @ rest) = Some (w, rest)"
  by (rule be32.dec_enc) simp

lemma read_be_64 [codec_simps]: "read_be 8 (to_be 8 (w :: i64) @ rest) = Some (w, rest)"
  by (rule be64.dec_enc) simp

lemma write_cell_Some:
  "data_type v = Some ty \<Longrightarrow> write_cell ty (Some v) = Some (payload ty v)"
  by (cases v) (auto simp: write_cell_def payload_def)

interpretation cell_codec: codec "payload ty" "read_payload ty" "payload_ok ty" for ty
proof unfold_locales
  fix v rest
  assume "payload_ok ty v"
  then show "read_payload ty (payload ty v @ rest) = Some (v, rest)"
    by (cases v) (auto simp: payload_ok_def payload_def write_cell_def read_payload_def codec_simps
        from_utf8_as_bytes)
qed

text \<open>A null cell is written as a value of the column's type: its placeholder.\<close>

fun placeholder :: "ts_data_type \<Rightarrow> ts_value" where
  "placeholder TBoolean = VBoolean False"
| "placeholder TInt32 = VInt32 i32_min"
| "placeholder TInt64 = VInt64 i64_min"
| "placeholder TTimestamp = VTimestamp i64_min"
| "placeholder TFloat = VFloat f32_min"
| "placeholder TDouble = VDouble f64_min"
| "placeholder TText = VText []"
| "placeholder TString = VString []"
| "placeholder TBlob = VBlob []"
| "placeholder TDate = VDate 10000101"
| "placeholder TVector = VNull"
| "placeholder TUnknown = VNull"

definition fill :: "ts_data_type \<Rightarrow> ts_value option \<Rightarrow> ts_value" where
  "fill ty cell = (case cell of None \<Rightarrow> placeholder ty | Some v \<Rightarrow> v)"

lemma write_cell_fill:
  assumes "insertable ty" "cell_ok ty cell"
  shows "write_cell ty cell = Some (payload ty (fill ty cell))"
proof (cases cell)
  case None
  with assms(1) show ?thesis
    by (cases ty) (simp_all add: insertable_def fill_def payload_def write_cell_def bool_byte_def
        as_bytes_def)
next
  case (Some v)
  with assms show ?thesis by (simp add: cell_ok_def fill_def write_cell_Some)
qed

lemma payload_ok_fill:
  assumes "insertable ty" "cell_ok ty cell" "\<And>v. cell = Some v \<Longrightarrow> wf_value v \<and> small_value v"
  shows "payload_ok ty (fill ty cell)"
proof (cases cell)
  case None
  with assms(1) show ?thesis
    by (cases ty) (simp_all add: insertable_def fill_def payload_ok_def valid_str_def as_bytes_def)
next
  case (Some v)
  with assms show ?thesis by (simp add: cell_ok_def fill_def payload_ok_def)
qed

lemma mask_fill: "length col = n \<Longrightarrow> mask_nulls (map Option.is_none col) (map (fill ty) col) = col"
  by (intro nth_equalityI) (auto simp: mask_nulls_def fill_def Option.is_none_def split: option.splits)

section \<open>Columns\<close>

text \<open>What the serializer needs of a tablet beyond \<open>wf_tablet\<close>: types it can write, payloads that fit.\<close>

definition writable :: "tablet \<Rightarrow> bool" where
  "writable t \<longleftrightarrow>
     list_all insertable (tb_types t) \<and>
     list_all (list_all (\<lambda>cell. case cell of None \<Rightarrow> True | Some v \<Rightarrow> wf_value v \<and> small_value v))
       (tb_values t)"

definition col_ok :: "nat \<Rightarrow> ts_data_type \<Rightarrow> ts_value option list \<Rightarrow> bool" where
  "col_ok n ty col \<longleftrightarrow> length col = n \<and> list_all (cell_ok ty) col"

definition col_writable :: "ts_data_type \<Rightarrow> ts_value option list \<Rightarrow> bool" where
  "col_writable ty col \<longleftrightarrow> insertable ty \<and>
     list_all (\<lambda>cell. case cell of None \<Rightarrow> True | Some v \<Rightarrow> wf_value v \<and> small_value v) col"

lemma write_column:
  assumes "list_all (cell_ok ty) col" "insertable ty"
  shows "concat_opt (map (write_cell ty) col) = Some (concat (map (payload ty) (map (fill ty) col)))"
proof -
  have "concat_opt (map (write_cell ty) col) = Some (concat (map (\<lambda>c. payload ty (fill ty c)) col))"
    using assms by (intro concat_opt_cong_Some) (auto simp: write_cell_fill list_all_iff)
  then show ?thesis by (simp add: comp_def)
qed

lemma read_write_column:
  assumes "col_ok n ty col" "col_writable ty col"
  shows "dec_many (read_payload ty) n (concat (map (payload ty) (map (fill ty) col)) @ rest) =
         Some (map (fill ty) col, rest)"
proof -
  have "list_all (payload_ok ty) (map (fill ty) col)"
    using assms by (force simp: col_ok_def col_writable_def list_all_iff intro!: payload_ok_fill)
  from cell_codec.dec_many_enc [OF this, of rest] assms(1) show ?thesis
    by (simp add: col_ok_def)
qed

lemma read_write_columns:
  assumes "list_all2 (col_ok n) tys cols" "list_all2 col_writable tys cols"
  shows "\<exists>body. write_columns cols tys = Some body \<and>
           read_columns tys n (body @ rest) = Some (map2 (\<lambda>ty col. map (fill ty) col) tys cols, rest)"
  using assms
proof (induction tys cols rule: list_all2_induct)
  case Nil
  then show ?case by (simp add: write_columns_def)
next
  case (Cons ty tys col cols)
  then obtain body where body: "write_columns cols tys = Some body"
    "read_columns tys n (body @ rest) = Some (map2 (\<lambda>ty col. map (fill ty) col) tys cols, rest)"
    by auto
  let ?b = "concat (map (payload ty) (map (fill ty) col))"
  have "concat_opt (map (write_cell ty) col) = Some ?b"
    using Cons by (intro write_column) (auto simp: col_ok_def col_writable_def)
  moreover have "dec_many (read_payload ty) n (?b @ body @ rest) = Some (map (fill ty) col, body @ rest)"
    using Cons by (intro read_write_column) auto
  ultimately show ?case
    using body by (simp add: write_columns_def)
qed

section \<open>Null bitmaps\<close>

lemma read_null_section:
  assumes "length col = n"
  shows "read_nulls n (null_section n col @ rest) = Some (map Option.is_none col, rest)"
proof (cases "list_ex (\<lambda>b. b) (map Option.is_none col)")
  case False
  then have "map Option.is_none col = replicate n False"
    using assms by (intro nth_equalityI) (auto simp: list_ex_iff)
  with False show ?thesis by (simp add: null_section_def read_nulls_def)
next
  case True
  let ?nulls = "map Option.is_none col"
  let ?bm = "vec_resize (n div 8 + 1) 0 (pack_bits_lsb_first ?nulls)"
  have short: "div_ceil n 8 \<le> n div 8 + 1" by (rule div_ceil_8_le)
  have len: "length ?bm = n div 8 + 1"
    using short assms by (simp add: vec_resize_def)
  have bits: "bit (?bm ! (i div 8)) (i mod 8) = ?nulls ! i" if i: "i < n" for i
  proof -
    have "i div 8 < div_ceil n 8" using i by (rule div_ceil_8_less)
    then have "?bm ! (i div 8) = pack_bits_lsb_first ?nulls ! (i div 8)"
      using short assms by (simp add: vec_resize_def nth_append)
    moreover have "i < 8 * div_ceil (length ?nulls) 8"
      using i div_ceil_8_bound [of n] assms by simp
    ultimately show ?thesis using i assms by (simp only: pack_bits_bit) simp
  qed
  have read: "map (\<lambda>i. bit ((?bm @ rest) ! (i div 8)) (i mod 8)) [0..<n] = ?nulls"
  proof (intro nth_equalityI)
    fix i assume "i < length (map (\<lambda>i. bit ((?bm @ rest) ! (i div 8)) (i mod 8)) [0..<n])"
    then have i: "i < n" by simp
    then have "i div 8 < length ?bm" using len div_le_mono [of i n 8] by simp
    then show "map (\<lambda>i. bit ((?bm @ rest) ! (i div 8)) (i mod 8)) [0..<n] ! i = ?nulls ! i"
      using i bits by (simp add: nth_append)
  qed (use assms in simp)
  have "null_section n col = 1 # ?bm" using True by (simp add: null_section_def Let_def)
  then show ?thesis using len read by (simp add: read_nulls_def)
qed

lemma read_null_sections:
  assumes "list_all (\<lambda>col. length col = n) cols"
  shows "dec_many (read_nulls n) (length cols) (concat (map (null_section n) cols)) =
         Some (map (map Option.is_none) cols, [])"
  using assms by (induction cols) (auto simp: read_null_section)

section \<open>The whole buffer\<close>

lemma wf_tablet_cols: "wf_tablet t \<Longrightarrow> list_all2 (col_ok (row_count t)) (tb_types t) (tb_values t)"
  by (auto simp: wf_tablet_def col_ok_def list_all2_conv_all_nth)

lemma writable_cols:
  "wf_tablet t \<Longrightarrow> writable t \<Longrightarrow> list_all2 col_writable (tb_types t) (tb_values t)"
  by (auto simp: wf_tablet_def writable_def col_writable_def list_all2_conv_all_nth list_all_length)

lemma writable_sort:
  assumes "wf_tablet t" "writable t"
  shows "writable (sort_by_timestamp t)"
  using assms wf_tablet_lengths(2) [OF assms(1)]
  by (auto simp: writable_def sort_by_timestamp_eq permute_def list_all_iff row_count_def)

lemma mask_columns:
  "list_all2 (col_ok n) tys cols \<Longrightarrow>
   map2 mask_nulls (map (map Option.is_none) cols) (map2 (\<lambda>ty col. map (fill ty) col) tys cols) = cols"
  by (induction tys cols rule: list_all2_induct) (auto simp: mask_fill col_ok_def)

lemma serialize_values_decode:
  assumes wf: "wf_tablet t" and wr: "writable t"
  shows "\<exists>bs. serialize_values t = (Some bs, sort_by_timestamp t) \<and>
           decode_values (tb_types t) (row_count t) bs = Some (tb_values (sort_by_timestamp t))"
proof -
  let ?t = "sort_by_timestamp t" and ?n = "row_count t"
  let ?nulls = "concat (map (null_section ?n) (tb_values ?t))"
  have cols: "list_all2 (col_ok ?n) (tb_types t) (tb_values ?t)"
    using wf_tablet_cols [OF wf_sort_by_timestamp [OF wf]] by simp
  moreover have "list_all2 col_writable (tb_types t) (tb_values ?t)"
    using writable_cols [OF wf_sort_by_timestamp [OF wf] writable_sort [OF wf wr]] by simp
  ultimately obtain body where body: "write_columns (tb_values ?t) (tb_types t) = Some body"
    "read_columns (tb_types t) ?n (body @ ?nulls) =
       Some (map2 (\<lambda>ty col. map (fill ty) col) (tb_types t) (tb_values ?t), ?nulls)"
    using read_write_columns by blast
  have ln: "length (tb_types t) = length (tb_values ?t)"
    using cols by (rule list_all2_lengthD)
  have "list_all (\<lambda>col. length col = ?n) (tb_values ?t)"
    using cols by (auto simp: list_all2_conv_all_nth list_all_length col_ok_def)
  then have "dec_many (read_nulls ?n) (length (tb_types t)) ?nulls =
      Some (map (map Option.is_none) (tb_values ?t), [])"
    unfolding ln by (rule read_null_sections)
  then have "decode_values (tb_types t) ?n (body @ ?nulls) = Some (tb_values ?t)"
    using body(2) mask_columns [OF cols] by (simp add: decode_values_def)
  moreover have "serialize_values t = (Some (body @ ?nulls), ?t)"
    using body(1) by (simp add: serialize_values_def Let_def)
  ultimately show ?thesis by blast
qed

lemma write_columns_None:
  assumes "list_all2 (col_ok n) tys cols"
  shows "write_columns cols tys = None \<longleftrightarrow> 0 < n \<and> (\<exists>ty \<in> set tys. \<not> insertable ty)"
proof -
  have one: "None \<in> set (map (write_cell ty) col) \<longleftrightarrow> 0 < n \<and> \<not> insertable ty"
    if "col_ok n ty col" for ty col
  proof (cases "insertable ty")
    case True
    with that show ?thesis by (auto simp: col_ok_def list_all_iff write_cell_fill)
  next
    case False
    then have "write_cell ty c = None" for c by (auto simp: insertable_def write_cell_def)
    then have "map (write_cell ty) col = replicate n None"
      using that by (intro nth_equalityI) (auto simp: col_ok_def)
    with False show ?thesis by simp
  qed
  have "write_columns cols tys = None \<longleftrightarrow>
      (\<exists>(col, ty) \<in> set (zip cols tys). None \<in> set (map (write_cell ty) col))"
    unfolding write_columns_def concat_opt_map_None by (simp add: concat_opt_eq_None split_beta)
  also have "\<dots> \<longleftrightarrow> (\<exists>i < length tys. None \<in> set (map (write_cell (tys ! i)) (cols ! i)))"
    using list_all2_lengthD [OF assms] by (auto simp: set_zip)
  also have "\<dots> \<longleftrightarrow> (\<exists>i < length tys. 0 < n \<and> \<not> insertable (tys ! i))"
    using assms one by (auto simp del: set_map simp: list_all2_conv_all_nth)
  finally show ?thesis by (auto simp: set_conv_nth)
qed

lemma serialize_values_panic:
  assumes "wf_tablet t"
  shows "fst (serialize_values t) = None \<longleftrightarrow>
    0 < row_count t \<and> (\<exists>ty \<in> set (tb_types t). ty = TVector \<or> ty = TUnknown)"
proof -
  have "list_all2 (col_ok (row_count t)) (tb_types t) (tb_values (sort_by_timestamp t))"
    using wf_tablet_cols [OF wf_sort_by_timestamp [OF assms]] by simp
  from write_columns_None [OF this] show ?thesis
    by (auto simp: serialize_values_def Let_def insertable_def)
qed

section \<open>The timestamp buffer\<close>

lemma serialize_timestamps_decode:
  "dec_many (read_be 8) (row_count t) (fst (serialize_timestamps t)) =
     Some (tb_timestamps (sort_by_timestamp t), [])"
proof -
  have "length (tb_timestamps (sort_by_timestamp t)) = row_count t"
    using sort_fields(6) [of t] by (simp add: row_count_def)
  then show ?thesis
    using be64.dec_many_enc [of "tb_timestamps (sort_by_timestamp t)" "[]"]
    by (simp add: serialize_timestamps_def Let_def list_all_iff)
qed

section \<open>Properties\<close>

lemma sample_tablet_writable: "writable sample_tablet"
  by code_simp

text \<open>
  C3: the value buffer of \<^verbatim>\<open>insertTablet\<close> is lossless. For a well-formed tablet with insertable
  column types and payloads below the 32-bit length limit, \<^verbatim>\<open>serialize_values\<close> does not panic, leaves
  the tablet sorted, and the reference reader recovers from the bytes, the types and the row count
  every cell of every column, nulls included, in timestamp order.
\<close>

theorem tablet_values_roundtrip:
  assumes "wf_tablet t" "writable t"
  shows "\<exists>bs. serialize_values t = (Some bs, sort_by_timestamp t) \<and>
           decode_values (tb_types t) (row_count t) bs = Some (tb_values (sort_by_timestamp t))"
  using assms by (rule serialize_values_decode)

theorem tablet_values_roundtrip_witness:
  "\<exists>bs. fst (serialize_values sample_tablet) = Some bs \<and>
     decode_values [TInt32, TText] 3 bs =
       Some [[None, Some (VInt32 7), Some (VInt32 9)], [Some (VText ''x''), None, Some (VText [])]]"
proof -
  have "tb_values (sort_by_timestamp sample_tablet) =
      [[None, Some (VInt32 7), Some (VInt32 9)], [Some (VText ''x''), None, Some (VText [])]]"
    by code_simp
  moreover have "tb_types sample_tablet = [TInt32, TText]" "row_count sample_tablet = 3"
    by code_simp+
  ultimately show ?thesis
    using tablet_values_roundtrip [OF sample_tablet_wf sample_tablet_writable] by auto
qed

text \<open>
  The timestamp buffer holds exactly the tablet's timestamps, sorted, eight big-endian bytes
  each, and describes the same row order as the value buffer: both serializers sort to the same tablet.
\<close>

lemma tablet_timestamps_roundtrip:
  "dec_many (read_be 8) (row_count t) (fst (serialize_timestamps t)) =
     Some (tb_timestamps (snd (serialize_values t)), []) \<and>
   snd (serialize_timestamps t) = snd (serialize_values t) \<and>
   sorted (map sint (tb_timestamps (snd (serialize_values t))))"
  using serialize_timestamps_decode [of t] sort_by_timestamp_sorted [of t]
  by (simp add: serialize_values_def serialize_timestamps_def Let_def)

text \<open>
  C36: exactly when \<^verbatim>\<open>serialize_values\<close> panics: a tablet with at least one row and a column of type
  VECTOR or UNKNOWN, which the constructors accept, reaches the \<^verbatim>\<open>unreachable!\<close> of \<^verbatim>\<open>write_cell\<close>.
\<close>

theorem tablet_values_panic:
  assumes "wf_tablet t"
  shows "fst (serialize_values t) = None \<longleftrightarrow>
    0 < row_count t \<and> (\<exists>ty \<in> set (tb_types t). ty = TVector \<or> ty = TUnknown)"
  using assms by (rule serialize_values_panic)

theorem tablet_values_panic_witness:
  "\<exists>t0 t. tablet_new ''d'' [''s''] [TVector] = Inr t0 \<and> add_row t0 1 [None] = Inr t \<and>
     fst (serialize_values t) = None"
proof -
  let ?a = "\<lparr>tb_target = ''d'', tb_measurements = [''s''], tb_types = [TVector], tb_timestamps = [],
      tb_values = [[]], tb_categories = None, tb_aligned = False\<rparr>"
  let ?b = "?a\<lparr>tb_timestamps := [1], tb_values := [[None :: ts_value option]]\<rparr>"
  have new: "tablet_new ''d'' [''s''] [TVector] = Inr ?a" by (simp add: tablet_new_def)
  have add: "add_row ?a 1 [None] = Inr ?b" by (simp add: add_row_def norm_cell_def)
  have "wf_tablet ?b" using wf_add_row [OF _ add] wf_tablet_new [OF new] by simp
  from tablet_values_panic [OF this] have "fst (serialize_values ?b) = None"
    by (simp add: row_count_def)
  with new add show ?thesis by blast
qed

end
