(* ===== verification/RecordValues.thy ===== *)
theory RecordValues
  imports TabletWire
begin

text \<open>
  The row-oriented value buffer of \<^verbatim>\<open>src/data/record.rs\<close> (the \<^verbatim>\<open>insertRecord\<close> family): each cell
  is a type marker and a payload, a null cell the bare marker \<^verbatim>\<open>0xFE\<close>. The payloads are those of
  the tablet cells, and the buffer can be read back without knowing the types in advance.
\<close>

definition TYPE_NULL :: u8 where "TYPE_NULL = 0xFE"

fun record_payload :: "ts_value \<Rightarrow> bytes" where
  "record_payload (VBoolean b) = [bool_byte b]"
| "record_payload (VInt32 v) = to_be 4 v"
| "record_payload (VDate v) = to_be 4 v"
| "record_payload (VInt64 v) = to_be 8 v"
| "record_payload (VTimestamp v) = to_be 8 v"
| "record_payload (VFloat v) = to_be 4 v"
| "record_payload (VDouble v) = to_be 8 v"
| "record_payload (VText s) = write_binary (as_bytes s)"
| "record_payload (VString s) = write_binary (as_bytes s)"
| "record_payload (VBlob b) = write_binary b"
| "record_payload VNull = []"

text \<open>The loop body; the \<^verbatim>\<open>expect\<close> on the type code is never reached with a null.\<close>

definition record_cell :: "ts_value \<Rightarrow> bytes" where
  "record_cell v =
     (case type_code v of None \<Rightarrow> [TYPE_NULL] | Some code \<Rightarrow> ucast code # record_payload v)"

definition serialize_record_values :: "ts_value list \<Rightarrow> bytes" where
  "serialize_record_values vs = concat (map record_cell vs)"

section \<open>Reading a record back\<close>

definition read_record_cell :: "bytes \<Rightarrow> (ts_value \<times> bytes) option" where
  "read_record_cell bs =
     (case bs of [] \<Rightarrow> None
      | marker # r \<Rightarrow>
          if marker = TYPE_NULL then Some (VNull, r)
          else (case from_code marker of None \<Rightarrow> None | Some ty \<Rightarrow> read_payload ty r))"

lemma type_marker_not_null: "(ucast (type_code_of ty) :: u8) \<noteq> TYPE_NULL"
  by (cases ty) (simp_all add: TYPE_NULL_def)

lemma record_payload_eq: "data_type v = Some ty \<Longrightarrow> record_payload v = payload ty v"
  by (cases v) (auto simp: payload_def write_cell_def)

interpretation record_codec: codec record_cell read_record_cell "\<lambda>v. wf_value v \<and> small_value v"
proof unfold_locales
  fix v rest
  assume ok: "wf_value v \<and> small_value v"
  show "read_record_cell (record_cell v @ rest) = Some (v, rest)"
  proof (cases "data_type v")
    case None
    then show ?thesis by (simp add: record_cell_def type_code_def read_record_cell_def data_type_None)
  next
    case (Some ty)
    then have "read_payload ty (record_payload v @ rest) = Some (v, rest)"
      using ok by (simp add: record_payload_eq cell_codec.dec_enc payload_ok_def)
    with Some show ?thesis
      by (simp add: record_cell_def type_code_def read_record_cell_def from_code_code type_marker_not_null)
  qed
qed

lemma serialize_record_values_decode:
  "list_all (\<lambda>v. wf_value v \<and> small_value v) vs \<Longrightarrow>
   dec_many read_record_cell (length vs) (serialize_record_values vs) = Some (vs, [])"
  using record_codec.dec_many_enc [of vs "[]"] by (simp add: serialize_record_values_def)

text \<open>A row without nulls takes one marker byte per cell on top of its payloads.\<close>

lemma serialize_record_values_append:
  "serialize_record_values (xs @ ys) = serialize_record_values xs @ serialize_record_values ys"
  by (simp add: serialize_record_values_def)

section \<open>Properties\<close>

text \<open>
  C37: the row buffer of the \<^verbatim>\<open>insertRecord\<close> family is self-describing and lossless: reading as
  many cells as were written returns exactly the values (nulls included) and consumes the buffer.
\<close>

theorem record_values_roundtrip:
  assumes "list_all (\<lambda>v. wf_value v \<and> small_value v) vs"
  shows "dec_many read_record_cell (length vs) (serialize_record_values vs) = Some (vs, [])"
  using assms by (rule serialize_record_values_decode)

theorem record_values_roundtrip_witness:
  "dec_many read_record_cell 3 (serialize_record_values [VInt32 7, VNull, VText ''ab'']) =
     Some ([VInt32 7, VNull, VText ''ab''], [])"
proof -
  have "list_all (\<lambda>v. wf_value v \<and> small_value v) [VInt32 7, VNull, VText ''ab'']"
    by code_simp
  from record_values_roundtrip [OF this] show ?thesis by (simp add: eval_nat_numeral)
qed

end
