(* ===== verification/TsBlock.thy ===== *)
theory TsBlock
  imports Errors Bitmap Codec
begin

text \<open>
  The query-result decoder of \<^verbatim>\<open>src/data/tsblock.rs\<close>: the bounds-checked cursor \<^verbatim>\<open>Reader\<close>, the
  column decoders for the five encodings and \<^verbatim>\<open>TsBlock::decode\<close>. A reader operation returns the
  value and the reader after it, or the error that \<^verbatim>\<open>?\<close> propagates.
\<close>

section \<open>The reader\<close>

record reader =
  rd_buf :: bytes
  rd_pos :: nat

definition reader_new :: "bytes \<Rightarrow> reader" where
  "reader_new bs = \<lparr>rd_buf = bs, rd_pos = 0\<rparr>"

text \<open>\<^verbatim>\<open>usize::checked_add\<close> on a 64-bit target.\<close>

definition checked_add_usize :: "nat \<Rightarrow> nat \<Rightarrow> nat option" where
  "checked_add_usize a b = (if a + b < 2 ^ 64 then Some (a + b) else None)"

lemma checked_add_usize_code [code]:
  "checked_add_usize a b = (if int a + int b < 2 ^ 64 then Some (a + b) else None)"
  by (auto simp: checked_add_usize_def)

definition read_bytes :: "nat \<Rightarrow> reader \<Rightarrow> (bytes \<times> reader) result" where
  "read_bytes n r =
     (case checked_add_usize (rd_pos r) n of
        Some e \<Rightarrow>
          if e \<le> length (rd_buf r)
          then Inr (take n (drop (rd_pos r) (rd_buf r)), r\<lparr>rd_pos := e\<rparr>)
          else Inl (Decode (Truncated n (rd_pos r) (length (rd_buf r) - rd_pos r)))
      | None \<Rightarrow> Inl (Decode (Truncated n (rd_pos r) (length (rd_buf r) - rd_pos r))))"

definition read_u8 :: "reader \<Rightarrow> (u8 \<times> reader) result" where
  "read_u8 r = bindr (read_bytes 1 r) (\<lambda>(b, r). Inr (b ! 0, r))"

definition read_i32 :: "reader \<Rightarrow> (i32 \<times> reader) result" where
  "read_i32 r = bindr (read_bytes 4 r) (\<lambda>(b, r). Inr (from_be b, r))"

definition read_i64 :: "reader \<Rightarrow> (i64 \<times> reader) result" where
  "read_i64 r = bindr (read_bytes 8 r) (\<lambda>(b, r). Inr (from_be b, r))"

section \<open>Columns\<close>

definition ENCODING_BYTE_ARRAY :: u8 where "ENCODING_BYTE_ARRAY = 0"

definition ENCODING_INT32_ARRAY :: u8 where "ENCODING_INT32_ARRAY = 1"

definition ENCODING_INT64_ARRAY :: u8 where "ENCODING_INT64_ARRAY = 2"

definition ENCODING_BINARY_ARRAY :: u8 where "ENCODING_BINARY_ARRAY = 3"

definition ENCODING_RLE :: u8 where "ENCODING_RLE = 4"

lemmas encoding_defs = ENCODING_BYTE_ARRAY_def ENCODING_INT32_ARRAY_def ENCODING_INT64_ARRAY_def
  ENCODING_BINARY_ARRAY_def ENCODING_RLE_def

definition read_packed_bits :: "nat \<Rightarrow> reader \<Rightarrow> (bool list \<times> reader) result" where
  "read_packed_bits n r =
     bindr (read_bytes (div_ceil n 8) r) (\<lambda>(b, r).
       case unpack_bits_msb_first b n of
         None \<Rightarrow> Inl (Decode TruncatedBits)
       | Some bits \<Rightarrow> Inr (bits, r))"

definition read_null_indicators :: "nat \<Rightarrow> reader \<Rightarrow> (bool list \<times> reader) result" where
  "read_null_indicators n r =
     bindr (read_u8 r) (\<lambda>(may_have_null, r).
       if may_have_null = 0 then Inr (replicate n False, r) else read_packed_bits n r)"

text \<open>The loop shared by the dense encodings: a null position consumes no bytes.\<close>

fun decode_dense :: "(reader \<Rightarrow> (ts_value \<times> reader) result) \<Rightarrow> bool list \<Rightarrow> reader
    \<Rightarrow> (ts_value list \<times> reader) result" where
  "decode_dense rd [] r = Inr ([], r)"
| "decode_dense rd (null # nulls) r =
     (if null then bindr (decode_dense rd nulls r) (\<lambda>(vs, r). Inr (VNull # vs, r))
      else bindr (rd r) (\<lambda>(v, r). bindr (decode_dense rd nulls r) (\<lambda>(vs, r). Inr (v # vs, r))))"

definition int32_elem :: "ts_data_type \<Rightarrow> reader \<Rightarrow> (ts_value \<times> reader) result" where
  "int32_elem ty r =
     bindr (read_i32 r) (\<lambda>(raw, r).
       case ty of
         TInt32 \<Rightarrow> Inr (VInt32 raw, r)
       | TDate \<Rightarrow> Inr (VDate raw, r)
       | TFloat \<Rightarrow> Inr (VFloat raw, r)
       | _ \<Rightarrow> Inl (Decode (IncompatibleInt32 ty)))"

definition int64_elem :: "ts_data_type \<Rightarrow> reader \<Rightarrow> (ts_value \<times> reader) result" where
  "int64_elem ty r =
     bindr (read_i64 r) (\<lambda>(raw, r).
       case ty of
         TInt64 \<Rightarrow> Inr (VInt64 raw, r)
       | TTimestamp \<Rightarrow> Inr (VTimestamp raw, r)
       | TDouble \<Rightarrow> Inr (VDouble raw, r)
       | _ \<Rightarrow> Inl (Decode (IncompatibleInt64 ty)))"

definition decode_utf8 :: "bytes \<Rightarrow> string result" where
  "decode_utf8 bs = (case from_utf8 bs of Some s \<Rightarrow> Inr s | None \<Rightarrow> Inl (Decode (InvalidUtf8 bs)))"

definition binary_elem :: "ts_data_type \<Rightarrow> reader \<Rightarrow> (ts_value \<times> reader) result" where
  "binary_elem ty r =
     bindr (read_i32 r) (\<lambda>(len, r).
       if sint len < 0 then Inl (Decode (NegativeBinaryLength len))
       else bindr (read_bytes (nat (sint len)) r) (\<lambda>(b, r).
         case ty of
           TBlob \<Rightarrow> Inr (VBlob b, r)
         | TText \<Rightarrow> (case from_utf8 b of Some s \<Rightarrow> Inr (VText s, r) | None \<Rightarrow> Inr (VBlob b, r))
         | TString \<Rightarrow> bindr (decode_utf8 b) (\<lambda>s. Inr (VString s, r))
         | _ \<Rightarrow> Inl (Decode (IncompatibleBinary ty))))"

definition byte_array_column :: "nat \<Rightarrow> reader \<Rightarrow> (ts_value list \<times> reader) result" where
  "byte_array_column n r =
     bindr (read_null_indicators n r) (\<lambda>(nulls, r).
     bindr (read_packed_bits n r) (\<lambda>(bits, r).
       Inr (map (\<lambda>i. if nulls ! i then VNull else VBoolean (bits ! i)) [0..<n], r)))"

definition dense_column ::
    "(reader \<Rightarrow> (ts_value \<times> reader) result) \<Rightarrow> nat \<Rightarrow> reader \<Rightarrow> (ts_value list \<times> reader) result" where
  "dense_column rd n r = bindr (read_null_indicators n r) (\<lambda>(nulls, r). decode_dense rd nulls r)"

function decode_column ::
    "u8 \<Rightarrow> ts_data_type \<Rightarrow> nat \<Rightarrow> reader \<Rightarrow> (ts_value list \<times> reader) result" where
  "decode_column enc ty n r =
     (if enc = ENCODING_RLE then
        bindr (read_u8 r) (\<lambda>(inner, r).
          if inner = ENCODING_RLE then Inl (Decode NestedRle)
          else bindr (decode_column inner ty 1 r) (\<lambda>(single, r).
            case single of [] \<Rightarrow> Inl (Decode EmptyRle) | v # _ \<Rightarrow> Inr (replicate n v, r)))
      else if enc = ENCODING_BYTE_ARRAY then byte_array_column n r
      else if enc = ENCODING_INT32_ARRAY then dense_column (int32_elem ty) n r
      else if enc = ENCODING_INT64_ARRAY then dense_column (int64_elem ty) n r
      else if enc = ENCODING_BINARY_ARRAY then dense_column (binary_elem ty) n r
      else Inl (Decode (UnknownEncoding enc)))"
  by pat_completeness auto
termination
  by (relation "measure (\<lambda>(enc, ty, n, r). if enc = ENCODING_RLE then 1 else 0)") auto

declare decode_column.simps [simp del]

section \<open>The block\<close>

record tsblock =
  bk_position_count :: nat
  bk_column_types :: "ts_data_type list"
  bk_timestamps :: "i64 list"
  bk_columns :: "ts_value list list"

fun read_types :: "nat \<Rightarrow> reader \<Rightarrow> (ts_data_type list \<times> reader) result" where
  "read_types 0 r = Inr ([], r)"
| "read_types (Suc n) r =
     bindr (read_u8 r) (\<lambda>(code, r).
       case from_code code of
         None \<Rightarrow> Inl (Decode (UnknownTypeCode code))
       | Some ty \<Rightarrow> bindr (read_types n r) (\<lambda>(tys, r). Inr (ty # tys, r)))"

fun read_encodings :: "nat \<Rightarrow> reader \<Rightarrow> (u8 list \<times> reader) result" where
  "read_encodings 0 r = Inr ([], r)"
| "read_encodings (Suc n) r =
     bindr (read_u8 r) (\<lambda>(enc, r). bindr (read_encodings n r) (\<lambda>(encs, r). Inr (enc # encs, r)))"

definition time_value :: "ts_value \<Rightarrow> i64 result" where
  "time_value v = (case v of VInt64 t \<Rightarrow> Inr t | other \<Rightarrow> Inl (Decode (NonInt64Time other)))"

text \<open>The loop over \<^verbatim>\<open>column_types.iter().enumerate()\<close>, each with its encoding.\<close>

fun decode_columns :: "(u8 \<times> ts_data_type) list \<Rightarrow> nat \<Rightarrow> reader \<Rightarrow> (ts_value list list \<times> reader) result" where
  "decode_columns [] n r = Inr ([], r)"
| "decode_columns ((enc, ty) # cs) n r =
     bindr (decode_column enc ty n r) (\<lambda>(col, r).
     bindr (decode_columns cs n r) (\<lambda>(cols, r). Inr (col # cols, r)))"

text \<open>The second half of \<^verbatim>\<open>TsBlock::decode\<close>, after the header: the time column, then the value columns.\<close>

definition decode_body :: "ts_data_type list \<Rightarrow> nat \<Rightarrow> u8 \<Rightarrow> u8 list \<Rightarrow> reader \<Rightarrow> (tsblock \<times> reader) result" where
  "decode_body tys n time_encoding encs r =
     bindr (decode_column time_encoding TInt64 n r) (\<lambda>(time_column, r).
     bindr (traverse time_value time_column) (\<lambda>timestamps.
     bindr (decode_columns (zip encs tys) n r) (\<lambda>(cols, r).
     Inr (\<lparr>bk_position_count = n, bk_column_types = tys, bk_timestamps = timestamps,
           bk_columns = cols\<rparr>, r))))"

text \<open>The body of \<^verbatim>\<open>TsBlock::decode\<close> after \<^verbatim>\<open>let mut r = Reader::new(bytes)\<close>.\<close>

definition decode_block :: "reader \<Rightarrow> (tsblock \<times> reader) result" where
  "decode_block r =
     bindr (read_i32 r) (\<lambda>(column_count, r).
     if sint column_count < 0 then Inl (Decode (NegativeColumnCount column_count)) else
     bindr (read_types (nat (sint column_count)) r) (\<lambda>(tys, r).
     bindr (read_i32 r) (\<lambda>(position_count, r).
     if sint position_count < 0 then Inl (Decode (NegativePositionCount position_count)) else
     bindr (read_u8 r) (\<lambda>(time_encoding, r).
     bindr (read_encodings (nat (sint column_count)) r) (\<lambda>(encs, r).
     decode_body tys (nat (sint position_count)) time_encoding encs r)))))"

definition decode :: "bytes \<Rightarrow> tsblock result" where
  "decode bs = bindr (decode_block (reader_new bs)) (\<lambda>(block, r). Inr block)"

end
