(* ===== verification/TsBlockProps.thy ===== *)
theory TsBlockProps
  imports TsBlock
begin

text \<open>
  Properties of the block decoder that hold on every input: the reader never leaves its buffer
  and never depends on bytes it has not consumed (the interface \<open>reader_op\<close>, met by every
  operation of the decoder), and a decoded block is rectangular and typed.
\<close>

section \<open>Reader operations\<close>

definition rd_ok :: "reader \<Rightarrow> bool" where
  "rd_ok r \<longleftrightarrow> rd_pos r \<le> length (rd_buf r)"

text \<open>The same reader over a buffer with more bytes behind it.\<close>

definition extend_buf :: "bytes \<Rightarrow> reader \<Rightarrow> reader" where
  "extend_buf ext r = r\<lparr>rd_buf := rd_buf r @ ext\<rparr>"

locale reader_op =
  fixes f :: "reader \<Rightarrow> ('a \<times> reader) result"
  assumes advances: "f r = Inr (x, r') \<Longrightarrow> rd_ok r \<Longrightarrow>
      rd_buf r' = rd_buf r \<and> rd_pos r \<le> rd_pos r' \<and> rd_ok r'"
    and extends: "f r = Inr (x, r') \<Longrightarrow> rd_ok r \<Longrightarrow> length (rd_buf r @ ext) < 2 ^ 64 \<Longrightarrow>
      f (extend_buf ext r) = Inr (x, extend_buf ext r')"
    and fails: "f r = Inl e \<Longrightarrow> is_decode e"
begin

text \<open>
  Two buffers that agree on the bytes an operation consumed give the same value: what the
  decoder returns is a function of the bytes before its final position.
\<close>

lemma only_consumed_bytes:
  assumes "f \<lparr>rd_buf = bs, rd_pos = p\<rparr> = Inr (x, r')" "p \<le> length bs" "length (bs @ ext) < 2 ^ 64"
  shows "f \<lparr>rd_buf = bs @ ext, rd_pos = p\<rparr> = Inr (x, \<lparr>rd_buf = bs @ ext, rd_pos = rd_pos r'\<rparr>)"
proof -
  have ok: "rd_ok \<lparr>rd_buf = bs, rd_pos = p\<rparr>" using assms(2) by (simp add: rd_ok_def)
  have len: "length (rd_buf \<lparr>rd_buf = bs, rd_pos = p\<rparr> @ ext) < 2 ^ 64" using assms(3) by simp
  show ?thesis
    using advances [OF assms(1) ok] extends [OF assms(1) ok len]
    by (cases r') (simp add: extend_buf_def)
qed

end

named_theorems reader_ops \<open>every operation of the decoder is a reader operation\<close>

lemma reader_op_return [reader_ops]: "reader_op (\<lambda>r. Inr (x, r))"
  by unfold_locales auto

lemma reader_op_fail [reader_ops]: "reader_op (\<lambda>r. Inl (Decode m))"
  by unfold_locales auto

lemma reader_op_bind [reader_ops]:
  assumes f: "reader_op f" and g: "\<And>x. reader_op (g x)"
  shows "reader_op (\<lambda>r. bindr (f r) (\<lambda>(x, r). g x r))"
proof
  fix r y r'
  assume "bindr (f r) (\<lambda>(x, r). g x r) = Inr (y, r')" and ok: "rd_ok r"
  then obtain x r1 where 1: "f r = Inr (x, r1)" and 2: "g x r1 = Inr (y, r')"
    by (auto simp: bindr_eq_Inr)
  from reader_op.advances [OF f 1 ok] have a1: "rd_buf r1 = rd_buf r" "rd_pos r \<le> rd_pos r1" "rd_ok r1"
    by auto
  from reader_op.advances [OF g 2 a1(3)] a1
  show "rd_buf r' = rd_buf r \<and> rd_pos r \<le> rd_pos r' \<and> rd_ok r'" by auto
  fix ext
  assume "length (rd_buf r @ ext) < 2 ^ 64"
  then show "bindr (f (extend_buf ext r)) (\<lambda>(x, r). g x r) = Inr (y, extend_buf ext r')"
    using reader_op.extends [OF f 1 ok] reader_op.extends [OF g 2 a1(3)] a1(1) by simp
next
  fix r e
  assume "bindr (f r) (\<lambda>(x, r). g x r) = Inl e"
  then show "is_decode e"
    by (auto simp: bindr_eq_Inl intro: reader_op.fails [OF f] reader_op.fails [OF g])
qed

lemma reader_op_if [reader_ops]:
  "reader_op f \<Longrightarrow> reader_op g \<Longrightarrow> reader_op (\<lambda>r. if c then f r else g r)"
  by (cases c) auto

lemma reader_op_option [reader_ops]:
  "reader_op f \<Longrightarrow> (\<And>x. reader_op (g x)) \<Longrightarrow>
   reader_op (\<lambda>r. case c of None \<Rightarrow> f r | Some x \<Rightarrow> g x r)"
  by (cases c) auto

lemma reader_op_list [reader_ops]:
  "reader_op f \<Longrightarrow> (\<And>x xs. reader_op (g x xs)) \<Longrightarrow>
   reader_op (\<lambda>r. case c of [] \<Rightarrow> f r | x # xs \<Rightarrow> g x xs r)"
  by (cases c) auto

lemma reader_op_pure [reader_ops]:
  "(\<And>e. m = Inl e \<Longrightarrow> is_decode e) \<Longrightarrow> (\<And>x. reader_op (g x)) \<Longrightarrow>
   reader_op (\<lambda>r. bindr m (\<lambda>x. g x r))"
  by (cases m) (fastforce intro: reader_op_fail elim: is_decode.elims)+

lemma reader_op_read_bytes [reader_ops]: "reader_op (read_bytes n)"
proof
  fix r x r'
  assume rd: "read_bytes n r = Inr (x, r')" and ok: "rd_ok r"
  then show "rd_buf r' = rd_buf r \<and> rd_pos r \<le> rd_pos r' \<and> rd_ok r'"
    by (auto simp: read_bytes_def checked_add_usize_def rd_ok_def split: if_splits)
  fix ext
  assume "length (rd_buf r @ ext) < 2 ^ 64"
  with rd ok show "read_bytes n (extend_buf ext r) = Inr (x, extend_buf ext r')"
    by (auto simp: read_bytes_def checked_add_usize_def rd_ok_def extend_buf_def split: if_splits)
next
  show "read_bytes n r = Inl e \<Longrightarrow> is_decode e" for r e
    by (auto simp: read_bytes_def split: option.splits if_splits)
qed

lemma reader_op_u8 [reader_ops]: "reader_op read_u8"
  unfolding read_u8_def [abs_def] by (intro reader_ops)

lemma reader_op_i32 [reader_ops]: "reader_op read_i32"
  unfolding read_i32_def [abs_def] by (intro reader_ops)

lemma reader_op_i64 [reader_ops]: "reader_op read_i64"
  unfolding read_i64_def [abs_def] by (intro reader_ops)

lemma reader_op_packed_bits [reader_ops]: "reader_op (read_packed_bits n)"
  unfolding read_packed_bits_def [abs_def] by (intro reader_ops)

lemma reader_op_null_indicators [reader_ops]: "reader_op (read_null_indicators n)"
  unfolding read_null_indicators_def [abs_def] by (intro reader_ops)

lemma decode_dense_abs:
  "decode_dense rd [] = (\<lambda>r. Inr ([], r))"
  "decode_dense rd (null # nulls) = (\<lambda>r.
     if null then bindr (decode_dense rd nulls r) (\<lambda>(vs, r). Inr (VNull # vs, r))
     else bindr (rd r) (\<lambda>(v, r). bindr (decode_dense rd nulls r) (\<lambda>(vs, r). Inr (v # vs, r))))"
  by (simp_all add: fun_eq_iff)

lemma reader_op_dense [reader_ops]: "reader_op rd \<Longrightarrow> reader_op (decode_dense rd nulls)"
proof (induction nulls)
  case Nil
  show ?case unfolding decode_dense_abs by (intro reader_ops)
next
  case (Cons null nulls)
  then show ?case unfolding decode_dense_abs by (intro reader_ops)
qed

lemma reader_op_int32_elem [reader_ops]: "reader_op (int32_elem ty)"
  unfolding int32_elem_def [abs_def] by (cases ty) (auto intro!: reader_ops)

lemma reader_op_int64_elem [reader_ops]: "reader_op (int64_elem ty)"
  unfolding int64_elem_def [abs_def] by (cases ty) (auto intro!: reader_ops)

lemma decode_utf8_fails: "decode_utf8 b = Inl e \<Longrightarrow> is_decode e"
  by (auto simp: decode_utf8_def split: option.splits)

lemma time_values_fail: "traverse time_value vs = Inl e \<Longrightarrow> is_decode e"
  by (induction vs) (auto simp: bindr_eq_Inl time_value_def split: "ts_value.splits")

lemma reader_op_binary_elem [reader_ops]: "reader_op (binary_elem ty)"
  unfolding binary_elem_def [abs_def]
  by (cases ty) (auto intro!: reader_ops dest: decode_utf8_fails)

lemma reader_op_byte_array [reader_ops]: "reader_op (byte_array_column n)"
  unfolding byte_array_column_def [abs_def] by (intro reader_ops)

lemma reader_op_dense_column [reader_ops]: "reader_op rd \<Longrightarrow> reader_op (dense_column rd n)"
  unfolding dense_column_def [abs_def] by (intro reader_ops)

lemma decode_column_plain:
  assumes "enc \<noteq> ENCODING_RLE"
  shows "decode_column enc ty n =
     (if enc = ENCODING_BYTE_ARRAY then byte_array_column n
      else if enc = ENCODING_INT32_ARRAY then dense_column (int32_elem ty) n
      else if enc = ENCODING_INT64_ARRAY then dense_column (int64_elem ty) n
      else if enc = ENCODING_BINARY_ARRAY then dense_column (binary_elem ty) n
      else (\<lambda>r. Inl (Decode (UnknownEncoding enc))))"
  using assms by (auto simp: fun_eq_iff decode_column.simps)

lemma decode_column_rle:
  "decode_column ENCODING_RLE ty n = (\<lambda>r.
     bindr (read_u8 r) (\<lambda>(inner, r).
       if inner = ENCODING_RLE then Inl (Decode NestedRle)
       else bindr (decode_column inner ty 1 r) (\<lambda>(single, r).
         case single of [] \<Rightarrow> Inl (Decode EmptyRle) | v # _ \<Rightarrow> Inr (replicate n v, r))))"
  by (rule ext) (subst decode_column.simps, simp)

lemma reader_op_column_plain: "enc \<noteq> ENCODING_RLE \<Longrightarrow> reader_op (decode_column enc ty n)"
  by (simp add: decode_column_plain) (intro conjI impI reader_ops)

lemma reader_op_column [reader_ops]: "reader_op (decode_column enc ty n)"
proof (cases "enc = ENCODING_RLE")
  case False
  then show ?thesis by (rule reader_op_column_plain)
next
  case True
  have inner: "reader_op (\<lambda>r. if inner = ENCODING_RLE then Inl (Decode NestedRle)
       else bindr (decode_column inner ty 1 r) (\<lambda>(single, r).
         case single of [] \<Rightarrow> Inl (Decode EmptyRle) | v # _ \<Rightarrow> Inr (replicate n v, r)))" for inner
    by (cases "inner = ENCODING_RLE") (auto intro!: reader_ops reader_op_column_plain)
  show ?thesis unfolding True decode_column_rle by (rule reader_op_bind [OF reader_op_u8 inner])
qed

lemma reader_op_types [reader_ops]: "reader_op (read_types n)"
proof (induction n)
  case 0
  have "read_types 0 = (\<lambda>r. Inr ([], r))" by (simp add: fun_eq_iff)
  then show ?case by (simp add: reader_op_return)
next
  case (Suc n)
  have "read_types (Suc n) = (\<lambda>r. bindr (read_u8 r) (\<lambda>(code, r).
       case from_code code of None \<Rightarrow> Inl (Decode (UnknownTypeCode code))
       | Some ty \<Rightarrow> bindr (read_types n r) (\<lambda>(tys, r). Inr (ty # tys, r))))"
    by (simp add: fun_eq_iff)
  then show ?case using Suc by (simp only:) (intro reader_ops)
qed

lemma reader_op_encodings [reader_ops]: "reader_op (read_encodings n)"
proof (induction n)
  case 0
  have "read_encodings 0 = (\<lambda>r. Inr ([], r))" by (simp add: fun_eq_iff)
  then show ?case by (simp add: reader_op_return)
next
  case (Suc n)
  have "read_encodings (Suc n) = (\<lambda>r. bindr (read_u8 r) (\<lambda>(enc, r).
       bindr (read_encodings n r) (\<lambda>(encs, r). Inr (enc # encs, r))))"
    by (simp add: fun_eq_iff)
  then show ?case using Suc by (simp only:) (intro reader_ops)
qed

lemma reader_op_columns [reader_ops]: "reader_op (decode_columns cs n)"
proof (induction cs)
  case Nil
  have "decode_columns [] n = (\<lambda>r. Inr ([], r))" by (simp add: fun_eq_iff)
  then show ?case by (simp add: reader_op_return)
next
  case (Cons c cs)
  obtain enc ty where c: "c = (enc, ty)" by (cases c)
  have "decode_columns (c # cs) n = (\<lambda>r. bindr (decode_column enc ty n r) (\<lambda>(col, r).
       bindr (decode_columns cs n r) (\<lambda>(cols, r). Inr (col # cols, r))))"
    by (simp add: fun_eq_iff c)
  then show ?case using Cons by (simp only:) (intro reader_ops)
qed

lemma reader_op_body [reader_ops]: "reader_op (decode_body tys n te encs)"
  unfolding decode_body_def [abs_def] by (intro reader_ops) (erule time_values_fail)

lemma reader_op_block [reader_ops]: "reader_op decode_block"
  unfolding decode_block_def [abs_def] by (intro reader_ops)

interpretation block_reader: reader_op decode_block
  by (rule reader_op_block)

interpretation column_reader: reader_op "decode_column enc ty n" for enc ty n
  by (rule reader_op_column)

section \<open>Decoded blocks are rectangular and typed\<close>

text \<open>
  What a cell of a column with header type \<open>ty\<close> can be: null, a value of that type, a blob where
  a TEXT payload is not UTF-8, or a boolean, since the ByteArray branch does not look at the type.
\<close>

definition decoded_ok :: "ts_data_type \<Rightarrow> ts_value \<Rightarrow> bool" where
  "decoded_ok ty v \<longleftrightarrow> wf_value v \<and>
     (v = VNull \<or> data_type v = Some ty \<or> (\<exists>b. v = VBoolean b) \<or>
      (ty = TText \<and> (\<exists>b. v = VBlob b \<and> \<not> utf8_valid b)))"

definition wf_tsblock :: "tsblock \<Rightarrow> bool" where
  "wf_tsblock b \<longleftrightarrow>
     length (bk_timestamps b) = bk_position_count b \<and>
     list_all2 (\<lambda>ty col. length col = bk_position_count b \<and> list_all (decoded_ok ty) col)
       (bk_column_types b) (bk_columns b)"

text \<open>\<open>yields f P\<close>: whatever \<open>f\<close> returns satisfies \<open>P\<close>.\<close>

definition yields :: "(reader \<Rightarrow> ('a \<times> reader) result) \<Rightarrow> ('a \<Rightarrow> bool) \<Rightarrow> bool" where
  "yields f P \<longleftrightarrow> (\<forall>r x r'. f r = Inr (x, r') \<longrightarrow> P x)"

lemma yieldsD: "yields f P \<Longrightarrow> f r = Inr (x, r') \<Longrightarrow> P x"
  by (auto simp: yields_def)

lemma yields_bind:
  "yields f P \<Longrightarrow> (\<And>x. P x \<Longrightarrow> yields (g x) Q) \<Longrightarrow> yields (\<lambda>r. bindr (f r) (\<lambda>(x, r). g x r)) Q"
  by (fastforce simp: yields_def bindr_eq_Inr)

lemma yields_simps [simp]:
  "yields (\<lambda>r. Inr (x, r)) P \<longleftrightarrow> P x"
  "yields (\<lambda>r. Inl e) P"
  by (auto simp: yields_def)

lemma yields_true: "yields f (\<lambda>_. True)"
  by (simp add: yields_def)

lemma yields_packed_bits: "yields (read_packed_bits n) (\<lambda>bits. length bits = n)"
  unfolding read_packed_bits_def [abs_def]
  by (rule yields_bind [OF yields_true])
    (auto simp: yields_def unpack_bits_length split: option.splits)

lemma yields_null_indicators: "yields (read_null_indicators n) (\<lambda>nulls. length nulls = n)"
  unfolding read_null_indicators_def [abs_def]
proof (rule yields_bind [OF yields_true])
  fix flag :: u8
  show "yields (\<lambda>r. if flag = 0 then Inr (replicate n False, r) else read_packed_bits n r)
      (\<lambda>nulls. length nulls = n)"
    by (cases "flag = 0") (simp_all add: yields_packed_bits)
qed

lemma yields_dense:
  assumes "yields rd P" "P VNull"
  shows "yields (decode_dense rd nulls) (\<lambda>vs. length vs = length nulls \<and> list_all P vs)"
proof (induction nulls)
  case Nil
  show ?case by (simp add: decode_dense_abs)
next
  case (Cons null nulls)
  show ?case
  proof (cases null)
    case True
    then show ?thesis
      unfolding decode_dense_abs using assms(2)
      by (simp, intro yields_bind [OF Cons.IH]) simp
  next
    case False
    then show ?thesis
      unfolding decode_dense_abs
      by (simp, intro yields_bind [OF assms(1)] yields_bind [OF Cons.IH]) simp
  qed
qed

lemma yields_int32_elem: "yields (int32_elem ty) (decoded_ok ty)"
  unfolding int32_elem_def [abs_def]
  by (rule yields_bind [OF yields_true]) (cases ty; simp add: decoded_ok_def)

lemma yields_int64_elem: "yields (int64_elem ty) (decoded_ok ty)"
  unfolding int64_elem_def [abs_def]
  by (rule yields_bind [OF yields_true]) (cases ty; simp add: decoded_ok_def)

lemma decode_utf8_Inr: "decode_utf8 b = Inr s \<longleftrightarrow> from_utf8 b = Some s"
  by (auto simp: decode_utf8_def split: option.splits)

lemma yields_binary_elem: "yields (binary_elem ty) (decoded_ok ty)"
proof -
  have "yields (\<lambda>r. case ty of
           TBlob \<Rightarrow> Inr (VBlob b, r)
         | TText \<Rightarrow> (case from_utf8 b of Some s \<Rightarrow> Inr (VText s, r) | None \<Rightarrow> Inr (VBlob b, r))
         | TString \<Rightarrow> bindr (decode_utf8 b) (\<lambda>s. Inr (VString s, r))
         | _ \<Rightarrow> Inl (Decode (IncompatibleBinary ty))) (decoded_ok ty)" for b
    by (cases ty) (auto simp: yields_def decoded_ok_def bindr_eq_Inr decode_utf8_Inr from_utf8_def
        valid_str_def split: option.splits if_splits)
  then have "yields (\<lambda>r. if c then Inl e else bindr (read_bytes n r) (\<lambda>(b, r). case ty of
           TBlob \<Rightarrow> Inr (VBlob b, r)
         | TText \<Rightarrow> (case from_utf8 b of Some s \<Rightarrow> Inr (VText s, r) | None \<Rightarrow> Inr (VBlob b, r))
         | TString \<Rightarrow> bindr (decode_utf8 b) (\<lambda>s. Inr (VString s, r))
         | _ \<Rightarrow> Inl (Decode (IncompatibleBinary ty)))) (decoded_ok ty)" for c e n
    by (cases c) (auto intro!: yields_bind [OF yields_true])
  then show ?thesis
    unfolding binary_elem_def [abs_def] by (intro yields_bind [OF yields_true])
qed

abbreviation column_ok :: "nat \<Rightarrow> ts_data_type \<Rightarrow> ts_value list \<Rightarrow> bool" where
  "column_ok n ty col \<equiv> length col = n \<and> list_all (decoded_ok ty) col"

lemma yields_byte_array: "yields (byte_array_column n) (column_ok n ty)"
  unfolding byte_array_column_def [abs_def]
  by (intro yields_bind [OF yields_null_indicators] yields_bind [OF yields_packed_bits])
    (auto simp: list_all_iff decoded_ok_def)

lemma yields_dense_column:
  assumes "yields rd (decoded_ok ty)"
  shows "yields (dense_column rd n) (column_ok n ty)"
proof -
  have null: "decoded_ok ty VNull" by (simp add: decoded_ok_def)
  have "yields (decode_dense rd nulls) (column_ok n ty)" if "length nulls = n" for nulls
    using yields_dense [OF assms null, of nulls] that by simp
  then show ?thesis
    unfolding dense_column_def [abs_def] by (intro yields_bind [OF yields_null_indicators])
qed

lemma yields_column: "yields (decode_column enc ty n) (column_ok n ty)"
proof -
  have plain: "yields (decode_column enc ty n) (column_ok n ty)" if "enc \<noteq> ENCODING_RLE" for enc n
    using that by (simp add: decode_column_plain yields_byte_array yields_dense_column
        yields_int32_elem yields_int64_elem yields_binary_elem)
  have rle: "yields (\<lambda>r. if inner = ENCODING_RLE then Inl (Decode NestedRle)
       else bindr (decode_column inner ty 1 r) (\<lambda>(single, r).
         case single of [] \<Rightarrow> Inl (Decode EmptyRle) | v # _ \<Rightarrow> Inr (replicate n v, r)))
      (column_ok n ty)" for inner
  proof (cases "inner = ENCODING_RLE")
    case False
    have "yields (\<lambda>r. case single of [] \<Rightarrow> Inl (Decode EmptyRle) | v # _ \<Rightarrow> Inr (replicate n v, r))
        (column_ok n ty)" if "column_ok 1 ty single" for single
      using that by (cases single) (auto simp: list_all_iff)
    with False show ?thesis by (simp add: yields_bind [OF plain [OF False]])
  qed simp
  show ?thesis
  proof (cases "enc = ENCODING_RLE")
    case True
    show ?thesis unfolding True decode_column_rle by (rule yields_bind [OF yields_true rle])
  qed (rule plain)
qed

lemma yields_types: "yields (read_types n) (\<lambda>tys. length tys = n)"
  unfolding yields_def
  by (induction n) (fastforce simp: bindr_eq_Inr split: option.splits)+

lemma yields_encodings: "yields (read_encodings n) (\<lambda>encs. length encs = n)"
  unfolding yields_def
  by (induction n) (fastforce simp: bindr_eq_Inr)+

lemma yields_columns:
  "yields (decode_columns cs n) (list_all2 (\<lambda>(enc, ty). column_ok n ty) cs)"
proof (induction cs)
  case Nil
  show ?case by (simp add: yields_def)
next
  case (Cons c cs)
  obtain enc ty where c: "c = (enc, ty)" by (cases c)
  show ?case
    using Cons yields_column [of enc ty n]
    unfolding yields_def c by (fastforce simp: bindr_eq_Inr)
qed

lemma traverse_length: "traverse f xs = Inr ys \<Longrightarrow> length ys = length xs"
  by (auto simp: traverse_eq_Inr dest: list_all2_lengthD)

lemma decode_block_wf:
  assumes "decode_block r = Inr (b, r')"
  shows "wf_tsblock b"
proof -
  obtain tys pc encs tc ts cols r1 r2 r3 r4 r5 r6 r7 r8 cc te where
    tys: "read_types (nat (sint (cc :: i32))) r1 = Inr (tys, r2)"
    and encs: "read_encodings (nat (sint cc)) r3 = Inr (encs, r4)"
    and time: "decode_column te TInt64 (nat (sint (pc :: i32))) r5 = Inr (tc, r6)"
    and ts: "traverse time_value tc = Inr ts"
    and cols: "decode_columns (zip encs tys) (nat (sint pc)) r7 = Inr (cols, r8)"
    and b: "b = \<lparr>bk_position_count = nat (sint pc), bk_column_types = tys,
                bk_timestamps = ts, bk_columns = cols\<rparr>"
    using assms by (auto simp: decode_block_def decode_body_def bindr_eq_Inr split: if_splits)
  have len: "length encs = length tys"
    using yieldsD [OF yields_types tys] yieldsD [OF yields_encodings encs] by simp
  have "list_all2 (\<lambda>(enc, ty). column_ok (nat (sint pc)) ty) (zip encs tys) cols"
    by (rule yieldsD [OF yields_columns cols])
  then have "list_all2 (\<lambda>ty. column_ok (nat (sint pc)) ty) tys cols"
    using len by (auto simp: list_all2_conv_all_nth)
  moreover have "length ts = nat (sint pc)"
    using yieldsD [OF yields_column time] traverse_length [OF ts] by simp
  ultimately show ?thesis by (simp add: b wf_tsblock_def)
qed

lemma decode_wf: "decode bs = Inr b \<Longrightarrow> wf_tsblock b"
  by (auto simp: decode_def bindr_eq_Inr dest: decode_block_wf)

text \<open>Every failure of the decoder is a decode error.\<close>

lemma decode_fails: "decode bs = Inl e \<Longrightarrow> is_decode e"
  by (auto simp: decode_def bindr_eq_Inl dest: block_reader.fails)

section \<open>Properties\<close>

text \<open>
  C21: whatever bytes the server sends, a block that decodes is rectangular and typed: one
  timestamp per position, one column per header type, every column as long as the position
  count, every cell null, of the column's type, or one of the two documented exceptions.
\<close>

theorem decode_rectangular: "decode bs = Inr b \<Longrightarrow> wf_tsblock b"
  by (rule decode_wf)

theorem decode_rectangular_witness:
  "\<exists>b. decode [0, 0, 0, 1, 1, 0, 0, 0, 1, 2, 1, 0, 0, 0, 0, 0, 0, 0, 0, 5, 0, 0, 0, 0, 7] = Inr b \<and>
     wf_tsblock b \<and> bk_columns b = [[VInt32 7]]"
proof -
  have "decode [0, 0, 0, 1, 1, 0, 0, 0, 1, 2, 1, 0, 0, 0, 0, 0, 0, 0, 0, 5, 0, 0, 0, 0, 7] =
      Inr \<lparr>bk_position_count = 1, bk_column_types = [TInt32], bk_timestamps = [5], bk_columns = [[VInt32 7]]\<rparr>"
    by code_simp
  then show ?thesis using decode_rectangular by fastforce
qed

text \<open>
  The column decoder depends only on the bytes it consumes and never leaves the buffer: a
  column that decodes from some position decodes to the same values, stopping at the same
  position inside the buffer, whatever bytes follow.
\<close>

lemma decode_column_local:
  assumes "decode_column enc ty n \<lparr>rd_buf = bs, rd_pos = p\<rparr> = Inr (vs, r')" "p \<le> length bs"
    "length (bs @ ext) < 2 ^ 64"
  shows "decode_column enc ty n \<lparr>rd_buf = bs @ ext, rd_pos = p\<rparr> =
           Inr (vs, \<lparr>rd_buf = bs @ ext, rd_pos = rd_pos r'\<rparr>) \<and>
         p \<le> rd_pos r' \<and> rd_pos r' \<le> length bs"
  using column_reader.only_consumed_bytes [OF assms] column_reader.advances [OF assms(1)] assms(2)
  by (auto simp: rd_ok_def)

text \<open>Decoding fails only with a decode error: no other error and no out-of-range access.\<close>

lemma decode_error_kind: "decode bs = Inl e \<Longrightarrow> \<exists>m. e = Decode m"
  using decode_fails [of bs e] by (cases e) auto

end
