(* ===== verification/TsBlockFormat.thy ===== *)
theory TsBlockFormat
  imports TsBlockProps
begin

text \<open>
  The documented TsBlock layout as an encoder, and the round trip: whatever block is laid out
  by \<open>encode_block\<close> (any mix of plain and run-length columns, any null pattern) the decoder
  returns exactly, and it rejects every proper prefix of it. \<open>header\<close>, \<open>time_column\<close> and
  \<open>int32_block\<close> are the encoding helpers that \<^verbatim>\<open>src/data/tsblock.rs\<close> keeps for its tests; they
  are instances of the layout.
\<close>

section \<open>The layout\<close>

text \<open>Bits most significant first, the last byte padded with zeros.\<close>

definition pack_msb :: "bool list \<Rightarrow> bytes" where
  "pack_msb bits =
     map (\<lambda>k. horner_sum of_bool 2
                (map (\<lambda>j. 8 * k + (7 - j) < length bits \<and> bits ! (8 * k + (7 - j))) [0..<8]))
       [0..<div_ceil (length bits) 8]"

definition null_flags :: "ts_value list \<Rightarrow> bytes" where
  "null_flags vs = (if list_ex is_null vs then 1 # pack_msb (map is_null vs) else [0])"

fun plain_bytes :: "ts_value \<Rightarrow> bytes" where
  "plain_bytes (VInt32 v) = to_be 4 v"
| "plain_bytes (VDate v) = to_be 4 v"
| "plain_bytes (VFloat v) = to_be 4 v"
| "plain_bytes (VInt64 v) = to_be 8 v"
| "plain_bytes (VTimestamp v) = to_be 8 v"
| "plain_bytes (VDouble v) = to_be 8 v"
| "plain_bytes (VText s) = to_be 4 (word_of_nat (length s) :: i32) @ as_bytes s"
| "plain_bytes (VString s) = to_be 4 (word_of_nat (length s) :: i32) @ as_bytes s"
| "plain_bytes (VBlob b) = to_be 4 (word_of_nat (length b) :: i32) @ b"
| "plain_bytes _ = []"

definition plain_column :: "u8 \<Rightarrow> ts_value list \<Rightarrow> bytes" where
  "plain_column enc vs =
     null_flags vs @
     (if enc = ENCODING_BYTE_ARRAY then pack_msb (map (\<lambda>v. v = VBoolean True) vs)
      else concat (map plain_bytes (filter (\<lambda>v. \<not> is_null v) vs)))"

datatype column_layout = Plain u8 "ts_value list" | Rle u8 ts_value

fun layout_byte :: "column_layout \<Rightarrow> u8" where
  "layout_byte (Plain enc vs) = enc"
| "layout_byte (Rle inner v) = ENCODING_RLE"

fun layout_bytes :: "column_layout \<Rightarrow> bytes" where
  "layout_bytes (Plain enc vs) = plain_column enc vs"
| "layout_bytes (Rle inner v) = inner # plain_column inner [v]"

fun layout_values :: "nat \<Rightarrow> column_layout \<Rightarrow> ts_value list" where
  "layout_values n (Plain enc vs) = vs"
| "layout_values n (Rle inner v) = replicate n v"

definition encode_block ::
    "ts_data_type list \<Rightarrow> nat \<Rightarrow> column_layout \<Rightarrow> column_layout list \<Rightarrow> bytes" where
  "encode_block tys n time cols =
     to_be 4 (word_of_nat (length tys) :: i32) @ map (\<lambda>ty. ucast (type_code_of ty)) tys @
     to_be 4 (word_of_nat n :: i32) @ [layout_byte time] @ map layout_byte cols @
     layout_bytes time @ concat (map layout_bytes cols)"

text \<open>The test helpers of \<^verbatim>\<open>tsblock.rs\<close> (module \<^verbatim>\<open>test_util\<close>).\<close>

definition header :: "ts_data_type list \<Rightarrow> i32 \<Rightarrow> bytes \<Rightarrow> bytes" where
  "header tys position_count encodings =
     to_be 4 (word_of_nat (length tys) :: i32) @ map (\<lambda>ty. ucast (type_code_of ty)) tys @
     to_be 4 position_count @ [ENCODING_INT64_ARRAY] @ encodings"

definition time_column :: "i64 list \<Rightarrow> bytes" where
  "time_column ts = [0] @ concat (map (to_be 8) ts)"

definition int32_block :: "i64 list \<Rightarrow> i32 list \<Rightarrow> bytes" where
  "int32_block ts vals =
     header [TInt32] (word_of_nat (length ts)) [ENCODING_INT32_ARRAY] @ time_column ts @ [0] @
     concat (map (to_be 4) vals)"

text \<open>Which values an encoding can carry in a column of a type.\<close>

definition elem_fits :: "u8 \<Rightarrow> ts_data_type \<Rightarrow> ts_value \<Rightarrow> bool" where
  "elem_fits enc ty v =
     (case v of
        VNull \<Rightarrow> enc \<in> {ENCODING_BYTE_ARRAY, ENCODING_INT32_ARRAY, ENCODING_INT64_ARRAY, ENCODING_BINARY_ARRAY}
      | VBoolean _ \<Rightarrow> enc = ENCODING_BYTE_ARRAY
      | VInt32 _ \<Rightarrow> enc = ENCODING_INT32_ARRAY \<and> ty = TInt32
      | VDate _ \<Rightarrow> enc = ENCODING_INT32_ARRAY \<and> ty = TDate
      | VFloat _ \<Rightarrow> enc = ENCODING_INT32_ARRAY \<and> ty = TFloat
      | VInt64 _ \<Rightarrow> enc = ENCODING_INT64_ARRAY \<and> ty = TInt64
      | VTimestamp _ \<Rightarrow> enc = ENCODING_INT64_ARRAY \<and> ty = TTimestamp
      | VDouble _ \<Rightarrow> enc = ENCODING_INT64_ARRAY \<and> ty = TDouble
      | VText s \<Rightarrow> enc = ENCODING_BINARY_ARRAY \<and> ty = TText \<and> valid_str s \<and> length s < 2 ^ 31
      | VString s \<Rightarrow> enc = ENCODING_BINARY_ARRAY \<and> ty = TString \<and> valid_str s \<and> length s < 2 ^ 31
      | VBlob b \<Rightarrow> enc = ENCODING_BINARY_ARRAY \<and> length b < 2 ^ 31 \<and>
                  (ty = TBlob \<or> ty = TText \<and> \<not> utf8_valid b))"

fun layout_fits :: "nat \<Rightarrow> ts_data_type \<Rightarrow> column_layout \<Rightarrow> bool" where
  "layout_fits n ty (Plain enc vs) = (length vs = n \<and> list_all (elem_fits enc ty) vs \<and>
     enc \<in> {ENCODING_BYTE_ARRAY, ENCODING_INT32_ARRAY, ENCODING_INT64_ARRAY, ENCODING_BINARY_ARRAY})"
| "layout_fits n ty (Rle inner v) = elem_fits inner ty v"

section \<open>Readers that recover what was laid out\<close>

definition reads :: "(reader \<Rightarrow> ('a \<times> reader) result) \<Rightarrow> bytes \<Rightarrow> 'a \<Rightarrow> bool" where
  "reads f xs v \<longleftrightarrow>
     (\<forall>r rest. rd_ok r \<longrightarrow> length (rd_buf r) < 2 ^ 64 \<longrightarrow> drop (rd_pos r) (rd_buf r) = xs @ rest \<longrightarrow>
        f r = Inr (v, r\<lparr>rd_pos := rd_pos r + length xs\<rparr>))"

lemma readsD:
  "reads f xs v \<Longrightarrow> rd_ok r \<Longrightarrow> length (rd_buf r) < 2 ^ 64 \<Longrightarrow> drop (rd_pos r) (rd_buf r) = xs @ rest \<Longrightarrow>
   f r = Inr (v, r\<lparr>rd_pos := rd_pos r + length xs\<rparr>)"
  unfolding reads_def by blast

lemma reads_return: "reads (\<lambda>r. Inr (v, r)) [] v"
  by (simp add: reads_def)

lemma drop_append_len:
  assumes "p \<le> length b" "drop p b = xs @ ys"
  shows "p + length xs \<le> length b \<and> drop (p + length xs) b = ys"
proof -
  have "length b - p = length xs + length ys"
    using arg_cong [OF assms(2), of length] by simp
  moreover have "drop (p + length xs) b = drop (length xs) (drop p b)"
    by (simp add: add.commute)
  ultimately show ?thesis using assms by auto
qed

lemma reads_bind:
  assumes f: "reads f xs v" and g: "reads (g v) ys w"
  shows "reads (\<lambda>r. bindr (f r) (\<lambda>(x, r). g x r)) (xs @ ys) w"
  unfolding reads_def
proof (intro allI impI)
  fix r rest
  assume ok: "rd_ok r" "length (rd_buf r) < 2 ^ 64" and d: "drop (rd_pos r) (rd_buf r) = (xs @ ys) @ rest"
  let ?r = "r\<lparr>rd_pos := rd_pos r + length xs\<rparr>"
  have "f r = Inr (v, ?r)" using readsD [OF f ok, of "ys @ rest"] d by simp
  moreover have "rd_ok ?r \<and> drop (rd_pos ?r) (rd_buf ?r) = ys @ rest"
    using drop_append_len [of "rd_pos r" "rd_buf r" xs "ys @ rest"] ok(1) d by (simp add: rd_ok_def)
  then have "g v ?r = Inr (w, ?r\<lparr>rd_pos := rd_pos ?r + length ys\<rparr>)"
    using ok(2) by (intro readsD [OF g]) auto
  ultimately show "bindr (f r) (\<lambda>(x, r). g x r) = Inr (w, r\<lparr>rd_pos := rd_pos r + length (xs @ ys)\<rparr>)"
    by (simp add: add.assoc)
qed

lemma reads_read_bytes: "length xs = n \<Longrightarrow> reads (read_bytes n) xs xs"
proof -
  have "rd_pos r + length xs \<le> length (rd_buf r)"
    if "rd_ok r" "drop (rd_pos r) (rd_buf r) = xs @ rest" for r rest
    using drop_append_len [of "rd_pos r" "rd_buf r" xs rest] that by (simp add: rd_ok_def)
  then show "length xs = n \<Longrightarrow> reads (read_bytes n) xs xs"
    by (fastforce simp: reads_def read_bytes_def checked_add_usize_def)
qed

lemma reads_bind_return: "reads f xs v \<Longrightarrow> reads (\<lambda>r. bindr (f r) (\<lambda>(x, r). Inr (g x, r))) xs (g v)"
  using reads_bind [where f = f and xs = xs and v = v and g = "\<lambda>x r. Inr (g x, r)" and ys = "[]"]
  by (simp add: reads_return)

lemma reads_u8: "reads read_u8 [b] b"
  unfolding read_u8_def [abs_def]
  using reads_bind_return [OF reads_read_bytes [of "[b]" 1], of "\<lambda>b. b ! 0"] by simp

lemma reads_i32: "reads read_i32 (to_be 4 w) w"
  unfolding read_i32_def [abs_def]
  using reads_bind_return [OF reads_read_bytes [of "to_be 4 w" 4], of "from_be :: bytes \<Rightarrow> i32"] by simp

lemma reads_i64: "reads read_i64 (to_be 8 w) w"
  unfolding read_i64_def [abs_def]
  using reads_bind_return [OF reads_read_bytes [of "to_be 8 w" 8], of "from_be :: bytes \<Rightarrow> i64"] by simp

section \<open>Bits\<close>

lemma length_pack_msb [simp]: "length (pack_msb bits) = div_ceil (length bits) 8"
  by (simp add: pack_msb_def)

lemma unpack_pack_msb: "unpack_bits_msb_first (pack_msb bits) (length bits) = Some bits"
proof -
  have "bit (pack_msb bits ! (i div 8)) (7 - i mod 8) = bits ! i" if i: "i < length bits" for i
  proof -
    have "i div 8 < div_ceil (length bits) 8" using i by (rule div_ceil_8_less)
    moreover have "8 * (i div 8) + (7 - (7 - i mod 8)) = i"
      using mult_div_mod_eq [of 8 i] by (simp add: diff_diff_cancel less_Suc_eq_le [symmetric])
    moreover have "7 - i mod 8 < 8" by (rule le_less_trans [OF diff_le_self]) simp
    ultimately show ?thesis
      using i by (simp add: pack_msb_def bit_horner_sum_bit_word_iff del: upt_conv_Cons)
  qed
  then have "map (\<lambda>i. bit (pack_msb bits ! (i div 8)) (7 - i mod 8)) [0..<length bits] = bits"
    by (intro nth_equalityI) auto
  then show ?thesis by (simp add: unpack_bits_eq)
qed

lemma reads_packed_bits:
  assumes "length bits = n"
  shows "reads (read_packed_bits n) (pack_msb bits) bits"
proof -
  have "reads (\<lambda>r. bindr (read_bytes (div_ceil n 8) r) (\<lambda>(b, r).
       case unpack_bits_msb_first b n of None \<Rightarrow> Inl (Decode TruncatedBits) | Some bits \<Rightarrow> Inr (bits, r)))
     (pack_msb bits @ []) bits"
    using assms unpack_pack_msb [of bits]
    by (intro reads_bind [OF reads_read_bytes]) (simp_all add: reads_return)
  then show ?thesis by (simp add: read_packed_bits_def [abs_def])
qed

lemma reads_null_flags:
  assumes "length vs = n"
  shows "reads (read_null_indicators n) (null_flags vs) (map is_null vs)"
proof (cases "list_ex is_null vs")
  case True
  have "reads (\<lambda>r. bindr (read_u8 r) (\<lambda>(flag, r).
      if flag = 0 then Inr (replicate n False, r) else read_packed_bits n r))
      ([1] @ pack_msb (map is_null vs)) (map is_null vs)"
    using assms by (intro reads_bind [OF reads_u8]) (simp add: reads_packed_bits)
  with True show ?thesis by (simp add: read_null_indicators_def [abs_def] null_flags_def)
next
  case False
  then have "map is_null vs = replicate n False"
    using assms by (intro nth_equalityI) (auto simp: list_ex_iff)
  moreover have "reads (\<lambda>r. bindr (read_u8 r) (\<lambda>(flag, r).
      if flag = 0 then Inr (replicate n False, r) else read_packed_bits n r))
      ([0] @ []) (replicate n False)"
    by (intro reads_bind [OF reads_u8]) (simp add: reads_return)
  ultimately show ?thesis using False by (simp add: read_null_indicators_def [abs_def] null_flags_def)
qed

section \<open>Elements and columns\<close>

lemma reads_int32_elem:
  assumes "elem_fits ENCODING_INT32_ARRAY ty v" "\<not> is_null v"
  shows "reads (int32_elem ty) (plain_bytes v) v"
  using assms reads_bind_return [OF reads_i32]
  unfolding int32_elem_def [abs_def]
  by (cases v) (auto simp: elem_fits_def encoding_defs)

lemma reads_int64_elem:
  assumes "elem_fits ENCODING_INT64_ARRAY ty v" "\<not> is_null v"
  shows "reads (int64_elem ty) (plain_bytes v) v"
  using assms reads_bind_return [OF reads_i64]
  unfolding int64_elem_def [abs_def]
  by (cases v) (auto simp: elem_fits_def encoding_defs)

lemma reads_binary_elem_bytes:
  assumes "length b < 2 ^ 31"
    and "\<And>r :: reader. (case ty of
           TBlob \<Rightarrow> Inr (VBlob b, r)
         | TText \<Rightarrow> (case from_utf8 b of Some s \<Rightarrow> Inr (VText s, r) | None \<Rightarrow> Inr (VBlob b, r))
         | TString \<Rightarrow> bindr (decode_utf8 b) (\<lambda>s. Inr (VString s, r))
         | _ \<Rightarrow> Inl (Decode (IncompatibleBinary ty))) = Inr (v, r)"
  shows "reads (binary_elem ty) (to_be 4 (word_of_nat (length b) :: i32) @ b) v"
proof -
  let ?fin = "\<lambda>b r. case ty of
           TBlob \<Rightarrow> Inr (VBlob b, r)
         | TText \<Rightarrow> (case from_utf8 b of Some s \<Rightarrow> Inr (VText s, r) | None \<Rightarrow> Inr (VBlob b, r))
         | TString \<Rightarrow> bindr (decode_utf8 b) (\<lambda>s. Inr (VString s, r))
         | _ \<Rightarrow> Inl (Decode (IncompatibleBinary ty))"
  have "reads (?fin b) [] v" by (simp add: reads_def assms(2))
  then have "reads (\<lambda>r. bindr (read_bytes (length b) r) (\<lambda>(b, r). ?fin b r)) (b @ []) v"
    by (intro reads_bind [OF reads_read_bytes]) simp_all
  then have "reads (\<lambda>r. if sint (word_of_nat (length b) :: i32) < 0
      then Inl (Decode (NegativeBinaryLength (word_of_nat (length b))))
      else bindr (read_bytes (nat (sint (word_of_nat (length b) :: i32))) r) (\<lambda>(b, r). ?fin b r)) b v"
    using assms(1) by (simp add: sint_of_nat_i32)
  then show ?thesis
    unfolding binary_elem_def [abs_def] by (intro reads_bind [OF reads_i32])
qed

lemma reads_binary_elem:
  assumes "elem_fits ENCODING_BINARY_ARRAY ty v" "\<not> is_null v"
  shows "reads (binary_elem ty) (plain_bytes v) v"
proof (cases v)
  case (VText s)
  with assms show ?thesis
    using reads_binary_elem_bytes [of "as_bytes s" ty v]
    by (simp add: elem_fits_def from_utf8_as_bytes)
next
  case (VString s)
  with assms show ?thesis
    using reads_binary_elem_bytes [of "as_bytes s" ty v]
    by (simp add: elem_fits_def from_utf8_as_bytes decode_utf8_def)
next
  case (VBlob b)
  with assms show ?thesis
    using reads_binary_elem_bytes [of b ty v]
    by (auto simp: elem_fits_def from_utf8_def)
qed (use assms in \<open>auto simp: elem_fits_def encoding_defs\<close>)

lemma reads_dense:
  assumes "\<And>v. v \<in> set vs \<Longrightarrow> \<not> is_null v \<Longrightarrow> reads rd (plain_bytes v) v"
  shows "reads (decode_dense rd (map is_null vs))
    (concat (map plain_bytes (filter (\<lambda>v. \<not> is_null v) vs))) vs"
  using assms
proof (induction vs)
  case Nil
  then show ?case by (simp add: decode_dense_abs reads_return)
next
  case (Cons v vs)
  let ?rest = "concat (map plain_bytes (filter (\<lambda>v. \<not> is_null v) vs))"
  have IH: "reads (decode_dense rd (map is_null vs)) ?rest vs"
    using Cons by simp
  show ?case
  proof (cases "is_null v")
    case True
    then have "v = VNull" by (simp add: is_null_iff)
    then show ?thesis using reads_bind_return [OF IH, of "Cons VNull"] by (simp add: decode_dense_abs)
  next
    case False
    have "reads (\<lambda>r. bindr (rd r) (\<lambda>(v, r). bindr (decode_dense rd (map is_null vs) r)
        (\<lambda>(vs, r). Inr (v # vs, r)))) (plain_bytes v @ ?rest) (v # vs)"
      using Cons.prems False
      by (intro reads_bind [where v = v and g = "\<lambda>v r. bindr (decode_dense rd (map is_null vs) r)
        (\<lambda>(vs, r). Inr (v # vs, r))"] reads_bind_return [OF IH]) simp
    with False show ?thesis by (simp add: decode_dense_abs)
  qed
qed

lemma reads_dense_column:
  assumes "length vs = n" "\<And>v. v \<in> set vs \<Longrightarrow> \<not> is_null v \<Longrightarrow> reads rd (plain_bytes v) v"
  shows "reads (dense_column rd n)
    (null_flags vs @ concat (map plain_bytes (filter (\<lambda>v. \<not> is_null v) vs))) vs"
  unfolding dense_column_def [abs_def]
  by (intro reads_bind [OF reads_null_flags [OF assms(1)]] reads_dense assms(2))

lemma elem_fits_byte_array:
  "elem_fits ENCODING_BYTE_ARRAY ty v \<Longrightarrow> v = VNull \<or> (\<exists>b. v = VBoolean b)"
  by (cases v) (auto simp: elem_fits_def encoding_defs)

lemma reads_byte_array:
  assumes "length vs = n" "list_all (elem_fits ENCODING_BYTE_ARRAY ty) vs"
  shows "reads (byte_array_column n) (null_flags vs @ pack_msb (map (\<lambda>v. v = VBoolean True) vs)) vs"
proof -
  let ?bits = "map (\<lambda>v. v = VBoolean True) vs"
  have cell: "v = VNull \<or> (\<exists>b. v = VBoolean b)" if "v \<in> set vs" for v
    using that assms(2) by (simp only: list_all_iff) (blast dest: elem_fits_byte_array)
  have vs: "map (\<lambda>i. if map is_null vs ! i then VNull else VBoolean (?bits ! i)) [0..<n] = vs"
  proof (intro nth_equalityI)
    fix i assume "i < length (map (\<lambda>i. if map is_null vs ! i then VNull else VBoolean (?bits ! i)) [0..<n])"
    then show "map (\<lambda>i. if map is_null vs ! i then VNull else VBoolean (?bits ! i)) [0..<n] ! i = vs ! i"
      using assms(1) cell [of "vs ! i"] by (auto simp: is_null_iff)
  qed (use assms in simp)
  have "reads (\<lambda>r. bindr (read_packed_bits n r) (\<lambda>(bits, r).
       Inr (map (\<lambda>i. if map is_null vs ! i then VNull else VBoolean (bits ! i)) [0..<n], r)))
      (pack_msb ?bits) vs"
    using reads_bind_return [OF reads_packed_bits [of ?bits n],
        of "\<lambda>bits. map (\<lambda>i. if map is_null vs ! i then VNull else VBoolean (bits ! i)) [0..<n]"]
      assms(1) vs by simp
  then show ?thesis
    unfolding byte_array_column_def [abs_def]
    by (intro reads_bind [OF reads_null_flags [OF assms(1)]])
qed

lemma reads_plain_column:
  assumes "layout_fits n ty (Plain enc vs)"
  shows "reads (decode_column enc ty n) (plain_column enc vs) vs"
proof -
  have len: "length vs = n" and fits: "list_all (elem_fits enc ty) vs"
    and enc: "enc = ENCODING_BYTE_ARRAY \<or> enc = ENCODING_INT32_ARRAY \<or> enc = ENCODING_INT64_ARRAY \<or>
              enc = ENCODING_BINARY_ARRAY"
    using assms by auto
  have f: "elem_fits enc ty v" if "v \<in> set vs" for v using fits that by (simp add: list_all_iff)
  from enc show ?thesis
  proof (elim disjE)
    assume e: "enc = ENCODING_BYTE_ARRAY"
    then show ?thesis
      using reads_byte_array [OF len, of ty] fits
      by (simp add: decode_column_plain plain_column_def encoding_defs)
  next
    assume e: "enc = ENCODING_INT32_ARRAY"
    then have "reads (dense_column (int32_elem ty) n)
        (null_flags vs @ concat (map plain_bytes (filter (\<lambda>v. \<not> is_null v) vs))) vs"
      using f by (intro reads_dense_column [OF len] reads_int32_elem) auto
    then show ?thesis by (simp add: e decode_column_plain plain_column_def encoding_defs)
  next
    assume e: "enc = ENCODING_INT64_ARRAY"
    then have "reads (dense_column (int64_elem ty) n)
        (null_flags vs @ concat (map plain_bytes (filter (\<lambda>v. \<not> is_null v) vs))) vs"
      using f by (intro reads_dense_column [OF len] reads_int64_elem) auto
    then show ?thesis by (simp add: e decode_column_plain plain_column_def encoding_defs)
  next
    assume e: "enc = ENCODING_BINARY_ARRAY"
    then have "reads (dense_column (binary_elem ty) n)
        (null_flags vs @ concat (map plain_bytes (filter (\<lambda>v. \<not> is_null v) vs))) vs"
      using f by (intro reads_dense_column [OF len] reads_binary_elem) auto
    then show ?thesis by (simp add: e decode_column_plain plain_column_def encoding_defs)
  qed
qed

lemma elem_fits_encoding:
  "elem_fits enc ty v \<Longrightarrow>
   enc \<in> {ENCODING_BYTE_ARRAY, ENCODING_INT32_ARRAY, ENCODING_INT64_ARRAY, ENCODING_BINARY_ARRAY}"
  by (auto simp: elem_fits_def split: "ts_value.splits")

lemma reads_column:
  assumes "layout_fits n ty lay"
  shows "reads (decode_column (layout_byte lay) ty n) (layout_bytes lay) (layout_values n lay)"
proof (cases lay)
  case (Plain enc vs)
  with assms show ?thesis by (simp only: layout_byte.simps layout_bytes.simps layout_values.simps reads_plain_column)
next
  case (Rle inner v)
  with assms have v: "elem_fits inner ty v" by simp
  then have enc: "inner \<in> {ENCODING_BYTE_ARRAY, ENCODING_INT32_ARRAY, ENCODING_INT64_ARRAY, ENCODING_BINARY_ARRAY}"
    by (rule elem_fits_encoding)
  have "reads (decode_column inner ty 1) (plain_column inner [v]) [v]"
    using v enc by (intro reads_plain_column) simp
  then have "reads (\<lambda>r. bindr (decode_column inner ty 1 r) (\<lambda>(single, r).
      case single of [] \<Rightarrow> Inl (Decode EmptyRle) | v # _ \<Rightarrow> Inr (replicate n v, r)))
      (plain_column inner [v] @ []) (replicate n v)"
    by (rule reads_bind) (simp add: reads_return)
  moreover have "inner \<noteq> ENCODING_RLE" using enc by (auto simp: encoding_defs)
  ultimately have "reads (\<lambda>r. if inner = ENCODING_RLE then Inl (Decode NestedRle)
      else bindr (decode_column inner ty 1 r) (\<lambda>(single, r).
        case single of [] \<Rightarrow> Inl (Decode EmptyRle) | v # _ \<Rightarrow> Inr (replicate n v, r)))
      (plain_column inner [v]) (replicate n v)"
    by simp
  then have "reads (decode_column ENCODING_RLE ty n) ([inner] @ plain_column inner [v]) (replicate n v)"
    unfolding decode_column_rle by (rule reads_bind [OF reads_u8])
  with Rle show ?thesis by simp
qed

section \<open>The whole block\<close>

lemma reads_types: "reads (read_types (length tys)) (map (\<lambda>ty. ucast (type_code_of ty)) tys) tys"
proof (induction tys)
  case Nil
  have "read_types 0 = (\<lambda>r. Inr ([], r))" by (simp add: fun_eq_iff)
  then show ?case by (simp add: reads_return)
next
  case (Cons ty tys)
  let ?c = "ucast (type_code_of ty) :: u8"
  have "reads (\<lambda>r. bindr (read_types (length tys) r) (\<lambda>(tys, r). Inr (ty # tys, r)))
      (map (\<lambda>ty. ucast (type_code_of ty)) tys) (ty # tys)"
    by (rule reads_bind_return [OF Cons.IH])
  then have "reads (\<lambda>r. case from_code ?c of None \<Rightarrow> Inl (Decode (UnknownTypeCode ?c))
      | Some ty \<Rightarrow> bindr (read_types (length tys) r) (\<lambda>(tys, r). Inr (ty # tys, r)))
      (map (\<lambda>ty. ucast (type_code_of ty)) tys) (ty # tys)"
    by (simp add: from_code_code)
  then have "reads (\<lambda>r. bindr (read_u8 r) (\<lambda>(c, r).
      case from_code c of None \<Rightarrow> Inl (Decode (UnknownTypeCode c))
      | Some ty \<Rightarrow> bindr (read_types (length tys) r) (\<lambda>(tys, r). Inr (ty # tys, r))))
      ([?c] @ map (\<lambda>ty. ucast (type_code_of ty)) tys) (ty # tys)"
    by (rule reads_bind [OF reads_u8])
  moreover have "read_types (Suc (length tys)) = (\<lambda>r. bindr (read_u8 r) (\<lambda>(c, r).
      case from_code c of None \<Rightarrow> Inl (Decode (UnknownTypeCode c))
      | Some ty \<Rightarrow> bindr (read_types (length tys) r) (\<lambda>(tys, r). Inr (ty # tys, r))))"
    by (simp add: fun_eq_iff)
  ultimately show ?case by simp
qed

lemma reads_encodings: "reads (read_encodings (length encs)) encs encs"
proof (induction encs)
  case Nil
  have "read_encodings 0 = (\<lambda>r. Inr ([], r))" by (simp add: fun_eq_iff)
  then show ?case by (simp add: reads_return)
next
  case (Cons e encs)
  have "reads (\<lambda>r. bindr (read_u8 r) (\<lambda>(e, r).
      bindr (read_encodings (length encs) r) (\<lambda>(encs, r). Inr (e # encs, r)))) ([e] @ encs) (e # encs)"
    by (rule reads_bind [OF reads_u8 reads_bind_return [OF Cons.IH]])
  moreover have "read_encodings (Suc (length encs)) = (\<lambda>r. bindr (read_u8 r) (\<lambda>(e, r).
      bindr (read_encodings (length encs) r) (\<lambda>(encs, r). Inr (e # encs, r))))"
    by (simp add: fun_eq_iff)
  ultimately show ?case by simp
qed

lemma reads_columns:
  "list_all2 (layout_fits n) tys cols \<Longrightarrow>
   reads (decode_columns (zip (map layout_byte cols) tys) n)
     (concat (map layout_bytes cols)) (map (layout_values n) cols)"
proof (induction tys cols rule: list_all2_induct)
  case Nil
  have "decode_columns [] n = (\<lambda>r. Inr ([], r))" by (simp add: fun_eq_iff)
  then show ?case by (simp add: reads_return)
next
  case (Cons ty tys c cols)
  let ?cs = "zip (map layout_byte cols) tys"
  have "reads (\<lambda>r. bindr (decode_column (layout_byte c) ty n r) (\<lambda>(col, r).
      bindr (decode_columns ?cs n r) (\<lambda>(cols, r). Inr (col # cols, r))))
      (layout_bytes c @ concat (map layout_bytes cols)) (layout_values n c # map (layout_values n) cols)"
    by (rule reads_bind [OF reads_column [OF Cons(1)] reads_bind_return [OF Cons.IH]])
  moreover have "decode_columns ((layout_byte c, ty) # ?cs) n = (\<lambda>r.
      bindr (decode_column (layout_byte c) ty n r) (\<lambda>(col, r).
      bindr (decode_columns ?cs n r) (\<lambda>(cols, r). Inr (col # cols, r))))"
    by (simp add: fun_eq_iff)
  ultimately show ?case by simp
qed

text \<open>What makes a layout a block: counts that fit, columns that fit their types, INT64 times.\<close>

definition block_ok ::
    "ts_data_type list \<Rightarrow> nat \<Rightarrow> column_layout \<Rightarrow> column_layout list \<Rightarrow> i64 list \<Rightarrow> bool" where
  "block_ok tys n time cols ts \<longleftrightarrow>
     length tys < 2 ^ 31 \<and> n < 2 ^ 31 \<and> layout_fits n TInt64 time \<and>
     layout_values n time = map VInt64 ts \<and> list_all2 (layout_fits n) tys cols \<and>
     length (encode_block tys n time cols) < 2 ^ 64"

lemma block_ok_code [code]:
  "block_ok tys n time cols ts \<longleftrightarrow>
     int (length tys) < 2 ^ 31 \<and> int n < 2 ^ 31 \<and> layout_fits n TInt64 time \<and>
     layout_values n time = map VInt64 ts \<and> list_all2 (layout_fits n) tys cols \<and>
     int (length (encode_block tys n time cols)) < 2 ^ 64"
  by (simp add: block_ok_def)

lemma elem_fits_code [code]:
  "elem_fits enc ty v =
     (case v of
        VText s \<Rightarrow> enc = ENCODING_BINARY_ARRAY \<and> ty = TText \<and> valid_str s \<and> int (length s) < 2 ^ 31
      | VString s \<Rightarrow> enc = ENCODING_BINARY_ARRAY \<and> ty = TString \<and> valid_str s \<and> int (length s) < 2 ^ 31
      | VBlob b \<Rightarrow> enc = ENCODING_BINARY_ARRAY \<and> int (length b) < 2 ^ 31 \<and>
                  (ty = TBlob \<or> ty = TText \<and> \<not> utf8_valid b)
      | VNull \<Rightarrow> enc \<in> {ENCODING_BYTE_ARRAY, ENCODING_INT32_ARRAY, ENCODING_INT64_ARRAY, ENCODING_BINARY_ARRAY}
      | VBoolean _ \<Rightarrow> enc = ENCODING_BYTE_ARRAY
      | VInt32 _ \<Rightarrow> enc = ENCODING_INT32_ARRAY \<and> ty = TInt32
      | VDate _ \<Rightarrow> enc = ENCODING_INT32_ARRAY \<and> ty = TDate
      | VFloat _ \<Rightarrow> enc = ENCODING_INT32_ARRAY \<and> ty = TFloat
      | VInt64 _ \<Rightarrow> enc = ENCODING_INT64_ARRAY \<and> ty = TInt64
      | VTimestamp _ \<Rightarrow> enc = ENCODING_INT64_ARRAY \<and> ty = TTimestamp
      | VDouble _ \<Rightarrow> enc = ENCODING_INT64_ARRAY \<and> ty = TDouble)"
  by (cases v) (simp_all add: elem_fits_def)

lemma traverse_time_values: "traverse time_value (map VInt64 ts) = Inr ts"
  by (induction ts) (auto simp: time_value_def)

lemma reads_block:
  assumes "block_ok tys n time cols ts"
  shows "reads decode_block (encode_block tys n time cols)
    \<lparr>bk_position_count = n, bk_column_types = tys, bk_timestamps = ts,
     bk_columns = map (layout_values n) cols\<rparr>"
proof -
  let ?b = "\<lparr>bk_position_count = n, bk_column_types = tys, bk_timestamps = ts,
     bk_columns = map (layout_values n) cols\<rparr>"
  have n: "n < 2 ^ 31" "length tys < 2 ^ 31" and time: "layout_fits n TInt64 time"
    "layout_values n time = map VInt64 ts" and cols: "list_all2 (layout_fits n) tys cols"
    using assms by (auto simp: block_ok_def)
  have len: "length (map layout_byte cols) = length tys" using cols by (simp add: list_all2_lengthD)
  have "reads (\<lambda>r. bindr (traverse time_value (map VInt64 ts)) (\<lambda>timestamps.
      bindr (decode_columns (zip (map layout_byte cols) tys) n r) (\<lambda>(cols, r).
      Inr (\<lparr>bk_position_count = n, bk_column_types = tys, bk_timestamps = timestamps,
            bk_columns = cols\<rparr>, r)))) (concat (map layout_bytes cols)) ?b"
    unfolding traverse_time_values bindr_Inr by (rule reads_bind_return [OF reads_columns [OF cols]])
  then have 1: "reads (decode_body tys n (layout_byte time) (map layout_byte cols))
      (layout_bytes time @ concat (map layout_bytes cols)) ?b"
    unfolding decode_body_def [abs_def]
    using reads_column [OF time(1)] unfolding time(2) by (intro reads_bind)
  have 2: "reads (\<lambda>r. bindr (read_u8 r) (\<lambda>(te, r). bindr (read_encodings (length tys) r) (\<lambda>(encs, r).
        decode_body tys n te encs r)))
      ([layout_byte time] @ map layout_byte cols @ layout_bytes time @ concat (map layout_bytes cols)) ?b"
  proof (rule reads_bind [OF reads_u8])
    show "reads (\<lambda>r. bindr (read_encodings (length tys) r)
        (\<lambda>(encs, r). decode_body tys n (layout_byte time) encs r))
        (map layout_byte cols @ layout_bytes time @ concat (map layout_bytes cols)) ?b"
      using reads_encodings [of "map layout_byte cols"] 1 unfolding len by (rule reads_bind)
  qed
  let ?n = "word_of_nat n :: i32" and ?k = "word_of_nat (length tys) :: i32"
  have sint: "\<not> sint ?n < 0" "\<not> sint ?k < 0" "nat (sint ?n) = n" "nat (sint ?k) = length tys"
    using n by (simp_all add: sint_of_nat_i32)
  have 3: "reads (\<lambda>r. bindr (read_i32 r) (\<lambda>(pc, r).
        if sint pc < 0 then Inl (Decode (NegativePositionCount pc)) else
        bindr (read_u8 r) (\<lambda>(te, r). bindr (read_encodings (length tys) r) (\<lambda>(encs, r).
        decode_body tys (nat (sint pc)) te encs r))))
      (to_be 4 ?n @ [layout_byte time] @ map layout_byte cols @ layout_bytes time @
       concat (map layout_bytes cols)) ?b"
    using 2 by (intro reads_bind [OF reads_i32]) (simp only: sint if_False)
  show ?thesis
    unfolding decode_block_def [abs_def] encode_block_def
    by (rule reads_bind [OF reads_i32]) (simp only: sint if_False, rule reads_bind [OF reads_types], rule 3)
qed

lemma decode_encode_block:
  assumes "block_ok tys n time cols ts"
  shows "decode (encode_block tys n time cols) = Inr
    \<lparr>bk_position_count = n, bk_column_types = tys, bk_timestamps = ts,
     bk_columns = map (layout_values n) cols\<rparr>"
proof -
  have len: "length (encode_block tys n time cols) < 2 ^ 64"
    using assms by (simp add: block_ok_def)
  show ?thesis
    using readsD [OF reads_block [OF assms], of "reader_new (encode_block tys n time cols)" "[]"] len
    by (simp add: decode_def reader_new_def rd_ok_def)
qed

text \<open>
  A block cut short is rejected: had the decoder succeeded on a proper prefix, it would succeed
  on the whole with the same final position, but there it consumes every byte.
\<close>

lemma decode_prefix_fails:
  assumes ok: "block_ok tys n time cols ts"
    and cut: "encode_block tys n time cols = pre @ suf" "suf \<noteq> []"
  shows "\<exists>m. decode pre = Inl (Decode m)"
proof (cases "decode pre")
  case (Inl e)
  then have "is_decode e" by (rule decode_fails)
  with Inl show ?thesis by (cases e) auto
next
  case (Inr b)
  have len: "length (pre @ suf) < 2 ^ 64" using ok cut by (simp add: block_ok_def)
  obtain r' where r': "decode_block \<lparr>rd_buf = pre, rd_pos = 0\<rparr> = Inr (b, r')"
    using Inr by (auto simp: decode_def reader_new_def bindr_eq_Inr)
  have "rd_pos r' \<le> length pre"
    using block_reader.advances [OF r'] by (auto simp: rd_ok_def)
  moreover have "rd_pos r' = length (pre @ suf)"
    using block_reader.only_consumed_bytes [OF r' _ len]
      readsD [OF reads_block [OF ok], of "\<lparr>rd_buf = pre @ suf, rd_pos = 0\<rparr>" "[]"] len cut(1)
    by (simp add: rd_ok_def)
  ultimately show ?thesis using cut(2) by simp
qed

section \<open>The test helpers are instances of the layout\<close>

lemma plain_int64_column: "plain_column ENCODING_INT64_ARRAY (map VInt64 ts) = time_column ts"
proof -
  have "filter (\<lambda>v. \<not> is_null v) (map VInt64 ts) = map VInt64 ts" by (induction ts) auto
  moreover have "null_flags (map VInt64 ts) = [0]" by (auto simp: null_flags_def list_ex_iff)
  ultimately show ?thesis by (simp add: plain_column_def time_column_def encoding_defs comp_def)
qed

lemma plain_int32_column:
  "plain_column ENCODING_INT32_ARRAY (map VInt32 vals) = [0] @ concat (map (to_be 4) vals)"
proof -
  have "filter (\<lambda>v. \<not> is_null v) (map VInt32 vals) = map VInt32 vals" by (induction vals) auto
  moreover have "null_flags (map VInt32 vals) = [0]" by (auto simp: null_flags_def list_ex_iff)
  ultimately show ?thesis by (simp add: plain_column_def encoding_defs comp_def)
qed

lemma int32_block_layout:
  "int32_block ts vals = encode_block [TInt32] (length ts) (Plain ENCODING_INT64_ARRAY (map VInt64 ts))
     [Plain ENCODING_INT32_ARRAY (map VInt32 vals)]"
  by (simp add: int32_block_def encode_block_def header_def plain_int64_column plain_int32_column)

section \<open>Properties\<close>

definition sample_layout :: "column_layout list" where
  "sample_layout = [Plain ENCODING_INT32_ARRAY [VInt32 7, VNull], Rle ENCODING_BINARY_ARRAY (VText ''ab'')]"

lemma sample_block_ok:
  "block_ok [TInt32, TText] 2 (Plain ENCODING_INT64_ARRAY [VInt64 1, VInt64 2]) sample_layout [1, 2]"
  by code_simp

text \<open>
  C5: the decoder inverts the documented layout: for every block whose columns are laid out in
  any of the five encodings (plain or run-length, any null pattern), \<^verbatim>\<open>TsBlock::decode\<close> returns
  exactly the position count, types, timestamps and cells that were laid out.
\<close>

theorem decode_inverts_layout:
  assumes "block_ok tys n time cols ts"
  shows "decode (encode_block tys n time cols) = Inr
    \<lparr>bk_position_count = n, bk_column_types = tys, bk_timestamps = ts,
     bk_columns = map (layout_values n) cols\<rparr>"
  using assms by (rule decode_encode_block)

theorem decode_inverts_layout_witness:
  "decode (encode_block [TInt32, TText] 2 (Plain ENCODING_INT64_ARRAY [VInt64 1, VInt64 2]) sample_layout) =
     Inr \<lparr>bk_position_count = 2, bk_column_types = [TInt32, TText], bk_timestamps = [1, 2],
          bk_columns = [[VInt32 7, VNull], [VText ''ab'', VText ''ab'']]\<rparr>"
  using decode_inverts_layout [OF sample_block_ok] by (simp add: sample_layout_def eval_nat_numeral)

text \<open>
  C20: no proper prefix of an encoded block decodes: a block cut anywhere is reported as a decode
  error, never as a shorter result.
\<close>

theorem decode_rejects_truncation:
  assumes "block_ok tys n time cols ts"
    and "encode_block tys n time cols = pre @ suf" "suf \<noteq> []"
  shows "\<exists>m. decode pre = Inl (Decode m)"
  using assms by (rule decode_prefix_fails)

theorem decode_rejects_truncation_witness:
  "\<exists>m. decode (butlast (encode_block [TInt32, TText] 2
      (Plain ENCODING_INT64_ARRAY [VInt64 1, VInt64 2]) sample_layout)) = Inl (Decode m)"
proof -
  let ?b = "encode_block [TInt32, TText] 2 (Plain ENCODING_INT64_ARRAY [VInt64 1, VInt64 2]) sample_layout"
  have "?b \<noteq> []" by (simp add: encode_block_def)
  then show ?thesis
    using decode_rejects_truncation [OF sample_block_ok, of "butlast ?b" "[last ?b]"] by simp
qed

end
