(* ===== verification/Endpoint.thy ===== *)
theory Endpoint
  imports Errors
begin

text \<open>
  Node addresses and connection options of \<^verbatim>\<open>src/connection/mod.rs\<close>: \<^verbatim>\<open>Endpoint::parse\<close> and its
  \<^verbatim>\<open>Display\<close>, which are inverse to each other on the hosts that can be written in a node url.
\<close>

section \<open>Endpoints\<close>

record endpoint =
  ep_host :: string
  ep_port :: u16

definition endpoint_new :: "string \<Rightarrow> u16 \<Rightarrow> endpoint" where
  "endpoint_new host port = \<lparr>ep_host = host, ep_port = port\<rparr>"

definition DEFAULT_PORT :: u16 where "DEFAULT_PORT = 6667"

text \<open>\<^verbatim>\<open>rfind(':')\<close> and the two slices around it.\<close>

definition rsplit_colon :: "string \<Rightarrow> (string \<times> string) option" where
  "rsplit_colon s =
     (let r = rev s; port = takeWhile (\<lambda>c. c \<noteq> CHR '':'') r; rest = dropWhile (\<lambda>c. c \<noteq> CHR '':'') r in
      case rest of [] \<Rightarrow> None | _ # host \<Rightarrow> Some (rev host, rev port))"

text \<open>\<^verbatim>\<open>strip_prefix('[').and_then(|h| h.strip_suffix(']')).unwrap_or(host_part)\<close>\<close>

definition strip_brackets :: "string \<Rightarrow> string" where
  "strip_brackets h =
     (case h of
        c # r \<Rightarrow> if c = CHR ''['' \<and> r \<noteq> [] \<and> last r = CHR '']'' then butlast r else h
      | [] \<Rightarrow> h)"

definition endpoint_parse :: "string \<Rightarrow> endpoint result" where
  "endpoint_parse url =
     (let s = trim url in
      case rsplit_colon s of
        None \<Rightarrow> Inl (Client (NodeUrlNoPort s))
      | Some (host_part, port_part) \<Rightarrow>
          (case parse_u16 port_part of
             None \<Rightarrow> Inl (Client (NodeUrlBadPort s port_part))
           | Some port \<Rightarrow>
               let host = strip_brackets host_part in
               if host = [] then Inl (Client (NodeUrlEmptyHost s))
               else Inr (endpoint_new host port)))"

definition endpoint_display :: "endpoint \<Rightarrow> string" where
  "endpoint_display ep =
     (if CHR '':'' \<in> set (ep_host ep)
      then ''['' @ ep_host ep @ '']:'' @ show_nat (unat (ep_port ep))
      else ep_host ep @ '':'' @ show_nat (unat (ep_port ep)))"

section \<open>Connection options\<close>

datatype rpc_protocol = Binary | Compact

record tls_options =
  tls_ca_cert_path :: "string option"
  tls_accept_invalid_certs :: bool
  tls_domain_override :: "string option"
  tls_client_cert_path :: "string option"
  tls_client_key_path :: "string option"

text \<open>Durations are in nanoseconds.\<close>

definition secs :: "nat \<Rightarrow> nat" where "secs n = n * 1000000000"

record connection_options =
  co_connect_timeout :: nat
  co_protocol :: rpc_protocol
  co_tls :: "tls_options option"

definition connection_options_default :: connection_options where
  "connection_options_default =
     \<lparr>co_connect_timeout = secs 10, co_protocol = Binary, co_tls = None\<rparr>"

section \<open>Parsing what was displayed\<close>

text \<open>
  A host that a node url can carry: not empty; without a colon it must not look bracketed and
  must not start with white space (the url is trimmed).
\<close>

definition url_host :: "string \<Rightarrow> bool" where
  "url_host h \<longleftrightarrow> h \<noteq> [] \<and>
     (CHR '':'' \<in> set h \<or> (strip_brackets h = h \<and> list_all (\<lambda>w. \<not> has_prefix w h) white_space))"

lemma white_space_chars:
  "list_all (\<lambda>w. w \<noteq> [] \<and> hd w \<noteq> CHR ''['' \<and> \<not> is_digit (last w) \<and> CHR '':'' \<notin> set w) white_space"
  by code_simp

lemma colon_not_digit: "\<not> is_digit (CHR '':'')"
  by (simp add: is_digit_def)

lemma rsplit_colon_append:
  assumes "CHR '':'' \<notin> set p"
  shows "rsplit_colon (h @ '':'' @ p) = Some (h, p)"
proof -
  have "takeWhile (\<lambda>c. c \<noteq> CHR '':'') (rev p @ CHR '':'' # rev h) = rev p"
    using assms by (subst takeWhile_append2) auto
  moreover have "dropWhile (\<lambda>c. c \<noteq> CHR '':'') (rev p @ CHR '':'' # rev h) = CHR '':'' # rev h"
    using assms by (subst dropWhile_append2) auto
  ultimately show ?thesis by (simp add: rsplit_colon_def Let_def)
qed

lemma strip_brackets_wrapped: "strip_brackets (''['' @ h @ '']'') = h"
  by (simp add: strip_brackets_def butlast_append)

lemma has_prefix_hd: "has_prefix w s \<Longrightarrow> hd w = hd s"
  by (cases w; cases s) (auto simp: has_prefix_def)

lemma trimmed_url:
  assumes "\<And>w. w \<in> set white_space \<Longrightarrow> \<not> has_prefix w s" "s \<noteq> []" "is_digit (last s)"
  shows "trimmed s"
  unfolding trimmed_def
proof (intro ballI conjI)
  fix w assume w: "w \<in> set white_space"
  then show "\<not> has_prefix w s" by (rule assms)
  show "\<not> has_prefix (rev w) (rev s)"
    using has_prefix_hd [of "rev w" "rev s"] white_space_chars w assms(2,3)
    by (auto simp: list_all_iff hd_rev)
qed

lemma no_white_prefix:
  assumes w: "w \<in> set white_space" and h: "\<not> has_prefix w h"
  shows "\<not> has_prefix w (h @ '':'' @ p)"
proof
  assume pre: "has_prefix w (h @ '':'' @ p)"
  have "CHR '':'' \<notin> set w" using white_space_chars w by (auto simp: list_all_iff)
  moreover have "CHR '':'' \<in> set w" if "length h < length w"
  proof -
    have "w ! length h = CHR '':''"
      using pre that unfolding has_prefix_def
      by (metis append_Cons nth_append_length nth_take)
    then show ?thesis using that by (metis nth_mem)
  qed
  ultimately have "length w \<le> length h" by force
  then have "has_prefix w h" using pre by (simp add: has_prefix_def)
  then show False using h by contradiction
qed

lemma parse_display:
  assumes "url_host (ep_host ep)"
  shows "endpoint_parse (endpoint_display ep) = Inr ep"
proof -
  let ?h = "ep_host ep" and ?p = "show_nat (unat (ep_port ep))"
  have p: "CHR '':'' \<notin> set ?p" "?p \<noteq> []" "is_digit (last ?p)"
    using show_nat_digits [of "unat (ep_port ep)"] show_nat_nonempty [of "unat (ep_port ep)"] colon_not_digit
    by (auto simp: list_all_iff)
  obtain hp where d: "endpoint_display ep = hp @ '':'' @ ?p" and hp: "strip_brackets hp = ?h"
    and white: "\<And>w. w \<in> set white_space \<Longrightarrow> \<not> has_prefix w hp"
  proof (cases "CHR '':'' \<in> set ?h")
    case True
    show ?thesis
    proof (rule that [of "''['' @ ?h @ '']''"])
      fix w assume "w \<in> set white_space"
      then show "\<not> has_prefix w (''['' @ ?h @ '']'')"
        using has_prefix_hd [of w "''['' @ ?h @ '']''"] white_space_chars by (auto simp: list_all_iff)
    qed (use True in \<open>simp_all add: endpoint_display_def strip_brackets_wrapped [simplified]\<close>)
  next
    case False
    then show ?thesis
      using assms by (intro that [of ?h]) (auto simp: endpoint_display_def url_host_def list_all_iff)
  qed
  have "trimmed (hp @ '':'' @ ?p)"
    using p white by (intro trimmed_url no_white_prefix) auto
  then have "trim (endpoint_display ep) = hp @ '':'' @ ?p" using d by (simp add: trim_trimmed)
  moreover have "?h \<noteq> []" using assms by (simp add: url_host_def)
  ultimately show ?thesis
    using rsplit_colon_append [OF p(1), of hp] hp
    by (simp add: endpoint_parse_def Let_def parse_u16_show endpoint_new_def)
qed

lemma parse_nonempty_host: "endpoint_parse s = Inr ep \<Longrightarrow> ep_host ep \<noteq> []"
  by (auto simp: endpoint_parse_def Let_def endpoint_new_def split: option.splits if_splits)

section \<open>Properties\<close>

text \<open>
  What \<^verbatim>\<open>Endpoint::parse\<close> accepts always has a non-empty host, and a url without a colon is
  refused as such.
\<close>

lemma endpoint_parse_sound:
  "(endpoint_parse s = Inr ep \<longrightarrow> ep_host ep \<noteq> []) \<and>
   (CHR '':'' \<notin> set (trim s) \<longrightarrow> endpoint_parse s = Inl (Client (NodeUrlNoPort (trim s))))"
proof (intro conjI impI)
  assume "CHR '':'' \<notin> set (trim s)"
  then have "dropWhile (\<lambda>c. c \<noteq> CHR '':'') (rev (trim s)) = []"
    by (auto simp: dropWhile_eq_Nil_conv)
  then have "rsplit_colon (trim s) = None"
    by (simp only: rsplit_colon_def Let_def) simp
  then show "endpoint_parse s = Inl (Client (NodeUrlNoPort (trim s)))"
    by (simp add: endpoint_parse_def Let_def)
qed (rule parse_nonempty_host)

end
