(* ===== verification/Connection.thy ===== *)
theory Connection
  imports Endpoint
begin

text \<open>
  Opening a connection (\<^verbatim>\<open>src/connection/mod.rs\<close>): resolve, connect, optionally wrap in TLS, stack the
  selected protocol. The operating system and the crates \<^verbatim>\<open>rustls\<close>, \<^verbatim>\<open>rustls-pemfile\<close>,
  \<^verbatim>\<open>rustls-native-certs\<close> and \<^verbatim>\<open>thrift\<close> are the parameter \<open>net\<close>: one function per call the code makes,
  over an arbitrary world \<open>'w\<close>. A stream or a channel is an opaque handle.
\<close>

section \<open>Computations over a world\<close>

text \<open>\<^verbatim>\<open>?\<close> on a computation that reads and changes the world.\<close>

definition bindw :: "('w \<Rightarrow> 'a result \<times> 'w) \<Rightarrow> ('a \<Rightarrow> 'w \<Rightarrow> 'b result \<times> 'w) \<Rightarrow> 'w \<Rightarrow> 'b result \<times> 'w" where
  "bindw m f w = (case m w of (Inl e, w) \<Rightarrow> (Inl e, w) | (Inr x, w) \<Rightarrow> f x w)"

definition purew :: "'a result \<Rightarrow> 'w \<Rightarrow> 'a result \<times> 'w" where
  "purew r w = (r, w)"

text \<open>A call into another crate, its error turned into the client's.\<close>

definition callw :: "('e \<Rightarrow> error) \<Rightarrow> ('w \<Rightarrow> ('e + 'a) \<times> 'w) \<Rightarrow> 'w \<Rightarrow> 'a result \<times> 'w" where
  "callw f m w = apfst (map_sum f id) (m w)"

lemma bindw_Inr_iff:
  "bindw m f w = (Inr y, w') \<longleftrightarrow> (\<exists>x w1. m w = (Inr x, w1) \<and> f x w1 = (Inr y, w'))"
  by (auto simp: bindw_def split: prod.splits sum.splits)

lemma purew_Inr_iff [simp]: "purew r w = (x, w') \<longleftrightarrow> r = x \<and> w' = w"
  by (auto simp: purew_def)

lemma callw_Inr_iff: "callw f m w = (Inr y, w') \<longleftrightarrow> m w = (Inr y, w')"
  by (cases "m w") (auto simp: callw_def map_sum_def split: sum.splits)

section \<open>The outside\<close>

datatype verifier = NoCertificateVerification | WebPkiServerVerifier "bytes list"

record tls_config =
  tc_verifier :: verifier
  tc_client_auth :: "(bytes list \<times> bytes) option"

datatype channel = TcpChannel nat | TlsClientChannel nat string tls_config

record 'w net =
  n_resolve :: "string \<Rightarrow> u16 \<Rightarrow> 'w \<Rightarrow> (thrift_error + nat list) \<times> 'w"
  n_connect :: "nat \<Rightarrow> nat \<Rightarrow> 'w \<Rightarrow> (thrift_error + nat) \<times> 'w"
  n_set_nodelay :: "nat \<Rightarrow> bool \<Rightarrow> 'w \<Rightarrow> (thrift_error + unit) \<times> 'w"
  n_split :: "channel \<Rightarrow> 'w \<Rightarrow> (thrift_error + unit) \<times> 'w"
  n_read_file :: "string \<Rightarrow> 'w \<Rightarrow> (string + bytes) \<times> 'w"
  n_pem_certs :: "bytes \<Rightarrow> string + bytes list"
  n_pem_pkcs8_keys :: "bytes \<Rightarrow> (string + bytes) list"
  n_native_certs :: "'w \<Rightarrow> bytes list \<times> 'w"
  n_root_add :: "bytes \<Rightarrow> string + unit"
  n_verifier_build :: "bytes list \<Rightarrow> string + unit"
  n_protocol_versions :: "string + unit"
  n_client_auth_cert :: "bytes list \<Rightarrow> bytes \<Rightarrow> string + unit"
  n_server_name :: "string \<Rightarrow> string + unit"
  n_handshake :: "nat \<Rightarrow> string \<Rightarrow> tls_config \<Rightarrow> 'w \<Rightarrow> (string + unit) \<times> 'w"

section \<open>Connecting\<close>

fun connect_addrs ::
    "'w net \<Rightarrow> nat list \<Rightarrow> nat \<Rightarrow> thrift_error option \<Rightarrow> 'w \<Rightarrow> (thrift_error option + nat) \<times> 'w" where
  "connect_addrs net [] timeout last_err w = (Inl last_err, w)"
| "connect_addrs net (addr # addrs) timeout last_err w =
     (case n_connect net addr timeout w of
        (Inr stream, w) \<Rightarrow> (Inr stream, w)
      | (Inl e, w) \<Rightarrow> connect_addrs net addrs timeout (Some e) w)"

definition connect_error :: "endpoint \<Rightarrow> thrift_error option \<Rightarrow> error" where
  "connect_error ep last_err =
     (case last_err of
        Some e \<Rightarrow> Thrift e
      | None \<Rightarrow> Client (UnresolvedEndpoint (ep_host ep) (ep_port ep)))"

definition connect_stream :: "'w net \<Rightarrow> endpoint \<Rightarrow> nat \<Rightarrow> 'w \<Rightarrow> nat result \<times> 'w" where
  "connect_stream net ep timeout =
     bindw (callw Thrift (n_resolve net (ep_host ep) (ep_port ep))) (\<lambda>addrs.
       callw (connect_error ep) (connect_addrs net addrs timeout None))"

section \<open>TLS\<close>

definition load_certificates :: "'w net \<Rightarrow> string \<Rightarrow> string \<Rightarrow> 'w \<Rightarrow> bytes list result \<times> 'w" where
  "load_certificates net path description =
     bindw (callw (\<lambda>_. Client (CannotReadFile description path)) (n_read_file net path)) (\<lambda>content.
       purew (bindr (map_sum (\<lambda>e. Tls (''cannot parse '' @ description @ '': '' @ e)) id (n_pem_certs net content))
         (\<lambda>certs.
           if certs = [] then Inl (Tls (description @ '' '' @ path @ '' contains no PEM certificates''))
           else Inr certs)))"

fun add_roots :: "'w net \<Rightarrow> bytes list \<Rightarrow> bytes list \<Rightarrow> bytes list result" where
  "add_roots net roots [] = Inr roots"
| "add_roots net roots (cert # certs) =
     (case n_root_add net cert of
        Inl e \<Rightarrow> Inl (Tls (''cannot add CA certificate: '' @ e))
      | Inr _ \<Rightarrow> add_roots net (roots @ [cert]) certs)"

text \<open>\<^verbatim>\<open>add_parsable_certificates\<close> keeps the certificates that \<^verbatim>\<open>add\<close> would accept.\<close>

definition tls_verifier :: "'w net \<Rightarrow> tls_options \<Rightarrow> bytes list \<Rightarrow> 'w \<Rightarrow> verifier result \<times> 'w" where
  "tls_verifier net tls extra_roots w =
     (if tls_accept_invalid_certs tls then (Inr NoCertificateVerification, w)
      else
        let (native, w) = n_native_certs net w;
            roots = filter (\<lambda>c. n_root_add net c = Inr ()) native
        in purew (bindr (add_roots net roots extra_roots) (\<lambda>roots.
             bindr (map_sum Tls id (n_verifier_build net roots)) (\<lambda>_. Inr (WebPkiServerVerifier roots)))) w)"

definition load_client_key :: "'w net \<Rightarrow> string \<Rightarrow> 'w \<Rightarrow> bytes result \<times> 'w" where
  "load_client_key net key_path =
     bindw (callw (\<lambda>_. Client (CannotReadFile ''client key'' key_path)) (n_read_file net key_path)) (\<lambda>content.
       purew (case n_pem_pkcs8_keys net content of
           [] \<Rightarrow> Inl (Tls ''client key is not a PEM PKCS#8 private key'')
         | Inl e # _ \<Rightarrow> Inl (Tls (''cannot parse client key: '' @ e))
         | Inr key # _ \<Rightarrow> Inr key))"

definition client_auth :: "'w net \<Rightarrow> tls_options \<Rightarrow> 'w \<Rightarrow> (bytes list \<times> bytes) option result \<times> 'w" where
  "client_auth net tls =
     (case (tls_client_cert_path tls, tls_client_key_path tls) of
        (Some cert_path, Some key_path) \<Rightarrow>
          bindw (load_certificates net cert_path ''client certificate'') (\<lambda>certs.
          bindw (load_client_key net key_path) (\<lambda>key.
          purew (bindr (map_sum Tls id (n_client_auth_cert net certs key)) (\<lambda>_. Inr (Some (certs, key))))))
      | (None, None) \<Rightarrow> purew (Inr None)
      | _ \<Rightarrow> purew (Inl (Client MutualTlsIncomplete)))"

definition tls_client_config :: "'w net \<Rightarrow> tls_options \<Rightarrow> 'w \<Rightarrow> tls_config result \<times> 'w" where
  "tls_client_config net tls =
     bindw (case tls_ca_cert_path tls of
              Some path \<Rightarrow> load_certificates net path ''CA certificate''
            | None \<Rightarrow> purew (Inr [])) (\<lambda>extra_roots.
     bindw (tls_verifier net tls extra_roots) (\<lambda>verifier.
     bindw (purew (map_sum Tls id (n_protocol_versions net))) (\<lambda>_.
     bindw (client_auth net tls) (\<lambda>auth.
     purew (Inr \<lparr>tc_verifier = verifier, tc_client_auth = auth\<rparr>)))))"

text \<open>The name checked against the certificate: the override, else the endpoint's host.\<close>

definition tls_domain :: "endpoint \<Rightarrow> tls_options \<Rightarrow> string" where
  "tls_domain ep tls = (case tls_domain_override tls of Some d \<Rightarrow> d | None \<Rightarrow> ep_host ep)"

definition tls_channel :: "'w net \<Rightarrow> endpoint \<Rightarrow> nat \<Rightarrow> tls_options \<Rightarrow> 'w \<Rightarrow> channel result \<times> 'w" where
  "tls_channel net ep stream tls =
     bindw (tls_client_config net tls) (\<lambda>config.
     bindw (purew (map_sum (\<lambda>_. Client (InvalidServerName (tls_domain ep tls))) id
              (n_server_name net (tls_domain ep tls)))) (\<lambda>_.
     bindw (callw Tls (n_handshake net stream (tls_domain ep tls) config)) (\<lambda>_.
     purew (Inr (TlsClientChannel stream (tls_domain ep tls) config)))))"

section \<open>The connection\<close>

datatype protocol_stack = TBinary bool | TCompact

text \<open>Framed transport below, the strict binary or the compact protocol above.\<close>

definition build_protocols :: "rpc_protocol \<Rightarrow> protocol_stack \<times> protocol_stack" where
  "build_protocols p = (case p of Binary \<Rightarrow> (TBinary True, TBinary True) | Compact \<Rightarrow> (TCompact, TCompact))"

record connection =
  cn_endpoint :: endpoint
  cn_protocol :: rpc_protocol
  cn_channel :: channel
  cn_stack :: "protocol_stack \<times> protocol_stack"

definition connection_open :: "'w net \<Rightarrow> endpoint \<Rightarrow> connection_options \<Rightarrow> 'w \<Rightarrow> connection result \<times> 'w" where
  "connection_open net ep opts =
     bindw (connect_stream net ep (co_connect_timeout opts)) (\<lambda>stream.
     bindw (callw Thrift (n_set_nodelay net stream True)) (\<lambda>_.
     bindw (case co_tls opts of
              Some tls \<Rightarrow> tls_channel net ep stream tls
            | None \<Rightarrow> purew (Inr (TcpChannel stream))) (\<lambda>channel.
     bindw (callw Thrift (n_split net channel)) (\<lambda>_.
     purew (Inr \<lparr>cn_endpoint = ep, cn_protocol = co_protocol opts, cn_channel = channel,
                 cn_stack = build_protocols (co_protocol opts)\<rparr>)))))"

section \<open>Facts\<close>

lemma connect_addrs_Inl:
  "connect_addrs net addrs timeout last_err w = (Inl e, w') \<Longrightarrow> e = None \<longleftrightarrow> addrs = [] \<and> last_err = None"
proof (induction net addrs timeout last_err w rule: connect_addrs.induct)
  case (2 net addr addrs timeout last_err w)
  then show ?case by (auto split: prod.splits sum.splits)
qed auto

lemma add_roots_Inr: "add_roots net roots extra = Inr roots' \<Longrightarrow> roots' = roots @ extra"
  by (induction net roots extra rule: add_roots.induct) (auto split: sum.splits)

lemma load_certificates_Inr: "load_certificates net path desc w = (Inr certs, w') \<Longrightarrow> certs \<noteq> []"
  by (auto simp: load_certificates_def bindw_Inr_iff bindr_eq_Inr split: if_splits)

lemma tls_verifier_Inr:
  assumes "tls_verifier net tls extra w = (Inr v, w')"
  shows "if tls_accept_invalid_certs tls then v = NoCertificateVerification
         else \<exists>roots. v = WebPkiServerVerifier roots \<and> set extra \<subseteq> set roots"
  using assms
  by (auto simp: tls_verifier_def bindr_eq_Inr dest!: add_roots_Inr split: if_splits prod.splits)

lemma client_auth_Inr:
  assumes "client_auth net tls w = (Inr auth, w')"
  shows "auth = None \<longleftrightarrow> tls_client_cert_path tls = None \<and> tls_client_key_path tls = None"
  using assms by (auto simp: client_auth_def bindw_Inr_iff bindr_eq_Inr split: option.splits)

lemma tls_client_config_Inr:
  assumes "tls_client_config net tls w = (Inr cfg, w')"
  shows "(tc_verifier cfg = NoCertificateVerification \<longleftrightarrow> tls_accept_invalid_certs tls) \<and>
    (tc_client_auth cfg = None \<longleftrightarrow> tls_client_cert_path tls = None \<and> tls_client_key_path tls = None)"
proof -
  obtain extra v auth w1 w2 w3 w4 where v: "tls_verifier net tls extra w1 = (Inr v, w2)"
    and a: "client_auth net tls w3 = (Inr auth, w4)"
    and cfg: "cfg = \<lparr>tc_verifier = v, tc_client_auth = auth\<rparr>"
    using assms by (auto simp: tls_client_config_def bindw_Inr_iff)
  show ?thesis
    using tls_verifier_Inr [OF v] client_auth_Inr [OF a] by (auto simp: cfg split: if_splits)
qed

lemma connection_open_Inr:
  assumes "connection_open net ep opts w = (Inr c, w')"
  shows "cn_endpoint c = ep \<and> cn_protocol c = co_protocol opts \<and>
    cn_stack c = build_protocols (co_protocol opts) \<and>
    (case co_tls opts of
       None \<Rightarrow> \<exists>s. cn_channel c = TcpChannel s
     | Some tls \<Rightarrow> \<exists>s cfg w1 w2. tls_client_config net tls w1 = (Inr cfg, w2) \<and>
         cn_channel c = TlsClientChannel s (tls_domain ep tls) cfg)"
  using assms
  by (cases "co_tls opts") (auto simp: connection_open_def bindw_Inr_iff tls_channel_def, blast)

section \<open>Properties\<close>

text \<open>
  A network in which every call succeeds: one address, no files, no native certificates.
\<close>

definition quiet_net :: "'w net" where
  "quiet_net =
     \<lparr>n_resolve = \<lambda>h p w. (Inr [0], w), n_connect = \<lambda>a t w. (Inr 7, w),
      n_set_nodelay = \<lambda>s b w. (Inr (), w), n_split = \<lambda>c w. (Inr (), w),
      n_read_file = \<lambda>p w. (Inl [], w), n_pem_certs = \<lambda>b. Inr [], n_pem_pkcs8_keys = \<lambda>b. [],
      n_native_certs = \<lambda>w. ([], w), n_root_add = \<lambda>c. Inr (), n_verifier_build = \<lambda>r. Inr (),
      n_protocol_versions = Inr (), n_client_auth_cert = \<lambda>c k. Inr (), n_server_name = \<lambda>d. Inr (),
      n_handshake = \<lambda>s d c w. (Inr (), w)\<rparr>"

definition tls_sample :: tls_options where
  "tls_sample = \<lparr>tls_ca_cert_path = None, tls_accept_invalid_certs = False, tls_domain_override = None,
     tls_client_cert_path = None, tls_client_key_path = None\<rparr>"

text \<open>
  C33: TLS is never dropped silently. A connection opened with TLS options runs over a TLS channel
  handshaken for the override name or else the endpoint's host; its certificate check is disabled
  exactly when \<^verbatim>\<open>accept_invalid_certs\<close> is set, it presents a client certificate exactly when the
  client paths are set, and without TLS options the channel is plain TCP. The protocol is the one
  the options select.
\<close>

theorem connection_open_tls:
  assumes "connection_open net ep opts w = (Inr c, w')"
  shows "cn_endpoint c = ep \<and> cn_protocol c = co_protocol opts \<and>
    cn_stack c = build_protocols (co_protocol opts) \<and>
    (case co_tls opts of
       None \<Rightarrow> \<exists>s. cn_channel c = TcpChannel s
     | Some tls \<Rightarrow> \<exists>s cfg. cn_channel c = TlsClientChannel s (tls_domain ep tls) cfg \<and>
         (tc_verifier cfg = NoCertificateVerification \<longleftrightarrow> tls_accept_invalid_certs tls) \<and>
         (tc_client_auth cfg = None \<longleftrightarrow> tls_client_cert_path tls = None \<and> tls_client_key_path tls = None))"
  using connection_open_Inr [OF assms] by (auto split: option.splits dest: tls_client_config_Inr)

theorem connection_open_tls_witness:
  "\<exists>s cfg. cn_channel (projr (fst (connection_open quiet_net (endpoint_new ''h'' 6667)
      \<lparr>co_connect_timeout = 1, co_protocol = Binary, co_tls = Some tls_sample\<rparr> ()))) =
      TlsClientChannel s ''h'' cfg \<and> tc_verifier cfg \<noteq> NoCertificateVerification"
proof -
  let ?o = "\<lparr>co_connect_timeout = 1, co_protocol = Binary, co_tls = Some tls_sample\<rparr>"
  have "\<exists>c w'. connection_open quiet_net (endpoint_new ''h'' 6667) ?o () = (Inr c, w')"
    by (simp add: connection_open_def connect_stream_def tls_channel_def tls_client_config_def tls_verifier_def
        client_auth_def bindw_def callw_def purew_def quiet_net_def tls_sample_def endpoint_new_def)
  then obtain c w' where c: "connection_open quiet_net (endpoint_new ''h'' 6667) ?o () = (Inr c, w')"
    by (elim exE)
  from connection_open_tls [OF c] c show ?thesis
    by (auto simp: tls_sample_def tls_domain_def endpoint_new_def)
qed

text \<open>
  When no connection can be made, the error names the cause: no resolved address is a client
  error that carries the endpoint, otherwise the transport error of the last address tried.
\<close>

lemma connect_stream_error:
  assumes "n_resolve net (ep_host ep) (ep_port ep) w = (Inr addrs, w1)"
    and "connect_stream net ep timeout w = (Inl e, w2)"
  shows "if addrs = [] then e = Client (UnresolvedEndpoint (ep_host ep) (ep_port ep))
         else \<exists>te w3 w4. e = Thrift te \<and> n_connect net (last addrs) timeout w3 = (Inl te, w4)"
proof -
  have last: "\<exists>te w3 w4. le' = Some te \<and> n_connect net (last addrs) timeout w3 = (Inl te, w4)"
    if "connect_addrs net addrs timeout le w1 = (Inl le', w2)" "addrs \<noteq> []" for addrs le le' w1 w2
    using that
  proof (induction net addrs timeout le w1 rule: connect_addrs.induct)
    case (2 net addr addrs timeout last_err w)
    then show ?case by (cases "addrs = []") (auto split: prod.splits sum.splits)
  qed simp
  obtain le where le: "connect_addrs net addrs timeout None w1 = (Inl le, w2)" "e = connect_error ep le"
    using assms by (auto simp: connect_stream_def bindw_def callw_def map_sum_def apfst_def map_prod_def
        split: prod.splits sum.splits)
  then show ?thesis
    using last [OF le(1)] by (auto simp: connect_error_def, blast)
qed

end
