(* ===== verification/ThriftTypes.thy ===== *)
theory ThriftTypes
  imports Errors "HOL-Library.Char_ord" "HOL-Library.List_Lexorder"
begin

text \<open>
  The request and response structures of the RPC service, as the generated code under
  \<^verbatim>\<open>src/protocol\<close> declares them, one field per field of the Thrift IDL in the IDL's order, and
  the \<^verbatim>\<open>BTreeMap\<close> they use. \<^verbatim>\<open>Box<TSStatus>\<close> is the status itself.
\<close>

section \<open>\<open>BTreeMap\<close>\<close>

text \<open>A sorted association list: its order is the order of iteration.\<close>

type_synonym ('k, 'v) btree_map = "('k \<times> 'v) list"

fun bt_insert :: "'k::linorder \<Rightarrow> 'v \<Rightarrow> ('k, 'v) btree_map \<Rightarrow> ('k, 'v) btree_map" where
  "bt_insert k v [] = [(k, v)]"
| "bt_insert k v ((a, b) # m) =
     (if k < a then (k, v) # (a, b) # m
      else if k = a then (k, v) # m
      else (a, b) # bt_insert k v m)"

definition wf_btree :: "('k::linorder, 'v) btree_map \<Rightarrow> bool" where
  "wf_btree m \<longleftrightarrow> sorted_wrt (<) (map fst m)"

lemma map_of_bt_insert [simp]: "map_of (bt_insert k v m) = (map_of m)(k \<mapsto> v)"
  by (induction k v m rule: bt_insert.induct) (auto simp: fun_eq_iff)

lemma keys_bt_insert: "fst ` set (bt_insert k v m) = insert k (fst ` set m)"
  by (induction k v m rule: bt_insert.induct) auto

lemma wf_bt_insert [simp, intro]: "wf_btree m \<Longrightarrow> wf_btree (bt_insert k v m)"
proof (induction k v m rule: bt_insert.induct)
  case (2 k v a b m)
  then have "wf_btree m" and above: "\<forall>x \<in> fst ` set m. a < x"
    by (auto simp: wf_btree_def)
  then have ins: "a < k \<Longrightarrow> wf_btree (bt_insert k v m)"
    using 2 by (metis less_imp_not_less order_less_imp_not_eq2)
  moreover have "a < k \<Longrightarrow> \<forall>x \<in> fst ` set (bt_insert k v m). a < x"
    using above by (simp add: keys_bt_insert)
  ultimately show ?case
    using \<open>wf_btree m\<close> above by (auto simp: wf_btree_def dest: less_trans)
qed (simp add: wf_btree_def)

lemma wf_btree_Nil [simp]: "wf_btree []"
  by (simp add: wf_btree_def)

section \<open>Status\<close>

record t_end_point =
  te_ip :: string
  te_port :: i32

datatype ts_status = TSStatus
  (st_code: i32)
  (st_message: "string option")
  (st_sub_status: "ts_status list option")
  (st_redirect_node: "t_end_point option")
  (st_need_retry: "bool option")
  (st_response_data: "bytes option")

section \<open>Sessions\<close>

datatype ts_protocol_version = IotdbServiceProtocolV1 | IotdbServiceProtocolV2 | IotdbServiceProtocolV3

record ts_open_session_req =
  osq_client_protocol :: ts_protocol_version
  osq_zone_id :: string
  osq_username :: string
  osq_password :: "string option"
  osq_configuration :: "(string, string) btree_map option"

record ts_open_session_resp =
  osr_status :: ts_status
  osr_server_protocol_version :: ts_protocol_version
  osr_session_id :: "i64 option"
  osr_configuration :: "(string, string) btree_map option"

record ts_close_session_req =
  csq_session_id :: i64

section \<open>Statements\<close>

record ts_execute_statement_req =
  esq_session_id :: i64
  esq_statement :: string
  esq_statement_id :: i64
  esq_fetch_size :: "i32 option"
  esq_timeout :: "i64 option"
  esq_enable_redirect_query :: "bool option"
  esq_jdbc_query :: "bool option"

record ts_query_data_set =
  qds_time :: bytes
  qds_value_list :: "bytes list"
  qds_bitmap_list :: "bytes list"

record ts_query_non_align_data_set =
  qnd_time_list :: "bytes list"
  qnd_value_list :: "bytes list"

record ts_tracing_info =
  tri_activity_list :: "string list"
  tri_elapsed_time_list :: "i64 list"
  tri_series_path_num :: "i32 option"
  tri_seq_file_num :: "i32 option"
  tri_un_seq_file_num :: "i32 option"
  tri_sequence_chunk_num :: "i32 option"
  tri_sequence_chunk_point_num :: "i64 option"
  tri_unsequence_chunk_num :: "i32 option"
  tri_unsequence_chunk_point_num :: "i64 option"
  tri_total_page_num :: "i32 option"
  tri_overlapped_page_num :: "i32 option"

record ts_execute_statement_resp =
  esr_status :: ts_status
  esr_query_id :: "i64 option"
  esr_columns :: "string list option"
  esr_operation_type :: "string option"
  esr_ignore_time_stamp :: "bool option"
  esr_data_type_list :: "string list option"
  esr_query_data_set :: "ts_query_data_set option"
  esr_non_align_query_data_set :: "ts_query_non_align_data_set option"
  esr_column_name_index_map :: "(string, i32) btree_map option"
  esr_sg_columns :: "string list option"
  esr_alias_columns :: "i8 list option"
  esr_tracing_info :: "ts_tracing_info option"
  esr_query_result :: "bytes list option"
  esr_more_data :: "bool option"
  esr_database :: "string option"
  esr_table_model :: "bool option"
  esr_column_index2_ts_block_column_index_list :: "i32 list option"

record ts_fetch_results_req =
  frq_session_id :: i64
  frq_statement :: string
  frq_fetch_size :: i32
  frq_query_id :: i64
  frq_is_align :: bool
  frq_timeout :: "i64 option"
  frq_statement_id :: "i64 option"

record ts_fetch_results_resp =
  frr_status :: ts_status
  frr_has_result_set :: bool
  frr_is_align :: bool
  frr_query_data_set :: "ts_query_data_set option"
  frr_non_align_query_data_set :: "ts_query_non_align_data_set option"
  frr_query_result :: "bytes list option"
  frr_more_data :: "bool option"

record ts_close_operation_req =
  coq_session_id :: i64
  coq_query_id :: "i64 option"
  coq_statement_id :: "i64 option"
  coq_prepared_statement_name :: "string option"

section \<open>Inserts\<close>

record ts_insert_record_req =
  irq_session_id :: i64
  irq_prefix_path :: string
  irq_measurements :: "string list"
  irq_values :: bytes
  irq_timestamp :: i64
  irq_is_aligned :: "bool option"
  irq_is_write_to_table :: "bool option"
  irq_column_categoryies :: "i8 list option"

record ts_insert_tablet_req =
  itq_session_id :: i64
  itq_prefix_path :: string
  itq_measurements :: "string list"
  itq_values :: bytes
  itq_timestamps :: bytes
  itq_types :: "i32 list"
  itq_size :: i32
  itq_is_aligned :: "bool option"
  itq_write_to_table :: "bool option"
  itq_column_categories :: "i8 list option"
  itq_is_compressed :: "bool option"
  itq_encoding_types :: "i8 list option"
  itq_compress_type :: "i8 option"

record ts_insert_tablets_req =
  isq_session_id :: i64
  isq_prefix_paths :: "string list"
  isq_measurements_list :: "string list list"
  isq_values_list :: "bytes list"
  isq_timestamps_list :: "bytes list"
  isq_types_list :: "i32 list list"
  isq_size_list :: "i32 list"
  isq_is_aligned :: "bool option"

record ts_insert_records_req =
  rsq_session_id :: i64
  rsq_prefix_paths :: "string list"
  rsq_measurements_list :: "string list list"
  rsq_values_list :: "bytes list"
  rsq_timestamps :: "i64 list"
  rsq_is_aligned :: "bool option"

record ts_insert_records_of_one_device_req =
  odq_session_id :: i64
  odq_prefix_path :: string
  odq_measurements_list :: "string list list"
  odq_values_list :: "bytes list"
  odq_timestamps :: "i64 list"
  odq_is_aligned :: "bool option"

end
