(* ===== verification/Env.thy ===== *)
theory Env
  imports Connection ThriftTypes
begin

text \<open>
  What a session reaches outside itself: the network below \<open>connection_open\<close>, the RPC service behind
  a connection (the generated \<^verbatim>\<open>IClientRPCServiceSyncClient\<close> and the server), the clock, sleeping and
  the closing of a dropped connection. It is a parameter of every session operation, over an
  arbitrary world. \<open>logged\<close> wraps any such environment so that the world also records the calls
  in order; the properties about what is sent, how often and in which order are stated on that log.
\<close>

section \<open>The environment\<close>

record 'w env =
  e_net :: "'w net"
  e_open_session :: "connection \<Rightarrow> ts_open_session_req \<Rightarrow> 'w \<Rightarrow> (thrift_error + ts_open_session_resp) \<times> 'w"
  e_request_statement_id :: "connection \<Rightarrow> i64 \<Rightarrow> 'w \<Rightarrow> (thrift_error + i64) \<times> 'w"
  e_execute_update :: "connection \<Rightarrow> ts_execute_statement_req \<Rightarrow> 'w \<Rightarrow> (thrift_error + ts_execute_statement_resp) \<times> 'w"
  e_execute_query :: "connection \<Rightarrow> ts_execute_statement_req \<Rightarrow> 'w \<Rightarrow> (thrift_error + ts_execute_statement_resp) \<times> 'w"
  e_fetch_results :: "connection \<Rightarrow> ts_fetch_results_req \<Rightarrow> 'w \<Rightarrow> (thrift_error + ts_fetch_results_resp) \<times> 'w"
  e_close_operation :: "connection \<Rightarrow> ts_close_operation_req \<Rightarrow> 'w \<Rightarrow> (thrift_error + ts_status) \<times> 'w"
  e_close_session :: "connection \<Rightarrow> ts_close_session_req \<Rightarrow> 'w \<Rightarrow> (thrift_error + ts_status) \<times> 'w"
  e_insert_tablet :: "connection \<Rightarrow> ts_insert_tablet_req \<Rightarrow> 'w \<Rightarrow> (thrift_error + ts_status) \<times> 'w"
  e_insert_tablets :: "connection \<Rightarrow> ts_insert_tablets_req \<Rightarrow> 'w \<Rightarrow> (thrift_error + ts_status) \<times> 'w"
  e_insert_record :: "connection \<Rightarrow> ts_insert_record_req \<Rightarrow> 'w \<Rightarrow> (thrift_error + ts_status) \<times> 'w"
  e_insert_records :: "connection \<Rightarrow> ts_insert_records_req \<Rightarrow> 'w \<Rightarrow> (thrift_error + ts_status) \<times> 'w"
  e_insert_records_of_one_device ::
    "connection \<Rightarrow> ts_insert_records_of_one_device_req \<Rightarrow> 'w \<Rightarrow> (thrift_error + ts_status) \<times> 'w"
  e_now :: "'w \<Rightarrow> nat \<times> 'w"
  e_sleep :: "nat \<Rightarrow> 'w \<Rightarrow> 'w"
  e_drop :: "connection \<Rightarrow> 'w \<Rightarrow> 'w"

section \<open>Recording the calls\<close>

datatype event =
    EvResolve string u16
  | EvOpenSession connection ts_open_session_req "thrift_error + ts_open_session_resp"
  | EvStatementId connection i64 "thrift_error + i64"
  | EvUpdate connection ts_execute_statement_req "thrift_error + ts_execute_statement_resp"
  | EvQuery connection ts_execute_statement_req "thrift_error + ts_execute_statement_resp"
  | EvFetch connection ts_fetch_results_req
  | EvCloseOperation connection ts_close_operation_req
  | EvCloseSession connection ts_close_session_req
  | EvInsertTablet connection ts_insert_tablet_req "thrift_error + ts_status"
  | EvInsertTablets connection ts_insert_tablets_req "thrift_error + ts_status"
  | EvInsertRecord connection ts_insert_record_req "thrift_error + ts_status"
  | EvInsertRecords connection ts_insert_records_req "thrift_error + ts_status"
  | EvInsertOneDevice connection ts_insert_records_of_one_device_req "thrift_error + ts_status"
  | EvSleep nat
  | EvDrop connection

text \<open>Run a call on the world and append what it was to the log; \<open>silent\<close> appends nothing.\<close>

definition noting :: "('a \<Rightarrow> event list) \<Rightarrow> ('w \<Rightarrow> 'a \<times> 'w) \<Rightarrow> 'w \<times> event list \<Rightarrow> 'a \<times> 'w \<times> event list" where
  "noting ev f x = (let (r, w) = f (fst x) in (r, w, snd x @ ev r))"

abbreviation silent :: "('w \<Rightarrow> 'a \<times> 'w) \<Rightarrow> 'w \<times> event list \<Rightarrow> 'a \<times> 'w \<times> event list" where
  "silent \<equiv> noting (\<lambda>_. [])"

definition logged_net :: "'w net \<Rightarrow> ('w \<times> event list) net" where
  "logged_net net =
     \<lparr>n_resolve = \<lambda>h p. noting (\<lambda>_. [EvResolve h p]) (n_resolve net h p),
      n_connect = \<lambda>a t. silent (n_connect net a t),
      n_set_nodelay = \<lambda>s b. silent (n_set_nodelay net s b),
      n_split = \<lambda>c. silent (n_split net c),
      n_read_file = \<lambda>p. silent (n_read_file net p),
      n_pem_certs = n_pem_certs net,
      n_pem_pkcs8_keys = n_pem_pkcs8_keys net,
      n_native_certs = silent (n_native_certs net),
      n_root_add = n_root_add net,
      n_verifier_build = n_verifier_build net,
      n_protocol_versions = n_protocol_versions net,
      n_client_auth_cert = n_client_auth_cert net,
      n_server_name = n_server_name net,
      n_handshake = \<lambda>s d c. silent (n_handshake net s d c)\<rparr>"

definition logged :: "'w env \<Rightarrow> ('w \<times> event list) env" where
  "logged env =
     \<lparr>e_net = logged_net (e_net env),
      e_open_session = \<lambda>c q. noting (\<lambda>r. [EvOpenSession c q r]) (e_open_session env c q),
      e_request_statement_id = \<lambda>c q. noting (\<lambda>r. [EvStatementId c q r]) (e_request_statement_id env c q),
      e_execute_update = \<lambda>c q. noting (\<lambda>r. [EvUpdate c q r]) (e_execute_update env c q),
      e_execute_query = \<lambda>c q. noting (\<lambda>r. [EvQuery c q r]) (e_execute_query env c q),
      e_fetch_results = \<lambda>c q. noting (\<lambda>r. [EvFetch c q]) (e_fetch_results env c q),
      e_close_operation = \<lambda>c q. noting (\<lambda>r. [EvCloseOperation c q]) (e_close_operation env c q),
      e_close_session = \<lambda>c q. noting (\<lambda>r. [EvCloseSession c q]) (e_close_session env c q),
      e_insert_tablet = \<lambda>c q. noting (\<lambda>r. [EvInsertTablet c q r]) (e_insert_tablet env c q),
      e_insert_tablets = \<lambda>c q. noting (\<lambda>r. [EvInsertTablets c q r]) (e_insert_tablets env c q),
      e_insert_record = \<lambda>c q. noting (\<lambda>r. [EvInsertRecord c q r]) (e_insert_record env c q),
      e_insert_records = \<lambda>c q. noting (\<lambda>r. [EvInsertRecords c q r]) (e_insert_records env c q),
      e_insert_records_of_one_device =
        \<lambda>c q. noting (\<lambda>r. [EvInsertOneDevice c q r]) (e_insert_records_of_one_device env c q),
      e_now = silent (e_now env),
      e_sleep = \<lambda>d x. (e_sleep env d (fst x), snd x @ [EvSleep d]),
      e_drop = \<lambda>c x. (e_drop env c (fst x), snd x @ [EvDrop c])\<rparr>"

text \<open>
  \<open>adds f P\<close>: whatever \<open>f\<close> does, it appends to the log a list of events that satisfies \<open>P\<close>
  (which may depend on the outcome), and never touches what was logged before.
\<close>

definition adds :: "('w \<times> event list \<Rightarrow> 'a \<times> 'w \<times> event list) \<Rightarrow> ('a \<Rightarrow> event list \<Rightarrow> bool) \<Rightarrow> bool" where
  "adds f P \<longleftrightarrow> (\<forall>w l r w' l'. f (w, l) = (r, w', l') \<longrightarrow> (\<exists>evs. l' = l @ evs \<and> P r evs))"

named_theorems adds_intros \<open>how the events of a computation follow from those of its calls\<close>

lemma addsI:
  "(\<And>w l r w' l'. f (w, l) = (r, w', l') \<Longrightarrow> \<exists>evs. l' = l @ evs \<and> P r evs) \<Longrightarrow> adds f P"
  by (auto simp: adds_def)

lemma addsD: "adds f P \<Longrightarrow> f (w, l) = (r, w', l') \<Longrightarrow> \<exists>evs. l' = l @ evs \<and> P r evs"
  by (auto simp: adds_def)

lemma adds_noting: "(\<And>r. P r (ev r)) \<Longrightarrow> adds (noting ev f) P"
  by (rule addsI) (auto simp: noting_def split_beta)

lemma adds_weaken: "adds f P \<Longrightarrow> (\<And>r evs. P r evs \<Longrightarrow> Q r evs) \<Longrightarrow> adds f Q"
  unfolding adds_def by blast

lemma adds_purew: "P r [] \<Longrightarrow> adds (purew r) P"
  by (rule addsI) (auto simp: purew_def)

lemma adds_callw:
  assumes "adds m P" "\<And>r evs. P r evs \<Longrightarrow> Q (map_sum f id r) evs"
  shows "adds (callw f m) Q"
proof (rule addsI)
  fix w l r w' l'
  assume "callw f m (w, l) = (r, w', l')"
  then obtain r0 where "m (w, l) = (r0, w', l')" "r = map_sum f id r0"
    by (cases "m (w, l)") (auto simp: callw_def)
  with addsD [OF assms(1)] assms(2) show "\<exists>evs. l' = l @ evs \<and> Q r evs" by blast
qed

lemma adds_bindw:
  assumes f: "adds f P" and g: "\<And>x. adds (g x) (Q x)"
    and err: "\<And>e evs. P (Inl e) evs \<Longrightarrow> R (Inl e) evs"
    and ok: "\<And>x evs r evs'. P (Inr x) evs \<Longrightarrow> Q x r evs' \<Longrightarrow> R r (evs @ evs')"
  shows "adds (bindw f g) R"
proof (rule addsI)
  fix w l r w' l'
  assume run: "bindw f g (w, l) = (r, w', l')"
  obtain r1 w1 l1 where 1: "f (w, l) = (r1, w1, l1)" by (metis prod.exhaust)
  then obtain evs where evs: "l1 = l @ evs" "P r1 evs" using addsD [OF f] by blast
  show "\<exists>evs. l' = l @ evs \<and> R r evs"
  proof (cases r1)
    case (Inl e)
    with run 1 evs err show ?thesis by (auto simp: bindw_def)
  next
    case (Inr x)
    then have "g x (w1, l1) = (r, w', l')" using run 1 by (simp add: bindw_def)
    then obtain evs' where "l' = l1 @ evs'" "Q x r evs'" using addsD [OF g] by blast
    with ok evs Inr show ?thesis by (metis append.assoc)
  qed
qed

section \<open>What opening a connection logs\<close>

definition emits :: "('w \<times> event list \<Rightarrow> 'a \<times> 'w \<times> event list) \<Rightarrow> event list \<Rightarrow> bool" where
  "emits f es \<longleftrightarrow> adds f (\<lambda>_ evs. evs = es)"

lemma emits_noting [adds_intros]: "emits (silent f) []"
  unfolding emits_def by (rule adds_noting) simp

lemma emits_purew [adds_intros]: "emits (purew r) []"
  unfolding emits_def by (rule adds_purew) simp

lemma emits_callw [adds_intros]: "emits m es \<Longrightarrow> emits (callw f m) es"
  unfolding emits_def by (erule adds_callw) simp

lemma emits_bindw [adds_intros]: "emits f es \<Longrightarrow> (\<And>x. emits (g x) []) \<Longrightarrow> emits (bindw f g) es"
  unfolding emits_def
  by (rule adds_bindw [where P = "\<lambda>_ evs. evs = es" and Q = "\<lambda>_ _ evs. evs = []"]) auto

lemma emits_option [adds_intros]:
  "emits f es \<Longrightarrow> (\<And>x. emits (g x) es) \<Longrightarrow> emits (case a of None \<Rightarrow> f | Some x \<Rightarrow> g x) es"
  by (cases a) auto

lemma emits_run: "emits f es \<Longrightarrow> f (w, l) = (r, w', l') \<Longrightarrow> l' = l @ es"
  by (auto simp: emits_def dest: addsD)

lemma emits_connect_addrs: "emits (connect_addrs (logged_net net) addrs timeout last_err) []"
proof -
  have "connect_addrs (logged_net net) addrs timeout last_err (w, l) = (r, w', l') \<Longrightarrow> l' = l" for w l r w' l'
  proof (induction addrs arbitrary: last_err w)
    case (Cons a addrs)
    then show ?case
      by (auto simp: logged_net_def noting_def split_beta split: prod.splits sum.splits)
  qed simp
  then show ?thesis by (auto simp: emits_def adds_def)
qed

lemma emits_load_certificates [adds_intros]: "emits (load_certificates (logged_net net) path desc) []"
  unfolding load_certificates_def by (intro adds_intros) (simp add: logged_net_def emits_noting)

lemma emits_tls_verifier [adds_intros]: "emits (tls_verifier (logged_net net) tls extra) []"
  by (auto simp: emits_def adds_def tls_verifier_def logged_net_def noting_def purew_def split_beta)

lemma emits_client_auth [adds_intros]: "emits (client_auth (logged_net net) tls) []"
proof -
  have "emits (load_client_key (logged_net net) path) []" for path
    unfolding load_client_key_def by (intro adds_intros) (simp add: logged_net_def emits_noting)
  then show ?thesis
    unfolding client_auth_def by (cases "tls_client_cert_path tls"; cases "tls_client_key_path tls")
      (simp_all, (intro adds_intros; assumption?)+)
qed

lemma emits_tls_channel [adds_intros]: "emits (tls_channel (logged_net net) ep stream tls) []"
  unfolding tls_channel_def tls_client_config_def
  by (intro adds_intros) (simp add: logged_net_def emits_noting)

text \<open>Opening a connection resolves its endpoint, once, whatever the outcome.\<close>

lemma emits_connection_open:
  "emits (connection_open (logged_net net) ep opts) [EvResolve (ep_host ep) (ep_port ep)]"
proof -
  have res: "emits (n_resolve (logged_net net) h p) [EvResolve h p]" for h p
    unfolding emits_def by (simp add: logged_net_def) (rule adds_noting, simp)
  have quiet: "emits (n_set_nodelay (logged_net net) s b) []" "emits (n_split (logged_net net) c) []" for s b c
    by (simp_all add: logged_net_def emits_noting)
  show ?thesis
    unfolding connection_open_def connect_stream_def
    by (intro adds_intros res quiet emits_connect_addrs)
qed

end
