(* ===== verification/Redirect.thy ===== *)
theory Redirect
  imports ThriftTypes Endpoint "HOL-Library.AList"
begin

text \<open>
  The write-redirection cache of \<^verbatim>\<open>src/client/redirect.rs\<close>: a bounded map from devices to endpoint
  hints with a time to live, evicting the oldest insertion, and the harvesting of hints from an
  insert response. The cache refines a bounded first-in first-out queue of hints; what its
  clients rely on is the locale \<open>hint_store\<close>.
\<close>

section \<open>State and operations\<close>

text \<open>
  A \<^verbatim>\<open>HashMap\<close> is an association list with distinct keys, in an arbitrary order of iteration.
  Instants and durations are nanoseconds. \<^verbatim>\<open>seq\<close> is a 64-bit counter that wraps around, as it does in a
  build without overflow checks; with them the insertion that wraps panics.
\<close>

record redirect_entry =
  re_endpoint :: endpoint
  re_inserted :: nat
  re_seq :: u64

record redirect_cache =
  rc_entries :: "(string \<times> redirect_entry) list"
  rc_ttl :: nat
  rc_max_entries :: nat
  rc_seq :: u64

record redirect_cache_stats =
  rs_size :: nat
  rs_max_entries :: nat
  rs_ttl :: nat

definition DEFAULT_REDIRECT_TTL :: nat where "DEFAULT_REDIRECT_TTL = secs 300"

definition DEFAULT_REDIRECT_MAX_ENTRIES :: nat where "DEFAULT_REDIRECT_MAX_ENTRIES = 1024"

definition is_expired :: "nat \<Rightarrow> nat \<Rightarrow> bool" where
  "is_expired elapsed ttl \<longleftrightarrow> ttl \<noteq> 0 \<and> ttl < elapsed"

definition redirect_cache_new :: "nat \<Rightarrow> nat \<Rightarrow> redirect_cache" where
  "redirect_cache_new ttl max_entries =
     \<lparr>rc_entries = [], rc_ttl = ttl, rc_max_entries = max_entries, rc_seq = 0\<rparr>"

definition redirect_cache_default :: redirect_cache where
  "redirect_cache_default = redirect_cache_new DEFAULT_REDIRECT_TTL DEFAULT_REDIRECT_MAX_ENTRIES"

text \<open>\<^verbatim>\<open>saturating_duration_since\<close> is the truncated difference of natural numbers.\<close>

definition get_at :: "redirect_cache \<Rightarrow> string \<Rightarrow> nat \<Rightarrow> endpoint option \<times> redirect_cache" where
  "get_at c device_id now =
     (case map_of (rc_entries c) device_id of
        None \<Rightarrow> (None, c)
      | Some entry \<Rightarrow>
          if is_expired (now - re_inserted entry) (rc_ttl c)
          then (None, c\<lparr>rc_entries := AList.delete device_id (rc_entries c)\<rparr>)
          else (Some (re_endpoint entry), c))"

definition redirect_get ::
    "('w \<Rightarrow> nat \<times> 'w) \<Rightarrow> redirect_cache \<Rightarrow> string \<Rightarrow> 'w \<Rightarrow> endpoint option \<times> redirect_cache \<times> 'w" where
  "redirect_get clock c device_id w =
     (let (now, w) = clock w; (hint, c) = get_at c device_id now in (hint, c, w))"

text \<open>\<^verbatim>\<open>iter().min_by_key(|(_, e)| e.seq)\<close>: the first of the minimal entries.\<close>

fun oldest :: "(string \<times> redirect_entry) list \<Rightarrow> string option" where
  "oldest [] = None"
| "oldest [(k, e)] = Some k"
| "oldest ((k, e) # (k', e') # es) =
     (if re_seq e \<le> re_seq e' then oldest ((k, e) # es) else oldest ((k', e') # es))"

definition evict :: "redirect_cache \<Rightarrow> string \<Rightarrow> (string \<times> redirect_entry) list" where
  "evict c device_id =
     (if rc_max_entries c \<le> length (rc_entries c) \<and> map_of (rc_entries c) device_id = None
      then (case oldest (rc_entries c) of
              None \<Rightarrow> rc_entries c
            | Some k \<Rightarrow> AList.delete k (rc_entries c))
      else rc_entries c)"

definition put_at :: "redirect_cache \<Rightarrow> string \<Rightarrow> endpoint \<Rightarrow> nat \<Rightarrow> redirect_cache" where
  "put_at c device_id ep now =
     c\<lparr>rc_seq := rc_seq c + 1,
       rc_entries := (device_id, \<lparr>re_endpoint = ep, re_inserted = now, re_seq = rc_seq c + 1\<rparr>) #
                     AList.delete device_id (evict c device_id)\<rparr>"

definition redirect_put ::
    "('w \<Rightarrow> nat \<times> 'w) \<Rightarrow> redirect_cache \<Rightarrow> string \<Rightarrow> endpoint \<Rightarrow> 'w \<Rightarrow> redirect_cache \<times> 'w" where
  "redirect_put clock c device_id ep w =
     (if rc_max_entries c = 0 then (c, w)
      else let (now, w) = clock w in (put_at c device_id ep now, w))"

definition redirect_clear :: "redirect_cache \<Rightarrow> redirect_cache" where
  "redirect_clear c = c\<lparr>rc_entries := []\<rparr>"

definition redirect_stats :: "redirect_cache \<Rightarrow> redirect_cache_stats" where
  "redirect_stats c =
     \<lparr>rs_size = length (rc_entries c), rs_max_entries = rc_max_entries c, rs_ttl = rc_ttl c\<rparr>"

text \<open>\<^verbatim>\<open>u16::try_from(port).ok().filter(|&p| p != 0)\<close>\<close>

definition endpoint_from_redirect :: "t_end_point \<Rightarrow> endpoint option" where
  "endpoint_from_redirect node =
     (if te_ip node = [] then None
      else if 0 < sint (te_port node) \<and> sint (te_port node) < 65536
      then Some (endpoint_new (te_ip node) (word_of_int (sint (te_port node))))
      else None)"

definition status_endpoint :: "ts_status \<Rightarrow> endpoint option" where
  "status_endpoint status = Option.bind (st_redirect_node status) endpoint_from_redirect"

text \<open>The two loops of \<^verbatim>\<open>record_redirects\<close>.\<close>

fun record_subs ::
    "('w \<Rightarrow> nat \<times> 'w) \<Rightarrow> redirect_cache \<Rightarrow> (string \<times> ts_status) list \<Rightarrow> 'w \<Rightarrow> redirect_cache \<times> 'w" where
  "record_subs clock c [] w = (c, w)"
| "record_subs clock c ((device, sub) # rest) w =
     (case status_endpoint sub of
        None \<Rightarrow> record_subs clock c rest w
      | Some ep \<Rightarrow> let (c, w) = redirect_put clock c device ep w in record_subs clock c rest w)"

fun record_all ::
    "('w \<Rightarrow> nat \<times> 'w) \<Rightarrow> redirect_cache \<Rightarrow> string list \<Rightarrow> endpoint \<Rightarrow> 'w \<Rightarrow> redirect_cache \<times> 'w" where
  "record_all clock c [] ep w = (c, w)"
| "record_all clock c (device # rest) ep w =
     (let (c, w) = redirect_put clock c device ep w in record_all clock c rest ep w)"

definition record_redirects ::
    "('w \<Rightarrow> nat \<times> 'w) \<Rightarrow> redirect_cache \<Rightarrow> string list \<Rightarrow> ts_status \<Rightarrow> 'w \<Rightarrow> redirect_cache \<times> 'w" where
  "record_redirects clock c devices status w =
     (case st_sub_status status of
        Some subs \<Rightarrow>
          if length subs = length devices then record_subs clock c (zip devices subs) w
          else (case status_endpoint status of None \<Rightarrow> (c, w) | Some ep \<Rightarrow> record_all clock c devices ep w)
      | None \<Rightarrow> (case status_endpoint status of None \<Rightarrow> (c, w) | Some ep \<Rightarrow> record_all clock c devices ep w))"

section \<open>The interface of a hint store\<close>

text \<open>
  What the session and the pool rely on: a put is seen by the next lookup of that device; other
  devices keep their hints unless the store is full and the device is new; the store never
  outgrows its capacity.
\<close>

locale hint_store =
  fixes lookup :: "'c \<Rightarrow> string \<Rightarrow> endpoint option"
    and put :: "'c \<Rightarrow> string \<Rightarrow> endpoint \<Rightarrow> nat \<Rightarrow> 'c"
    and size_of :: "'c \<Rightarrow> nat"
    and capacity :: "'c \<Rightarrow> nat"
    and inv :: "'c \<Rightarrow> bool"
  assumes inv_put: "inv c \<Longrightarrow> 0 < capacity c \<Longrightarrow> inv (put c d ep t)"
    and capacity_put: "capacity (put c d ep t) = capacity c"
    and size_capacity: "inv c \<Longrightarrow> size_of c \<le> capacity c"
    and lookup_same: "inv c \<Longrightarrow> lookup (put c d ep t) d = Some ep"
    and lookup_other: "inv c \<Longrightarrow> size_of c < capacity c \<or> lookup c d \<noteq> None \<Longrightarrow> d' \<noteq> d \<Longrightarrow>
      lookup (put c d ep t) d' = lookup c d'"
    and size_put: "inv c \<Longrightarrow> size_of (put c d ep t) \<le> size_of c + 1"
begin

fun put_all :: "'c \<Rightarrow> (string \<times> endpoint \<times> nat) list \<Rightarrow> 'c" where
  "put_all c [] = c"
| "put_all c ((d, ep, t) # hs) = put_all (put c d ep t) hs"

lemma inv_put_all: "inv c \<Longrightarrow> 0 < capacity c \<Longrightarrow> inv (put_all c hs) \<and> capacity (put_all c hs) = capacity c"
  by (induction hs arbitrary: c) (auto simp: inv_put capacity_put)

text \<open>Without eviction the last hint of each device wins and nothing else changes.\<close>

lemma lookup_put_all:
  assumes "inv c" "0 < capacity c" "size_of c + length hs \<le> capacity c"
  shows "lookup (put_all c hs) d =
    (case map_of (rev (map (\<lambda>(d, ep, t). (d, ep)) hs)) d of None \<Rightarrow> lookup c d | Some ep \<Rightarrow> Some ep)"
  using assms
proof (induction hs arbitrary: c)
  case Nil
  then show ?case by simp
next
  case (Cons h hs)
  obtain d1 ep t where h: "h = (d1, ep, t)" by (cases h)
  have room: "size_of c < capacity c" using Cons.prems by simp
  have "size_of (put c d1 ep t) + length hs \<le> capacity (put c d1 ep t)"
    using Cons.prems size_put [of c d1 ep t] by (simp add: capacity_put)
  then have IH: "lookup (put_all (put c d1 ep t) hs) d =
    (case map_of (rev (map (\<lambda>(d, ep, t). (d, ep)) hs)) d of
       None \<Rightarrow> lookup (put c d1 ep t) d | Some ep \<Rightarrow> Some ep)"
    using Cons.prems by (intro Cons.IH) (auto simp: inv_put capacity_put)
  show ?case
  proof (cases "d = d1")
    case True
    with IH h Cons.prems lookup_same [of c d1 ep t] show ?thesis
      by (auto simp: map_add_def split: option.splits)
  next
    case False
    with IH h Cons.prems lookup_other [of c d1 d ep t] room show ?thesis
      by (auto simp: map_add_def split: option.splits)
  qed
qed

end

section \<open>The cache refines a bounded queue\<close>

definition entry_seq :: "string \<times> redirect_entry \<Rightarrow> u64" where
  "entry_seq x = re_seq (snd x)"

definition wf_cache :: "redirect_cache \<Rightarrow> bool" where
  "wf_cache c \<longleftrightarrow> distinct (map fst (rc_entries c)) \<and> length (rc_entries c) \<le> rc_max_entries c"

text \<open>As long as the counter has not wrapped around, it orders the entries by age.\<close>

definition ordered_cache :: "redirect_cache \<Rightarrow> bool" where
  "ordered_cache c \<longleftrightarrow>
     distinct (map entry_seq (rc_entries c)) \<and> list_all (\<lambda>x. entry_seq x \<le> rc_seq c) (rc_entries c)"

type_synonym hint = "string \<times> endpoint \<times> nat"

definition hint_of :: "string \<times> redirect_entry \<Rightarrow> hint" where
  "hint_of x = (fst x, re_endpoint (snd x), re_inserted (snd x))"

text \<open>The queue of hints, oldest insertion first.\<close>

definition hint_queue :: "redirect_cache \<Rightarrow> hint list" where
  "hint_queue c = map hint_of (sort_key entry_seq (rc_entries c))"

definition queue_put :: "nat \<Rightarrow> hint list \<Rightarrow> string \<Rightarrow> endpoint \<Rightarrow> nat \<Rightarrow> hint list" where
  "queue_put cap q d ep now =
     filter (\<lambda>(k, _). k \<noteq> d) (if cap \<le> length q \<and> d \<notin> fst ` set q then tl q else q) @ [(d, ep, now)]"

definition queue_get :: "nat \<Rightarrow> hint list \<Rightarrow> string \<Rightarrow> nat \<Rightarrow> endpoint option \<times> hint list" where
  "queue_get ttl q d now =
     (case map_of q d of
        None \<Rightarrow> (None, q)
      | Some (ep, inserted) \<Rightarrow>
          if is_expired (now - inserted) ttl then (None, filter (\<lambda>(k, _). k \<noteq> d) q) else (Some ep, q))"

lemma hd_insort: "hd (insort_key f x xs) = (if xs = [] \<or> f x \<le> f (hd xs) then x else hd xs)"
  by (cases xs) auto

lemma insort_last: "\<forall>y \<in> set xs. f y < (f x :: 'a::linorder) \<Longrightarrow> insort_key f x xs = xs @ [x]"
  by (induction xs) (auto simp: leD)

lemma oldest_eq_hd: "es \<noteq> [] \<Longrightarrow> oldest es = Some (fst (hd (sort_key entry_seq es)))"
proof (induction es rule: oldest.induct)
  case (3 k e k' e' es)
  then show ?case by (cases "re_seq e \<le> re_seq e'") (auto simp: hd_insort entry_seq_def)
qed auto

lemma delete_filter: "AList.delete k xs = filter (\<lambda>x. fst x \<noteq> k) xs"
  by (auto simp: AList.delete_eq intro!: filter_cong)

lemma filter_not_hd:
  assumes "distinct (map fst xs)" "xs \<noteq> []"
  shows "filter (\<lambda>x. fst x \<noteq> fst (hd xs)) xs = tl xs"
  using assms by (cases xs) (auto intro!: filter_True simp: image_iff)

lemma distinct_keys_sort: "distinct (map fst (sort_key f xs)) \<longleftrightarrow> distinct (map fst xs)"
  by (metis distinct_sort mset_map mset_sort mset_eq_imp_distinct_iff)

lemma sort_evict:
  assumes "wf_cache c" "0 < rc_max_entries c"
  shows "map hint_of (sort_key entry_seq (evict c d)) =
    (if rc_max_entries c \<le> length (hint_queue c) \<and> d \<notin> fst ` set (hint_queue c)
     then tl (hint_queue c) else hint_queue c)"
proof -
  let ?es = "rc_entries c"
  have known: "d \<notin> fst ` set (hint_queue c) \<longleftrightarrow> map_of ?es d = None"
    by (auto simp: hint_queue_def hint_of_def map_of_eq_None_iff image_iff)
  have "sort_key entry_seq (AList.delete (fst (hd (sort_key entry_seq ?es))) ?es) = tl (sort_key entry_seq ?es)"
    if "?es \<noteq> []"
  proof -
    have ne: "sort_key entry_seq ?es \<noteq> []" using that by (metis length_0_conv length_sort)
    have "distinct (map fst (sort_key entry_seq ?es))"
      using assms(1) by (simp add: distinct_keys_sort wf_cache_def)
    from filter_not_hd [OF this ne] show ?thesis by (simp only: delete_filter filter_sort)
  qed
  moreover have "oldest ?es = Some (fst (hd (sort_key entry_seq ?es)))" if "?es \<noteq> []"
    using that by (rule oldest_eq_hd)
  ultimately show ?thesis
    using assms(2) known by (cases "?es = []") (auto simp: evict_def hint_queue_def map_tl)
qed

lemma evict_subset: "set (evict c d) \<subseteq> set (rc_entries c)"
  by (auto simp: evict_def delete_filter split: option.splits)

lemma evict_filter: "\<exists>P. evict c d = filter P (rc_entries c)"
  by (auto simp: evict_def delete_filter split: option.splits intro: exI [of _ "\<lambda>_. True"])

text \<open>Putting a hint is putting it into the queue.\<close>

lemma hint_queue_put_at:
  assumes "wf_cache c" "0 < rc_max_entries c" "ordered_cache c" "unat (rc_seq c) < 2 ^ 64 - 1"
  shows "hint_queue (put_at c d ep now) = queue_put (rc_max_entries c) (hint_queue c) d ep now"
proof -
  let ?new = "(d, \<lparr>re_endpoint = ep, re_inserted = now, re_seq = rc_seq c + 1\<rparr>)"
  let ?rest = "AList.delete d (evict c d)"
  have below: "entry_seq y < entry_seq ?new" if "y \<in> set (sort_key entry_seq ?rest)" for y
  proof -
    from that have "y \<in> set (rc_entries c)" using evict_subset by (auto simp: delete_filter)
    then have "entry_seq y \<le> rc_seq c" using assms(3) by (auto simp: ordered_cache_def list_all_iff)
    with less_succ [OF assms(4)] show ?thesis by (simp add: entry_seq_def)
  qed
  have "sort_key entry_seq (?new # ?rest) = sort_key entry_seq ?rest @ [?new]"
    unfolding sort_key_simps(2) using below by (intro insort_last ballI)
  moreover have "map hint_of (sort_key entry_seq ?rest) =
      filter (\<lambda>(k, _). k \<noteq> d) (map hint_of (sort_key entry_seq (evict c d)))"
    by (simp add: delete_filter filter_sort [symmetric] filter_map comp_def hint_of_def split_beta)
  ultimately show ?thesis
    by (simp add: hint_queue_def put_at_def queue_put_def sort_evict [OF assms(1,2), unfolded hint_queue_def]
        hint_of_def del: sort_key_simps)
qed

lemma length_hint_queue [simp]: "length (hint_queue c) = length (rc_entries c)"
  by (simp add: hint_queue_def)

lemma length_evict:
  assumes "wf_cache c" "0 < rc_max_entries c"
  shows "length (evict c d) =
    (if rc_max_entries c \<le> length (rc_entries c) \<and> map_of (rc_entries c) d = None
     then length (rc_entries c) - 1 else length (rc_entries c))"
proof -
  have "d \<notin> fst ` set (hint_queue c) \<longleftrightarrow> map_of (rc_entries c) d = None"
    by (auto simp: hint_queue_def hint_of_def map_of_eq_None_iff image_iff)
  then show ?thesis using arg_cong [OF sort_evict [OF assms, of d], of length] by auto
qed

lemma wf_put_at:
  assumes wf: "wf_cache c" and "0 < rc_max_entries c"
  shows "wf_cache (put_at c d ep now)"
proof -
  let ?rest = "AList.delete d (evict c d)"
  obtain P where P: "evict c d = filter P (rc_entries c)" using evict_filter by blast
  have rest: "?rest = filter (\<lambda>x. P x \<and> fst x \<noteq> d) (rc_entries c)"
    unfolding delete_filter P by (simp add: conj_commute)
  have "length ?rest < rc_max_entries c"
  proof (cases "map_of (rc_entries c) d = None")
    case True
    then have "length ?rest \<le> length (evict c d)" by (simp add: delete_filter)
    moreover have "length (evict c d) < rc_max_entries c"
      using True wf assms(2) by (simp add: length_evict wf_cache_def) linarith
    ultimately show ?thesis by simp
  next
    case False
    then obtain x where x: "x \<in> set (rc_entries c)" "fst x = d"
      by (auto simp: map_of_eq_None_iff)
    then have "length (filter (\<lambda>x. P x \<and> fst x \<noteq> d) (rc_entries c)) < length (rc_entries c)"
      by (intro length_filter_less) auto
    with wf show ?thesis by (simp add: rest wf_cache_def)
  qed
  moreover have "distinct (map fst (filter Q (rc_entries c)))" for Q
    using wf by (auto simp: wf_cache_def distinct_map_filter)
  ultimately show ?thesis
    unfolding wf_cache_def put_at_def rest by (fastforce simp: rest)
qed

lemma ordered_put_at:
  assumes "ordered_cache c" "unat (rc_seq c) < 2 ^ 64 - 1"
  shows "ordered_cache (put_at c d ep now)"
proof -
  obtain P where rest: "AList.delete d (evict c d) = filter P (rc_entries c)"
    using evict_filter [of c d] by (auto simp: delete_filter)
  have le: "entry_seq x \<le> rc_seq c" if "x \<in> set (rc_entries c)" for x
    using assms(1) that by (auto simp: ordered_cache_def list_all_iff)
  have "entry_seq x < rc_seq c + 1" if "x \<in> set (rc_entries c)" for x
    using le [OF that] less_succ [OF assms(2)] by (rule le_less_trans)
  then show ?thesis
    using assms(1) unfolding ordered_cache_def put_at_def rest
    by (fastforce simp: rest list_all_iff entry_seq_def distinct_map_filter)
qed

definition cache_lookup :: "redirect_cache \<Rightarrow> string \<Rightarrow> endpoint option" where
  "cache_lookup c d = map_option re_endpoint (map_of (rc_entries c) d)"

definition cache_size :: "redirect_cache \<Rightarrow> nat" where
  "cache_size c = length (rc_entries c)"

interpretation cache: hint_store cache_lookup put_at cache_size rc_max_entries wf_cache
proof unfold_locales
  fix c d ep t
  assume wf: "wf_cache c"
  show "cache_size c \<le> rc_max_entries c" using wf by (simp add: cache_size_def wf_cache_def)
  show "cache_lookup (put_at c d ep t) d = Some ep" by (simp add: cache_lookup_def put_at_def)
  have "length (evict c d) \<le> length (rc_entries c)"
    by (auto simp: evict_def delete_filter split: option.splits)
  then show "cache_size (put_at c d ep t) \<le> cache_size c + 1"
    using le_trans [OF length_filter_le]
    by (simp add: cache_size_def put_at_def delete_filter del: length_filter_le)
  fix d'
  assume "cache_size c < rc_max_entries c \<or> cache_lookup c d \<noteq> None" and ne: "d' \<noteq> d"
  then have "evict c d = rc_entries c" by (auto simp: evict_def cache_size_def cache_lookup_def)
  with ne show "cache_lookup (put_at c d ep t) d' = cache_lookup c d'"
    by (simp add: cache_lookup_def put_at_def AList.delete_conv)
next
  show "wf_cache (put_at c d ep t)" if "wf_cache c" "0 < rc_max_entries c" for c d ep t
    using that by (rule wf_put_at)
qed (simp add: put_at_def)

section \<open>Reading and clearing\<close>

lemma map_of_hint_queue:
  assumes "wf_cache c"
  shows "map_of (hint_queue c) d =
    map_option (\<lambda>e. (re_endpoint e, re_inserted e)) (map_of (rc_entries c) d)"
proof -
  let ?s = "sort_key entry_seq (rc_entries c)"
  have "distinct (map fst ?s)" using assms by (simp add: distinct_keys_sort wf_cache_def)
  then have s: "map_of ?s = map_of (rc_entries c)"
    using assms by (intro map_of_inject_set [THEN iffD2]) (auto simp: wf_cache_def)
  have "map_of (map hint_of xs) d = map_option (\<lambda>e. (re_endpoint e, re_inserted e)) (map_of xs d)" for xs
    by (induction xs) (auto simp: hint_of_def)
  then show ?thesis by (simp add: hint_queue_def s)
qed

lemma hint_queue_delete:
  "hint_queue (c\<lparr>rc_entries := AList.delete d (rc_entries c)\<rparr>) = filter (\<lambda>(k, _). k \<noteq> d) (hint_queue c)"
  by (simp add: hint_queue_def delete_filter filter_sort [symmetric] filter_map comp_def hint_of_def split_beta)

lemma hint_queue_get_at:
  assumes "wf_cache c"
  shows "apsnd hint_queue (get_at c d now) = queue_get (rc_ttl c) (hint_queue c) d now"
  by (auto simp: get_at_def queue_get_def map_of_hint_queue [OF assms] hint_queue_delete split: option.splits)

lemma wf_get_at: "wf_cache c \<Longrightarrow> wf_cache (snd (get_at c d now))"
  using le_trans [OF length_filter_le]
  by (auto simp: get_at_def wf_cache_def delete_filter distinct_map_filter list_all_iff split: option.splits)

lemma ordered_get_at: "ordered_cache c \<Longrightarrow> ordered_cache (snd (get_at c d now))"
  by (auto simp: get_at_def ordered_cache_def delete_filter distinct_map_filter list_all_iff split: option.splits)

lemma wf_redirect_put: "wf_cache c \<Longrightarrow> wf_cache (fst (redirect_put clock c d ep w))"
  by (auto simp: redirect_put_def wf_put_at split_beta)

section \<open>Harvesting a response\<close>

text \<open>The hints a response carries for the devices of its request.\<close>

definition redirect_hints :: "string list \<Rightarrow> ts_status \<Rightarrow> (string \<times> endpoint) list" where
  "redirect_hints devices status =
     (case st_sub_status status of
        Some subs \<Rightarrow>
          if length subs = length devices
          then List.map_filter (\<lambda>(d, sub). map_option (Pair d) (status_endpoint sub)) (zip devices subs)
          else List.map_filter (\<lambda>d. map_option (Pair d) (status_endpoint status)) devices
      | None \<Rightarrow> List.map_filter (\<lambda>d. map_option (Pair d) (status_endpoint status)) devices)"

fun put_hints ::
    "('w \<Rightarrow> nat \<times> 'w) \<Rightarrow> redirect_cache \<Rightarrow> (string \<times> endpoint) list \<Rightarrow> 'w \<Rightarrow> redirect_cache \<times> 'w" where
  "put_hints clock c [] w = (c, w)"
| "put_hints clock c ((d, ep) # hs) w =
     (let (c, w) = redirect_put clock c d ep w in put_hints clock c hs w)"

lemma record_subs_eq:
  "record_subs clock c xs w =
     put_hints clock c (List.map_filter (\<lambda>(d, sub). map_option (Pair d) (status_endpoint sub)) xs) w"
  by (induction clock c xs w rule: record_subs.induct)
    (auto simp: List.map_filter_simps split: option.splits prod.splits)

lemma record_all_eq:
  "record_all clock c ds ep w = put_hints clock c (map (\<lambda>d. (d, ep)) ds) w"
  by (induction clock c ds ep w rule: record_all.induct) (auto split: prod.splits)

lemma record_redirects_eq:
  "record_redirects clock c devices status w = put_hints clock c (redirect_hints devices status) w"
  by (auto simp: record_redirects_def redirect_hints_def record_subs_eq record_all_eq
      List.map_filter_def comp_def split: option.splits)

lemma put_hints_put_all:
  assumes "0 < rc_max_entries c"
  shows "\<exists>ts. length ts = length hs \<and>
    fst (put_hints clock c hs w) = cache.put_all c (map2 (\<lambda>(d, ep) t. (d, ep, t)) hs ts)"
  using assms
proof (induction clock c hs w rule: put_hints.induct)
  case (1 clock c w)
  then show ?case by simp
next
  case (2 clock c d ep hs w)
  obtain now w' where now: "clock w = (now, w')" by (cases "clock w")
  then have step: "redirect_put clock c d ep w = (put_at c d ep now, w')"
    using 2 by (simp add: redirect_put_def)
  obtain ts where ts: "length ts = length hs" "fst (put_hints clock (put_at c d ep now) hs w') =
      cache.put_all (put_at c d ep now) (map2 (\<lambda>(d, ep) t. (d, ep, t)) hs ts)"
    using 2 step by (force simp: put_at_def)
  then show ?case by (intro exI [of _ "now # ts"]) (simp add: step)
qed

lemma strip_times:
  "length ts = length hs \<Longrightarrow> map (\<lambda>(d, ep, t). (d, ep)) (map2 (\<lambda>(d, ep) t. (d, ep, t)) hs ts) = hs"
  by (induction ts hs rule: list_induct2) auto

lemma port_in_range:
  assumes "0 < k" "k < 65536"
  shows "uint (word_of_int k :: u16) = k" "(word_of_int k :: u16) \<noteq> 0"
proof -
  show u: "uint (word_of_int k :: u16) = k"
    using assms by (simp add: unsigned_of_int take_bit_int_eq_self)
  show "(word_of_int k :: u16) \<noteq> 0"
    using u assms by (metis less_irrefl uint_0_eq)
qed

lemma endpoint_from_redirect_Some:
  assumes "endpoint_from_redirect node = Some ep"
  shows "ep_host ep = te_ip node \<and> ep_host ep \<noteq> [] \<and> uint (ep_port ep) = sint (te_port node) \<and> ep_port ep \<noteq> 0"
  using assms port_in_range [of "sint (te_port node)"]
  by (auto simp: endpoint_from_redirect_def endpoint_new_def simp del: of_int_sint split: if_splits)

section \<open>Properties\<close>

text \<open>
  What holds of a cache after at most \<open>n\<close> insertions: the counter has not wrapped around before
  \<open>2 ^ 64\<close> of them.
\<close>

definition counted :: "nat \<Rightarrow> redirect_cache \<Rightarrow> bool" where
  "counted n c \<longleftrightarrow> wf_cache c \<and> (n < 2 ^ 64 \<longrightarrow> unat (rc_seq c) \<le> n \<and> ordered_cache c)"

lemma counted_mono: "counted m c \<Longrightarrow> m \<le> n \<Longrightarrow> counted n c"
  by (auto simp: counted_def)

lemma counted_put_at:
  assumes "counted n c" "0 < rc_max_entries c"
  shows "counted (Suc n) (put_at c d ep now)"
proof -
  have "unat (rc_seq c + 1) \<le> Suc n \<and> ordered_cache (put_at c d ep now)" if "Suc n < 2 ^ 64"
  proof -
    have c: "unat (rc_seq c) \<le> n" "ordered_cache c" using assms(1) that by (simp_all add: counted_def)
    then have ne: "unat (rc_seq c) < 2 ^ 64 - 1" using that by simp
    with c ordered_put_at [OF c(2) ne] show ?thesis by (simp add: unat_succ)
  qed
  moreover have "wf_cache (put_at c d ep now)" using assms by (simp add: counted_def wf_put_at)
  ultimately show ?thesis by (simp add: counted_def put_at_def)
qed

lemma counted_redirect_put: "counted n c \<Longrightarrow> counted (Suc n) (fst (redirect_put clock c d ep w))"
  by (auto simp: redirect_put_def counted_put_at split_beta intro: counted_mono)

lemma counted_put_hints: "counted n c \<Longrightarrow> counted (n + length hs) (fst (put_hints clock c hs w))"
proof (induction hs arbitrary: n c w)
  case (Cons h hs)
  obtain d ep where h: "h = (d, ep)" by fastforce
  from Cons.IH [OF counted_redirect_put [OF Cons.prems]] show ?case by (simp add: h split_beta)
qed simp

lemma length_redirect_hints: "length (redirect_hints devices status) \<le> length devices"
proof -
  have "length (List.map_filter f xs) \<le> length xs" for f :: "'a \<Rightarrow> 'b option" and xs
    by (simp add: List.map_filter_def)
  from this [of _ "zip devices (the (st_sub_status status))"] this [of _ devices] show ?thesis
    by (auto simp: redirect_hints_def split: option.splits)
qed

text \<open>
  Every cache the client can have: a new one, after any of the operations; \<open>n\<close> bounds the number of the
  hints that were put.
\<close>

inductive api_cache :: "nat \<Rightarrow> redirect_cache \<Rightarrow> bool" where
  new: "api_cache 0 (redirect_cache_new ttl max_entries)"
| get: "api_cache n c \<Longrightarrow> api_cache n (snd (get_at c d now))"
| put: "api_cache n c \<Longrightarrow> api_cache (Suc n) (fst (redirect_put clock c d ep (w :: nat)))"
| clear: "api_cache n c \<Longrightarrow> api_cache n (redirect_clear c)"
| harvest: "api_cache n c \<Longrightarrow> api_cache (n + length devices) (fst (record_redirects clock c devices status (w :: nat)))"

lemma api_cache_counted: "api_cache n c \<Longrightarrow> counted n c"
proof (induction rule: api_cache.induct)
  case (new ttl max_entries)
  then show ?case by (simp add: redirect_cache_new_def counted_def wf_cache_def ordered_cache_def)
next
  case (get n c d now)
  then show ?case
    by (auto simp: counted_def wf_get_at ordered_get_at) (auto simp: get_at_def split: option.splits)
next
  case (clear n c)
  then show ?case by (simp add: redirect_clear_def counted_def wf_cache_def ordered_cache_def)
next
  case (harvest n c devices clock status w)
  from counted_put_hints [OF harvest.IH] show ?case
    unfolding record_redirects_eq by (rule counted_mono) (simp add: length_redirect_hints)
qed (rule counted_redirect_put)

lemma api_cache_wf: "api_cache n c \<Longrightarrow> wf_cache c"
  using api_cache_counted by (simp add: counted_def)

definition sample_cache :: redirect_cache where
  "sample_cache = fst (redirect_put (\<lambda>w. (w, w + 1))
     (fst (redirect_put (\<lambda>w. (w, w + 1)) (redirect_cache_new 10 2) ''d1'' (endpoint_new ''a'' 1) 5))
     ''d2'' (endpoint_new ''b'' 2) (6 :: nat))"

lemma api_sample_cache: "api_cache 2 sample_cache"
  unfolding sample_cache_def numeral_2_eq_2 by (intro api_cache.intros)

text \<open>
  Whatever sequence of lookups, insertions, clears and harvested responses a session performs,
  its redirect cache has at most \<^verbatim>\<open>max_entries\<close> entries, one per device, and up to \<open>2 ^ 64 - 1\<close> insertions
  counters that are all different, so that the eviction of the oldest entry is deterministic.
\<close>

lemma redirect_cache_invariant:
  "api_cache n c \<Longrightarrow> rs_size (redirect_stats c) \<le> rs_max_entries (redirect_stats c) \<and>
     distinct (map fst (rc_entries c)) \<and> (n < 2 ^ 64 \<longrightarrow> distinct (map (\<lambda>(k, e). re_seq e) (rc_entries c)))"
  using api_cache_counted [of n c]
  by (simp add: counted_def wf_cache_def ordered_cache_def redirect_stats_def entry_seq_def [abs_def] case_prod_unfold)

text \<open>
  C14: the cache is a bounded first-in first-out queue of hints, as long as fewer than \<open>2 ^ 64 - 1\<close> hints
  were put into it, so that its 64-bit counter has not wrapped around. Putting a hint moves its device
  to the back, dropping the oldest hint when the queue is full and the device is new; looking a device
  up returns its hint unless it is older than a non-zero time to live, in which case it is removed.
\<close>

theorem redirect_cache_refines_queue:
  assumes "api_cache n c" "n < 2 ^ 64 - 1" "0 < rc_max_entries c"
  shows "hint_queue (put_at c d ep now) = queue_put (rc_max_entries c) (hint_queue c) d ep now \<and>
         apsnd hint_queue (get_at c d now) = queue_get (rc_ttl c) (hint_queue c) d now"
proof -
  have c: "wf_cache c" "ordered_cache c" "unat (rc_seq c) \<le> n"
    using api_cache_counted [OF assms(1)] assms(2) by (simp_all add: counted_def)
  have "unat (rc_seq c) < 2 ^ 64 - 1" using c(3) assms(2) by simp
  with hint_queue_put_at [OF c(1) assms(3) c(2)] hint_queue_get_at [OF c(1)] show ?thesis by blast
qed

theorem redirect_cache_refines_queue_witness:
  "hint_queue (put_at sample_cache ''d3'' (endpoint_new ''c'' 3) 9) =
     [(''d2'', endpoint_new ''b'' 2, 6), (''d3'', endpoint_new ''c'' 3, 9)] \<and>
   fst (get_at sample_cache ''d1'' 15) = Some (endpoint_new ''a'' 1) \<and>
   fst (get_at sample_cache ''d1'' 16) = None"
proof -
  have n: "(2::nat) < 2 ^ 64 - 1" by simp
  have q: "0 < rc_max_entries sample_cache" by code_simp
  have "queue_put (rc_max_entries sample_cache) (hint_queue sample_cache) ''d3'' (endpoint_new ''c'' 3) 9 =
      [(''d2'', endpoint_new ''b'' 2, 6), (''d3'', endpoint_new ''c'' 3, 9)]"
    "fst (queue_get (rc_ttl sample_cache) (hint_queue sample_cache) ''d1'' 15) = Some (endpoint_new ''a'' 1)"
    "fst (queue_get (rc_ttl sample_cache) (hint_queue sample_cache) ''d1'' 16) = None"
    by code_simp+
  moreover note redirect_cache_refines_queue [OF api_sample_cache n q, of "''d3''" "endpoint_new ''c'' 3" 9]
    redirect_cache_refines_queue [OF api_sample_cache n q, of "''d1''" "endpoint_new ''a'' 1" 15]
    redirect_cache_refines_queue [OF api_sample_cache n q, of "''d1''" "endpoint_new ''a'' 1" 16]
  ultimately show ?thesis by (metis fst_apsnd)
qed

text \<open>
  C38: harvesting an insert response. When the cache has room for the hints, every device that got a
  usable redirect node (its own sub-status, when the sub-statuses pair with the devices, else the
  top-level one) is afterwards looked up to exactly that endpoint, the last one winning, and every
  other device keeps what it had.
\<close>

theorem record_redirects_lookup:
  assumes "api_cache n c" "0 < rc_max_entries c"
    and "length (rc_entries c) + length (redirect_hints devices status) \<le> rc_max_entries c"
  shows "cache_lookup (fst (record_redirects clock c devices status w)) d =
    (case map_of (rev (redirect_hints devices status)) d of None \<Rightarrow> cache_lookup c d | Some ep \<Rightarrow> Some ep)"
proof -
  let ?hs = "redirect_hints devices status"
  obtain ts where ts: "length ts = length ?hs"
    "fst (put_hints clock c ?hs w) = cache.put_all c (map2 (\<lambda>(d, ep) t. (d, ep, t)) ?hs ts)"
    using put_hints_put_all [OF assms(2), of ?hs clock w] by (elim exE conjE)
  let ?ths = "map2 (\<lambda>(d, ep) t. (d, ep, t)) ?hs ts"
  have "cache_size c + length ?ths \<le> rc_max_entries c"
    using ts(1) assms(3) by (simp add: cache_size_def)
  from cache.lookup_put_all [OF api_cache_wf [OF assms(1)] assms(2) this, of d]
  show ?thesis
    unfolding record_redirects_eq ts(2) strip_times [OF ts(1)] .
qed

theorem record_redirects_lookup_witness:
  "cache_lookup (fst (record_redirects (\<lambda>w. (w, w)) (redirect_cache_new 10 2) [''d1'', ''d2'']
      (TSStatus 400 None (Some [TSStatus 200 None None None None None,
          TSStatus 400 None None (Some \<lparr>te_ip = ''h'', te_port = 6667\<rparr>) None None])
        None None None) (0 :: nat))) ''d2'' = Some (endpoint_new ''h'' 6667)"
proof -
  let ?st = "TSStatus 400 None (Some [TSStatus 200 None None None None None,
      TSStatus 400 None None (Some \<lparr>te_ip = ''h'', te_port = 6667\<rparr>) None None]) None None None"
  have h: "redirect_hints [''d1'', ''d2''] ?st = [(''d2'', endpoint_new ''h'' 6667)]" by code_simp
  show ?thesis
    using record_redirects_lookup [OF api_cache.new [of 10 2], where devices = "[''d1'', ''d2'']" and
        status = ?st and clock = "\<lambda>w. (w, w)" and w = "0 :: nat" and d = "''d2''"]
    unfolding h by (simp add: redirect_cache_new_def)
qed

text \<open>
  A redirect node is accepted exactly when its host is not empty and its port is a non-zero
  16-bit number, and then it names the same host and port.
\<close>

lemma endpoint_from_redirect_spec:
  "endpoint_from_redirect node =
     (if te_ip node \<noteq> [] \<and> 0 < sint (te_port node) \<and> sint (te_port node) \<le> 65535
      then Some \<lparr>ep_host = te_ip node, ep_port = ucast (te_port node)\<rparr> else None)"
proof -
  have "(word_of_int (sint (te_port node)) :: u16) = ucast (te_port node)"
    by (rule bit_word_eqI) (auto simp: bit_simps)
  then show ?thesis by (auto simp: endpoint_from_redirect_def endpoint_new_def simp del: of_int_sint)
qed

end
