(* ===== verification/Session.thy ===== *)
theory Session
  imports Env Redirect
begin

text \<open>
  The session of \<^verbatim>\<open>src/client/session.rs\<close>: configuration, opening with a rotating start index, the
  handshake, reconnection, the single retry around every RPC, statements, queries and closing.
  The inserts are in \<open>Inserts\<close>. An operation takes the session and the world and returns its
  result with both; the process-wide start index is explicit in \<open>session_open\<close>.
\<close>

section \<open>Configuration\<close>

definition SUCCESS_STATUS :: i32 where "SUCCESS_STATUS = 200"

definition MULTIPLE_ERROR :: i32 where "MULTIPLE_ERROR = 302"

definition REDIRECTION_RECOMMEND :: i32 where "REDIRECTION_RECOMMEND = 400"

lemmas status_codes = SUCCESS_STATUS_def MULTIPLE_ERROR_def REDIRECTION_RECOMMEND_def

record session_config =
  sc_endpoints :: "endpoint list"
  sc_username :: string
  sc_password :: string
  sc_sql_dialect :: string
  sc_fetch_size :: i32
  sc_zone_id :: string
  sc_connect_timeout :: nat
  sc_query_timeout_ms :: i64
  sc_database :: "string option"
  sc_enable_auto_reconnect :: bool
  sc_max_reconnect_attempts :: nat
  sc_retry_interval :: nat
  sc_enable_redirection :: bool
  sc_enable_rpc_compression :: bool
  sc_use_ssl :: bool
  sc_ca_cert_path :: "string option"
  sc_accept_invalid_certs :: bool
  sc_domain_override :: "string option"
  sc_client_cert_path :: "string option"
  sc_client_key_path :: "string option"

definition session_config_default :: session_config where
  "session_config_default =
     \<lparr>sc_endpoints = [endpoint_new ''localhost'' 6667],
      sc_username = ''root'',
      sc_password = ''root'',
      sc_sql_dialect = ''tree'',
      sc_fetch_size = 1024,
      sc_zone_id = ''UTC+8'',
      sc_connect_timeout = secs 10,
      sc_query_timeout_ms = 60000,
      sc_database = None,
      sc_enable_auto_reconnect = True,
      sc_max_reconnect_attempts = 3,
      sc_retry_interval = secs 1,
      sc_enable_redirection = True,
      sc_enable_rpc_compression = False,
      sc_use_ssl = False,
      sc_ca_cert_path = None,
      sc_accept_invalid_certs = False,
      sc_domain_override = None,
      sc_client_cert_path = None,
      sc_client_key_path = None\<rparr>"

definition with_node_urls :: "session_config \<Rightarrow> string list \<Rightarrow> session_config result" where
  "with_node_urls config urls =
     bindr (traverse endpoint_parse urls) (\<lambda>eps. Inr (config\<lparr>sc_endpoints := eps\<rparr>))"

definition session_connection_options :: "session_config \<Rightarrow> connection_options" where
  "session_connection_options config =
     \<lparr>co_connect_timeout = sc_connect_timeout config,
      co_protocol = (if sc_enable_rpc_compression config then Compact else Binary),
      co_tls =
        (if sc_use_ssl config
         then Some \<lparr>tls_ca_cert_path = sc_ca_cert_path config,
                    tls_accept_invalid_certs = sc_accept_invalid_certs config,
                    tls_domain_override = sc_domain_override config,
                    tls_client_cert_path = sc_client_cert_path config,
                    tls_client_key_path = sc_client_key_path config\<rparr>
         else None)\<rparr>"

section \<open>State\<close>

record query_handle =
  qh_query_id :: i64
  qh_statement :: string
  qh_columns :: "string list"
  qh_data_type_list :: "string list"
  qh_ignore_time_stamp :: bool
  qh_query_result :: "bytes list"
  qh_more_data :: bool
  qh_column_index_map :: "i32 list option"

record session =
  ss_config :: session_config
  ss_connection :: "connection option"
  ss_session_id :: i64
  ss_statement_id :: i64
  ss_database :: "string option"
  ss_last_endpoint :: "endpoint option"
  ss_redirect_cache :: redirect_cache

definition session_new :: "session_config \<Rightarrow> session" where
  "session_new config =
     \<lparr>ss_config = config, ss_connection = None, ss_session_id = -1, ss_statement_id = -1,
      ss_database = sc_database config, ss_last_endpoint = None,
      ss_redirect_cache = redirect_cache_default\<rparr>"

definition is_open :: "session \<Rightarrow> bool" where
  "is_open s \<longleftrightarrow> ss_connection s \<noteq> None"

definition current_endpoint :: "session \<Rightarrow> endpoint option" where
  "current_endpoint s = map_option cn_endpoint (ss_connection s)"

text \<open>An operation of a session, and \<^verbatim>\<open>?\<close> on it.\<close>

type_synonym ('w, 'a) session_op = "session \<Rightarrow> 'w \<Rightarrow> 'a result \<times> session \<times> 'w"

definition bindo :: "('w, 'a) session_op \<Rightarrow> ('a \<Rightarrow> ('w, 'b) session_op) \<Rightarrow> ('w, 'b) session_op" where
  "bindo m f s w = (case m s w of (Inl e, s, w) \<Rightarrow> (Inl e, s, w) | (Inr x, s, w) \<Rightarrow> f x s w)"

definition pureo :: "'a result \<Rightarrow> ('w, 'a) session_op" where
  "pureo r s w = (r, s, w)"

section \<open>Server status\<close>

function check_status :: "ts_status \<Rightarrow> unit result" where
  "check_status (TSStatus code message subs redirect retry data) =
     (if code = SUCCESS_STATUS \<or> code = REDIRECTION_RECOMMEND then Inr ()
      else if code = MULTIPLE_ERROR then
        (case List.find (\<lambda>s. isl (check_status s)) (case subs of None \<Rightarrow> [] | Some xs \<Rightarrow> xs) of
           None \<Rightarrow> Inr ()
         | Some s \<Rightarrow> Inl (Server (st_code s) (case st_message s of None \<Rightarrow> [] | Some m \<Rightarrow> m)))
      else Inl (Server code (case message of None \<Rightarrow> [] | Some m \<Rightarrow> m)))"
  by pat_completeness auto
termination
  by (relation "measure size") (auto split: option.splits simp: less_Suc_eq_le intro!: le_SucI elim!: size_list_estimation')

section \<open>Opening\<close>

definition open_session_req :: "session \<Rightarrow> ts_open_session_req" where
  "open_session_req s =
     (let dialect = bt_insert ''sql_dialect'' (sc_sql_dialect (ss_config s)) [];
          configuration = (case ss_database s of None \<Rightarrow> dialect | Some db \<Rightarrow> bt_insert ''db'' db dialect)
      in \<lparr>osq_client_protocol = IotdbServiceProtocolV3,
          osq_zone_id = sc_zone_id (ss_config s),
          osq_username = sc_username (ss_config s),
          osq_password = Some (sc_password (ss_config s)),
          osq_configuration = Some configuration\<rparr>)"

text \<open>A protocol version other than V3 in the response is only logged by the code.\<close>

definition authenticate :: "'w env \<Rightarrow> session \<Rightarrow> connection \<Rightarrow> 'w \<Rightarrow> (i64 \<times> i64) result \<times> 'w" where
  "authenticate env s c =
     bindw (callw Thrift (e_open_session env c (open_session_req s))) (\<lambda>resp.
     bindw (purew (check_status (osr_status resp))) (\<lambda>_.
     bindw (purew (case osr_session_id resp of
                     None \<Rightarrow> Inl (Client MissingSessionId) | Some sid \<Rightarrow> Inr sid)) (\<lambda>session_id.
     bindw (callw Thrift (e_request_statement_id env c session_id)) (\<lambda>statement_id.
     purew (Inr (session_id, statement_id))))))"

text \<open>The endpoints in the order of \<^verbatim>\<open>endpoints[(start + i) % n]\<close> for \<^verbatim>\<open>i in 0..n\<close>.\<close>

definition rotation :: "endpoint list \<Rightarrow> nat \<Rightarrow> endpoint list" where
  "rotation eps start = map (\<lambda>i. eps ! ((start + i) mod length eps)) [0..<length eps]"

text \<open>The connect loop of \<^verbatim>\<open>open\<close>: the first endpoint that accepts wins, else the last error.\<close>

fun open_loop ::
    "'w env \<Rightarrow> connection_options \<Rightarrow> endpoint list \<Rightarrow> error option \<Rightarrow> 'w \<Rightarrow> (error option + connection) \<times> 'w" where
  "open_loop env opts [] last_err w = (Inl last_err, w)"
| "open_loop env opts (ep # eps) last_err w =
     (case connection_open (e_net env) ep opts w of
        (Inr c, w) \<Rightarrow> (Inr c, w)
      | (Inl e, w) \<Rightarrow> open_loop env opts eps (Some e) w)"

text \<open>Install a fresh connection with the ids of its handshake.\<close>

definition install :: "connection \<Rightarrow> i64 \<times> i64 \<Rightarrow> session \<Rightarrow> session" where
  "install c ids s =
     s\<lparr>ss_session_id := fst ids, ss_statement_id := snd ids,
       ss_last_endpoint := Some (cn_endpoint c), ss_connection := Some c\<rparr>"

definition session_open ::
    "'w env \<Rightarrow> 64 word \<Rightarrow> session \<Rightarrow> 'w \<Rightarrow> unit result \<times> 64 word \<times> session \<times> 'w" where
  "session_open env index s w =
     (if ss_connection s \<noteq> None then (Inl (Client SessionAlreadyOpen), index, s, w)
      else if sc_endpoints (ss_config s) = [] then (Inl (Client NoEndpoints), index, s, w)
      else
        let eps = sc_endpoints (ss_config s); start = unat index mod length eps; index = index + 1 in
        case open_loop env (session_connection_options (ss_config s)) (rotation eps start) None w of
          (Inl last_err, w) \<Rightarrow>
            (Inl (case last_err of Some e \<Rightarrow> e | None \<Rightarrow> Client NoEndpoints), index, s, w)
        | (Inr c, w) \<Rightarrow>
            (case authenticate env s c w of
               (Inl e, w) \<Rightarrow> (Inl e, index, s, e_drop env c w)
             | (Inr ids, w) \<Rightarrow> (Inr (), index, install c ids s, w)))"

section \<open>Reconnecting\<close>

definition open_and_authenticate ::
    "'w env \<Rightarrow> session \<Rightarrow> connection_options \<Rightarrow> endpoint \<Rightarrow> 'w \<Rightarrow> (connection \<times> i64 \<times> i64) result \<times> 'w" where
  "open_and_authenticate env s opts ep w =
     (case connection_open (e_net env) ep opts w of
        (Inl e, w) \<Rightarrow> (Inl e, w)
      | (Inr c, w) \<Rightarrow>
          (case authenticate env s c w of
             (Inl e, w) \<Rightarrow> (Inl e, e_drop env c w)
           | (Inr ids, w) \<Rightarrow> (Inr (c, ids), w)))"

text \<open>One pass over the endpoints, then up to \<^verbatim>\<open>attempts\<close> passes with a pause between them.\<close>

fun reconnect_pass ::
    "'w env \<Rightarrow> session \<Rightarrow> connection_options \<Rightarrow> endpoint list \<Rightarrow> error option \<Rightarrow> 'w
      \<Rightarrow> (error option + connection \<times> i64 \<times> i64) \<times> 'w" where
  "reconnect_pass env s opts [] last_err w = (Inl last_err, w)"
| "reconnect_pass env s opts (ep # eps) last_err w =
     (case open_and_authenticate env s opts ep w of
        (Inr x, w) \<Rightarrow> (Inr x, w)
      | (Inl e, w) \<Rightarrow> reconnect_pass env s opts eps (Some e) w)"

fun reconnect_loop ::
    "'w env \<Rightarrow> session \<Rightarrow> connection_options \<Rightarrow> endpoint list \<Rightarrow> nat \<Rightarrow> nat \<Rightarrow> error option \<Rightarrow> 'w
      \<Rightarrow> (error option + connection \<times> i64 \<times> i64) \<times> 'w" where
  "reconnect_loop env s opts eps attempt 0 last_err w = (Inl last_err, w)"
| "reconnect_loop env s opts eps attempt (Suc left) last_err w =
     (let w = (if 0 < attempt then e_sleep env (sc_retry_interval (ss_config s)) w else w) in
      case reconnect_pass env s opts eps last_err w of
        (Inr x, w) \<Rightarrow> (Inr x, w)
      | (Inl last_err, w) \<Rightarrow> reconnect_loop env s opts eps (Suc attempt) left last_err w)"

text \<open>\<^verbatim>\<open>iter().position(|e| e == ep)\<close>\<close>

fun position :: "('a \<Rightarrow> bool) \<Rightarrow> 'a list \<Rightarrow> nat option" where
  "position P [] = None"
| "position P (x # xs) = (if P x then Some 0 else map_option Suc (position P xs))"

definition reconnect_start :: "session \<Rightarrow> nat" where
  "reconnect_start s =
     (case Option.bind (ss_last_endpoint s) (\<lambda>ep. position (\<lambda>e. e = ep) (sc_endpoints (ss_config s))) of
        None \<Rightarrow> 0 | Some i \<Rightarrow> i)"

definition drop_connection :: "'w env \<Rightarrow> session \<Rightarrow> 'w \<Rightarrow> session \<times> 'w" where
  "drop_connection env s w =
     (s\<lparr>ss_connection := None\<rparr>, case ss_connection s of None \<Rightarrow> w | Some c \<Rightarrow> e_drop env c w)"

definition reconnect :: "'w env \<Rightarrow> ('w, unit) session_op" where
  "reconnect env s w =
     (let (s, w) = drop_connection env s w; eps = sc_endpoints (ss_config s) in
      if eps = [] then (Inl (Client NoEndpoints), s, w)
      else
        case reconnect_loop env s (session_connection_options (ss_config s)) (rotation eps (reconnect_start s)) 0
               (max (sc_max_reconnect_attempts (ss_config s)) 1) None w of
          (Inr (c, ids), w) \<Rightarrow> (Inr (), install c ids s, w)
        | (Inl last_err, w) \<Rightarrow>
            (Inl (case last_err of Some e \<Rightarrow> e | None \<Rightarrow> Client ReconnectFailed), s, w))"

definition with_retry :: "'w env \<Rightarrow> ('w, 'a) session_op \<Rightarrow> ('w, 'a) session_op" where
  "with_retry env op s w =
     (case op s w of
        (Inl e, s, w) \<Rightarrow>
          if is_thrift e \<and> sc_enable_auto_reconnect (ss_config s) \<and> ss_connection s \<noteq> None
          then (case reconnect env s w of
                  (Inr _, s, w) \<Rightarrow> op s w
                | (Inl _, s, w) \<Rightarrow> (Inl e, s, w))
          else (Inl e, s, w)
      | (Inr x, s, w) \<Rightarrow> (Inr x, s, w))"

section \<open>Calls\<close>

text \<open>\<^verbatim>\<open>session.connection_mut()?.client_mut().f(req)?\<close>\<close>

definition rpc :: "(connection \<Rightarrow> 'w \<Rightarrow> (thrift_error + 'a) \<times> 'w) \<Rightarrow> ('w, 'a) session_op" where
  "rpc f s w =
     (case ss_connection s of
        None \<Rightarrow> (Inl (Client SessionNotOpen), s, w)
      | Some c \<Rightarrow> (let (r, w) = f c w in (lift_thrift r, s, w)))"

definition statement_req :: "session \<Rightarrow> string \<Rightarrow> ts_execute_statement_req" where
  "statement_req s sql =
     \<lparr>esq_session_id = ss_session_id s, esq_statement = sql, esq_statement_id = ss_statement_id s,
      esq_fetch_size = Some (sc_fetch_size (ss_config s)),
      esq_timeout = Some (sc_query_timeout_ms (ss_config s)),
      esq_enable_redirect_query = Some True, esq_jdbc_query = Some False\<rparr>"

definition execute_non_query :: "'w env \<Rightarrow> string \<Rightarrow> ('w, unit) session_op" where
  "execute_non_query env sql =
     bindo (with_retry env (\<lambda>s. rpc (\<lambda>c. e_execute_update env c (statement_req s sql)) s)) (\<lambda>resp.
     bindo (pureo (check_status (esr_status resp))) (\<lambda>_ s w.
       (Inr (), case esr_database resp of None \<Rightarrow> s | Some db \<Rightarrow> s\<lparr>ss_database := Some db\<rparr>, w)))"

definition or_default :: "'a \<Rightarrow> 'a option \<Rightarrow> 'a" where
  "or_default d x = (case x of None \<Rightarrow> d | Some v \<Rightarrow> v)"

definition execute_query_raw :: "'w env \<Rightarrow> string \<Rightarrow> ('w, query_handle) session_op" where
  "execute_query_raw env sql =
     bindo (with_retry env (\<lambda>s. rpc (\<lambda>c. e_execute_query env c (statement_req s sql)) s)) (\<lambda>resp.
     bindo (pureo (check_status (esr_status resp))) (\<lambda>_.
     pureo (case esr_query_id resp of
              None \<Rightarrow> Inl (Client MissingQueryId)
            | Some query_id \<Rightarrow> Inr
                \<lparr>qh_query_id = query_id, qh_statement = sql,
                 qh_columns = or_default [] (esr_columns resp),
                 qh_data_type_list = or_default [] (esr_data_type_list resp),
                 qh_ignore_time_stamp = or_default False (esr_ignore_time_stamp resp),
                 qh_query_result = or_default [] (esr_query_result resp),
                 qh_more_data = or_default False (esr_more_data resp),
                 qh_column_index_map = esr_column_index2_ts_block_column_index_list resp\<rparr>)))"

definition fetch_results :: "'w env \<Rightarrow> i64 \<Rightarrow> string \<Rightarrow> ('w, bytes list \<times> bool) session_op" where
  "fetch_results env query_id sql s =
     (let req = \<lparr>frq_session_id = ss_session_id s, frq_statement = sql,
                 frq_fetch_size = sc_fetch_size (ss_config s), frq_query_id = query_id,
                 frq_is_align = True, frq_timeout = Some (sc_query_timeout_ms (ss_config s)),
                 frq_statement_id = Some (ss_statement_id s)\<rparr>
      in bindo (rpc (\<lambda>c. e_fetch_results env c req)) (\<lambda>resp.
         bindo (pureo (check_status (frr_status resp))) (\<lambda>_.
         pureo (Inr (if \<not> frr_has_result_set resp then ([], False)
                     else (or_default [] (frr_query_result resp), or_default False (frr_more_data resp)))))) s)"

definition close_query :: "'w env \<Rightarrow> i64 \<Rightarrow> session \<Rightarrow> 'w \<Rightarrow> session \<times> 'w" where
  "close_query env query_id s w =
     (case ss_connection s of
        None \<Rightarrow> (s, w)
      | Some c \<Rightarrow>
          (s, snd (e_close_operation env c
                \<lparr>coq_session_id = ss_session_id s, coq_query_id = Some query_id,
                 coq_statement_id = Some (ss_statement_id s), coq_prepared_statement_name = None\<rparr> w)))"

definition session_close :: "'w env \<Rightarrow> session \<Rightarrow> 'w \<Rightarrow> session \<times> 'w" where
  "session_close env s w =
     (s\<lparr>ss_connection := None, ss_session_id := -1, ss_statement_id := -1\<rparr>,
      case ss_connection s of
        None \<Rightarrow> w
      | Some c \<Rightarrow> e_drop env c (snd (e_close_session env c \<lparr>csq_session_id = ss_session_id s\<rparr> w)))"

section \<open>Redirect hints\<close>

definition redirect_hint :: "'w env \<Rightarrow> string \<Rightarrow> session \<Rightarrow> 'w \<Rightarrow> endpoint option \<times> session \<times> 'w" where
  "redirect_hint env device_id s w =
     (let (hint, c, w) = redirect_get (e_now env) (ss_redirect_cache s) device_id w
      in (hint, s\<lparr>ss_redirect_cache := c\<rparr>, w))"

definition clear_redirect_cache :: "session \<Rightarrow> session" where
  "clear_redirect_cache s = s\<lparr>ss_redirect_cache := redirect_clear (ss_redirect_cache s)\<rparr>"

definition check_insert_status :: "'w env \<Rightarrow> string list \<Rightarrow> ts_status \<Rightarrow> ('w, unit) session_op" where
  "check_insert_status env devices status s w =
     (let (s, w) =
        (if sc_enable_redirection (ss_config s)
         then let (c, w) = record_redirects (e_now env) (ss_redirect_cache s) devices status w
              in (s\<lparr>ss_redirect_cache := c\<rparr>, w)
         else (s, w))
      in (check_status status, s, w))"

end
