(* ===== verification/SessionProps.thy ===== *)
theory SessionProps
  imports Session
begin

text \<open>
  What a session does, on the log of its calls: which endpoints a connection attempt visits and in
  which order, that a call is retried at most once and then with the ids of a fresh handshake, that
  an open session is always one the server authenticated; and the meaning of a server status.
\<close>

section \<open>Server status\<close>

fun status_ok :: "ts_status \<Rightarrow> bool" where
  "status_ok (TSStatus code m subs r n d) =
     (code = SUCCESS_STATUS \<or> code = REDIRECTION_RECOMMEND \<or>
      code = MULTIPLE_ERROR \<and> (\<forall>xs \<in> set_option subs. \<forall>s \<in> set xs. status_ok s))"

text \<open>The status an error reports: itself, or for a multiple error the first failed sub-status.\<close>

definition culprit :: "ts_status \<Rightarrow> ts_status" where
  "culprit st =
     (if st_code st = MULTIPLE_ERROR
      then (case st_sub_status st of None \<Rightarrow> st | Some xs \<Rightarrow> hd (filter (\<lambda>s. \<not> status_ok s) xs)) else st)"

lemma find_hd: "List.find P xs = (if filter P xs = [] then None else Some (hd (filter P xs)))"
  by (induction xs) auto

lemma check_status_eq:
  "check_status st =
     (if status_ok st then Inr ()
      else Inl (Server (st_code (culprit st)) (or_default [] (st_message (culprit st)))))"
proof (induction st rule: check_status.induct)
  case (1 code m subs r n d)
  show ?case
  proof (cases "code = MULTIPLE_ERROR")
    case False
    then show ?thesis by (auto simp: culprit_def or_default_def split: option.splits)
  next
    case True
    let ?xs = "case subs of None \<Rightarrow> [] | Some xs \<Rightarrow> xs"
    have sub: "isl (check_status s) \<longleftrightarrow> \<not> status_ok s" if "s \<in> set ?xs" for s
      using "1.IH" [OF _ True that] True by (simp add: status_codes)
    have "filter (\<lambda>s. isl (check_status s)) ?xs = filter (\<lambda>s. \<not> status_ok s) ?xs"
      using sub by (intro filter_cong) auto
    with True show ?thesis
      by (cases subs) (auto simp: status_codes find_hd culprit_def or_default_def filter_empty_conv
          split: option.splits)
  qed
qed

section \<open>The log of a handshake\<close>

text \<open>The endpoints whose addresses were resolved, in order: one per connection attempt.\<close>

fun resolved :: "event list \<Rightarrow> endpoint list" where
  "resolved [] = []"
| "resolved (EvResolve h p # evs) = endpoint_new h p # resolved evs"
| "resolved (_ # evs) = resolved evs"

lemma resolved_append [simp]: "resolved (xs @ ys) = resolved xs @ resolved ys"
  by (induction xs rule: resolved.induct) auto

text \<open>Events of connecting, as opposed to calls made on behalf of the user.\<close>

fun link_event :: "event \<Rightarrow> bool" where
  "link_event (EvResolve _ _) = True"
| "link_event (EvOpenSession _ _ _) = True"
| "link_event (EvStatementId _ _ _) = True"
| "link_event (EvSleep _) = True"
| "link_event (EvDrop _) = True"
| "link_event _ = False"

text \<open>A log that ends with a complete handshake of the session on \<open>c\<close>, which issued the two ids.\<close>

definition handshaken :: "session \<Rightarrow> event list \<Rightarrow> connection \<Rightarrow> i64 \<Rightarrow> i64 \<Rightarrow> bool" where
  "handshaken s evs c sid stid \<longleftrightarrow>
     (\<exists>pre resp. evs = pre @ [EvOpenSession c (open_session_req s) (Inr resp), EvStatementId c sid (Inr stid)] \<and>
        status_ok (osr_status resp) \<and> osr_session_id resp = Some sid)"

lemma handshaken_prefix: "handshaken s evs c sid stid \<Longrightarrow> handshaken s (pre @ evs) c sid stid"
  unfolding handshaken_def by (metis append.assoc)

lemma handshaken_Cons: "handshaken s evs c sid stid \<Longrightarrow> handshaken s (ev # evs) c sid stid"
  using handshaken_prefix [of s evs c sid stid "[ev]"] by simp

definition auth_log :: "session \<Rightarrow> connection \<Rightarrow> (i64 \<times> i64) result \<Rightarrow> event list \<Rightarrow> bool" where
  "auth_log s c r evs \<longleftrightarrow>
     list_all link_event evs \<and> resolved evs = [] \<and>
     (\<forall>sid stid. r = Inr (sid, stid) \<longrightarrow> handshaken s evs c sid stid)"

lemma adds_authenticate: "adds (authenticate (logged env) s c) (auth_log s c)"
proof (rule addsI)
  fix w l r w' l'
  assume run: "authenticate (logged env) s c (w, l) = (r, w', l')"
  let ?q = "open_session_req s"
  obtain r1 w1 where 1: "e_open_session env c ?q w = (r1, w1)" by (cases "e_open_session env c ?q w")
  have open1: "callw Thrift (e_open_session (logged env) c ?q) (w, l) =
      (map_sum Thrift id r1, w1, l @ [EvOpenSession c ?q r1])"
    by (simp add: callw_def logged_def noting_def 1)
  show "\<exists>evs. l' = l @ evs \<and> auth_log s c r evs"
  proof (cases "\<exists>resp sid. r1 = Inr resp \<and> status_ok (osr_status resp) \<and> osr_session_id resp = Some sid")
    case False
    then have "l' = l @ [EvOpenSession c ?q r1]" "isl r"
      using run open1
      by (cases r1; auto simp: authenticate_def bindw_def purew_def check_status_eq split: if_splits option.splits)+
    then show ?thesis by (auto simp: auth_log_def)
  next
    case True
    then obtain resp sid where ok: "r1 = Inr resp" "status_ok (osr_status resp)" "osr_session_id resp = Some sid"
      by blast
    obtain r2 w2 where 2: "e_request_statement_id env c sid w1 = (r2, w2)"
      by (cases "e_request_statement_id env c sid w1")
    have "l' = l @ [EvOpenSession c ?q (Inr resp), EvStatementId c sid r2]"
      "r = map_sum Thrift (\<lambda>stid. (sid, stid)) r2"
      using run open1 ok 2
      by (cases r2; auto simp: authenticate_def bindw_def purew_def check_status_eq callw_def logged_def noting_def)+
    with ok show ?thesis by (cases r2) (auto simp: auth_log_def handshaken_def)
  qed
qed

lemma endpoint_new_self [simp]: "endpoint_new (ep_host ep) (ep_port ep) = ep"
  by (simp add: endpoint_new_def)

definition visit_log ::
    "session \<Rightarrow> endpoint list \<Rightarrow> 'e + (connection \<times> i64 \<times> i64) \<Rightarrow> event list \<Rightarrow> bool" where
  "visit_log s eps r evs \<longleftrightarrow>
     list_all link_event evs \<and>
     (case r of
        Inl _ \<Rightarrow> resolved evs = eps
      | Inr (c, sid, stid) \<Rightarrow> handshaken s evs c sid stid \<and> cn_endpoint c \<in> set eps \<and>
          (\<exists>k. 0 < k \<and> k \<le> length eps \<and> resolved evs = take k eps \<and> cn_endpoint c = eps ! (k - 1)))"

lemma adds_open_and_authenticate:
  "adds (open_and_authenticate (logged env) s opts ep) (visit_log s [ep])"
proof (rule addsI)
  fix w l r w' l'
  assume run: "open_and_authenticate (logged env) s opts ep (w, l) = (r, w', l')"
  let ?res = "[EvResolve (ep_host ep) (ep_port ep)]"
  obtain r1 w1 l1 where 1: "connection_open (e_net (logged env)) ep opts (w, l) = (r1, w1, l1)"
    by (metis prod.exhaust)
  have l1: "l1 = l @ ?res" using emits_run [OF emits_connection_open] 1 by (simp add: logged_def)
  show "\<exists>evs. l' = l @ evs \<and> visit_log s [ep] r evs"
  proof (cases r1)
    case (Inl e)
    with run 1 l1 show ?thesis by (auto simp: open_and_authenticate_def visit_log_def)
  next
    case (Inr c)
    have ep: "cn_endpoint c = ep" using connection_open_Inr [of "e_net (logged env)" ep opts] 1 Inr by blast
    obtain r2 w2 l2 where 2: "authenticate (logged env) s c (w1, l1) = (r2, w2, l2)" by (metis prod.exhaust)
    from addsD [OF adds_authenticate 2] obtain evs where evs: "l2 = l1 @ evs" "auth_log s c r2 evs" by blast
    show ?thesis
    proof (cases r2)
      case Inl2: (Inl e)
      with run 1 2 Inr have "r = Inl e" "l' = l2 @ [EvDrop c]"
        by (auto simp: open_and_authenticate_def logged_def)
      with evs l1 show ?thesis by (auto simp: visit_log_def auth_log_def)
    next
      case Inr2: (Inr ids)
      with run 1 2 Inr have "r = Inr (c, ids)" "l' = l2" by (auto simp: open_and_authenticate_def)
      with evs l1 Inr2 ep show ?thesis
        by (cases ids) (auto simp: visit_log_def auth_log_def intro: handshaken_Cons)
    qed
  qed
qed

lemma visit_log_later:
  assumes "visit_log s xs (Inl e :: 'e + _) evs" "visit_log s ys r evs'"
  shows "visit_log s (xs @ ys) r (evs @ evs')"
proof (cases r)
  case (Inl e')
  with assms show ?thesis by (simp add: visit_log_def)
next
  case (Inr x)
  obtain c sid stid where x: "x = (c, sid, stid)" by (cases x)
  with assms Inr obtain k where "0 < k" "k \<le> length ys" "resolved evs' = take k ys" "cn_endpoint c = ys ! (k - 1)"
    by (auto simp: visit_log_def)
  moreover from this have "(xs @ ys) ! (length xs + k - 1) = ys ! (k - 1)"
    by (simp add: nth_append)
  ultimately show ?thesis
    using assms Inr x
    by (auto simp: visit_log_def handshaken_prefix intro!: exI [of _ "length xs + k"])
qed

lemma visit_log_now: "visit_log s xs (Inr x) evs \<Longrightarrow> visit_log s (xs @ ys) (Inr x) evs"
  by (auto simp: visit_log_def nth_append intro!: exI)

lemma visit_log_sleep: "visit_log s xs r evs \<Longrightarrow> visit_log s xs r (EvSleep d # evs)"
  by (auto simp: visit_log_def handshaken_Cons split: sum.splits)

lemma visit_log_Nil: "visit_log s [] (Inl e) []"
  by (simp add: visit_log_def)

lemma adds_reconnect_pass: "adds (reconnect_pass (logged env) s opts eps last_err) (visit_log s eps)"
proof (induction eps arbitrary: last_err)
  case Nil
  show ?case by (rule addsI) (simp add: visit_log_Nil)
next
  case (Cons ep eps)
  show ?case
  proof (rule addsI)
    fix w l r w' l'
    assume run: "reconnect_pass (logged env) s opts (ep # eps) last_err (w, l) = (r, w', l')"
    obtain r1 w1 l1 where 1: "open_and_authenticate (logged env) s opts ep (w, l) = (r1, w1, l1)"
      by (metis prod.exhaust)
    from addsD [OF adds_open_and_authenticate 1] obtain evs where
      evs: "l1 = l @ evs" "visit_log s [ep] r1 evs" by blast
    show "\<exists>evs. l' = l @ evs \<and> visit_log s (ep # eps) r evs"
    proof (cases r1)
      case (Inr x)
      with run 1 evs visit_log_now [of s "[ep]" x evs eps] show ?thesis by auto
    next
      case (Inl e)
      with run 1 have "reconnect_pass (logged env) s opts eps (Some e) (w1, l1) = (r, w', l')" by simp
      from addsD [OF Cons.IH this] obtain evs' where "l' = l1 @ evs'" "visit_log s eps r evs'" by blast
      with evs Inl visit_log_later [of s "[ep]" e evs eps r evs'] show ?thesis by auto
    qed
  qed
qed

lemma adds_reconnect_loop:
  "adds (reconnect_loop (logged env) s opts eps attempt left last_err) (visit_log s (concat (replicate left eps)))"
proof (induction left arbitrary: attempt last_err)
  case 0
  show ?case by (rule addsI) (simp add: visit_log_Nil)
next
  case (Suc left)
  show ?case
  proof (rule addsI)
    fix w l r w' l'
    assume run: "reconnect_loop (logged env) s opts eps attempt (Suc left) last_err (w, l) = (r, w', l')"
    let ?d = "sc_retry_interval (ss_config s)"
    define sl where "sl = (if 0 < attempt then [EvSleep ?d] else [])"
    define w0 where "w0 = (if 0 < attempt then e_sleep env ?d w else w)"
    have start: "(if 0 < attempt then e_sleep (logged env) ?d (w, l) else (w, l)) = (w0, l @ sl)"
      by (simp add: sl_def w0_def logged_def)
    obtain r1 w1 l1 where 1: "reconnect_pass (logged env) s opts eps last_err (w0, l @ sl) = (r1, w1, l1)"
      by (metis prod.exhaust)
    from addsD [OF adds_reconnect_pass 1] obtain evs where
      evs: "l1 = (l @ sl) @ evs" "visit_log s eps r1 evs" by blast
    then have slept: "visit_log s eps r1 (sl @ evs)" by (simp add: sl_def visit_log_sleep)
    show "\<exists>evs. l' = l @ evs \<and> visit_log s (concat (replicate (Suc left) eps)) r evs"
    proof (cases r1)
      case (Inr x)
      with run 1 start have "l' = l1" "r = Inr x" by (simp_all add: Let_def)
      then show ?thesis using evs slept Inr by (auto intro: visit_log_now)
    next
      case (Inl e)
      with run 1 start have
        "reconnect_loop (logged env) s opts eps (Suc attempt) left e (w1, l1) = (r, w', l')"
        by (simp add: Let_def)
      from addsD [OF Suc.IH this] obtain evs' where
        "l' = l1 @ evs'" "visit_log s (concat (replicate left eps)) r evs'" by blast
      with evs slept Inl visit_log_later show ?thesis by fastforce
    qed
  qed
qed

section \<open>Reconnecting\<close>

lemma open_session_req_cong [simp]:
  "open_session_req (s\<lparr>ss_connection := c\<rparr>) = open_session_req s"
  by (simp add: open_session_req_def)

lemma handshaken_cong [simp]: "handshaken (s\<lparr>ss_connection := c\<rparr>) = handshaken s"
  by (simp add: handshaken_def fun_eq_iff)

lemma reconnect_start_cong [simp]: "reconnect_start (s\<lparr>ss_connection := c\<rparr>) = reconnect_start s"
  by (simp add: reconnect_start_def)

text \<open>The endpoints a reconnect tries, in order, until one handshake succeeds.\<close>

definition reconnect_order :: "session \<Rightarrow> endpoint list" where
  "reconnect_order s =
     concat (replicate (max (sc_max_reconnect_attempts (ss_config s)) 1)
       (rotation (sc_endpoints (ss_config s)) (reconnect_start s)))"

text \<open>What changes in a session by reconnecting: only the link.\<close>

definition same_but_link :: "session \<Rightarrow> session \<Rightarrow> bool" where
  "same_but_link s s' \<longleftrightarrow>
     ss_config s' = ss_config s \<and> ss_database s' = ss_database s \<and> ss_redirect_cache s' = ss_redirect_cache s"

definition reconnect_log :: "session \<Rightarrow> bool \<Rightarrow> session \<Rightarrow> event list \<Rightarrow> bool" where
  "reconnect_log s ok s' evs \<longleftrightarrow>
     list_all link_event evs \<and> same_but_link s s' \<and>
     (if ok
      then \<exists>c k. ss_connection s' = Some c \<and> ss_last_endpoint s' = Some (cn_endpoint c) \<and>
             handshaken s evs c (ss_session_id s') (ss_statement_id s') \<and>
             0 < k \<and> k \<le> length (reconnect_order s) \<and>
             resolved evs = take k (reconnect_order s) \<and> cn_endpoint c = reconnect_order s ! (k - 1)
      else ss_connection s' = None \<and> ss_last_endpoint s' = ss_last_endpoint s \<and>
           resolved evs = reconnect_order s)"

lemma length_rotation [simp]: "length (rotation eps k) = length eps"
  by (simp add: rotation_def)

lemma rotation_eq_rotate: "rotation eps k = rotate k eps"
  by (intro nth_equalityI) (auto simp: rotation_def nth_rotate)

lemma rotation_Nil [simp]: "rotation [] k = []"
  by (simp add: rotation_def)

lemma concat_replicate_Nil [simp]: "concat (replicate n []) = []"
  by (induction n) auto

lemma reconnect_logged:
  assumes "reconnect (logged env) s (w, l) = (r, s', w', l')"
  shows "\<exists>evs. l' = l @ evs \<and> reconnect_log s (\<not> isl r) s' evs"
proof -
  let ?s = "s\<lparr>ss_connection := None\<rparr>" and ?eps = "sc_endpoints (ss_config s)"
  let ?opts = "session_connection_options (ss_config s)"
  let ?n = "max (sc_max_reconnect_attempts (ss_config s)) 1"
  obtain d w0 where d: "drop_connection (logged env) s (w, l) = (?s, w0, l @ d)"
    and dl: "list_all link_event d" "resolved d = []"
    by (cases "ss_connection s") (auto simp: drop_connection_def logged_def)
  show ?thesis
  proof (cases "?eps = []")
    case True
    with assms d have "r = Inl (Client NoEndpoints)" "s' = ?s" "l' = l @ d" by (simp_all add: reconnect_def)
    with True dl show ?thesis by (simp add: reconnect_log_def same_but_link_def reconnect_order_def)
  next
    case False
    obtain r1 w1 l1 where 1: "reconnect_loop (logged env) ?s ?opts (rotation ?eps (reconnect_start s)) 0 ?n None
        (w0, l @ d) = (r1, w1, l1)" by (metis prod.exhaust)
    from addsD [OF adds_reconnect_loop 1] obtain evs where
      evs: "l1 = (l @ d) @ evs" "visit_log ?s (reconnect_order s) r1 evs"
      by (auto simp: reconnect_order_def)
    show ?thesis
    proof (cases r1)
      case (Inl e)
      with assms d False 1 have "isl r" "s' = ?s" "l' = l1" by (auto simp: reconnect_def)
      with evs Inl dl show ?thesis
        by (auto simp: reconnect_log_def visit_log_def same_but_link_def intro!: exI [of _ "d @ evs"])
    next
      case (Inr x)
      obtain c sid stid where x: "x = (c, sid, stid)" by (cases x)
      with assms d False 1 Inr have "r = Inr ()" "s' = install c (sid, stid) ?s" "l' = l1"
        by (auto simp: reconnect_def)
      with evs Inr x dl show ?thesis
        by (auto simp: reconnect_log_def visit_log_def same_but_link_def install_def handshaken_prefix
            intro!: exI [of _ "d @ evs"])
    qed
  qed
qed

section \<open>The retry\<close>

text \<open>
  The four things a call under \<^verbatim>\<open>with_retry\<close> can do: nothing on a closed session; one call; one call
  that failed in transport and a failed reconnect, which surfaces the first error and leaves the
  session closed; or a failed call, a successful reconnect and exactly one more call, made on the
  new connection with the session as the new handshake left it.
\<close>

definition retry_log ::
    "(connection \<Rightarrow> session \<Rightarrow> thrift_error + 'a \<Rightarrow> event) \<Rightarrow> session \<Rightarrow> 'a result \<Rightarrow> session \<Rightarrow> event list \<Rightarrow> bool" where
  "retry_log ev s r s' evs \<longleftrightarrow>
     (case ss_connection s of
        None \<Rightarrow> evs = [] \<and> r = Inl (Client SessionNotOpen) \<and> s' = s
      | Some c \<Rightarrow>
          (\<exists>r1. evs = [ev c s r1] \<and> r = lift_thrift r1 \<and> s' = s \<and>
             (isl r1 \<longrightarrow> \<not> sc_enable_auto_reconnect (ss_config s))) \<or>
          (sc_enable_auto_reconnect (ss_config s) \<and>
            (\<exists>e rc. evs = ev c s (Inl e) # rc \<and> r = Inl (Thrift e) \<and> reconnect_log s False s' rc)) \<or>
          (sc_enable_auto_reconnect (ss_config s) \<and>
            (\<exists>e rc c' r2. evs = ev c s (Inl e) # rc @ [ev c' s' r2] \<and> r = lift_thrift r2 \<and>
               ss_connection s' = Some c' \<and> reconnect_log s True s' rc)))"

lemma with_retry_logged:
  assumes run: "with_retry (logged env)
      (\<lambda>s. rpc (\<lambda>c. noting (\<lambda>r. [ev c s r]) (f c s)) s) s (w, l) = (r, s', w', l')"
  shows "\<exists>evs. l' = l @ evs \<and> retry_log ev s r s' evs"
proof (cases "ss_connection s")
  case None
  with run show ?thesis by (auto simp: with_retry_def rpc_def retry_log_def)
next
  case (Some c)
  let ?op = "\<lambda>s. rpc (\<lambda>c. noting (\<lambda>r. [ev c s r]) (f c s)) s"
  obtain r1 w1 where 1: "f c s w = (r1, w1)" by (cases "f c s w")
  have op1: "?op s (w, l) = (lift_thrift r1, s, w1, l @ [ev c s r1])"
    by (simp add: rpc_def Some noting_def 1)
  show ?thesis
  proof (cases "isl r1 \<and> sc_enable_auto_reconnect (ss_config s)")
    case False
    then have "r = lift_thrift r1" "s' = s" "l' = l @ [ev c s r1]"
      using run op1 by (cases r1; auto simp: with_retry_def)+
    with False Some show ?thesis by (auto simp: retry_log_def)
  next
    case True
    then obtain e where e: "r1 = Inl e" by (cases r1) auto
    obtain r2 s2 w2 l2 where 2: "reconnect (logged env) s (w1, l @ [ev c s r1]) = (r2, s2, w2, l2)"
      by (metis prod.exhaust)
    from reconnect_logged [OF this] obtain rc where
      rc: "l2 = (l @ [ev c s r1]) @ rc" "reconnect_log s (\<not> isl r2) s2 rc" by blast
    show ?thesis
    proof (cases r2)
      case (Inl e2)
      then have "r = Inl (Thrift e)" "s' = s2" "l' = l2"
        using run op1 True 2 e Some by (auto simp: with_retry_def)
      with rc Inl True Some e show ?thesis by (auto simp: retry_log_def)
    next
      case (Inr u)
      then obtain c' where c': "ss_connection s2 = Some c'" using rc by (auto simp: reconnect_log_def)
      obtain r3 w3 where 3: "f c' s2 w2 = (r3, w3)" by (cases "f c' s2 w2")
      have "r = lift_thrift r3" "s' = s2" "l' = l2 @ [ev c' s2 r3]"
        using run op1 True 2 e Some Inr c' 3 by (auto simp: with_retry_def rpc_def noting_def)
      with rc Inr True Some e c' show ?thesis by (auto simp: retry_log_def)
    qed
  qed
qed

text \<open>An environment in which every call succeeds, with session id 11 and statement id 12.\<close>

definition ok_status :: ts_status where
  "ok_status = TSStatus 200 None None None None None"

definition empty_exec_resp :: ts_execute_statement_resp where
  "empty_exec_resp =
     \<lparr>esr_status = ok_status, esr_query_id = Some 1, esr_columns = None, esr_operation_type = None,
      esr_ignore_time_stamp = None, esr_data_type_list = None, esr_query_data_set = None,
      esr_non_align_query_data_set = None, esr_column_name_index_map = None, esr_sg_columns = None,
      esr_alias_columns = None, esr_tracing_info = None, esr_query_result = None, esr_more_data = None,
      esr_database = None, esr_table_model = None, esr_column_index2_ts_block_column_index_list = None\<rparr>"

definition quiet_env :: "'w env" where
  "quiet_env =
     \<lparr>e_net = quiet_net,
      e_open_session = \<lambda>c q w. (Inr \<lparr>osr_status = ok_status, osr_server_protocol_version = IotdbServiceProtocolV3,
        osr_session_id = Some 11, osr_configuration = None\<rparr>, w),
      e_request_statement_id = \<lambda>c q w. (Inr 12, w),
      e_execute_update = \<lambda>c q w. (Inr empty_exec_resp, w),
      e_execute_query = \<lambda>c q w. (Inr empty_exec_resp, w),
      e_fetch_results = \<lambda>c q w. (Inr \<lparr>frr_status = ok_status, frr_has_result_set = False, frr_is_align = True,
        frr_query_data_set = None, frr_non_align_query_data_set = None, frr_query_result = None,
        frr_more_data = None\<rparr>, w),
      e_close_operation = \<lambda>c q w. (Inr ok_status, w),
      e_close_session = \<lambda>c q w. (Inr ok_status, w),
      e_insert_tablet = \<lambda>c q w. (Inr ok_status, w),
      e_insert_tablets = \<lambda>c q w. (Inr ok_status, w),
      e_insert_record = \<lambda>c q w. (Inr ok_status, w),
      e_insert_records = \<lambda>c q w. (Inr ok_status, w),
      e_insert_records_of_one_device = \<lambda>c q w. (Inr ok_status, w),
      e_now = \<lambda>w. (0, w), e_sleep = \<lambda>d w. w, e_drop = \<lambda>c w. w\<rparr>"

definition sample_connection :: connection where
  "sample_connection = \<lparr>cn_endpoint = endpoint_new ''localhost'' 6667, cn_protocol = Binary,
     cn_channel = TcpChannel 7, cn_stack = build_protocols Binary\<rparr>"

definition sample_session :: session where
  "sample_session = install sample_connection (11, 12) (session_new session_config_default)"

section \<open>Opening\<close>

lemma open_loop_logged:
  assumes "open_loop (logged env) opts eps last_err (w, l) = (r, w', l')"
  shows "\<exists>evs. l' = l @ evs \<and> list_all link_event evs \<and>
    (case r of
       Inl e \<Rightarrow> resolved evs = eps \<and> (eps \<noteq> [] \<longrightarrow> e \<noteq> None)
     | Inr c \<Rightarrow> \<exists>k < length eps. resolved evs = take (Suc k) eps \<and> cn_endpoint c = eps ! k)"
  using assms
proof (induction eps arbitrary: last_err w l)
  case Nil
  then show ?case by auto
next
  case (Cons ep eps)
  obtain r1 w1 l1 where 1: "connection_open (e_net (logged env)) ep opts (w, l) = (r1, w1, l1)"
    by (rule prod_cases3)
  have l1: "l1 = l @ [EvResolve (ep_host ep) (ep_port ep)]"
    using emits_run [OF emits_connection_open] 1 by (simp add: logged_def)
  show ?case
  proof (cases r1)
    case (Inr c)
    have "cn_endpoint c = ep" using connection_open_Inr [of "e_net (logged env)" ep opts] 1 Inr by blast
    with Cons.prems 1 l1 Inr show ?thesis by (auto intro!: exI [of _ 0])
  next
    case (Inl e)
    with Cons.prems 1 have "open_loop (logged env) opts eps (Some e) (w1, l1) = (r, w', l')" by simp
    from Cons.IH [OF this] obtain evs where evs: "l' = l1 @ evs" "list_all link_event evs"
      "case r of Inl e \<Rightarrow> resolved evs = eps \<and> (eps \<noteq> [] \<longrightarrow> e \<noteq> None)
       | Inr c \<Rightarrow> \<exists>k < length eps. resolved evs = take (Suc k) eps \<and> cn_endpoint c = eps ! k" by blast
    have last: "e' \<noteq> None" if "r = Inl e'" for e'
    proof (cases "eps = []")
      case True
      with Cons.prems 1 Inl that show ?thesis by auto
    next
      case False
      with evs(3) that show ?thesis by simp
    qed
    show ?thesis
      using evs l1 last
      by (intro exI [of _ "EvResolve (ep_host ep) (ep_port ep) # evs"])
        (auto simp: Ex_less_Suc2 split: sum.splits)
  qed
qed

section \<open>Reconnecting succeeds when an endpoint is up\<close>

lemma reconnect_pass_live:
  assumes "ep \<in> set eps" "\<forall>w. \<exists>x w'. open_and_authenticate env s opts ep w = (Inr x, w')"
  shows "\<exists>x w'. reconnect_pass env s opts eps last_err w = (Inr x, w')"
  using assms(1)
proof (induction eps arbitrary: last_err w)
  case (Cons e eps)
  obtain r1 w1 where 1: "open_and_authenticate env s opts e w = (r1, w1)" by (rule prod.exhaust)
  show ?case
  proof (cases r1)
    case (Inr x)
    with 1 show ?thesis by (cases x) simp
  next
    case (Inl err)
    with 1 assms(2) have "e \<noteq> ep" by (metis Inl_Inr_False prod.inject)
    with Cons 1 Inl show ?thesis by simp
  qed
qed simp

lemma set_rotation: "set (rotation eps k) = set eps"
  by (simp add: rotation_eq_rotate)

lemma session_open_logged:
  assumes "session_open (logged env) index s (w, l) = (r, index', s', w', l')"
    and "ss_connection s = None" "sc_endpoints (ss_config s) \<noteq> []"
  shows "index' = index + 1 \<and>
    (\<exists>evs k. l' = l @ evs \<and> list_all link_event evs \<and> 0 < k \<and>
       resolved evs = take k (rotate (unat index mod length (sc_endpoints (ss_config s))) (sc_endpoints (ss_config s))) \<and>
       (case r of
          Inl e \<Rightarrow> s' = s
        | Inr _ \<Rightarrow> \<exists>c. s' = install c (ss_session_id s', ss_statement_id s') s \<and>
            handshaken s evs c (ss_session_id s') (ss_statement_id s') \<and>
            cn_endpoint c \<in> set (sc_endpoints (ss_config s))))"
proof -
  let ?eps = "sc_endpoints (ss_config s)"
  let ?rot = "rotation ?eps (unat index mod length ?eps)"
  have pos: "0 < length ?rot" using assms(3) by simp
  obtain r1 w1 l1 where 1: "open_loop (logged env) (session_connection_options (ss_config s)) ?rot None (w, l) =
      (r1, w1, l1)" by (rule prod_cases3)
  from open_loop_logged [OF this] obtain evs where evs: "l1 = l @ evs" "list_all link_event evs"
    "case r1 of Inl e \<Rightarrow> resolved evs = ?rot \<and> (?rot \<noteq> [] \<longrightarrow> e \<noteq> None)
     | Inr c \<Rightarrow> \<exists>k < length ?rot. resolved evs = take (Suc k) ?rot \<and> cn_endpoint c = ?rot ! k" by blast
  show ?thesis
  proof (cases r1)
    case (Inl e)
    then have "index' = index + 1" "isl r" "s' = s" "l' = l1"
      using assms 1 by (auto simp: session_open_def Let_def)
    with evs Inl pos show ?thesis
      by (cases r) (auto simp: rotation_eq_rotate intro!: exI [of _ evs] exI [of _ "length ?rot"])
  next
    case (Inr c)
    then obtain k where k: "k < length ?rot" "resolved evs = take (Suc k) ?rot" "cn_endpoint c = ?rot ! k"
      using evs(3) by auto
    then have ep: "cn_endpoint c \<in> set ?eps" using nth_mem [OF k(1)] by (simp add: set_rotation)
    obtain r2 w2 l2 where 2: "authenticate (logged env) s c (w1, l1) = (r2, w2, l2)" by (rule prod_cases3)
    from addsD [OF adds_authenticate 2] obtain evs2 where evs2: "l2 = l1 @ evs2" "auth_log s c r2 evs2" by blast
    show ?thesis
    proof (cases r2)
      case Inl2: (Inl e)
      then have "index' = index + 1" "r = Inl e" "s' = s" "l' = l2 @ [EvDrop c]"
        using assms 1 2 Inr by (auto simp: session_open_def Let_def logged_def)
      with evs evs2 k show ?thesis
        by (auto simp: auth_log_def rotation_eq_rotate intro!: exI [of _ "evs @ evs2 @ [EvDrop c]"] exI [of _ "Suc k"])
    next
      case Inr2: (Inr ids)
      obtain sid stid where ids: "ids = (sid, stid)" by (cases ids)
      have "index' = index + 1" "r = Inr ()" "s' = install c ids s" "l' = l2"
        using assms 1 2 Inr Inr2 by (auto simp: session_open_def Let_def)
      with evs evs2 k ep ids Inr2 show ?thesis
        by (auto simp: auth_log_def rotation_eq_rotate handshaken_prefix install_def
            intro!: exI [of _ "evs @ evs2"] exI [of _ "Suc k"] exI [of _ c])
    qed
  qed
qed

lemma reconnect_succeeds:
  assumes "ep \<in> set (sc_endpoints (ss_config s))"
    and "\<forall>w. \<exists>x w'. open_and_authenticate env (s\<lparr>ss_connection := None\<rparr>)
           (session_connection_options (ss_config s)) ep w = (Inr x, w')"
  shows "fst (reconnect env s w) = Inr () \<and> is_open (fst (snd (reconnect env s w)))"
proof -
  let ?s = "s\<lparr>ss_connection := None\<rparr>" and ?opts = "session_connection_options (ss_config s)"
  let ?eps = "rotation (sc_endpoints (ss_config s)) (reconnect_start s)"
  have "ep \<in> set ?eps" using assms(1) by (simp add: set_rotation)
  then have pass: "\<exists>x w'. reconnect_pass env ?s ?opts ?eps le w = (Inr x, w')" for le w
    using assms(2) by (rule reconnect_pass_live)
  obtain n where n: "max (sc_max_reconnect_attempts (ss_config s)) 1 = Suc n"
    by (metis Suc_le_D max.cobounded2 One_nat_def)
  obtain w0 where w0: "drop_connection env s w = (?s, w0)" by (simp add: drop_connection_def)
  obtain c ids w' where "reconnect_loop env ?s ?opts ?eps 0 (max (sc_max_reconnect_attempts (ss_config s)) 1)
      None w0 = (Inr (c, ids), w')"
    using pass [of None w0] unfolding n by auto
  moreover have "sc_endpoints (ss_config s) \<noteq> []" using assms(1) by auto
  ultimately show ?thesis
    by (simp add: reconnect_def w0 install_def is_open_def del: One_nat_def reconnect_loop.simps)
qed

section \<open>A session that reconnects\<close>

lemma install_connection: "ss_connection (install c ids s) = Some c"
  by (simp add: install_def)

lemmas eval_sample = quiet_env_def quiet_net_def sample_session_def install_def session_new_def
  session_config_default_def logged_def logged_net_def noting_def callw_def bindw_def purew_def ok_status_def
  status_codes

lemma sample_handshake:
  "open_and_authenticate quiet_env s (session_connection_options session_config_default)
     (endpoint_new ''localhost'' 6667) w = (Inr (sample_connection, 11, 12), w)"
  by (simp add: open_and_authenticate_def connection_open_def connect_stream_def authenticate_def eval_sample
      session_connection_options_def sample_connection_def endpoint_new_def)

lemma sample_handshake_logged:
  "\<exists>x w'. open_and_authenticate (logged quiet_env) s (session_connection_options session_config_default)
     (endpoint_new ''localhost'' 6667) w = (Inr x, w')"
  by (simp add: open_and_authenticate_def connection_open_def connect_stream_def authenticate_def eval_sample
      session_connection_options_def Let_def split_beta)

lemma sample_config: "ss_config sample_session = session_config_default"
  "endpoint_new ''localhost'' 6667 \<in> set (sc_endpoints session_config_default)"
  by (simp_all add: sample_session_def install_def session_new_def session_config_default_def)

lemma sample_reconnects: "fst (reconnect (logged quiet_env) sample_session ((), [])) = Inr ()"
proof -
  have "\<forall>w. \<exists>x w'. open_and_authenticate (logged quiet_env) (sample_session\<lparr>ss_connection := None\<rparr>)
      (session_connection_options (ss_config sample_session)) (endpoint_new ''localhost'' 6667) w = (Inr x, w')"
    unfolding sample_config by (intro allI sample_handshake_logged)
  from reconnect_succeeds [OF _ this, of "((), [])"] show ?thesis by (simp add: sample_config)
qed

section \<open>Properties\<close>

text \<open>
  C28: a server status is a success exactly when it is 200, 400, or a multiple-error status all of
  whose sub-statuses are successes, at any depth; otherwise the error carries the code and message
  of the status itself, or for a multiple error of its first failed sub-status.
\<close>

theorem check_status_spec:
  "check_status st =
     (if status_ok st then Inr ()
      else Inl (Server (st_code (culprit st)) (or_default [] (st_message (culprit st)))))"
  by (rule check_status_eq)

text \<open>
  C11: a statement is sent once, or, when the call fails in transport and auto-reconnect is on,
  exactly once more after a successful reconnect, on the new connection with the ids of the new
  handshake; when the reconnect fails the first error is returned and the session is closed. The
  session's database follows the response of a successful statement and nothing else changes.
\<close>

theorem execute_non_query_retries_once:
  "\<exists>r s' w' evs r0 s0.
     execute_non_query (logged env) sql s (w, l) = (r, s', w', l @ evs) \<and>
     retry_log (\<lambda>c s. EvUpdate c (statement_req s sql)) s r0 s0 evs \<and>
     (case r0 of
        Inl e \<Rightarrow> r = Inl e \<and> s' = s0
      | Inr resp \<Rightarrow>
          r = check_status (esr_status resp) \<and>
          s' = (if status_ok (esr_status resp) \<and> esr_database resp \<noteq> None
                then s0\<lparr>ss_database := esr_database resp\<rparr> else s0))"
proof -
  have call: "e_execute_update (logged env) c q = noting (\<lambda>r. [EvUpdate c q r]) (e_execute_update env c q)" for c q
    by (simp add: logged_def)
  obtain r0 s0 w0 l0 where 0: "with_retry (logged env)
      (\<lambda>s. rpc (\<lambda>c. noting (\<lambda>r. [EvUpdate c (statement_req s sql) r])
         (e_execute_update env c (statement_req s sql))) s) s (w, l) = (r0, s0, w0, l0)"
    by (rule prod_cases4)
  obtain evs where evs: "l0 = l @ evs" "retry_log (\<lambda>c s. EvUpdate c (statement_req s sql)) s r0 s0 evs"
    using with_retry_logged [where ev = "\<lambda>c s. EvUpdate c (statement_req s sql)"
        and f = "\<lambda>c s. e_execute_update env c (statement_req s sql)", OF 0] by (elim exE conjE)
  show ?thesis
  proof (cases r0)
    case (Inl e)
    with 0 evs show ?thesis
      by (intro exI [of _ "Inl e"] exI [of _ s0] exI [of _ w0] exI [of _ evs])
        (simp add: execute_non_query_def bindo_def call exI [of _ s0])
  next
    case (Inr resp)
    let ?s = "if status_ok (esr_status resp) \<and> esr_database resp \<noteq> None
                then s0\<lparr>ss_database := esr_database resp\<rparr> else s0"
    have "execute_non_query (logged env) sql s (w, l) = (check_status (esr_status resp), ?s, w0, l @ evs)"
      using 0 evs(1) Inr
      by (auto simp: execute_non_query_def bindo_def pureo_def call check_status_eq split: option.splits)
    with evs(2) Inr show ?thesis
      by (intro exI [of _ "check_status (esr_status resp)"] exI [of _ ?s] exI [of _ w0] exI [of _ evs]
          exI [of _ "Inr resp"] exI [of _ s0]) simp
  qed
qed

text \<open>
  C15: reconnecting tries full handshakes round-robin, starting at the endpoint that just died (when
  it is configured), for at most \<^verbatim>\<open>max_reconnect_attempts\<close> passes and at least one. It stops at the
  first success, which becomes the session's connection with the ids that handshake issued; when it
  fails, every endpoint was tried in every pass, and the session is left without a connection.
\<close>

theorem reconnect_order_and_bound:
  assumes "reconnect (logged env) s (w, l) = (r, s', w', l')"
  shows "\<exists>evs. l' = l @ evs \<and> reconnect_log s (\<not> isl r) s' evs \<and>
    length (resolved evs) \<le> max (sc_max_reconnect_attempts (ss_config s)) 1 * length (sc_endpoints (ss_config s)) \<and>
    (\<forall>ep \<in> set (sc_endpoints (ss_config s)). ss_last_endpoint s = Some ep \<longrightarrow> hd (reconnect_order s) = ep)"
proof -
  obtain evs where evs: "l' = l @ evs" "reconnect_log s (\<not> isl r) s' evs"
    using reconnect_logged [OF assms] by (elim exE conjE)
  have len: "length (reconnect_order s) =
      max (sc_max_reconnect_attempts (ss_config s)) 1 * length (sc_endpoints (ss_config s))"
    by (simp add: reconnect_order_def length_concat sum_list_replicate)
  have "length (resolved evs) \<le> length (reconnect_order s)"
    using evs(2) by (auto simp: reconnect_log_def split: if_splits)
  moreover have "hd (reconnect_order s) = ep"
    if ep: "ep \<in> set (sc_endpoints (ss_config s))" "ss_last_endpoint s = Some ep" for ep
  proof -
    let ?eps = "sc_endpoints (ss_config s)"
    have pos: "\<exists>i. position (\<lambda>e. e = ep) eps = Some i \<and> i < length eps \<and> eps ! i = ep" if "ep \<in> set eps" for eps
      using that by (induction eps) auto
    then obtain i where i: "position (\<lambda>e. e = ep) ?eps = Some i" "i < length ?eps" "?eps ! i = ep"
      using ep(1) by blast
    have ne: "rotation ?eps i \<noteq> []" using i by (auto simp: rotation_def)
    moreover have "hd (rotation ?eps i) = ep"
      using i ne by (subst hd_conv_nth) (auto simp: rotation_def)
    moreover have "\<exists>n. max (sc_max_reconnect_attempts (ss_config s)) 1 = Suc n"
      by (metis Suc_le_D max.cobounded2 One_nat_def)
    ultimately show ?thesis
      using i ep(2) by (auto simp: reconnect_order_def reconnect_start_def)
  qed
  ultimately show ?thesis using evs len by auto
qed

theorem reconnect_order_and_bound_witness:
  "\<exists>s' w' evs. reconnect (logged quiet_env) sample_session ((), []) = (Inr (), s', w', evs) \<and>
     length (resolved evs) \<le> 3 \<and> ss_connection s' \<noteq> None"
proof -
  obtain r s' w' l' where run: "reconnect (logged quiet_env) sample_session ((), []) = (r, s', w', l')"
    by (rule prod_cases4)
  moreover have "fst (reconnect (logged quiet_env) sample_session ((), [])) = Inr ()"
    by (rule sample_reconnects)
  moreover have "max (sc_max_reconnect_attempts (ss_config sample_session)) 1 *
      length (sc_endpoints (ss_config sample_session)) = 3"
    by (simp add: sample_session_def install_def session_new_def session_config_default_def)
  ultimately show ?thesis
    using reconnect_order_and_bound [OF run] by (auto simp: reconnect_log_def)
qed

text \<open>
  C27: reconnecting succeeds whenever one configured endpoint is up, that is completes the connection
  and the handshake every time it is tried.
\<close>

theorem reconnect_live:
  assumes "ep \<in> set (sc_endpoints (ss_config s))"
    and "\<forall>w. \<exists>x w'. open_and_authenticate env (s\<lparr>ss_connection := None\<rparr>)
           (session_connection_options (ss_config s)) ep w = (Inr x, w')"
  shows "fst (reconnect env s w) = Inr () \<and> is_open (fst (snd (reconnect env s w)))"
  using assms by (rule reconnect_succeeds)

theorem reconnect_live_witness: "fst (reconnect quiet_env sample_session ()) = Inr ()"
proof -
  have "\<forall>w. \<exists>x w'. open_and_authenticate quiet_env (sample_session\<lparr>ss_connection := None\<rparr>)
      (session_connection_options (ss_config sample_session)) (endpoint_new ''localhost'' 6667) w = (Inr x, w')"
    unfolding sample_config by (intro allI exI) (rule sample_handshake)
  from reconnect_live [OF _ this, of "()"] show ?thesis by (simp add: sample_config)
qed

text \<open>
  C26: opening a session tries each configured endpoint at most once, in order from the rotating
  start index, which advances by one per attempt to open (modulo the machine word). The first
  endpoint that accepts the connection is used for the handshake; on success the session holds that
  connection and the ids the server issued, on failure it is unchanged.
\<close>

theorem session_open_spec:
  assumes "session_open (logged env) index s (w, l) = (r, index', s', w', l')"
    and "ss_connection s = None" "sc_endpoints (ss_config s) \<noteq> []"
  shows "index' = index + 1 \<and>
    (\<exists>evs k. l' = l @ evs \<and> list_all link_event evs \<and> 0 < k \<and>
       resolved evs = take k (rotate (unat index mod length (sc_endpoints (ss_config s))) (sc_endpoints (ss_config s))) \<and>
       (case r of
          Inl e \<Rightarrow> s' = s
        | Inr _ \<Rightarrow> \<exists>c. s' = install c (ss_session_id s', ss_statement_id s') s \<and>
            handshaken s evs c (ss_session_id s') (ss_statement_id s') \<and>
            cn_endpoint c \<in> set (sc_endpoints (ss_config s))))"
  using assms by (rule session_open_logged)

theorem session_open_spec_witness:
  "\<exists>c s' evs. fst (snd (snd (session_open (logged quiet_env) 5 (session_new session_config_default) ((), [])))) = s' \<and>
     ss_connection s' = Some c \<and>
     handshaken (session_new session_config_default) evs c (ss_session_id s') (ss_statement_id s')"
proof -
  obtain r i s' w' l' where run: "session_open (logged quiet_env) 5 (session_new session_config_default) ((), []) =
      (r, i, s', w', l')" by (rule prod_cases5)
  have "fst (session_open (logged quiet_env) 5 (session_new session_config_default) ((), [])) = Inr ()"
    by (simp add: session_open_def rotation_def connection_open_def connect_stream_def authenticate_def
        session_connection_options_def eval_sample Let_def)
  then have "r = Inr ()" by (simp add: run)
  moreover have "ss_connection (session_new session_config_default) = None"
    "sc_endpoints (ss_config (session_new session_config_default)) \<noteq> []"
    by (simp_all add: session_new_def session_config_default_def)
  ultimately obtain c evs where "s' = install c (ss_session_id s', ss_statement_id s') (session_new session_config_default)"
    "handshaken (session_new session_config_default) evs c (ss_session_id s') (ss_statement_id s')"
    using session_open_spec [OF run] by auto
  moreover from this have "ss_connection s' = Some c" by (metis install_connection)
  ultimately show ?thesis using run by auto
qed

end
