(* ===== verification/Inserts.thy ===== *)
theory Inserts
  imports SessionProps RecordValues
begin

text \<open>
  The inserts of \<^verbatim>\<open>src/client/session.rs\<close>: tablets, batches of tablets, and the three record paths
  with their aligned variants. Each builds its request, sends it under \<^verbatim>\<open>with_retry\<close> with the session
  id current at the attempt, and harvests redirect hints from the response. A tablet whose
  serialization panics makes the insert panic: the result is \<open>None\<close>.
\<close>

section \<open>Tablets\<close>

definition insert_tablet_raw ::
    "'w env \<Rightarrow> string \<Rightarrow> string list \<Rightarrow> i32 list \<Rightarrow> bytes \<Rightarrow> bytes \<Rightarrow> i32 \<Rightarrow> bool \<Rightarrow> bool option \<Rightarrow> i8 list option
      \<Rightarrow> ('w, unit) session_op" where
  "insert_tablet_raw env prefix_path measurements types vals timestamps row_total is_aligned write_to_table categories s =
     (let req = \<lparr>itq_session_id = ss_session_id s, itq_prefix_path = prefix_path,
                 itq_measurements = measurements, itq_values = vals, itq_timestamps = timestamps,
                 itq_types = types, itq_size = row_total, itq_is_aligned = Some is_aligned,
                 itq_write_to_table = write_to_table, itq_column_categories = categories,
                 itq_is_compressed = None, itq_encoding_types = None, itq_compress_type = None\<rparr>
      in bindo (with_retry env (\<lambda>s. rpc (\<lambda>c. e_insert_tablet env c (req\<lparr>itq_session_id := ss_session_id s\<rparr>)) s))
           (\<lambda>status. check_insert_status env [prefix_path] status) s)"

definition insert_tablet :: "'w env \<Rightarrow> tablet \<Rightarrow> session \<Rightarrow> 'w \<Rightarrow> (unit result \<times> session \<times> 'w) option" where
  "insert_tablet env t s w =
     (let (vals, t) = serialize_values t; (timestamps, t) = serialize_timestamps t;
          (write_to_table, categories) =
            (case tb_categories t of
               Some cats \<Rightarrow> (Some True, Some (map category_code cats))
             | None \<Rightarrow> (None, None))
      in case vals of
           None \<Rightarrow> None
         | Some vals \<Rightarrow> Some (insert_tablet_raw env (tb_target t) (tb_measurements t) (map type_code_of (tb_types t))
             vals timestamps (word_of_nat (row_count t)) (tb_aligned t) write_to_table categories s w))"

text \<open>One entry per tablet in each of the parallel lists of the batch request.\<close>

record tablet_entry =
  en_prefix_path :: string
  en_measurements :: "string list"
  en_values :: bytes
  en_timestamps :: bytes
  en_types :: "i32 list"
  en_size :: i32

fun tablet_entries :: "tablet list \<Rightarrow> tablet_entry list result option" where
  "tablet_entries [] = Some (Inr [])"
| "tablet_entries (t # ts) =
     (if is_table_model t then Some (Inl (Client (TableModelTablet (tb_target t))))
      else
        let (vals, t) = serialize_values t; (timestamps, t) = serialize_timestamps t in
        case vals of
          None \<Rightarrow> None
        | Some vals \<Rightarrow>
            map_option (\<lambda>r. bindr r (\<lambda>es. Inr
              (\<lparr>en_prefix_path = tb_target t, en_measurements = tb_measurements t, en_values = vals,
                en_timestamps = timestamps, en_types = map type_code_of (tb_types t),
                en_size = word_of_nat (row_count t)\<rparr> # es)))
              (tablet_entries ts))"

definition build_insert_tablets_req :: "i64 \<Rightarrow> tablet list \<Rightarrow> bool \<Rightarrow> ts_insert_tablets_req result option" where
  "build_insert_tablets_req session_id tablets is_aligned =
     (if tablets = [] then Some (Inl (Client NoTablets))
      else map_option (\<lambda>r. bindr r (\<lambda>es. Inr
             \<lparr>isq_session_id = session_id, isq_prefix_paths = map en_prefix_path es,
              isq_measurements_list = map en_measurements es, isq_values_list = map en_values es,
              isq_timestamps_list = map en_timestamps es, isq_types_list = map en_types es,
              isq_size_list = map en_size es, isq_is_aligned = Some is_aligned\<rparr>))
           (tablet_entries tablets))"

definition insert_tablets ::
    "'w env \<Rightarrow> tablet list \<Rightarrow> bool \<Rightarrow> session \<Rightarrow> 'w \<Rightarrow> (unit result \<times> session \<times> 'w) option" where
  "insert_tablets env tablets is_aligned s w =
     map_option (\<lambda>r. case r of
         Inl e \<Rightarrow> (Inl e, s, w)
       | Inr req \<Rightarrow>
           bindo (with_retry env (\<lambda>s. rpc (\<lambda>c. e_insert_tablets env c (req\<lparr>isq_session_id := ss_session_id s\<rparr>)) s))
             (\<lambda>status. check_insert_status env (isq_prefix_paths req) status) s w)
       (build_insert_tablets_req (ss_session_id s) tablets is_aligned)"

definition insert_aligned_tablets ::
    "'w env \<Rightarrow> tablet list \<Rightarrow> session \<Rightarrow> 'w \<Rightarrow> (unit result \<times> session \<times> 'w) option" where
  "insert_aligned_tablets env tablets = insert_tablets env tablets True"

section \<open>Records\<close>

definition check_record_arity :: "string list \<Rightarrow> ts_value list \<Rightarrow> unit result" where
  "check_record_arity measurements vs =
     (if length measurements \<noteq> length vs then Inl (Client (RecordArity (length vs) (length measurements)))
      else Inr ())"

definition filter_null_cells :: "string list \<Rightarrow> ts_value list \<Rightarrow> string list \<times> ts_value list" where
  "filter_null_cells measurements vs =
     (if \<not> list_ex is_null vs then (measurements, vs)
      else let kept = filter (\<lambda>(m, v). \<not> is_null v) (zip measurements vs) in (map fst kept, map snd kept))"

definition insert_record ::
    "'w env \<Rightarrow> string \<Rightarrow> i64 \<Rightarrow> string list \<Rightarrow> ts_value list \<Rightarrow> bool \<Rightarrow> ('w, unit) session_op" where
  "insert_record env device_id timestamp measurements vs is_aligned =
     bindo (pureo (check_record_arity measurements vs)) (\<lambda>_.
     let (ms, vs) = filter_null_cells measurements vs in
     if vs = [] then pureo (Inl (Client AllValuesNull))
     else (\<lambda>s.
       let req = \<lparr>irq_session_id = ss_session_id s, irq_prefix_path = device_id, irq_measurements = ms,
                  irq_values = serialize_record_values vs, irq_timestamp = timestamp,
                  irq_is_aligned = Some is_aligned, irq_is_write_to_table = None,
                  irq_column_categoryies = None\<rparr>
       in bindo (with_retry env (\<lambda>s. rpc (\<lambda>c. e_insert_record env c (req\<lparr>irq_session_id := ss_session_id s\<rparr>)) s))
            (\<lambda>status. check_insert_status env [device_id] status) s))"

text \<open>
  The loop both batch paths share: check the arity, drop the null cells, drop a row that has none
  left. \<open>'k\<close> is what identifies the row (device and timestamp, or the timestamp alone).
\<close>

fun keep_rows :: "('k \<times> string list \<times> ts_value list) list \<Rightarrow> ('k \<times> string list \<times> ts_value list) list result" where
  "keep_rows [] = Inr []"
| "keep_rows ((k, measurements, vs) # rows) =
     bindr (check_record_arity measurements vs) (\<lambda>_.
       let (ms, vs) = filter_null_cells measurements vs in
       if vs = [] then keep_rows rows
       else bindr (keep_rows rows) (\<lambda>kept. Inr ((k, ms, vs) # kept)))"

definition insert_records ::
    "'w env \<Rightarrow> string list \<Rightarrow> i64 list \<Rightarrow> string list list \<Rightarrow> ts_value list list \<Rightarrow> bool \<Rightarrow> ('w, unit) session_op" where
  "insert_records env device_ids timestamps measurements_list values_list is_aligned =
     (let n = length device_ids in
      if length timestamps \<noteq> n \<or> length measurements_list \<noteq> n \<or> length values_list \<noteq> n
      then pureo (Inl (Client (RecordsLengthMismatch n (length timestamps) (length measurements_list)
             (length values_list))))
      else
        bindo (pureo (keep_rows (zip (zip device_ids timestamps) (zip measurements_list values_list)))) (\<lambda>kept.
        if kept = [] then pureo (Inl (Client AllValuesNull))
        else (\<lambda>s.
          let devices = map (fst \<circ> fst) kept;
              req = \<lparr>rsq_session_id = ss_session_id s, rsq_prefix_paths = devices,
                     rsq_measurements_list = map (fst \<circ> snd) kept,
                     rsq_values_list = map (serialize_record_values \<circ> snd \<circ> snd) kept,
                     rsq_timestamps = map (snd \<circ> fst) kept, rsq_is_aligned = Some is_aligned\<rparr>
          in bindo (with_retry env (\<lambda>s. rpc (\<lambda>c. e_insert_records env c (req\<lparr>rsq_session_id := ss_session_id s\<rparr>)) s))
               (\<lambda>status. check_insert_status env devices status) s)))"

definition sort_one_device_rows ::
    "i64 list \<Rightarrow> string list list \<Rightarrow> ts_value list list \<Rightarrow> i64 list \<times> string list list \<times> bytes list" where
  "sort_one_device_rows timestamps measurements_list values_list =
     (let ord = sort_order timestamps in
      if is_identity_order ord then (timestamps, measurements_list, map serialize_record_values values_list)
      else (permute ord timestamps, permute ord measurements_list,
            map (\<lambda>i. serialize_record_values (values_list ! i)) ord))"

definition insert_records_of_one_device ::
    "'w env \<Rightarrow> string \<Rightarrow> i64 list \<Rightarrow> string list list \<Rightarrow> ts_value list list \<Rightarrow> bool \<Rightarrow> ('w, unit) session_op" where
  "insert_records_of_one_device env device_id timestamps measurements_list values_list is_aligned =
     (let n = length timestamps in
      if length measurements_list \<noteq> n \<or> length values_list \<noteq> n
      then pureo (Inl (Client (OneDeviceLengthMismatch n (length measurements_list) (length values_list))))
      else
        bindo (pureo (keep_rows (zip timestamps (zip measurements_list values_list)))) (\<lambda>kept.
        if kept = [] then pureo (Inl (Client AllValuesNull))
        else (\<lambda>s.
          let (ts, ms, buffers) =
                sort_one_device_rows (map fst kept) (map (fst \<circ> snd) kept) (map (snd \<circ> snd) kept);
              req = \<lparr>odq_session_id = ss_session_id s, odq_prefix_path = device_id,
                     odq_measurements_list = ms, odq_values_list = buffers, odq_timestamps = ts,
                     odq_is_aligned = Some is_aligned\<rparr>
          in bindo (with_retry env (\<lambda>s. rpc (\<lambda>c.
                 e_insert_records_of_one_device env c (req\<lparr>odq_session_id := ss_session_id s\<rparr>)) s))
               (\<lambda>status. check_insert_status env [device_id] status) s)))"

definition insert_aligned_record ::
    "'w env \<Rightarrow> string \<Rightarrow> i64 \<Rightarrow> string list \<Rightarrow> ts_value list \<Rightarrow> ('w, unit) session_op" where
  "insert_aligned_record env device_id timestamp measurements vs =
     insert_record env device_id timestamp measurements vs True"

definition insert_aligned_records ::
    "'w env \<Rightarrow> string list \<Rightarrow> i64 list \<Rightarrow> string list list \<Rightarrow> ts_value list list \<Rightarrow> ('w, unit) session_op" where
  "insert_aligned_records env device_ids timestamps measurements_list values_list =
     insert_records env device_ids timestamps measurements_list values_list True"

definition insert_aligned_records_of_one_device ::
    "'w env \<Rightarrow> string \<Rightarrow> i64 list \<Rightarrow> string list list \<Rightarrow> ts_value list list \<Rightarrow> ('w, unit) session_op" where
  "insert_aligned_records_of_one_device env device_id timestamps measurements_list values_list =
     insert_records_of_one_device env device_id timestamps measurements_list values_list True"

section \<open>Rows that are kept\<close>

text \<open>The cells of a row that are sent, each with its measurement.\<close>

definition cells :: "string list \<Rightarrow> ts_value list \<Rightarrow> (string \<times> ts_value) list" where
  "cells measurements vs = filter (\<lambda>(m, v). v \<noteq> VNull) (zip measurements vs)"

lemma filter_null_cells_eq:
  assumes "length measurements = length vs"
  shows "filter_null_cells measurements vs = (map fst (cells measurements vs), map snd (cells measurements vs))"
proof (cases "list_ex is_null vs")
  case True
  then show ?thesis by (simp add: filter_null_cells_def cells_def is_null_iff Let_def)
next
  case False
  then have "cells measurements vs = zip measurements vs"
    by (auto simp: cells_def filter_id_conv list_ex_iff is_null_iff dest: set_zip_rightD)
  with False assms show ?thesis by (simp add: filter_null_cells_def)
qed

lemma snd_cells: "length ms = length vs \<Longrightarrow> map snd (cells ms vs) = filter (\<lambda>v. v \<noteq> VNull) vs"
  unfolding cells_def by (induction ms vs rule: list_induct2) auto

definition arity_ok :: "'k \<times> string list \<times> ts_value list \<Rightarrow> bool" where
  "arity_ok = (\<lambda>(k, ms, vs). length ms = length vs)"

definition sent_row :: "'k \<times> string list \<times> ts_value list \<Rightarrow> 'k \<times> string list \<times> ts_value list" where
  "sent_row = (\<lambda>(k, ms, vs). (k, map fst (cells ms vs), map snd (cells ms vs)))"

text \<open>The rows sent: those with a value left, in the order given.\<close>

definition sent_rows :: "('k \<times> string list \<times> ts_value list) list \<Rightarrow> ('k \<times> string list \<times> ts_value list) list" where
  "sent_rows rows = filter (\<lambda>(k, ms, vs). vs \<noteq> []) (map sent_row rows)"

lemma keep_rows_Inr:
  "list_all arity_ok rows \<Longrightarrow> keep_rows rows = Inr (sent_rows rows)"
  by (induction rows rule: keep_rows.induct)
    (auto simp: arity_ok_def check_record_arity_def filter_null_cells_eq sent_rows_def sent_row_def)

lemma keep_rows_Inl:
  assumes "list_all arity_ok pre" "\<not> arity_ok (k, ms, vs)"
  shows "keep_rows (pre @ (k, ms, vs) # post) = Inl (Client (RecordArity (length vs) (length ms)))"
  using assms
proof (induction pre)
  case Nil
  then show ?case by (simp add: arity_ok_def check_record_arity_def)
next
  case (Cons x xs)
  then show ?case by (cases x) (auto simp: arity_ok_def check_record_arity_def filter_null_cells_eq)
qed

lemma sent_rows_parallel:
  assumes "(k, ms, vs) \<in> set (sent_rows rows)"
  shows "length ms = length vs \<and> vs \<noteq> [] \<and> VNull \<notin> set vs"
  using assms by (auto simp: sent_rows_def sent_row_def cells_def)

section \<open>One device: the rows in time order\<close>

lemma permute_map: "set ord \<subseteq> {..<length xs} \<Longrightarrow> permute ord (map f xs) = map f (permute ord xs)"
  by (auto simp: permute_def subset_iff)

lemma sort_one_device_eq:
  assumes "length ms = length ts" "length vss = length ts"
  shows "sort_one_device_rows ts ms vss =
    (permute (sort_order ts) ts, permute (sort_order ts) ms,
     map serialize_record_values (permute (sort_order ts) vss))"
proof (cases "is_identity_order (sort_order ts)")
  case True
  then show ?thesis using assms by (simp add: sort_one_device_rows_def permute_is_identity)
next
  case False
  then show ?thesis using assms by (simp add: sort_one_device_rows_def Let_def permute_def comp_def)
qed

text \<open>The rows of a one-device request are the kept rows in a stable sort by timestamp.\<close>

lemma permute_rows_sorted:
  "permute (sort_order (map fst rows)) rows = sort_key (\<lambda>r. sint (fst r)) rows"
proof -
  have "permute (sort_order (map fst rows)) rows = map (\<lambda>i. rows ! i) (sort_key (\<lambda>i. sint (fst (rows ! i))) [0..<length rows])"
    unfolding permute_def sort_order_def by (intro arg_cong [of _ _ "map _"]) (auto intro!: sort_key_agree)
  also have "\<dots> = sort_key (\<lambda>r. sint (fst r)) (map (\<lambda>i. rows ! i) [0..<length rows])"
    by (rule map_sort_key)
  finally show ?thesis by (simp add: map_nth)
qed

lemma sort_one_device_rows_eq:
  "sort_one_device_rows (map fst rows) (map (fst \<circ> snd) rows) (map (snd \<circ> snd) rows) =
     (let sorted_rows = sort_key (\<lambda>r. sint (fst r)) rows in
      (map fst sorted_rows, map (fst \<circ> snd) sorted_rows, map (serialize_record_values \<circ> snd \<circ> snd) sorted_rows))"
proof -
  let ?ord = "sort_order (map fst rows)"
  have sub: "set ?ord \<subseteq> {..<length rows}" by simp
  show ?thesis
    by (simp add: sort_one_device_eq permute_map [OF sub] permute_rows_sorted Let_def comp_assoc)
qed

end
