(* ===== verification/InsertProps.thy ===== *)
theory InsertProps
  imports Inserts
begin

text \<open>
  What the inserts put on the wire: the request of every path carries exactly the rows it was given
  (sorted where the server requires it, without null cells on the record paths), the buffers decode
  back to the cells, and what is refused is refused before anything is sent.
\<close>

section \<open>Harvesting hints makes no call\<close>

lemma put_hints_silent:
  "put_hints (silent clock) c hs (w, l) = (c', w', l') \<Longrightarrow> l' = l"
  by (induction hs arbitrary: c w) (auto simp: redirect_put_def noting_def split_beta Let_def split: if_splits)

lemma check_insert_status_logged:
  assumes "check_insert_status (logged env) devices status s (w, l) = (r, s', w', l')"
  shows "l' = l \<and> r = check_status status \<and> s' = s\<lparr>ss_redirect_cache := ss_redirect_cache s'\<rparr>"
proof -
  have clock: "e_now (logged env) = silent (e_now env)" by (simp add: logged_def)
  show ?thesis
  proof (cases "sc_enable_redirection (ss_config s)")
    case True
    obtain c w1 l1 where "record_redirects (silent (e_now env)) (ss_redirect_cache s) devices status (w, l) =
        (c, w1, l1)" by (metis prod.exhaust)
    moreover from this have "l1 = l" unfolding record_redirects_eq by (rule put_hints_silent)
    ultimately show ?thesis using assms True by (auto simp: check_insert_status_def clock)
  next
    case False
    with assms show ?thesis by (auto simp: check_insert_status_def)
  qed
qed

text \<open>The shape all inserts share once their request is built.\<close>

definition sends ::
    "(connection \<Rightarrow> session \<Rightarrow> thrift_error + ts_status \<Rightarrow> event) \<Rightarrow> session \<Rightarrow> unit result \<Rightarrow> session
      \<Rightarrow> event list \<Rightarrow> bool" where
  "sends ev s r s' evs \<longleftrightarrow>
     (\<exists>r0 s0. retry_log ev s r0 s0 evs \<and> r = bindr r0 check_status \<and>
        s' = s0\<lparr>ss_redirect_cache := ss_redirect_cache s'\<rparr>)"

lemma insert_logged:
  "\<exists>r s' w' evs.
     bindo (with_retry (logged env) (\<lambda>s. rpc (\<lambda>c. noting (\<lambda>r. [ev c s r]) (f c s)) s))
       (\<lambda>status. check_insert_status (logged env) devices status) s (w, l) = (r, s', w', l @ evs) \<and>
     sends ev s r s' evs"
proof -
  obtain r0 s0 w0 l0 where 0: "with_retry (logged env)
      (\<lambda>s. rpc (\<lambda>c. noting (\<lambda>r. [ev c s r]) (f c s)) s) s (w, l) = (r0, s0, w0, l0)"
    by (rule prod_cases4)
  obtain evs where evs: "l0 = l @ evs" "retry_log ev s r0 s0 evs"
    using with_retry_logged [where ev = ev and f = f, OF 0] by (elim exE conjE)
  show ?thesis
  proof (cases r0)
    case (Inl e)
    with evs have "sends ev s (Inl e) s0 evs"
      unfolding sends_def by (intro exI [of _ "Inl e"] exI [of _ s0]) simp
    with 0 evs Inl show ?thesis by (simp add: bindo_def)
  next
    case (Inr status)
    obtain r1 s1 w1 l1 where 1: "check_insert_status (logged env) devices status s0 (w0, l0) = (r1, s1, w1, l1)"
      by (rule prod_cases4)
    note c = check_insert_status_logged [OF this]
    with evs Inr have "sends ev s r1 s1 evs" unfolding sends_def by (metis bindr_Inr)
    with 0 1 evs Inr c show ?thesis by (simp add: bindo_def)
  qed
qed

lemma logged_inserts:
  "e_insert_tablet (logged env) c q = noting (\<lambda>r. [EvInsertTablet c q r]) (e_insert_tablet env c q)"
  "e_insert_tablets (logged env) c q2 = noting (\<lambda>r. [EvInsertTablets c q2 r]) (e_insert_tablets env c q2)"
  "e_insert_record (logged env) c q3 = noting (\<lambda>r. [EvInsertRecord c q3 r]) (e_insert_record env c q3)"
  "e_insert_records (logged env) c q4 = noting (\<lambda>r. [EvInsertRecords c q4 r]) (e_insert_records env c q4)"
  "e_insert_records_of_one_device (logged env) c q5 =
     noting (\<lambda>r. [EvInsertOneDevice c q5 r]) (e_insert_records_of_one_device env c q5)"
  by (simp_all add: logged_def)

section \<open>Tablets\<close>

text \<open>The request of a tablet, and what makes it a faithful description of the tablet.\<close>

definition tablet_request :: "i64 \<Rightarrow> tablet \<Rightarrow> bytes \<Rightarrow> ts_insert_tablet_req" where
  "tablet_request sid t vals =
     \<lparr>itq_session_id = sid, itq_prefix_path = tb_target t, itq_measurements = tb_measurements t,
      itq_values = vals, itq_timestamps = fst (serialize_timestamps t),
      itq_types = map type_code_of (tb_types t), itq_size = word_of_nat (row_count t),
      itq_is_aligned = Some (tb_aligned t),
      itq_write_to_table = (if is_table_model t then Some True else None),
      itq_column_categories = map_option (map category_code) (tb_categories t),
      itq_is_compressed = None, itq_encoding_types = None, itq_compress_type = None\<rparr>"

definition rows_encoded :: "tablet \<Rightarrow> bytes \<Rightarrow> bytes \<Rightarrow> bool" where
  "rows_encoded t timestamps vals \<longleftrightarrow>
     (\<exists>times cols.
        dec_many (read_be 8) (row_count t) timestamps = Some (times, []) \<and>
        decode_values (tb_types t) (row_count t) vals = Some cols \<and>
        map (\<lambda>i. (times ! i, map (\<lambda>col. col ! i) cols)) [0..<row_count t] =
          sort_key (\<lambda>(ts, _). sint ts) (tablet_rows t))"

definition describes_tablet :: "ts_insert_tablet_req \<Rightarrow> tablet \<Rightarrow> bool" where
  "describes_tablet req t \<longleftrightarrow>
     itq_prefix_path req = tb_target t \<and> itq_measurements req = tb_measurements t \<and>
     itq_types req = map type_code_of (tb_types t) \<and> sint (itq_size req) = int (row_count t) \<and>
     itq_is_aligned req = Some (tb_aligned t) \<and>
     itq_write_to_table req = (if is_table_model t then Some True else None) \<and>
     itq_column_categories req = map_option (map category_code) (tb_categories t) \<and>
     rows_encoded t (itq_timestamps req) (itq_values req)"

lemma insert_tablet_request:
  assumes "fst (serialize_values t) = Some vals"
  shows "insert_tablet env t s w = Some
    (bindo (with_retry env (\<lambda>s'. rpc (\<lambda>c. e_insert_tablet env c
         ((tablet_request (ss_session_id s) t vals)\<lparr>itq_session_id := ss_session_id s'\<rparr>)) s'))
       (\<lambda>status. check_insert_status env [tb_target t] status) s w)"
  using assms
  by (auto simp: insert_tablet_def insert_tablet_raw_def tablet_request_def serialize_values_def
      serialize_timestamps_def Let_def sort_by_timestamp_idem is_table_model_def row_count_def [symmetric]
      split: option.splits prod.splits)

lemma rows_encoded_serialized:
  assumes "wf_tablet t"
    "decode_values (tb_types t) (row_count t) vals = Some (tb_values (sort_by_timestamp t))"
  shows "rows_encoded t (fst (serialize_timestamps t)) vals"
proof -
  have times: "dec_many (read_be 8) (row_count t) (fst (serialize_timestamps t)) =
      Some (tb_timestamps (sort_by_timestamp t), [])" by (rule serialize_timestamps_decode)
  have "sort_key (\<lambda>(ts, _). sint ts) (tablet_rows t) =
      map (\<lambda>i. (tb_timestamps (sort_by_timestamp t) ! i, map (\<lambda>col. col ! i) (tb_values (sort_by_timestamp t))))
        [0..<row_count t]"
    using rows_sort_by_timestamp [OF assms(1)] by (simp add: tablet_rows_def)
  with times assms show ?thesis by (auto simp: rows_encoded_def)
qed

lemma describes_tablet_request:
  assumes "wf_tablet t" "row_count t < 2 ^ 31"
    "decode_values (tb_types t) (row_count t) vals = Some (tb_values (sort_by_timestamp t))"
  shows "describes_tablet (tablet_request sid t vals) t"
  using rows_encoded_serialized [OF assms(1,3)] assms(2)
  by (simp add: describes_tablet_def tablet_request_def sint_of_nat_i32)

lemma tablet_entries_Inr:
  assumes "list_all (\<lambda>t. wf_tablet t \<and> writable t \<and> row_count t < 2 ^ 31 \<and> \<not> is_table_model t) ts"
  shows "\<exists>es. tablet_entries ts = Some (Inr es) \<and>
    list_all2 (\<lambda>t e. en_prefix_path e = tb_target t \<and> en_measurements e = tb_measurements t \<and>
      en_types e = map type_code_of (tb_types t) \<and> sint (en_size e) = int (row_count t) \<and>
      rows_encoded t (en_timestamps e) (en_values e)) ts es"
  using assms
proof (induction ts)
  case (Cons t ts)
  then obtain es where es: "tablet_entries ts = Some (Inr es)"
    "list_all2 (\<lambda>t e. en_prefix_path e = tb_target t \<and> en_measurements e = tb_measurements t \<and>
      en_types e = map type_code_of (tb_types t) \<and> sint (en_size e) = int (row_count t) \<and>
      rows_encoded t (en_timestamps e) (en_values e)) ts es" by auto
  have t: "wf_tablet t" "writable t" "row_count t < 2 ^ 31" "\<not> is_table_model t" using Cons.prems by auto
  obtain vals where vals: "serialize_values t = (Some vals, sort_by_timestamp t)"
    "decode_values (tb_types t) (row_count t) vals = Some (tb_values (sort_by_timestamp t))"
    using serialize_values_decode [OF t(1,2)] by auto
  have times: "serialize_timestamps (sort_by_timestamp t) = (fst (serialize_timestamps t), sort_by_timestamp t)"
    by (simp add: serialize_timestamps_def Let_def sort_by_timestamp_idem)
  show ?case
    using es t vals times rows_encoded_serialized [OF t(1) vals(2)]
    by (simp add: sint_of_nat_i32)
qed simp

text \<open>What an insert of a tablet does, once its values are serialized.\<close>

lemma insert_tablet_logged:
  assumes "fst (serialize_values t) = Some vals"
  shows "\<exists>r s' w' evs. insert_tablet (logged env) t s (w, l) = Some (r, s', w', l @ evs) \<and>
    sends (\<lambda>c s'. EvInsertTablet c ((tablet_request (ss_session_id s) t vals)\<lparr>itq_session_id := ss_session_id s'\<rparr>))
      s r s' evs"
proof -
  let ?req = "tablet_request (ss_session_id s) t vals"
  obtain r s' w' evs where
    "bindo (with_retry (logged env) (\<lambda>s. rpc (\<lambda>c. noting
        (\<lambda>r. [EvInsertTablet c (?req\<lparr>itq_session_id := ss_session_id s\<rparr>) r])
        (e_insert_tablet env c (?req\<lparr>itq_session_id := ss_session_id s\<rparr>))) s))
      (\<lambda>status. check_insert_status (logged env) [tb_target t] status) s (w, l) = (r, s', w', l @ evs)"
    "sends (\<lambda>c s. EvInsertTablet c (?req\<lparr>itq_session_id := ss_session_id s\<rparr>)) s r s' evs"
    using insert_logged [where ev = "\<lambda>c s. EvInsertTablet c (?req\<lparr>itq_session_id := ss_session_id s\<rparr>)"
        and f = "\<lambda>c s. e_insert_tablet env c (?req\<lparr>itq_session_id := ss_session_id s\<rparr>)"] by blast
  then show ?thesis unfolding insert_tablet_request [OF assms] logged_inserts by blast
qed

section \<open>Properties\<close>

text \<open>
  Inserting a well-formed tablet does not panic, and what it sends is the tablet. Every attempt
  carries the session id current at that attempt and otherwise the same request, from which the
  server can read back the target, the measurements, the type codes, the row count, the model flags
  and, decoding the two buffers, exactly the tablet's rows in a stable order by timestamp; the call
  is made once, or twice around a successful reconnect, and the result is the server's status.
\<close>

lemma insert_tablet_sends_rows:
  assumes "wf_tablet t" "writable t" "row_count t < 2 ^ 31"
  shows "\<exists>req r s' w' evs.
    insert_tablet (logged env) t s (w, l) = Some (r, s', w', l @ evs) \<and>
    sends (\<lambda>c s. EvInsertTablet c (req\<lparr>itq_session_id := ss_session_id s\<rparr>)) s r s' evs \<and>
    describes_tablet req t"
proof -
  obtain vals where vals: "fst (serialize_values t) = Some vals"
    "decode_values (tb_types t) (row_count t) vals = Some (tb_values (sort_by_timestamp t))"
    using serialize_values_decode [OF assms(1,2)] by auto
  have "describes_tablet (tablet_request (ss_session_id s) t vals) t"
    using assms vals by (intro describes_tablet_request) auto
  with insert_tablet_logged [OF vals(1), of env s w l] show ?thesis by blast
qed

text \<open>What a row buffer must decode to.\<close>

definition buffer_ok :: "ts_value list \<Rightarrow> bool" where
  "buffer_ok vs = list_all (\<lambda>v. wf_value v \<and> small_value v) vs"

lemma buffers_decode:
  assumes "list_all (\<lambda>(k, ms, vs). buffer_ok vs) rows"
  shows "list_all2 (\<lambda>(k, ms, vs) buf. dec_many read_record_cell (length vs) buf = Some (vs, []))
    rows (map (serialize_record_values \<circ> snd \<circ> snd) rows)"
  using assms
  by (induction rows) (auto simp: buffer_ok_def serialize_record_values_decode)

lemma sent_rows_buffer_ok:
  assumes "list_all (\<lambda>(k, ms, vs). buffer_ok vs) rows"
  shows "list_all (\<lambda>(k, ms, vs). buffer_ok vs) (sent_rows rows)"
  using assms
  by (auto simp: sent_rows_def sent_row_def cells_def buffer_ok_def list_all_iff split_beta
      dest!: set_zip_rightD)

lemma list_all_sort_key: "list_all P xs \<Longrightarrow> list_all P (sort_key f xs)"
  by (simp add: list_all_iff)

text \<open>
  C22: a multi-device batch sends, in the order given, exactly the rows that have a value, each
  without its null cells: the four lists of the request are parallel, every buffer decodes to its
  row's values, and no null cell and no empty row is sent.
\<close>

theorem insert_records_sends_rows:
  fixes devices times mss vss
  defines "rows \<equiv> zip (zip devices times) (zip mss vss)"
  assumes "length times = length devices" "length mss = length devices" "length vss = length devices"
    and "list_all arity_ok rows" "sent_rows rows \<noteq> []" "list_all (\<lambda>(k, ms, vs). buffer_ok vs) rows"
  shows "\<exists>req r s' w' evs.
    insert_records (logged env) devices times mss vss aligned s (w, l) = (r, s', w', l @ evs) \<and>
    sends (\<lambda>c s. EvInsertRecords c (req\<lparr>rsq_session_id := ss_session_id s\<rparr>)) s r s' evs \<and>
    rsq_prefix_paths req = map (fst \<circ> fst) (sent_rows rows) \<and>
    rsq_timestamps req = map (snd \<circ> fst) (sent_rows rows) \<and>
    rsq_measurements_list req = map (fst \<circ> snd) (sent_rows rows) \<and>
    list_all2 (\<lambda>(k, ms, vs) buf. dec_many read_record_cell (length vs) buf = Some (vs, []))
      (sent_rows rows) (rsq_values_list req) \<and>
    (\<forall>(k, ms, vs) \<in> set (sent_rows rows). length ms = length vs \<and> vs \<noteq> [] \<and> VNull \<notin> set vs)"
proof -
  let ?kept = "sent_rows rows"
  let ?req = "\<lparr>rsq_session_id = ss_session_id s, rsq_prefix_paths = map (fst \<circ> fst) ?kept,
      rsq_measurements_list = map (fst \<circ> snd) ?kept,
      rsq_values_list = map (serialize_record_values \<circ> snd \<circ> snd) ?kept,
      rsq_timestamps = map (snd \<circ> fst) ?kept, rsq_is_aligned = Some aligned\<rparr>"
  obtain r s' w' evs where run:
    "bindo (with_retry (logged env) (\<lambda>s. rpc (\<lambda>c. noting
        (\<lambda>r. [EvInsertRecords c (?req\<lparr>rsq_session_id := ss_session_id s\<rparr>) r])
        (e_insert_records env c (?req\<lparr>rsq_session_id := ss_session_id s\<rparr>))) s))
      (\<lambda>status. check_insert_status (logged env) (map (fst \<circ> fst) ?kept) status) s (w, l) = (r, s', w', l @ evs)"
    "sends (\<lambda>c s. EvInsertRecords c (?req\<lparr>rsq_session_id := ss_session_id s\<rparr>)) s r s' evs"
    using insert_logged [where ev = "\<lambda>c s. EvInsertRecords c (?req\<lparr>rsq_session_id := ss_session_id s\<rparr>)"
        and f = "\<lambda>c s. e_insert_records env c (?req\<lparr>rsq_session_id := ss_session_id s\<rparr>)"] by blast
  have "insert_records (logged env) devices times mss vss aligned s (w, l) = (r, s', w', l @ evs)"
    using assms run(1) keep_rows_Inr [of rows]
    by (simp add: insert_records_def bindo_def [of "pureo _"] pureo_def logged_inserts Let_def)
  moreover have "list_all2 (\<lambda>(k, ms, vs) buf. dec_many read_record_cell (length vs) buf = Some (vs, []))
      ?kept (rsq_values_list ?req)"
    using buffers_decode [OF sent_rows_buffer_ok [OF assms(7)]] by simp
  moreover have "\<forall>(k, ms, vs) \<in> set ?kept. length ms = length vs \<and> vs \<noteq> [] \<and> VNull \<notin> set vs"
    by (auto dest: sent_rows_parallel)
  ultimately show ?thesis
    using run(2)
    by (intro exI [of _ ?req] exI [of _ r] exI [of _ s'] exI [of _ w'] exI [of _ evs]) simp
qed

theorem insert_records_sends_rows_witness:
  "\<exists>req r s' w' evs.
    insert_records (logged quiet_env) [''d1'', ''d2''] [1, 2] [[''a'', ''b''], [''a'']]
      [[VInt32 7, VNull], [VNull]] False sample_session ((), []) = (r, s', w', [] @ evs) \<and>
    sends (\<lambda>c s. EvInsertRecords c (req\<lparr>rsq_session_id := ss_session_id s\<rparr>)) sample_session r s' evs \<and>
    rsq_prefix_paths req = [''d1''] \<and> rsq_measurements_list req = [[''a'']]"
proof -
  let ?rows = "zip (zip [''d1'', ''d2''] [1, 2 :: i64]) (zip [[''a'', ''b''], [''a'']] [[VInt32 7, VNull], [VNull]])"
  have sent: "sent_rows ?rows = [((''d1'', 1), [''a''], [VInt32 7])]" by code_simp
  have "list_all arity_ok ?rows" "sent_rows ?rows \<noteq> []" "list_all (\<lambda>(k, ms, vs). buffer_ok vs) ?rows"
    unfolding sent by (simp_all add: arity_ok_def buffer_ok_def)
  then have "\<exists>req r s' w' evs.
    insert_records (logged quiet_env) [''d1'', ''d2''] [1, 2] [[''a'', ''b''], [''a'']]
      [[VInt32 7, VNull], [VNull]] False sample_session ((), []) = (r, s', w', [] @ evs) \<and>
    sends (\<lambda>c s. EvInsertRecords c (req\<lparr>rsq_session_id := ss_session_id s\<rparr>)) sample_session r s' evs \<and>
    rsq_prefix_paths req = map (fst \<circ> fst) (sent_rows ?rows) \<and>
    rsq_timestamps req = map (snd \<circ> fst) (sent_rows ?rows) \<and>
    rsq_measurements_list req = map (fst \<circ> snd) (sent_rows ?rows) \<and>
    list_all2 (\<lambda>(k, ms, vs) buf. dec_many read_record_cell (length vs) buf = Some (vs, []))
      (sent_rows ?rows) (rsq_values_list req) \<and>
    (\<forall>(k, ms, vs) \<in> set (sent_rows ?rows). length ms = length vs \<and> vs \<noteq> [] \<and> VNull \<notin> set vs)"
    by (intro insert_records_sends_rows) simp_all
  then show ?thesis unfolding sent by (elim exE conjE) (intro exI conjI, assumption+, simp_all)
qed

text \<open>
  C23: a one-device batch sends exactly the rows that have a value, without their null cells, in a
  stable order by timestamp, so the timestamps of the request are ascending and rows with equal
  timestamps keep their order; every buffer decodes to its row's values.
\<close>

theorem insert_one_device_sends_sorted:
  fixes times mss vss
  defines "rows \<equiv> zip times (zip mss vss)"
  assumes "length mss = length times" "length vss = length times"
    and "list_all arity_ok rows" "sent_rows rows \<noteq> []" "list_all (\<lambda>(k, ms, vs). buffer_ok vs) rows"
  shows "\<exists>req r s' w' evs.
    insert_records_of_one_device (logged env) device times mss vss aligned s (w, l) = (r, s', w', l @ evs) \<and>
    sends (\<lambda>c s. EvInsertOneDevice c (req\<lparr>odq_session_id := ss_session_id s\<rparr>)) s r s' evs \<and>
    odq_prefix_path req = device \<and>
    odq_timestamps req = map fst (sort_key (\<lambda>r. sint (fst r)) (sent_rows rows)) \<and>
    odq_measurements_list req = map (fst \<circ> snd) (sort_key (\<lambda>r. sint (fst r)) (sent_rows rows)) \<and>
    list_all2 (\<lambda>(k, ms, vs) buf. dec_many read_record_cell (length vs) buf = Some (vs, []))
      (sort_key (\<lambda>r. sint (fst r)) (sent_rows rows)) (odq_values_list req)"
proof -
  let ?kept = "sent_rows rows"
  let ?sorted = "sort_key (\<lambda>r. sint (fst r)) ?kept"
  let ?req = "\<lparr>odq_session_id = ss_session_id s, odq_prefix_path = device,
      odq_measurements_list = map (fst \<circ> snd) ?sorted,
      odq_values_list = map (serialize_record_values \<circ> snd \<circ> snd) ?sorted,
      odq_timestamps = map fst ?sorted, odq_is_aligned = Some aligned\<rparr>"
  obtain r s' w' evs where run:
    "bindo (with_retry (logged env) (\<lambda>s. rpc (\<lambda>c. noting
        (\<lambda>r. [EvInsertOneDevice c (?req\<lparr>odq_session_id := ss_session_id s\<rparr>) r])
        (e_insert_records_of_one_device env c (?req\<lparr>odq_session_id := ss_session_id s\<rparr>))) s))
      (\<lambda>status. check_insert_status (logged env) [device] status) s (w, l) = (r, s', w', l @ evs)"
    "sends (\<lambda>c s. EvInsertOneDevice c (?req\<lparr>odq_session_id := ss_session_id s\<rparr>)) s r s' evs"
    using insert_logged [where ev = "\<lambda>c s. EvInsertOneDevice c (?req\<lparr>odq_session_id := ss_session_id s\<rparr>)"
        and f = "\<lambda>c s. e_insert_records_of_one_device env c (?req\<lparr>odq_session_id := ss_session_id s\<rparr>)"] by blast
  have "insert_records_of_one_device (logged env) device times mss vss aligned s (w, l) = (r, s', w', l @ evs)"
    using assms run(1) keep_rows_Inr [of rows]
    by (simp add: insert_records_of_one_device_def bindo_def [of "pureo _"] pureo_def logged_inserts Let_def
        sort_one_device_rows_eq)
  moreover have "list_all2 (\<lambda>(k, ms, vs) buf. dec_many read_record_cell (length vs) buf = Some (vs, []))
      ?sorted (odq_values_list ?req)"
    using buffers_decode [OF list_all_sort_key [OF sent_rows_buffer_ok [OF assms(6)]]] by simp
  ultimately show ?thesis
    using run(2)
    by (intro exI [of _ ?req] exI [of _ r] exI [of _ s'] exI [of _ w'] exI [of _ evs]) simp
qed

theorem insert_one_device_sends_sorted_witness:
  "\<exists>req r s' w' evs.
    insert_records_of_one_device (logged quiet_env) ''d'' [2, 1] [[''a''], [''b'']] [[VInt32 7], [VInt32 8]] False
      sample_session ((), []) = (r, s', w', [] @ evs) \<and>
    sends (\<lambda>c s. EvInsertOneDevice c (req\<lparr>odq_session_id := ss_session_id s\<rparr>)) sample_session r s' evs \<and>
    odq_timestamps req = [1, 2] \<and> odq_measurements_list req = [[''b''], [''a'']]"
proof -
  let ?rows = "zip [2, 1 :: i64] (zip [[''a''], [''b'']] [[VInt32 7], [VInt32 8]])"
  have sorted: "sort_key (\<lambda>r. sint (fst r)) (sent_rows ?rows) = [(1, [''b''], [VInt32 8]), (2, [''a''], [VInt32 7])]"
    by code_simp
  have "sent_rows ?rows \<noteq> []" by code_simp
  moreover have "list_all arity_ok ?rows" "list_all (\<lambda>(k, ms, vs). buffer_ok vs) ?rows"
    by (simp_all add: arity_ok_def buffer_ok_def)
  ultimately have "\<exists>req r s' w' evs.
    insert_records_of_one_device (logged quiet_env) ''d'' [2, 1] [[''a''], [''b'']] [[VInt32 7], [VInt32 8]] False
      sample_session ((), []) = (r, s', w', [] @ evs) \<and>
    sends (\<lambda>c s. EvInsertOneDevice c (req\<lparr>odq_session_id := ss_session_id s\<rparr>)) sample_session r s' evs \<and>
    odq_prefix_path req = ''d'' \<and>
    odq_timestamps req = map fst (sort_key (\<lambda>r. sint (fst r)) (sent_rows ?rows)) \<and>
    odq_measurements_list req = map (fst \<circ> snd) (sort_key (\<lambda>r. sint (fst r)) (sent_rows ?rows)) \<and>
    list_all2 (\<lambda>(k, ms, vs) buf. dec_many read_record_cell (length vs) buf = Some (vs, []))
      (sort_key (\<lambda>r. sint (fst r)) (sent_rows ?rows)) (odq_values_list req)"
    by (intro insert_one_device_sends_sorted) simp_all
  then show ?thesis unfolding sorted by (elim exE conjE) (intro exI conjI, assumption+, simp_all)
qed

text \<open>
  C24: a batch of tree-model tablets is one call whose parallel lists describe the tablets one by
  one, each exactly as the single-tablet path does: target, measurements, type codes, row count and
  the two buffers, which decode to that tablet's rows in timestamp order.
\<close>

theorem insert_tablets_sends_all:
  assumes "ts \<noteq> []"
    and "list_all (\<lambda>t. wf_tablet t \<and> writable t \<and> row_count t < 2 ^ 31 \<and> \<not> is_table_model t) ts"
  shows "\<exists>req r s' w' evs.
    insert_tablets (logged env) ts aligned s (w, l) = Some (r, s', w', l @ evs) \<and>
    sends (\<lambda>c s. EvInsertTablets c (req\<lparr>isq_session_id := ss_session_id s\<rparr>)) s r s' evs \<and>
    isq_prefix_paths req = map tb_target ts \<and> isq_measurements_list req = map tb_measurements ts \<and>
    isq_types_list req = map (\<lambda>t. map type_code_of (tb_types t)) ts \<and>
    map sint (isq_size_list req) = map (\<lambda>t. int (row_count t)) ts \<and>
    list_all2 (\<lambda>t (times, vals). rows_encoded t times vals) ts
      (zip (isq_timestamps_list req) (isq_values_list req)) \<and>
    isq_is_aligned req = Some aligned"
proof -
  obtain es where es: "tablet_entries ts = Some (Inr es)"
    "list_all2 (\<lambda>t e. en_prefix_path e = tb_target t \<and> en_measurements e = tb_measurements t \<and>
      en_types e = map type_code_of (tb_types t) \<and> sint (en_size e) = int (row_count t) \<and>
      rows_encoded t (en_timestamps e) (en_values e)) ts es"
    using tablet_entries_Inr [OF assms(2)] by blast
  let ?req = "\<lparr>isq_session_id = ss_session_id s, isq_prefix_paths = map en_prefix_path es,
      isq_measurements_list = map en_measurements es, isq_values_list = map en_values es,
      isq_timestamps_list = map en_timestamps es, isq_types_list = map en_types es,
      isq_size_list = map en_size es, isq_is_aligned = Some aligned\<rparr>"
  obtain r s' w' evs where run:
    "bindo (with_retry (logged env) (\<lambda>s. rpc (\<lambda>c. noting
        (\<lambda>r. [EvInsertTablets c (?req\<lparr>isq_session_id := ss_session_id s\<rparr>) r])
        (e_insert_tablets env c (?req\<lparr>isq_session_id := ss_session_id s\<rparr>))) s))
      (\<lambda>status. check_insert_status (logged env) (isq_prefix_paths ?req) status) s (w, l) = (r, s', w', l @ evs)"
    "sends (\<lambda>c s. EvInsertTablets c (?req\<lparr>isq_session_id := ss_session_id s\<rparr>)) s r s' evs"
    using insert_logged [where ev = "\<lambda>c s. EvInsertTablets c (?req\<lparr>isq_session_id := ss_session_id s\<rparr>)"
        and f = "\<lambda>c s. e_insert_tablets env c (?req\<lparr>isq_session_id := ss_session_id s\<rparr>)"] by blast
  have "insert_tablets (logged env) ts aligned s (w, l) = Some (r, s', w', l @ evs)"
    using run(1) assms(1) es(1) by (simp add: insert_tablets_def build_insert_tablets_req_def logged_inserts)
  moreover have "map en_prefix_path es = map tb_target ts \<and> map en_measurements es = map tb_measurements ts \<and>
      map en_types es = map (\<lambda>t. map type_code_of (tb_types t)) ts \<and>
      map (sint \<circ> en_size) es = map (\<lambda>t. int (row_count t)) ts \<and>
      list_all2 (\<lambda>t (times, vals). rows_encoded t times vals) ts (zip (map en_timestamps es) (map en_values es))"
    using es(2) by (induction ts es rule: list_all2_induct) auto
  ultimately show ?thesis
    using run(2) by (intro exI [of _ ?req] exI [of _ r] exI [of _ s'] exI [of _ w'] exI [of _ evs]) simp
qed

theorem insert_tablets_sends_all_witness:
  "\<exists>req r s' w' evs.
    insert_tablets (logged quiet_env) [sample_tablet] True sample_session ((), []) = Some (r, s', w', [] @ evs) \<and>
    sends (\<lambda>c s. EvInsertTablets c (req\<lparr>isq_session_id := ss_session_id s\<rparr>)) sample_session r s' evs \<and>
    isq_prefix_paths req = [''root.sg.d1'']"
proof -
  have "row_count sample_tablet = 3" "\<not> is_table_model sample_tablet" "tb_target sample_tablet = ''root.sg.d1''"
    by code_simp+
  then have ok: "list_all (\<lambda>t. wf_tablet t \<and> writable t \<and> row_count t < 2 ^ 31 \<and> \<not> is_table_model t) [sample_tablet]"
    and target: "map tb_target [sample_tablet] = [''root.sg.d1'']"
    using sample_tablet_wf sample_tablet_writable by simp_all
  show ?thesis
    using insert_tablets_sends_all [OF list.distinct(2) ok, of quiet_env True sample_session "()" "[]"]
    unfolding target by (elim exE conjE) (intro exI conjI, assumption+)
qed

lemma keep_rows_first_bad:
  assumes "i < length rows" "\<And>j. j < i \<Longrightarrow> arity_ok (rows ! j)" "rows ! i = (k, ms, vs)" "length ms \<noteq> length vs"
  shows "keep_rows rows = Inl (Client (RecordArity (length vs) (length ms)))"
proof -
  have "list_all arity_ok (take i rows)" using assms(1,2) by (simp add: list_all_length)
  moreover have "\<not> arity_ok (k, ms, vs)" using assms(4) by (simp add: arity_ok_def)
  ultimately have "keep_rows (take i rows @ (k, ms, vs) # drop (Suc i) rows) = Inl (Client (RecordArity (length vs) (length ms)))"
    by (rule keep_rows_Inl)
  then show ?thesis using id_take_nth_drop [OF assms(1)] assms(3) by simp
qed

lemma keep_rows_all_null:
  assumes "list_all (\<lambda>(k, ms, vs). length ms = length vs \<and> set vs \<subseteq> {VNull}) rows"
  shows "keep_rows rows = Inr []"
proof -
  have "list_all arity_ok rows" using assms by (auto simp: list_all_iff arity_ok_def)
  moreover have "sent_rows rows = []"
    using assms by (auto simp: sent_rows_def sent_row_def cells_def filter_empty_conv list_all_iff dest!: set_zip_rightD bspec)
  ultimately show ?thesis by (simp add: keep_rows_Inr)
qed

lemma tablet_entries_table_model:
  assumes "list_all (\<lambda>t. \<not> is_table_model t \<and> fst (serialize_values t) \<noteq> None) pre" "is_table_model t"
  shows "tablet_entries (pre @ t # post) = Some (Inl (Client (TableModelTablet (tb_target t))))"
  using assms
proof (induction pre)
  case (Cons u pre)
  then obtain vals u' where "serialize_values u = (Some vals, u')" by (cases "serialize_values u") auto
  with Cons show ?case by (simp add: split_beta)
qed simp

text \<open>The refusals of each insert.\<close>

lemma insert_record_refuses:
  "length ms \<noteq> length vs \<Longrightarrow> insert_record env d t ms vs aligned s w =
     (Inl (Client (RecordArity (length vs) (length ms))), s, w)"
  "length ms = length vs \<Longrightarrow> set vs \<subseteq> {VNull} \<Longrightarrow>
     insert_record env d t ms vs aligned s w = (Inl (Client AllValuesNull), s, w)"
proof -
  show "length ms \<noteq> length vs \<Longrightarrow> insert_record env d t ms vs aligned s w =
      (Inl (Client (RecordArity (length vs) (length ms))), s, w)"
    by (simp add: insert_record_def check_record_arity_def bindo_def pureo_def)
  assume a: "length ms = length vs" "set vs \<subseteq> {VNull}"
  then have "snd (filter_null_cells ms vs) = []"
    by (auto simp: filter_null_cells_eq cells_def filter_empty_conv dest: set_zip_rightD)
  with a show "insert_record env d t ms vs aligned s w = (Inl (Client AllValuesNull), s, w)"
    by (simp add: insert_record_def check_record_arity_def bindo_def pureo_def Let_def split_beta)
qed

lemma insert_records_refuses:
  "length tss \<noteq> length devices \<or> length mss \<noteq> length devices \<or> length vss \<noteq> length devices \<Longrightarrow>
     insert_records env devices tss mss vss aligned s w =
       (Inl (Client (RecordsLengthMismatch (length devices) (length tss) (length mss) (length vss))), s, w)"
  "length tss = length devices \<Longrightarrow> length mss = length devices \<Longrightarrow> length vss = length devices \<Longrightarrow>
     keep_rows (zip (zip devices tss) (zip mss vss)) = Inl e \<Longrightarrow>
     insert_records env devices tss mss vss aligned s w = (Inl e, s, w)"
  "length tss = length devices \<Longrightarrow> length mss = length devices \<Longrightarrow> length vss = length devices \<Longrightarrow>
     keep_rows (zip (zip devices tss) (zip mss vss)) = Inr [] \<Longrightarrow>
     insert_records env devices tss mss vss aligned s w = (Inl (Client AllValuesNull), s, w)"
  by (auto simp: insert_records_def bindo_def pureo_def Let_def)

lemma one_device_refuses:
  "length mss \<noteq> length tss \<or> length vss \<noteq> length tss \<Longrightarrow>
     insert_records_of_one_device env d tss mss vss aligned s w =
       (Inl (Client (OneDeviceLengthMismatch (length tss) (length mss) (length vss))), s, w)"
  "length mss = length tss \<Longrightarrow> length vss = length tss \<Longrightarrow> keep_rows (zip tss (zip mss vss)) = Inl e \<Longrightarrow>
     insert_records_of_one_device env d tss mss vss aligned s w = (Inl e, s, w)"
  "length mss = length tss \<Longrightarrow> length vss = length tss \<Longrightarrow> keep_rows (zip tss (zip mss vss)) = Inr [] \<Longrightarrow>
     insert_records_of_one_device env d tss mss vss aligned s w = (Inl (Client AllValuesNull), s, w)"
  by (auto simp: insert_records_of_one_device_def bindo_def pureo_def Let_def)

lemma insert_tablets_refuses:
  "insert_tablets env [] aligned s w = Some (Inl (Client NoTablets), s, w)"
  "list_all (\<lambda>t. \<not> is_table_model t \<and> fst (serialize_values t) \<noteq> None) pre \<Longrightarrow> is_table_model tab \<Longrightarrow>
     insert_tablets env (pre @ tab # post) aligned s w = Some (Inl (Client (TableModelTablet (tb_target tab))), s, w)"
  using tablet_entries_table_model [of pre tab post]
  by (simp_all add: insert_tablets_def build_insert_tablets_req_def)

text \<open>
  C32: what an insert refuses, it refuses before anything is sent and without touching the session, and
  it refuses wherever in a batch the fault is: lists of different lengths; the first row whose
  measurements and values do not pair; a record, or a batch of rows, without any value, an empty batch
  included; an empty batch of tablets; and the first table-model tablet of a batch, at any position
  after tablets that can be serialized. The error names the fault.
\<close>

theorem refused_inserts_send_nothing:
  shows "(length ms \<noteq> length vs \<longrightarrow> insert_record env d t ms vs aligned s w =
       (Inl (Client (RecordArity (length vs) (length ms))), s, w)) \<and>
     (length ms = length vs \<and> set vs \<subseteq> {VNull} \<longrightarrow>
       insert_record env d t ms vs aligned s w = (Inl (Client AllValuesNull), s, w)) \<and>
     (length tss \<noteq> length devices \<or> length mss \<noteq> length devices \<or> length vss \<noteq> length devices \<longrightarrow>
       insert_records env devices tss mss vss aligned s w =
         (Inl (Client (RecordsLengthMismatch (length devices) (length tss) (length mss) (length vss))), s, w)) \<and>
     (length mss \<noteq> length tss \<or> length vss \<noteq> length tss \<longrightarrow>
       insert_records_of_one_device env d tss mss vss aligned s w =
         (Inl (Client (OneDeviceLengthMismatch (length tss) (length mss) (length vss))), s, w)) \<and>
     (length mss = length tss \<and> length vss = length tss \<and> i < length tss \<and>
        (\<forall>j < i. length (mss ! j) = length (vss ! j)) \<and> length (mss ! i) \<noteq> length (vss ! i) \<longrightarrow>
       (length devices = length tss \<longrightarrow> insert_records env devices tss mss vss aligned s w =
          (Inl (Client (RecordArity (length (vss ! i)) (length (mss ! i)))), s, w)) \<and>
       insert_records_of_one_device env d tss mss vss aligned s w =
          (Inl (Client (RecordArity (length (vss ! i)) (length (mss ! i)))), s, w)) \<and>
     (length mss = length tss \<and> length vss = length tss \<and>
        (\<forall>j < length tss. length (mss ! j) = length (vss ! j) \<and> set (vss ! j) \<subseteq> {VNull}) \<longrightarrow>
       (length devices = length tss \<longrightarrow> insert_records env devices tss mss vss aligned s w =
          (Inl (Client AllValuesNull), s, w)) \<and>
       insert_records_of_one_device env d tss mss vss aligned s w = (Inl (Client AllValuesNull), s, w)) \<and>
     insert_tablets env [] aligned s w = Some (Inl (Client NoTablets), s, w) \<and>
     (list_all (\<lambda>t. \<not> is_table_model t \<and> fst (serialize_values t) \<noteq> None) pre \<and> is_table_model tab \<longrightarrow>
       insert_tablets env (pre @ tab # post) aligned s w =
         Some (Inl (Client (TableModelTablet (tb_target tab))), s, w))"
proof (intro conjI impI insert_record_refuses insert_records_refuses(1) one_device_refuses(1) insert_tablets_refuses;
    (elim conjE)?)
  assume len: "length mss = length tss" "length vss = length tss"
  {
    assume i: "i < length tss" "\<forall>j < i. length (mss ! j) = length (vss ! j)" "length (mss ! i) \<noteq> length (vss ! i)"
    with len show "insert_records_of_one_device env d tss mss vss aligned s w =
        (Inl (Client (RecordArity (length (vss ! i)) (length (mss ! i)))), s, w)"
      by (intro one_device_refuses keep_rows_first_bad [where i = i and k = "tss ! i"]) (simp_all add: arity_ok_def)
    assume "length devices = length tss"
    with len i show "insert_records env devices tss mss vss aligned s w =
        (Inl (Client (RecordArity (length (vss ! i)) (length (mss ! i)))), s, w)"
      by (intro insert_records_refuses keep_rows_first_bad [where i = i and k = "(devices ! i, tss ! i)"])
        (simp_all add: arity_ok_def)
  }
  assume null: "\<forall>j < length tss. length (mss ! j) = length (vss ! j) \<and> set (vss ! j) \<subseteq> {VNull}"
  with len show "insert_records_of_one_device env d tss mss vss aligned s w = (Inl (Client AllValuesNull), s, w)"
    by (intro one_device_refuses keep_rows_all_null) (simp_all add: list_all_length)
  assume "length devices = length tss"
  with len null show "insert_records env devices tss mss vss aligned s w = (Inl (Client AllValuesNull), s, w)"
    by (intro insert_records_refuses keep_rows_all_null) (simp_all add: list_all_length)
qed simp_all

theorem refused_inserts_send_nothing_witness:
  "insert_record quiet_env ''d'' 1 [''a'', ''b''] [VInt32 7] False sample_session () =
     (Inl (Client (RecordArity 1 2)), sample_session, ()) \<and>
   insert_record quiet_env ''d'' 1 [''a''] [VNull] False sample_session () =
     (Inl (Client AllValuesNull), sample_session, ()) \<and>
   insert_records_of_one_device quiet_env ''d'' [1, 2] [[''a''], [''a'']] [[VInt32 7], []] False sample_session () =
     (Inl (Client (RecordArity 0 1)), sample_session, ()) \<and>
   insert_records_of_one_device quiet_env ''d'' [1] [[''a'']] [[VNull]] False sample_session () =
     (Inl (Client AllValuesNull), sample_session, ())"
proof -
  note refused = refused_inserts_send_nothing [where env = quiet_env and d = "''d''" and t = 1 and aligned = False and
      s = sample_session and w = "()"]
  show ?thesis
  proof (intro conjI)
    show "insert_record quiet_env ''d'' 1 [''a'', ''b''] [VInt32 7] False sample_session () =
        (Inl (Client (RecordArity 1 2)), sample_session, ())"
      using refused [of "[''a'', ''b'']" "[VInt32 7]"] by simp
    show "insert_record quiet_env ''d'' 1 [''a''] [VNull] False sample_session () =
        (Inl (Client AllValuesNull), sample_session, ())"
      using refused [of "[''a'']" "[VNull]"] by simp
    show "insert_records_of_one_device quiet_env ''d'' [1, 2] [[''a''], [''a'']] [[VInt32 7], []] False sample_session () =
        (Inl (Client (RecordArity 0 1)), sample_session, ())"
      using refused [where tss = "[1, 2]" and mss = "[[''a''], [''a'']]" and vss = "[[VInt32 7], []]" and i = 1]
      by (simp add: less_Suc_eq)
    show "insert_records_of_one_device quiet_env ''d'' [1] [[''a'']] [[VNull]] False sample_session () =
        (Inl (Client AllValuesNull), sample_session, ())"
      using refused [where tss = "[1]" and mss = "[[''a'']]" and vss = "[[VNull]]"] by simp
  qed
qed

end
