(* ===== verification/SessionInv.thy ===== *)
theory SessionInv
  imports InsertProps
begin

text \<open>
  The session as a state machine: one step per public operation, in any order and with any outcome
  of the calls it makes. The invariant says what an open session is: connected to one of its
  configured endpoints, with session and statement ids that the server issued for exactly this
  connection in a completed handshake.
\<close>

section \<open>The state machine\<close>

type_synonym 'w sstate = "session \<times> 'w \<times> event list"

inductive session_step :: "'w env \<Rightarrow> 'w sstate \<Rightarrow> 'w sstate \<Rightarrow> bool" for env where
  open_step: "session_open (logged env) index s (w, l) = (r, index', s', w', l') \<Longrightarrow>
    session_step env (s, w, l) (s', w', l')"
| non_query: "execute_non_query (logged env) sql s (w, l) = (r, s', w', l') \<Longrightarrow>
    session_step env (s, w, l) (s', w', l')"
| query: "execute_query_raw (logged env) sql s (w, l) = (r, s', w', l') \<Longrightarrow>
    session_step env (s, w, l) (s', w', l')"
| fetch: "fetch_results (logged env) qid sql s (w, l) = (r, s', w', l') \<Longrightarrow>
    session_step env (s, w, l) (s', w', l')"
| end_query: "close_query (logged env) qid s (w, l) = (s', w', l') \<Longrightarrow>
    session_step env (s, w, l) (s', w', l')"
| tablet: "insert_tablet (logged env) t s (w, l) = Some (r, s', w', l') \<Longrightarrow>
    session_step env (s, w, l) (s', w', l')"
| raw_tablet: "insert_tablet_raw (logged env) p ms tys vals tss n al wt cats s (w, l) = (r, s', w', l') \<Longrightarrow>
    session_step env (s, w, l) (s', w', l')"
| tablets: "insert_tablets (logged env) ts al s (w, l) = Some (r, s', w', l') \<Longrightarrow>
    session_step env (s, w, l) (s', w', l')"
| one_record: "insert_record (logged env) d tm ms vs al s (w, l) = (r, s', w', l') \<Longrightarrow>
    session_step env (s, w, l) (s', w', l')"
| records: "insert_records (logged env) ds tms mss vss al s (w, l) = (r, s', w', l') \<Longrightarrow>
    session_step env (s, w, l) (s', w', l')"
| one_device: "insert_records_of_one_device (logged env) d tms mss vss al s (w, l) = (r, s', w', l') \<Longrightarrow>
    session_step env (s, w, l) (s', w', l')"
| hint: "redirect_hint (logged env) d s (w, l) = (r, s', w', l') \<Longrightarrow>
    session_step env (s, w, l) (s', w', l')"
| clear: "session_step env (s, w, l) (clear_redirect_cache s, w, l)"
| close: "session_close (logged env) s (w, l) = (s', w', l') \<Longrightarrow>
    session_step env (s, w, l) (s', w', l')"

inductive session_reachable :: "'w env \<Rightarrow> 'w sstate \<Rightarrow> bool" for env where
  new: "session_reachable env (session_new config, w, [])"
| step: "session_reachable env x \<Longrightarrow> session_step env x y \<Longrightarrow> session_reachable env y"

definition authenticated :: "event list \<Rightarrow> connection \<Rightarrow> i64 \<Rightarrow> i64 \<Rightarrow> bool" where
  "authenticated l c sid stid \<longleftrightarrow> (\<exists>pre post s. l = pre @ post \<and> handshaken s pre c sid stid)"

definition session_inv :: "session \<Rightarrow> event list \<Rightarrow> bool" where
  "session_inv s l \<longleftrightarrow>
     (case ss_connection s of
        None \<Rightarrow> True
      | Some c \<Rightarrow> ss_last_endpoint s = Some (cn_endpoint c) \<and>
          cn_endpoint c \<in> set (sc_endpoints (ss_config s)) \<and>
          authenticated l c (ss_session_id s) (ss_statement_id s))"

section \<open>What keeps the invariant\<close>

lemma authenticated_append: "authenticated l c sid stid \<Longrightarrow> authenticated (l @ evs) c sid stid"
  unfolding authenticated_def by (metis append.assoc)

lemma handshaken_authenticated: "handshaken s evs c sid stid \<Longrightarrow> authenticated (l @ evs @ post) c sid stid"
  unfolding authenticated_def by (metis append.assoc handshaken_prefix)

text \<open>Two sessions with the same link, whatever their database and redirect cache.\<close>

definition same_link :: "session \<Rightarrow> session \<Rightarrow> bool" where
  "same_link s s' \<longleftrightarrow>
     ss_connection s' = ss_connection s \<and> ss_session_id s' = ss_session_id s \<and>
     ss_statement_id s' = ss_statement_id s \<and> ss_last_endpoint s' = ss_last_endpoint s \<and>
     ss_config s' = ss_config s"

lemma inv_same_link: "session_inv s l \<Longrightarrow> same_link s s' \<Longrightarrow> session_inv s' (l @ evs)"
  by (auto simp: session_inv_def same_link_def authenticated_append split: option.splits)

lemma set_reconnect_order: "set (reconnect_order s) \<subseteq> set (sc_endpoints (ss_config s))"
  by (auto simp: reconnect_order_def set_rotation)

lemma inv_reconnect_log:
  assumes "reconnect_log s ok s' evs"
  shows "session_inv s' (l @ evs @ post)"
proof (cases ok)
  case True
  then obtain c k where c: "ss_connection s' = Some c" "ss_last_endpoint s' = Some (cn_endpoint c)"
    "handshaken s evs c (ss_session_id s') (ss_statement_id s')"
    "0 < k" "k \<le> length (reconnect_order s)" "cn_endpoint c = reconnect_order s ! (k - 1)"
    and cfg: "ss_config s' = ss_config s"
    using assms by (auto simp: reconnect_log_def same_but_link_def)
  have "cn_endpoint c \<in> set (reconnect_order s)" using c(4-6) by (metis Suc_pred' lessI less_le_trans nth_mem)
  then have "cn_endpoint c \<in> set (sc_endpoints (ss_config s'))" using set_reconnect_order cfg by auto
  with c handshaken_authenticated [OF c(3)] show ?thesis by (simp add: session_inv_def)
next
  case False
  with assms show ?thesis by (simp add: reconnect_log_def session_inv_def)
qed

lemma inv_retry_log:
  assumes "retry_log ev s r s' evs" "session_inv s l"
  shows "session_inv s' (l @ evs)"
proof (cases "ss_connection s")
  case None
  with assms show ?thesis by (simp add: retry_log_def)
next
  case (Some c)
  then consider r1 where "s' = s" "evs = [ev c s r1]"
    | e rc where "evs = ev c s (Inl e) # rc" "reconnect_log s False s' rc"
    | e rc c' r2 where "evs = ev c s (Inl e) # rc @ [ev c' s' r2]" "reconnect_log s True s' rc"
    using assms(1) by (auto simp: retry_log_def)
  then show ?thesis
  proof cases
    case 1
    with assms(2) show ?thesis using inv_same_link [of s l s] by (simp add: same_link_def)
  next
    case 2
    then show ?thesis using inv_reconnect_log [of s False s' rc "l @ [ev c s (Inl e)]" "[]"] by simp
  next
    case 3
    then show ?thesis using inv_reconnect_log [of s True s' rc "l @ [ev c s (Inl e)]" "[ev c' s' r2]"] by simp
  qed
qed

lemma inv_sends: "sends ev s r s' evs \<Longrightarrow> session_inv s l \<Longrightarrow> session_inv s' (l @ evs)"
proof -
  assume "sends ev s r s' evs" and inv: "session_inv s l"
  then obtain r0 s0 where r0: "retry_log ev s r0 s0 evs"
    and s': "s' = s0\<lparr>ss_redirect_cache := ss_redirect_cache s'\<rparr>"
    unfolding sends_def by (elim exE conjE)
  have "same_link s0 s'" unfolding same_link_def by (subst s', simp)+
  with inv_same_link [OF inv_retry_log [OF r0 inv], of s' "[]"] show ?thesis by simp
qed

text \<open>Every insert, once its request is built.\<close>

lemma inv_insert:
  assumes "bindo (with_retry (logged env) (\<lambda>s. rpc (\<lambda>c. noting (\<lambda>r. [ev c s r]) (f c s)) s))
       (\<lambda>status. check_insert_status (logged env) devices status) s (w, l) = (r, s', w', l')"
    and "session_inv s l"
  shows "session_inv s' l'"
proof -
  obtain r1 s1 w1 evs where
    "bindo (with_retry (logged env) (\<lambda>s. rpc (\<lambda>c. noting (\<lambda>r. [ev c s r]) (f c s)) s))
       (\<lambda>status. check_insert_status (logged env) devices status) s (w, l) = (r1, s1, w1, l @ evs)"
    "sends ev s r1 s1 evs"
    using insert_logged [of env ev f devices s w l] by (elim exE conjE)
  with assms inv_sends show ?thesis by auto
qed

text \<open>A statement: the retried call, then a continuation that leaves the link and the log alone.\<close>

lemma inv_statement:
  assumes run: "bindo (with_retry (logged env) (\<lambda>s. rpc (\<lambda>c. noting (\<lambda>r. [ev c s r]) (f c s)) s)) g s (w, l) =
      (r, s', w', l')"
    and inv: "session_inv s l"
    and g: "\<And>x s w l r s' w' l'. g x s (w, l) = (r, s', w', l') \<Longrightarrow> same_link s s' \<and> l' = l"
  shows "session_inv s' l'"
proof -
  obtain r0 s0 w0 l0 where 0: "with_retry (logged env)
      (\<lambda>s. rpc (\<lambda>c. noting (\<lambda>r. [ev c s r]) (f c s)) s) s (w, l) = (r0, s0, w0, l0)"
    by (rule prod_cases4)
  obtain evs where evs: "l0 = l @ evs" "retry_log ev s r0 s0 evs"
    using with_retry_logged [where ev = ev and f = f, OF 0] by (elim exE conjE)
  have inv0: "session_inv s0 l0" using inv_retry_log [OF evs(2) inv] evs(1) by simp
  show ?thesis
  proof (cases r0)
    case (Inl e)
    with run 0 inv0 show ?thesis by (simp add: bindo_def)
  next
    case (Inr x)
    with run 0 have "g x s0 (w0, l0) = (r, s', w', l')" by (simp add: bindo_def)
    from g [OF this] inv_same_link [OF inv0, of s' "[]"] show ?thesis by simp
  qed
qed

lemma same_link_refl [simp]: "same_link s s"
  by (simp add: same_link_def)

lemma inv_execute_non_query:
  assumes "execute_non_query (logged env) sql s (w, l) = (r, s', w', l')" "session_inv s l"
  shows "session_inv s' l'"
proof (rule inv_statement [where ev = "\<lambda>c s. EvUpdate c (statement_req s sql)"
      and f = "\<lambda>c s. e_execute_update env c (statement_req s sql)", OF _ assms(2)])
  have "e_execute_update (logged env) c q = noting (\<lambda>r. [EvUpdate c q r]) (e_execute_update env c q)" for c q
    by (simp add: logged_def)
  with assms(1) show "bindo (with_retry (logged env) (\<lambda>s. rpc (\<lambda>c. noting
      (\<lambda>r. [EvUpdate c (statement_req s sql) r]) (e_execute_update env c (statement_req s sql))) s))
      (\<lambda>resp. bindo (pureo (check_status (esr_status resp))) (\<lambda>_ s w.
         (Inr (), case esr_database resp of None \<Rightarrow> s | Some db \<Rightarrow> s\<lparr>ss_database := Some db\<rparr>, w)))
      s (w, l) = (r, s', w', l')"
    unfolding execute_non_query_def by simp
qed (auto simp: bindo_def pureo_def same_link_def split: sum.splits option.splits)

lemma inv_execute_query_raw:
  assumes "execute_query_raw (logged env) sql s (w, l) = (r, s', w', l')" "session_inv s l"
  shows "session_inv s' l'"
proof -
  have "e_execute_query (logged env) c q = noting (\<lambda>r. [EvQuery c q r]) (e_execute_query env c q)" for c q
    by (simp add: logged_def)
  with assms(1) have run: "bindo (with_retry (logged env) (\<lambda>s. rpc (\<lambda>c. noting
      (\<lambda>r. [EvQuery c (statement_req s sql) r]) (e_execute_query env c (statement_req s sql))) s))
      (\<lambda>resp. bindo (pureo (check_status (esr_status resp))) (\<lambda>_.
         pureo (case esr_query_id resp of
              None \<Rightarrow> Inl (Client MissingQueryId)
            | Some query_id \<Rightarrow> Inr
                \<lparr>qh_query_id = query_id, qh_statement = sql,
                 qh_columns = or_default [] (esr_columns resp),
                 qh_data_type_list = or_default [] (esr_data_type_list resp),
                 qh_ignore_time_stamp = or_default False (esr_ignore_time_stamp resp),
                 qh_query_result = or_default [] (esr_query_result resp),
                 qh_more_data = or_default False (esr_more_data resp),
                 qh_column_index_map = esr_column_index2_ts_block_column_index_list resp\<rparr>)))
      s (w, l) = (r, s', w', l')"
    unfolding execute_query_raw_def by simp
  show ?thesis
    by (rule inv_statement [where ev = "\<lambda>c s. EvQuery c (statement_req s sql)"
          and f = "\<lambda>c s. e_execute_query env c (statement_req s sql)", OF run assms(2)])
      (auto simp: bindo_def pureo_def split: sum.splits)
qed

lemma fetch_results_logged:
  assumes "fetch_results (logged env) qid sql s (w, l) = (r, s', w', l')"
  shows "s' = s \<and> (\<exists>evs. l' = l @ evs \<and>
    (case ss_connection s of
       None \<Rightarrow> evs = [] \<and> r = Inl (Client SessionNotOpen)
     | Some c \<Rightarrow> \<exists>req. evs = [EvFetch c req] \<and> frq_session_id req = ss_session_id s \<and> frq_query_id req = qid))"
  using assms
  by (auto simp: fetch_results_def bindo_def rpc_def pureo_def Let_def logged_def noting_def split_beta
      split: option.splits sum.splits)

lemma close_query_logged:
  assumes "close_query (logged env) qid s (w, l) = (s', w', l')"
  shows "s' = s \<and> (case ss_connection s of
     None \<Rightarrow> l' = l
   | Some c \<Rightarrow> l' = l @ [EvCloseOperation c \<lparr>coq_session_id = ss_session_id s, coq_query_id = Some qid,
                 coq_statement_id = Some (ss_statement_id s), coq_prepared_statement_name = None\<rparr>])"
  using assms by (auto simp: close_query_def logged_def noting_def split_beta split: option.splits)

lemma inv_open:
  assumes "session_open (logged env) index s (w, l) = (r, index', s', w', l')" "session_inv s l"
  shows "session_inv s' l'"
proof (cases "ss_connection s \<noteq> None \<or> sc_endpoints (ss_config s) = []")
  case True
  then have "s' = s" "l' = l" using assms(1) by (auto simp: session_open_def split: if_splits)
  with assms(2) show ?thesis by simp
next
  case False
  then have "\<exists>evs. l' = l @ evs \<and> (case r of Inl e \<Rightarrow> s' = s
      | Inr _ \<Rightarrow> \<exists>c. s' = install c (ss_session_id s', ss_statement_id s') s \<and>
          handshaken s evs c (ss_session_id s') (ss_statement_id s') \<and>
          cn_endpoint c \<in> set (sc_endpoints (ss_config s)))"
    using session_open_logged [OF assms(1)] by blast
  then obtain evs where evs: "l' = l @ evs" "case r of Inl e \<Rightarrow> s' = s
      | Inr _ \<Rightarrow> \<exists>c. s' = install c (ss_session_id s', ss_statement_id s') s \<and>
          handshaken s evs c (ss_session_id s') (ss_statement_id s') \<and>
          cn_endpoint c \<in> set (sc_endpoints (ss_config s))" by (elim exE conjE)
  show ?thesis
  proof (cases r)
    case (Inl e)
    with evs assms(2) inv_same_link [of s l s evs] show ?thesis by simp
  next
    case (Inr u)
    with evs(2) obtain c where c: "s' = install c (ss_session_id s', ss_statement_id s') s"
      "handshaken s evs c (ss_session_id s') (ss_statement_id s')" "cn_endpoint c \<in> set (sc_endpoints (ss_config s))"
      by auto
    have "session_inv (install c (ss_session_id s', ss_statement_id s') s) (l @ evs)"
      using c(3) handshaken_authenticated [OF c(2), of l "[]"] by (simp add: session_inv_def install_def)
    with c(1) evs(1) show ?thesis by metis
  qed
qed

section \<open>Every operation keeps the invariant\<close>

definition keeps_inv :: "(session \<Rightarrow> 'w \<times> event list \<Rightarrow> 'a \<times> session \<times> 'w \<times> event list) \<Rightarrow> bool" where
  "keeps_inv f \<longleftrightarrow>
     (\<forall>s w l r s' w' l'. f s (w, l) = (r, s', w', l') \<longrightarrow> session_inv s l \<longrightarrow> session_inv s' l')"

lemma keeps_invD: "keeps_inv f \<Longrightarrow> f s (w, l) = (r, s', w', l') \<Longrightarrow> session_inv s l \<Longrightarrow> session_inv s' l'"
  unfolding keeps_inv_def by blast

lemma keeps_pureo: "keeps_inv (pureo r)"
  by (simp add: keeps_inv_def pureo_def)

lemma keeps_checked: "(\<And>x. r = Inr x \<Longrightarrow> keeps_inv (f x)) \<Longrightarrow> keeps_inv (bindo (pureo r) f)"
  by (cases r) (simp_all add: keeps_inv_def bindo_def pureo_def)

lemma keeps_if: "keeps_inv f \<Longrightarrow> keeps_inv g \<Longrightarrow> keeps_inv (if b then f else g)"
  by simp

lemma keeps_with_session: "(\<And>s0. keeps_inv (g s0)) \<Longrightarrow> keeps_inv (\<lambda>s. g s s)"
  unfolding keeps_inv_def by blast

lemma keeps_insert:
  "keeps_inv (bindo (with_retry (logged env) (\<lambda>s. rpc (\<lambda>c. noting (\<lambda>r. [ev c s r]) (f c s)) s))
     (\<lambda>status. check_insert_status (logged env) devices status))"
  unfolding keeps_inv_def by (intro allI impI) (rule inv_insert)

lemma keeps_insert_record: "keeps_inv (insert_record (logged env) d tm ms vs al)"
  unfolding insert_record_def logged_inserts Let_def split_beta
  by (rule keeps_checked, rule keeps_if, rule keeps_pureo, rule keeps_with_session, rule keeps_insert)

lemma keeps_insert_records: "keeps_inv (insert_records (logged env) ds tms mss vss al)"
  unfolding insert_records_def logged_inserts Let_def split_beta
  by (rule keeps_if, rule keeps_pureo, rule keeps_checked, rule keeps_if, rule keeps_pureo,
      rule keeps_with_session, rule keeps_insert)

lemma keeps_insert_one_device: "keeps_inv (insert_records_of_one_device (logged env) d tms mss vss al)"
  unfolding insert_records_of_one_device_def logged_inserts Let_def split_beta
  by (rule keeps_if, rule keeps_pureo, rule keeps_checked, rule keeps_if, rule keeps_pureo,
      rule keeps_with_session, rule keeps_insert)

lemma keeps_insert_tablet_raw:
  "keeps_inv (insert_tablet_raw (logged env) p ms tys vals tss n al wt cats)"
proof -
  have "keeps_inv (\<lambda>s. insert_tablet_raw (logged env) p ms tys vals tss n al wt cats s)"
    unfolding insert_tablet_raw_def logged_inserts Let_def by (rule keeps_with_session) (rule keeps_insert)
  then show ?thesis .
qed

lemma inv_insert_tablet:
  assumes "insert_tablet (logged env) t s (w, l) = Some (r, s', w', l')" "session_inv s l"
  shows "session_inv s' l'"
  using assms(1) keeps_invD [OF keeps_insert_tablet_raw _ assms(2)]
  by (auto simp: insert_tablet_def split_beta Let_def split: option.splits)

lemma inv_insert_tablets:
  assumes "insert_tablets (logged env) ts al s (w, l) = Some (r, s', w', l')" "session_inv s l"
  shows "session_inv s' l'"
proof -
  obtain req where "build_insert_tablets_req (ss_session_id s) ts al = Some req"
    using assms(1) by (auto simp: insert_tablets_def)
  with assms show ?thesis
    by (cases req) (auto simp: insert_tablets_def logged_inserts elim!: keeps_invD [OF keeps_insert])
qed

lemma inv_redirect_hint:
  assumes "redirect_hint (logged env) d s (w, l) = (r, s', w', l')" "session_inv s l"
  shows "session_inv s' l'"
proof -
  have "same_link s s'" "l' = l"
    using assms(1)
    by (auto simp: redirect_hint_def redirect_get_def logged_def noting_def split_beta Let_def same_link_def)
  with inv_same_link [OF assms(2), of s' "[]"] show ?thesis by simp
qed

lemma inv_close:
  assumes "session_close (logged env) s (w, l) = (s', w', l')"
  shows "session_inv s' l'"
  using assms by (auto simp: session_close_def session_inv_def)

lemma session_step_inv:
  "session_step env x y \<Longrightarrow> session_inv (fst x) (snd (snd x)) \<Longrightarrow> session_inv (fst y) (snd (snd y))"
proof (induction rule: session_step.induct)
  case (fetch qid sql s w l r s' w' l')
  then show ?case using fetch_results_logged [OF fetch(1)] inv_same_link [of s l s] by auto
next
  case (end_query qid s w l s' w' l')
  then show ?case
    using close_query_logged [OF end_query(1)] inv_same_link [of s l s] by (cases "ss_connection s") auto
next
  case (clear s w l)
  then show ?case
    using inv_same_link [of s l "clear_redirect_cache s" "[]"] by (simp add: clear_redirect_cache_def same_link_def)
qed (simp_all add: inv_open inv_execute_non_query inv_execute_query_raw inv_insert_tablet inv_insert_tablets
    inv_redirect_hint inv_close keeps_invD [OF keeps_insert_tablet_raw] keeps_invD [OF keeps_insert_record] keeps_invD [OF keeps_insert_records]
    keeps_invD [OF keeps_insert_one_device])

text \<open>
  C2: Whatever public operations a session runs, in whatever order and whatever each call returns,
  an open session is connected to one of its configured endpoints, remembers that endpoint for the
  next reconnect, and carries the session id and statement id that the server issued for that very
  connection in a handshake the log contains.
\<close>

theorem open_session_is_authenticated:
  assumes "session_reachable env (s, w, l)" "ss_connection s = Some c"
  shows "ss_last_endpoint s = Some (cn_endpoint c) \<and> cn_endpoint c \<in> set (sc_endpoints (ss_config s)) \<and>
    authenticated l c (ss_session_id s) (ss_statement_id s)"
proof -
  have "session_inv (fst x) (snd (snd x))" if "session_reachable env x" for x
    using that
  proof induction
    case (new config w)
    then show ?case by (simp add: session_inv_def session_new_def)
  next
    case (step x y)
    show ?case by (rule session_step_inv [OF step.hyps(2) step.IH])
  qed
  from this [OF assms(1)] assms(2) show ?thesis by (simp add: session_inv_def)
qed

theorem open_session_is_authenticated_witness:
  "\<exists>s l c. session_reachable quiet_env (s, (), l) \<and> ss_connection s = Some c \<and>
     authenticated l c (ss_session_id s) (ss_statement_id s)"
proof -
  let ?s = "session_new session_config_default"
  obtain r i s' w' l' where run: "session_open (logged quiet_env) 0 ?s ((), []) = (r, i, s', w', l')"
    by (rule prod_cases5)
  have "ss_connection (fst (snd (snd (session_open (logged quiet_env) 0 ?s ((), []))))) \<noteq> None"
    by (simp add: session_open_def rotation_def connection_open_def connect_stream_def authenticate_def
        session_connection_options_def eval_sample Let_def)
  then have "ss_connection s' \<noteq> None" by (simp add: run)
  then obtain c where c: "ss_connection s' = Some c" by auto
  have reach: "session_reachable quiet_env (s', w', l')"
    by (rule session_reachable.step [OF session_reachable.new session_step.open_step [OF run]])
  from open_session_is_authenticated [OF reach c] reach c show ?thesis
    by (intro exI [of _ s'] exI [of _ l'] exI [of _ c]) simp
qed

end
