(* ===== verification/DataSet.thy ===== *)
theory DataSet
  imports SessionInv TsBlockProps
begin

text \<open>
  The result set of a query (\<^verbatim>\<open>src/client/dataset.rs\<close>): the loop of \<^verbatim>\<open>next_row\<close> that drains the current
  block, decodes the next cached one and fetches further pages, the assembly of a row through the
  column index map, closing and dropping. The session a result set borrows is a field of it. An
  index out of range is \<open>Panic\<close>; \<open>None\<close> is a loop that never ends, which a server can cause by
  sending empty pages for ever.
\<close>

section \<open>The code\<close>

datatype 'a outcome = Panic | Returns 'a

record row =
  rw_timestamp :: "i64 option"
  rw_values :: "ts_value list"

record data_set =
  ds_session :: session
  ds_query_id :: i64
  ds_statement :: string
  ds_columns :: "string list"
  ds_data_type_list :: "string list"
  ds_ignore_time_stamp :: bool
  ds_column_index_map :: "i32 list option"
  ds_pending_blocks :: "bytes list"
  ds_current :: "tsblock option"
  ds_row_index :: nat
  ds_more_data :: bool
  ds_closed :: bool

definition data_set_new :: "session \<Rightarrow> query_handle \<Rightarrow> data_set" where
  "data_set_new s h =
     \<lparr>ds_session = s, ds_query_id = qh_query_id h, ds_statement = qh_statement h,
      ds_columns = qh_columns h, ds_data_type_list = qh_data_type_list h,
      ds_ignore_time_stamp = qh_ignore_time_stamp h, ds_column_index_map = qh_column_index_map h,
      ds_pending_blocks = qh_query_result h, ds_current = None, ds_row_index = 0,
      ds_more_data = qh_more_data h, ds_closed = False\<rparr>"

text \<open>\<^verbatim>\<open>slice[i]\<close> and \<^verbatim>\<open>slice.get(i)\<close>\<close>

definition index_at :: "'a list \<Rightarrow> nat \<Rightarrow> 'a outcome" where
  "index_at xs i = (if i < length xs then Returns (xs ! i) else Panic)"

definition get_opt :: "'a list \<Rightarrow> nat \<Rightarrow> 'a option" where
  "get_opt xs i = (if i < length xs then Some (xs ! i) else None)"

definition apply_logical_type :: "ts_value \<Rightarrow> string option \<Rightarrow> ts_value" where
  "apply_logical_type v logical =
     (case v of
        VInt32 x \<Rightarrow> if logical = Some ''DATE'' then VDate x else v
      | VInt64 x \<Rightarrow> if logical = Some ''TIMESTAMP'' then VTimestamp x else v
      | VText s \<Rightarrow>
          if logical = Some ''STRING'' then VString s
          else if logical = Some ''BLOB'' then VBlob (as_bytes s) else v
      | _ \<Rightarrow> v)"

text \<open>The TsBlock column of an output column: \<^verbatim>\<open>-1\<close> is the time column.\<close>

definition physical_column :: "data_set \<Rightarrow> nat \<Rightarrow> i32 result" where
  "physical_column d ordinal =
     (case ds_column_index_map d of
        Some m \<Rightarrow>
          (case get_opt m ordinal of
             Some p \<Rightarrow> Inr p
           | None \<Rightarrow> Inl (Decode (IndexMapShort (length m) ordinal)))
      | None \<Rightarrow> Inr (word_of_nat ordinal))"

definition output_cell :: "data_set \<Rightarrow> tsblock \<Rightarrow> nat \<Rightarrow> nat \<Rightarrow> ts_value result outcome" where
  "output_cell d block i ordinal =
     (case physical_column d ordinal of
        Inl e \<Rightarrow> Returns (Inl e)
      | Inr physical \<Rightarrow>
          if physical = -1 then
            (case index_at (bk_timestamps block) i of
               Panic \<Rightarrow> Panic | Returns t \<Rightarrow> Returns (Inr (VTimestamp t)))
          else
            (case (if sint physical < 0 then None else get_opt (bk_columns block) (nat (sint physical))) of
               None \<Rightarrow> Returns (Inl (Decode (IndexMapRange physical (length (bk_columns block)))))
             | Some column \<Rightarrow>
                 (case index_at column i of
                    Panic \<Rightarrow> Panic
                  | Returns v \<Rightarrow> Returns (Inr (apply_logical_type v (get_opt (ds_data_type_list d) ordinal))))))"

fun output_cells :: "data_set \<Rightarrow> tsblock \<Rightarrow> nat \<Rightarrow> nat list \<Rightarrow> ts_value list result outcome" where
  "output_cells d block i [] = Returns (Inr [])"
| "output_cells d block i (ordinal # ordinals) =
     (case output_cell d block i ordinal of
        Panic \<Rightarrow> Panic
      | Returns (Inl e) \<Rightarrow> Returns (Inl e)
      | Returns (Inr v) \<Rightarrow>
          (case output_cells d block i ordinals of
             Panic \<Rightarrow> Panic
           | Returns r \<Rightarrow> Returns (bindr r (\<lambda>vs. Inr (v # vs)))))"

definition assemble_row :: "data_set \<Rightarrow> row result outcome" where
  "assemble_row d =
     (case ds_current d of
        None \<Rightarrow> Panic
      | Some block \<Rightarrow>
          (case output_cells d block (ds_row_index d) [0..<length (ds_columns d)] of
             Panic \<Rightarrow> Panic
           | Returns (Inl e) \<Rightarrow> Returns (Inl e)
           | Returns (Inr vs) \<Rightarrow>
               if ds_ignore_time_stamp d then Returns (Inr \<lparr>rw_timestamp = None, rw_values = vs\<rparr>)
               else (case index_at (bk_timestamps block) (ds_row_index d) of
                       Panic \<Rightarrow> Panic
                     | Returns t \<Rightarrow> Returns (Inr \<lparr>rw_timestamp = Some t, rw_values = vs\<rparr>))))"

definition ds_close :: "'w env \<Rightarrow> data_set \<Rightarrow> 'w \<Rightarrow> data_set \<times> 'w" where
  "ds_close env d w =
     (if ds_closed d then (d, w)
      else
        let (s, w) = close_query env (ds_query_id d) (ds_session d) w
        in (d\<lparr>ds_closed := True, ds_pending_blocks := [], ds_current := None, ds_session := s\<rparr>, w))"

definition unread :: "data_set \<Rightarrow> bool" where
  "unread d \<longleftrightarrow> (case ds_current d of None \<Rightarrow> False | Some b \<Rightarrow> ds_row_index d < bk_position_count b)"

text \<open>One turn of the loop: \<open>Some r\<close> returns \<open>r\<close> to the caller, \<open>None\<close> goes round again.\<close>

definition next_row_turn ::
    "'w env \<Rightarrow> data_set \<Rightarrow> 'w \<Rightarrow> row option result outcome option \<times> data_set \<times> 'w" where
  "next_row_turn env d w =
     (if unread d then
        (case assemble_row d of
           Panic \<Rightarrow> (Some Panic, d, w)
         | Returns (Inl e) \<Rightarrow> (Some (Returns (Inl e)), d, w)
         | Returns (Inr rw) \<Rightarrow> (Some (Returns (Inr (Some rw))), d\<lparr>ds_row_index := ds_row_index d + 1\<rparr>, w))
      else
        let d = d\<lparr>ds_current := None\<rparr> in
        case ds_pending_blocks d of
          bytes # rest \<Rightarrow>
            let d = d\<lparr>ds_pending_blocks := rest\<rparr> in
            (case decode bytes of
               Inl e \<Rightarrow> (Some (Returns (Inl e)), d, w)
             | Inr b \<Rightarrow> (None, d\<lparr>ds_current := Some b, ds_row_index := 0\<rparr>, w))
        | [] \<Rightarrow>
            if ds_more_data d then
              (case fetch_results env (ds_query_id d) (ds_statement d) (ds_session d) w of
                 (Inl e, s, w) \<Rightarrow> (Some (Returns (Inl e)), d\<lparr>ds_session := s\<rparr>, w)
               | (Inr (blocks, more_data), s, w) \<Rightarrow>
                   let d = d\<lparr>ds_session := s, ds_pending_blocks := blocks, ds_more_data := more_data\<rparr> in
                   if blocks \<noteq> [] \<or> more_data then (None, d, w)
                   else let (d, w) = ds_close env d w in (Some (Returns (Inr None)), d, w))
            else let (d, w) = ds_close env d w in (Some (Returns (Inr None)), d, w))"

partial_function (option) next_row_loop ::
    "'w env \<Rightarrow> data_set \<Rightarrow> 'w \<Rightarrow> (row option result outcome \<times> data_set \<times> 'w) option" where
  "next_row_loop env d w =
     (case next_row_turn env d w of
        (Some r, d, w) \<Rightarrow> Some (r, d, w)
      | (None, d, w) \<Rightarrow> next_row_loop env d w)"

definition next_row :: "'w env \<Rightarrow> data_set \<Rightarrow> 'w \<Rightarrow> (row option result outcome \<times> data_set \<times> 'w) option" where
  "next_row env d w = (if ds_closed d then Some (Returns (Inr None), d, w) else next_row_loop env d w)"

definition execute_query :: "'w env \<Rightarrow> string \<Rightarrow> session \<Rightarrow> 'w \<Rightarrow> (error \<times> session + data_set) \<times> 'w" where
  "execute_query env sql s w =
     (case execute_query_raw env sql s w of
        (Inl e, s, w) \<Rightarrow> (Inl (e, s), w)
      | (Inr h, s, w) \<Rightarrow> (Inr (data_set_new s h), w))"

end
