(* ===== verification/DataSetProps.thy ===== *)
theory DataSetProps
  imports DataSet
begin

text \<open>
  What a result set delivers: it never indexes out of range whatever the server sends, it ends when
  the server's pages do, it yields exactly the rows of the decoded blocks in order, and over its
  life it sends its page requests and a single \<^verbatim>\<open>closeOperation\<close> on the connection of its query.
\<close>

section \<open>No index out of range\<close>

definition ds_ok :: "data_set \<Rightarrow> bool" where
  "ds_ok d \<longleftrightarrow> (\<forall>b. ds_current d = Some b \<longrightarrow> wf_tsblock b)"

lemma wf_tsblock_column:
  "wf_tsblock b \<Longrightarrow> p < length (bk_columns b) \<Longrightarrow> length (bk_columns b ! p) = bk_position_count b"
  by (auto simp: wf_tsblock_def list_all2_conv_all_nth)

lemma index_at_Returns [simp]: "i < length xs \<Longrightarrow> index_at xs i = Returns (xs ! i)"
  by (simp add: index_at_def)

lemma output_cell_returns:
  assumes "wf_tsblock b" "i < bk_position_count b"
  shows "output_cell d b i k \<noteq> Panic"
proof -
  have ts: "i < length (bk_timestamps b)" using assms by (simp add: wf_tsblock_def)
  have col: "i < length (bk_columns b ! p)" if "p < length (bk_columns b)" for p
    using assms wf_tsblock_column [OF assms(1) that] by simp
  show ?thesis
    by (auto simp: output_cell_def get_opt_def ts col split: sum.split)
qed

lemma output_cells_returns:
  assumes "wf_tsblock b" "i < bk_position_count b"
  shows "output_cells d b i ks \<noteq> Panic"
  using output_cell_returns [OF assms]
  by (induction ks) (auto split: outcome.split sum.split)

lemma assemble_row_returns:
  assumes "ds_ok d" "unread d"
  shows "assemble_row d \<noteq> Panic"
proof -
  obtain b where b: "ds_current d = Some b" "ds_row_index d < bk_position_count b" "wf_tsblock b"
    using assms by (auto simp: unread_def ds_ok_def split: option.splits)
  then have "ds_row_index d < length (bk_timestamps b)" by (simp add: wf_tsblock_def)
  with b output_cells_returns [OF b(3,2)] show ?thesis
    by (auto simp: assemble_row_def split: outcome.split sum.split)
qed

lemma ds_close_current: "ds_close env d w = (d', w') \<Longrightarrow> ds_current d = None \<Longrightarrow> ds_current d' = None"
  by (auto simp: ds_close_def Let_def split: prod.splits if_splits)

lemma ds_close_ok:
  assumes "ds_close env d w = (d', w')" "ds_ok d"
  shows "ds_ok d'"
proof (cases "ds_closed d")
  case True
  with assms show ?thesis by (simp add: ds_close_def)
next
  case False
  with assms(1) have "ds_current d' = None" by (auto simp: ds_close_def Let_def split: prod.splits)
  then show ?thesis by (simp add: ds_ok_def)
qed

text \<open>The ways a turn of the loop ends.\<close>

lemma next_row_turn_cases:
  assumes "next_row_turn env d w = (r, d', w')"
  obtains
    (row) rw where "unread d" "assemble_row d = Returns (Inr rw)" "r = Some (Returns (Inr (Some rw)))"
      "d' = d\<lparr>ds_row_index := ds_row_index d + 1\<rparr>" "w' = w"
  | (bad_row) "unread d" "r = Some Panic \<longleftrightarrow> assemble_row d = Panic" "r \<noteq> None" "d' = d" "w' = w"
  | (block) bytes rest b where "\<not> unread d" "ds_pending_blocks d = bytes # rest" "decode bytes = Inr b" "r = None"
      "d' = d\<lparr>ds_pending_blocks := rest, ds_current := Some b, ds_row_index := 0\<rparr>" "w' = w"
  | (bad_block) rest e where "\<not> unread d" "r = Some (Returns (Inl e))"
      "d' = d\<lparr>ds_current := None, ds_pending_blocks := rest\<rparr>" "w' = w"
  | (page) s blocks more_data where "\<not> unread d" "ds_pending_blocks d = []" "ds_more_data d" "r = None"
      "fetch_results env (ds_query_id d) (ds_statement d) (ds_session d) w = (Inr (blocks, more_data), s, w')"
      "d' = d\<lparr>ds_current := None, ds_session := s, ds_pending_blocks := blocks, ds_more_data := more_data\<rparr>"
  | (bad_fetch) e s where "r = Some (Returns (Inl e))"
      "fetch_results env (ds_query_id d) (ds_statement d) (ds_session d) w = (Inl e, s, w')"
      "d' = d\<lparr>ds_current := None, ds_session := s\<rparr>"
  | (last_page) s w1 d1 where "r = Some (Returns (Inr None))"
      "fetch_results env (ds_query_id d) (ds_statement d) (ds_session d) w = (Inr ([], False), s, w1)"
      "d1 = d\<lparr>ds_current := None, ds_session := s, ds_pending_blocks := [], ds_more_data := False\<rparr>"
      "ds_close env d1 w1 = (d', w')"
  | (exhausted) d1 where "r = Some (Returns (Inr None))" "d1 = d\<lparr>ds_current := None\<rparr>" "ds_close env d1 w = (d', w')"
proof (cases "unread d")
  case True
  with assms row bad_row show thesis
    by (auto simp: next_row_turn_def split: outcome.splits sum.splits)
next
  case no: False
  show thesis
  proof (cases "ds_pending_blocks d")
    case (Cons bytes rest)
    then show thesis
      using assms no block bad_block by (cases "decode bytes") (auto simp: next_row_turn_def Let_def)
  next
    case Nil
    show thesis
    proof (cases "ds_more_data d")
      case False
      with assms no Nil exhausted show thesis by (auto simp: next_row_turn_def Let_def split: prod.splits)
    next
      case True
      obtain fr s w1 where f: "fetch_results env (ds_query_id d) (ds_statement d) (ds_session d) w = (fr, s, w1)"
        by (rule prod_cases3)
      show thesis
      proof (cases fr)
        case (Inl e)
        with assms no Nil True f bad_fetch show thesis by (auto simp: next_row_turn_def Let_def)
      next
        case (Inr p)
        with assms no Nil True f page last_page show thesis
          by (cases p) (auto simp: next_row_turn_def Let_def split: prod.splits if_splits)
      qed
    qed
  qed
qed

lemma next_row_turn_ok:
  assumes "next_row_turn env d w = (r, d', w')" "ds_ok d"
  shows "ds_ok d' \<and> r \<noteq> Some Panic"
  using assms(1)
proof (cases rule: next_row_turn_cases)
  case bad_row
  with assms(2) assemble_row_returns show ?thesis by simp
next
  case (last_page s w1 d1)
  with ds_close_current show ?thesis by (fastforce simp: ds_ok_def)
next
  case (exhausted d1)
  with ds_close_current show ?thesis by (fastforce simp: ds_ok_def)
qed (use assms(2) in \<open>auto simp: ds_ok_def dest: decode_wf\<close>)

text \<open>What every turn keeps holds at the turn that returns.\<close>

lemma next_row_loop_inv:
  assumes "next_row_loop env d w = Some (r, d', w')" "P d w"
    and "\<And>d w d' w'. next_row_turn env d w = (None, d', w') \<Longrightarrow> P d w \<Longrightarrow> P d' w'"
  shows "\<exists>d0 w0. P d0 w0 \<and> next_row_turn env d0 w0 = (Some r, d', w')"
proof -
  have "P d w \<longrightarrow> (\<exists>d0 w0. P d0 w0 \<and> next_row_turn env d0 w0 = (Some (fst y), snd y))"
    if "next_row_loop env d w = Some y" for d w y
  proof (rule next_row_loop.raw_induct [where P = "\<lambda>e d w y. e = env \<longrightarrow> P d w \<longrightarrow>
        (\<exists>d0 w0. P d0 w0 \<and> next_row_turn env d0 w0 = (Some (fst y), snd y))", OF _ that, THEN mp, OF _ refl])
    fix loop e d w y
    assume IH: "\<And>e d w y. loop e d w = Some y \<Longrightarrow> e = env \<longrightarrow> P d w \<longrightarrow>
        (\<exists>d0 w0. P d0 w0 \<and> next_row_turn env d0 w0 = (Some (fst y), snd y))"
      and turn: "(case next_row_turn e d w of (None, d, w) \<Rightarrow> loop e d w
        | (Some r, d, w) \<Rightarrow> Some (r, d, w)) = Some y"
    show "e = env \<longrightarrow> P d w \<longrightarrow> (\<exists>d0 w0. P d0 w0 \<and> next_row_turn env d0 w0 = (Some (fst y), snd y))"
    proof (intro impI)
      assume e: "e = env" and p: "P d w"
      obtain r1 d1 w1 where t: "next_row_turn env d w = (r1, d1, w1)" by (rule prod_cases3)
      show "\<exists>d0 w0. P d0 w0 \<and> next_row_turn env d0 w0 = (Some (fst y), snd y)"
      proof (cases r1)
        case None
        with turn t e have "loop env d1 w1 = Some y" by simp
        with IH assms(3) [OF t [unfolded None] p] show ?thesis by blast
      next
        case (Some r)
        with turn t e p show ?thesis by (intro exI [of _ d] exI [of _ w]) auto
      qed
    qed
  qed
  from this [OF assms(1)] assms(2) show ?thesis by simp
qed

lemma next_row_ok:
  assumes "next_row env d w = Some (r, d', w')" "ds_ok d"
  shows "ds_ok d' \<and> r \<noteq> Panic"
proof (cases "ds_closed d")
  case True
  with assms show ?thesis by (auto simp: next_row_def)
next
  case False
  with assms(1) have "next_row_loop env d w = Some (r, d', w')" by (simp add: next_row_def)
  then have "\<exists>d0 w0. ds_ok d0 \<and> next_row_turn env d0 w0 = (Some r, d', w')"
    by (rule next_row_loop_inv [where P = "\<lambda>d w. ds_ok d", OF _ assms(2)]) 
      (erule next_row_turn_ok [THEN conjunct1], assumption)
  then obtain d0 w0 where t: "ds_ok d0" "next_row_turn env d0 w0 = (Some r, d', w')" by (elim exE conjE)
  from next_row_turn_ok [OF t(2,1)] show ?thesis by simp
qed

section \<open>The calls on a result set\<close>

text \<open>
  The calls a caller can make on a result set, each after the last one returned: \<open>ds_calls\<close> relates
  a result set and world to those after any number of \<^verbatim>\<open>next_row\<close> and \<^verbatim>\<open>close\<close>.
\<close>

inductive ds_calls :: "'w env \<Rightarrow> data_set \<times> 'w \<Rightarrow> data_set \<times> 'w \<Rightarrow> bool" for env where
  none: "ds_calls env x x"
| row: "ds_calls env x (d, w) \<Longrightarrow> next_row env d w = Some (r, d', w') \<Longrightarrow> ds_calls env x (d', w')"
| close: "ds_calls env x (d, w) \<Longrightarrow> ds_close env d w = (d', w') \<Longrightarrow> ds_calls env x (d', w')"

lemma ds_calls_ok: "ds_calls env x y \<Longrightarrow> ds_ok (fst x) \<Longrightarrow> ds_ok (fst y)"
proof (induction rule: ds_calls.induct)
  case (row x d w r d' w')
  then show ?case using next_row_ok [OF row.hyps(2)] by simp
next
  case (close x d w d' w')
  then show ?case using ds_close_ok [OF close.hyps(2)] by simp
qed

section \<open>One connection, one close\<close>

definition close_req :: "session \<Rightarrow> i64 \<Rightarrow> ts_close_operation_req" where
  "close_req s qid =
     \<lparr>coq_session_id = ss_session_id s, coq_query_id = Some qid,
      coq_statement_id = Some (ss_statement_id s), coq_prepared_statement_name = None\<rparr>"

definition fetch_req :: "data_set \<Rightarrow> ts_fetch_results_req" where
  "fetch_req d =
     \<lparr>frq_session_id = ss_session_id (ds_session d), frq_statement = ds_statement d,
      frq_fetch_size = sc_fetch_size (ss_config (ds_session d)), frq_query_id = ds_query_id d,
      frq_is_align = True, frq_timeout = Some (sc_query_timeout_ms (ss_config (ds_session d))),
      frq_statement_id = Some (ss_statement_id (ds_session d))\<rparr>"

definition same_query :: "data_set \<Rightarrow> data_set \<Rightarrow> bool" where
  "same_query d d' \<longleftrightarrow>
     ds_session d' = ds_session d \<and> ds_query_id d' = ds_query_id d \<and> ds_statement d' = ds_statement d"

text \<open>\<open>n\<close> page requests of \<open>d\<close> on its connection, then its close if it has been closed.\<close>

definition ds_trace :: "data_set \<Rightarrow> connection \<Rightarrow> nat \<Rightarrow> bool \<Rightarrow> event list" where
  "ds_trace d c n closed =
     replicate n (EvFetch c (fetch_req d)) @
     (if closed then [EvCloseOperation c (close_req (ds_session d) (ds_query_id d))] else [])"

definition pinned :: "data_set \<Rightarrow> connection \<Rightarrow> event list \<Rightarrow> data_set \<Rightarrow> event list \<Rightarrow> bool" where
  "pinned d0 c l0 d l \<longleftrightarrow> same_query d0 d \<and> (\<exists>n. l = l0 @ ds_trace d0 c n (ds_closed d))"

lemma fetch_results_pinned:
  assumes "fetch_results (logged env) (ds_query_id d) (ds_statement d) (ds_session d) (w, l) = (r, s, w', l')"
    and "ss_connection (ds_session d) = Some c"
  shows "s = ds_session d \<and> l' = l @ [EvFetch c (fetch_req d)]"
  using assms
  by (auto simp: fetch_results_def bindo_def rpc_def pureo_def Let_def logged_def noting_def split_beta fetch_req_def
      split: option.splits sum.splits if_splits)

lemma fetch_req_same: "same_query d d' \<Longrightarrow> fetch_req d' = fetch_req d"
  by (simp add: same_query_def fetch_req_def)

lemma pinned_fetch:
  assumes "pinned d0 c l0 d l" "\<not> ds_closed d" "ss_connection (ds_session d0) = Some c"
    and "fetch_results (logged env) (ds_query_id d) (ds_statement d) (ds_session d) (w, l) = (r, s, w', l')"
    and "same_query d d'" "\<not> ds_closed d'"
  shows "s = ds_session d \<and> pinned d0 c l0 d' l'"
proof -
  obtain n where n: "same_query d0 d" "l = l0 @ replicate n (EvFetch c (fetch_req d0))"
    using assms(1,2) by (auto simp: pinned_def ds_trace_def)
  then have "ss_connection (ds_session d) = Some c" using assms(3) by (simp add: same_query_def)
  from fetch_results_pinned [OF assms(4) this] n fetch_req_same [OF n(1)]
  have "s = ds_session d" "l' = l0 @ replicate (Suc n) (EvFetch c (fetch_req d0))"
    by (simp_all add: replicate_append_same)
  then show ?thesis using n(1) assms(5,6) unfolding pinned_def ds_trace_def
    by (auto simp: same_query_def simp del: replicate_Suc)
qed

lemma pinned_close:
  assumes "pinned d0 c l0 d l" "ss_connection (ds_session d0) = Some c"
    and "ds_close (logged env) d (w, l) = (d', w', l')"
  shows "pinned d0 c l0 d' l'"
proof (cases "ds_closed d")
  case True
  with assms show ?thesis by (simp add: ds_close_def)
next
  case False
  obtain s1 w1 l1 where q: "close_query (logged env) (ds_query_id d) (ds_session d) (w, l) = (s1, w1, l1)"
    by (rule prod_cases3)
  have c: "ss_connection (ds_session d) = Some c" using assms(1,2) by (simp add: pinned_def same_query_def)
  have "s1 = ds_session d" "l1 = l @ [EvCloseOperation c (close_req (ds_session d) (ds_query_id d))]"
    using close_query_logged [OF q] c by (simp_all add: close_req_def)
  with assms q False show ?thesis
    by (auto simp: pinned_def ds_close_def ds_trace_def same_query_def)
qed

lemma pinned_same: "pinned d0 c l0 d l \<Longrightarrow> same_query d d' \<Longrightarrow> ds_closed d' = ds_closed d \<Longrightarrow> pinned d0 c l0 d' l"
  by (auto simp: pinned_def same_query_def)

lemma pinned_turn:
  assumes "next_row_turn (logged env) d (w, l) = (r, d', w', l')" "pinned d0 c l0 d l" "\<not> ds_closed d"
    and "ss_connection (ds_session d0) = Some c"
  shows "pinned d0 c l0 d' l' \<and> (r = None \<longrightarrow> \<not> ds_closed d')"
  using assms(1)
proof (cases rule: next_row_turn_cases)
  case (page s blocks more_data)
  from pinned_fetch [OF assms(2,3,4) page(5), of d] assms(3) page(6)
  show ?thesis by (auto simp: same_query_def elim!: pinned_same)
next
  case (bad_fetch e s)
  from pinned_fetch [OF assms(2,3,4) bad_fetch(2), of d] assms(3) bad_fetch
  show ?thesis by (auto simp: same_query_def elim!: pinned_same)
next
  case (last_page s w1 d1)
  obtain w2 l2 where w1: "w1 = (w2, l2)" by (cases w1)
  from pinned_fetch [OF assms(2,3,4) last_page(2) [unfolded w1], of d] assms(3)
  have "pinned d0 c l0 d1 l2" unfolding last_page(3) by (auto simp: same_query_def elim!: pinned_same)
  from pinned_close [OF this assms(4) last_page(4) [unfolded w1]] last_page(1) show ?thesis by simp
next
  case (exhausted d1)
  have "pinned d0 c l0 d1 l" using assms(2) exhausted(2) by (auto simp: same_query_def elim!: pinned_same)
  from pinned_close [OF this assms(4) exhausted(3)] exhausted(1) show ?thesis by simp
qed (use assms(2,3) in \<open>auto simp: same_query_def elim!: pinned_same\<close>)

lemma pinned_next_row:
  assumes "next_row (logged env) d (w, l) = Some (r, d', w', l')" "pinned d0 c l0 d l"
    and "ss_connection (ds_session d0) = Some c"
  shows "pinned d0 c l0 d' l'"
proof (cases "ds_closed d")
  case True
  with assms show ?thesis by (auto simp: next_row_def)
next
  case False
  let ?P = "\<lambda>d x. pinned d0 c l0 d (snd x) \<and> \<not> ds_closed d"
  have loop: "next_row_loop (logged env) d (w, l) = Some (r, d', w', l')"
    using assms(1) False by (simp add: next_row_def)
  have step: "?P d2 y" if "next_row_turn (logged env) d1 x = (None, d2, y)" "?P d1 x" for d1 x d2 y
    using that pinned_turn [where w = "fst x" and l = "snd x" and w' = "fst y" and l' = "snd y", OF _ _ _ assms(3)]
    by fastforce
  have "?P d (w, l)" using assms(2) False by simp
  from next_row_loop_inv [where P = ?P, OF loop this] step
  have "\<exists>d1 x. ?P d1 x \<and> next_row_turn (logged env) d1 x = (Some r, d', w', l')" by simp
  then obtain d1 w1 l1 where "?P d1 (w1, l1)" "next_row_turn (logged env) d1 (w1, l1) = (Some r, d', w', l')"
    by auto
  with pinned_turn [OF this(2) _ _ assms(3)] show ?thesis by simp
qed

lemma pinned_calls:
  assumes "ds_calls (logged env) x y" "ss_connection (ds_session d0) = Some c" "pinned d0 c l0 (fst x) (snd (snd x))"
  shows "pinned d0 c l0 (fst y) (snd (snd y))"
  using assms(1,3)
proof (induction rule: ds_calls.induct)
  case (row x d w r d' w')
  then show ?case
    using pinned_next_row [where w = "fst w" and l = "snd w" and w' = "fst w'" and l' = "snd w'", OF _ _ assms(2)]
    by simp
next
  case (close x d w d' w')
  then show ?case
    using pinned_close [where w = "fst w" and l = "snd w" and w' = "fst w'" and l' = "snd w'", OF _ assms(2)]
    by simp
qed

section \<open>Termination\<close>

text \<open>\<open>m\<close> bounds the pages the server still has: every page that promises more lowers it.\<close>

definition finite_pages :: "'w env \<Rightarrow> ('w \<Rightarrow> nat) \<Rightarrow> bool" where
  "finite_pages env m \<longleftrightarrow>
     (\<forall>c q w resp w'. e_fetch_results env c q w = (Inr resp, w') \<longrightarrow> frr_more_data resp = Some True \<longrightarrow> m w' < m w)"

lemma lift_thrift_eq_Inr [simp]: "lift_thrift r = Inr x \<longleftrightarrow> r = Inr x"
  by (cases r) simp_all

lemma fetch_results_lowers:
  assumes "fetch_results env qid sql s w = (Inr (blocks, True), s', w')" "finite_pages env m"
  shows "m w' < m w"
proof -
  obtain c req resp where "e_fetch_results env c req w = (Inr resp, w')" "frr_more_data resp = Some True"
    using assms(1)
    by (auto simp: fetch_results_def Let_def bindo_def rpc_def pureo_def or_default_def
        split: option.splits sum.splits prod.splits if_splits)
  with assms(2) show ?thesis unfolding finite_pages_def by blast
qed

text \<open>The pages still to come, then the blocks at hand: every turn that goes round lowers the pair.\<close>

definition turns_left :: "('w \<Rightarrow> nat) \<Rightarrow> data_set \<times> 'w \<Rightarrow> nat \<times> nat" where
  "turns_left m x = (if ds_more_data (fst x) then Suc (m (snd x)) else 0, length (ds_pending_blocks (fst x)))"

lemma turn_lowers:
  assumes "next_row_turn env d w = (None, d', w')" "finite_pages env m"
  shows "(turns_left m (d', w'), turns_left m (d, w)) \<in> less_than <*lex*> less_than"
  using assms(1)
proof (cases rule: next_row_turn_cases)
  case (page s blocks more_data)
  then show ?thesis
    using fetch_results_lowers [OF _ assms(2), of "ds_query_id d" "ds_statement d" "ds_session d" w blocks s w']
    by (cases more_data) (auto simp: turns_left_def)
qed (auto simp: turns_left_def)

lemma next_row_loop_returns:
  assumes "finite_pages env m"
  shows "\<exists>y. next_row_loop env d w = Some y"
proof (induction "turns_left m (d, w)" arbitrary: d w
    rule: wf_induct_rule [OF wf_lex_prod [OF wf_less_than wf_less_than]])
  case less: 1
  obtain r d' w' where t: "next_row_turn env d w = (r, d', w')" by (rule prod_cases3)
  show ?case
  proof (cases r)
    case None
    with less [OF turn_lowers [OF t [unfolded None] assms]] t show ?thesis
      by (subst next_row_loop.simps) simp
  next
    case (Some y)
    with t show ?thesis by (subst next_row_loop.simps) simp
  qed
qed

section \<open>The rows of a query\<close>

text \<open>Every output column of \<open>d\<close> names the time column or a column of the block.\<close>

definition columns_ok :: "data_set \<Rightarrow> tsblock \<Rightarrow> bool" where
  "columns_ok d b \<longleftrightarrow>
     (\<forall>k < length (ds_columns d). case physical_column d k of
        Inl _ \<Rightarrow> False
      | Inr p \<Rightarrow> p = -1 \<or> 0 \<le> sint p \<and> sint p < int (length (bk_columns b)))"

text \<open>The rows a block stands for.\<close>

definition spec_cell :: "data_set \<Rightarrow> tsblock \<Rightarrow> nat \<Rightarrow> nat \<Rightarrow> ts_value" where
  "spec_cell d b i k =
     (let p = projr (physical_column d k) in
      if p = -1 then VTimestamp (bk_timestamps b ! i)
      else apply_logical_type (bk_columns b ! nat (sint p) ! i) (get_opt (ds_data_type_list d) k))"

definition spec_row :: "data_set \<Rightarrow> tsblock \<Rightarrow> nat \<Rightarrow> row" where
  "spec_row d b i =
     \<lparr>rw_timestamp = (if ds_ignore_time_stamp d then None else Some (bk_timestamps b ! i)),
      rw_values = map (spec_cell d b i) [0..<length (ds_columns d)]\<rparr>"

definition block_rows :: "data_set \<Rightarrow> tsblock \<Rightarrow> row list" where
  "block_rows d b = map (spec_row d b) [0..<bk_position_count b]"

lemma output_cell_spec:
  assumes "wf_tsblock b" "i < bk_position_count b" "columns_ok d b" "k < length (ds_columns d)"
  shows "output_cell d b i k = Returns (Inr (spec_cell d b i k))"
proof -
  obtain p where p: "physical_column d k = Inr p" "p = -1 \<or> 0 \<le> sint p \<and> sint p < int (length (bk_columns b))"
    using assms(3,4) unfolding columns_ok_def by (cases "physical_column d k") force+
  have "i < length (bk_timestamps b)" using assms(1,2) by (simp add: wf_tsblock_def)
  moreover have "i < length (bk_columns b ! nat (sint p))" if "p \<noteq> -1"
    using that p(2) assms(1,2) wf_tsblock_column [OF assms(1), of "nat (sint p)"] by auto
  ultimately show ?thesis
    using p by (auto simp: output_cell_def spec_cell_def get_opt_def nat_less_iff)
qed

lemma output_cells_spec:
  assumes "wf_tsblock b" "i < bk_position_count b" "columns_ok d b" "\<forall>k \<in> set ks. k < length (ds_columns d)"
  shows "output_cells d b i ks = Returns (Inr (map (spec_cell d b i) ks))"
  using assms(4) by (induction ks) (simp_all add: output_cell_spec [OF assms(1-3)])

lemma assemble_row_spec:
  assumes "ds_current d = Some b" "wf_tsblock b" "ds_row_index d < bk_position_count b" "columns_ok d b"
  shows "assemble_row d = Returns (Inr (spec_row d b (ds_row_index d)))"
  using assms(2,3)
  by (simp add: assemble_row_def spec_row_def assms(1) output_cells_spec [OF assms(2-4)] wf_tsblock_def)

text \<open>
  \<open>drains env (d, w) rows y\<close>: calling \<^verbatim>\<open>next_row\<close> until it reports the end returns every time, yields
  \<open>rows\<close> in this order and leaves the result set and world \<open>y\<close>.
\<close>

inductive drains :: "'w env \<Rightarrow> data_set \<times> 'w \<Rightarrow> row list \<Rightarrow> data_set \<times> 'w \<Rightarrow> bool" for env where
  finished: "next_row env d w = Some (Returns (Inr None), y) \<Longrightarrow> drains env (d, w) [] y"
| yields: "next_row env d w = Some (Returns (Inr (Some rw)), x) \<Longrightarrow> drains env x rows y \<Longrightarrow>
    drains env (d, w) (rw # rows) y"

inductive_cases drains_cases: "drains env (d, w) rows y"

lemma drains_cong:
  assumes "drains env (d', w') rows y" "next_row env d w = next_row env d' w'"
  shows "drains env (d, w) rows y"
  using assms(1) by (rule drains_cases) (auto simp: assms(2) intro: drains.intros)

text \<open>What the rows of \<open>d\<close> depend on, and what stays through the loop while pages last.\<close>

definition same_shape :: "data_set \<Rightarrow> data_set \<Rightarrow> bool" where
  "same_shape d d' \<longleftrightarrow> same_query d d' \<and> ds_columns d' = ds_columns d \<and>
     ds_data_type_list d' = ds_data_type_list d \<and> ds_ignore_time_stamp d' = ds_ignore_time_stamp d \<and>
     ds_column_index_map d' = ds_column_index_map d \<and> ds_closed d' = ds_closed d"

lemma physical_column_same: "same_shape d d' \<Longrightarrow> physical_column d' k = physical_column d k"
  by (simp add: physical_column_def same_shape_def)

lemma columns_ok_same: "same_shape d d' \<Longrightarrow> columns_ok d' b = columns_ok d b"
  by (simp add: columns_ok_def physical_column_same) (simp add: same_shape_def)

lemma block_rows_same: "same_shape d d' \<Longrightarrow> block_rows d' b = block_rows d b"
  by (simp add: block_rows_def spec_row_def [abs_def] spec_cell_def [abs_def] physical_column_same)
    (auto simp: same_shape_def Let_def)

lemma same_shape_refl [simp]: "same_shape d d"
  by (simp add: same_shape_def same_query_def)

lemma same_shape_trans: "same_shape d d1 \<Longrightarrow> same_shape d1 d2 \<Longrightarrow> same_shape d d2"
  by (simp add: same_shape_def same_query_def)

lemma next_row_continue:
  assumes "\<not> ds_closed d" "\<not> ds_closed d'" "next_row_turn env d w = (None, d', w')"
  shows "next_row env d w = next_row env d' w'"
  unfolding next_row_def using assms by (subst next_row_loop.simps) simp

lemma next_row_return:
  assumes "\<not> ds_closed d" "next_row_turn env d w = (Some r, d', w')"
  shows "next_row env d w = Some (r, d', w')"
  unfolding next_row_def using assms by (subst next_row_loop.simps) simp

text \<open>The unread rows of the current block come first.\<close>

lemma drains_block:
  assumes "drains env (d\<lparr>ds_row_index := bk_position_count b\<rparr>, w) rows y"
    and "\<not> ds_closed d" "ds_current d = Some b" "wf_tsblock b" "columns_ok d b" "ds_row_index d \<le> bk_position_count b"
  shows "drains env (d, w) (map (spec_row d b) [ds_row_index d..<bk_position_count b] @ rows) y"
  using assms
proof (induction "bk_position_count b - ds_row_index d" arbitrary: d)
  case 0
  then have "d\<lparr>ds_row_index := bk_position_count b\<rparr> = d" by simp
  with 0 show ?case by simp
next
  case (Suc n)
  let ?d = "d\<lparr>ds_row_index := ds_row_index d + 1\<rparr>"
  have lt: "ds_row_index d < bk_position_count b" using Suc.hyps(2) by simp
  have shape: "same_shape d ?d" by (simp add: same_shape_def same_query_def)
  have "next_row_turn env d w = (Some (Returns (Inr (Some (spec_row d b (ds_row_index d))))), ?d, w)"
    using Suc.prems lt by (simp add: next_row_turn_def unread_def assemble_row_spec)
  note row = next_row_return [OF Suc.prems(2) this]
  have "drains env (?d, w) (map (spec_row ?d b) [ds_row_index ?d..<bk_position_count b] @ rows) y"
    using Suc.hyps Suc.prems lt columns_ok_same [OF shape] by (intro Suc.hyps(1)) auto
  moreover have "spec_row ?d b = spec_row d b"
    by (simp add: spec_row_def spec_cell_def physical_column_def fun_eq_iff Let_def)
  ultimately show ?case using drains.yields [OF row] lt by (simp add: upt_conv_Cons)
qed

text \<open>Then those of the cached blocks.\<close>

definition block_ok :: "data_set \<Rightarrow> bytes \<Rightarrow> tsblock \<Rightarrow> bool" where
  "block_ok d bytes b \<longleftrightarrow> decode bytes = Inr b \<and> columns_ok d b"

lemma drains_pending:
  assumes rest: "\<And>d'. same_shape d d' \<Longrightarrow> ds_pending_blocks d' = [] \<Longrightarrow> \<not> unread d' \<Longrightarrow>
      ds_more_data d' = ds_more_data d \<Longrightarrow> \<exists>y. drains env (d', w) rows y \<and> P y"
    and "list_all2 (block_ok d) (ds_pending_blocks d) bs" "\<not> ds_closed d" "\<not> unread d"
  shows "\<exists>y. drains env (d, w) (concat (map (block_rows d) bs) @ rows) y \<and> P y"
  using assms
proof (induction "ds_pending_blocks d" arbitrary: d bs)
  case Nil
  then show ?case by simp
next
  case (Cons bytes rest)
  obtain b bs' where bs: "bs = b # bs'" "block_ok d bytes b" "list_all2 (block_ok d) rest bs'"
    using Cons.prems(2) unfolding Cons.hyps(2) [symmetric] by (auto simp: list_all2_Cons1)
  let ?d1 = "d\<lparr>ds_pending_blocks := rest, ds_current := Some b, ds_row_index := 0\<rparr>"
  let ?d2 = "?d1\<lparr>ds_row_index := bk_position_count b\<rparr>"
  have shape: "same_shape d ?d1" "same_shape d ?d2" by (simp_all add: same_shape_def same_query_def)
  have b: "wf_tsblock b" "columns_ok d b" "decode bytes = Inr b" using bs(2) by (auto simp: block_ok_def dest: decode_wf)
  have "next_row_turn env d w = (None, ?d1, w)"
    using Cons.hyps(2) [symmetric] Cons.prems(4) b(3) by (simp add: next_row_turn_def)
  then have eq: "next_row env d w = next_row env ?d1 w"
    using Cons.prems(3) by (intro next_row_continue) simp_all
  have "\<exists>y. drains env (?d2, w) (concat (map (block_rows ?d2) bs') @ rows) y \<and> P y"
  proof (rule Cons.hyps(1))
    show "\<exists>y. drains env (d', w) rows y \<and> P y" if "same_shape ?d2 d'" "ds_pending_blocks d' = []" "\<not> unread d'"
      "ds_more_data d' = ds_more_data ?d2" for d'
      using Cons.prems(1) [of d'] that same_shape_trans [OF shape(2) that(1)] by simp
    have "block_ok ?d2 = block_ok d" using columns_ok_same [OF shape(2)] by (auto simp: block_ok_def fun_eq_iff)
    then show "list_all2 (block_ok ?d2) (ds_pending_blocks ?d2) bs'" using bs(3) by simp
  qed (use Cons.prems(3) in \<open>simp_all add: unread_def\<close>)
  then obtain y where y: "drains env (?d2, w) (concat (map (block_rows d) bs') @ rows) y" "P y"
    using block_rows_same [OF shape(2)] by (auto cong: map_cong)
  have "drains env (?d1, w) (block_rows ?d1 b @ concat (map (block_rows d) bs') @ rows) y"
    using drains_block [where d = ?d1 and b = b and w = w, OF _ _ _ b(1)] y(1) Cons.prems(3) columns_ok_same [OF shape(1)] b(2)
    by (simp add: block_rows_def)
  then have "drains env (d, w) (concat (map (block_rows d) bs) @ rows) y"
    using drains_cong [OF _ eq] block_rows_same [OF shape(1), of b] by (simp add: bs(1))
  with y(2) show ?case by blast
qed

text \<open>
  The server's side: the page requests \<open>q\<close> on \<open>c\<close> are answered with these pages in turn, the last
  one marked as such.
\<close>

fun serves :: "'w env \<Rightarrow> connection \<Rightarrow> ts_fetch_results_req \<Rightarrow> bytes list list \<Rightarrow> 'w \<Rightarrow> bool" where
  "serves env c q [] w = True"
| "serves env c q (p # ps) w =
     (case e_fetch_results env c q w of
        (Inl _, _) \<Rightarrow> False
      | (Inr resp, w') \<Rightarrow>
          status_ok (frr_status resp) \<and> frr_has_result_set resp \<and> or_default [] (frr_query_result resp) = p \<and>
          or_default False (frr_more_data resp) = (ps \<noteq> []) \<and> serves env c q ps w')"

lemma serves_fetch:
  assumes "serves env c (fetch_req d) (p # ps) w" "ss_connection (ds_session d) = Some c"
  obtains w' where "serves env c (fetch_req d) ps w'"
    "fetch_results (logged env) (ds_query_id d) (ds_statement d) (ds_session d) (w, l) =
       (Inr (p, ps \<noteq> []), ds_session d, w', l @ [EvFetch c (fetch_req d)])"
proof -
  obtain resp w' where r: "e_fetch_results env c (fetch_req d) w = (Inr resp, w')" "status_ok (frr_status resp)"
    "frr_has_result_set resp" "or_default [] (frr_query_result resp) = p"
    "or_default False (frr_more_data resp) = (ps \<noteq> [])" "serves env c (fetch_req d) ps w'"
    using assms(1) by (auto split: prod.splits sum.splits)
  with assms(2) show thesis
    by (intro that [of w'])
      (simp_all add: fetch_results_def bindo_def rpc_def pureo_def logged_def noting_def check_status_eq fetch_req_def Let_def)
qed

lemma ds_close_logged:
  assumes "\<not> ds_closed d" "ss_connection (ds_session d) = Some c"
  shows "\<exists>d' w'. ds_close (logged env) d (w, l) =
    (d', w', l @ [EvCloseOperation c (close_req (ds_session d) (ds_query_id d))]) \<and> ds_closed d'"
  using assms by (simp add: ds_close_def close_query_def logged_def noting_def split_beta Let_def close_req_def)

lemma drains_pages:
  assumes "\<not> ds_closed d" "\<not> unread d" "ss_connection (ds_session d) = Some c"
    and "ds_more_data d = (pages \<noteq> [])" "serves env c (fetch_req d) pages w"
    and "list_all2 (block_ok d) (ds_pending_blocks d @ concat pages) bs"
  shows "\<exists>y. drains (logged env) (d, w, l) (concat (map (block_rows d) bs)) y \<and>
    ds_closed (fst y) \<and> snd (snd y) = l @ ds_trace d c (length pages) True"
  using assms
proof (induction pages arbitrary: d w l bs)
  case Nil
  have "\<exists>y. drains (logged env) (d, w, l) (concat (map (block_rows d) bs) @ []) y \<and>
      (ds_closed (fst y) \<and> snd (snd y) = l @ ds_trace d c 0 True)"
  proof (rule drains_pending)
    fix d'
    assume d': "same_shape d d'" "ds_pending_blocks d' = []" "\<not> unread d'" "ds_more_data d' = ds_more_data d"
    let ?d = "d'\<lparr>ds_current := None\<rparr>"
    have q: "\<not> ds_closed ?d" "ss_connection (ds_session ?d) = Some c" "ds_session ?d = ds_session d"
      "ds_query_id ?d = ds_query_id d"
      using d'(1) Nil.prems by (simp_all add: same_shape_def same_query_def)
    obtain d2 w2 where c: "ds_close (logged env) ?d (w, l) =
        (d2, w2, l @ [EvCloseOperation c (close_req (ds_session d) (ds_query_id d))])" "ds_closed d2"
      using ds_close_logged [OF q(1,2), of env w l] unfolding q(3,4) by (elim exE conjE)
    have "next_row_turn (logged env) d' (w, l) = (Some (Returns (Inr None)), d2,
        w2, l @ [EvCloseOperation c (close_req (ds_session d) (ds_query_id d))])"
      using d' Nil.prems(4) c(1) by (simp add: next_row_turn_def)
    then have "drains (logged env) (d', w, l) [] (d2, w2,
        l @ [EvCloseOperation c (close_req (ds_session d) (ds_query_id d))])"
      using q(1) by (intro drains.finished next_row_return) simp_all
    with c(2) show "\<exists>y. drains (logged env) (d', w, l) [] y \<and>
        ds_closed (fst y) \<and> snd (snd y) = l @ ds_trace d c 0 True"
      unfolding ds_trace_def by (intro exI [of _ "(d2, w2,
        l @ [EvCloseOperation c (close_req (ds_session d) (ds_query_id d))])"]) simp
  qed (use Nil.prems in simp_all)
  then show ?case by simp
next
  case (Cons p ps)
  obtain bs1 bs2 where bs: "bs = bs1 @ bs2" "list_all2 (block_ok d) (ds_pending_blocks d) bs1"
    "list_all2 (block_ok d) (p @ concat ps) bs2"
    using Cons.prems(6) by (auto simp: list_all2_append1)
  have "\<exists>y. drains (logged env) (d, w, l) (concat (map (block_rows d) bs1) @ concat (map (block_rows d) bs2)) y \<and>
      (ds_closed (fst y) \<and> snd (snd y) = l @ ds_trace d c (length (p # ps)) True)"
  proof (rule drains_pending)
    fix d'
    assume d': "same_shape d d'" "ds_pending_blocks d' = []" "\<not> unread d'" "ds_more_data d' = ds_more_data d"
    have q: "fetch_req d' = fetch_req d" "ss_connection (ds_session d') = Some c" "\<not> ds_closed d'"
      using d'(1) Cons.prems(1,3) fetch_req_same by (simp_all add: same_shape_def same_query_def fetch_req_def)
    obtain w' where w': "serves env c (fetch_req d) ps w'"
      "fetch_results (logged env) (ds_query_id d') (ds_statement d') (ds_session d') (w, l) =
         (Inr (p, ps \<noteq> []), ds_session d', w', l @ [EvFetch c (fetch_req d)])"
      using serves_fetch [of env c d' p ps w l] Cons.prems(5) q by auto
    let ?d1 = "d'\<lparr>ds_current := None, ds_pending_blocks := p, ds_more_data := ps \<noteq> []\<rparr>"
    have shape: "same_shape d ?d1" using d'(1) by (simp add: same_shape_def same_query_def)
    show "\<exists>y. drains (logged env) (d', w, l) (concat (map (block_rows d) bs2)) y \<and>
        ds_closed (fst y) \<and> snd (snd y) = l @ ds_trace d c (length (p # ps)) True"
    proof (cases "p = [] \<and> ps = []")
      case True
      obtain d2 w2 where c: "ds_close (logged env) ?d1 (w', l @ [EvFetch c (fetch_req d)]) =
          (d2, w2, (l @ [EvFetch c (fetch_req d)]) @ [EvCloseOperation c (close_req (ds_session d) (ds_query_id d))])"
        "ds_closed d2"
        using ds_close_logged [of ?d1 c env w' "l @ [EvFetch c (fetch_req d)]"] q d'(1)
        by (auto simp: same_shape_def same_query_def)
      have "next_row_turn (logged env) d' (w, l) = (Some (Returns (Inr None)), d2, w2,
          (l @ [EvFetch c (fetch_req d)]) @ [EvCloseOperation c (close_req (ds_session d) (ds_query_id d))])"
        using d' Cons.prems(4) c(1) w'(2) True by (simp add: next_row_turn_def)
      from drains.finished [OF next_row_return [OF q(3) this]] True bs(3) c(2) show ?thesis
        unfolding ds_trace_def by (intro exI [of _ "(d2, w2, (l @ [EvFetch c (fetch_req d)]) @
          [EvCloseOperation c (close_req (ds_session d) (ds_query_id d))])"]) simp
    next
      case False
      have "next_row_turn (logged env) d' (w, l) = (None, ?d1, w', l @ [EvFetch c (fetch_req d)])"
        using d' Cons.prems(4) w'(2) False by (simp add: next_row_turn_def)
      then have eq: "next_row (logged env) d' (w, l) = next_row (logged env) ?d1 (w', l @ [EvFetch c (fetch_req d)])"
        using q(3) by (intro next_row_continue) simp_all
      have ok: "block_ok ?d1 = block_ok d" using columns_ok_same [OF shape] by (auto simp: block_ok_def fun_eq_iff)
      obtain y where y: "drains (logged env) (?d1, w', l @ [EvFetch c (fetch_req d)]) (concat (map (block_rows ?d1) bs2)) y"
        "ds_closed (fst y)" "snd (snd y) = (l @ [EvFetch c (fetch_req d)]) @ ds_trace ?d1 c (length ps) True"
        using Cons.IH [of ?d1 w' bs2 "l @ [EvFetch c (fetch_req d)]"] w'(1) q bs(3) ok
        by (auto simp: unread_def fetch_req_def)
      have "ds_trace ?d1 c (length ps) True = ds_trace d c (length ps) True"
        using d'(1) q(1) by (simp add: ds_trace_def same_shape_def same_query_def fetch_req_def)
      with y(3) have trace: "snd (snd y) = l @ ds_trace d c (length (p # ps)) True" by (simp add: ds_trace_def)
      have "map (block_rows ?d1) bs2 = map (block_rows d) bs2" using block_rows_same [OF shape] by simp
      with drains_cong [OF y(1) eq]
      have "drains (logged env) (d', w, l) (concat (map (block_rows d) bs2)) y" by (simp only:)
      with y(2) trace show ?thesis by blast
    qed
  qed (use Cons.prems bs in simp_all)
  then show ?case by (simp add: bs(1))
qed

section \<open>Properties\<close>

text \<open>A server whose world is the list of pages it has left, and a query answered by two pages.\<close>

definition paged_env :: "bytes list list env" where
  "paged_env = quiet_env\<lparr>e_fetch_results := \<lambda>c q w.
     case w of
       [] \<Rightarrow> (Inl (TransportError ''no page''), [])
     | p # ps \<Rightarrow> (Inr \<lparr>frr_status = ok_status, frr_has_result_set = True, frr_is_align = True,
         frr_query_data_set = None, frr_non_align_query_data_set = None, frr_query_result = Some p,
         frr_more_data = Some (ps \<noteq> [])\<rparr>, ps)\<rparr>"

definition sample_block :: "u8 \<Rightarrow> u8 \<Rightarrow> bytes" where
  "sample_block t v = [0, 0, 0, 1, 1, 0, 0, 0, 1, 2, 1, 0, 0, 0, 0, 0, 0, 0, 0, t, 0, 0, 0, 0, v]"

definition sample_handle :: query_handle where
  "sample_handle = \<lparr>qh_query_id = 1, qh_statement = ''select s from root'', qh_columns = [''Time'', ''s''],
     qh_data_type_list = [''TIMESTAMP'', ''DATE''], qh_ignore_time_stamp = False,
     qh_query_result = [sample_block 5 7], qh_more_data = True, qh_column_index_map = Some [-1, 0]\<rparr>"

definition sample_set :: data_set where
  "sample_set = data_set_new sample_session sample_handle"

text \<open>
  C12: whatever the server sends and whatever was called before, \<^verbatim>\<open>next_row\<close> never indexes out of
  range: a result set that came from a query never panics.
\<close>

theorem next_row_never_panics:
  assumes "ds_calls env (data_set_new s h, w0) (d, w)" "next_row env d w = Some (r, d', w')"
  shows "r \<noteq> Panic"
proof -
  have "ds_ok (data_set_new s h)" by (simp add: ds_ok_def data_set_new_def)
  with ds_calls_ok [OF assms(1)] next_row_ok [OF assms(2)] show ?thesis by simp
qed

theorem next_row_never_panics_witness:
  "\<exists>r d' w'. next_row paged_env sample_set [] = Some (r, d', w') \<and> r \<noteq> Panic"
proof -
  have "finite_pages paged_env length"
    by (auto simp: finite_pages_def paged_env_def split: list.splits)
  from next_row_loop_returns [OF this] have "\<exists>y. next_row paged_env sample_set [] = Some y"
    by (simp add: next_row_def)
  then obtain r d' w' where run: "next_row paged_env sample_set [] = Some (r, d', w')" by auto
  then have "next_row paged_env (data_set_new sample_session sample_handle) [] = Some (r, d', w')"
    by (simp add: sample_set_def)
  from next_row_never_panics [OF ds_calls.none this] run show ?thesis by blast
qed

text \<open>
  C18: \<^verbatim>\<open>next_row\<close> returns. The only way it could fail to is a server that answers page requests for
  ever with pages that promise more; when the pages that do so are finite, every call comes back,
  whatever the pages hold.
\<close>

theorem next_row_terminates:
  assumes "finite_pages env m"
  shows "\<exists>r d' w'. next_row env d w = Some (r, d', w')"
  using next_row_loop_returns [OF assms] by (auto simp: next_row_def)

theorem next_row_terminates_witness:
  "\<exists>r d' w'. next_row paged_env sample_set [[], [], [sample_block 6 8]] = Some (r, d', w')"
proof -
  have "finite_pages paged_env length"
    by (auto simp: finite_pages_def paged_env_def split: list.splits)
  then show ?thesis by (rule next_row_terminates)
qed

text \<open>
  C6: draining a result set yields exactly the rows of its blocks, those of the response first and
  then page by page, each cell taken from the column its index map names and re-tagged with its
  logical type. It sends one page request per page and then a single \<^verbatim>\<open>closeOperation\<close>, and leaves the
  result set closed.
\<close>

theorem result_set_yields_all_rows:
  assumes "ss_connection s = Some c" "qh_more_data h = (pages \<noteq> [])"
    and "serves env c (fetch_req (data_set_new s h)) pages w"
    and "list_all2 (block_ok (data_set_new s h)) (qh_query_result h @ concat pages) bs"
  shows "\<exists>d' w'. drains (logged env) (data_set_new s h, w, l)
      (concat (map (block_rows (data_set_new s h)) bs))
      (d', w', l @ ds_trace (data_set_new s h) c (length pages) True) \<and> ds_closed d'"
proof -
  let ?d = "data_set_new s h"
  have "\<not> ds_closed ?d" "\<not> unread ?d" "ss_connection (ds_session ?d) = Some c" "ds_more_data ?d = (pages \<noteq> [])"
    "list_all2 (block_ok ?d) (ds_pending_blocks ?d @ concat pages) bs"
    using assms by (simp_all add: data_set_new_def unread_def)
  from drains_pages [OF this(1-4) assms(3) this(5), of l] show ?thesis by (metis prod.collapse)
qed

lemma sample_set_facts:
  "ss_connection sample_session = Some sample_connection"
  "serves paged_env sample_connection q [[sample_block 6 8]] [[sample_block 6 8]]"
  "list_all2 (block_ok sample_set) [sample_block 5 7, sample_block 6 8] (map2 (\<lambda>t v.
     \<lparr>bk_position_count = 1, bk_column_types = [TInt32], bk_timestamps = [t], bk_columns = [[VInt32 v]]\<rparr>) [5, 6] [7, 8])"
proof -
  show "ss_connection sample_session = Some sample_connection" by (simp add: sample_session_def install_def)
  show "serves paged_env sample_connection q [[sample_block 6 8]] [[sample_block 6 8]]"
    by (simp add: paged_env_def ok_status_def or_default_def status_codes)
  have "decode (sample_block 5 7) = Inr \<lparr>bk_position_count = 1, bk_column_types = [TInt32], bk_timestamps = [5],
      bk_columns = [[VInt32 7]]\<rparr>" "decode (sample_block 6 8) = Inr \<lparr>bk_position_count = 1,
      bk_column_types = [TInt32], bk_timestamps = [6], bk_columns = [[VInt32 8]]\<rparr>"
    by code_simp+
  then show "list_all2 (block_ok sample_set) [sample_block 5 7, sample_block 6 8] (map2 (\<lambda>t v.
     \<lparr>bk_position_count = 1, bk_column_types = [TInt32], bk_timestamps = [t], bk_columns = [[VInt32 v]]\<rparr>) [5, 6] [7, 8])"
    by (auto simp: block_ok_def columns_ok_def sample_set_def data_set_new_def sample_handle_def physical_column_def
        get_opt_def less_Suc_eq)
qed

theorem result_set_yields_all_rows_witness:
  "\<exists>d' w' l'. drains (logged paged_env) (sample_set, [[sample_block 6 8]], [])
     [\<lparr>rw_timestamp = Some 5, rw_values = [VTimestamp 5, VDate 7]\<rparr>,
      \<lparr>rw_timestamp = Some 6, rw_values = [VTimestamp 6, VDate 8]\<rparr>] (d', w', l') \<and> ds_closed d' \<and> length l' = 2"
proof -
  let ?bs = "map2 (\<lambda>t v. \<lparr>bk_position_count = 1, bk_column_types = [TInt32], bk_timestamps = [t],
    bk_columns = [[VInt32 v]]\<rparr>) [5, 6] [7, 8]"
  have "qh_more_data sample_handle = ([[sample_block 6 8]] \<noteq> [])"
    "qh_query_result sample_handle @ concat [[sample_block 6 8]] = [sample_block 5 7, sample_block 6 8]"
    by (simp_all add: sample_handle_def)
  from result_set_yields_all_rows [OF sample_set_facts(1) this(1) sample_set_facts(2), unfolded this(2),
      OF sample_set_facts(3) [unfolded sample_set_def], of "[]"]
  obtain d' w' where d: "drains (logged paged_env) (sample_set, [[sample_block 6 8]], [])
      (concat (map (block_rows sample_set) ?bs)) (d', w', [] @ ds_trace sample_set sample_connection 1 True)"
    "ds_closed d'"
    by (auto simp: sample_set_def)
  have "concat (map (block_rows sample_set) ?bs) =
      [\<lparr>rw_timestamp = Some 5, rw_values = [VTimestamp 5, VDate 7]\<rparr>,
       \<lparr>rw_timestamp = Some 6, rw_values = [VTimestamp 6, VDate 8]\<rparr>]"
    by (simp add: block_rows_def spec_row_def spec_cell_def sample_set_def data_set_new_def sample_handle_def
        physical_column_def get_opt_def apply_logical_type_def upt_rec)
  with d show ?thesis
    by (intro exI [of _ d'] exI [of _ w'] exI [of _ "ds_trace sample_set sample_connection 1 True"])
      (simp add: ds_trace_def)
qed

text \<open>
  C17: from creation to the end of its life, whatever is called on it and whatever fails, a result
  set makes its calls on the connection its query ran on, with that session's ids: some page
  requests, and exactly one \<^verbatim>\<open>closeOperation\<close>, the last of its calls.
\<close>

theorem result_set_pinned_and_closed_once:
  assumes "ss_connection s = Some c"
    and "ds_calls (logged env) (data_set_new s h, w0, l0) (d, w, l)" "ds_close (logged env) d (w, l) = (d', w', l')"
  shows "\<exists>n. l' = l0 @ ds_trace (data_set_new s h) c n True"
proof -
  let ?d = "data_set_new s h"
  have c: "ss_connection (ds_session ?d) = Some c" using assms(1) by (simp add: data_set_new_def)
  have "pinned ?d c l0 ?d l0"
    unfolding pinned_def by (auto simp: data_set_new_def same_query_def ds_trace_def intro: exI [of _ 0])
  with pinned_calls [OF assms(2) c, of l0] have "pinned ?d c l0 d l" by simp
  from pinned_close [OF this c assms(3)] have "\<exists>n. l' = l0 @ ds_trace ?d c n (ds_closed d')"
    by (simp add: pinned_def)
  moreover have "ds_closed d'" using assms(3) by (auto simp: ds_close_def Let_def split: if_splits prod.splits)
  ultimately show ?thesis by simp
qed

theorem result_set_pinned_and_closed_once_witness:
  "\<exists>l' n. snd (snd (ds_close (logged paged_env) sample_set ([], []))) = l' \<and>
     l' = [] @ ds_trace sample_set sample_connection n True"
proof -
  obtain d' w' l' where run: "ds_close (logged paged_env) sample_set ([], []) = (d', w', l')" by (rule prod_cases3)
  from result_set_pinned_and_closed_once [OF sample_set_facts(1) ds_calls.none run [unfolded sample_set_def]]
  have "\<exists>n. l' = [] @ ds_trace sample_set sample_connection n True" by (simp add: sample_set_def)
  with run show ?thesis by simp
qed

end
