(* ===== verification/TableSession.thy ===== *)
theory TableSession
  imports DataSet
begin

text \<open>
  The table-model session of \<^verbatim>\<open>src/client/table_session.rs\<close>: a builder over the session configuration
  that forces the table dialect, and a wrapper that accepts table-model tablets only.
\<close>

section \<open>The builder\<close>

record table_session_builder =
  tsb_config :: session_config

definition table_session_builder_default :: table_session_builder where
  "table_session_builder_default =
     \<lparr>tsb_config = session_config_default\<lparr>sc_sql_dialect := ''table''\<rparr>\<rparr>"

definition tsb_node_urls :: "string list \<Rightarrow> table_session_builder \<Rightarrow> table_session_builder result" where
  "tsb_node_urls urls b = bindr (with_node_urls (tsb_config b) urls) (\<lambda>config. Inr (b\<lparr>tsb_config := config\<rparr>))"

text \<open>The setters that cannot fail: each replaces one field of the configuration.\<close>

datatype builder_call =
    SetEndpoints "endpoint list"
  | SetUsername string
  | SetPassword string
  | SetDatabase string
  | SetFetchSize i32
  | SetZoneId string
  | SetConnectTimeout nat
  | SetQueryTimeoutMs i64
  | SetEnableRpcCompression bool
  | SetUseSsl bool
  | SetCaCertPath string
  | SetAcceptInvalidCerts bool
  | SetDomainOverride string
  | SetClientCertPath string
  | SetClientKeyPath string

fun builder_set :: "builder_call \<Rightarrow> session_config \<Rightarrow> session_config" where
  "builder_set (SetEndpoints eps) c = c\<lparr>sc_endpoints := eps\<rparr>"
| "builder_set (SetUsername u) c = c\<lparr>sc_username := u\<rparr>"
| "builder_set (SetPassword p) c = c\<lparr>sc_password := p\<rparr>"
| "builder_set (SetDatabase db) c = c\<lparr>sc_database := Some db\<rparr>"
| "builder_set (SetFetchSize n) c = c\<lparr>sc_fetch_size := n\<rparr>"
| "builder_set (SetZoneId z) c = c\<lparr>sc_zone_id := z\<rparr>"
| "builder_set (SetConnectTimeout t) c = c\<lparr>sc_connect_timeout := t\<rparr>"
| "builder_set (SetQueryTimeoutMs t) c = c\<lparr>sc_query_timeout_ms := t\<rparr>"
| "builder_set (SetEnableRpcCompression b) c = c\<lparr>sc_enable_rpc_compression := b\<rparr>"
| "builder_set (SetUseSsl b) c = c\<lparr>sc_use_ssl := b\<rparr>"
| "builder_set (SetCaCertPath p) c = c\<lparr>sc_ca_cert_path := Some p\<rparr>"
| "builder_set (SetAcceptInvalidCerts b) c = c\<lparr>sc_accept_invalid_certs := b\<rparr>"
| "builder_set (SetDomainOverride d) c = c\<lparr>sc_domain_override := Some d\<rparr>"
| "builder_set (SetClientCertPath p) c = c\<lparr>sc_client_cert_path := Some p\<rparr>"
| "builder_set (SetClientKeyPath p) c = c\<lparr>sc_client_key_path := Some p\<rparr>"

definition tsb_set :: "builder_call \<Rightarrow> table_session_builder \<Rightarrow> table_session_builder" where
  "tsb_set call b = b\<lparr>tsb_config := builder_set call (tsb_config b)\<rparr>"

section \<open>The session\<close>

record table_session =
  ts_session :: session

text \<open>The configuration a build opens with: the dialect is set again, whatever was done to it.\<close>

fun build_config :: "table_session_builder \<Rightarrow> session_config" where
  "build_config b = (tsb_config b)\<lparr>sc_sql_dialect := ''table''\<rparr>"

text \<open>A failed \<^verbatim>\<open>open\<close> drops the new session, which closes it.\<close>

definition tsb_build ::
    "'w env \<Rightarrow> 64 word \<Rightarrow> table_session_builder \<Rightarrow> 'w \<Rightarrow> table_session result \<times> 64 word \<times> 'w" where
  "tsb_build env index b w =
     (case session_open env index (session_new (build_config b)) w of
        (Inl e, index, s, w) \<Rightarrow> (Inl e, index, snd (session_close env s w))
      | (Inr _, index, s, w) \<Rightarrow> (Inr \<lparr>ts_session = s\<rparr>, index, w))"

definition ts_is_open :: "table_session \<Rightarrow> bool" where
  "ts_is_open t = is_open (ts_session t)"

definition ts_insert ::
    "'w env \<Rightarrow> tablet \<Rightarrow> table_session \<Rightarrow> 'w \<Rightarrow> (unit result \<times> table_session \<times> 'w) option" where
  "ts_insert env t ts w =
     (if \<not> is_table_model t then Some (Inl (Client RequiresTableTablet), ts, w)
      else map_option (\<lambda>(r, s, w). (r, \<lparr>ts_session = s\<rparr>, w)) (insert_tablet env t (ts_session ts) w))"

definition ts_execute_query ::
    "'w env \<Rightarrow> string \<Rightarrow> table_session \<Rightarrow> 'w \<Rightarrow> (error \<times> session + data_set) \<times> 'w" where
  "ts_execute_query env sql ts w = execute_query env sql (ts_session ts) w"

definition ts_execute_non_query ::
    "'w env \<Rightarrow> string \<Rightarrow> table_session \<Rightarrow> 'w \<Rightarrow> unit result \<times> table_session \<times> 'w" where
  "ts_execute_non_query env sql ts w =
     (let (r, s, w) = execute_non_query env sql (ts_session ts) w in (r, \<lparr>ts_session = s\<rparr>, w))"

definition ts_close :: "'w env \<Rightarrow> table_session \<Rightarrow> 'w \<Rightarrow> table_session \<times> 'w" where
  "ts_close env ts w = (let (s, w) = session_close env (ts_session ts) w in (\<lparr>ts_session = s\<rparr>, w))"

section \<open>Properties\<close>

text \<open>
  C39: whatever is set on the builder, a table session that opens was opened in the table dialect:
  every \<^verbatim>\<open>openSession\<close> of the build carries \<^verbatim>\<open>sql_dialect = table\<close> and the database set last, the session
  keeps that dialect for its reconnects, and it is authenticated on a configured endpoint.
\<close>

theorem table_session_dialect:
  assumes "tsb_build (logged env) index b (w, l) = (Inr ts, index', w', l')"
  shows "sc_sql_dialect (ss_config (ts_session ts)) = ''table'' \<and>
    (\<exists>evs c. l' = l @ evs \<and> ss_connection (ts_session ts) = Some c \<and>
       cn_endpoint c \<in> set (sc_endpoints (tsb_config b)) \<and>
       handshaken (session_new (build_config b)) evs c (ss_session_id (ts_session ts)) (ss_statement_id (ts_session ts)) \<and>
       map_of (or_default [] (osq_configuration (open_session_req (session_new (build_config b))))) ''sql_dialect'' =
         Some ''table'')"
proof -
  let ?s = "session_new (build_config b)"
  have run: "session_open (logged env) index ?s (w, l) = (Inr (), index', ts_session ts, w', l')"
    using assms by (auto simp: tsb_build_def split: prod.splits sum.splits)
  have none: "ss_connection ?s = None" by (simp add: session_new_def)
  have eps: "sc_endpoints (ss_config ?s) \<noteq> []"
  proof
    assume "sc_endpoints (ss_config ?s) = []"
    with run none show False by (simp add: session_open_def)
  qed
  obtain evs c where e: "l' = l @ evs" "ts_session ts = install c (ss_session_id (ts_session ts), ss_statement_id (ts_session ts)) ?s"
    "handshaken ?s evs c (ss_session_id (ts_session ts)) (ss_statement_id (ts_session ts))"
    "cn_endpoint c \<in> set (sc_endpoints (ss_config ?s))"
    using session_open_logged [OF run none eps] by auto
  have "ss_connection (ts_session ts) = Some c" "ss_config (ts_session ts) = build_config b"
    by (subst e(2), simp add: install_def session_new_def)+
  moreover have "map_of (or_default [] (osq_configuration (open_session_req ?s))) ''sql_dialect'' = Some ''table''"
    by (simp add: open_session_req_def or_default_def session_new_def Let_def split: option.splits)
  ultimately show ?thesis using e by (auto simp: session_new_def)
qed

theorem table_session_dialect_witness:
  "\<exists>ts. fst (tsb_build (logged quiet_env) 0 (tsb_set (SetDatabase ''db1'') table_session_builder_default) ((), [])) = Inr ts \<and>
     sc_sql_dialect (ss_config (ts_session ts)) = ''table''"
proof -
  let ?b = "tsb_set (SetDatabase ''db1'') table_session_builder_default"
  obtain r i w l where run: "tsb_build (logged quiet_env) 0 ?b ((), []) = (r, i, w, l)" by (rule prod_cases4)
  have "\<exists>ts. fst (tsb_build (logged quiet_env) 0 ?b ((), [])) = Inr ts"
    by (simp add: tsb_build_def tsb_set_def table_session_builder_default_def session_open_def rotation_def
        connection_open_def connect_stream_def authenticate_def session_connection_options_def eval_sample Let_def)
  then obtain ts where "r = Inr ts" using run by auto
  with run table_session_dialect [of quiet_env 0 ?b "()" "[]" ts i w l] show ?thesis by simp
qed

end
