(* ===== verification/Pool.thy ===== *)
theory Pool
  imports DataSet
begin

text \<open>
  The session pool of \<^verbatim>\<open>src/client/pool.rs\<close> as it runs under threads. The shared state is the pool
  (the state mutex with its holder, the condition variable's waiters, the atomic \<^verbatim>\<open>live\<close>, the
  database), the rotating endpoint index and the world. A thread is a program counter with the
  values it carries; each step does at most one access that other threads can race with: a lock
  acquisition, an access to \<^verbatim>\<open>live\<close>, an access to the database, a notification or an operation of a
  session. What the state mutex protects is read and written only while the thread holds it, so
  those accesses go with the step that precedes or follows them. \<^verbatim>\<open>usize\<close> is a 64-bit word. Instants and
  durations are natural numbers of nanoseconds, so the deadline of \<^verbatim>\<open>acquire\<close> exists for every timeout; the
  addition of the code panics for one beyond the range of the platform's clock.
\<close>

section \<open>State\<close>

type_synonym usize = "64 word"

record session_pool_config =
  spc_session :: session_config
  spc_max_size :: usize
  spc_min_size :: usize
  spc_acquire_timeout :: nat
  spc_max_idle_time :: nat
  spc_idle_sweep_interval :: nat

definition session_pool_config_default :: session_pool_config where
  "session_pool_config_default =
     \<lparr>spc_session = session_config_default, spc_max_size = 8, spc_min_size = 0,
      spc_acquire_timeout = secs 60, spc_max_idle_time = secs 60, spc_idle_sweep_interval = secs 30\<rparr>"

definition pool_with_node_urls :: "session_pool_config \<Rightarrow> string list \<Rightarrow> session_pool_config result" where
  "pool_with_node_urls cfg urls =
     bindr (with_node_urls (spc_session cfg) urls) (\<lambda>s. Inr (cfg\<lparr>spc_session := s\<rparr>))"

record idle_entry =
  ie_session :: session
  ie_since :: nat

record 'w pool =
  pl_idle :: "idle_entry list"
  pl_closed :: bool
  pl_last_sweep :: nat
  pl_lock :: "nat option"
  pl_waiting :: "nat list"
  pl_live :: usize
  pl_database :: "string option"
  pl_index :: "64 word"
  pl_world :: 'w

text \<open>What a sweep returns to, and what a thread does after closing the sessions it took out.\<close>

datatype after_sweep = InAcquire nat | InRelease

datatype after_closing = AcquireAgain nat | NotifyOne | NotifyAll

datatype pc =
    Outside
  | Failed error
  | Panicked
  | AcqStart
  | AcqLock nat
  | Sweep after_sweep nat nat "session list"
  | SweepSub after_sweep "session list"
  | Closing after_closing "session list"
  | AcqPop nat
  | AcqDead nat
  | AcqGrow nat
  | AcqAdd nat
  | AcqFull nat
  | Waiting nat
  | DeviceLock string
  | Opening
  | OpeningIn "string option"
  | HandOut session
  | HandOutIn session "string option"
  | UseFailed session error
  | GiveUp error
  | Notify pc
  | Holding session
  | RelCheck session
  | RelDead
  | RelLock session
  | RelClosed session
  | CloseLock
  | CloseSub "session list"

section \<open>Session-level pieces\<close>

text \<open>\<^verbatim>\<open>IdleEntry::new\<close>\<close>

definition idle_entry_new :: "'w env \<Rightarrow> session \<Rightarrow> 'w \<Rightarrow> idle_entry \<times> 'w" where
  "idle_entry_new env s w = (let (now, w) = e_now env w in (\<lparr>ie_session = s, ie_since = now\<rparr>, w))"

text \<open>\<^verbatim>\<open>open_session\<close> once it has read the pool's database.\<close>

definition open_session ::
    "'w env \<Rightarrow> session_pool_config \<Rightarrow> string option \<Rightarrow> 64 word \<Rightarrow> 'w \<Rightarrow> session result \<times> 64 word \<times> 'w" where
  "open_session env cfg db index w =
     (case session_open env index (session_new ((spc_session cfg)\<lparr>sc_database := db\<rparr>)) w of
        (Inl e, index, s, w) \<Rightarrow> (Inl e, index, snd (session_close env s w))
      | (Inr _, index, s, w) \<Rightarrow> (Inr s, index, w))"

text \<open>One turn of the sweep loop with the value of \<^verbatim>\<open>live\<close> it reads, \<open>taken\<close> sessions into the sweep.\<close>

datatype sweep_action = SweepPanic | SweepEnd | SweepSkip | SweepTake

definition sweep_turn :: "session_pool_config \<Rightarrow> nat \<Rightarrow> usize \<Rightarrow> idle_entry list \<Rightarrow> nat \<Rightarrow> nat \<Rightarrow> sweep_action" where
  "sweep_turn cfg now live idle i taken =
     (if \<not> i < length idle then SweepEnd
      else if live < word_of_nat taken then SweepPanic
      else if live - word_of_nat taken \<le> spc_min_size cfg then SweepEnd
      else if now - ie_since (idle ! i) > spc_max_idle_time cfg then SweepTake
      else SweepSkip)"

definition remove_at :: "nat \<Rightarrow> 'a list \<Rightarrow> 'a list" where
  "remove_at i xs = take i xs @ drop (Suc i) xs"

text \<open>
  The search of \<^verbatim>\<open>acquire_for_device\<close>: the first hint for the device that an idle session has, asking
  them in order (a session that is asked drops its expired hint), and the first open idle session
  connected to that endpoint.
\<close>

fun find_hint ::
    "'w env \<Rightarrow> string \<Rightarrow> idle_entry list \<Rightarrow> 'w \<Rightarrow> endpoint option \<times> idle_entry list \<times> 'w" where
  "find_hint env device [] w = (None, [], w)"
| "find_hint env device (e # es) w =
     (let (hint, s, w) = redirect_hint env device (ie_session e) w; e = e\<lparr>ie_session := s\<rparr> in
      case hint of
        Some ep \<Rightarrow> (Some ep, e # es, w)
      | None \<Rightarrow> (let (hint, es, w) = find_hint env device es w in (hint, e # es, w)))"

definition matching_idle :: "endpoint \<Rightarrow> idle_entry list \<Rightarrow> nat option" where
  "matching_idle ep idle =
     position (\<lambda>e. is_open (ie_session e) \<and> current_endpoint (ie_session e) = Some ep) idle"

section \<open>The steps of a thread\<close>

text \<open>\<^verbatim>\<open>drop(state)\<close>, and \<^verbatim>\<open>live.fetch_sub(n)\<close>\<close>

definition unlock :: "'w pool \<Rightarrow> 'w pool" where
  "unlock p = p\<lparr>pl_lock := None\<rparr>"

definition live_sub :: "nat \<Rightarrow> 'w pool \<Rightarrow> 'w pool" where
  "live_sub n p = p\<lparr>pl_live := pl_live p - word_of_nat n\<rparr>"

text \<open>What follows a sweep, with the lock held.\<close>

definition swept :: "after_sweep \<Rightarrow> session list \<Rightarrow> 'w pool \<Rightarrow> pc \<times> 'w pool" where
  "swept k expired p =
     (case k of
        InAcquire d \<Rightarrow> if expired = [] then (AcqPop d, p) else (Closing (AcquireAgain d) expired, unlock p)
      | InRelease \<Rightarrow> (Closing NotifyOne expired, unlock p))"

definition sweep_start :: "'w env \<Rightarrow> session_pool_config \<Rightarrow> after_sweep \<Rightarrow> 'w pool \<Rightarrow> pc \<times> 'w pool" where
  "sweep_start env cfg k p =
     (let (now, w) = e_now env (pl_world p); p = p\<lparr>pl_world := w\<rparr> in
      if now - pl_last_sweep p < spc_idle_sweep_interval cfg then swept k [] p
      else (Sweep k now 0 [], p\<lparr>pl_last_sweep := now\<rparr>))"

definition sweep_step ::
    "session_pool_config \<Rightarrow> after_sweep \<Rightarrow> nat \<Rightarrow> nat \<Rightarrow> session list \<Rightarrow> 'w pool \<Rightarrow> pc \<times> 'w pool" where
  "sweep_step cfg k now i expired p =
     (case sweep_turn cfg now (pl_live p) (pl_idle p) i (length expired) of
        SweepPanic \<Rightarrow> (Panicked, p)
      | SweepEnd \<Rightarrow> (SweepSub k expired, p)
      | SweepSkip \<Rightarrow> (Sweep k now (i + 1) expired, p)
      | SweepTake \<Rightarrow>
          (Sweep k now i (expired @ [ie_session (pl_idle p ! i)]), p\<lparr>pl_idle := remove_at i (pl_idle p)\<rparr>))"

definition sweep_sub_step :: "after_sweep \<Rightarrow> session list \<Rightarrow> 'w pool \<Rightarrow> pc \<times> 'w pool" where
  "sweep_sub_step k expired p =
     swept k expired (if expired = [] then p else live_sub (length expired) p)"

text \<open>The loop of \<^verbatim>\<open>acquire\<close>.\<close>

definition acquire_start :: "'w env \<Rightarrow> session_pool_config \<Rightarrow> 'w pool \<Rightarrow> pc \<times> 'w pool" where
  "acquire_start env cfg p =
     (let (now, w) = e_now env (pl_world p)
      in (AcqLock (now + spc_acquire_timeout cfg), p\<lparr>pl_world := w\<rparr>))"

definition acquire_lock :: "'w env \<Rightarrow> session_pool_config \<Rightarrow> nat \<Rightarrow> nat \<Rightarrow> 'w pool \<Rightarrow> (pc \<times> 'w pool) option" where
  "acquire_lock env cfg i d p =
     (if pl_lock p \<noteq> None then None
      else if pl_closed p then Some (Failed (Client PoolClosed), p)
      else Some (sweep_start env cfg (InAcquire d) (p\<lparr>pl_lock := Some i\<rparr>)))"

definition acquire_pop :: "nat \<Rightarrow> 'w pool \<Rightarrow> pc \<times> 'w pool" where
  "acquire_pop d p =
     (case pl_idle p of
        [] \<Rightarrow> (AcqGrow d, p)
      | e # es \<Rightarrow>
          let p = p\<lparr>pl_idle := es\<rparr> in
          if is_open (ie_session e) then (HandOut (ie_session e), unlock p) else (AcqDead d, p))"

definition acquire_grow :: "session_pool_config \<Rightarrow> nat \<Rightarrow> 'w pool \<Rightarrow> pc \<times> 'w pool" where
  "acquire_grow cfg d p = (if pl_live p < spc_max_size cfg then AcqAdd d else AcqFull d, p)"

definition acquire_add :: "'w pool \<Rightarrow> pc \<times> 'w pool" where
  "acquire_add p = (Opening, unlock (p\<lparr>pl_live := pl_live p + 1\<rparr>))"

definition acquire_full :: "'w env \<Rightarrow> session_pool_config \<Rightarrow> nat \<Rightarrow> nat \<Rightarrow> 'w pool \<Rightarrow> pc \<times> 'w pool" where
  "acquire_full env cfg i d p =
     (let (now, w) = e_now env (pl_world p); p = p\<lparr>pl_world := w\<rparr> in
      if d \<le> now then
        (Failed (Client (PoolExhausted (spc_acquire_timeout cfg) (unat (pl_live p)) (unat (spc_max_size cfg)))),
         unlock p)
      else (Waiting d, unlock (p\<lparr>pl_waiting := pl_waiting p @ [i]\<rparr>)))"

text \<open>A waiter goes on when it was notified, when its time is up, or spuriously.\<close>

definition acquire_wake :: "nat \<Rightarrow> nat \<Rightarrow> 'w pool \<Rightarrow> pc \<times> 'w pool" where
  "acquire_wake i d p = (AcqLock d, p\<lparr>pl_waiting := filter (\<lambda>j. j \<noteq> i) (pl_waiting p)\<rparr>)"

definition device_lock :: "'w env \<Rightarrow> string \<Rightarrow> 'w pool \<Rightarrow> (pc \<times> 'w pool) option" where
  "device_lock env device p =
     (if pl_lock p \<noteq> None then None
      else if pl_closed p then Some (AcqStart, p)
      else
        let (hint, idle, w) = find_hint env device (pl_idle p) (pl_world p);
            p = p\<lparr>pl_idle := idle, pl_world := w\<rparr> in
        case Option.bind hint (\<lambda>ep. matching_idle ep idle) of
          None \<Rightarrow> Some (AcqStart, p)
        | Some j \<Rightarrow> Some (HandOut (ie_session (idle ! j)), p\<lparr>pl_idle := remove_at j idle\<rparr>))"

definition open_step :: "'w env \<Rightarrow> session_pool_config \<Rightarrow> string option \<Rightarrow> 'w pool \<Rightarrow> pc \<times> 'w pool" where
  "open_step env cfg db p =
     (let (r, index, w) = open_session env cfg db (pl_index p) (pl_world p)
      in (case r of Inl e \<Rightarrow> GiveUp e | Inr s \<Rightarrow> HandOut s, p\<lparr>pl_index := index, pl_world := w\<rparr>))"

definition hand_out :: "'w env \<Rightarrow> session \<Rightarrow> string option \<Rightarrow> 'w pool \<Rightarrow> pc \<times> 'w pool" where
  "hand_out env s pool_db p =
     (case pool_db of
        None \<Rightarrow> (Holding s, p)
      | Some db \<Rightarrow>
          if ss_database s = Some db then (Holding s, p)
          else
            let (r, s, w) = execute_non_query env (''USE '' @ db) s (pl_world p)
            in (case r of Inl e \<Rightarrow> UseFailed s e | Inr _ \<Rightarrow> Holding s, p\<lparr>pl_world := w\<rparr>))"

definition close_step :: "'w env \<Rightarrow> session \<Rightarrow> 'w pool \<Rightarrow> 'w pool" where
  "close_step env s p = p\<lparr>pl_world := snd (session_close env s (pl_world p))\<rparr>"

text \<open>\<^verbatim>\<open>release\<close>\<close>

definition release_check :: "session \<Rightarrow> 'w pool \<Rightarrow> pc \<times> 'w pool" where
  "release_check s p =
     (if \<not> is_open s then (RelDead, p)
      else (RelLock s, case ss_database s of None \<Rightarrow> p | Some db \<Rightarrow> p\<lparr>pl_database := Some db\<rparr>))"

definition release_lock :: "'w env \<Rightarrow> session_pool_config \<Rightarrow> nat \<Rightarrow> session \<Rightarrow> 'w pool \<Rightarrow> (pc \<times> 'w pool) option" where
  "release_lock env cfg i s p =
     (if pl_lock p \<noteq> None then None
      else if pl_closed p then Some (RelClosed s, p)
      else
        let (entry, w) = idle_entry_new env s (pl_world p)
        in Some (sweep_start env cfg InRelease
             (p\<lparr>pl_lock := Some i, pl_idle := pl_idle p @ [entry], pl_world := w\<rparr>)))"

definition close_lock :: "'w pool \<Rightarrow> (pc \<times> 'w pool) option" where
  "close_lock p =
     (if pl_lock p \<noteq> None then None
      else Some (CloseSub (map ie_session (pl_idle p)), p\<lparr>pl_closed := True, pl_idle := []\<rparr>))"

text \<open>\<^verbatim>\<open>notify_one\<close> wakes some waiter; which one is the system's choice.\<close>

definition notify_one :: "nat \<Rightarrow> 'w pool \<Rightarrow> 'w pool" where
  "notify_one choice p = p\<lparr>pl_waiting := remove_at (choice mod length (pl_waiting p)) (pl_waiting p)\<rparr>"

fun closed_all :: "after_closing \<Rightarrow> 'w pool \<Rightarrow> pc \<times> 'w pool" where
  "closed_all (AcquireAgain d) p = (AcqLock d, p)"
| "closed_all NotifyOne p = (Notify Outside, p)"
| "closed_all NotifyAll p = (Outside, p\<lparr>pl_waiting := []\<rparr>)"

fun advance ::
    "'w env \<Rightarrow> session_pool_config \<Rightarrow> nat \<Rightarrow> nat \<Rightarrow> pc \<Rightarrow> 'w pool \<Rightarrow> (pc \<times> 'w pool) option" where
  "advance env cfg choice i AcqStart p = Some (acquire_start env cfg p)"
| "advance env cfg choice i (AcqLock d) p = acquire_lock env cfg i d p"
| "advance env cfg choice i (Sweep k now j expired) p = Some (sweep_step cfg k now j expired p)"
| "advance env cfg choice i (SweepSub k expired) p = Some (sweep_sub_step k expired p)"
| "advance env cfg choice i (Closing k (s # ss)) p = Some (Closing k ss, close_step env s p)"
| "advance env cfg choice i (Closing k []) p = Some (closed_all k p)"
| "advance env cfg choice i (AcqPop d) p = Some (acquire_pop d p)"
| "advance env cfg choice i (AcqDead d) p = Some (AcqPop d, live_sub 1 p)"
| "advance env cfg choice i (AcqGrow d) p = Some (acquire_grow cfg d p)"
| "advance env cfg choice i (AcqAdd d) p = Some (acquire_add p)"
| "advance env cfg choice i (AcqFull d) p = Some (acquire_full env cfg i d p)"
| "advance env cfg choice i (Waiting d) p = Some (acquire_wake i d p)"
| "advance env cfg choice i (DeviceLock device) p = device_lock env device p"
| "advance env cfg choice i Opening p = Some (OpeningIn (pl_database p), p)"
| "advance env cfg choice i (OpeningIn db) p = Some (open_step env cfg db p)"
| "advance env cfg choice i (HandOut s) p = Some (HandOutIn s (pl_database p), p)"
| "advance env cfg choice i (HandOutIn s db) p = Some (hand_out env s db p)"
| "advance env cfg choice i (UseFailed s e) p = Some (GiveUp e, close_step env s p)"
| "advance env cfg choice i (GiveUp e) p = Some (Notify (Failed e), live_sub 1 p)"
| "advance env cfg choice i (Notify k) p = Some (k, notify_one choice p)"
| "advance env cfg choice i (RelCheck s) p = Some (release_check s p)"
| "advance env cfg choice i RelDead p = Some (Notify Outside, live_sub 1 p)"
| "advance env cfg choice i (RelLock s) p = release_lock env cfg i s p"
| "advance env cfg choice i (RelClosed s) p = Some (Closing NotifyOne [s], live_sub 1 p)"
| "advance env cfg choice i CloseLock p = close_lock p"
| "advance env cfg choice i (CloseSub ss) p = Some (Closing NotifyAll ss, live_sub (length ss) p)"
| "advance env cfg choice i Outside p = None"
| "advance env cfg choice i (Failed e) p = None"
| "advance env cfg choice i Panicked p = None"
| "advance env cfg choice i (Holding s) p = None"

section \<open>Creating and dropping a pool\<close>

text \<open>Nothing else has the pool yet, so creation runs in one piece. A failed creation drops the pool.\<close>

fun close_sessions :: "'w env \<Rightarrow> session list \<Rightarrow> 'w \<Rightarrow> 'w" where
  "close_sessions env [] w = w"
| "close_sessions env (s # ss) w = close_sessions env ss (snd (session_close env s w))"

definition pool_drop :: "'w env \<Rightarrow> 'w pool \<Rightarrow> 'w pool" where
  "pool_drop env p =
     (let drained = map ie_session (pl_idle p)
      in p\<lparr>pl_closed := True, pl_idle := [], pl_live := pl_live p - word_of_nat (length drained),
           pl_world := close_sessions env drained (pl_world p), pl_waiting := []\<rparr>)"

fun open_eagerly :: "'w env \<Rightarrow> session_pool_config \<Rightarrow> nat \<Rightarrow> 'w pool \<Rightarrow> unit result \<times> 'w pool" where
  "open_eagerly env cfg 0 p = (Inr (), p)"
| "open_eagerly env cfg (Suc n) p =
     (case open_session env cfg (pl_database p) (pl_index p) (pl_world p) of
        (Inl e, index, w) \<Rightarrow> (Inl e, p\<lparr>pl_index := index, pl_world := w\<rparr>)
      | (Inr s, index, w) \<Rightarrow>
          let (entry, w) = idle_entry_new env s w
          in open_eagerly env cfg n
               (p\<lparr>pl_index := index, pl_world := w, pl_idle := pl_idle p @ [entry], pl_live := pl_live p + 1\<rparr>))"

definition pool_new ::
    "'w env \<Rightarrow> session_pool_config \<Rightarrow> 64 word \<Rightarrow> 'w \<Rightarrow> 'w pool result \<times> 64 word \<times> 'w" where
  "pool_new env cfg index w =
     (if spc_min_size cfg > spc_max_size cfg
      then (Inl (Client (PoolMinMax (unat (spc_min_size cfg)) (unat (spc_max_size cfg)))), index, w)
      else
        let (now, w) = e_now env w;
            p = \<lparr>pl_idle = [], pl_closed = False, pl_last_sweep = now, pl_lock = None, pl_waiting = [],
                 pl_live = 0, pl_database = sc_database (spc_session cfg), pl_index = index, pl_world = w\<rparr> in
        case open_eagerly env cfg (unat (spc_min_size cfg)) p of
          (Inl e, p) \<Rightarrow> (Inl e, pl_index p, pl_world (pool_drop env p))
        | (Inr _, p) \<Rightarrow> (Inr p, pl_index p, pl_world p))"

definition table_pool_config :: "session_pool_config \<Rightarrow> session_pool_config" where
  "table_pool_config cfg = cfg\<lparr>spc_session := (spc_session cfg)\<lparr>sc_sql_dialect := ''table''\<rparr>\<rparr>"

definition table_pool_new ::
    "'w env \<Rightarrow> session_pool_config \<Rightarrow> 64 word \<Rightarrow> 'w \<Rightarrow> 'w pool result \<times> 64 word \<times> 'w" where
  "table_pool_new env cfg = pool_new env (table_pool_config cfg)"

section \<open>Threads\<close>

text \<open>
  A thread and the statement it runs when it is inside \<^verbatim>\<open>SessionPool::execute_non_query\<close>. Between
  calls a thread that holds a guard uses the session as it likes: \<open>use\<close> puts any session and any
  world in place of the current ones. \<open>Failed\<close> is an error handed to the caller.
\<close>

record thread =
  th_pc :: pc
  th_sql :: "string option"

type_synonym 'w psystem = "thread list \<times> 'w pool"

inductive pool_step :: "'w env \<Rightarrow> session_pool_config \<Rightarrow> 'w psystem \<Rightarrow> 'w psystem \<Rightarrow> bool" for env cfg where
  run: "i < length ts \<Longrightarrow> advance env cfg choice i (th_pc (ts ! i)) p = Some (pc', p') \<Longrightarrow>
    pool_step env cfg (ts, p) (ts[i := (ts ! i)\<lparr>th_pc := pc'\<rparr>], p')"
| call: "i < length ts \<Longrightarrow> th_pc (ts ! i) = Outside \<Longrightarrow> entry \<in> {AcqStart, CloseLock} \<union> range DeviceLock \<Longrightarrow>
    pool_step env cfg (ts, p) (ts[i := \<lparr>th_pc = entry, th_sql = None\<rparr>], p)"
| call_statement: "i < length ts \<Longrightarrow> th_pc (ts ! i) = Outside \<Longrightarrow>
    pool_step env cfg (ts, p) (ts[i := \<lparr>th_pc = AcqStart, th_sql = Some sql\<rparr>], p)"
| failed: "i < length ts \<Longrightarrow> th_pc (ts ! i) = Failed e \<Longrightarrow>
    pool_step env cfg (ts, p) (ts[i := \<lparr>th_pc = Outside, th_sql = None\<rparr>], p)"
| use: "i < length ts \<Longrightarrow> ts ! i = \<lparr>th_pc = Holding s, th_sql = None\<rparr> \<Longrightarrow>
    pool_step env cfg (ts, p) (ts[i := \<lparr>th_pc = Holding s', th_sql = None\<rparr>], p\<lparr>pl_world := w'\<rparr>)"
| drop_guard: "i < length ts \<Longrightarrow> ts ! i = \<lparr>th_pc = Holding s, th_sql = None\<rparr> \<Longrightarrow>
    pool_step env cfg (ts, p) (ts[i := \<lparr>th_pc = RelCheck s, th_sql = None\<rparr>], p)"
| statement: "i < length ts \<Longrightarrow> ts ! i = \<lparr>th_pc = Holding s, th_sql = Some sql\<rparr> \<Longrightarrow>
    execute_non_query env sql s (pl_world p) = (r, s', w') \<Longrightarrow>
    pool_step env cfg (ts, p) (ts[i := \<lparr>th_pc = RelCheck s', th_sql = None\<rparr>], p\<lparr>pl_world := w'\<rparr>)"

definition idle_threads :: "nat \<Rightarrow> thread list" where
  "idle_threads n = replicate n \<lparr>th_pc = Outside, th_sql = None\<rparr>"

inductive pool_reachable :: "'w env \<Rightarrow> session_pool_config \<Rightarrow> 'w psystem \<Rightarrow> bool" for env cfg where
  created: "pool_new env cfg index w = (Inr p, index', w') \<Longrightarrow> pool_reachable env cfg (idle_threads n, p)"
| step: "pool_reachable env cfg x \<Longrightarrow> pool_step env cfg x y \<Longrightarrow> pool_reachable env cfg y"

end
