(* ===== verification/PoolProps.thy ===== *)
theory PoolProps
  imports Pool
begin

text \<open>
  The pool under any interleaving of any number of threads: \<^verbatim>\<open>live\<close> counts the idle sessions and those
  that threads own, it never exceeds the maximum and never underflows, the state mutex has one
  holder, a closed pool keeps no idle session, and no reachable state is a deadlock.
\<close>

section \<open>What a thread owns\<close>

fun owned :: "pc \<Rightarrow> nat" where
  "owned (Sweep _ _ _ expired) = length expired"
| "owned (SweepSub _ expired) = length expired"
| "owned (CloseSub ss) = length ss"
| "owned (AcqDead _) = 1"
| "owned Opening = 1"
| "owned (OpeningIn _) = 1"
| "owned (HandOut _) = 1"
| "owned (HandOutIn _ _) = 1"
| "owned (UseFailed _ _) = 1"
| "owned (GiveUp _) = 1"
| "owned (Notify k) = owned k"
| "owned (Holding _) = 1"
| "owned (RelCheck _) = 1"
| "owned RelDead = 1"
| "owned (RelLock _) = 1"
| "owned (RelClosed _) = 1"
| "owned _ = 0"

fun locked :: "pc \<Rightarrow> bool" where
  "locked (Sweep _ _ _ _) = True"
| "locked (SweepSub _ _) = True"
| "locked (AcqPop _) = True"
| "locked (AcqDead _) = True"
| "locked (AcqGrow _) = True"
| "locked (AcqAdd _) = True"
| "locked (AcqFull _) = True"
| "locked _ = False"

text \<open>The states a notification leads to.\<close>

fun pc_ok :: "pc \<Rightarrow> bool" where
  "pc_ok (Notify k) = (case k of Outside \<Rightarrow> True | Failed _ \<Rightarrow> True | _ \<Rightarrow> False)"
| "pc_ok Panicked = False"
| "pc_ok _ = True"

section \<open>One step of one thread\<close>

text \<open>What a step does to the shared counters, for a thread \<open>i\<close> that owns what it should.\<close>

definition counts :: "nat \<Rightarrow> pc \<Rightarrow> 'w pool \<Rightarrow> pc \<Rightarrow> 'w pool \<Rightarrow> bool" where
  "counts i pc p pc' p' \<longleftrightarrow>
     unat (pl_live p') + length (pl_idle p) + owned pc = unat (pl_live p) + length (pl_idle p') + owned pc' \<and>
     (unat (pl_live p') \<le> unat (pl_live p) \<or> (\<exists>d. pc = AcqAdd d \<and> unat (pl_live p') = unat (pl_live p) + 1)) \<and>
     pl_lock p' = (if locked pc' then Some i else if locked pc then None else pl_lock p) \<and>
     (locked pc' \<and> \<not> locked pc \<longrightarrow> pl_lock p = None) \<and>
     ((pl_closed p \<longrightarrow> pl_idle p = []) \<longrightarrow> pl_closed p' \<longrightarrow> pl_idle p' = []) \<and>
     pc_ok pc'"

lemma unat_word_of_nat_le:
  assumes "n \<le> unat (x :: usize)"
  shows "unat (word_of_nat n :: usize) = n"
proof -
  have "unat x < 2 ^ LENGTH(64)" by (rule unsigned_less)
  with assms show ?thesis by (simp add: unat_of_nat take_bit_nat_eq_self)
qed

lemma unat_succ_below:
  assumes "(x :: usize) < y"
  shows "unat (x + 1) = unat x + 1"
proof -
  have "unat y < 2 ^ LENGTH(64)" by (rule unsigned_less)
  with assms show ?thesis by (simp add: unat_word_ariths word_less_nat_alt)
qed

lemma word_of_nat_le_live: "n \<le> unat (x :: usize) \<Longrightarrow> (word_of_nat n :: usize) \<le> x"
  by (simp add: word_le_nat_alt unat_word_of_nat_le)

lemma unat_live_sub:
  assumes "n \<le> unat (pl_live p)"
  shows "unat (pl_live (live_sub n p)) = unat (pl_live p) - n"
  using assms by (simp add: live_sub_def unat_sub [OF word_of_nat_le_live] unat_word_of_nat_le)

lemma live_sub_simps [simp]:
  "pl_idle (live_sub n p) = pl_idle p" "pl_closed (live_sub n p) = pl_closed p" "pl_lock (live_sub n p) = pl_lock p"
  by (simp_all add: live_sub_def)

lemma unlock_simps [simp]:
  "pl_idle (unlock p) = pl_idle p" "pl_closed (unlock p) = pl_closed p" "pl_lock (unlock p) = None"
  "pl_live (unlock p) = pl_live p"
  by (simp_all add: unlock_def)

lemma close_step_simps [simp]:
  "pl_idle (close_step env s p) = pl_idle p" "pl_closed (close_step env s p) = pl_closed p"
  "pl_lock (close_step env s p) = pl_lock p" "pl_live (close_step env s p) = pl_live p"
  by (simp_all add: close_step_def)

lemma notify_one_simps [simp]:
  "pl_idle (notify_one c p) = pl_idle p" "pl_closed (notify_one c p) = pl_closed p"
  "pl_lock (notify_one c p) = pl_lock p" "pl_live (notify_one c p) = pl_live p"
  by (simp_all add: notify_one_def)

lemma length_remove_at [simp]: "i < length xs \<Longrightarrow> length (remove_at i xs) = length xs - 1"
  by (simp add: remove_at_def)

lemma length_find_hint: "length (fst (snd (find_hint env d es w))) = length es"
  by (induction es arbitrary: w) (auto simp: Let_def split_beta split: option.splits)

lemma matching_idle_Some: "matching_idle ep es = Some j \<Longrightarrow> j < length es"
proof -
  have "position P xs = Some j \<Longrightarrow> j < length xs" for P and xs :: "idle_entry list"
    by (induction xs arbitrary: j) (auto split: if_splits)
  then show "matching_idle ep es = Some j \<Longrightarrow> j < length es" by (simp add: matching_idle_def)
qed

lemma counts_swept:
  assumes "pl_lock p = Some i" "locked pc" "owned pc = length expired" "length expired \<le> unat (pl_live p)"
  shows "case swept k expired (live_sub (length expired) p) of (pc', p') \<Rightarrow> counts i pc p pc' p' \<and> (\<forall>d. pc' \<noteq> AcqAdd d)"
  using assms unat_live_sub [OF assms(4)]
  by (cases k) (auto simp: counts_def swept_def)

lemma live_sub_0 [simp]: "live_sub 0 p = p"
  by (simp add: live_sub_def)

lemma counts_sweep_sub:
  assumes "pl_lock p = Some i" "length expired \<le> unat (pl_live p)"
  shows "case sweep_sub_step k expired p of (pc', p') \<Rightarrow> counts i (SweepSub k expired) p pc' p' \<and> (\<forall>d. pc' \<noteq> AcqAdd d)"
  using counts_swept [of p i "SweepSub k expired" expired k] assms
  by (cases "expired = []") (simp_all add: sweep_sub_step_def)

lemma counts_sweep:
  assumes "pl_lock p = Some i" "length expired \<le> unat (pl_live p)"
  shows "case sweep_step cfg k now j expired p of (pc', p') \<Rightarrow>
    counts i (Sweep k now j expired) p pc' p' \<and> (\<forall>d. pc' \<noteq> AcqAdd d)"
proof -
  have "\<not> pl_live p < word_of_nat (length expired)" using word_of_nat_le_live [OF assms(2)] by simp
  then show ?thesis
    using assms by (auto simp: counts_def sweep_step_def sweep_turn_def)
qed

text \<open>Starting a sweep: the lock was free and the thread has just taken it.\<close>

lemma counts_sweep_start:
  assumes "pl_lock p = None" "\<not> locked pc" "\<not> pl_closed p"
    and "length (pl_idle p0) = length (pl_idle p) + owned pc" "pl_live p0 = pl_live p" "pl_closed p0 = pl_closed p"
    and "pl_lock p0 = Some i"
  shows "case sweep_start env cfg k p0 of (pc', p') \<Rightarrow> counts i pc p pc' p' \<and> (\<forall>d. pc' \<noteq> AcqAdd d)"
  using assms by (cases k) (auto simp: counts_def sweep_start_def swept_def Let_def split: prod.splits)

lemma counts_acquire_lock:
  assumes "acquire_lock env cfg i d p = Some (pc', p')"
  shows "counts i (AcqLock d) p pc' p' \<and> (\<forall>d. pc' \<noteq> AcqAdd d)"
proof (cases "pl_closed p")
  case True
  with assms show ?thesis by (auto simp: acquire_lock_def counts_def split: if_splits)
next
  case False
  then have "sweep_start env cfg (InAcquire d) (p\<lparr>pl_lock := Some i\<rparr>) = (pc', p')" "pl_lock p = None"
    using assms by (auto simp: acquire_lock_def split: if_splits)
  with counts_sweep_start [of p "AcqLock d" "p\<lparr>pl_lock := Some i\<rparr>" i env cfg "InAcquire d"] False
  show ?thesis by simp
qed

lemma counts_release_lock:
  assumes "release_lock env cfg i s p = Some (pc', p')"
  shows "counts i (RelLock s) p pc' p' \<and> (\<forall>d. pc' \<noteq> AcqAdd d)"
proof (cases "pl_closed p")
  case True
  with assms show ?thesis by (auto simp: release_lock_def counts_def split: if_splits)
next
  case False
  obtain e w where e: "idle_entry_new env s (pl_world p) = (e, w)" by (cases "idle_entry_new env s (pl_world p)")
  let ?p = "p\<lparr>pl_lock := Some i, pl_idle := pl_idle p @ [e], pl_world := w\<rparr>"
  have "sweep_start env cfg InRelease ?p = (pc', p')" "pl_lock p = None"
    using assms e False by (auto simp: release_lock_def split: if_splits)
  with counts_sweep_start [of p "RelLock s" ?p i env cfg InRelease] False show ?thesis by simp
qed

lemma counts_device_lock:
  assumes "device_lock env device p = Some (pc', p')"
  shows "counts i (DeviceLock device) p pc' p' \<and> (\<forall>d. pc' \<noteq> AcqAdd d)"
proof -
  obtain hint idle w where f: "find_hint env device (pl_idle p) (pl_world p) = (hint, idle, w)" by (rule prod_cases3)
  have len: "length idle = length (pl_idle p)" using length_find_hint [of env device "pl_idle p" "pl_world p"] f by simp
  show ?thesis
  proof (cases "pl_closed p")
    case True
    with assms show ?thesis by (auto simp: device_lock_def counts_def split: if_splits)
  next
    case open_pool: False
    show ?thesis
    proof (cases "Option.bind hint (\<lambda>ep. matching_idle ep idle)")
      case None
      with assms f len open_pool show ?thesis by (auto simp: device_lock_def counts_def Let_def split: if_splits)
    next
      case (Some j)
      then have "j < length idle" by (auto simp: bind_eq_Some_conv dest: matching_idle_Some)
      with assms f len open_pool Some show ?thesis
        by (auto simp: device_lock_def counts_def Let_def split: if_splits)
    qed
  qed
qed

lemma advance_counts:
  assumes "advance env cfg choice i pc p = Some (pc', p')" "pc_ok pc"
    and "locked pc \<longrightarrow> pl_lock p = Some i" "owned pc + length (pl_idle p) \<le> unat (pl_live p)"
    and "\<And>d. pc = AcqAdd d \<Longrightarrow> pl_live p < spc_max_size cfg"
  shows "counts i pc p pc' p' \<and> (\<forall>d. pc' = AcqAdd d \<longrightarrow> pl_live p' < spc_max_size cfg)"
proof (cases pc)
  case (AcqLock d)
  with assms(1) counts_acquire_lock [of env cfg i d p pc' p'] show ?thesis by simp
next
  case (RelLock s)
  with assms(1) counts_release_lock [of env cfg i s p pc' p'] show ?thesis by simp
next
  case (DeviceLock device)
  with assms(1) counts_device_lock [of env device p pc' p' i] show ?thesis by simp
next
  case (Sweep k now j expired)
  with assms counts_sweep [where p = p and i = i and expired = expired and cfg = cfg and k = k and now = now and j = j] show ?thesis by simp
next
  case (SweepSub k expired)
  with assms counts_sweep_sub [of p i expired k] show ?thesis by simp
next
  case (Closing k ss)
  with assms show ?thesis by (cases ss; cases k) (auto simp: counts_def)
next
  case (AcqAdd d)
  then have "unat (pl_live p + 1) = unat (pl_live p) + 1" using assms(5) unat_succ_below by blast
  with assms AcqAdd show ?thesis by (auto simp: counts_def acquire_add_def)
next
  case (Notify k)
  with assms show ?thesis by (auto simp: counts_def split: pc.splits)
next
  case (AcqDead d)
  with assms unat_live_sub [of 1 p] show ?thesis by (auto simp: counts_def)
next
  case (GiveUp e)
  with assms unat_live_sub [of 1 p] show ?thesis by (auto simp: counts_def)
next
  case RelDead
  with assms unat_live_sub [of 1 p] show ?thesis by (auto simp: counts_def)
next
  case (RelClosed s)
  with assms unat_live_sub [of 1 p] show ?thesis by (auto simp: counts_def)
next
  case (CloseSub ss)
  with assms unat_live_sub [of "length ss" p] show ?thesis by (auto simp: counts_def)
next
  case (AcqPop d)
  with assms show ?thesis by (auto simp: counts_def acquire_pop_def Let_def split: list.splits if_splits)
next
  case (AcqFull d)
  with assms show ?thesis by (auto simp: counts_def acquire_full_def Let_def split: prod.splits if_splits)
next
  case (AcqGrow d)
  with assms show ?thesis by (auto simp: counts_def acquire_grow_def split: if_splits)
next
  case (OpeningIn db)
  obtain r index w where "open_session env cfg db (pl_index p) (pl_world p) = (r, index, w)" by (rule prod_cases3)
  with assms OpeningIn show ?thesis by (cases r) (auto simp: counts_def open_step_def)
next
  case (HandOutIn s db)
  with assms show ?thesis
    by (auto simp: counts_def hand_out_def Let_def split: prod.splits sum.splits option.splits if_splits)
next
  case (RelCheck s)
  with assms show ?thesis by (auto simp: counts_def release_check_def split: option.splits if_splits)
next
  case CloseLock
  with assms show ?thesis by (auto simp: counts_def close_lock_def split: if_splits)
qed (use assms in \<open>auto simp: counts_def acquire_start_def acquire_wake_def split: prod.splits\<close>)

section \<open>The whole system\<close>

definition owned_total :: "thread list \<Rightarrow> nat" where
  "owned_total ts = sum_list (map (owned \<circ> th_pc) ts)"

definition pool_inv :: "session_pool_config \<Rightarrow> 'w psystem \<Rightarrow> bool" where
  "pool_inv cfg = (\<lambda>(ts, p).
     unat (pl_live p) = length (pl_idle p) + owned_total ts \<and> pl_live p \<le> spc_max_size cfg \<and>
     (\<forall>i < length ts. locked (th_pc (ts ! i)) \<longleftrightarrow> pl_lock p = Some i) \<and>
     (\<forall>j. pl_lock p = Some j \<longrightarrow> j < length ts) \<and>
     (\<forall>i < length ts. pc_ok (th_pc (ts ! i)) \<and> (\<forall>d. th_pc (ts ! i) = AcqAdd d \<longrightarrow> pl_live p < spc_max_size cfg)) \<and>
     (pl_closed p \<longrightarrow> pl_idle p = []))"

lemma owned_total_update:
  assumes "i < length ts"
  shows "owned_total (ts[i := t]) + owned (th_pc (ts ! i)) = owned_total ts + owned (th_pc t)"
proof -
  let ?os = "map (owned \<circ> th_pc) ts"
  have "?os ! i \<le> sum_list ?os" using assms by (intro elem_le_sum_list) simp
  with assms show ?thesis
    by (simp add: owned_total_def map_update sum_list_update)
qed

lemma owned_le_total: "i < length ts \<Longrightarrow> owned (th_pc (ts ! i)) \<le> owned_total ts"
  using elem_le_sum_list [of i "map (owned \<circ> th_pc) ts"] by (simp add: owned_total_def)

lemma pool_inv_step:
  assumes inv: "pool_inv cfg (ts, p)" and i: "i < length ts"
    and step: "counts i (th_pc (ts ! i)) p (th_pc t) p'" "\<And>d. th_pc t = AcqAdd d \<Longrightarrow> pl_live p' < spc_max_size cfg"
  shows "pool_inv cfg (ts[i := t], p')"
proof -
  let ?pc = "th_pc (ts ! i)"
  note c = step(1) [unfolded counts_def]
  have total: "unat (pl_live p) = length (pl_idle p) + owned_total ts" and max: "pl_live p \<le> spc_max_size cfg"
    and lock: "\<And>j. j < length ts \<Longrightarrow> locked (th_pc (ts ! j)) \<longleftrightarrow> pl_lock p = Some j"
    and bound: "\<And>j. pl_lock p = Some j \<Longrightarrow> j < length ts"
    and ok: "\<And>j. j < length ts \<Longrightarrow> pc_ok (th_pc (ts ! j))"
    and add: "\<And>j d. j < length ts \<Longrightarrow> th_pc (ts ! j) = AcqAdd d \<Longrightarrow> pl_live p < spc_max_size cfg"
    and closed: "pl_closed p \<longrightarrow> pl_idle p = []"
    using inv by (auto simp: pool_inv_def)
  have live: "pl_live p' \<le> pl_live p \<or> (\<exists>d. ?pc = AcqAdd d) \<and> unat (pl_live p') = unat (pl_live p) + 1"
    using c by (auto simp: word_le_nat_alt)
  have total': "unat (pl_live p') = length (pl_idle p') + owned_total (ts[i := t])"
    using c total owned_total_update [OF i, of t] owned_le_total [OF i] by linarith
  have max': "pl_live p' \<le> spc_max_size cfg"
    using live add [OF i] max by (auto simp: word_le_nat_alt word_less_nat_alt)
  have lock': "locked (th_pc (ts[i := t] ! j)) \<longleftrightarrow> pl_lock p' = Some j" if "j < length ts" for j
    using c lock [OF that] lock [OF i] i that by (cases "j = i") auto
  have bound': "j < length ts" if "pl_lock p' = Some j" for j
    using c that i bound by (auto split: if_splits)
  have add': "pl_live p' < spc_max_size cfg" if "j < length ts" "th_pc (ts[i := t] ! j) = AcqAdd d" for j d
  proof (cases "j = i")
    case True
    with that i step(2) show ?thesis by simp
  next
    case False
    with that have j: "th_pc (ts ! j) = AcqAdd d" by simp
    with lock [OF that(1)] lock [OF i] False have "\<not> (\<exists>d. ?pc = AcqAdd d)" by auto
    with live add [OF that(1) j] show ?thesis by auto
  qed
  have ok': "pc_ok (th_pc (ts[i := t] ! j))" if "j < length ts" for j
    using c ok [OF that] i that by (cases "j = i") auto
  have closed': "pl_closed p' \<longrightarrow> pl_idle p' = []" using c closed by blast
  show ?thesis
    unfolding pool_inv_def using total' max' lock' bound' add' ok' closed' by auto
qed

lemma pool_inv_run:
  assumes "pool_inv cfg (ts, p)" "i < length ts" "advance env cfg choice i (th_pc (ts ! i)) p = Some (pc', p')"
  shows "counts i (th_pc (ts ! i)) p pc' p' \<and> (\<forall>d. pc' = AcqAdd d \<longrightarrow> pl_live p' < spc_max_size cfg)"
proof (rule advance_counts [OF assms(3)])
  show "owned (th_pc (ts ! i)) + length (pl_idle p) \<le> unat (pl_live p)"
    using assms(1) owned_le_total [OF assms(2)] by (simp add: pool_inv_def)
qed (use assms(1,2) in \<open>auto simp: pool_inv_def\<close>)

lemma pool_step_inv:
  assumes "pool_step env cfg x y" "pool_inv cfg x"
  shows "pool_inv cfg y"
  using assms
proof (induction rule: pool_step.induct)
  case (run i ts choice p pc' p')
  from pool_inv_run [OF run.prems run.hyps] show ?case by (intro pool_inv_step [OF run.prems run.hyps(1)]) simp_all
next
  case (call i ts entry p)
  then show ?case by (intro pool_inv_step [OF call.prems call.hyps(1)]) (auto simp: counts_def)
next
  case (call_statement i ts p sql)
  then show ?case
    by (intro pool_inv_step [OF call_statement.prems call_statement.hyps(1)]) (auto simp: counts_def)
next
  case (failed i ts e p)
  then show ?case by (intro pool_inv_step [OF failed.prems failed.hyps(1)]) (auto simp: counts_def)
next
  case (use i ts s p s' w')
  then show ?case by (intro pool_inv_step [OF use.prems use.hyps(1)]) (auto simp: counts_def)
next
  case (drop_guard i ts s p)
  then show ?case by (intro pool_inv_step [OF drop_guard.prems drop_guard.hyps(1)]) (auto simp: counts_def)
next
  case (statement i ts s sql p r s' w')
  then show ?case by (intro pool_inv_step [OF statement.prems statement.hyps(1)]) (auto simp: counts_def)
qed

lemma open_eagerly_counts:
  assumes "open_eagerly env cfg n p = (Inr (), p')" "unat (pl_live p) = length (pl_idle p)"
    and "unat (pl_live p) + n \<le> unat (spc_max_size cfg)"
  shows "unat (pl_live p') = length (pl_idle p') \<and> unat (pl_live p') = unat (pl_live p) + n \<and>
    pl_lock p' = pl_lock p \<and> pl_closed p' = pl_closed p \<and> pl_waiting p' = pl_waiting p"
  using assms
proof (induction n arbitrary: p)
  case (Suc n)
  obtain r index w where o: "open_session env cfg (pl_database p) (pl_index p) (pl_world p) = (r, index, w)"
    by (rule prod_cases3)
  with Suc.prems(1) obtain s where r: "r = Inr s" by (cases r) auto
  obtain e w2 where e: "idle_entry_new env s w = (e, w2)" by (cases "idle_entry_new env s w")
  have "pl_live p < spc_max_size cfg" using Suc.prems(3) by (simp add: word_less_nat_alt)
  note succ = unat_succ_below [OF this]
  show ?case
    using Suc.IH [of "p\<lparr>pl_index := index, pl_world := w2, pl_idle := pl_idle p @ [e], pl_live := pl_live p + 1\<rparr>"]
      Suc.prems o r e succ by simp
qed simp

lemma pool_new_inv:
  assumes "pool_new env cfg index w = (Inr p, index', w')"
  shows "pool_inv cfg (idle_threads n, p) \<and> unat (pl_live p) = unat (spc_min_size cfg)"
proof -
  obtain now w1 where now: "e_now env w = (now, w1)" by (cases "e_now env w")
  let ?p = "\<lparr>pl_idle = [], pl_closed = False, pl_last_sweep = now, pl_lock = None, pl_waiting = [],
                 pl_live = 0, pl_database = sc_database (spc_session cfg), pl_index = index, pl_world = w1\<rparr>"
  have le: "unat (spc_min_size cfg) \<le> unat (spc_max_size cfg)"
    and run: "open_eagerly env cfg (unat (spc_min_size cfg)) ?p = (Inr (), p)"
    using assms now by (auto simp: pool_new_def word_le_nat_alt not_less split: if_splits prod.splits sum.splits)
  from open_eagerly_counts [OF run] le
  have "unat (pl_live p) = length (pl_idle p)" "unat (pl_live p) = unat (spc_min_size cfg)" "pl_lock p = None"
    "\<not> pl_closed p" by simp_all
  with le show ?thesis
    by (auto simp: pool_inv_def idle_threads_def owned_total_def word_le_nat_alt sum_list_replicate)
qed

lemma reachable_pool_inv: "pool_reachable env cfg x \<Longrightarrow> pool_inv cfg x"
proof (induction rule: pool_reachable.induct)
  case (created index w p index' w' n)
  then show ?case by (rule pool_new_inv [THEN conjunct1])
next
  case (step x y)
  show ?case by (rule pool_step_inv [OF step.hyps(2) step.IH])
qed

section \<open>The sweep on its own\<close>

text \<open>The sweep loop when no other thread touches \<^verbatim>\<open>live\<close> meanwhile: the sessions taken and those left.\<close>

function sweep_loop ::
    "session_pool_config \<Rightarrow> nat \<Rightarrow> usize \<Rightarrow> idle_entry list \<Rightarrow> nat \<Rightarrow> idle_entry list \<Rightarrow> idle_entry list \<times> idle_entry list" where
  "sweep_loop cfg now live idle i taken =
     (case sweep_turn cfg now live idle i (length taken) of
        SweepTake \<Rightarrow> sweep_loop cfg now live (remove_at i idle) i (taken @ [idle ! i])
      | SweepSkip \<Rightarrow> sweep_loop cfg now live idle (i + 1) taken
      | _ \<Rightarrow> (taken, idle))"
  by pat_completeness auto
termination
  by (relation "measure (\<lambda>(cfg, now, live, idle, i, taken). length idle - i)")
    (auto simp: sweep_turn_def split: if_splits)

declare sweep_loop.simps [simp del]

definition overdue :: "session_pool_config \<Rightarrow> nat \<Rightarrow> idle_entry \<Rightarrow> bool" where
  "overdue cfg now e \<longleftrightarrow> now - ie_since e > spc_max_idle_time cfg"

text \<open>Take the first \<open>n\<close> overdue entries out of a list.\<close>

fun take_overdue :: "session_pool_config \<Rightarrow> nat \<Rightarrow> nat \<Rightarrow> idle_entry list \<Rightarrow> idle_entry list \<times> idle_entry list" where
  "take_overdue cfg now n [] = ([], [])"
| "take_overdue cfg now 0 es = ([], es)"
| "take_overdue cfg now (Suc n) (e # es) =
     (if overdue cfg now e then apfst ((#) e) (take_overdue cfg now n es)
      else apsnd ((#) e) (take_overdue cfg now (Suc n) es))"

lemma take_overdue_0 [simp]: "take_overdue cfg now 0 es = ([], es)"
  by (cases es) simp_all

lemma remove_at_append [simp]: "remove_at (length xs) (xs @ y # ys) = xs @ ys"
  by (simp add: remove_at_def)

lemma sweep_loop_eq:
  assumes "length taken \<le> unat live" "i = length kept"
  shows "sweep_loop cfg now live (kept @ rest) i taken =
    (case take_overdue cfg now (unat live - length taken - unat (spc_min_size cfg)) rest of
       (out, left) \<Rightarrow> (taken @ out, kept @ left))"
  using assms
proof (induction rest arbitrary: kept i taken)
  case Nil
  then show ?case by (simp add: sweep_loop.simps [of cfg now live kept] sweep_turn_def)
next
  case (Cons e rest)
  have nlt: "\<not> live < word_of_nat (length taken)" using word_of_nat_le_live [OF Cons.prems(1)] by simp
  have diff: "unat (live - word_of_nat (length taken)) = unat live - length taken"
    using Cons.prems(1) by (simp add: unat_sub [OF word_of_nat_le_live] unat_word_of_nat_le)
  let ?n = "unat live - length taken - unat (spc_min_size cfg)"
  show ?case
  proof (cases ?n)
    case 0
    then have "live - word_of_nat (length taken) \<le> spc_min_size cfg" using diff by (simp add: word_le_nat_alt)
    with nlt Cons.prems 0 show ?thesis by (simp add: sweep_loop.simps [of cfg now live "kept @ e # rest"] sweep_turn_def)
  next
    case (Suc n)
    then have gt: "\<not> live - word_of_nat (length taken) \<le> spc_min_size cfg" using diff by (simp add: word_le_nat_alt)
    show ?thesis
    proof (cases "overdue cfg now e")
      case True
      have "sweep_loop cfg now live (kept @ e # rest) i taken = sweep_loop cfg now live (kept @ rest) i (taken @ [e])"
        using nlt gt Cons.prems(2) True
        by (simp add: sweep_loop.simps [of cfg now live "kept @ e # rest"] sweep_turn_def overdue_def)
      moreover have "unat live - length (taken @ [e]) - unat (spc_min_size cfg) = n" using Suc by simp
      ultimately show ?thesis
        using Cons.IH [of "taken @ [e]" i kept] Cons.prems(2) Suc True by (simp add: split_beta)
    next
      case False
      have "sweep_loop cfg now live (kept @ e # rest) i taken = sweep_loop cfg now live (kept @ e # rest) (i + 1) taken"
        using nlt gt Cons.prems(2) False
        by (subst sweep_loop.simps) (simp add: sweep_turn_def overdue_def)
      then show ?thesis
        using Cons.IH [of taken "i + 1" "kept @ [e]"] Cons.prems Suc False by (simp add: split_beta)
    qed
  qed
qed

section \<open>Progress\<close>

lemma advance_None:
  assumes "advance env cfg choice i pc p = None" "pc_ok pc"
  shows "pl_lock p \<noteq> None \<or> pc \<in> {Outside} \<union> range Failed \<union> range Holding"
proof (cases pc)
  case (Closing k ss)
  with assms show ?thesis by (cases ss) simp_all
next
  case (DeviceLock device)
  with assms show ?thesis by (auto simp: device_lock_def Let_def split: if_splits prod.splits option.splits)
next
  case (RelLock s)
  with assms show ?thesis by (auto simp: release_lock_def Let_def split: if_splits prod.splits)
qed (use assms in \<open>auto simp: acquire_lock_def close_lock_def split: if_splits\<close>)

lemma locked_advances: "locked pc \<Longrightarrow> advance env cfg choice i pc p \<noteq> None"
  by (cases pc) simp_all

section \<open>Runs\<close>

text \<open>Let the threads advance in a given order, each with a given choice for its notifications.\<close>

fun run_schedule ::
    "'w env \<Rightarrow> session_pool_config \<Rightarrow> (nat \<times> nat) list \<Rightarrow> 'w psystem \<Rightarrow> 'w psystem option" where
  "run_schedule env cfg [] x = Some x"
| "run_schedule env cfg ((i, choice) # acts) (ts, p) =
     (if i < length ts then
        (case advance env cfg choice i (th_pc (ts ! i)) p of
           None \<Rightarrow> None
         | Some (pc', p') \<Rightarrow> run_schedule env cfg acts (ts[i := (ts ! i)\<lparr>th_pc := pc'\<rparr>], p'))
      else None)"

lemma reachable_schedule:
  "run_schedule env cfg acts x = Some y \<Longrightarrow> pool_reachable env cfg x \<Longrightarrow> pool_reachable env cfg y"
proof (induction env cfg acts x rule: run_schedule.induct)
  case (2 env cfg i choice acts ts p)
  then obtain pc' p' where a: "i < length ts" "advance env cfg choice i (th_pc (ts ! i)) p = Some (pc', p')"
    "run_schedule env cfg acts (ts[i := (ts ! i)\<lparr>th_pc := pc'\<rparr>], p') = Some y"
    by (auto split: if_splits option.splits)
  from "2.IH" [OF a(1,2) refl a(3) pool_reachable.step [OF "2.prems"(2) pool_step.run [OF a(1,2)]]] show ?case .
qed simp

text \<open>A pool of at most one session, created with the environment in which every call succeeds.\<close>

definition sample_pool_config :: session_pool_config where
  "sample_pool_config = \<lparr>spc_session = session_config_default, spc_max_size = 1, spc_min_size = 0,
     spc_acquire_timeout = 60, spc_max_idle_time = 60, spc_idle_sweep_interval = 30\<rparr>"

definition sample_pool :: "unit pool" where
  "sample_pool = \<lparr>pl_idle = [], pl_closed = False, pl_last_sweep = 0, pl_lock = None, pl_waiting = [],
     pl_live = 0, pl_database = None, pl_index = 0, pl_world = ()\<rparr>"

lemma sample_pool_new: "pool_new quiet_env sample_pool_config 0 () = (Inr sample_pool, 0, ())"
  by (simp add: pool_new_def sample_pool_config_def sample_pool_def quiet_env_def session_config_default_def)

lemma sample_open_session:
  "open_session quiet_env sample_pool_config None index () = (Inr sample_session, index + 1, ())"
  by (simp add: open_session_def session_open_def rotation_def connection_open_def connect_stream_def authenticate_def
      session_connection_options_def sample_pool_config_def eval_sample sample_connection_def Let_def)

lemma sample_fields:
  "e_now quiet_env w = (0, w)" "spc_max_size sample_pool_config = 1" "spc_acquire_timeout sample_pool_config = 60"
  "spc_idle_sweep_interval sample_pool_config = 30" "is_open sample_session"
  by (simp_all add: quiet_env_def sample_pool_config_def is_open_def sample_session_def install_def)

lemmas eval_pool = sample_fields acquire_start_def acquire_lock_def sweep_start_def swept_def acquire_pop_def acquire_grow_def
  acquire_add_def open_step_def sample_open_session hand_out_def acquire_full_def release_check_def live_sub_def
  notify_one_def remove_at_def unlock_def

text \<open>One thread acquires the pool's only session.\<close>

definition one_acquired :: "unit psystem" where
  "one_acquired = ([\<lparr>th_pc = Holding sample_session, th_sql = None\<rparr>, \<lparr>th_pc = Outside, th_sql = None\<rparr>],
     sample_pool\<lparr>pl_live := 1, pl_index := 1\<rparr>)"

lemma reachable_one_acquired: "pool_reachable quiet_env sample_pool_config one_acquired"
proof -
  let ?cfg = sample_pool_config and ?t = "\<lparr>th_pc = Outside, th_sql = None\<rparr>"
  have threads: "idle_threads 2 = [?t, ?t]" by (simp add: idle_threads_def numeral_2_eq_2)
  have "pool_reachable quiet_env ?cfg ([?t, ?t], sample_pool)"
    using pool_reachable.created [OF sample_pool_new, of 2] by (simp add: threads)
  then have "pool_reachable quiet_env ?cfg ([\<lparr>th_pc = AcqStart, th_sql = None\<rparr>, ?t], sample_pool)"
    using pool_step.call [of 0 "[?t, ?t]" AcqStart quiet_env ?cfg sample_pool] by (auto intro: pool_reachable.step)
  moreover have "run_schedule quiet_env ?cfg (replicate 9 (0, 0))
      ([\<lparr>th_pc = AcqStart, th_sql = None\<rparr>, ?t], sample_pool) = Some one_acquired"
    by (simp add: eval_pool one_acquired_def sample_pool_def eval_nat_numeral)
  ultimately show ?thesis by (rule reachable_schedule [rotated])
qed

section \<open>Choosing a session for a device\<close>







section \<open>Properties\<close>

text \<open>
  C1: under every interleaving of any number of threads, \<^verbatim>\<open>live\<close> is exactly the number of idle
  sessions plus those in the hands of threads, it never exceeds \<^verbatim>\<open>max_size\<close>, at most one thread is
  inside the state mutex, a closed pool has no idle sessions, and the unsigned subtraction of the
  sweep never underflows (no thread panics).
\<close>

theorem pool_live_bounded:
  assumes "pool_reachable env cfg (ts, p)"
  shows "unat (pl_live p) = length (pl_idle p) + owned_total ts \<and> pl_live p \<le> spc_max_size cfg \<and>
    (\<forall>i < length ts. \<forall>j < length ts. locked (th_pc (ts ! i)) \<and> locked (th_pc (ts ! j)) \<longrightarrow> i = j) \<and>
    (pl_closed p \<longrightarrow> pl_idle p = []) \<and> (\<forall>i < length ts. th_pc (ts ! i) \<noteq> Panicked)"
proof -
  note inv = reachable_pool_inv [OF assms, unfolded pool_inv_def prod.case]
  have "\<forall>i < length ts. th_pc (ts ! i) \<noteq> Panicked" using inv by (metis pc_ok.simps(2))
  with inv show ?thesis by auto
qed

theorem pool_live_bounded_witness:
  "unat (pl_live (snd one_acquired)) = 1 \<and> pl_live (snd one_acquired) \<le> 1 \<and> owned_total (fst one_acquired) = 1"
proof -
  have "pool_reachable quiet_env sample_pool_config (fst one_acquired, snd one_acquired)"
    using reachable_one_acquired by simp
  from pool_live_bounded [OF this] show ?thesis
    by (simp add: one_acquired_def sample_pool_def owned_total_def sample_fields)
qed

text \<open>
  C19: the pool never deadlocks. Whenever some thread is inside a call of the pool, some thread can
  take its next step: a thread that waits for the mutex waits for one that is running.
\<close>

theorem pool_no_deadlock:
  assumes "pool_reachable env cfg (ts, p)" "i < length ts"
    and "th_pc (ts ! i) \<notin> {Outside} \<union> range Failed \<union> range Holding"
  shows "\<exists>j < length ts. \<exists>pc' p'. advance env cfg choice j (th_pc (ts ! j)) p = Some (pc', p')"
proof (cases "advance env cfg choice i (th_pc (ts ! i)) p")
  case None
  note inv = reachable_pool_inv [OF assms(1), unfolded pool_inv_def prod.case]
  obtain j where "pl_lock p = Some j" using advance_None [OF None] inv assms(2,3) by blast
  with inv have "j < length ts" "locked (th_pc (ts ! j))" by auto
  with locked_advances show ?thesis by fastforce
next
  case (Some x)
  with assms(2) show ?thesis by (metis surj_pair)
qed

theorem pool_no_deadlock_witness:
  "\<exists>j < 2. \<exists>pc' p'. advance quiet_env sample_pool_config 0 j
     (th_pc ([\<lparr>th_pc = Holding sample_session, th_sql = None\<rparr>, \<lparr>th_pc = AcqStart, th_sql = None\<rparr>] ! j))
     (snd one_acquired) = Some (pc', p')"
proof -
  let ?ts = "[\<lparr>th_pc = Holding sample_session, th_sql = None\<rparr>, \<lparr>th_pc = AcqStart, th_sql = None\<rparr>]"
  have "pool_step quiet_env sample_pool_config one_acquired (?ts, snd one_acquired)"
    using pool_step.call [of 1 "fst one_acquired" AcqStart quiet_env sample_pool_config "snd one_acquired"]
    by (simp add: one_acquired_def)
  then have "pool_reachable quiet_env sample_pool_config (?ts, snd one_acquired)"
    using reachable_one_acquired by (rule pool_reachable.step [rotated])
  moreover have "th_pc (?ts ! 1) \<notin> {Outside} \<union> range Failed \<union> range Holding" by auto
  ultimately show ?thesis using pool_no_deadlock [of quiet_env sample_pool_config ?ts "snd one_acquired" 1 0]
    by (simp add: numeral_2_eq_2)
qed

text \<open>
  C31: with no other thread changing \<^verbatim>\<open>live\<close> meanwhile, a sweep takes out the overdue sessions oldest
  first, as many as leave \<^verbatim>\<open>min_size\<close> sessions alive and no more, and keeps the others in order.
\<close>

theorem sweep_spec:
  assumes "length idle \<le> unat live"
  shows "sweep_loop cfg now live idle 0 [] =
      take_overdue cfg now (unat live - unat (spc_min_size cfg)) idle \<and>
    unat live - length (fst (sweep_loop cfg now live idle 0 [])) \<ge> min (unat live) (unat (spc_min_size cfg))"
proof -
  have "length (fst (take_overdue cfg now n es)) \<le> n" for n es
    by (induction cfg now n es rule: take_overdue.induct) auto
  from this [of "unat live - unat (spc_min_size cfg)" idle] show ?thesis
    using sweep_loop_eq [of "[]" live 0 "[]" cfg now idle] by (simp add: split_beta)
qed

theorem sweep_spec_witness:
  "map ie_since (snd (sweep_loop (session_pool_config_default\<lparr>spc_max_idle_time := 1, spc_min_size := 1\<rparr>) 9 3
     (map (\<lambda>t. \<lparr>ie_session = sample_session, ie_since = t\<rparr>) [2, 8, 4]) 0 [])) = [8]"
proof -
  have "unat (3 :: usize) = 3" "unat (1 :: usize) = 1" by simp_all
  with sweep_spec [of "map (\<lambda>t. \<lparr>ie_session = sample_session, ie_since = t\<rparr>) [2, 8, 4]" 3
      "session_pool_config_default\<lparr>spc_max_idle_time := 1, spc_min_size := 1\<rparr>" 9]
  show ?thesis by (simp add: overdue_def eval_nat_numeral)
qed












text \<open>
  C29: a session is handed out in the pool's database: the pool has none, the session already is in
  it, or \<^verbatim>\<open>USE\<close> of it has just succeeded on the session. When the \<^verbatim>\<open>USE\<close> fails the caller gets its
  error, and by then the session has been closed and its slot freed.
\<close>

theorem hand_out_database:
  "case hand_out env s pool_db p of (pc', p') \<Rightarrow>
     (case pc' of
        Holding s' \<Rightarrow> s' = s \<and> (pool_db = None \<or> ss_database s = pool_db) \<or>
          (\<exists>db. pool_db = Some db \<and> execute_non_query env (''USE '' @ db) s (pl_world p) = (Inr (), s', pl_world p'))
      | UseFailed s' e \<Rightarrow>
          (\<exists>db. pool_db = Some db \<and> execute_non_query env (''USE '' @ db) s (pl_world p) = (Inl e, s', pl_world p')) \<and>
          (\<exists>p2. run_schedule env cfg [(0, 0), (0, c), (0, c)] ([\<lparr>th_pc = pc', th_sql = sql\<rparr>], p') =
             Some ([\<lparr>th_pc = Failed e, th_sql = sql\<rparr>], p2) \<and> pl_live p2 = pl_live p - 1 \<and>
             pl_world p2 = snd (session_close env s' (pl_world p')))
      | _ \<Rightarrow> False)"
proof -
  obtain r s' w where "execute_non_query env (''USE '' @ the pool_db) s (pl_world p) = (r, s', w)" by (rule prod_cases3)
  then show ?thesis
    by (cases pool_db; cases r)
      (auto simp: hand_out_def live_sub_def close_step_def notify_one_def)
qed

text \<open>
  C40: a wake-up can be lost. A dead session that is released frees its slot and notifies without
  holding the state mutex, so this can fall between another thread's check of \<^verbatim>\<open>live\<close> and its wait:
  that thread then waits, still registered, while the pool is below its maximum and nobody else is
  inside it, until its timeout expires.
\<close>

theorem pool_lost_wakeup:
  "\<exists>(p :: unit pool) d. pool_reachable quiet_env sample_pool_config
      ([\<lparr>th_pc = Outside, th_sql = None\<rparr>, \<lparr>th_pc = Waiting d, th_sql = None\<rparr>], p) \<and>
    1 \<in> set (pl_waiting p) \<and> pl_live p < spc_max_size sample_pool_config \<and> \<not> pl_closed p \<and> 0 < d \<and>
    fst (e_now quiet_env (pl_world p)) = 0"
proof -
  let ?cfg = sample_pool_config and ?R = "pool_reachable quiet_env sample_pool_config"
  let ?out = "\<lparr>th_pc = Outside, th_sql = None\<rparr>" and ?hold = "\<lambda>s. \<lparr>th_pc = Holding s, th_sql = None\<rparr>"
  let ?p = "sample_pool\<lparr>pl_live := 1, pl_index := 1\<rparr>" and ?dead = "sample_session\<lparr>ss_connection := None\<rparr>"
  have "?R ([?hold ?dead, ?out], ?p)"
    using pool_reachable.step [OF reachable_one_acquired [unfolded one_acquired_def]
        pool_step.use [of 0 _ sample_session quiet_env ?cfg _ ?dead "()"]] by (simp add: sample_pool_def)
  from pool_reachable.step [OF this pool_step.call [of 1 _ AcqStart]]
  have "?R ([?hold ?dead, \<lparr>th_pc = AcqStart, th_sql = None\<rparr>], ?p)" by simp
  from reachable_schedule [OF _ this, of "replicate 4 (1, 0)"]
  have "?R ([?hold ?dead, \<lparr>th_pc = AcqFull 60, th_sql = None\<rparr>], ?p\<lparr>pl_lock := Some 1\<rparr>)"
    by (simp add: eval_pool sample_pool_def eval_nat_numeral)
  from pool_reachable.step [OF this pool_step.drop_guard [of 0 _ ?dead]]
  have "?R ([\<lparr>th_pc = RelCheck ?dead, th_sql = None\<rparr>, \<lparr>th_pc = AcqFull 60, th_sql = None\<rparr>], ?p\<lparr>pl_lock := Some 1\<rparr>)"
    by simp
  from reachable_schedule [OF _ this, of "[(0, 0), (0, 0), (0, 0), (1, 0)]"]
  have "?R ([?out, \<lparr>th_pc = Waiting 60, th_sql = None\<rparr>],
      ?p\<lparr>pl_live := 0, pl_waiting := [1]\<rparr>)"
    by (simp add: eval_pool sample_pool_def is_open_def)
  then show ?thesis
    by (intro exI [of _ "?p\<lparr>pl_live := 0, pl_waiting := [1]\<rparr>"] exI [of _ 60]) (simp add: sample_fields sample_pool_def)
qed

end
