(* ===== verification/ThriftProtocol.thy ===== *)
theory ThriftProtocol
  imports ThriftTypes
begin

text \<open>
  What the generated code under \<^verbatim>\<open>src/protocol\<close> does with a Thrift protocol, without saying which
  protocol it is. The \<^verbatim>\<open>thrift\<close> crate is not part of the sources: its input protocol and its checks
  are the parameter \<open>in_protocol\<close>, over an arbitrary stream \<open>'i\<close>, and a writer is the list of calls it
  makes on the output protocol, in order. The locale \<open>thrift_wire\<close> states what the code relies on: a
  stream that carries what a sequence of output calls wrote gives the same values back, and the end
  markers have no encoding. Its lemmas are the rules by which every reader inverts its writer.
\<close>

section \<open>The protocol\<close>

type_synonym i16 = "16 word"

datatype t_type =
    TyStop | TyBool | TyI08 | TyDouble | TyI16 | TyI32 | TyI64 | TyString | TyStruct | TyMap | TySet | TyList

datatype message_type = MCall | MReply | MException | MOneWay

datatype out_call =
    OMessageBegin string message_type i32
  | OMessageEnd
  | OStructBegin string
  | OStructEnd
  | OFieldBegin string t_type i16
  | OFieldEnd
  | OFieldStop
  | OBool bool
  | OI8 i8
  | OI16 i16
  | OI32 i32
  | OI64 i64
  | ODouble f64
  | OString string
  | OBytes bytes
  | OListBegin t_type i32
  | OListEnd
  | OMapBegin t_type t_type i32
  | OMapEnd
  | OFlush

type_synonym ('i, 'a) in_call = "'i \<Rightarrow> (thrift_error + 'a) \<times> 'i"

record 'i in_protocol =
  ip_message_begin :: "('i, string \<times> message_type \<times> i32) in_call"
  ip_message_end :: "('i, unit) in_call"
  ip_struct_begin :: "('i, unit) in_call"
  ip_struct_end :: "('i, unit) in_call"
  ip_field_begin :: "('i, t_type \<times> i16 option) in_call"
  ip_field_end :: "('i, unit) in_call"
  ip_bool :: "('i, bool) in_call"
  ip_i8 :: "('i, i8) in_call"
  ip_i16 :: "('i, i16) in_call"
  ip_i32 :: "('i, i32) in_call"
  ip_i64 :: "('i, i64) in_call"
  ip_double :: "('i, f64) in_call"
  ip_string :: "('i, string) in_call"
  ip_bytes :: "('i, bytes) in_call"
  ip_list_begin :: "('i, t_type \<times> i32) in_call"
  ip_list_end :: "('i, unit) in_call"
  ip_map_begin :: "('i, i32) in_call"
  ip_map_end :: "('i, unit) in_call"
  ip_skip :: "t_type \<Rightarrow> ('i, unit) in_call"
  ip_application_error :: "('i, thrift_error) in_call"
  ip_field_id :: "i16 option \<Rightarrow> thrift_error + i16"
  ip_required :: "string \<Rightarrow> bool \<Rightarrow> thrift_error + unit"
  ip_sequence_number :: "i32 \<Rightarrow> i32 \<Rightarrow> thrift_error + unit"
  ip_service_call :: "string \<Rightarrow> string \<Rightarrow> thrift_error + unit"
  ip_message_type :: "message_type \<Rightarrow> message_type \<Rightarrow> thrift_error + unit"

section \<open>Readers\<close>

text \<open>
  A reader returns a value, fails with an error, panics, or, as the loop over the fields has no
  bound of its own, uses up the turns it was given.
\<close>

datatype 'a read_result = Done 'a | Fail thrift_error | Crash | Starved

type_synonym ('i, 'a) rd = "'i \<Rightarrow> 'a read_result \<times> 'i"

definition retp :: "'a \<Rightarrow> ('i, 'a) rd" where
  "retp x i = (Done x, i)"

definition bindp :: "('i, 'a) rd \<Rightarrow> ('a \<Rightarrow> ('i, 'b) rd) \<Rightarrow> ('i, 'b) rd" where
  "bindp m f i =
     (case m i of
        (Done x, i) \<Rightarrow> f x i
      | (Fail e, i) \<Rightarrow> (Fail e, i)
      | (Crash, i) \<Rightarrow> (Crash, i)
      | (Starved, i) \<Rightarrow> (Starved, i))"

definition callp :: "('i, 'a) in_call \<Rightarrow> ('i, 'a) rd" where
  "callp c i = (case c i of (Inl e, i) \<Rightarrow> (Fail e, i) | (Inr x, i) \<Rightarrow> (Done x, i))"

definition checkp :: "thrift_error + 'a \<Rightarrow> ('i, 'a) rd" where
  "checkp r i = (case r of Inl e \<Rightarrow> (Fail e, i) | Inr x \<Rightarrow> (Done x, i))"

definition crashp :: "('i, 'a) rd" where
  "crashp i = (Crash, i)"

text \<open>\<^verbatim>\<open>for _ in 0..size\<close>\<close>

fun read_times :: "nat \<Rightarrow> ('i, 'a) rd \<Rightarrow> ('i, 'a list) rd" where
  "read_times 0 f = retp []"
| "read_times (Suc n) f = bindp f (\<lambda>x. bindp (read_times n f) (\<lambda>xs. retp (x # xs)))"

text \<open>
  A list: \<^verbatim>\<open>Vec::with_capacity(size as usize)\<close> panics on a negative size, which the cast turns into a
  capacity no allocation can have.
\<close>

definition read_list :: "'i in_protocol \<Rightarrow> ('i, 'a) rd \<Rightarrow> ('i, 'a list) rd" where
  "read_list P elem =
     bindp (callp (ip_list_begin P)) (\<lambda>(ty, n).
       if sint n < 0 then crashp
       else bindp (read_times (nat (sint n)) elem) (\<lambda>xs.
            bindp (callp (ip_list_end P)) (\<lambda>_. retp xs)))"

lemma read_list_negative:
  "ip_list_begin P i = (Inr (ty, n), i') \<Longrightarrow> sint n < 0 \<Longrightarrow> read_list P elem i = (Crash, i')"
  by (simp add: read_list_def bindp_def callp_def crashp_def)

definition read_pair :: "('i, 'a) rd \<Rightarrow> ('i, 'b) rd \<Rightarrow> ('i, 'a \<times> 'b) rd" where
  "read_pair f g = bindp f (\<lambda>a. bindp g (\<lambda>b. retp (a, b)))"

definition read_map ::
    "'i in_protocol \<Rightarrow> ('i, 'k::linorder) rd \<Rightarrow> ('i, 'v) rd \<Rightarrow> ('i, ('k, 'v) btree_map) rd" where
  "read_map P key val =
     bindp (callp (ip_map_begin P)) (\<lambda>n.
     bindp (read_times (nat (sint n)) (read_pair key val)) (\<lambda>kvs.
     bindp (callp (ip_map_end P)) (\<lambda>_.
     retp (fold (\<lambda>(k, v) m. bt_insert k v m) kvs []))))"

text \<open>The loop over the fields of a structure, for at most \<open>n\<close> turns.\<close>

fun read_fields :: "'i in_protocol \<Rightarrow> nat \<Rightarrow> (i16 \<Rightarrow> t_type \<Rightarrow> 'a \<Rightarrow> ('i, 'a) rd) \<Rightarrow> 'a \<Rightarrow> ('i, 'a) rd" where
  "read_fields P 0 h acc = (\<lambda>i. (Starved, i))"
| "read_fields P (Suc n) h acc =
     bindp (callp (ip_field_begin P)) (\<lambda>(ty, ident).
       if ty = TyStop then retp acc
       else
         bindp (checkp (ip_field_id P ident)) (\<lambda>k.
         bindp (h k ty acc) (\<lambda>acc.
         bindp (callp (ip_field_end P)) (\<lambda>_.
         read_fields P n h acc))))"

text \<open>
  \<^verbatim>\<open>verify_required_field_exists\<close> and the \<^verbatim>\<open>expect\<close> of the same field. The code makes all the checks and
  then takes the fields; as a check that passes leaves nothing for its \<^verbatim>\<open>expect\<close> to refuse, each field
  can be taken right after its check.
\<close>

definition required :: "'i in_protocol \<Rightarrow> string \<Rightarrow> 'a option \<Rightarrow> ('i, 'a) rd" where
  "required P field_name x =
     bindp (checkp (ip_required P field_name (x \<noteq> None)))
       (\<lambda>_. case x of None \<Rightarrow> crashp | Some v \<Rightarrow> retp v)"

definition read_struct ::
    "'i in_protocol \<Rightarrow> nat \<Rightarrow> (i16 \<Rightarrow> t_type \<Rightarrow> 'a \<Rightarrow> ('i, 'a) rd) \<Rightarrow> 'a \<Rightarrow> ('a \<Rightarrow> ('i, 'b) rd) \<Rightarrow> ('i, 'b) rd" where
  "read_struct P n h start finish =
     bindp (callp (ip_struct_begin P)) (\<lambda>_.
     bindp (read_fields P n h start) (\<lambda>acc.
     bindp (callp (ip_struct_end P)) (\<lambda>_. finish acc)))"

text \<open>\<^verbatim>\<open>let val = f(i_prot)?; f_k = Some(val)\<close>, and the unknown field.\<close>

definition store :: "('i, 'v) rd \<Rightarrow> ('v option \<Rightarrow> 'a) \<Rightarrow> ('i, 'a) rd" where
  "store f put = bindp f (\<lambda>v. retp (put (Some v)))"

definition skip_field :: "'i in_protocol \<Rightarrow> t_type \<Rightarrow> 'a \<Rightarrow> ('i, 'a) rd" where
  "skip_field P ty acc = bindp (callp (ip_skip P ty)) (\<lambda>_. retp acc)"

text \<open>The error of a number that no variant of an enumeration has.\<close>

definition show_i32 :: "i32 \<Rightarrow> string" where
  "show_i32 i = (if sint i < 0 then ''-'' @ show_nat (nat (- sint i)) else show_nat (nat (sint i)))"

definition no_variant :: "string \<Rightarrow> i32 \<Rightarrow> thrift_error" where
  "no_variant enum i = ProtocolError (''cannot convert enum constant '' @ show_i32 i @ '' to '' @ enum)"

section \<open>Writers\<close>

text \<open>
  The end of a list or map is written inside the loop over the elements: once per element, and not
  at all for an empty one.
\<close>

definition w_list :: "t_type \<Rightarrow> ('a \<Rightarrow> out_call list) \<Rightarrow> 'a list \<Rightarrow> out_call list" where
  "w_list ty w xs = OListBegin ty (word_of_nat (length xs)) # concat (map (\<lambda>x. w x @ [OListEnd]) xs)"

definition w_map ::
    "t_type \<Rightarrow> t_type \<Rightarrow> ('k \<Rightarrow> out_call list) \<Rightarrow> ('v \<Rightarrow> out_call list) \<Rightarrow> ('k, 'v) btree_map \<Rightarrow> out_call list" where
  "w_map kt vt kw vw m =
     OMapBegin kt vt (word_of_nat (length m)) # concat (map (\<lambda>(k, v). kw k @ vw v @ [OMapEnd]) m)"

definition w_field :: "string \<Rightarrow> t_type \<Rightarrow> i16 \<Rightarrow> ('a \<Rightarrow> out_call list) \<Rightarrow> 'a \<Rightarrow> out_call list" where
  "w_field name ty k w x = OFieldBegin name ty k # w x @ [OFieldEnd]"

definition w_opt :: "string \<Rightarrow> t_type \<Rightarrow> i16 \<Rightarrow> ('a \<Rightarrow> out_call list) \<Rightarrow> 'a option \<Rightarrow> out_call list" where
  "w_opt name ty k w x = (case x of None \<Rightarrow> [] | Some v \<Rightarrow> w_field name ty k w v)"

definition w_struct :: "string \<Rightarrow> out_call list \<Rightarrow> out_call list" where
  "w_struct name body = OStructBegin name # body @ [OFieldStop, OStructEnd]"

abbreviation w_string :: "string \<Rightarrow> out_call list" where "w_string s \<equiv> [OString s]"
abbreviation w_bytes :: "bytes \<Rightarrow> out_call list" where "w_bytes b \<equiv> [OBytes b]"
abbreviation w_bool :: "bool \<Rightarrow> out_call list" where "w_bool b \<equiv> [OBool b]"
abbreviation w_i8 :: "i8 \<Rightarrow> out_call list" where "w_i8 x \<equiv> [OI8 x]"
abbreviation w_i16 :: "i16 \<Rightarrow> out_call list" where "w_i16 x \<equiv> [OI16 x]"
abbreviation w_i32 :: "i32 \<Rightarrow> out_call list" where "w_i32 x \<equiv> [OI32 x]"
abbreviation w_i64 :: "i64 \<Rightarrow> out_call list" where "w_i64 x \<equiv> [OI64 x]"
abbreviation w_double :: "f64 \<Rightarrow> out_call list" where "w_double x \<equiv> [ODouble x]"

section \<open>What fits on the wire\<close>

text \<open>Sizes are written as \<^verbatim>\<open>i32\<close>, and strings are Rust strings.\<close>

definition short :: "'a list \<Rightarrow> bool" where
  "short xs \<longleftrightarrow> length xs < 2 ^ 31"

definition str_ok :: "string \<Rightarrow> bool" where
  "str_ok s \<longleftrightarrow> valid_str s \<and> short s"

definition list_ok :: "('a \<Rightarrow> bool) \<Rightarrow> 'a list \<Rightarrow> bool" where
  "list_ok ok xs \<longleftrightarrow> short xs \<and> list_all ok xs"

definition opt_ok :: "('a \<Rightarrow> bool) \<Rightarrow> 'a option \<Rightarrow> bool" where
  "opt_ok ok x \<longleftrightarrow> (case x of None \<Rightarrow> True | Some v \<Rightarrow> ok v)"

definition map_ok :: "('k::linorder \<Rightarrow> bool) \<Rightarrow> ('v \<Rightarrow> bool) \<Rightarrow> ('k, 'v) btree_map \<Rightarrow> bool" where
  "map_ok kok vok m \<longleftrightarrow> short m \<and> wf_btree m \<and> list_all (\<lambda>(k, v). kok k \<and> vok v) m"

text \<open>Inserting the entries of a map in order builds the map again.\<close>

lemma bt_insert_above: "\<forall>x \<in> fst ` set m. x < k \<Longrightarrow> bt_insert k v m = m @ [(k, v)]"
  by (induction m) (auto dest: less_imp_not_less)

lemma bt_rebuild_from:
  "wf_btree (m @ kvs) \<Longrightarrow> fold (\<lambda>(k, v) m. bt_insert k v m) kvs m = m @ kvs"
proof (induction kvs arbitrary: m)
  case (Cons kv kvs)
  obtain k v where kv: "kv = (k, v)" by force
  have "bt_insert k v m = m @ [(k, v)]"
    using Cons.prems by (intro bt_insert_above) (auto simp: kv wf_btree_def sorted_wrt_append)
  then show ?case using Cons.IH [of "m @ [(k, v)]"] Cons.prems by (simp add: kv)
qed simp

lemma bt_rebuild: "wf_btree kvs \<Longrightarrow> fold (\<lambda>(k, v) m. bt_insert k v m) kvs [] = kvs"
  using bt_rebuild_from [of "[]" kvs] by simp

section \<open>What the code relies on\<close>

text \<open>
  \<open>holds cs i\<close>: the stream \<open>i\<close> carries what the calls \<open>cs\<close> wrote, and then whatever follows. The laws
  are those of a Thrift protocol: reading gives back what was written, the end markers (and the
  flush) have no encoding, and the checks accept what they are documented to accept.
\<close>

locale thrift_wire =
  fixes P :: "'i in_protocol" and holds :: "out_call list \<Rightarrow> 'i \<Rightarrow> bool"
  assumes message_begin: "str_ok name \<Longrightarrow> holds (OMessageBegin name mt sn # cs) i \<Longrightarrow>
      \<exists>i'. ip_message_begin P i = (Inr (name, mt, sn), i') \<and> holds cs i'"
    and struct_begin: "holds (OStructBegin name # cs) i \<Longrightarrow> \<exists>i'. ip_struct_begin P i = (Inr (), i') \<and> holds cs i'"
    and field_begin: "ty \<noteq> TyStop \<Longrightarrow> holds (OFieldBegin name ty k # cs) i \<Longrightarrow>
      \<exists>i'. ip_field_begin P i = (Inr (ty, Some k), i') \<and> holds cs i'"
    and field_stop: "holds (OFieldStop # cs) i \<Longrightarrow> \<exists>i' k. ip_field_begin P i = (Inr (TyStop, k), i') \<and> holds cs i'"
    and bool: "holds (OBool b # cs) i \<Longrightarrow> \<exists>i'. ip_bool P i = (Inr b, i') \<and> holds cs i'"
    and i8: "holds (OI8 x # cs) i \<Longrightarrow> \<exists>i'. ip_i8 P i = (Inr x, i') \<and> holds cs i'"
    and i16: "holds (OI16 u # cs) i \<Longrightarrow> \<exists>i'. ip_i16 P i = (Inr u, i') \<and> holds cs i'"
    and i32: "holds (OI32 y # cs) i \<Longrightarrow> \<exists>i'. ip_i32 P i = (Inr y, i') \<and> holds cs i'"
    and i64: "holds (OI64 z # cs) i \<Longrightarrow> \<exists>i'. ip_i64 P i = (Inr z, i') \<and> holds cs i'"
    and double: "holds (ODouble dbl # cs) i \<Longrightarrow> \<exists>i'. ip_double P i = (Inr dbl, i') \<and> holds cs i'"
    and str: "str_ok s \<Longrightarrow> holds (OString s # cs) i \<Longrightarrow> \<exists>i'. ip_string P i = (Inr s, i') \<and> holds cs i'"
    and bytes: "short bs \<Longrightarrow> holds (OBytes bs # cs) i \<Longrightarrow> \<exists>i'. ip_bytes P i = (Inr bs, i') \<and> holds cs i'"
    and list_begin: "0 \<le> sint n \<Longrightarrow> holds (OListBegin ty n # cs) i \<Longrightarrow>
      \<exists>i'. ip_list_begin P i = (Inr (ty, n), i') \<and> holds cs i'"
    and map_begin: "0 \<le> sint n \<Longrightarrow> holds (OMapBegin kt vt n # cs) i \<Longrightarrow>
      \<exists>i'. ip_map_begin P i = (Inr n, i') \<and> holds cs i'"
    and no_encoding: "c \<in> {OMessageEnd, OStructEnd, OFieldEnd, OListEnd, OMapEnd, OFlush} \<Longrightarrow>
      holds (c # cs) i \<longleftrightarrow> holds cs i"
    and ends: "f \<in> {ip_message_end P, ip_struct_end P, ip_field_end P, ip_list_end P, ip_map_end P} \<Longrightarrow>
      holds cs i \<Longrightarrow> \<exists>i'. f i = (Inr (), i') \<and> holds cs i'"
    and field_id: "ip_field_id P (Some k) = Inr k"
    and present: "ip_required P field True = Inr ()"
    and absent: "isl (ip_required P field False)"
    and same_sequence: "ip_sequence_number P sn sn = Inr ()"
    and other_sequence: "sn \<noteq> sn' \<Longrightarrow> isl (ip_sequence_number P sn sn')"
    and same_service: "ip_service_call P name name = Inr ()"
    and other_service: "name \<noteq> name' \<Longrightarrow> isl (ip_service_call P name name')"
    and same_type: "ip_message_type P mt mt = Inr ()"
    and other_type: "mt \<noteq> mt' \<Longrightarrow> isl (ip_message_type P mt mt')"
begin

text \<open>\<open>reads f cs x\<close>: wherever the stream carries \<open>cs\<close>, the reader \<open>f\<close> returns \<open>x\<close> and stops right after.\<close>

definition reads :: "('i, 'a) rd \<Rightarrow> out_call list \<Rightarrow> 'a \<Rightarrow> bool" where
  "reads f cs x \<longleftrightarrow> (\<forall>rest i. holds (cs @ rest) i \<longrightarrow> (\<exists>i'. f i = (Done x, i') \<and> holds rest i'))"

lemma readsI: "(\<And>rest i. holds (cs @ rest) i \<Longrightarrow> \<exists>i'. f i = (Done x, i') \<and> holds rest i') \<Longrightarrow> reads f cs x"
  unfolding reads_def by blast

lemma reads_dest: "reads f cs x \<Longrightarrow> holds (cs @ rest) i \<Longrightarrow> \<exists>i'. f i = (Done x, i') \<and> holds rest i'"
  unfolding reads_def by blast

lemma reads_retp: "reads (retp x) [] x"
  by (simp add: reads_def retp_def)

lemma reads_bindp:
  assumes "reads f cs x" "reads (g x) cs' y"
  shows "reads (bindp f g) (cs @ cs') y"
proof (rule readsI)
  fix rest i
  assume "holds ((cs @ cs') @ rest) i"
  then obtain i1 where 1: "f i = (Done x, i1)" "holds (cs' @ rest) i1" using reads_dest [OF assms(1)] by fastforce
  from reads_dest [OF assms(2) this(2)] 1(1) show "\<exists>i'. bindp f g i = (Done y, i') \<and> holds rest i'"
    by (auto simp: bindp_def)
qed

lemma reads_bindpI: "reads f cs x \<Longrightarrow> reads (g x) cs' y \<Longrightarrow> cs'' = cs @ cs' \<Longrightarrow> reads (bindp f g) cs'' y"
  using reads_bindp by simp

lemma reads_bindp_end:
  assumes "reads f cs x" "reads (g x) [] y" shows "reads (bindp f g) cs y"
  using assms by (rule reads_bindpI) simp

lemma reads_callp:
  assumes "\<And>rest i. holds (c # rest) i \<Longrightarrow> \<exists>i'. f i = (Inr x, i') \<and> holds rest i'"
  shows "reads (callp f) [c] x"
proof (rule readsI)
  fix rest i
  assume "holds ([c] @ rest) i"
  with assms obtain i' where "f i = (Inr x, i')" "holds rest i'" by auto
  then show "\<exists>i'. callp f i = (Done x, i') \<and> holds rest i'" by (simp add: callp_def)
qed

lemma reads_prims:
  "reads (callp (ip_bool P)) [OBool b] b" "reads (callp (ip_i8 P)) [OI8 x] x"
  "reads (callp (ip_i32 P)) [OI32 y] y" "reads (callp (ip_i64 P)) [OI64 z] z"
  "str_ok s \<Longrightarrow> reads (callp (ip_string P)) [OString s] s"
  "short bs \<Longrightarrow> reads (callp (ip_bytes P)) [OBytes bs] bs"
  "reads (callp (ip_i16 P)) [OI16 u] u" "reads (callp (ip_double P)) [ODouble f] f"
  by (rule reads_callp, erule bool i8 i16 i32 i64 double str bytes, (assumption)?)+

lemma reads_end:
  assumes "f \<in> {ip_message_end P, ip_struct_end P, ip_field_end P, ip_list_end P, ip_map_end P}"
  shows "reads (callp f) [] ()"
  using ends [OF assms] by (fastforce simp: reads_def callp_def)

lemma reads_marker:
  assumes "reads f cs x" "c \<in> {OMessageEnd, OStructEnd, OFieldEnd, OListEnd, OMapEnd, OFlush}"
  shows "reads f (cs @ [c]) x"
proof (rule readsI)
  fix rest i
  assume "holds ((cs @ [c]) @ rest) i"
  then obtain i' where "f i = (Done x, i')" "holds (c # rest) i'" using reads_dest [OF assms(1)] by fastforce
  then show "\<exists>i'. f i = (Done x, i') \<and> holds rest i'" using no_encoding [OF assms(2)] by blast
qed

lemma reads_begin:
  "reads (callp (ip_struct_begin P)) [OStructBegin name] ()"
  "ty \<noteq> TyStop \<Longrightarrow> reads (callp (ip_field_begin P)) [OFieldBegin name ty k] (ty, Some k)"
  "0 \<le> sint n \<Longrightarrow> reads (callp (ip_list_begin P)) [OListBegin ty n] (ty, n)"
  "0 \<le> sint n \<Longrightarrow> reads (callp (ip_map_begin P)) [OMapBegin kt vt n] n"
  "str_ok name \<Longrightarrow> reads (callp (ip_message_begin P)) [OMessageBegin name mt sn] (name, mt, sn)"
  by (rule reads_callp, erule struct_begin field_begin list_begin map_begin message_begin, (assumption)?)+

subsection \<open>Lists and maps\<close>

lemma reads_times:
  assumes "\<And>x. x \<in> set xs \<Longrightarrow> reads f (w x) x"
  shows "reads (read_times (length xs) f) (concat (map w xs)) xs"
  using assms
proof (induction xs)
  case Nil
  then show ?case by (simp add: reads_retp)
next
  case (Cons x xs)
  then have "reads f (w x) x" "reads (read_times (length xs) f) (concat (map w xs)) xs" by auto
  then show ?case by (simp, intro reads_bindpI [of f] reads_bindp_end [of "read_times (length xs) f"]) (auto intro: reads_retp)
qed

text \<open>The elements, each with its end marker, and the end of the container.\<close>

lemma reads_elements:
  assumes "\<And>x. x \<in> set xs \<Longrightarrow> reads f (w x) x" "c \<in> {ip_list_end P, ip_map_end P}"
  shows "reads (bindp (read_times (length xs) f) (\<lambda>xs. bindp (callp c) (\<lambda>_. retp (g xs)))) (concat (map w xs)) (g xs)"
proof (rule reads_bindp_end)
  show "reads (read_times (length xs) f) (concat (map w xs)) xs" using assms(1) by (rule reads_times)
  have "reads (callp c) [] ()" using assms(2) by (intro reads_end) blast
  then show "reads (bindp (callp c) (\<lambda>_. retp (g xs))) [] (g xs)" by (rule reads_bindp_end) (rule reads_retp)
qed

text \<open>
  \<open>wire f w ok\<close>: the reader \<open>f\<close> gives back what the writer \<open>w\<close> wrote of any value that is \<open>ok\<close>. The rules
  follow the shape of the types, so that the readers of the structures are checked by resolution.
\<close>

definition wire :: "('i, 'a) rd \<Rightarrow> ('a \<Rightarrow> out_call list) \<Rightarrow> ('a \<Rightarrow> bool) \<Rightarrow> bool" where
  "wire f w ok \<longleftrightarrow> (\<forall>x. ok x \<longrightarrow> reads f (w x) x)"

lemma wireI: "(\<And>x. ok x \<Longrightarrow> reads f (w x) x) \<Longrightarrow> wire f w ok"
  by (simp add: wire_def)

lemma wireD: "wire f w ok \<Longrightarrow> ok x \<Longrightarrow> reads f (w x) x"
  by (simp add: wire_def)

lemma wire_prims:
  "wire (callp (ip_bool P)) w_bool (\<lambda>_. True)" "wire (callp (ip_i8 P)) w_i8 (\<lambda>_. True)"
  "wire (callp (ip_i32 P)) w_i32 (\<lambda>_. True)" "wire (callp (ip_i64 P)) w_i64 (\<lambda>_. True)"
  "wire (callp (ip_string P)) w_string str_ok" "wire (callp (ip_bytes P)) w_bytes short"
  "wire (callp (ip_i16 P)) w_i16 (\<lambda>_. True)" "wire (callp (ip_double P)) w_double (\<lambda>_. True)"
  by (simp_all add: wire_def reads_prims)

text \<open>Two arguments, and an enumeration, which is written as its number.\<close>

lemma wireI2:
  "(\<And>x y. ok x y \<Longrightarrow> reads f (w x y) (x, y)) \<Longrightarrow> wire f (\<lambda>(x, y). w x y) (\<lambda>(x, y). ok x y)"
  by (auto simp: wire_def)

lemma wire_enum:
  assumes "\<And>v. \<exists>i. w v = [OI32 i] \<and> conv i = Inr v"
  shows "wire (bindp (callp (ip_i32 P)) (\<lambda>i. checkp (conv i))) w (\<lambda>_. True)"
proof (rule wireI)
  fix v
  obtain i where "w v = [OI32 i]" "conv i = Inr v" using assms by blast
  moreover have "reads (checkp (Inr v)) [] v" by (simp add: reads_def checkp_def)
  ultimately show "reads (bindp (callp (ip_i32 P)) (\<lambda>i. checkp (conv i))) (w v) v"
    by (simp add: reads_bindp_end [OF reads_prims(3)])
qed

lemma wire_list:
  assumes "wire f w ok"
  shows "wire (read_list P f) (w_list ty w) (list_ok ok)"
proof (rule wireI)
  fix xs
  assume ok: "list_ok ok xs"
  let ?n = "word_of_nat (length xs) :: i32"
  have n: "sint ?n = int (length xs)" using ok by (simp add: list_ok_def short_def sint_of_nat_i32)
  have "reads (bindp (read_times (length xs) f) (\<lambda>xs. bindp (callp (ip_list_end P)) (\<lambda>_. retp xs)))
          (concat (map (\<lambda>x. w x @ [OListEnd]) xs)) xs"
    using ok assms by (intro reads_elements reads_marker) (auto simp: list_ok_def list_all_iff wire_def)
  then show "reads (read_list P f) (w_list ty w xs) xs"
    unfolding read_list_def w_list_def by (intro reads_bindpI [OF reads_begin(3) [of ?n ty]]) (simp_all add: n)
qed

lemma reads_pair:
  assumes "reads f cs a" "reads g cs' b"
  shows "reads (read_pair f g) (cs @ cs') (a, b)"
  unfolding read_pair_def by (rule reads_bindp [OF assms(1)], rule reads_bindp_end [OF assms(2)], rule reads_retp)

lemma wire_map:
  fixes kok :: "'k::linorder \<Rightarrow> bool"
  assumes "wire f kw kok" "wire g vw vok"
  shows "wire (read_map P f g) (w_map kt vt kw vw) (map_ok kok vok)"
proof (rule wireI)
  fix m
  assume ok: "map_ok kok vok m"
  let ?n = "word_of_nat (length m) :: i32" and ?w = "\<lambda>(k, v). kw k @ vw v @ [OMapEnd]"
  have n: "sint ?n = int (length m)" using ok by (simp add: map_ok_def short_def sint_of_nat_i32)
  have el: "reads (read_pair f g) (?w kv) kv" if "kv \<in> set m" for kv
    using ok assms that by (cases kv) (auto simp: map_ok_def list_all_iff wire_def intro!: reads_pair reads_marker)
  have "reads (bindp (read_times (length m) (read_pair f g)) (\<lambda>kvs. bindp (callp (ip_map_end P))
          (\<lambda>_. retp (fold (\<lambda>(k, v) m. bt_insert k v m) kvs [])))) (concat (map ?w m)) m"
    using reads_elements [of m "read_pair f g" ?w "ip_map_end P" "\<lambda>kvs. fold (\<lambda>(k, v) m. bt_insert k v m) kvs []"]
      el bt_rebuild [of m] ok by (simp add: map_ok_def)
  then show "reads (read_map P f g) (w_map kt vt kw vw m) m"
    unfolding read_map_def w_map_def by (intro reads_bindpI [OF reads_begin(4) [of ?n kt vt]]) (simp_all add: n)
qed

subsection \<open>Structures\<close>

text \<open>
  \<open>reads_fields m h acc cs acc'\<close>: with \<open>m\<close> turns or more, the loop over the fields takes \<open>acc\<close> to
  \<open>acc'\<close> over \<open>cs\<close>.
\<close>

definition reads_fields :: "nat \<Rightarrow> (i16 \<Rightarrow> t_type \<Rightarrow> 'a \<Rightarrow> ('i, 'a) rd) \<Rightarrow> 'a \<Rightarrow> out_call list \<Rightarrow> 'a \<Rightarrow> bool" where
  "reads_fields m h acc cs acc' \<longleftrightarrow> (\<forall>n \<ge> m. reads (read_fields P n h acc) cs acc')"

lemma reads_fields_stop: "reads_fields (Suc 0) h acc [OFieldStop] acc"
  unfolding reads_fields_def
proof (intro allI impI readsI)
  fix n rest i
  assume "Suc 0 \<le> n" "holds ([OFieldStop] @ rest) i"
  moreover then obtain i' k where "ip_field_begin P i = (Inr (TyStop, k), i')" "holds rest i'"
    using field_stop by fastforce
  ultimately show "\<exists>i'. read_fields P n h acc i = (Done acc, i') \<and> holds rest i'"
    by (cases n) (auto simp: bindp_def callp_def retp_def)
qed

lemma checkp_field_id [simp]: "bindp (checkp (ip_field_id P (Some k))) f = f k"
  by (simp add: fun_eq_iff bindp_def checkp_def field_id)

lemma reads_fields_field:
  assumes "h k ty acc = store f put" "ty \<noteq> TyStop" "wire f w ok" "ok v"
    and rest: "reads_fields m h (put (Some v)) cs acc'"
  shows "reads_fields (Suc m) h acc (w_field name ty k w v @ cs) acc'"
  unfolding reads_fields_def
proof (intro allI impI)
  fix n
  assume "Suc m \<le> n"
  then obtain n' where n: "n = Suc n'" "m \<le> n'" by (cases n) auto
  have 1: "reads (h k ty acc) (w v) (put (Some v))"
    unfolding assms(1) store_def by (rule reads_bindp_end [OF wireD [OF assms(3,4)] reads_retp])
  have 2: "reads (callp (ip_field_end P)) [OFieldEnd] ()"
    using reads_marker [OF reads_end [of "ip_field_end P"], of OFieldEnd] by simp
  have "reads (read_fields P n' h (put (Some v))) cs acc'" using rest n by (simp add: reads_fields_def)
  then have body: "reads (bindp (h k ty acc) (\<lambda>acc. bindp (callp (ip_field_end P)) (\<lambda>_. read_fields P n' h acc)))
      (w v @ OFieldEnd # cs) acc'" by (intro reads_bindp [OF 1] reads_bindpI [OF 2]) auto
  then show "reads (read_fields P n h acc) (w_field name ty k w v @ cs) acc'"
    unfolding n(1) read_fields.simps
    by (rule_tac reads_bindpI [OF reads_begin(2) [OF assms(2), of name k]]) (simp_all add: w_field_def assms(2))
qed

lemma reads_fields_opt:
  assumes "h k ty acc = store f put" "ty \<noteq> TyStop" "wire f w ok" "opt_ok ok x" "put None = acc"
    and rest: "reads_fields m h (put x) cs acc'"
  shows "reads_fields (Suc m) h acc (w_opt name ty k w x @ cs) acc'"
proof (cases x)
  case None
  then show ?thesis using rest assms(5) by (simp add: w_opt_def reads_fields_def)
next
  case (Some v)
  then have "ok v" using assms(4) by (simp add: opt_ok_def)
  moreover have "reads_fields m h (put (Some v)) cs acc'" using rest Some by simp
  ultimately show ?thesis
    unfolding Some w_opt_def option.case by (rule reads_fields_field [where h = h and put = put and f = f, OF assms(1,2,3)])
qed

text \<open>A field whose accumulator does not start empty: the value has to be there to come back.\<close>

lemma reads_fields_default:
  assumes "h k ty acc = store f put" "ty \<noteq> TyStop" "wire f w ok" "x \<noteq> None" "opt_ok ok x"
    and rest: "reads_fields m h (put x) cs acc'"
  shows "reads_fields (Suc m) h acc (w_opt name ty k w x @ cs) acc'"
proof -
  obtain v where x: "x = Some v" using assms(4) by blast
  have "ok v" "reads_fields m h (put (Some v)) cs acc'" using assms(5) rest by (simp_all add: x opt_ok_def)
  then show ?thesis
    unfolding x w_opt_def option.case by (rule reads_fields_field [where h = h and put = put and f = f, OF assms(1,2,3)])
qed

lemma required_Some [simp]: "required P field (Some v) = retp v"
  by (simp add: required_def checkp_def bindp_def present fun_eq_iff)

lemma reads_struct:
  assumes "body @ [OFieldStop] = cs" "reads_fields m h start cs acc" "m \<le> n" "finish acc = retp y" "y = x"
  shows "reads (read_struct P n h start finish) (w_struct name body) x"
proof -
  have fin: "reads (callp (ip_struct_end P)) [OStructEnd] ()"
    using reads_marker [OF reads_end [of "ip_struct_end P"], of OStructEnd] by simp
  have fs: "reads (read_fields P n h start) (body @ [OFieldStop]) acc" using assms(1-3) by (simp add: reads_fields_def)
  have "reads (finish acc) [] x" by (simp add: assms(4,5) reads_retp)
  from reads_bindp_end [OF fin this]
  have "reads (bindp (callp (ip_struct_end P)) (\<lambda>_. finish acc)) [OStructEnd] x" .
  with fs have "reads (bindp (read_fields P n h start) (\<lambda>acc. bindp (callp (ip_struct_end P)) (\<lambda>_. finish acc)))
      (body @ [OFieldStop, OStructEnd]) x" by (rule reads_bindpI) simp
  then show ?thesis
    unfolding read_struct_def w_struct_def by (rule_tac reads_bindpI [OF reads_begin(1)]) auto
qed

lemma opt_ok_True [simp]: "opt_ok (\<lambda>_. True) x"
  by (simp add: opt_ok_def split: option.split)

lemma bindp_retp [simp]: "bindp (retp x) f = f x"
  by (simp add: bindp_def retp_def fun_eq_iff)

lemmas wire_rules = reads_struct reads_fields_stop reads_fields_field reads_fields_opt wire_list wire_map wire_prims

end

end
