(* ===== verification/RpcCall.thy ===== *)
theory RpcCall
  imports ThriftProtocol
begin

text \<open>
  What every call of the RPC service in \<^verbatim>\<open>src/protocol/client.rs\<close> does, written out by the generator in
  each of its sixty-nine methods: count, write the message, read the reply, check it, read the result.
\<close>

section \<open>Calling\<close>

type_synonym 'o out_protocol = "out_call \<Rightarrow> 'o \<Rightarrow> (thrift_error + unit) \<times> 'o"

record ('i, 'o) rpc_client =
  rc_in :: 'i
  rc_out :: 'o
  rc_sequence_number :: i32

text \<open>The calls of a writer, each with its \<^verbatim>\<open>?\<close>: the first that fails is the last that is made.\<close>

primrec emit :: "'o out_protocol \<Rightarrow> out_call list \<Rightarrow> 'o \<Rightarrow> (thrift_error + unit) \<times> 'o" where
  "emit Q [] ob = (Inr (), ob)"
| "emit Q (c # cs) ob = (case Q c ob of (Inl e, ob) \<Rightarrow> (Inl e, ob) | (Inr _, ob) \<Rightarrow> emit Q cs ob)"

text \<open>An \<^verbatim>\<open>i32\<close>, which wraps around in a release build.\<close>

definition increment_sequence_number :: "('i, 'o) rpc_client \<Rightarrow> ('i, 'o) rpc_client" where
  "increment_sequence_number c = c\<lparr>rc_sequence_number := rc_sequence_number c + 1\<rparr>"

definition failp :: "thrift_error \<Rightarrow> ('i, 'a) rd" where
  "failp e i = (Fail e, i)"

definition ok_or :: "string \<Rightarrow> 'a option \<Rightarrow> ('i, 'a) rd" where
  "ok_or service r =
     (case r of Some v \<Rightarrow> retp v | None \<Rightarrow> failp (ApplicationError (''no result received for '' @ service)))"

definition read_reply ::
    "'i in_protocol \<Rightarrow> string \<Rightarrow> string \<Rightarrow> ('i, 'a option) rd \<Rightarrow> i32 \<Rightarrow> ('i, 'a) rd" where
  "read_reply P name service reader sn =
     bindp (callp (ip_message_begin P)) (\<lambda>(name', mt, sn').
     bindp (checkp (ip_sequence_number P sn sn')) (\<lambda>_.
     bindp (checkp (ip_service_call P name name')) (\<lambda>_.
     if mt = MException then
       bindp (callp (ip_application_error P)) (\<lambda>e.
       bindp (callp (ip_message_end P)) (\<lambda>_. failp e))
     else
       bindp (checkp (ip_message_type P MReply mt)) (\<lambda>_.
       bindp reader (\<lambda>r.
       bindp (callp (ip_message_end P)) (\<lambda>_. ok_or service r))))))"

definition rpc_call ::
    "'i in_protocol \<Rightarrow> 'o out_protocol \<Rightarrow> string \<Rightarrow> string \<Rightarrow> out_call list \<Rightarrow> ('i, 'a option) rd \<Rightarrow>
     ('i, 'o) rpc_client \<Rightarrow> 'a read_result \<times> ('i, 'o) rpc_client" where
  "rpc_call P Q name service args reader c =
     (let c = increment_sequence_number c;
          (r, ob) = emit Q (OMessageBegin name MCall (rc_sequence_number c) # args @ [OMessageEnd, OFlush]) (rc_out c);
          c = c\<lparr>rc_out := ob\<rparr>
      in case r of
           Inl e \<Rightarrow> (Fail e, c)
         | Inr _ \<Rightarrow>
             let (x, i) = read_reply P name service reader (rc_sequence_number c) (rc_in c)
             in (x, c\<lparr>rc_in := i\<rparr>))"

end
