(* ===== verification/ThriftReplies.thy ===== *)
theory ThriftReplies
  imports ThriftProtocol
begin

text \<open>
  The structures a server answers with, as \<^verbatim>\<open>src/protocol/common.rs\<close> and \<^verbatim>\<open>src/protocol/client.rs\<close> read
  and write them: the accumulators \<open>f1\<close>, \<open>f2\<close> and so on are the code's \<^verbatim>\<open>f_1\<close>, \<^verbatim>\<open>f_2\<close>, the handler is its
  \<^verbatim>\<open>match field_id\<close>, and the finish checks the required fields. \<open>ok_\<close> says what fits on the wire. For each
  structure the reader gives back what the writer wrote; the readers take a number of turns, and
  eighteen are enough for every structure, plus one for each level of nesting of a status.
\<close>

section \<open>The status\<close>

subsection \<open>\<^verbatim>\<open>TSProtocolVersion\<close>\<close>

definition try_from_i32 :: "i32 \<Rightarrow> thrift_error + ts_protocol_version" where
  "try_from_i32 i =
     (if i = 0 then Inr IotdbServiceProtocolV1
      else if i = 1 then Inr IotdbServiceProtocolV2
      else if i = 2 then Inr IotdbServiceProtocolV3
      else Inl (no_variant ''TSProtocolVersion'' i))"

definition read_ts_protocol_version :: "'i in_protocol \<Rightarrow> ('i, ts_protocol_version) rd" where
  "read_ts_protocol_version P = bindp (callp (ip_i32 P)) (\<lambda>i. checkp (try_from_i32 i))"

fun write_ts_protocol_version :: "ts_protocol_version \<Rightarrow> out_call list" where
  "write_ts_protocol_version IotdbServiceProtocolV1 = [OI32 0]"
| "write_ts_protocol_version IotdbServiceProtocolV2 = [OI32 1]"
| "write_ts_protocol_version IotdbServiceProtocolV3 = [OI32 2]"

context thrift_wire
begin

lemma wire_ts_protocol_version: "wire (read_ts_protocol_version P) write_ts_protocol_version (\<lambda>_. True)"
  unfolding read_ts_protocol_version_def
  by (rule wire_enum) (case_tac v; simp add: try_from_i32_def)

end

subsection \<open>\<^verbatim>\<open>TEndPoint\<close>\<close>

definition read_t_end_point :: "'i in_protocol \<Rightarrow> nat \<Rightarrow> ('i, t_end_point) rd" where
  "read_t_end_point P n =
     read_struct P n
       (\<lambda>k ty (f1, f2).
          if k = 1 then store (callp (ip_string P)) (\<lambda>v. (v, f2))
          else if k = 2 then store (callp (ip_i32 P)) (\<lambda>v. (f1, v))
          else skip_field P ty (f1, f2))
       (None, None)
       (\<lambda>(f1, f2). bindp (required P ''TEndPoint.ip'' f1) (\<lambda>f1.
          bindp (required P ''TEndPoint.port'' f2) (\<lambda>f2.
          retp \<lparr>te_ip = f1, te_port = f2\<rparr>)))"

definition write_t_end_point :: "t_end_point \<Rightarrow> out_call list" where
  "write_t_end_point v =
     w_struct ''TEndPoint''
       (w_field ''ip'' TyString 1 w_string (te_ip v) @
        w_field ''port'' TyI32 2 w_i32 (te_port v))"

definition ok_t_end_point :: "t_end_point \<Rightarrow> bool" where
  "ok_t_end_point v \<longleftrightarrow>
     str_ok (te_ip v)"

context thrift_wire
begin

lemma wire_t_end_point:
  assumes "18 \<le> n"
  shows "wire (read_t_end_point P n) write_t_end_point ok_t_end_point"
  by (rule wireI, unfold ok_t_end_point_def read_t_end_point_def write_t_end_point_def,
      (rule wire_rules t_end_point.equality | (insert assms, simp; fail))+)

end

subsection \<open>\<^verbatim>\<open>TSStatus\<close>\<close>

text \<open>A status holds statuses; the reader calls itself, and a turn less is left at each level.\<close>

primrec read_ts_status :: "'i in_protocol \<Rightarrow> nat \<Rightarrow> ('i, ts_status) rd" where
  "read_ts_status P 0 = (\<lambda>i. (Starved, i))"
| "read_ts_status P (Suc n) =
     read_struct P (Suc n)
       (\<lambda>k ty (f1, f2, f3, f4, f5, f6).
          if k = 1 then store (callp (ip_i32 P)) (\<lambda>v. (v, f2, f3, f4, f5, f6))
          else if k = 2 then store (callp (ip_string P)) (\<lambda>v. (f1, v, f3, f4, f5, f6))
          else if k = 3 then store (read_list P (read_ts_status P n)) (\<lambda>v. (f1, f2, v, f4, f5, f6))
          else if k = 4 then store (read_t_end_point P (Suc n)) (\<lambda>v. (f1, f2, f3, v, f5, f6))
          else if k = 5 then store (callp (ip_bool P)) (\<lambda>v. (f1, f2, f3, f4, v, f6))
          else if k = 6 then store (callp (ip_bytes P)) (\<lambda>v. (f1, f2, f3, f4, f5, v))
          else skip_field P ty (f1, f2, f3, f4, f5, f6))
       (None, None, None, None, None, None)
       (\<lambda>(f1, f2, f3, f4, f5, f6). bindp (required P ''TSStatus.code'' f1) (\<lambda>f1.
          retp (TSStatus f1 f2 f3 f4 f5 f6)))"

lemma w_list_cong [fundef_cong]:
  "xs = ys \<Longrightarrow> (\<And>x. x \<in> set ys \<Longrightarrow> w x = w' x) \<Longrightarrow> w_list ty w xs = w_list ty w' ys"
  unfolding w_list_def by (auto intro: arg_cong [where f = concat])

lemma w_opt_cong [fundef_cong]:
  "x = y \<Longrightarrow> (\<And>v. y = Some v \<Longrightarrow> w v = w' v) \<Longrightarrow> w_opt name ty k w x = w_opt name ty k w' y"
  by (auto simp: w_opt_def w_field_def split: option.split)

fun write_ts_status :: "ts_status \<Rightarrow> out_call list" where
  "write_ts_status (TSStatus code message sub_status redirect_node need_retry response_data) =
     w_struct ''TSStatus''
       (w_field ''code'' TyI32 1 w_i32 code @
        w_opt ''message'' TyString 2 w_string message @
        w_opt ''subStatus'' TyList 3 (w_list TyStruct write_ts_status) sub_status @
        w_opt ''redirectNode'' TyStruct 4 write_t_end_point redirect_node @
        w_opt ''needRetry'' TyBool 5 w_bool need_retry @
        w_opt ''responseData'' TyString 6 w_bytes response_data)"

text \<open>What fits on the wire, nested at most \<open>d\<close> deep.\<close>

fun ok_ts_status :: "nat \<Rightarrow> ts_status \<Rightarrow> bool" where
  "ok_ts_status 0 v \<longleftrightarrow> False"
| "ok_ts_status (Suc d) v \<longleftrightarrow>
     opt_ok str_ok (st_message v) \<and>
     opt_ok (list_ok (ok_ts_status d)) (st_sub_status v) \<and>
     opt_ok ok_t_end_point (st_redirect_node v) \<and>
     opt_ok short (st_response_data v)"

context thrift_wire
begin

lemma wire_ts_status: "d + 18 \<le> n \<Longrightarrow> wire (read_ts_status P n) write_ts_status (ok_ts_status d)"
proof (induction d arbitrary: n)
  case 0
  then show ?case by (simp add: wire_def)
next
  case (Suc d)
  obtain n' where n: "n = Suc n'" "d + 18 \<le> n'" using Suc.prems by (cases n) auto
  note IH = Suc.IH [OF n(2)]
  show ?case
  proof (rule wireI)
    fix v
    assume ok: "ok_ts_status (Suc d) v"
    show "reads (read_ts_status P n) (write_ts_status v) v"
      using ok n(2) unfolding n(1)
      by (cases v, simp only: read_ts_status.simps write_ts_status.simps ok_ts_status.simps ts_status.sel)
        ((rule wire_rules wire_t_end_point IH | (simp; fail))+)
  qed
qed

lemmas wire_status_structs = wire_ts_status wire_ts_protocol_version

end

section \<open>Results of a statement\<close>

subsection \<open>\<^verbatim>\<open>TSQueryDataSet\<close>\<close>

definition read_ts_query_data_set :: "'i in_protocol \<Rightarrow> nat \<Rightarrow> ('i, ts_query_data_set) rd" where
  "read_ts_query_data_set P n =
     read_struct P n
       (\<lambda>k ty (f1, f2, f3).
          if k = 1 then store (callp (ip_bytes P)) (\<lambda>v. (v, f2, f3))
          else if k = 2 then store (read_list P (callp (ip_bytes P))) (\<lambda>v. (f1, v, f3))
          else if k = 3 then store (read_list P (callp (ip_bytes P))) (\<lambda>v. (f1, f2, v))
          else skip_field P ty (f1, f2, f3))
       (None, None, None)
       (\<lambda>(f1, f2, f3). bindp (required P ''TSQueryDataSet.time'' f1) (\<lambda>f1.
          bindp (required P ''TSQueryDataSet.value_list'' f2) (\<lambda>f2.
          bindp (required P ''TSQueryDataSet.bitmap_list'' f3) (\<lambda>f3.
          retp \<lparr>qds_time = f1, qds_value_list = f2, qds_bitmap_list = f3\<rparr>))))"

definition write_ts_query_data_set :: "ts_query_data_set \<Rightarrow> out_call list" where
  "write_ts_query_data_set v =
     w_struct ''TSQueryDataSet''
       (w_field ''time'' TyString 1 w_bytes (qds_time v) @
        w_field ''valueList'' TyList 2 (w_list TyString w_bytes) (qds_value_list v) @
        w_field ''bitmapList'' TyList 3 (w_list TyString w_bytes) (qds_bitmap_list v))"

definition ok_ts_query_data_set :: "ts_query_data_set \<Rightarrow> bool" where
  "ok_ts_query_data_set v \<longleftrightarrow>
     short (qds_time v) \<and>
     list_ok short (qds_value_list v) \<and>
     list_ok short (qds_bitmap_list v)"

context thrift_wire
begin

lemma wire_ts_query_data_set:
  assumes "18 \<le> n"
  shows "wire (read_ts_query_data_set P n) write_ts_query_data_set ok_ts_query_data_set"
  by (rule wireI, unfold ok_ts_query_data_set_def read_ts_query_data_set_def write_ts_query_data_set_def,
      (rule wire_rules ts_query_data_set.equality | (insert assms, simp; fail))+)

end

subsection \<open>\<^verbatim>\<open>TSQueryNonAlignDataSet\<close>\<close>

definition read_ts_query_non_align_data_set :: "'i in_protocol \<Rightarrow> nat \<Rightarrow> ('i, ts_query_non_align_data_set) rd"
      where
  "read_ts_query_non_align_data_set P n =
     read_struct P n
       (\<lambda>k ty (f1, f2).
          if k = 1 then store (read_list P (callp (ip_bytes P))) (\<lambda>v. (v, f2))
          else if k = 2 then store (read_list P (callp (ip_bytes P))) (\<lambda>v. (f1, v))
          else skip_field P ty (f1, f2))
       (None, None)
       (\<lambda>(f1, f2). bindp (required P ''TSQueryNonAlignDataSet.time_list'' f1) (\<lambda>f1.
          bindp (required P ''TSQueryNonAlignDataSet.value_list'' f2) (\<lambda>f2.
          retp \<lparr>qnd_time_list = f1, qnd_value_list = f2\<rparr>)))"

definition write_ts_query_non_align_data_set :: "ts_query_non_align_data_set \<Rightarrow> out_call list" where
  "write_ts_query_non_align_data_set v =
     w_struct ''TSQueryNonAlignDataSet''
       (w_field ''timeList'' TyList 1 (w_list TyString w_bytes) (qnd_time_list v) @
        w_field ''valueList'' TyList 2 (w_list TyString w_bytes) (qnd_value_list v))"

definition ok_ts_query_non_align_data_set :: "ts_query_non_align_data_set \<Rightarrow> bool" where
  "ok_ts_query_non_align_data_set v \<longleftrightarrow>
     list_ok short (qnd_time_list v) \<and>
     list_ok short (qnd_value_list v)"

context thrift_wire
begin

lemma wire_ts_query_non_align_data_set:
  assumes "18 \<le> n"
  shows "wire (read_ts_query_non_align_data_set P n) write_ts_query_non_align_data_set ok_ts_query_non_align_data_set"
  by (rule wireI, unfold ok_ts_query_non_align_data_set_def read_ts_query_non_align_data_set_def write_ts_query_non_align_data_set_def,
      (rule wire_rules ts_query_non_align_data_set.equality | (insert assms, simp; fail))+)

end

subsection \<open>\<^verbatim>\<open>TSTracingInfo\<close>\<close>

definition read_ts_tracing_info :: "'i in_protocol \<Rightarrow> nat \<Rightarrow> ('i, ts_tracing_info) rd" where
  "read_ts_tracing_info P n =
     read_struct P n
       (\<lambda>k ty (f1, f2, f3, f4, f5, f6, f7, f8, f9, f10, f11).
          if k = 1 then store (read_list P (callp (ip_string P))) (\<lambda>v. (v, f2, f3, f4, f5, f6, f7, f8, f9, f10,
                f11))
          else if k = 2 then store (read_list P (callp (ip_i64 P))) (\<lambda>v. (f1, v, f3, f4, f5, f6, f7, f8, f9,
                f10, f11))
          else if k = 3 then store (callp (ip_i32 P)) (\<lambda>v. (f1, f2, v, f4, f5, f6, f7, f8, f9, f10, f11))
          else if k = 4 then store (callp (ip_i32 P)) (\<lambda>v. (f1, f2, f3, v, f5, f6, f7, f8, f9, f10, f11))
          else if k = 5 then store (callp (ip_i32 P)) (\<lambda>v. (f1, f2, f3, f4, v, f6, f7, f8, f9, f10, f11))
          else if k = 6 then store (callp (ip_i32 P)) (\<lambda>v. (f1, f2, f3, f4, f5, v, f7, f8, f9, f10, f11))
          else if k = 7 then store (callp (ip_i64 P)) (\<lambda>v. (f1, f2, f3, f4, f5, f6, v, f8, f9, f10, f11))
          else if k = 8 then store (callp (ip_i32 P)) (\<lambda>v. (f1, f2, f3, f4, f5, f6, f7, v, f9, f10, f11))
          else if k = 9 then store (callp (ip_i64 P)) (\<lambda>v. (f1, f2, f3, f4, f5, f6, f7, f8, v, f10, f11))
          else if k = 10 then store (callp (ip_i32 P)) (\<lambda>v. (f1, f2, f3, f4, f5, f6, f7, f8, f9, v, f11))
          else if k = 11 then store (callp (ip_i32 P)) (\<lambda>v. (f1, f2, f3, f4, f5, f6, f7, f8, f9, f10, v))
          else skip_field P ty (f1, f2, f3, f4, f5, f6, f7, f8, f9, f10, f11))
       (None, None, None, None, None, None, None, None, None, None, None)
       (\<lambda>(f1, f2, f3, f4, f5, f6, f7, f8, f9, f10, f11). bindp (required P ''TSTracingInfo.activity_list'' f1)
             (\<lambda>f1.
          bindp (required P ''TSTracingInfo.elapsed_time_list'' f2) (\<lambda>f2.
          retp \<lparr>tri_activity_list = f1, tri_elapsed_time_list = f2, tri_series_path_num = f3,
            tri_seq_file_num = f4, tri_un_seq_file_num = f5, tri_sequence_chunk_num = f6,
            tri_sequence_chunk_point_num = f7, tri_unsequence_chunk_num = f8, tri_unsequence_chunk_point_num =
            f9, tri_total_page_num = f10, tri_overlapped_page_num = f11\<rparr>)))"

definition write_ts_tracing_info :: "ts_tracing_info \<Rightarrow> out_call list" where
  "write_ts_tracing_info v =
     w_struct ''TSTracingInfo''
       (w_field ''activityList'' TyList 1 (w_list TyString w_string) (tri_activity_list v) @
        w_field ''elapsedTimeList'' TyList 2 (w_list TyI64 w_i64) (tri_elapsed_time_list v) @
        w_opt ''seriesPathNum'' TyI32 3 w_i32 (tri_series_path_num v) @
        w_opt ''seqFileNum'' TyI32 4 w_i32 (tri_seq_file_num v) @
        w_opt ''unSeqFileNum'' TyI32 5 w_i32 (tri_un_seq_file_num v) @
        w_opt ''sequenceChunkNum'' TyI32 6 w_i32 (tri_sequence_chunk_num v) @
        w_opt ''sequenceChunkPointNum'' TyI64 7 w_i64 (tri_sequence_chunk_point_num v) @
        w_opt ''unsequenceChunkNum'' TyI32 8 w_i32 (tri_unsequence_chunk_num v) @
        w_opt ''unsequenceChunkPointNum'' TyI64 9 w_i64 (tri_unsequence_chunk_point_num v) @
        w_opt ''totalPageNum'' TyI32 10 w_i32 (tri_total_page_num v) @
        w_opt ''overlappedPageNum'' TyI32 11 w_i32 (tri_overlapped_page_num v))"

definition ok_ts_tracing_info :: "ts_tracing_info \<Rightarrow> bool" where
  "ok_ts_tracing_info v \<longleftrightarrow>
     list_ok str_ok (tri_activity_list v) \<and>
     list_ok (\<lambda>_. True) (tri_elapsed_time_list v)"

context thrift_wire
begin

lemma wire_ts_tracing_info:
  assumes "18 \<le> n"
  shows "wire (read_ts_tracing_info P n) write_ts_tracing_info ok_ts_tracing_info"
  by (rule wireI, unfold ok_ts_tracing_info_def read_ts_tracing_info_def write_ts_tracing_info_def,
      (rule wire_rules ts_tracing_info.equality | (insert assms, simp; fail))+)

end

subsection \<open>\<^verbatim>\<open>TSExecuteStatementResp\<close>\<close>

definition read_ts_execute_statement_resp :: "'i in_protocol \<Rightarrow> nat \<Rightarrow> ('i, ts_execute_statement_resp) rd" where
  "read_ts_execute_statement_resp P n =
     read_struct P n
       (\<lambda>k ty (f1, f2, f3, f4, f5, f6, f7, f8, f9, f10, f11, f12, f13, f14, f15, f16, f17).
          if k = 1 then store (read_ts_status P n) (\<lambda>v. (v, f2, f3, f4, f5, f6, f7, f8, f9, f10, f11, f12, f13,
                f14, f15, f16, f17))
          else if k = 2 then store (callp (ip_i64 P)) (\<lambda>v. (f1, v, f3, f4, f5, f6, f7, f8, f9, f10, f11, f12,
                f13, f14, f15, f16, f17))
          else if k = 3 then store (read_list P (callp (ip_string P))) (\<lambda>v. (f1, f2, v, f4, f5, f6, f7, f8, f9,
                f10, f11, f12, f13, f14, f15, f16, f17))
          else if k = 4 then store (callp (ip_string P)) (\<lambda>v. (f1, f2, f3, v, f5, f6, f7, f8, f9, f10, f11, f12,
                f13, f14, f15, f16, f17))
          else if k = 5 then store (callp (ip_bool P)) (\<lambda>v. (f1, f2, f3, f4, v, f6, f7, f8, f9, f10, f11, f12,
                f13, f14, f15, f16, f17))
          else if k = 6 then store (read_list P (callp (ip_string P))) (\<lambda>v. (f1, f2, f3, f4, f5, v, f7, f8, f9,
                f10, f11, f12, f13, f14, f15, f16, f17))
          else if k = 7 then store (read_ts_query_data_set P n) (\<lambda>v. (f1, f2, f3, f4, f5, f6, v, f8, f9, f10,
                f11, f12, f13, f14, f15, f16, f17))
          else if k = 8 then store (read_ts_query_non_align_data_set P n) (\<lambda>v. (f1, f2, f3, f4, f5, f6, f7, v,
                f9, f10, f11, f12, f13, f14, f15, f16, f17))
          else if k = 9 then store (read_map P (callp (ip_string P)) (callp (ip_i32 P))) (\<lambda>v. (f1, f2, f3, f4,
                f5, f6, f7, f8, v, f10, f11, f12, f13, f14, f15, f16, f17))
          else if k = 10 then store (read_list P (callp (ip_string P))) (\<lambda>v. (f1, f2, f3, f4, f5, f6, f7, f8,
                f9, v, f11, f12, f13, f14, f15, f16, f17))
          else if k = 11 then store (read_list P (callp (ip_i8 P))) (\<lambda>v. (f1, f2, f3, f4, f5, f6, f7, f8, f9,
                f10, v, f12, f13, f14, f15, f16, f17))
          else if k = 12 then store (read_ts_tracing_info P n) (\<lambda>v. (f1, f2, f3, f4, f5, f6, f7, f8, f9, f10,
                f11, v, f13, f14, f15, f16, f17))
          else if k = 13 then store (read_list P (callp (ip_bytes P))) (\<lambda>v. (f1, f2, f3, f4, f5, f6, f7, f8, f9,
                f10, f11, f12, v, f14, f15, f16, f17))
          else if k = 14 then store (callp (ip_bool P)) (\<lambda>v. (f1, f2, f3, f4, f5, f6, f7, f8, f9, f10, f11, f12,
                f13, v, f15, f16, f17))
          else if k = 15 then store (callp (ip_string P)) (\<lambda>v. (f1, f2, f3, f4, f5, f6, f7, f8, f9, f10, f11,
                f12, f13, f14, v, f16, f17))
          else if k = 16 then store (callp (ip_bool P)) (\<lambda>v. (f1, f2, f3, f4, f5, f6, f7, f8, f9, f10, f11, f12,
                f13, f14, f15, v, f17))
          else if k = 17 then store (read_list P (callp (ip_i32 P))) (\<lambda>v. (f1, f2, f3, f4, f5, f6, f7, f8, f9,
                f10, f11, f12, f13, f14, f15, f16, v))
          else skip_field P ty (f1, f2, f3, f4, f5, f6, f7, f8, f9, f10, f11, f12, f13, f14, f15, f16, f17))
       (None, None, None, None, None, None, None, None, None, None, None, None, None, None, None, None, None)
       (\<lambda>(f1, f2, f3, f4, f5, f6, f7, f8, f9, f10, f11, f12, f13, f14, f15, f16, f17). bindp (required P
             ''TSExecuteStatementResp.status'' f1) (\<lambda>f1.
          retp \<lparr>esr_status = f1, esr_query_id = f2, esr_columns = f3, esr_operation_type = f4,
            esr_ignore_time_stamp = f5, esr_data_type_list = f6, esr_query_data_set = f7,
            esr_non_align_query_data_set = f8, esr_column_name_index_map = f9, esr_sg_columns = f10,
            esr_alias_columns = f11, esr_tracing_info = f12, esr_query_result = f13, esr_more_data = f14,
            esr_database = f15, esr_table_model = f16, esr_column_index2_ts_block_column_index_list =
            f17\<rparr>))"

definition write_ts_execute_statement_resp :: "ts_execute_statement_resp \<Rightarrow> out_call list" where
  "write_ts_execute_statement_resp v =
     w_struct ''TSExecuteStatementResp''
       (w_field ''status'' TyStruct 1 write_ts_status (esr_status v) @
        w_opt ''queryId'' TyI64 2 w_i64 (esr_query_id v) @
        w_opt ''columns'' TyList 3 (w_list TyString w_string) (esr_columns v) @
        w_opt ''operationType'' TyString 4 w_string (esr_operation_type v) @
        w_opt ''ignoreTimeStamp'' TyBool 5 w_bool (esr_ignore_time_stamp v) @
        w_opt ''dataTypeList'' TyList 6 (w_list TyString w_string) (esr_data_type_list v) @
        w_opt ''queryDataSet'' TyStruct 7 write_ts_query_data_set (esr_query_data_set v) @
        w_opt ''nonAlignQueryDataSet'' TyStruct 8 write_ts_query_non_align_data_set
              (esr_non_align_query_data_set v) @
        w_opt ''columnNameIndexMap'' TyMap 9 (w_map TyString TyI32 w_string w_i32) (esr_column_name_index_map v)
              @
        w_opt ''sgColumns'' TyList 10 (w_list TyString w_string) (esr_sg_columns v) @
        w_opt ''aliasColumns'' TyList 11 (w_list TyI08 w_i8) (esr_alias_columns v) @
        w_opt ''tracingInfo'' TyStruct 12 write_ts_tracing_info (esr_tracing_info v) @
        w_opt ''queryResult'' TyList 13 (w_list TyString w_bytes) (esr_query_result v) @
        w_opt ''moreData'' TyBool 14 w_bool (esr_more_data v) @
        w_opt ''database'' TyString 15 w_string (esr_database v) @
        w_opt ''tableModel'' TyBool 16 w_bool (esr_table_model v) @
        w_opt ''columnIndex2TsBlockColumnIndexList'' TyList 17 (w_list TyI32 w_i32)
              (esr_column_index2_ts_block_column_index_list v))"

definition ok_ts_execute_statement_resp :: "nat \<Rightarrow> ts_execute_statement_resp \<Rightarrow> bool" where
  "ok_ts_execute_statement_resp d v \<longleftrightarrow>
     ok_ts_status d (esr_status v) \<and>
     opt_ok (list_ok str_ok) (esr_columns v) \<and>
     opt_ok str_ok (esr_operation_type v) \<and>
     opt_ok (list_ok str_ok) (esr_data_type_list v) \<and>
     opt_ok ok_ts_query_data_set (esr_query_data_set v) \<and>
     opt_ok ok_ts_query_non_align_data_set (esr_non_align_query_data_set v) \<and>
     opt_ok (map_ok str_ok (\<lambda>_. True)) (esr_column_name_index_map v) \<and>
     opt_ok (list_ok str_ok) (esr_sg_columns v) \<and>
     opt_ok (list_ok (\<lambda>_. True)) (esr_alias_columns v) \<and>
     opt_ok ok_ts_tracing_info (esr_tracing_info v) \<and>
     opt_ok (list_ok short) (esr_query_result v) \<and>
     opt_ok str_ok (esr_database v) \<and>
     opt_ok (list_ok (\<lambda>_. True)) (esr_column_index2_ts_block_column_index_list v)"

context thrift_wire
begin

lemma wire_ts_execute_statement_resp:
  assumes "d + 18 \<le> n"
  shows "wire (read_ts_execute_statement_resp P n) write_ts_execute_statement_resp (ok_ts_execute_statement_resp d)"
  by (rule wireI, unfold ok_ts_execute_statement_resp_def read_ts_execute_statement_resp_def write_ts_execute_statement_resp_def,
      (rule wire_rules wire_status_structs wire_ts_query_data_set wire_ts_query_non_align_data_set wire_ts_tracing_info ts_execute_statement_resp.equality | (insert assms, simp; fail))+)

end

subsection \<open>\<^verbatim>\<open>TSFetchResultsResp\<close>\<close>

definition read_ts_fetch_results_resp :: "'i in_protocol \<Rightarrow> nat \<Rightarrow> ('i, ts_fetch_results_resp) rd" where
  "read_ts_fetch_results_resp P n =
     read_struct P n
       (\<lambda>k ty (f1, f2, f3, f4, f5, f6, f7).
          if k = 1 then store (read_ts_status P n) (\<lambda>v. (v, f2, f3, f4, f5, f6, f7))
          else if k = 2 then store (callp (ip_bool P)) (\<lambda>v. (f1, v, f3, f4, f5, f6, f7))
          else if k = 3 then store (callp (ip_bool P)) (\<lambda>v. (f1, f2, v, f4, f5, f6, f7))
          else if k = 4 then store (read_ts_query_data_set P n) (\<lambda>v. (f1, f2, f3, v, f5, f6, f7))
          else if k = 5 then store (read_ts_query_non_align_data_set P n) (\<lambda>v. (f1, f2, f3, f4, v, f6, f7))
          else if k = 6 then store (read_list P (callp (ip_bytes P))) (\<lambda>v. (f1, f2, f3, f4, f5, v, f7))
          else if k = 7 then store (callp (ip_bool P)) (\<lambda>v. (f1, f2, f3, f4, f5, f6, v))
          else skip_field P ty (f1, f2, f3, f4, f5, f6, f7))
       (None, None, None, None, None, None, None)
       (\<lambda>(f1, f2, f3, f4, f5, f6, f7). bindp (required P ''TSFetchResultsResp.status'' f1) (\<lambda>f1.
          bindp (required P ''TSFetchResultsResp.has_result_set'' f2) (\<lambda>f2.
          bindp (required P ''TSFetchResultsResp.is_align'' f3) (\<lambda>f3.
          retp \<lparr>frr_status = f1, frr_has_result_set = f2, frr_is_align = f3, frr_query_data_set = f4,
            frr_non_align_query_data_set = f5, frr_query_result = f6, frr_more_data = f7\<rparr>))))"

definition write_ts_fetch_results_resp :: "ts_fetch_results_resp \<Rightarrow> out_call list" where
  "write_ts_fetch_results_resp v =
     w_struct ''TSFetchResultsResp''
       (w_field ''status'' TyStruct 1 write_ts_status (frr_status v) @
        w_field ''hasResultSet'' TyBool 2 w_bool (frr_has_result_set v) @
        w_field ''isAlign'' TyBool 3 w_bool (frr_is_align v) @
        w_opt ''queryDataSet'' TyStruct 4 write_ts_query_data_set (frr_query_data_set v) @
        w_opt ''nonAlignQueryDataSet'' TyStruct 5 write_ts_query_non_align_data_set
              (frr_non_align_query_data_set v) @
        w_opt ''queryResult'' TyList 6 (w_list TyString w_bytes) (frr_query_result v) @
        w_opt ''moreData'' TyBool 7 w_bool (frr_more_data v))"

definition ok_ts_fetch_results_resp :: "nat \<Rightarrow> ts_fetch_results_resp \<Rightarrow> bool" where
  "ok_ts_fetch_results_resp d v \<longleftrightarrow>
     ok_ts_status d (frr_status v) \<and>
     opt_ok ok_ts_query_data_set (frr_query_data_set v) \<and>
     opt_ok ok_ts_query_non_align_data_set (frr_non_align_query_data_set v) \<and>
     opt_ok (list_ok short) (frr_query_result v)"

context thrift_wire
begin

lemma wire_ts_fetch_results_resp:
  assumes "d + 18 \<le> n"
  shows "wire (read_ts_fetch_results_resp P n) write_ts_fetch_results_resp (ok_ts_fetch_results_resp d)"
  by (rule wireI, unfold ok_ts_fetch_results_resp_def read_ts_fetch_results_resp_def write_ts_fetch_results_resp_def,
      (rule wire_rules wire_status_structs wire_ts_query_data_set wire_ts_query_non_align_data_set ts_fetch_results_resp.equality | (insert assms, simp; fail))+)

end

section \<open>Sessions\<close>

subsection \<open>\<^verbatim>\<open>TSOpenSessionResp\<close>\<close>

definition read_ts_open_session_resp :: "'i in_protocol \<Rightarrow> nat \<Rightarrow> ('i, ts_open_session_resp) rd" where
  "read_ts_open_session_resp P n =
     read_struct P n
       (\<lambda>k ty (f1, f2, f3, f4).
          if k = 1 then store (read_ts_status P n) (\<lambda>v. (v, f2, f3, f4))
          else if k = 2 then store (read_ts_protocol_version P) (\<lambda>v. (f1, v, f3, f4))
          else if k = 3 then store (callp (ip_i64 P)) (\<lambda>v. (f1, f2, v, f4))
          else if k = 4 then store (read_map P (callp (ip_string P)) (callp (ip_string P))) (\<lambda>v. (f1, f2, f3,
                v))
          else skip_field P ty (f1, f2, f3, f4))
       (None, None, None, None)
       (\<lambda>(f1, f2, f3, f4). bindp (required P ''TSOpenSessionResp.status'' f1) (\<lambda>f1.
          bindp (required P ''TSOpenSessionResp.server_protocol_version'' f2) (\<lambda>f2.
          retp \<lparr>osr_status = f1, osr_server_protocol_version = f2, osr_session_id = f3,
            osr_configuration = f4\<rparr>)))"

definition write_ts_open_session_resp :: "ts_open_session_resp \<Rightarrow> out_call list" where
  "write_ts_open_session_resp v =
     w_struct ''TSOpenSessionResp''
       (w_field ''status'' TyStruct 1 write_ts_status (osr_status v) @
        w_field ''serverProtocolVersion'' TyI32 2 write_ts_protocol_version (osr_server_protocol_version v) @
        w_opt ''sessionId'' TyI64 3 w_i64 (osr_session_id v) @
        w_opt ''configuration'' TyMap 4 (w_map TyString TyString w_string w_string) (osr_configuration v))"

definition ok_ts_open_session_resp :: "nat \<Rightarrow> ts_open_session_resp \<Rightarrow> bool" where
  "ok_ts_open_session_resp d v \<longleftrightarrow>
     ok_ts_status d (osr_status v) \<and>
     opt_ok (map_ok str_ok str_ok) (osr_configuration v)"

context thrift_wire
begin

lemma wire_ts_open_session_resp:
  assumes "d + 18 \<le> n"
  shows "wire (read_ts_open_session_resp P n) write_ts_open_session_resp (ok_ts_open_session_resp d)"
  by (rule wireI, unfold ok_ts_open_session_resp_def read_ts_open_session_resp_def write_ts_open_session_resp_def,
      (rule wire_rules wire_status_structs ts_open_session_resp.equality | (insert assms, simp; fail))+)

end

end
