(* ===== verification/ThriftRequests.thy ===== *)
theory ThriftRequests
  imports ThriftReplies
begin

text \<open>
  The structures the client sends, as \<^verbatim>\<open>src/protocol/client.rs\<close> reads and writes them, in the manner of
  \<open>ThriftReplies\<close>: for each of them the reader gives back what the writer wrote.
\<close>

section \<open>Sessions and statements\<close>

subsection \<open>\<^verbatim>\<open>TSOpenSessionReq\<close>\<close>

definition read_ts_open_session_req :: "'i in_protocol \<Rightarrow> nat \<Rightarrow> ('i, ts_open_session_req) rd" where
  "read_ts_open_session_req P n =
     read_struct P n
       (\<lambda>k ty (f1, f2, f3, f4, f5).
          if k = 1 then store (read_ts_protocol_version P) (\<lambda>v. (v, f2, f3, f4, f5))
          else if k = 2 then store (callp (ip_string P)) (\<lambda>v. (f1, v, f3, f4, f5))
          else if k = 3 then store (callp (ip_string P)) (\<lambda>v. (f1, f2, v, f4, f5))
          else if k = 4 then store (callp (ip_string P)) (\<lambda>v. (f1, f2, f3, v, f5))
          else if k = 5 then store (read_map P (callp (ip_string P)) (callp (ip_string P))) (\<lambda>v. (f1, f2, f3,
                f4, v))
          else skip_field P ty (f1, f2, f3, f4, f5))
       (None, None, None, None, None)
       (\<lambda>(f1, f2, f3, f4, f5). bindp (required P ''TSOpenSessionReq.client_protocol'' f1) (\<lambda>f1.
          bindp (required P ''TSOpenSessionReq.zone_id'' f2) (\<lambda>f2.
          bindp (required P ''TSOpenSessionReq.username'' f3) (\<lambda>f3.
          retp \<lparr>osq_client_protocol = f1, osq_zone_id = f2, osq_username = f3, osq_password = f4,
            osq_configuration = f5\<rparr>))))"

definition write_ts_open_session_req :: "ts_open_session_req \<Rightarrow> out_call list" where
  "write_ts_open_session_req v =
     w_struct ''TSOpenSessionReq''
       (w_field ''client_protocol'' TyI32 1 write_ts_protocol_version (osq_client_protocol v) @
        w_field ''zoneId'' TyString 2 w_string (osq_zone_id v) @
        w_field ''username'' TyString 3 w_string (osq_username v) @
        w_opt ''password'' TyString 4 w_string (osq_password v) @
        w_opt ''configuration'' TyMap 5 (w_map TyString TyString w_string w_string) (osq_configuration v))"

definition ok_ts_open_session_req :: "ts_open_session_req \<Rightarrow> bool" where
  "ok_ts_open_session_req v \<longleftrightarrow>
     str_ok (osq_zone_id v) \<and>
     str_ok (osq_username v) \<and>
     opt_ok str_ok (osq_password v) \<and>
     opt_ok (map_ok str_ok str_ok) (osq_configuration v)"

context thrift_wire
begin

lemma wire_ts_open_session_req:
  assumes "18 \<le> n"
  shows "wire (read_ts_open_session_req P n) write_ts_open_session_req ok_ts_open_session_req"
  by (rule wireI, unfold ok_ts_open_session_req_def read_ts_open_session_req_def write_ts_open_session_req_def,
      (rule wire_rules wire_ts_protocol_version ts_open_session_req.equality | (insert assms, simp; fail))+)

end

subsection \<open>\<^verbatim>\<open>TSCloseSessionReq\<close>\<close>

definition read_ts_close_session_req :: "'i in_protocol \<Rightarrow> nat \<Rightarrow> ('i, ts_close_session_req) rd" where
  "read_ts_close_session_req P n =
     read_struct P n
       (\<lambda>k ty f1.
          if k = 1 then store (callp (ip_i64 P)) (\<lambda>v. v)
          else skip_field P ty f1)
       None
       (\<lambda>f1. bindp (required P ''TSCloseSessionReq.session_id'' f1) (\<lambda>f1.
          retp \<lparr>csq_session_id = f1\<rparr>))"

definition write_ts_close_session_req :: "ts_close_session_req \<Rightarrow> out_call list" where
  "write_ts_close_session_req v =
     w_struct ''TSCloseSessionReq''
       (w_field ''sessionId'' TyI64 1 w_i64 (csq_session_id v))"

definition ok_ts_close_session_req :: "ts_close_session_req \<Rightarrow> bool" where
  "ok_ts_close_session_req v \<longleftrightarrow>
     True"

context thrift_wire
begin

lemma wire_ts_close_session_req:
  assumes "18 \<le> n"
  shows "wire (read_ts_close_session_req P n) write_ts_close_session_req ok_ts_close_session_req"
  by (rule wireI, unfold ok_ts_close_session_req_def read_ts_close_session_req_def write_ts_close_session_req_def,
      (rule wire_rules ts_close_session_req.equality | (insert assms, simp; fail))+)

end

subsection \<open>\<^verbatim>\<open>TSExecuteStatementReq\<close>\<close>

definition read_ts_execute_statement_req :: "'i in_protocol \<Rightarrow> nat \<Rightarrow> ('i, ts_execute_statement_req) rd" where
  "read_ts_execute_statement_req P n =
     read_struct P n
       (\<lambda>k ty (f1, f2, f3, f4, f5, f6, f7).
          if k = 1 then store (callp (ip_i64 P)) (\<lambda>v. (v, f2, f3, f4, f5, f6, f7))
          else if k = 2 then store (callp (ip_string P)) (\<lambda>v. (f1, v, f3, f4, f5, f6, f7))
          else if k = 3 then store (callp (ip_i64 P)) (\<lambda>v. (f1, f2, v, f4, f5, f6, f7))
          else if k = 4 then store (callp (ip_i32 P)) (\<lambda>v. (f1, f2, f3, v, f5, f6, f7))
          else if k = 5 then store (callp (ip_i64 P)) (\<lambda>v. (f1, f2, f3, f4, v, f6, f7))
          else if k = 6 then store (callp (ip_bool P)) (\<lambda>v. (f1, f2, f3, f4, f5, v, f7))
          else if k = 7 then store (callp (ip_bool P)) (\<lambda>v. (f1, f2, f3, f4, f5, f6, v))
          else skip_field P ty (f1, f2, f3, f4, f5, f6, f7))
       (None, None, None, None, None, None, None)
       (\<lambda>(f1, f2, f3, f4, f5, f6, f7). bindp (required P ''TSExecuteStatementReq.session_id'' f1) (\<lambda>f1.
          bindp (required P ''TSExecuteStatementReq.statement'' f2) (\<lambda>f2.
          bindp (required P ''TSExecuteStatementReq.statement_id'' f3) (\<lambda>f3.
          retp \<lparr>esq_session_id = f1, esq_statement = f2, esq_statement_id = f3, esq_fetch_size = f4,
            esq_timeout = f5, esq_enable_redirect_query = f6, esq_jdbc_query = f7\<rparr>))))"

definition write_ts_execute_statement_req :: "ts_execute_statement_req \<Rightarrow> out_call list" where
  "write_ts_execute_statement_req v =
     w_struct ''TSExecuteStatementReq''
       (w_field ''sessionId'' TyI64 1 w_i64 (esq_session_id v) @
        w_field ''statement'' TyString 2 w_string (esq_statement v) @
        w_field ''statementId'' TyI64 3 w_i64 (esq_statement_id v) @
        w_opt ''fetchSize'' TyI32 4 w_i32 (esq_fetch_size v) @
        w_opt ''timeout'' TyI64 5 w_i64 (esq_timeout v) @
        w_opt ''enableRedirectQuery'' TyBool 6 w_bool (esq_enable_redirect_query v) @
        w_opt ''jdbcQuery'' TyBool 7 w_bool (esq_jdbc_query v))"

definition ok_ts_execute_statement_req :: "ts_execute_statement_req \<Rightarrow> bool" where
  "ok_ts_execute_statement_req v \<longleftrightarrow>
     str_ok (esq_statement v)"

context thrift_wire
begin

lemma wire_ts_execute_statement_req:
  assumes "18 \<le> n"
  shows "wire (read_ts_execute_statement_req P n) write_ts_execute_statement_req ok_ts_execute_statement_req"
  by (rule wireI, unfold ok_ts_execute_statement_req_def read_ts_execute_statement_req_def write_ts_execute_statement_req_def,
      (rule wire_rules ts_execute_statement_req.equality | (insert assms, simp; fail))+)

end

subsection \<open>\<^verbatim>\<open>TSCloseOperationReq\<close>\<close>

definition read_ts_close_operation_req :: "'i in_protocol \<Rightarrow> nat \<Rightarrow> ('i, ts_close_operation_req) rd" where
  "read_ts_close_operation_req P n =
     read_struct P n
       (\<lambda>k ty (f1, f2, f3, f4).
          if k = 1 then store (callp (ip_i64 P)) (\<lambda>v. (v, f2, f3, f4))
          else if k = 2 then store (callp (ip_i64 P)) (\<lambda>v. (f1, v, f3, f4))
          else if k = 3 then store (callp (ip_i64 P)) (\<lambda>v. (f1, f2, v, f4))
          else if k = 4 then store (callp (ip_string P)) (\<lambda>v. (f1, f2, f3, v))
          else skip_field P ty (f1, f2, f3, f4))
       (None, None, None, None)
       (\<lambda>(f1, f2, f3, f4). bindp (required P ''TSCloseOperationReq.session_id'' f1) (\<lambda>f1.
          retp \<lparr>coq_session_id = f1, coq_query_id = f2, coq_statement_id = f3,
            coq_prepared_statement_name = f4\<rparr>))"

definition write_ts_close_operation_req :: "ts_close_operation_req \<Rightarrow> out_call list" where
  "write_ts_close_operation_req v =
     w_struct ''TSCloseOperationReq''
       (w_field ''sessionId'' TyI64 1 w_i64 (coq_session_id v) @
        w_opt ''queryId'' TyI64 2 w_i64 (coq_query_id v) @
        w_opt ''statementId'' TyI64 3 w_i64 (coq_statement_id v) @
        w_opt ''preparedStatementName'' TyString 4 w_string (coq_prepared_statement_name v))"

definition ok_ts_close_operation_req :: "ts_close_operation_req \<Rightarrow> bool" where
  "ok_ts_close_operation_req v \<longleftrightarrow>
     opt_ok str_ok (coq_prepared_statement_name v)"

context thrift_wire
begin

lemma wire_ts_close_operation_req:
  assumes "18 \<le> n"
  shows "wire (read_ts_close_operation_req P n) write_ts_close_operation_req ok_ts_close_operation_req"
  by (rule wireI, unfold ok_ts_close_operation_req_def read_ts_close_operation_req_def write_ts_close_operation_req_def,
      (rule wire_rules ts_close_operation_req.equality | (insert assms, simp; fail))+)

end

subsection \<open>\<^verbatim>\<open>TSFetchResultsReq\<close>\<close>

definition read_ts_fetch_results_req :: "'i in_protocol \<Rightarrow> nat \<Rightarrow> ('i, ts_fetch_results_req) rd" where
  "read_ts_fetch_results_req P n =
     read_struct P n
       (\<lambda>k ty (f1, f2, f3, f4, f5, f6, f7).
          if k = 1 then store (callp (ip_i64 P)) (\<lambda>v. (v, f2, f3, f4, f5, f6, f7))
          else if k = 2 then store (callp (ip_string P)) (\<lambda>v. (f1, v, f3, f4, f5, f6, f7))
          else if k = 3 then store (callp (ip_i32 P)) (\<lambda>v. (f1, f2, v, f4, f5, f6, f7))
          else if k = 4 then store (callp (ip_i64 P)) (\<lambda>v. (f1, f2, f3, v, f5, f6, f7))
          else if k = 5 then store (callp (ip_bool P)) (\<lambda>v. (f1, f2, f3, f4, v, f6, f7))
          else if k = 6 then store (callp (ip_i64 P)) (\<lambda>v. (f1, f2, f3, f4, f5, v, f7))
          else if k = 7 then store (callp (ip_i64 P)) (\<lambda>v. (f1, f2, f3, f4, f5, f6, v))
          else skip_field P ty (f1, f2, f3, f4, f5, f6, f7))
       (None, None, None, None, None, None, None)
       (\<lambda>(f1, f2, f3, f4, f5, f6, f7). bindp (required P ''TSFetchResultsReq.session_id'' f1) (\<lambda>f1.
          bindp (required P ''TSFetchResultsReq.statement'' f2) (\<lambda>f2.
          bindp (required P ''TSFetchResultsReq.fetch_size'' f3) (\<lambda>f3.
          bindp (required P ''TSFetchResultsReq.query_id'' f4) (\<lambda>f4.
          bindp (required P ''TSFetchResultsReq.is_align'' f5) (\<lambda>f5.
          retp \<lparr>frq_session_id = f1, frq_statement = f2, frq_fetch_size = f3, frq_query_id = f4,
            frq_is_align = f5, frq_timeout = f6, frq_statement_id = f7\<rparr>))))))"

definition write_ts_fetch_results_req :: "ts_fetch_results_req \<Rightarrow> out_call list" where
  "write_ts_fetch_results_req v =
     w_struct ''TSFetchResultsReq''
       (w_field ''sessionId'' TyI64 1 w_i64 (frq_session_id v) @
        w_field ''statement'' TyString 2 w_string (frq_statement v) @
        w_field ''fetchSize'' TyI32 3 w_i32 (frq_fetch_size v) @
        w_field ''queryId'' TyI64 4 w_i64 (frq_query_id v) @
        w_field ''isAlign'' TyBool 5 w_bool (frq_is_align v) @
        w_opt ''timeout'' TyI64 6 w_i64 (frq_timeout v) @
        w_opt ''statementId'' TyI64 7 w_i64 (frq_statement_id v))"

definition ok_ts_fetch_results_req :: "ts_fetch_results_req \<Rightarrow> bool" where
  "ok_ts_fetch_results_req v \<longleftrightarrow>
     str_ok (frq_statement v)"

context thrift_wire
begin

lemma wire_ts_fetch_results_req:
  assumes "18 \<le> n"
  shows "wire (read_ts_fetch_results_req P n) write_ts_fetch_results_req ok_ts_fetch_results_req"
  by (rule wireI, unfold ok_ts_fetch_results_req_def read_ts_fetch_results_req_def write_ts_fetch_results_req_def,
      (rule wire_rules ts_fetch_results_req.equality | (insert assms, simp; fail))+)

end

section \<open>Inserts\<close>

subsection \<open>\<^verbatim>\<open>TSInsertRecordReq\<close>\<close>

definition read_ts_insert_record_req :: "'i in_protocol \<Rightarrow> nat \<Rightarrow> ('i, ts_insert_record_req) rd" where
  "read_ts_insert_record_req P n =
     read_struct P n
       (\<lambda>k ty (f1, f2, f3, f4, f5, f6, f7, f8).
          if k = 1 then store (callp (ip_i64 P)) (\<lambda>v. (v, f2, f3, f4, f5, f6, f7, f8))
          else if k = 2 then store (callp (ip_string P)) (\<lambda>v. (f1, v, f3, f4, f5, f6, f7, f8))
          else if k = 3 then store (read_list P (callp (ip_string P))) (\<lambda>v. (f1, f2, v, f4, f5, f6, f7, f8))
          else if k = 4 then store (callp (ip_bytes P)) (\<lambda>v. (f1, f2, f3, v, f5, f6, f7, f8))
          else if k = 5 then store (callp (ip_i64 P)) (\<lambda>v. (f1, f2, f3, f4, v, f6, f7, f8))
          else if k = 6 then store (callp (ip_bool P)) (\<lambda>v. (f1, f2, f3, f4, f5, v, f7, f8))
          else if k = 7 then store (callp (ip_bool P)) (\<lambda>v. (f1, f2, f3, f4, f5, f6, v, f8))
          else if k = 8 then store (read_list P (callp (ip_i8 P))) (\<lambda>v. (f1, f2, f3, f4, f5, f6, f7, v))
          else skip_field P ty (f1, f2, f3, f4, f5, f6, f7, f8))
       (None, None, None, None, None, None, None, None)
       (\<lambda>(f1, f2, f3, f4, f5, f6, f7, f8). bindp (required P ''TSInsertRecordReq.session_id'' f1) (\<lambda>f1.
          bindp (required P ''TSInsertRecordReq.prefix_path'' f2) (\<lambda>f2.
          bindp (required P ''TSInsertRecordReq.measurements'' f3) (\<lambda>f3.
          bindp (required P ''TSInsertRecordReq.values'' f4) (\<lambda>f4.
          bindp (required P ''TSInsertRecordReq.timestamp'' f5) (\<lambda>f5.
          retp \<lparr>irq_session_id = f1, irq_prefix_path = f2, irq_measurements = f3, irq_values = f4,
            irq_timestamp = f5, irq_is_aligned = f6, irq_is_write_to_table = f7, irq_column_categoryies =
            f8\<rparr>))))))"

definition write_ts_insert_record_req :: "ts_insert_record_req \<Rightarrow> out_call list" where
  "write_ts_insert_record_req v =
     w_struct ''TSInsertRecordReq''
       (w_field ''sessionId'' TyI64 1 w_i64 (irq_session_id v) @
        w_field ''prefixPath'' TyString 2 w_string (irq_prefix_path v) @
        w_field ''measurements'' TyList 3 (w_list TyString w_string) (irq_measurements v) @
        w_field ''values'' TyString 4 w_bytes (irq_values v) @
        w_field ''timestamp'' TyI64 5 w_i64 (irq_timestamp v) @
        w_opt ''isAligned'' TyBool 6 w_bool (irq_is_aligned v) @
        w_opt ''isWriteToTable'' TyBool 7 w_bool (irq_is_write_to_table v) @
        w_opt ''columnCategoryies'' TyList 8 (w_list TyI08 w_i8) (irq_column_categoryies v))"

definition ok_ts_insert_record_req :: "ts_insert_record_req \<Rightarrow> bool" where
  "ok_ts_insert_record_req v \<longleftrightarrow>
     str_ok (irq_prefix_path v) \<and>
     list_ok str_ok (irq_measurements v) \<and>
     short (irq_values v) \<and>
     opt_ok (list_ok (\<lambda>_. True)) (irq_column_categoryies v)"

context thrift_wire
begin

lemma wire_ts_insert_record_req:
  assumes "18 \<le> n"
  shows "wire (read_ts_insert_record_req P n) write_ts_insert_record_req ok_ts_insert_record_req"
  by (rule wireI, unfold ok_ts_insert_record_req_def read_ts_insert_record_req_def write_ts_insert_record_req_def,
      (rule wire_rules ts_insert_record_req.equality | (insert assms, simp; fail))+)

end

subsection \<open>\<^verbatim>\<open>TSInsertTabletReq\<close>\<close>

definition read_ts_insert_tablet_req :: "'i in_protocol \<Rightarrow> nat \<Rightarrow> ('i, ts_insert_tablet_req) rd" where
  "read_ts_insert_tablet_req P n =
     read_struct P n
       (\<lambda>k ty (f1, f2, f3, f4, f5, f6, f7, f8, f9, f10, f11, f12, f13).
          if k = 1 then store (callp (ip_i64 P)) (\<lambda>v. (v, f2, f3, f4, f5, f6, f7, f8, f9, f10, f11, f12, f13))
          else if k = 2 then store (callp (ip_string P)) (\<lambda>v. (f1, v, f3, f4, f5, f6, f7, f8, f9, f10, f11, f12,
                f13))
          else if k = 3 then store (read_list P (callp (ip_string P))) (\<lambda>v. (f1, f2, v, f4, f5, f6, f7, f8, f9,
                f10, f11, f12, f13))
          else if k = 4 then store (callp (ip_bytes P)) (\<lambda>v. (f1, f2, f3, v, f5, f6, f7, f8, f9, f10, f11, f12,
                f13))
          else if k = 5 then store (callp (ip_bytes P)) (\<lambda>v. (f1, f2, f3, f4, v, f6, f7, f8, f9, f10, f11, f12,
                f13))
          else if k = 6 then store (read_list P (callp (ip_i32 P))) (\<lambda>v. (f1, f2, f3, f4, f5, v, f7, f8, f9,
                f10, f11, f12, f13))
          else if k = 7 then store (callp (ip_i32 P)) (\<lambda>v. (f1, f2, f3, f4, f5, f6, v, f8, f9, f10, f11, f12,
                f13))
          else if k = 8 then store (callp (ip_bool P)) (\<lambda>v. (f1, f2, f3, f4, f5, f6, f7, v, f9, f10, f11, f12,
                f13))
          else if k = 9 then store (callp (ip_bool P)) (\<lambda>v. (f1, f2, f3, f4, f5, f6, f7, f8, v, f10, f11, f12,
                f13))
          else if k = 10 then store (read_list P (callp (ip_i8 P))) (\<lambda>v. (f1, f2, f3, f4, f5, f6, f7, f8, f9, v,
                f11, f12, f13))
          else if k = 11 then store (callp (ip_bool P)) (\<lambda>v. (f1, f2, f3, f4, f5, f6, f7, f8, f9, f10, v, f12,
                f13))
          else if k = 12 then store (read_list P (callp (ip_i8 P))) (\<lambda>v. (f1, f2, f3, f4, f5, f6, f7, f8, f9,
                f10, f11, v, f13))
          else if k = 13 then store (callp (ip_i8 P)) (\<lambda>v. (f1, f2, f3, f4, f5, f6, f7, f8, f9, f10, f11, f12,
                v))
          else skip_field P ty (f1, f2, f3, f4, f5, f6, f7, f8, f9, f10, f11, f12, f13))
       (None, None, None, None, None, None, None, None, None, None, None, None, None)
       (\<lambda>(f1, f2, f3, f4, f5, f6, f7, f8, f9, f10, f11, f12, f13). bindp (required P
             ''TSInsertTabletReq.session_id'' f1) (\<lambda>f1.
          bindp (required P ''TSInsertTabletReq.prefix_path'' f2) (\<lambda>f2.
          bindp (required P ''TSInsertTabletReq.measurements'' f3) (\<lambda>f3.
          bindp (required P ''TSInsertTabletReq.values'' f4) (\<lambda>f4.
          bindp (required P ''TSInsertTabletReq.timestamps'' f5) (\<lambda>f5.
          bindp (required P ''TSInsertTabletReq.types'' f6) (\<lambda>f6.
          bindp (required P ''TSInsertTabletReq.size'' f7) (\<lambda>f7.
          retp \<lparr>itq_session_id = f1, itq_prefix_path = f2, itq_measurements = f3, itq_values = f4,
            itq_timestamps = f5, itq_types = f6, itq_size = f7, itq_is_aligned = f8, itq_write_to_table = f9,
            itq_column_categories = f10, itq_is_compressed = f11, itq_encoding_types = f12, itq_compress_type
            = f13\<rparr>))))))))"

definition write_ts_insert_tablet_req :: "ts_insert_tablet_req \<Rightarrow> out_call list" where
  "write_ts_insert_tablet_req v =
     w_struct ''TSInsertTabletReq''
       (w_field ''sessionId'' TyI64 1 w_i64 (itq_session_id v) @
        w_field ''prefixPath'' TyString 2 w_string (itq_prefix_path v) @
        w_field ''measurements'' TyList 3 (w_list TyString w_string) (itq_measurements v) @
        w_field ''values'' TyString 4 w_bytes (itq_values v) @
        w_field ''timestamps'' TyString 5 w_bytes (itq_timestamps v) @
        w_field ''types'' TyList 6 (w_list TyI32 w_i32) (itq_types v) @
        w_field ''size'' TyI32 7 w_i32 (itq_size v) @
        w_opt ''isAligned'' TyBool 8 w_bool (itq_is_aligned v) @
        w_opt ''writeToTable'' TyBool 9 w_bool (itq_write_to_table v) @
        w_opt ''columnCategories'' TyList 10 (w_list TyI08 w_i8) (itq_column_categories v) @
        w_opt ''isCompressed'' TyBool 11 w_bool (itq_is_compressed v) @
        w_opt ''encodingTypes'' TyList 12 (w_list TyI08 w_i8) (itq_encoding_types v) @
        w_opt ''compressType'' TyI08 13 w_i8 (itq_compress_type v))"

definition ok_ts_insert_tablet_req :: "ts_insert_tablet_req \<Rightarrow> bool" where
  "ok_ts_insert_tablet_req v \<longleftrightarrow>
     str_ok (itq_prefix_path v) \<and>
     list_ok str_ok (itq_measurements v) \<and>
     short (itq_values v) \<and>
     short (itq_timestamps v) \<and>
     list_ok (\<lambda>_. True) (itq_types v) \<and>
     opt_ok (list_ok (\<lambda>_. True)) (itq_column_categories v) \<and>
     opt_ok (list_ok (\<lambda>_. True)) (itq_encoding_types v)"

context thrift_wire
begin

lemma wire_ts_insert_tablet_req:
  assumes "18 \<le> n"
  shows "wire (read_ts_insert_tablet_req P n) write_ts_insert_tablet_req ok_ts_insert_tablet_req"
  by (rule wireI, unfold ok_ts_insert_tablet_req_def read_ts_insert_tablet_req_def write_ts_insert_tablet_req_def,
      (rule wire_rules ts_insert_tablet_req.equality | (insert assms, simp; fail))+)

end

subsection \<open>\<^verbatim>\<open>TSInsertTabletsReq\<close>\<close>

definition read_ts_insert_tablets_req :: "'i in_protocol \<Rightarrow> nat \<Rightarrow> ('i, ts_insert_tablets_req) rd" where
  "read_ts_insert_tablets_req P n =
     read_struct P n
       (\<lambda>k ty (f1, f2, f3, f4, f5, f6, f7, f8).
          if k = 1 then store (callp (ip_i64 P)) (\<lambda>v. (v, f2, f3, f4, f5, f6, f7, f8))
          else if k = 2 then store (read_list P (callp (ip_string P))) (\<lambda>v. (f1, v, f3, f4, f5, f6, f7, f8))
          else if k = 3 then store (read_list P (read_list P (callp (ip_string P)))) (\<lambda>v. (f1, f2, v, f4, f5,
                f6, f7, f8))
          else if k = 4 then store (read_list P (callp (ip_bytes P))) (\<lambda>v. (f1, f2, f3, v, f5, f6, f7, f8))
          else if k = 5 then store (read_list P (callp (ip_bytes P))) (\<lambda>v. (f1, f2, f3, f4, v, f6, f7, f8))
          else if k = 6 then store (read_list P (read_list P (callp (ip_i32 P)))) (\<lambda>v. (f1, f2, f3, f4, f5, v,
                f7, f8))
          else if k = 7 then store (read_list P (callp (ip_i32 P))) (\<lambda>v. (f1, f2, f3, f4, f5, f6, v, f8))
          else if k = 8 then store (callp (ip_bool P)) (\<lambda>v. (f1, f2, f3, f4, f5, f6, f7, v))
          else skip_field P ty (f1, f2, f3, f4, f5, f6, f7, f8))
       (None, None, None, None, None, None, None, None)
       (\<lambda>(f1, f2, f3, f4, f5, f6, f7, f8). bindp (required P ''TSInsertTabletsReq.session_id'' f1) (\<lambda>f1.
          bindp (required P ''TSInsertTabletsReq.prefix_paths'' f2) (\<lambda>f2.
          bindp (required P ''TSInsertTabletsReq.measurements_list'' f3) (\<lambda>f3.
          bindp (required P ''TSInsertTabletsReq.values_list'' f4) (\<lambda>f4.
          bindp (required P ''TSInsertTabletsReq.timestamps_list'' f5) (\<lambda>f5.
          bindp (required P ''TSInsertTabletsReq.types_list'' f6) (\<lambda>f6.
          bindp (required P ''TSInsertTabletsReq.size_list'' f7) (\<lambda>f7.
          retp \<lparr>isq_session_id = f1, isq_prefix_paths = f2, isq_measurements_list = f3, isq_values_list
            = f4, isq_timestamps_list = f5, isq_types_list = f6, isq_size_list = f7, isq_is_aligned =
            f8\<rparr>))))))))"

definition write_ts_insert_tablets_req :: "ts_insert_tablets_req \<Rightarrow> out_call list" where
  "write_ts_insert_tablets_req v =
     w_struct ''TSInsertTabletsReq''
       (w_field ''sessionId'' TyI64 1 w_i64 (isq_session_id v) @
        w_field ''prefixPaths'' TyList 2 (w_list TyString w_string) (isq_prefix_paths v) @
        w_field ''measurementsList'' TyList 3 (w_list TyList (w_list TyString w_string)) (isq_measurements_list
              v) @
        w_field ''valuesList'' TyList 4 (w_list TyString w_bytes) (isq_values_list v) @
        w_field ''timestampsList'' TyList 5 (w_list TyString w_bytes) (isq_timestamps_list v) @
        w_field ''typesList'' TyList 6 (w_list TyList (w_list TyI32 w_i32)) (isq_types_list v) @
        w_field ''sizeList'' TyList 7 (w_list TyI32 w_i32) (isq_size_list v) @
        w_opt ''isAligned'' TyBool 8 w_bool (isq_is_aligned v))"

definition ok_ts_insert_tablets_req :: "ts_insert_tablets_req \<Rightarrow> bool" where
  "ok_ts_insert_tablets_req v \<longleftrightarrow>
     list_ok str_ok (isq_prefix_paths v) \<and>
     list_ok (list_ok str_ok) (isq_measurements_list v) \<and>
     list_ok short (isq_values_list v) \<and>
     list_ok short (isq_timestamps_list v) \<and>
     list_ok (list_ok (\<lambda>_. True)) (isq_types_list v) \<and>
     list_ok (\<lambda>_. True) (isq_size_list v)"

context thrift_wire
begin

lemma wire_ts_insert_tablets_req:
  assumes "18 \<le> n"
  shows "wire (read_ts_insert_tablets_req P n) write_ts_insert_tablets_req ok_ts_insert_tablets_req"
  by (rule wireI, unfold ok_ts_insert_tablets_req_def read_ts_insert_tablets_req_def write_ts_insert_tablets_req_def,
      (rule wire_rules ts_insert_tablets_req.equality | (insert assms, simp; fail))+)

end

subsection \<open>\<^verbatim>\<open>TSInsertRecordsReq\<close>\<close>

definition read_ts_insert_records_req :: "'i in_protocol \<Rightarrow> nat \<Rightarrow> ('i, ts_insert_records_req) rd" where
  "read_ts_insert_records_req P n =
     read_struct P n
       (\<lambda>k ty (f1, f2, f3, f4, f5, f6).
          if k = 1 then store (callp (ip_i64 P)) (\<lambda>v. (v, f2, f3, f4, f5, f6))
          else if k = 2 then store (read_list P (callp (ip_string P))) (\<lambda>v. (f1, v, f3, f4, f5, f6))
          else if k = 3 then store (read_list P (read_list P (callp (ip_string P)))) (\<lambda>v. (f1, f2, v, f4, f5,
                f6))
          else if k = 4 then store (read_list P (callp (ip_bytes P))) (\<lambda>v. (f1, f2, f3, v, f5, f6))
          else if k = 5 then store (read_list P (callp (ip_i64 P))) (\<lambda>v. (f1, f2, f3, f4, v, f6))
          else if k = 6 then store (callp (ip_bool P)) (\<lambda>v. (f1, f2, f3, f4, f5, v))
          else skip_field P ty (f1, f2, f3, f4, f5, f6))
       (None, None, None, None, None, None)
       (\<lambda>(f1, f2, f3, f4, f5, f6). bindp (required P ''TSInsertRecordsReq.session_id'' f1) (\<lambda>f1.
          bindp (required P ''TSInsertRecordsReq.prefix_paths'' f2) (\<lambda>f2.
          bindp (required P ''TSInsertRecordsReq.measurements_list'' f3) (\<lambda>f3.
          bindp (required P ''TSInsertRecordsReq.values_list'' f4) (\<lambda>f4.
          bindp (required P ''TSInsertRecordsReq.timestamps'' f5) (\<lambda>f5.
          retp \<lparr>rsq_session_id = f1, rsq_prefix_paths = f2, rsq_measurements_list = f3, rsq_values_list
            = f4, rsq_timestamps = f5, rsq_is_aligned = f6\<rparr>))))))"

definition write_ts_insert_records_req :: "ts_insert_records_req \<Rightarrow> out_call list" where
  "write_ts_insert_records_req v =
     w_struct ''TSInsertRecordsReq''
       (w_field ''sessionId'' TyI64 1 w_i64 (rsq_session_id v) @
        w_field ''prefixPaths'' TyList 2 (w_list TyString w_string) (rsq_prefix_paths v) @
        w_field ''measurementsList'' TyList 3 (w_list TyList (w_list TyString w_string)) (rsq_measurements_list
              v) @
        w_field ''valuesList'' TyList 4 (w_list TyString w_bytes) (rsq_values_list v) @
        w_field ''timestamps'' TyList 5 (w_list TyI64 w_i64) (rsq_timestamps v) @
        w_opt ''isAligned'' TyBool 6 w_bool (rsq_is_aligned v))"

definition ok_ts_insert_records_req :: "ts_insert_records_req \<Rightarrow> bool" where
  "ok_ts_insert_records_req v \<longleftrightarrow>
     list_ok str_ok (rsq_prefix_paths v) \<and>
     list_ok (list_ok str_ok) (rsq_measurements_list v) \<and>
     list_ok short (rsq_values_list v) \<and>
     list_ok (\<lambda>_. True) (rsq_timestamps v)"

context thrift_wire
begin

lemma wire_ts_insert_records_req:
  assumes "18 \<le> n"
  shows "wire (read_ts_insert_records_req P n) write_ts_insert_records_req ok_ts_insert_records_req"
  by (rule wireI, unfold ok_ts_insert_records_req_def read_ts_insert_records_req_def write_ts_insert_records_req_def,
      (rule wire_rules ts_insert_records_req.equality | (insert assms, simp; fail))+)

end

subsection \<open>\<^verbatim>\<open>TSInsertRecordsOfOneDeviceReq\<close>\<close>

definition read_ts_insert_records_of_one_device_req :: "'i in_protocol \<Rightarrow> nat \<Rightarrow> ('i,
      ts_insert_records_of_one_device_req) rd" where
  "read_ts_insert_records_of_one_device_req P n =
     read_struct P n
       (\<lambda>k ty (f1, f2, f3, f4, f5, f6).
          if k = 1 then store (callp (ip_i64 P)) (\<lambda>v. (v, f2, f3, f4, f5, f6))
          else if k = 2 then store (callp (ip_string P)) (\<lambda>v. (f1, v, f3, f4, f5, f6))
          else if k = 3 then store (read_list P (read_list P (callp (ip_string P)))) (\<lambda>v. (f1, f2, v, f4, f5,
                f6))
          else if k = 4 then store (read_list P (callp (ip_bytes P))) (\<lambda>v. (f1, f2, f3, v, f5, f6))
          else if k = 5 then store (read_list P (callp (ip_i64 P))) (\<lambda>v. (f1, f2, f3, f4, v, f6))
          else if k = 6 then store (callp (ip_bool P)) (\<lambda>v. (f1, f2, f3, f4, f5, v))
          else skip_field P ty (f1, f2, f3, f4, f5, f6))
       (None, None, None, None, None, None)
       (\<lambda>(f1, f2, f3, f4, f5, f6). bindp (required P ''TSInsertRecordsOfOneDeviceReq.session_id'' f1) (\<lambda>f1.
          bindp (required P ''TSInsertRecordsOfOneDeviceReq.prefix_path'' f2) (\<lambda>f2.
          bindp (required P ''TSInsertRecordsOfOneDeviceReq.measurements_list'' f3) (\<lambda>f3.
          bindp (required P ''TSInsertRecordsOfOneDeviceReq.values_list'' f4) (\<lambda>f4.
          bindp (required P ''TSInsertRecordsOfOneDeviceReq.timestamps'' f5) (\<lambda>f5.
          retp \<lparr>odq_session_id = f1, odq_prefix_path = f2, odq_measurements_list = f3, odq_values_list
            = f4, odq_timestamps = f5, odq_is_aligned = f6\<rparr>))))))"

definition write_ts_insert_records_of_one_device_req :: "ts_insert_records_of_one_device_req \<Rightarrow> out_call list"
      where
  "write_ts_insert_records_of_one_device_req v =
     w_struct ''TSInsertRecordsOfOneDeviceReq''
       (w_field ''sessionId'' TyI64 1 w_i64 (odq_session_id v) @
        w_field ''prefixPath'' TyString 2 w_string (odq_prefix_path v) @
        w_field ''measurementsList'' TyList 3 (w_list TyList (w_list TyString w_string)) (odq_measurements_list
              v) @
        w_field ''valuesList'' TyList 4 (w_list TyString w_bytes) (odq_values_list v) @
        w_field ''timestamps'' TyList 5 (w_list TyI64 w_i64) (odq_timestamps v) @
        w_opt ''isAligned'' TyBool 6 w_bool (odq_is_aligned v))"

definition ok_ts_insert_records_of_one_device_req :: "ts_insert_records_of_one_device_req \<Rightarrow> bool" where
  "ok_ts_insert_records_of_one_device_req v \<longleftrightarrow>
     str_ok (odq_prefix_path v) \<and>
     list_ok (list_ok str_ok) (odq_measurements_list v) \<and>
     list_ok short (odq_values_list v) \<and>
     list_ok (\<lambda>_. True) (odq_timestamps v)"

context thrift_wire
begin

lemma wire_ts_insert_records_of_one_device_req:
  assumes "18 \<le> n"
  shows "wire (read_ts_insert_records_of_one_device_req P n) write_ts_insert_records_of_one_device_req ok_ts_insert_records_of_one_device_req"
  by (rule wireI, unfold ok_ts_insert_records_of_one_device_req_def read_ts_insert_records_of_one_device_req_def write_ts_insert_records_of_one_device_req_def,
      (rule wire_rules ts_insert_records_of_one_device_req.equality | (insert assms, simp; fail))+)

end

end
