(* ===== verification/ThriftCommon.thy ===== *)
theory ThriftCommon
  imports ThriftReplies
begin

text \<open>
  The rest of \<^verbatim>\<open>src/protocol/common.rs\<close>: the enumerations and the structures that describe nodes, regions,
  quotas and configurations, in the manner of \<open>ThriftReplies\<close>. A double is its bits. Each structure
  is declared before those that hold it, which is not always the order of the source.
\<close>

section \<open>Enumerations\<close>

subsection \<open>\<^verbatim>\<open>TConsensusGroupType\<close>\<close>

datatype t_consensus_group_type =
    TConsensusGroupType_ConfigRegion
  | TConsensusGroupType_DataRegion
  | TConsensusGroupType_SchemaRegion

definition try_from_t_consensus_group_type :: "i32 \<Rightarrow> thrift_error + t_consensus_group_type" where
  "try_from_t_consensus_group_type i =
     (if i = 0 then Inr TConsensusGroupType_ConfigRegion
      else if i = 1 then Inr TConsensusGroupType_DataRegion
      else if i = 2 then Inr TConsensusGroupType_SchemaRegion
      else Inl (no_variant ''TConsensusGroupType'' i))"

definition read_t_consensus_group_type :: "'i in_protocol \<Rightarrow> ('i, t_consensus_group_type) rd" where
  "read_t_consensus_group_type P = bindp (callp (ip_i32 P)) (\<lambda>i. checkp (try_from_t_consensus_group_type i))"

fun write_t_consensus_group_type :: "t_consensus_group_type \<Rightarrow> out_call list" where
  "write_t_consensus_group_type TConsensusGroupType_ConfigRegion = [OI32 0]"
| "write_t_consensus_group_type TConsensusGroupType_DataRegion = [OI32 1]"
| "write_t_consensus_group_type TConsensusGroupType_SchemaRegion = [OI32 2]"

context thrift_wire
begin

lemma wire_t_consensus_group_type: "wire (read_t_consensus_group_type P) write_t_consensus_group_type (\<lambda>_.
      True)"
  unfolding read_t_consensus_group_type_def by (rule wire_enum) (case_tac v; simp add:
        try_from_t_consensus_group_type_def)

end

subsection \<open>\<^verbatim>\<open>TRegionMigrateFailedType\<close>\<close>

datatype t_region_migrate_failed_type =
    TRegionMigrateFailedType_AddPeerFailed
  | TRegionMigrateFailedType_RemovePeerFailed
  | TRegionMigrateFailedType_RemoveConsensusGroupFailed
  | TRegionMigrateFailedType_DeleteRegionFailed
  | TRegionMigrateFailedType_CreateRegionFailed
  | TRegionMigrateFailedType_Disconnect

definition try_from_t_region_migrate_failed_type :: "i32 \<Rightarrow> thrift_error + t_region_migrate_failed_type" where
  "try_from_t_region_migrate_failed_type i =
     (if i = 0 then Inr TRegionMigrateFailedType_AddPeerFailed
      else if i = 1 then Inr TRegionMigrateFailedType_RemovePeerFailed
      else if i = 2 then Inr TRegionMigrateFailedType_RemoveConsensusGroupFailed
      else if i = 3 then Inr TRegionMigrateFailedType_DeleteRegionFailed
      else if i = 4 then Inr TRegionMigrateFailedType_CreateRegionFailed
      else if i = 5 then Inr TRegionMigrateFailedType_Disconnect
      else Inl (no_variant ''TRegionMigrateFailedType'' i))"

definition read_t_region_migrate_failed_type :: "'i in_protocol \<Rightarrow> ('i, t_region_migrate_failed_type) rd" where
  "read_t_region_migrate_failed_type P = bindp (callp (ip_i32 P)) (\<lambda>i. checkp
        (try_from_t_region_migrate_failed_type i))"

fun write_t_region_migrate_failed_type :: "t_region_migrate_failed_type \<Rightarrow> out_call list" where
  "write_t_region_migrate_failed_type TRegionMigrateFailedType_AddPeerFailed = [OI32 0]"
| "write_t_region_migrate_failed_type TRegionMigrateFailedType_RemovePeerFailed = [OI32 1]"
| "write_t_region_migrate_failed_type TRegionMigrateFailedType_RemoveConsensusGroupFailed = [OI32 2]"
| "write_t_region_migrate_failed_type TRegionMigrateFailedType_DeleteRegionFailed = [OI32 3]"
| "write_t_region_migrate_failed_type TRegionMigrateFailedType_CreateRegionFailed = [OI32 4]"
| "write_t_region_migrate_failed_type TRegionMigrateFailedType_Disconnect = [OI32 5]"

context thrift_wire
begin

lemma wire_t_region_migrate_failed_type: "wire (read_t_region_migrate_failed_type P)
      write_t_region_migrate_failed_type (\<lambda>_. True)"
  unfolding read_t_region_migrate_failed_type_def by (rule wire_enum) (case_tac v; simp add:
        try_from_t_region_migrate_failed_type_def)

end

subsection \<open>\<^verbatim>\<open>TRegionMaintainTaskStatus\<close>\<close>

datatype t_region_maintain_task_status =
    TRegionMaintainTaskStatus_TaskNotExist
  | TRegionMaintainTaskStatus_Processing
  | TRegionMaintainTaskStatus_Success
  | TRegionMaintainTaskStatus_Fail

definition try_from_t_region_maintain_task_status :: "i32 \<Rightarrow> thrift_error + t_region_maintain_task_status" where
  "try_from_t_region_maintain_task_status i =
     (if i = 0 then Inr TRegionMaintainTaskStatus_TaskNotExist
      else if i = 1 then Inr TRegionMaintainTaskStatus_Processing
      else if i = 2 then Inr TRegionMaintainTaskStatus_Success
      else if i = 3 then Inr TRegionMaintainTaskStatus_Fail
      else Inl (no_variant ''TRegionMaintainTaskStatus'' i))"

definition read_t_region_maintain_task_status :: "'i in_protocol \<Rightarrow> ('i, t_region_maintain_task_status) rd" where
  "read_t_region_maintain_task_status P = bindp (callp (ip_i32 P)) (\<lambda>i. checkp
        (try_from_t_region_maintain_task_status i))"

fun write_t_region_maintain_task_status :: "t_region_maintain_task_status \<Rightarrow> out_call list" where
  "write_t_region_maintain_task_status TRegionMaintainTaskStatus_TaskNotExist = [OI32 0]"
| "write_t_region_maintain_task_status TRegionMaintainTaskStatus_Processing = [OI32 1]"
| "write_t_region_maintain_task_status TRegionMaintainTaskStatus_Success = [OI32 2]"
| "write_t_region_maintain_task_status TRegionMaintainTaskStatus_Fail = [OI32 3]"

context thrift_wire
begin

lemma wire_t_region_maintain_task_status: "wire (read_t_region_maintain_task_status P)
      write_t_region_maintain_task_status (\<lambda>_. True)"
  unfolding read_t_region_maintain_task_status_def by (rule wire_enum) (case_tac v; simp add:
        try_from_t_region_maintain_task_status_def)

end

subsection \<open>\<^verbatim>\<open>ThrottleType\<close>\<close>

datatype throttle_type =
    ThrottleType_RequestNumber
  | ThrottleType_RequestSize
  | ThrottleType_WriteNumber
  | ThrottleType_WriteSize
  | ThrottleType_ReadNumber
  | ThrottleType_ReadSize

definition try_from_throttle_type :: "i32 \<Rightarrow> thrift_error + throttle_type" where
  "try_from_throttle_type i =
     (if i = 0 then Inr ThrottleType_RequestNumber
      else if i = 1 then Inr ThrottleType_RequestSize
      else if i = 2 then Inr ThrottleType_WriteNumber
      else if i = 3 then Inr ThrottleType_WriteSize
      else if i = 4 then Inr ThrottleType_ReadNumber
      else if i = 5 then Inr ThrottleType_ReadSize
      else Inl (no_variant ''ThrottleType'' i))"

definition read_throttle_type :: "'i in_protocol \<Rightarrow> ('i, throttle_type) rd" where
  "read_throttle_type P = bindp (callp (ip_i32 P)) (\<lambda>i. checkp (try_from_throttle_type i))"

fun write_throttle_type :: "throttle_type \<Rightarrow> out_call list" where
  "write_throttle_type ThrottleType_RequestNumber = [OI32 0]"
| "write_throttle_type ThrottleType_RequestSize = [OI32 1]"
| "write_throttle_type ThrottleType_WriteNumber = [OI32 2]"
| "write_throttle_type ThrottleType_WriteSize = [OI32 3]"
| "write_throttle_type ThrottleType_ReadNumber = [OI32 4]"
| "write_throttle_type ThrottleType_ReadSize = [OI32 5]"

context thrift_wire
begin

lemma wire_throttle_type: "wire (read_throttle_type P) write_throttle_type (\<lambda>_. True)"
  unfolding read_throttle_type_def by (rule wire_enum) (case_tac v; simp add: try_from_throttle_type_def)

end

text \<open>\<^verbatim>\<open>#[derive(Ord)]\<close>: variants are ordered as they are declared. The type is a key of a map.\<close>

fun throttle_rank :: "throttle_type \<Rightarrow> nat" where
  "throttle_rank ThrottleType_RequestNumber = 0"
| "throttle_rank ThrottleType_RequestSize = 1"
| "throttle_rank ThrottleType_WriteNumber = 2"
| "throttle_rank ThrottleType_WriteSize = 3"
| "throttle_rank ThrottleType_ReadNumber = 4"
| "throttle_rank ThrottleType_ReadSize = 5"

lemma throttle_rank_inject: "throttle_rank a = throttle_rank b \<Longrightarrow> a = b"
  by (cases a; cases b) simp_all

instantiation throttle_type :: linorder
begin

definition less_eq_throttle_type :: "throttle_type \<Rightarrow> throttle_type \<Rightarrow> bool" where
  "less_eq_throttle_type a b \<longleftrightarrow> throttle_rank a \<le> throttle_rank b"

definition less_throttle_type :: "throttle_type \<Rightarrow> throttle_type \<Rightarrow> bool" where
  "less_throttle_type a b \<longleftrightarrow> throttle_rank a < throttle_rank b"

instance
  by standard (auto simp: less_eq_throttle_type_def less_throttle_type_def dest: throttle_rank_inject)

end

subsection \<open>\<^verbatim>\<open>TServiceType\<close>\<close>

datatype t_service_type =
    TServiceType_ConfigNodeInternalService
  | TServiceType_DataNodeInternalService
  | TServiceType_DataNodeMPPService
  | TServiceType_DataNodeExternalService

definition try_from_t_service_type :: "i32 \<Rightarrow> thrift_error + t_service_type" where
  "try_from_t_service_type i =
     (if i = 0 then Inr TServiceType_ConfigNodeInternalService
      else if i = 1 then Inr TServiceType_DataNodeInternalService
      else if i = 2 then Inr TServiceType_DataNodeMPPService
      else if i = 3 then Inr TServiceType_DataNodeExternalService
      else Inl (no_variant ''TServiceType'' i))"

definition read_t_service_type :: "'i in_protocol \<Rightarrow> ('i, t_service_type) rd" where
  "read_t_service_type P = bindp (callp (ip_i32 P)) (\<lambda>i. checkp (try_from_t_service_type i))"

fun write_t_service_type :: "t_service_type \<Rightarrow> out_call list" where
  "write_t_service_type TServiceType_ConfigNodeInternalService = [OI32 0]"
| "write_t_service_type TServiceType_DataNodeInternalService = [OI32 1]"
| "write_t_service_type TServiceType_DataNodeMPPService = [OI32 2]"
| "write_t_service_type TServiceType_DataNodeExternalService = [OI32 3]"

context thrift_wire
begin

lemma wire_t_service_type: "wire (read_t_service_type P) write_t_service_type (\<lambda>_. True)"
  unfolding read_t_service_type_def by (rule wire_enum) (case_tac v; simp add: try_from_t_service_type_def)

end

subsection \<open>\<^verbatim>\<open>TAggregationType\<close>\<close>

datatype t_aggregation_type =
    TAggregationType_Count
  | TAggregationType_Avg
  | TAggregationType_Sum
  | TAggregationType_FirstValue
  | TAggregationType_LastValue
  | TAggregationType_MaxTime
  | TAggregationType_MinTime
  | TAggregationType_MaxValue
  | TAggregationType_MinValue
  | TAggregationType_Extreme
  | TAggregationType_CountIf
  | TAggregationType_TimeDuration
  | TAggregationType_Mode
  | TAggregationType_CountTime
  | TAggregationType_Stddev
  | TAggregationType_StddevPop
  | TAggregationType_StddevSamp
  | TAggregationType_Variance
  | TAggregationType_VarPop
  | TAggregationType_VarSamp
  | TAggregationType_MaxBy
  | TAggregationType_MinBy
  | TAggregationType_Udaf
  | TAggregationType_First
  | TAggregationType_Last
  | TAggregationType_FirstBy
  | TAggregationType_LastBy
  | TAggregationType_Min
  | TAggregationType_Max
  | TAggregationType_CountAll
  | TAggregationType_ApproxCountDistinct
  | TAggregationType_ApproxMostFrequent
  | TAggregationType_ApproxPercentile
  | TAggregationType_Corr
  | TAggregationType_CovarPop
  | TAggregationType_CovarSamp
  | TAggregationType_RegrSlope
  | TAggregationType_RegrIntercept
  | TAggregationType_Skewness
  | TAggregationType_Kurtosis
  | TAggregationType_Percentile

definition try_from_t_aggregation_type :: "i32 \<Rightarrow> thrift_error + t_aggregation_type" where
  "try_from_t_aggregation_type i =
     (if i = 0 then Inr TAggregationType_Count
      else if i = 1 then Inr TAggregationType_Avg
      else if i = 2 then Inr TAggregationType_Sum
      else if i = 3 then Inr TAggregationType_FirstValue
      else if i = 4 then Inr TAggregationType_LastValue
      else if i = 5 then Inr TAggregationType_MaxTime
      else if i = 6 then Inr TAggregationType_MinTime
      else if i = 7 then Inr TAggregationType_MaxValue
      else if i = 8 then Inr TAggregationType_MinValue
      else if i = 9 then Inr TAggregationType_Extreme
      else if i = 10 then Inr TAggregationType_CountIf
      else if i = 11 then Inr TAggregationType_TimeDuration
      else if i = 12 then Inr TAggregationType_Mode
      else if i = 13 then Inr TAggregationType_CountTime
      else if i = 14 then Inr TAggregationType_Stddev
      else if i = 15 then Inr TAggregationType_StddevPop
      else if i = 16 then Inr TAggregationType_StddevSamp
      else if i = 17 then Inr TAggregationType_Variance
      else if i = 18 then Inr TAggregationType_VarPop
      else if i = 19 then Inr TAggregationType_VarSamp
      else if i = 20 then Inr TAggregationType_MaxBy
      else if i = 21 then Inr TAggregationType_MinBy
      else if i = 22 then Inr TAggregationType_Udaf
      else if i = 23 then Inr TAggregationType_First
      else if i = 24 then Inr TAggregationType_Last
      else if i = 25 then Inr TAggregationType_FirstBy
      else if i = 26 then Inr TAggregationType_LastBy
      else if i = 27 then Inr TAggregationType_Min
      else if i = 28 then Inr TAggregationType_Max
      else if i = 29 then Inr TAggregationType_CountAll
      else if i = 30 then Inr TAggregationType_ApproxCountDistinct
      else if i = 31 then Inr TAggregationType_ApproxMostFrequent
      else if i = 32 then Inr TAggregationType_ApproxPercentile
      else if i = 33 then Inr TAggregationType_Corr
      else if i = 34 then Inr TAggregationType_CovarPop
      else if i = 35 then Inr TAggregationType_CovarSamp
      else if i = 36 then Inr TAggregationType_RegrSlope
      else if i = 37 then Inr TAggregationType_RegrIntercept
      else if i = 38 then Inr TAggregationType_Skewness
      else if i = 39 then Inr TAggregationType_Kurtosis
      else if i = 40 then Inr TAggregationType_Percentile
      else Inl (no_variant ''TAggregationType'' i))"

definition read_t_aggregation_type :: "'i in_protocol \<Rightarrow> ('i, t_aggregation_type) rd" where
  "read_t_aggregation_type P = bindp (callp (ip_i32 P)) (\<lambda>i. checkp (try_from_t_aggregation_type i))"

fun write_t_aggregation_type :: "t_aggregation_type \<Rightarrow> out_call list" where
  "write_t_aggregation_type TAggregationType_Count = [OI32 0]"
| "write_t_aggregation_type TAggregationType_Avg = [OI32 1]"
| "write_t_aggregation_type TAggregationType_Sum = [OI32 2]"
| "write_t_aggregation_type TAggregationType_FirstValue = [OI32 3]"
| "write_t_aggregation_type TAggregationType_LastValue = [OI32 4]"
| "write_t_aggregation_type TAggregationType_MaxTime = [OI32 5]"
| "write_t_aggregation_type TAggregationType_MinTime = [OI32 6]"
| "write_t_aggregation_type TAggregationType_MaxValue = [OI32 7]"
| "write_t_aggregation_type TAggregationType_MinValue = [OI32 8]"
| "write_t_aggregation_type TAggregationType_Extreme = [OI32 9]"
| "write_t_aggregation_type TAggregationType_CountIf = [OI32 10]"
| "write_t_aggregation_type TAggregationType_TimeDuration = [OI32 11]"
| "write_t_aggregation_type TAggregationType_Mode = [OI32 12]"
| "write_t_aggregation_type TAggregationType_CountTime = [OI32 13]"
| "write_t_aggregation_type TAggregationType_Stddev = [OI32 14]"
| "write_t_aggregation_type TAggregationType_StddevPop = [OI32 15]"
| "write_t_aggregation_type TAggregationType_StddevSamp = [OI32 16]"
| "write_t_aggregation_type TAggregationType_Variance = [OI32 17]"
| "write_t_aggregation_type TAggregationType_VarPop = [OI32 18]"
| "write_t_aggregation_type TAggregationType_VarSamp = [OI32 19]"
| "write_t_aggregation_type TAggregationType_MaxBy = [OI32 20]"
| "write_t_aggregation_type TAggregationType_MinBy = [OI32 21]"
| "write_t_aggregation_type TAggregationType_Udaf = [OI32 22]"
| "write_t_aggregation_type TAggregationType_First = [OI32 23]"
| "write_t_aggregation_type TAggregationType_Last = [OI32 24]"
| "write_t_aggregation_type TAggregationType_FirstBy = [OI32 25]"
| "write_t_aggregation_type TAggregationType_LastBy = [OI32 26]"
| "write_t_aggregation_type TAggregationType_Min = [OI32 27]"
| "write_t_aggregation_type TAggregationType_Max = [OI32 28]"
| "write_t_aggregation_type TAggregationType_CountAll = [OI32 29]"
| "write_t_aggregation_type TAggregationType_ApproxCountDistinct = [OI32 30]"
| "write_t_aggregation_type TAggregationType_ApproxMostFrequent = [OI32 31]"
| "write_t_aggregation_type TAggregationType_ApproxPercentile = [OI32 32]"
| "write_t_aggregation_type TAggregationType_Corr = [OI32 33]"
| "write_t_aggregation_type TAggregationType_CovarPop = [OI32 34]"
| "write_t_aggregation_type TAggregationType_CovarSamp = [OI32 35]"
| "write_t_aggregation_type TAggregationType_RegrSlope = [OI32 36]"
| "write_t_aggregation_type TAggregationType_RegrIntercept = [OI32 37]"
| "write_t_aggregation_type TAggregationType_Skewness = [OI32 38]"
| "write_t_aggregation_type TAggregationType_Kurtosis = [OI32 39]"
| "write_t_aggregation_type TAggregationType_Percentile = [OI32 40]"

context thrift_wire
begin

lemma wire_t_aggregation_type: "wire (read_t_aggregation_type P) write_t_aggregation_type (\<lambda>_. True)"
  unfolding read_t_aggregation_type_def by (rule wire_enum) (case_tac v; simp add:
        try_from_t_aggregation_type_def)

end

subsection \<open>\<^verbatim>\<open>TrainingState\<close>\<close>

datatype training_state =
    TrainingState_Pending
  | TrainingState_Running
  | TrainingState_Finished
  | TrainingState_Failed
  | TrainingState_Dropping

definition try_from_training_state :: "i32 \<Rightarrow> thrift_error + training_state" where
  "try_from_training_state i =
     (if i = 0 then Inr TrainingState_Pending
      else if i = 1 then Inr TrainingState_Running
      else if i = 2 then Inr TrainingState_Finished
      else if i = 3 then Inr TrainingState_Failed
      else if i = 4 then Inr TrainingState_Dropping
      else Inl (no_variant ''TrainingState'' i))"

definition read_training_state :: "'i in_protocol \<Rightarrow> ('i, training_state) rd" where
  "read_training_state P = bindp (callp (ip_i32 P)) (\<lambda>i. checkp (try_from_training_state i))"

fun write_training_state :: "training_state \<Rightarrow> out_call list" where
  "write_training_state TrainingState_Pending = [OI32 0]"
| "write_training_state TrainingState_Running = [OI32 1]"
| "write_training_state TrainingState_Finished = [OI32 2]"
| "write_training_state TrainingState_Failed = [OI32 3]"
| "write_training_state TrainingState_Dropping = [OI32 4]"

context thrift_wire
begin

lemma wire_training_state: "wire (read_training_state P) write_training_state (\<lambda>_. True)"
  unfolding read_training_state_def by (rule wire_enum) (case_tac v; simp add: try_from_training_state_def)

end

subsection \<open>\<^verbatim>\<open>Model\<close>\<close>

datatype model =
    Model_Tree
  | Model_Table

definition try_from_model :: "i32 \<Rightarrow> thrift_error + model" where
  "try_from_model i =
     (if i = 0 then Inr Model_Tree
      else if i = 1 then Inr Model_Table
      else Inl (no_variant ''Model'' i))"

definition read_model :: "'i in_protocol \<Rightarrow> ('i, model) rd" where
  "read_model P = bindp (callp (ip_i32 P)) (\<lambda>i. checkp (try_from_model i))"

fun write_model :: "model \<Rightarrow> out_call list" where
  "write_model Model_Tree = [OI32 0]"
| "write_model Model_Table = [OI32 1]"

context thrift_wire
begin

lemma wire_model: "wire (read_model P) write_model (\<lambda>_. True)"
  unfolding read_model_def by (rule wire_enum) (case_tac v; simp add: try_from_model_def)

end

subsection \<open>\<^verbatim>\<open>FunctionType\<close>\<close>

datatype function_type =
    FunctionType_None
  | FunctionType_Scalar
  | FunctionType_Aggregate
  | FunctionType_Table

definition try_from_function_type :: "i32 \<Rightarrow> thrift_error + function_type" where
  "try_from_function_type i =
     (if i = 0 then Inr FunctionType_None
      else if i = 1 then Inr FunctionType_Scalar
      else if i = 2 then Inr FunctionType_Aggregate
      else if i = 3 then Inr FunctionType_Table
      else Inl (no_variant ''FunctionType'' i))"

definition read_function_type :: "'i in_protocol \<Rightarrow> ('i, function_type) rd" where
  "read_function_type P = bindp (callp (ip_i32 P)) (\<lambda>i. checkp (try_from_function_type i))"

fun write_function_type :: "function_type \<Rightarrow> out_call list" where
  "write_function_type FunctionType_None = [OI32 0]"
| "write_function_type FunctionType_Scalar = [OI32 1]"
| "write_function_type FunctionType_Aggregate = [OI32 2]"
| "write_function_type FunctionType_Table = [OI32 3]"

context thrift_wire
begin

lemma wire_function_type: "wire (read_function_type P) write_function_type (\<lambda>_. True)"
  unfolding read_function_type_def by (rule wire_enum) (case_tac v; simp add: try_from_function_type_def)

end

section \<open>Structures\<close>

subsection \<open>\<^verbatim>\<open>TConsensusGroupId\<close>\<close>

record t_consensus_group_id =
  tcgi_type :: t_consensus_group_type
  tcgi_id :: i32

definition read_t_consensus_group_id :: "'i in_protocol \<Rightarrow> nat \<Rightarrow> ('i, t_consensus_group_id) rd" where
  "read_t_consensus_group_id P n =
     read_struct P n
       (\<lambda>k ty (f1, f2).
          if k = 1 then store (read_t_consensus_group_type P) (\<lambda>v. (v, f2))
          else if k = 2 then store (callp (ip_i32 P)) (\<lambda>v. (f1, v))
          else skip_field P ty (f1, f2))
       (None, None)
       (\<lambda>(f1, f2).
          bindp (required P ''TConsensusGroupId.type_'' f1) (\<lambda>f1.
          bindp (required P ''TConsensusGroupId.id'' f2) (\<lambda>f2.
          retp \<lparr>tcgi_type = f1, tcgi_id = f2\<rparr>)))"

definition write_t_consensus_group_id :: "t_consensus_group_id \<Rightarrow> out_call list" where
  "write_t_consensus_group_id v =
     w_struct ''TConsensusGroupId''
       (w_field ''type'' TyI32 1 write_t_consensus_group_type (tcgi_type v) @
        w_field ''id'' TyI32 2 w_i32 (tcgi_id v))"

definition ok_t_consensus_group_id :: "t_consensus_group_id \<Rightarrow> bool" where
  "ok_t_consensus_group_id v \<longleftrightarrow>
     True"

context thrift_wire
begin

lemma wire_t_consensus_group_id:
  assumes "18 \<le> n"
  shows "wire (read_t_consensus_group_id P n) write_t_consensus_group_id ok_t_consensus_group_id"
  by (rule wireI, unfold ok_t_consensus_group_id_def read_t_consensus_group_id_def
        write_t_consensus_group_id_def,
      (rule wire_rules wire_t_consensus_group_type t_consensus_group_id.equality | (insert assms, simp; fail))+)

end

subsection \<open>\<^verbatim>\<open>TSeriesPartitionSlot\<close>\<close>

record t_series_partition_slot =
  tsps_slot_id :: i32

definition read_t_series_partition_slot :: "'i in_protocol \<Rightarrow> nat \<Rightarrow> ('i, t_series_partition_slot) rd" where
  "read_t_series_partition_slot P n =
     read_struct P n
       (\<lambda>k ty f1.
          if k = 1 then store (callp (ip_i32 P)) (\<lambda>v. v)
          else skip_field P ty f1)
       None
       (\<lambda>f1.
          bindp (required P ''TSeriesPartitionSlot.slot_id'' f1) (\<lambda>f1.
          retp \<lparr>tsps_slot_id = f1\<rparr>))"

definition write_t_series_partition_slot :: "t_series_partition_slot \<Rightarrow> out_call list" where
  "write_t_series_partition_slot v =
     w_struct ''TSeriesPartitionSlot''
       (w_field ''slotId'' TyI32 1 w_i32 (tsps_slot_id v))"

definition ok_t_series_partition_slot :: "t_series_partition_slot \<Rightarrow> bool" where
  "ok_t_series_partition_slot v \<longleftrightarrow>
     True"

context thrift_wire
begin

lemma wire_t_series_partition_slot:
  assumes "18 \<le> n"
  shows "wire (read_t_series_partition_slot P n) write_t_series_partition_slot ok_t_series_partition_slot"
  by (rule wireI, unfold ok_t_series_partition_slot_def read_t_series_partition_slot_def
        write_t_series_partition_slot_def,
      (rule wire_rules t_series_partition_slot.equality | (insert assms, simp; fail))+)

end

subsection \<open>\<^verbatim>\<open>TTimePartitionSlot\<close>\<close>

record t_time_partition_slot =
  ttps_start_time :: i64

definition read_t_time_partition_slot :: "'i in_protocol \<Rightarrow> nat \<Rightarrow> ('i, t_time_partition_slot) rd" where
  "read_t_time_partition_slot P n =
     read_struct P n
       (\<lambda>k ty f1.
          if k = 1 then store (callp (ip_i64 P)) (\<lambda>v. v)
          else skip_field P ty f1)
       None
       (\<lambda>f1.
          bindp (required P ''TTimePartitionSlot.start_time'' f1) (\<lambda>f1.
          retp \<lparr>ttps_start_time = f1\<rparr>))"

definition write_t_time_partition_slot :: "t_time_partition_slot \<Rightarrow> out_call list" where
  "write_t_time_partition_slot v =
     w_struct ''TTimePartitionSlot''
       (w_field ''startTime'' TyI64 1 w_i64 (ttps_start_time v))"

definition ok_t_time_partition_slot :: "t_time_partition_slot \<Rightarrow> bool" where
  "ok_t_time_partition_slot v \<longleftrightarrow>
     True"

context thrift_wire
begin

lemma wire_t_time_partition_slot:
  assumes "18 \<le> n"
  shows "wire (read_t_time_partition_slot P n) write_t_time_partition_slot ok_t_time_partition_slot"
  by (rule wireI, unfold ok_t_time_partition_slot_def read_t_time_partition_slot_def
        write_t_time_partition_slot_def,
      (rule wire_rules t_time_partition_slot.equality | (insert assms, simp; fail))+)

end

subsection \<open>\<^verbatim>\<open>TDataNodeLocation\<close>\<close>

record t_data_node_location =
  tdnl_data_node_id :: i32
  tdnl_client_rpc_end_point :: t_end_point
  tdnl_internal_end_point :: t_end_point
  tdnl_m_p_p_data_exchange_end_point :: t_end_point
  tdnl_data_region_consensus_end_point :: t_end_point
  tdnl_schema_region_consensus_end_point :: t_end_point

definition read_t_data_node_location :: "'i in_protocol \<Rightarrow> nat \<Rightarrow> ('i, t_data_node_location) rd" where
  "read_t_data_node_location P n =
     read_struct P n
       (\<lambda>k ty (f1, f2, f3, f4, f5, f6).
          if k = 1 then store (callp (ip_i32 P)) (\<lambda>v. (v, f2, f3, f4, f5, f6))
          else if k = 2 then store (read_t_end_point P n) (\<lambda>v. (f1, v, f3, f4, f5, f6))
          else if k = 3 then store (read_t_end_point P n) (\<lambda>v. (f1, f2, v, f4, f5, f6))
          else if k = 4 then store (read_t_end_point P n) (\<lambda>v. (f1, f2, f3, v, f5, f6))
          else if k = 5 then store (read_t_end_point P n) (\<lambda>v. (f1, f2, f3, f4, v, f6))
          else if k = 6 then store (read_t_end_point P n) (\<lambda>v. (f1, f2, f3, f4, f5, v))
          else skip_field P ty (f1, f2, f3, f4, f5, f6))
       (None, None, None, None, None, None)
       (\<lambda>(f1, f2, f3, f4, f5, f6).
          bindp (required P ''TDataNodeLocation.data_node_id'' f1) (\<lambda>f1.
          bindp (required P ''TDataNodeLocation.client_rpc_end_point'' f2) (\<lambda>f2.
          bindp (required P ''TDataNodeLocation.internal_end_point'' f3) (\<lambda>f3.
          bindp (required P ''TDataNodeLocation.m_p_p_data_exchange_end_point'' f4) (\<lambda>f4.
          bindp (required P ''TDataNodeLocation.data_region_consensus_end_point'' f5) (\<lambda>f5.
          bindp (required P ''TDataNodeLocation.schema_region_consensus_end_point'' f6) (\<lambda>f6.
          retp \<lparr>tdnl_data_node_id = f1, tdnl_client_rpc_end_point = f2, tdnl_internal_end_point = f3,
                tdnl_m_p_p_data_exchange_end_point = f4, tdnl_data_region_consensus_end_point = f5,
                tdnl_schema_region_consensus_end_point = f6\<rparr>)))))))"

definition write_t_data_node_location :: "t_data_node_location \<Rightarrow> out_call list" where
  "write_t_data_node_location v =
     w_struct ''TDataNodeLocation''
       (w_field ''dataNodeId'' TyI32 1 w_i32 (tdnl_data_node_id v) @
        w_field ''clientRpcEndPoint'' TyStruct 2 write_t_end_point (tdnl_client_rpc_end_point v) @
        w_field ''internalEndPoint'' TyStruct 3 write_t_end_point (tdnl_internal_end_point v) @
        w_field ''mPPDataExchangeEndPoint'' TyStruct 4 write_t_end_point (tdnl_m_p_p_data_exchange_end_point v)
              @
        w_field ''dataRegionConsensusEndPoint'' TyStruct 5 write_t_end_point
              (tdnl_data_region_consensus_end_point v) @
        w_field ''schemaRegionConsensusEndPoint'' TyStruct 6 write_t_end_point
              (tdnl_schema_region_consensus_end_point v))"

definition ok_t_data_node_location :: "t_data_node_location \<Rightarrow> bool" where
  "ok_t_data_node_location v \<longleftrightarrow>
     ok_t_end_point (tdnl_client_rpc_end_point v) \<and>
     ok_t_end_point (tdnl_internal_end_point v) \<and>
     ok_t_end_point (tdnl_m_p_p_data_exchange_end_point v) \<and>
     ok_t_end_point (tdnl_data_region_consensus_end_point v) \<and>
     ok_t_end_point (tdnl_schema_region_consensus_end_point v)"

context thrift_wire
begin

lemma wire_t_data_node_location:
  assumes "18 \<le> n"
  shows "wire (read_t_data_node_location P n) write_t_data_node_location ok_t_data_node_location"
  by (rule wireI, unfold ok_t_data_node_location_def read_t_data_node_location_def
        write_t_data_node_location_def,
      (rule wire_rules wire_t_end_point t_data_node_location.equality | (insert assms, simp; fail))+)

end

subsection \<open>\<^verbatim>\<open>TRegionReplicaSet\<close>\<close>

record t_region_replica_set =
  trrs_region_id :: t_consensus_group_id
  trrs_data_node_locations :: "t_data_node_location list"

definition read_t_region_replica_set :: "'i in_protocol \<Rightarrow> nat \<Rightarrow> ('i, t_region_replica_set) rd" where
  "read_t_region_replica_set P n =
     read_struct P n
       (\<lambda>k ty (f1, f2).
          if k = 1 then store (read_t_consensus_group_id P n) (\<lambda>v. (v, f2))
          else if k = 2 then store (read_list P (read_t_data_node_location P n)) (\<lambda>v. (f1, v))
          else skip_field P ty (f1, f2))
       (None, None)
       (\<lambda>(f1, f2).
          bindp (required P ''TRegionReplicaSet.region_id'' f1) (\<lambda>f1.
          bindp (required P ''TRegionReplicaSet.data_node_locations'' f2) (\<lambda>f2.
          retp \<lparr>trrs_region_id = f1, trrs_data_node_locations = f2\<rparr>)))"

definition write_t_region_replica_set :: "t_region_replica_set \<Rightarrow> out_call list" where
  "write_t_region_replica_set v =
     w_struct ''TRegionReplicaSet''
       (w_field ''regionId'' TyStruct 1 write_t_consensus_group_id (trrs_region_id v) @
        w_field ''dataNodeLocations'' TyList 2 (w_list TyStruct write_t_data_node_location)
              (trrs_data_node_locations v))"

definition ok_t_region_replica_set :: "t_region_replica_set \<Rightarrow> bool" where
  "ok_t_region_replica_set v \<longleftrightarrow>
     ok_t_consensus_group_id (trrs_region_id v) \<and>
     list_ok ok_t_data_node_location (trrs_data_node_locations v)"

context thrift_wire
begin

lemma wire_t_region_replica_set:
  assumes "18 \<le> n"
  shows "wire (read_t_region_replica_set P n) write_t_region_replica_set ok_t_region_replica_set"
  by (rule wireI, unfold ok_t_region_replica_set_def read_t_region_replica_set_def
        write_t_region_replica_set_def,
      (rule wire_rules wire_t_consensus_group_id wire_t_data_node_location t_region_replica_set.equality |
            (insert assms, simp; fail))+)

end

subsection \<open>\<^verbatim>\<open>TNodeResource\<close>\<close>

record t_node_resource =
  tnr_cpu_core_num :: i32
  tnr_max_memory :: i64

definition read_t_node_resource :: "'i in_protocol \<Rightarrow> nat \<Rightarrow> ('i, t_node_resource) rd" where
  "read_t_node_resource P n =
     read_struct P n
       (\<lambda>k ty (f1, f2).
          if k = 1 then store (callp (ip_i32 P)) (\<lambda>v. (v, f2))
          else if k = 2 then store (callp (ip_i64 P)) (\<lambda>v. (f1, v))
          else skip_field P ty (f1, f2))
       (None, None)
       (\<lambda>(f1, f2).
          bindp (required P ''TNodeResource.cpu_core_num'' f1) (\<lambda>f1.
          bindp (required P ''TNodeResource.max_memory'' f2) (\<lambda>f2.
          retp \<lparr>tnr_cpu_core_num = f1, tnr_max_memory = f2\<rparr>)))"

definition write_t_node_resource :: "t_node_resource \<Rightarrow> out_call list" where
  "write_t_node_resource v =
     w_struct ''TNodeResource''
       (w_field ''cpuCoreNum'' TyI32 1 w_i32 (tnr_cpu_core_num v) @
        w_field ''maxMemory'' TyI64 2 w_i64 (tnr_max_memory v))"

definition ok_t_node_resource :: "t_node_resource \<Rightarrow> bool" where
  "ok_t_node_resource v \<longleftrightarrow>
     True"

context thrift_wire
begin

lemma wire_t_node_resource:
  assumes "18 \<le> n"
  shows "wire (read_t_node_resource P n) write_t_node_resource ok_t_node_resource"
  by (rule wireI, unfold ok_t_node_resource_def read_t_node_resource_def write_t_node_resource_def,
      (rule wire_rules t_node_resource.equality | (insert assms, simp; fail))+)

end

subsection \<open>\<^verbatim>\<open>TConfigNodeLocation\<close>\<close>

record t_config_node_location =
  tcnl_config_node_id :: i32
  tcnl_internal_end_point :: t_end_point
  tcnl_consensus_end_point :: t_end_point

definition read_t_config_node_location :: "'i in_protocol \<Rightarrow> nat \<Rightarrow> ('i, t_config_node_location) rd" where
  "read_t_config_node_location P n =
     read_struct P n
       (\<lambda>k ty (f1, f2, f3).
          if k = 1 then store (callp (ip_i32 P)) (\<lambda>v. (v, f2, f3))
          else if k = 2 then store (read_t_end_point P n) (\<lambda>v. (f1, v, f3))
          else if k = 3 then store (read_t_end_point P n) (\<lambda>v. (f1, f2, v))
          else skip_field P ty (f1, f2, f3))
       (None, None, None)
       (\<lambda>(f1, f2, f3).
          bindp (required P ''TConfigNodeLocation.config_node_id'' f1) (\<lambda>f1.
          bindp (required P ''TConfigNodeLocation.internal_end_point'' f2) (\<lambda>f2.
          bindp (required P ''TConfigNodeLocation.consensus_end_point'' f3) (\<lambda>f3.
          retp \<lparr>tcnl_config_node_id = f1, tcnl_internal_end_point = f2, tcnl_consensus_end_point = f3\<rparr>))))"

definition write_t_config_node_location :: "t_config_node_location \<Rightarrow> out_call list" where
  "write_t_config_node_location v =
     w_struct ''TConfigNodeLocation''
       (w_field ''configNodeId'' TyI32 1 w_i32 (tcnl_config_node_id v) @
        w_field ''internalEndPoint'' TyStruct 2 write_t_end_point (tcnl_internal_end_point v) @
        w_field ''consensusEndPoint'' TyStruct 3 write_t_end_point (tcnl_consensus_end_point v))"

definition ok_t_config_node_location :: "t_config_node_location \<Rightarrow> bool" where
  "ok_t_config_node_location v \<longleftrightarrow>
     ok_t_end_point (tcnl_internal_end_point v) \<and>
     ok_t_end_point (tcnl_consensus_end_point v)"

context thrift_wire
begin

lemma wire_t_config_node_location:
  assumes "18 \<le> n"
  shows "wire (read_t_config_node_location P n) write_t_config_node_location ok_t_config_node_location"
  by (rule wireI, unfold ok_t_config_node_location_def read_t_config_node_location_def
        write_t_config_node_location_def,
      (rule wire_rules wire_t_end_point t_config_node_location.equality | (insert assms, simp; fail))+)

end

subsection \<open>\<^verbatim>\<open>TAINodeLocation\<close>\<close>

record tai_node_location =
  tnl_ai_node_id :: i32
  tnl_internal_end_point :: t_end_point

definition read_tai_node_location :: "'i in_protocol \<Rightarrow> nat \<Rightarrow> ('i, tai_node_location) rd" where
  "read_tai_node_location P n =
     read_struct P n
       (\<lambda>k ty (f1, f2).
          if k = 1 then store (callp (ip_i32 P)) (\<lambda>v. (v, f2))
          else if k = 2 then store (read_t_end_point P n) (\<lambda>v. (f1, v))
          else skip_field P ty (f1, f2))
       (None, None)
       (\<lambda>(f1, f2).
          bindp (required P ''TAINodeLocation.ai_node_id'' f1) (\<lambda>f1.
          bindp (required P ''TAINodeLocation.internal_end_point'' f2) (\<lambda>f2.
          retp \<lparr>tnl_ai_node_id = f1, tnl_internal_end_point = f2\<rparr>)))"

definition write_tai_node_location :: "tai_node_location \<Rightarrow> out_call list" where
  "write_tai_node_location v =
     w_struct ''TAINodeLocation''
       (w_field ''aiNodeId'' TyI32 1 w_i32 (tnl_ai_node_id v) @
        w_field ''internalEndPoint'' TyStruct 2 write_t_end_point (tnl_internal_end_point v))"

definition ok_tai_node_location :: "tai_node_location \<Rightarrow> bool" where
  "ok_tai_node_location v \<longleftrightarrow>
     ok_t_end_point (tnl_internal_end_point v)"

context thrift_wire
begin

lemma wire_tai_node_location:
  assumes "18 \<le> n"
  shows "wire (read_tai_node_location P n) write_tai_node_location ok_tai_node_location"
  by (rule wireI, unfold ok_tai_node_location_def read_tai_node_location_def write_tai_node_location_def,
      (rule wire_rules wire_t_end_point tai_node_location.equality | (insert assms, simp; fail))+)

end

subsection \<open>\<^verbatim>\<open>TDataNodeConfiguration\<close>\<close>

record t_data_node_configuration =
  tdnc_location :: t_data_node_location
  tdnc_resource :: t_node_resource

definition read_t_data_node_configuration :: "'i in_protocol \<Rightarrow> nat \<Rightarrow> ('i, t_data_node_configuration) rd" where
  "read_t_data_node_configuration P n =
     read_struct P n
       (\<lambda>k ty (f1, f2).
          if k = 1 then store (read_t_data_node_location P n) (\<lambda>v. (v, f2))
          else if k = 2 then store (read_t_node_resource P n) (\<lambda>v. (f1, v))
          else skip_field P ty (f1, f2))
       (None, None)
       (\<lambda>(f1, f2).
          bindp (required P ''TDataNodeConfiguration.location'' f1) (\<lambda>f1.
          bindp (required P ''TDataNodeConfiguration.resource'' f2) (\<lambda>f2.
          retp \<lparr>tdnc_location = f1, tdnc_resource = f2\<rparr>)))"

definition write_t_data_node_configuration :: "t_data_node_configuration \<Rightarrow> out_call list" where
  "write_t_data_node_configuration v =
     w_struct ''TDataNodeConfiguration''
       (w_field ''location'' TyStruct 1 write_t_data_node_location (tdnc_location v) @
        w_field ''resource'' TyStruct 2 write_t_node_resource (tdnc_resource v))"

definition ok_t_data_node_configuration :: "t_data_node_configuration \<Rightarrow> bool" where
  "ok_t_data_node_configuration v \<longleftrightarrow>
     ok_t_data_node_location (tdnc_location v) \<and>
     ok_t_node_resource (tdnc_resource v)"

context thrift_wire
begin

lemma wire_t_data_node_configuration:
  assumes "18 \<le> n"
  shows "wire (read_t_data_node_configuration P n) write_t_data_node_configuration ok_t_data_node_configuration"
  by (rule wireI, unfold ok_t_data_node_configuration_def read_t_data_node_configuration_def
        write_t_data_node_configuration_def,
      (rule wire_rules wire_t_data_node_location wire_t_node_resource t_data_node_configuration.equality |
            (insert assms, simp; fail))+)

end

subsection \<open>\<^verbatim>\<open>TAINodeConfiguration\<close>\<close>

record tai_node_configuration =
  tnc_location :: tai_node_location
  tnc_resource :: t_node_resource

definition read_tai_node_configuration :: "'i in_protocol \<Rightarrow> nat \<Rightarrow> ('i, tai_node_configuration) rd" where
  "read_tai_node_configuration P n =
     read_struct P n
       (\<lambda>k ty (f1, f2).
          if k = 1 then store (read_tai_node_location P n) (\<lambda>v. (v, f2))
          else if k = 2 then store (read_t_node_resource P n) (\<lambda>v. (f1, v))
          else skip_field P ty (f1, f2))
       (None, None)
       (\<lambda>(f1, f2).
          bindp (required P ''TAINodeConfiguration.location'' f1) (\<lambda>f1.
          bindp (required P ''TAINodeConfiguration.resource'' f2) (\<lambda>f2.
          retp \<lparr>tnc_location = f1, tnc_resource = f2\<rparr>)))"

definition write_tai_node_configuration :: "tai_node_configuration \<Rightarrow> out_call list" where
  "write_tai_node_configuration v =
     w_struct ''TAINodeConfiguration''
       (w_field ''location'' TyStruct 1 write_tai_node_location (tnc_location v) @
        w_field ''resource'' TyStruct 2 write_t_node_resource (tnc_resource v))"

definition ok_tai_node_configuration :: "tai_node_configuration \<Rightarrow> bool" where
  "ok_tai_node_configuration v \<longleftrightarrow>
     ok_tai_node_location (tnc_location v) \<and>
     ok_t_node_resource (tnc_resource v)"

context thrift_wire
begin

lemma wire_tai_node_configuration:
  assumes "18 \<le> n"
  shows "wire (read_tai_node_configuration P n) write_tai_node_configuration ok_tai_node_configuration"
  by (rule wireI, unfold ok_tai_node_configuration_def read_tai_node_configuration_def
        write_tai_node_configuration_def,
      (rule wire_rules wire_tai_node_location wire_t_node_resource tai_node_configuration.equality | (insert
            assms, simp; fail))+)

end

subsection \<open>\<^verbatim>\<open>TFlushReq\<close>\<close>

record t_flush_req =
  tfr_is_seq :: "string option"
  tfr_storage_groups :: "string list option"
  tfr_region_ids :: "string list option"

definition read_t_flush_req :: "'i in_protocol \<Rightarrow> nat \<Rightarrow> ('i, t_flush_req) rd" where
  "read_t_flush_req P n =
     read_struct P n
       (\<lambda>k ty (f1, f2, f3).
          if k = 1 then store (callp (ip_string P)) (\<lambda>v. (v, f2, f3))
          else if k = 2 then store (read_list P (callp (ip_string P))) (\<lambda>v. (f1, v, f3))
          else if k = 3 then store (read_list P (callp (ip_string P))) (\<lambda>v. (f1, f2, v))
          else skip_field P ty (f1, f2, f3))
       (None, None, None)
       (\<lambda>(f1, f2, f3).
          retp \<lparr>tfr_is_seq = f1, tfr_storage_groups = f2, tfr_region_ids = f3\<rparr>)"

definition write_t_flush_req :: "t_flush_req \<Rightarrow> out_call list" where
  "write_t_flush_req v =
     w_struct ''TFlushReq''
       (w_opt ''isSeq'' TyString 1 w_string (tfr_is_seq v) @
        w_opt ''storageGroups'' TyList 2 (w_list TyString w_string) (tfr_storage_groups v) @
        w_opt ''regionIds'' TyList 3 (w_list TyString w_string) (tfr_region_ids v))"

definition ok_t_flush_req :: "t_flush_req \<Rightarrow> bool" where
  "ok_t_flush_req v \<longleftrightarrow>
     opt_ok str_ok (tfr_is_seq v) \<and>
     opt_ok (list_ok str_ok) (tfr_storage_groups v) \<and>
     opt_ok (list_ok str_ok) (tfr_region_ids v)"

context thrift_wire
begin

lemma wire_t_flush_req:
  assumes "18 \<le> n"
  shows "wire (read_t_flush_req P n) write_t_flush_req ok_t_flush_req"
  by (rule wireI, unfold ok_t_flush_req_def read_t_flush_req_def write_t_flush_req_def,
      (rule wire_rules t_flush_req.equality | (insert assms, simp; fail))+)

end

subsection \<open>\<^verbatim>\<open>TSettleReq\<close>\<close>

record t_settle_req =
  tsr_paths :: "string list"

definition read_t_settle_req :: "'i in_protocol \<Rightarrow> nat \<Rightarrow> ('i, t_settle_req) rd" where
  "read_t_settle_req P n =
     read_struct P n
       (\<lambda>k ty f1.
          if k = 1 then store (read_list P (callp (ip_string P))) (\<lambda>v. v)
          else skip_field P ty f1)
       None
       (\<lambda>f1.
          bindp (required P ''TSettleReq.paths'' f1) (\<lambda>f1.
          retp \<lparr>tsr_paths = f1\<rparr>))"

definition write_t_settle_req :: "t_settle_req \<Rightarrow> out_call list" where
  "write_t_settle_req v =
     w_struct ''TSettleReq''
       (w_field ''paths'' TyList 1 (w_list TyString w_string) (tsr_paths v))"

definition ok_t_settle_req :: "t_settle_req \<Rightarrow> bool" where
  "ok_t_settle_req v \<longleftrightarrow>
     list_ok str_ok (tsr_paths v)"

context thrift_wire
begin

lemma wire_t_settle_req:
  assumes "18 \<le> n"
  shows "wire (read_t_settle_req P n) write_t_settle_req ok_t_settle_req"
  by (rule wireI, unfold ok_t_settle_req_def read_t_settle_req_def write_t_settle_req_def,
      (rule wire_rules t_settle_req.equality | (insert assms, simp; fail))+)

end

subsection \<open>\<^verbatim>\<open>TSchemaNode\<close>\<close>

record t_schema_node =
  tsn_node_name :: string
  tsn_node_type :: i8

definition read_t_schema_node :: "'i in_protocol \<Rightarrow> nat \<Rightarrow> ('i, t_schema_node) rd" where
  "read_t_schema_node P n =
     read_struct P n
       (\<lambda>k ty (f1, f2).
          if k = 1 then store (callp (ip_string P)) (\<lambda>v. (v, f2))
          else if k = 2 then store (callp (ip_i8 P)) (\<lambda>v. (f1, v))
          else skip_field P ty (f1, f2))
       (None, None)
       (\<lambda>(f1, f2).
          bindp (required P ''TSchemaNode.node_name'' f1) (\<lambda>f1.
          bindp (required P ''TSchemaNode.node_type'' f2) (\<lambda>f2.
          retp \<lparr>tsn_node_name = f1, tsn_node_type = f2\<rparr>)))"

definition write_t_schema_node :: "t_schema_node \<Rightarrow> out_call list" where
  "write_t_schema_node v =
     w_struct ''TSchemaNode''
       (w_field ''nodeName'' TyString 1 w_string (tsn_node_name v) @
        w_field ''nodeType'' TyI08 2 w_i8 (tsn_node_type v))"

definition ok_t_schema_node :: "t_schema_node \<Rightarrow> bool" where
  "ok_t_schema_node v \<longleftrightarrow>
     str_ok (tsn_node_name v)"

context thrift_wire
begin

lemma wire_t_schema_node:
  assumes "18 \<le> n"
  shows "wire (read_t_schema_node P n) write_t_schema_node ok_t_schema_node"
  by (rule wireI, unfold ok_t_schema_node_def read_t_schema_node_def write_t_schema_node_def,
      (rule wire_rules t_schema_node.equality | (insert assms, simp; fail))+)

end

subsection \<open>\<^verbatim>\<open>TSetConfigurationReq\<close>\<close>

record t_set_configuration_req =
  tscr_configs :: "(string, string) btree_map"
  tscr_node_id :: i32

definition read_t_set_configuration_req :: "'i in_protocol \<Rightarrow> nat \<Rightarrow> ('i, t_set_configuration_req) rd" where
  "read_t_set_configuration_req P n =
     read_struct P n
       (\<lambda>k ty (f1, f2).
          if k = 1 then store (read_map P (callp (ip_string P)) (callp (ip_string P))) (\<lambda>v. (v, f2))
          else if k = 2 then store (callp (ip_i32 P)) (\<lambda>v. (f1, v))
          else skip_field P ty (f1, f2))
       (None, None)
       (\<lambda>(f1, f2).
          bindp (required P ''TSetConfigurationReq.configs'' f1) (\<lambda>f1.
          bindp (required P ''TSetConfigurationReq.node_id'' f2) (\<lambda>f2.
          retp \<lparr>tscr_configs = f1, tscr_node_id = f2\<rparr>)))"

definition write_t_set_configuration_req :: "t_set_configuration_req \<Rightarrow> out_call list" where
  "write_t_set_configuration_req v =
     w_struct ''TSetConfigurationReq''
       (w_field ''configs'' TyMap 1 (w_map TyString TyString w_string w_string) (tscr_configs v) @
        w_field ''nodeId'' TyI32 2 w_i32 (tscr_node_id v))"

definition ok_t_set_configuration_req :: "t_set_configuration_req \<Rightarrow> bool" where
  "ok_t_set_configuration_req v \<longleftrightarrow>
     map_ok str_ok str_ok (tscr_configs v)"

context thrift_wire
begin

lemma wire_t_set_configuration_req:
  assumes "18 \<le> n"
  shows "wire (read_t_set_configuration_req P n) write_t_set_configuration_req ok_t_set_configuration_req"
  by (rule wireI, unfold ok_t_set_configuration_req_def read_t_set_configuration_req_def
        write_t_set_configuration_req_def,
      (rule wire_rules t_set_configuration_req.equality | (insert assms, simp; fail))+)

end

subsection \<open>\<^verbatim>\<open>TSetTTLReq\<close>\<close>

record t_set_ttl_req =
  tstr_path_pattern :: "string list"
  tstr_t_t_l :: i64
  tstr_is_data_base :: bool

definition read_t_set_ttl_req :: "'i in_protocol \<Rightarrow> nat \<Rightarrow> ('i, t_set_ttl_req) rd" where
  "read_t_set_ttl_req P n =
     read_struct P n
       (\<lambda>k ty (f1, f2, f3).
          if k = 1 then store (read_list P (callp (ip_string P))) (\<lambda>v. (v, f2, f3))
          else if k = 2 then store (callp (ip_i64 P)) (\<lambda>v. (f1, v, f3))
          else if k = 3 then store (callp (ip_bool P)) (\<lambda>v. (f1, f2, v))
          else skip_field P ty (f1, f2, f3))
       (None, None, None)
       (\<lambda>(f1, f2, f3).
          bindp (required P ''TSetTTLReq.path_pattern'' f1) (\<lambda>f1.
          bindp (required P ''TSetTTLReq.t_t_l'' f2) (\<lambda>f2.
          bindp (required P ''TSetTTLReq.is_data_base'' f3) (\<lambda>f3.
          retp \<lparr>tstr_path_pattern = f1, tstr_t_t_l = f2, tstr_is_data_base = f3\<rparr>))))"

definition write_t_set_ttl_req :: "t_set_ttl_req \<Rightarrow> out_call list" where
  "write_t_set_ttl_req v =
     w_struct ''TSetTTLReq''
       (w_field ''pathPattern'' TyList 1 (w_list TyString w_string) (tstr_path_pattern v) @
        w_field ''TTL'' TyI64 2 w_i64 (tstr_t_t_l v) @
        w_field ''isDataBase'' TyBool 3 w_bool (tstr_is_data_base v))"

definition ok_t_set_ttl_req :: "t_set_ttl_req \<Rightarrow> bool" where
  "ok_t_set_ttl_req v \<longleftrightarrow>
     list_ok str_ok (tstr_path_pattern v)"

context thrift_wire
begin

lemma wire_t_set_ttl_req:
  assumes "18 \<le> n"
  shows "wire (read_t_set_ttl_req P n) write_t_set_ttl_req ok_t_set_ttl_req"
  by (rule wireI, unfold ok_t_set_ttl_req_def read_t_set_ttl_req_def write_t_set_ttl_req_def,
      (rule wire_rules t_set_ttl_req.equality | (insert assms, simp; fail))+)

end

subsection \<open>\<^verbatim>\<open>TShowTTLReq\<close>\<close>

record t_show_ttl_req =
  tstr2_path_pattern :: "string list"

definition read_t_show_ttl_req :: "'i in_protocol \<Rightarrow> nat \<Rightarrow> ('i, t_show_ttl_req) rd" where
  "read_t_show_ttl_req P n =
     read_struct P n
       (\<lambda>k ty f1.
          if k = 1 then store (read_list P (callp (ip_string P))) (\<lambda>v. v)
          else skip_field P ty f1)
       None
       (\<lambda>f1.
          bindp (required P ''TShowTTLReq.path_pattern'' f1) (\<lambda>f1.
          retp \<lparr>tstr2_path_pattern = f1\<rparr>))"

definition write_t_show_ttl_req :: "t_show_ttl_req \<Rightarrow> out_call list" where
  "write_t_show_ttl_req v =
     w_struct ''TShowTTLReq''
       (w_field ''pathPattern'' TyList 1 (w_list TyString w_string) (tstr2_path_pattern v))"

definition ok_t_show_ttl_req :: "t_show_ttl_req \<Rightarrow> bool" where
  "ok_t_show_ttl_req v \<longleftrightarrow>
     list_ok str_ok (tstr2_path_pattern v)"

context thrift_wire
begin

lemma wire_t_show_ttl_req:
  assumes "18 \<le> n"
  shows "wire (read_t_show_ttl_req P n) write_t_show_ttl_req ok_t_show_ttl_req"
  by (rule wireI, unfold ok_t_show_ttl_req_def read_t_show_ttl_req_def write_t_show_ttl_req_def,
      (rule wire_rules t_show_ttl_req.equality | (insert assms, simp; fail))+)

end

subsection \<open>\<^verbatim>\<open>TFile\<close>\<close>

record t_file =
  tf_file_name :: string
  tf_file :: bytes

definition read_t_file :: "'i in_protocol \<Rightarrow> nat \<Rightarrow> ('i, t_file) rd" where
  "read_t_file P n =
     read_struct P n
       (\<lambda>k ty (f1, f2).
          if k = 1 then store (callp (ip_string P)) (\<lambda>v. (v, f2))
          else if k = 2 then store (callp (ip_bytes P)) (\<lambda>v. (f1, v))
          else skip_field P ty (f1, f2))
       (None, None)
       (\<lambda>(f1, f2).
          bindp (required P ''TFile.file_name'' f1) (\<lambda>f1.
          bindp (required P ''TFile.file'' f2) (\<lambda>f2.
          retp \<lparr>tf_file_name = f1, tf_file = f2\<rparr>)))"

definition write_t_file :: "t_file \<Rightarrow> out_call list" where
  "write_t_file v =
     w_struct ''TFile''
       (w_field ''fileName'' TyString 1 w_string (tf_file_name v) @
        w_field ''file'' TyString 2 w_bytes (tf_file v))"

definition ok_t_file :: "t_file \<Rightarrow> bool" where
  "ok_t_file v \<longleftrightarrow>
     str_ok (tf_file_name v) \<and>
     short (tf_file v)"

context thrift_wire
begin

lemma wire_t_file:
  assumes "18 \<le> n"
  shows "wire (read_t_file P n) write_t_file ok_t_file"
  by (rule wireI, unfold ok_t_file_def read_t_file_def write_t_file_def,
      (rule wire_rules t_file.equality | (insert assms, simp; fail))+)

end

subsection \<open>\<^verbatim>\<open>TFilesResp\<close>\<close>

record t_files_resp =
  tfr2_status :: ts_status
  tfr2_files :: "t_file list"

definition read_t_files_resp :: "'i in_protocol \<Rightarrow> nat \<Rightarrow> ('i, t_files_resp) rd" where
  "read_t_files_resp P n =
     read_struct P n
       (\<lambda>k ty (f1, f2).
          if k = 1 then store (read_ts_status P n) (\<lambda>v. (v, f2))
          else if k = 2 then store (read_list P (read_t_file P n)) (\<lambda>v. (f1, v))
          else skip_field P ty (f1, f2))
       (None, None)
       (\<lambda>(f1, f2).
          bindp (required P ''TFilesResp.status'' f1) (\<lambda>f1.
          bindp (required P ''TFilesResp.files'' f2) (\<lambda>f2.
          retp \<lparr>tfr2_status = f1, tfr2_files = f2\<rparr>)))"

definition write_t_files_resp :: "t_files_resp \<Rightarrow> out_call list" where
  "write_t_files_resp v =
     w_struct ''TFilesResp''
       (w_field ''status'' TyStruct 1 write_ts_status (tfr2_status v) @
        w_field ''files'' TyList 2 (w_list TyStruct write_t_file) (tfr2_files v))"

definition ok_t_files_resp :: "nat \<Rightarrow> t_files_resp \<Rightarrow> bool" where
  "ok_t_files_resp d v \<longleftrightarrow>
     ok_ts_status d (tfr2_status v) \<and>
     list_ok ok_t_file (tfr2_files v)"

context thrift_wire
begin

lemma wire_t_files_resp:
  assumes "d + 18 \<le> n"
  shows "wire (read_t_files_resp P n) write_t_files_resp (ok_t_files_resp d)"
  by (rule wireI, unfold ok_t_files_resp_def read_t_files_resp_def write_t_files_resp_def,
      (rule wire_rules wire_t_file wire_ts_status t_files_resp.equality | (insert assms, simp; fail))+)

end

subsection \<open>\<^verbatim>\<open>TSpaceQuota\<close>\<close>

record t_space_quota =
  tsq_disk_size :: "i64 option"
  tsq_device_num :: "i64 option"
  tsq_timeserie_num :: "i64 option"

definition read_t_space_quota :: "'i in_protocol \<Rightarrow> nat \<Rightarrow> ('i, t_space_quota) rd" where
  "read_t_space_quota P n =
     read_struct P n
       (\<lambda>k ty (f1, f2, f3).
          if k = 1 then store (callp (ip_i64 P)) (\<lambda>v. (v, f2, f3))
          else if k = 2 then store (callp (ip_i64 P)) (\<lambda>v. (f1, v, f3))
          else if k = 3 then store (callp (ip_i64 P)) (\<lambda>v. (f1, f2, v))
          else skip_field P ty (f1, f2, f3))
       (None, None, None)
       (\<lambda>(f1, f2, f3).
          retp \<lparr>tsq_disk_size = f1, tsq_device_num = f2, tsq_timeserie_num = f3\<rparr>)"

definition write_t_space_quota :: "t_space_quota \<Rightarrow> out_call list" where
  "write_t_space_quota v =
     w_struct ''TSpaceQuota''
       (w_opt ''diskSize'' TyI64 1 w_i64 (tsq_disk_size v) @
        w_opt ''deviceNum'' TyI64 2 w_i64 (tsq_device_num v) @
        w_opt ''timeserieNum'' TyI64 3 w_i64 (tsq_timeserie_num v))"

definition ok_t_space_quota :: "t_space_quota \<Rightarrow> bool" where
  "ok_t_space_quota v \<longleftrightarrow>
     True"

context thrift_wire
begin

lemma wire_t_space_quota:
  assumes "18 \<le> n"
  shows "wire (read_t_space_quota P n) write_t_space_quota ok_t_space_quota"
  by (rule wireI, unfold ok_t_space_quota_def read_t_space_quota_def write_t_space_quota_def,
      (rule wire_rules t_space_quota.equality | (insert assms, simp; fail))+)

end

subsection \<open>\<^verbatim>\<open>TTimedQuota\<close>\<close>

record t_timed_quota =
  ttq_time_unit :: i64
  ttq_soft_limit :: i64

definition read_t_timed_quota :: "'i in_protocol \<Rightarrow> nat \<Rightarrow> ('i, t_timed_quota) rd" where
  "read_t_timed_quota P n =
     read_struct P n
       (\<lambda>k ty (f1, f2).
          if k = 1 then store (callp (ip_i64 P)) (\<lambda>v. (v, f2))
          else if k = 2 then store (callp (ip_i64 P)) (\<lambda>v. (f1, v))
          else skip_field P ty (f1, f2))
       (None, None)
       (\<lambda>(f1, f2).
          bindp (required P ''TTimedQuota.time_unit'' f1) (\<lambda>f1.
          bindp (required P ''TTimedQuota.soft_limit'' f2) (\<lambda>f2.
          retp \<lparr>ttq_time_unit = f1, ttq_soft_limit = f2\<rparr>)))"

definition write_t_timed_quota :: "t_timed_quota \<Rightarrow> out_call list" where
  "write_t_timed_quota v =
     w_struct ''TTimedQuota''
       (w_field ''timeUnit'' TyI64 1 w_i64 (ttq_time_unit v) @
        w_field ''softLimit'' TyI64 2 w_i64 (ttq_soft_limit v))"

definition ok_t_timed_quota :: "t_timed_quota \<Rightarrow> bool" where
  "ok_t_timed_quota v \<longleftrightarrow>
     True"

context thrift_wire
begin

lemma wire_t_timed_quota:
  assumes "18 \<le> n"
  shows "wire (read_t_timed_quota P n) write_t_timed_quota ok_t_timed_quota"
  by (rule wireI, unfold ok_t_timed_quota_def read_t_timed_quota_def write_t_timed_quota_def,
      (rule wire_rules t_timed_quota.equality | (insert assms, simp; fail))+)

end

subsection \<open>\<^verbatim>\<open>TThrottleQuota\<close>\<close>

record t_throttle_quota =
  ttq2_throttle_limit :: "(throttle_type, t_timed_quota) btree_map option"
  ttq2_mem_limit :: "i64 option"
  ttq2_cpu_limit :: "i32 option"

definition read_t_throttle_quota :: "'i in_protocol \<Rightarrow> nat \<Rightarrow> ('i, t_throttle_quota) rd" where
  "read_t_throttle_quota P n =
     read_struct P n
       (\<lambda>k ty (f1, f2, f3).
          if k = 1 then store (read_map P (read_throttle_type P) (read_t_timed_quota P n)) (\<lambda>v. (v, f2, f3))
          else if k = 2 then store (callp (ip_i64 P)) (\<lambda>v. (f1, v, f3))
          else if k = 3 then store (callp (ip_i32 P)) (\<lambda>v. (f1, f2, v))
          else skip_field P ty (f1, f2, f3))
       (None, None, None)
       (\<lambda>(f1, f2, f3).
          retp \<lparr>ttq2_throttle_limit = f1, ttq2_mem_limit = f2, ttq2_cpu_limit = f3\<rparr>)"

definition write_t_throttle_quota :: "t_throttle_quota \<Rightarrow> out_call list" where
  "write_t_throttle_quota v =
     w_struct ''TThrottleQuota''
       (w_opt ''throttleLimit'' TyMap 1 (w_map TyI32 TyStruct write_throttle_type write_t_timed_quota)
             (ttq2_throttle_limit v) @
        w_opt ''memLimit'' TyI64 2 w_i64 (ttq2_mem_limit v) @
        w_opt ''cpuLimit'' TyI32 3 w_i32 (ttq2_cpu_limit v))"

definition ok_t_throttle_quota :: "t_throttle_quota \<Rightarrow> bool" where
  "ok_t_throttle_quota v \<longleftrightarrow>
     opt_ok (map_ok (\<lambda>_. True) ok_t_timed_quota) (ttq2_throttle_limit v)"

context thrift_wire
begin

lemma wire_t_throttle_quota:
  assumes "18 \<le> n"
  shows "wire (read_t_throttle_quota P n) write_t_throttle_quota ok_t_throttle_quota"
  by (rule wireI, unfold ok_t_throttle_quota_def read_t_throttle_quota_def write_t_throttle_quota_def,
      (rule wire_rules wire_t_timed_quota wire_throttle_type t_throttle_quota.equality | (insert assms, simp;
            fail))+)

end

subsection \<open>\<^verbatim>\<open>TSetSpaceQuotaReq\<close>\<close>

record t_set_space_quota_req =
  tssqr_database :: "string list"
  tssqr_space_limit :: t_space_quota

definition read_t_set_space_quota_req :: "'i in_protocol \<Rightarrow> nat \<Rightarrow> ('i, t_set_space_quota_req) rd" where
  "read_t_set_space_quota_req P n =
     read_struct P n
       (\<lambda>k ty (f1, f2).
          if k = 1 then store (read_list P (callp (ip_string P))) (\<lambda>v. (v, f2))
          else if k = 2 then store (read_t_space_quota P n) (\<lambda>v. (f1, v))
          else skip_field P ty (f1, f2))
       (None, None)
       (\<lambda>(f1, f2).
          bindp (required P ''TSetSpaceQuotaReq.database'' f1) (\<lambda>f1.
          bindp (required P ''TSetSpaceQuotaReq.space_limit'' f2) (\<lambda>f2.
          retp \<lparr>tssqr_database = f1, tssqr_space_limit = f2\<rparr>)))"

definition write_t_set_space_quota_req :: "t_set_space_quota_req \<Rightarrow> out_call list" where
  "write_t_set_space_quota_req v =
     w_struct ''TSetSpaceQuotaReq''
       (w_field ''database'' TyList 1 (w_list TyString w_string) (tssqr_database v) @
        w_field ''spaceLimit'' TyStruct 2 write_t_space_quota (tssqr_space_limit v))"

definition ok_t_set_space_quota_req :: "t_set_space_quota_req \<Rightarrow> bool" where
  "ok_t_set_space_quota_req v \<longleftrightarrow>
     list_ok str_ok (tssqr_database v) \<and>
     ok_t_space_quota (tssqr_space_limit v)"

context thrift_wire
begin

lemma wire_t_set_space_quota_req:
  assumes "18 \<le> n"
  shows "wire (read_t_set_space_quota_req P n) write_t_set_space_quota_req ok_t_set_space_quota_req"
  by (rule wireI, unfold ok_t_set_space_quota_req_def read_t_set_space_quota_req_def
        write_t_set_space_quota_req_def,
      (rule wire_rules wire_t_space_quota t_set_space_quota_req.equality | (insert assms, simp; fail))+)

end

subsection \<open>\<^verbatim>\<open>TSetThrottleQuotaReq\<close>\<close>

record t_set_throttle_quota_req =
  tstqr_user_name :: string
  tstqr_throttle_quota :: t_throttle_quota

definition read_t_set_throttle_quota_req :: "'i in_protocol \<Rightarrow> nat \<Rightarrow> ('i, t_set_throttle_quota_req) rd" where
  "read_t_set_throttle_quota_req P n =
     read_struct P n
       (\<lambda>k ty (f1, f2).
          if k = 1 then store (callp (ip_string P)) (\<lambda>v. (v, f2))
          else if k = 2 then store (read_t_throttle_quota P n) (\<lambda>v. (f1, v))
          else skip_field P ty (f1, f2))
       (None, None)
       (\<lambda>(f1, f2).
          bindp (required P ''TSetThrottleQuotaReq.user_name'' f1) (\<lambda>f1.
          bindp (required P ''TSetThrottleQuotaReq.throttle_quota'' f2) (\<lambda>f2.
          retp \<lparr>tstqr_user_name = f1, tstqr_throttle_quota = f2\<rparr>)))"

definition write_t_set_throttle_quota_req :: "t_set_throttle_quota_req \<Rightarrow> out_call list" where
  "write_t_set_throttle_quota_req v =
     w_struct ''TSetThrottleQuotaReq''
       (w_field ''userName'' TyString 1 w_string (tstqr_user_name v) @
        w_field ''throttleQuota'' TyStruct 2 write_t_throttle_quota (tstqr_throttle_quota v))"

definition ok_t_set_throttle_quota_req :: "t_set_throttle_quota_req \<Rightarrow> bool" where
  "ok_t_set_throttle_quota_req v \<longleftrightarrow>
     str_ok (tstqr_user_name v) \<and>
     ok_t_throttle_quota (tstqr_throttle_quota v)"

context thrift_wire
begin

lemma wire_t_set_throttle_quota_req:
  assumes "18 \<le> n"
  shows "wire (read_t_set_throttle_quota_req P n) write_t_set_throttle_quota_req ok_t_set_throttle_quota_req"
  by (rule wireI, unfold ok_t_set_throttle_quota_req_def read_t_set_throttle_quota_req_def
        write_t_set_throttle_quota_req_def,
      (rule wire_rules wire_t_throttle_quota t_set_throttle_quota_req.equality | (insert assms, simp; fail))+)

end

subsection \<open>\<^verbatim>\<open>TPipeHeartbeatResp\<close>\<close>

record t_pipe_heartbeat_resp =
  tphr_pipe_meta_list :: "bytes list"
  tphr_pipe_completed_list :: "bool list option"
  tphr_pipe_remaining_event_count_list :: "i64 list option"
  tphr_pipe_remaining_time_list :: "f64 list option"
  tphr_pipe_degraded_status_list :: "i32 list option"

definition read_t_pipe_heartbeat_resp :: "'i in_protocol \<Rightarrow> nat \<Rightarrow> ('i, t_pipe_heartbeat_resp) rd" where
  "read_t_pipe_heartbeat_resp P n =
     read_struct P n
       (\<lambda>k ty (f1, f2, f3, f4, f5).
          if k = 1 then store (read_list P (callp (ip_bytes P))) (\<lambda>v. (v, f2, f3, f4, f5))
          else if k = 2 then store (read_list P (callp (ip_bool P))) (\<lambda>v. (f1, v, f3, f4, f5))
          else if k = 3 then store (read_list P (callp (ip_i64 P))) (\<lambda>v. (f1, f2, v, f4, f5))
          else if k = 4 then store (read_list P (callp (ip_double P))) (\<lambda>v. (f1, f2, f3, v, f5))
          else if k = 5 then store (read_list P (callp (ip_i32 P))) (\<lambda>v. (f1, f2, f3, f4, v))
          else skip_field P ty (f1, f2, f3, f4, f5))
       (None, None, None, None, None)
       (\<lambda>(f1, f2, f3, f4, f5).
          bindp (required P ''TPipeHeartbeatResp.pipe_meta_list'' f1) (\<lambda>f1.
          retp \<lparr>tphr_pipe_meta_list = f1, tphr_pipe_completed_list = f2, tphr_pipe_remaining_event_count_list =
                f3, tphr_pipe_remaining_time_list = f4, tphr_pipe_degraded_status_list = f5\<rparr>))"

definition write_t_pipe_heartbeat_resp :: "t_pipe_heartbeat_resp \<Rightarrow> out_call list" where
  "write_t_pipe_heartbeat_resp v =
     w_struct ''TPipeHeartbeatResp''
       (w_field ''pipeMetaList'' TyList 1 (w_list TyString w_bytes) (tphr_pipe_meta_list v) @
        w_opt ''pipeCompletedList'' TyList 2 (w_list TyBool w_bool) (tphr_pipe_completed_list v) @
        w_opt ''pipeRemainingEventCountList'' TyList 3 (w_list TyI64 w_i64)
              (tphr_pipe_remaining_event_count_list v) @
        w_opt ''pipeRemainingTimeList'' TyList 4 (w_list TyDouble w_double) (tphr_pipe_remaining_time_list v) @
        w_opt ''pipeDegradedStatusList'' TyList 5 (w_list TyI32 w_i32) (tphr_pipe_degraded_status_list v))"

definition ok_t_pipe_heartbeat_resp :: "t_pipe_heartbeat_resp \<Rightarrow> bool" where
  "ok_t_pipe_heartbeat_resp v \<longleftrightarrow>
     list_ok short (tphr_pipe_meta_list v) \<and>
     opt_ok (list_ok (\<lambda>_. True)) (tphr_pipe_completed_list v) \<and>
     opt_ok (list_ok (\<lambda>_. True)) (tphr_pipe_remaining_event_count_list v) \<and>
     opt_ok (list_ok (\<lambda>_. True)) (tphr_pipe_remaining_time_list v) \<and>
     opt_ok (list_ok (\<lambda>_. True)) (tphr_pipe_degraded_status_list v)"

context thrift_wire
begin

lemma wire_t_pipe_heartbeat_resp:
  assumes "18 \<le> n"
  shows "wire (read_t_pipe_heartbeat_resp P n) write_t_pipe_heartbeat_resp ok_t_pipe_heartbeat_resp"
  by (rule wireI, unfold ok_t_pipe_heartbeat_resp_def read_t_pipe_heartbeat_resp_def
        write_t_pipe_heartbeat_resp_def,
      (rule wire_rules t_pipe_heartbeat_resp.equality | (insert assms, simp; fail))+)

end

subsection \<open>\<^verbatim>\<open>TLicense\<close>\<close>

record t_license =
  tl_license_issue_timestamp :: i64
  tl_expire_timestamp :: i64
  tl_data_node_num_limit :: i16
  tl_cpu_core_num_limit :: i32
  tl_device_num_limit :: i64
  tl_sensor_num_limit :: i64
  tl_disconnection_from_active_node_time_limit :: i64
  tl_ml_node_num_limit :: i16

definition read_t_license :: "'i in_protocol \<Rightarrow> nat \<Rightarrow> ('i, t_license) rd" where
  "read_t_license P n =
     read_struct P n
       (\<lambda>k ty (f1, f2, f4, f5, f6, f7, f8, f9).
          if k = 1 then store (callp (ip_i64 P)) (\<lambda>v. (v, f2, f4, f5, f6, f7, f8, f9))
          else if k = 2 then store (callp (ip_i64 P)) (\<lambda>v. (f1, v, f4, f5, f6, f7, f8, f9))
          else if k = 4 then store (callp (ip_i16 P)) (\<lambda>v. (f1, f2, v, f5, f6, f7, f8, f9))
          else if k = 5 then store (callp (ip_i32 P)) (\<lambda>v. (f1, f2, f4, v, f6, f7, f8, f9))
          else if k = 6 then store (callp (ip_i64 P)) (\<lambda>v. (f1, f2, f4, f5, v, f7, f8, f9))
          else if k = 7 then store (callp (ip_i64 P)) (\<lambda>v. (f1, f2, f4, f5, f6, v, f8, f9))
          else if k = 8 then store (callp (ip_i64 P)) (\<lambda>v. (f1, f2, f4, f5, f6, f7, v, f9))
          else if k = 9 then store (callp (ip_i16 P)) (\<lambda>v. (f1, f2, f4, f5, f6, f7, f8, v))
          else skip_field P ty (f1, f2, f4, f5, f6, f7, f8, f9))
       (None, None, None, None, None, None, None, None)
       (\<lambda>(f1, f2, f4, f5, f6, f7, f8, f9).
          bindp (required P ''TLicense.license_issue_timestamp'' f1) (\<lambda>f1.
          bindp (required P ''TLicense.expire_timestamp'' f2) (\<lambda>f2.
          bindp (required P ''TLicense.data_node_num_limit'' f4) (\<lambda>f4.
          bindp (required P ''TLicense.cpu_core_num_limit'' f5) (\<lambda>f5.
          bindp (required P ''TLicense.device_num_limit'' f6) (\<lambda>f6.
          bindp (required P ''TLicense.sensor_num_limit'' f7) (\<lambda>f7.
          bindp (required P ''TLicense.disconnection_from_active_node_time_limit'' f8) (\<lambda>f8.
          bindp (required P ''TLicense.ml_node_num_limit'' f9) (\<lambda>f9.
          retp \<lparr>tl_license_issue_timestamp = f1, tl_expire_timestamp = f2, tl_data_node_num_limit = f4,
                tl_cpu_core_num_limit = f5, tl_device_num_limit = f6, tl_sensor_num_limit = f7,
                tl_disconnection_from_active_node_time_limit = f8, tl_ml_node_num_limit = f9\<rparr>)))))))))"

definition write_t_license :: "t_license \<Rightarrow> out_call list" where
  "write_t_license v =
     w_struct ''TLicense''
       (w_field ''licenseIssueTimestamp'' TyI64 1 w_i64 (tl_license_issue_timestamp v) @
        w_field ''expireTimestamp'' TyI64 2 w_i64 (tl_expire_timestamp v) @
        w_field ''dataNodeNumLimit'' TyI16 4 w_i16 (tl_data_node_num_limit v) @
        w_field ''cpuCoreNumLimit'' TyI32 5 w_i32 (tl_cpu_core_num_limit v) @
        w_field ''deviceNumLimit'' TyI64 6 w_i64 (tl_device_num_limit v) @
        w_field ''sensorNumLimit'' TyI64 7 w_i64 (tl_sensor_num_limit v) @
        w_field ''disconnectionFromActiveNodeTimeLimit'' TyI64 8 w_i64
              (tl_disconnection_from_active_node_time_limit v) @
        w_field ''mlNodeNumLimit'' TyI16 9 w_i16 (tl_ml_node_num_limit v))"

definition ok_t_license :: "t_license \<Rightarrow> bool" where
  "ok_t_license v \<longleftrightarrow>
     True"

context thrift_wire
begin

lemma wire_t_license:
  assumes "18 \<le> n"
  shows "wire (read_t_license P n) write_t_license ok_t_license"
  by (rule wireI, unfold ok_t_license_def read_t_license_def write_t_license_def,
      (rule wire_rules t_license.equality | (insert assms, simp; fail))+)

end

subsection \<open>\<^verbatim>\<open>TLoadSample\<close>\<close>

record t_load_sample =
  tls_cpu_usage_rate :: f64
  tls_memory_usage_rate :: f64
  tls_disk_usage_rate :: f64
  tls_free_disk_space :: f64

definition read_t_load_sample :: "'i in_protocol \<Rightarrow> nat \<Rightarrow> ('i, t_load_sample) rd" where
  "read_t_load_sample P n =
     read_struct P n
       (\<lambda>k ty (f1, f2, f3, f4).
          if k = 1 then store (callp (ip_double P)) (\<lambda>v. (v, f2, f3, f4))
          else if k = 2 then store (callp (ip_double P)) (\<lambda>v. (f1, v, f3, f4))
          else if k = 3 then store (callp (ip_double P)) (\<lambda>v. (f1, f2, v, f4))
          else if k = 4 then store (callp (ip_double P)) (\<lambda>v. (f1, f2, f3, v))
          else skip_field P ty (f1, f2, f3, f4))
       (None, None, None, None)
       (\<lambda>(f1, f2, f3, f4).
          bindp (required P ''TLoadSample.cpu_usage_rate'' f1) (\<lambda>f1.
          bindp (required P ''TLoadSample.memory_usage_rate'' f2) (\<lambda>f2.
          bindp (required P ''TLoadSample.disk_usage_rate'' f3) (\<lambda>f3.
          bindp (required P ''TLoadSample.free_disk_space'' f4) (\<lambda>f4.
          retp \<lparr>tls_cpu_usage_rate = f1, tls_memory_usage_rate = f2, tls_disk_usage_rate = f3,
                tls_free_disk_space = f4\<rparr>)))))"

definition write_t_load_sample :: "t_load_sample \<Rightarrow> out_call list" where
  "write_t_load_sample v =
     w_struct ''TLoadSample''
       (w_field ''cpuUsageRate'' TyDouble 1 w_double (tls_cpu_usage_rate v) @
        w_field ''memoryUsageRate'' TyDouble 2 w_double (tls_memory_usage_rate v) @
        w_field ''diskUsageRate'' TyDouble 3 w_double (tls_disk_usage_rate v) @
        w_field ''freeDiskSpace'' TyDouble 4 w_double (tls_free_disk_space v))"

definition ok_t_load_sample :: "t_load_sample \<Rightarrow> bool" where
  "ok_t_load_sample v \<longleftrightarrow>
     True"

context thrift_wire
begin

lemma wire_t_load_sample:
  assumes "18 \<le> n"
  shows "wire (read_t_load_sample P n) write_t_load_sample ok_t_load_sample"
  by (rule wireI, unfold ok_t_load_sample_def read_t_load_sample_def write_t_load_sample_def,
      (rule wire_rules t_load_sample.equality | (insert assms, simp; fail))+)

end

subsection \<open>\<^verbatim>\<open>TServiceProvider\<close>\<close>

record t_service_provider =
  tsp_end_point :: t_end_point
  tsp_service_type :: t_service_type
  tsp_node_id :: i32

definition read_t_service_provider :: "'i in_protocol \<Rightarrow> nat \<Rightarrow> ('i, t_service_provider) rd" where
  "read_t_service_provider P n =
     read_struct P n
       (\<lambda>k ty (f1, f2, f3).
          if k = 1 then store (read_t_end_point P n) (\<lambda>v. (v, f2, f3))
          else if k = 2 then store (read_t_service_type P) (\<lambda>v. (f1, v, f3))
          else if k = 3 then store (callp (ip_i32 P)) (\<lambda>v. (f1, f2, v))
          else skip_field P ty (f1, f2, f3))
       (None, None, None)
       (\<lambda>(f1, f2, f3).
          bindp (required P ''TServiceProvider.end_point'' f1) (\<lambda>f1.
          bindp (required P ''TServiceProvider.service_type'' f2) (\<lambda>f2.
          bindp (required P ''TServiceProvider.node_id'' f3) (\<lambda>f3.
          retp \<lparr>tsp_end_point = f1, tsp_service_type = f2, tsp_node_id = f3\<rparr>))))"

definition write_t_service_provider :: "t_service_provider \<Rightarrow> out_call list" where
  "write_t_service_provider v =
     w_struct ''TServiceProvider''
       (w_field ''endPoint'' TyStruct 1 write_t_end_point (tsp_end_point v) @
        w_field ''serviceType'' TyI32 2 write_t_service_type (tsp_service_type v) @
        w_field ''nodeId'' TyI32 3 w_i32 (tsp_node_id v))"

definition ok_t_service_provider :: "t_service_provider \<Rightarrow> bool" where
  "ok_t_service_provider v \<longleftrightarrow>
     ok_t_end_point (tsp_end_point v)"

context thrift_wire
begin

lemma wire_t_service_provider:
  assumes "18 \<le> n"
  shows "wire (read_t_service_provider P n) write_t_service_provider ok_t_service_provider"
  by (rule wireI, unfold ok_t_service_provider_def read_t_service_provider_def write_t_service_provider_def,
      (rule wire_rules wire_t_end_point wire_t_service_type t_service_provider.equality | (insert assms, simp;
            fail))+)

end

subsection \<open>\<^verbatim>\<open>TSender\<close>\<close>

record t_sender =
  ts_data_node_location :: "t_data_node_location option"
  ts_config_node_location :: "t_config_node_location option"

definition read_t_sender :: "'i in_protocol \<Rightarrow> nat \<Rightarrow> ('i, t_sender) rd" where
  "read_t_sender P n =
     read_struct P n
       (\<lambda>k ty (f1, f2).
          if k = 1 then store (read_t_data_node_location P n) (\<lambda>v. (v, f2))
          else if k = 2 then store (read_t_config_node_location P n) (\<lambda>v. (f1, v))
          else skip_field P ty (f1, f2))
       (None, None)
       (\<lambda>(f1, f2).
          retp \<lparr>ts_data_node_location = f1, ts_config_node_location = f2\<rparr>)"

definition write_t_sender :: "t_sender \<Rightarrow> out_call list" where
  "write_t_sender v =
     w_struct ''TSender''
       (w_opt ''dataNodeLocation'' TyStruct 1 write_t_data_node_location (ts_data_node_location v) @
        w_opt ''configNodeLocation'' TyStruct 2 write_t_config_node_location (ts_config_node_location v))"

definition ok_t_sender :: "t_sender \<Rightarrow> bool" where
  "ok_t_sender v \<longleftrightarrow>
     opt_ok ok_t_data_node_location (ts_data_node_location v) \<and>
     opt_ok ok_t_config_node_location (ts_config_node_location v)"

context thrift_wire
begin

lemma wire_t_sender:
  assumes "18 \<le> n"
  shows "wire (read_t_sender P n) write_t_sender ok_t_sender"
  by (rule wireI, unfold ok_t_sender_def read_t_sender_def write_t_sender_def,
      (rule wire_rules wire_t_config_node_location wire_t_data_node_location t_sender.equality | (insert assms,
            simp; fail))+)

end

subsection \<open>\<^verbatim>\<open>TTestConnectionResult\<close>\<close>

record t_test_connection_result =
  ttcr_service_provider :: t_service_provider
  ttcr_sender :: t_sender
  ttcr_success :: bool
  ttcr_reason :: "string option"

definition read_t_test_connection_result :: "'i in_protocol \<Rightarrow> nat \<Rightarrow> ('i, t_test_connection_result) rd" where
  "read_t_test_connection_result P n =
     read_struct P n
       (\<lambda>k ty (f1, f2, f3, f4).
          if k = 1 then store (read_t_service_provider P n) (\<lambda>v. (v, f2, f3, f4))
          else if k = 2 then store (read_t_sender P n) (\<lambda>v. (f1, v, f3, f4))
          else if k = 3 then store (callp (ip_bool P)) (\<lambda>v. (f1, f2, v, f4))
          else if k = 4 then store (callp (ip_string P)) (\<lambda>v. (f1, f2, f3, v))
          else skip_field P ty (f1, f2, f3, f4))
       (None, None, None, None)
       (\<lambda>(f1, f2, f3, f4).
          bindp (required P ''TTestConnectionResult.service_provider'' f1) (\<lambda>f1.
          bindp (required P ''TTestConnectionResult.sender'' f2) (\<lambda>f2.
          bindp (required P ''TTestConnectionResult.success'' f3) (\<lambda>f3.
          retp \<lparr>ttcr_service_provider = f1, ttcr_sender = f2, ttcr_success = f3, ttcr_reason = f4\<rparr>))))"

definition write_t_test_connection_result :: "t_test_connection_result \<Rightarrow> out_call list" where
  "write_t_test_connection_result v =
     w_struct ''TTestConnectionResult''
       (w_field ''serviceProvider'' TyStruct 1 write_t_service_provider (ttcr_service_provider v) @
        w_field ''sender'' TyStruct 2 write_t_sender (ttcr_sender v) @
        w_field ''success'' TyBool 3 w_bool (ttcr_success v) @
        w_opt ''reason'' TyString 4 w_string (ttcr_reason v))"

definition ok_t_test_connection_result :: "t_test_connection_result \<Rightarrow> bool" where
  "ok_t_test_connection_result v \<longleftrightarrow>
     ok_t_service_provider (ttcr_service_provider v) \<and>
     ok_t_sender (ttcr_sender v) \<and>
     opt_ok str_ok (ttcr_reason v)"

context thrift_wire
begin

lemma wire_t_test_connection_result:
  assumes "18 \<le> n"
  shows "wire (read_t_test_connection_result P n) write_t_test_connection_result ok_t_test_connection_result"
  by (rule wireI, unfold ok_t_test_connection_result_def read_t_test_connection_result_def
        write_t_test_connection_result_def,
      (rule wire_rules wire_t_sender wire_t_service_provider t_test_connection_result.equality | (insert assms,
            simp; fail))+)

end

subsection \<open>\<^verbatim>\<open>TTestConnectionResp\<close>\<close>

record t_test_connection_resp =
  ttcr2_status :: ts_status
  ttcr2_result_list :: "t_test_connection_result list"

definition read_t_test_connection_resp :: "'i in_protocol \<Rightarrow> nat \<Rightarrow> ('i, t_test_connection_resp) rd" where
  "read_t_test_connection_resp P n =
     read_struct P n
       (\<lambda>k ty (f1, f2).
          if k = 1 then store (read_ts_status P n) (\<lambda>v. (v, f2))
          else if k = 2 then store (read_list P (read_t_test_connection_result P n)) (\<lambda>v. (f1, v))
          else skip_field P ty (f1, f2))
       (None, None)
       (\<lambda>(f1, f2).
          bindp (required P ''TTestConnectionResp.status'' f1) (\<lambda>f1.
          bindp (required P ''TTestConnectionResp.result_list'' f2) (\<lambda>f2.
          retp \<lparr>ttcr2_status = f1, ttcr2_result_list = f2\<rparr>)))"

definition write_t_test_connection_resp :: "t_test_connection_resp \<Rightarrow> out_call list" where
  "write_t_test_connection_resp v =
     w_struct ''TTestConnectionResp''
       (w_field ''status'' TyStruct 1 write_ts_status (ttcr2_status v) @
        w_field ''resultList'' TyList 2 (w_list TyStruct write_t_test_connection_result) (ttcr2_result_list v))"

definition ok_t_test_connection_resp :: "nat \<Rightarrow> t_test_connection_resp \<Rightarrow> bool" where
  "ok_t_test_connection_resp d v \<longleftrightarrow>
     ok_ts_status d (ttcr2_status v) \<and>
     list_ok ok_t_test_connection_result (ttcr2_result_list v)"

context thrift_wire
begin

lemma wire_t_test_connection_resp:
  assumes "d + 18 \<le> n"
  shows "wire (read_t_test_connection_resp P n) write_t_test_connection_resp (ok_t_test_connection_resp d)"
  by (rule wireI, unfold ok_t_test_connection_resp_def read_t_test_connection_resp_def
        write_t_test_connection_resp_def,
      (rule wire_rules wire_ts_status wire_t_test_connection_result t_test_connection_resp.equality | (insert
            assms, simp; fail))+)

end

subsection \<open>\<^verbatim>\<open>TNodeLocations\<close>\<close>

record t_node_locations =
  tnl2_config_node_locations :: "t_config_node_location list option"
  tnl2_data_node_locations :: "t_data_node_location list option"

definition read_t_node_locations :: "'i in_protocol \<Rightarrow> nat \<Rightarrow> ('i, t_node_locations) rd" where
  "read_t_node_locations P n =
     read_struct P n
       (\<lambda>k ty (f1, f2).
          if k = 1 then store (read_list P (read_t_config_node_location P n)) (\<lambda>v. (v, f2))
          else if k = 2 then store (read_list P (read_t_data_node_location P n)) (\<lambda>v. (f1, v))
          else skip_field P ty (f1, f2))
       (None, None)
       (\<lambda>(f1, f2).
          retp \<lparr>tnl2_config_node_locations = f1, tnl2_data_node_locations = f2\<rparr>)"

definition write_t_node_locations :: "t_node_locations \<Rightarrow> out_call list" where
  "write_t_node_locations v =
     w_struct ''TNodeLocations''
       (w_opt ''configNodeLocations'' TyList 1 (w_list TyStruct write_t_config_node_location)
             (tnl2_config_node_locations v) @
        w_opt ''dataNodeLocations'' TyList 2 (w_list TyStruct write_t_data_node_location)
              (tnl2_data_node_locations v))"

definition ok_t_node_locations :: "t_node_locations \<Rightarrow> bool" where
  "ok_t_node_locations v \<longleftrightarrow>
     opt_ok (list_ok ok_t_config_node_location) (tnl2_config_node_locations v) \<and>
     opt_ok (list_ok ok_t_data_node_location) (tnl2_data_node_locations v)"

context thrift_wire
begin

lemma wire_t_node_locations:
  assumes "18 \<le> n"
  shows "wire (read_t_node_locations P n) write_t_node_locations ok_t_node_locations"
  by (rule wireI, unfold ok_t_node_locations_def read_t_node_locations_def write_t_node_locations_def,
      (rule wire_rules wire_t_config_node_location wire_t_data_node_location t_node_locations.equality | (insert
            assms, simp; fail))+)

end

subsection \<open>\<^verbatim>\<open>TExternalServiceEntry\<close>\<close>

record t_external_service_entry =
  tese_service_name :: string
  tese_class_name :: string
  tese_state :: i8
  tese_data_node_id :: i32
  tese_service_type :: i8

definition read_t_external_service_entry :: "'i in_protocol \<Rightarrow> nat \<Rightarrow> ('i, t_external_service_entry) rd" where
  "read_t_external_service_entry P n =
     read_struct P n
       (\<lambda>k ty (f1, f2, f3, f4, f5).
          if k = 1 then store (callp (ip_string P)) (\<lambda>v. (v, f2, f3, f4, f5))
          else if k = 2 then store (callp (ip_string P)) (\<lambda>v. (f1, v, f3, f4, f5))
          else if k = 3 then store (callp (ip_i8 P)) (\<lambda>v. (f1, f2, v, f4, f5))
          else if k = 4 then store (callp (ip_i32 P)) (\<lambda>v. (f1, f2, f3, v, f5))
          else if k = 5 then store (callp (ip_i8 P)) (\<lambda>v. (f1, f2, f3, f4, v))
          else skip_field P ty (f1, f2, f3, f4, f5))
       (None, None, None, None, None)
       (\<lambda>(f1, f2, f3, f4, f5).
          bindp (required P ''TExternalServiceEntry.service_name'' f1) (\<lambda>f1.
          bindp (required P ''TExternalServiceEntry.class_name'' f2) (\<lambda>f2.
          bindp (required P ''TExternalServiceEntry.state'' f3) (\<lambda>f3.
          bindp (required P ''TExternalServiceEntry.data_node_id'' f4) (\<lambda>f4.
          bindp (required P ''TExternalServiceEntry.service_type'' f5) (\<lambda>f5.
          retp \<lparr>tese_service_name = f1, tese_class_name = f2, tese_state = f3, tese_data_node_id = f4,
                tese_service_type = f5\<rparr>))))))"

definition write_t_external_service_entry :: "t_external_service_entry \<Rightarrow> out_call list" where
  "write_t_external_service_entry v =
     w_struct ''TExternalServiceEntry''
       (w_field ''serviceName'' TyString 1 w_string (tese_service_name v) @
        w_field ''className'' TyString 2 w_string (tese_class_name v) @
        w_field ''state'' TyI08 3 w_i8 (tese_state v) @
        w_field ''dataNodeId'' TyI32 4 w_i32 (tese_data_node_id v) @
        w_field ''serviceType'' TyI08 5 w_i8 (tese_service_type v))"

definition ok_t_external_service_entry :: "t_external_service_entry \<Rightarrow> bool" where
  "ok_t_external_service_entry v \<longleftrightarrow>
     str_ok (tese_service_name v) \<and>
     str_ok (tese_class_name v)"

context thrift_wire
begin

lemma wire_t_external_service_entry:
  assumes "18 \<le> n"
  shows "wire (read_t_external_service_entry P n) write_t_external_service_entry ok_t_external_service_entry"
  by (rule wireI, unfold ok_t_external_service_entry_def read_t_external_service_entry_def
        write_t_external_service_entry_def,
      (rule wire_rules t_external_service_entry.equality | (insert assms, simp; fail))+)

end

subsection \<open>\<^verbatim>\<open>TExternalServiceListResp\<close>\<close>

record t_external_service_list_resp =
  teslr_status :: ts_status
  teslr_external_service_infos :: "t_external_service_entry list"

definition read_t_external_service_list_resp :: "'i in_protocol \<Rightarrow> nat \<Rightarrow> ('i, t_external_service_list_resp) rd"
      where
  "read_t_external_service_list_resp P n =
     read_struct P n
       (\<lambda>k ty (f1, f2).
          if k = 1 then store (read_ts_status P n) (\<lambda>v. (v, f2))
          else if k = 2 then store (read_list P (read_t_external_service_entry P n)) (\<lambda>v. (f1, v))
          else skip_field P ty (f1, f2))
       (None, None)
       (\<lambda>(f1, f2).
          bindp (required P ''TExternalServiceListResp.status'' f1) (\<lambda>f1.
          bindp (required P ''TExternalServiceListResp.external_service_infos'' f2) (\<lambda>f2.
          retp \<lparr>teslr_status = f1, teslr_external_service_infos = f2\<rparr>)))"

definition write_t_external_service_list_resp :: "t_external_service_list_resp \<Rightarrow> out_call list" where
  "write_t_external_service_list_resp v =
     w_struct ''TExternalServiceListResp''
       (w_field ''status'' TyStruct 1 write_ts_status (teslr_status v) @
        w_field ''externalServiceInfos'' TyList 2 (w_list TyStruct write_t_external_service_entry)
              (teslr_external_service_infos v))"

definition ok_t_external_service_list_resp :: "nat \<Rightarrow> t_external_service_list_resp \<Rightarrow> bool" where
  "ok_t_external_service_list_resp d v \<longleftrightarrow>
     ok_ts_status d (teslr_status v) \<and>
     list_ok ok_t_external_service_entry (teslr_external_service_infos v)"

context thrift_wire
begin

lemma wire_t_external_service_list_resp:
  assumes "d + 18 \<le> n"
  shows "wire (read_t_external_service_list_resp P n) write_t_external_service_list_resp
        (ok_t_external_service_list_resp d)"
  by (rule wireI, unfold ok_t_external_service_list_resp_def read_t_external_service_list_resp_def
        write_t_external_service_list_resp_def,
      (rule wire_rules wire_t_external_service_entry wire_ts_status t_external_service_list_resp.equality |
            (insert assms, simp; fail))+)

end

subsection \<open>\<^verbatim>\<open>TShowConfigurationTemplateResp\<close>\<close>

record t_show_configuration_template_resp =
  tsctr_status :: ts_status
  tsctr_content :: string

definition read_t_show_configuration_template_resp :: "'i in_protocol \<Rightarrow> nat \<Rightarrow> ('i,
      t_show_configuration_template_resp) rd" where
  "read_t_show_configuration_template_resp P n =
     read_struct P n
       (\<lambda>k ty (f1, f2).
          if k = 1 then store (read_ts_status P n) (\<lambda>v. (v, f2))
          else if k = 2 then store (callp (ip_string P)) (\<lambda>v. (f1, v))
          else skip_field P ty (f1, f2))
       (None, None)
       (\<lambda>(f1, f2).
          bindp (required P ''TShowConfigurationTemplateResp.status'' f1) (\<lambda>f1.
          bindp (required P ''TShowConfigurationTemplateResp.content'' f2) (\<lambda>f2.
          retp \<lparr>tsctr_status = f1, tsctr_content = f2\<rparr>)))"

definition write_t_show_configuration_template_resp :: "t_show_configuration_template_resp \<Rightarrow> out_call list"
      where
  "write_t_show_configuration_template_resp v =
     w_struct ''TShowConfigurationTemplateResp''
       (w_field ''status'' TyStruct 1 write_ts_status (tsctr_status v) @
        w_field ''content'' TyString 2 w_string (tsctr_content v))"

definition ok_t_show_configuration_template_resp :: "nat \<Rightarrow> t_show_configuration_template_resp \<Rightarrow> bool" where
  "ok_t_show_configuration_template_resp d v \<longleftrightarrow>
     ok_ts_status d (tsctr_status v) \<and>
     str_ok (tsctr_content v)"

context thrift_wire
begin

lemma wire_t_show_configuration_template_resp:
  assumes "d + 18 \<le> n"
  shows "wire (read_t_show_configuration_template_resp P n) write_t_show_configuration_template_resp
        (ok_t_show_configuration_template_resp d)"
  by (rule wireI, unfold ok_t_show_configuration_template_resp_def read_t_show_configuration_template_resp_def
        write_t_show_configuration_template_resp_def,
      (rule wire_rules wire_ts_status t_show_configuration_template_resp.equality | (insert assms, simp;
            fail))+)

end

subsection \<open>\<^verbatim>\<open>TShowConfigurationResp\<close>\<close>

record t_show_configuration_resp =
  tscr2_status :: ts_status
  tscr2_content :: string

definition read_t_show_configuration_resp :: "'i in_protocol \<Rightarrow> nat \<Rightarrow> ('i, t_show_configuration_resp) rd" where
  "read_t_show_configuration_resp P n =
     read_struct P n
       (\<lambda>k ty (f1, f2).
          if k = 1 then store (read_ts_status P n) (\<lambda>v. (v, f2))
          else if k = 2 then store (callp (ip_string P)) (\<lambda>v. (f1, v))
          else skip_field P ty (f1, f2))
       (None, None)
       (\<lambda>(f1, f2).
          bindp (required P ''TShowConfigurationResp.status'' f1) (\<lambda>f1.
          bindp (required P ''TShowConfigurationResp.content'' f2) (\<lambda>f2.
          retp \<lparr>tscr2_status = f1, tscr2_content = f2\<rparr>)))"

definition write_t_show_configuration_resp :: "t_show_configuration_resp \<Rightarrow> out_call list" where
  "write_t_show_configuration_resp v =
     w_struct ''TShowConfigurationResp''
       (w_field ''status'' TyStruct 1 write_ts_status (tscr2_status v) @
        w_field ''content'' TyString 2 w_string (tscr2_content v))"

definition ok_t_show_configuration_resp :: "nat \<Rightarrow> t_show_configuration_resp \<Rightarrow> bool" where
  "ok_t_show_configuration_resp d v \<longleftrightarrow>
     ok_ts_status d (tscr2_status v) \<and>
     str_ok (tscr2_content v)"

context thrift_wire
begin

lemma wire_t_show_configuration_resp:
  assumes "d + 18 \<le> n"
  shows "wire (read_t_show_configuration_resp P n) write_t_show_configuration_resp (ok_t_show_configuration_resp
        d)"
  by (rule wireI, unfold ok_t_show_configuration_resp_def read_t_show_configuration_resp_def
        write_t_show_configuration_resp_def,
      (rule wire_rules wire_ts_status t_show_configuration_resp.equality | (insert assms, simp; fail))+)

end

subsection \<open>\<^verbatim>\<open>TShowAppliedConfigurationsResp\<close>\<close>

record t_show_applied_configurations_resp =
  tsacr_status :: ts_status
  tsacr_data :: "(string, string) btree_map option"

definition read_t_show_applied_configurations_resp :: "'i in_protocol \<Rightarrow> nat \<Rightarrow> ('i,
      t_show_applied_configurations_resp) rd" where
  "read_t_show_applied_configurations_resp P n =
     read_struct P n
       (\<lambda>k ty (f1, f2).
          if k = 1 then store (read_ts_status P n) (\<lambda>v. (v, f2))
          else if k = 2 then store (read_map P (callp (ip_string P)) (callp (ip_string P))) (\<lambda>v. (f1, v))
          else skip_field P ty (f1, f2))
       (None, None)
       (\<lambda>(f1, f2).
          bindp (required P ''TShowAppliedConfigurationsResp.status'' f1) (\<lambda>f1.
          retp \<lparr>tsacr_status = f1, tsacr_data = f2\<rparr>))"

definition write_t_show_applied_configurations_resp :: "t_show_applied_configurations_resp \<Rightarrow> out_call list"
      where
  "write_t_show_applied_configurations_resp v =
     w_struct ''TShowAppliedConfigurationsResp''
       (w_field ''status'' TyStruct 1 write_ts_status (tsacr_status v) @
        w_opt ''data'' TyMap 2 (w_map TyString TyString w_string w_string) (tsacr_data v))"

definition ok_t_show_applied_configurations_resp :: "nat \<Rightarrow> t_show_applied_configurations_resp \<Rightarrow> bool" where
  "ok_t_show_applied_configurations_resp d v \<longleftrightarrow>
     ok_ts_status d (tsacr_status v) \<and>
     opt_ok (map_ok str_ok str_ok) (tsacr_data v)"

context thrift_wire
begin

lemma wire_t_show_applied_configurations_resp:
  assumes "d + 18 \<le> n"
  shows "wire (read_t_show_applied_configurations_resp P n) write_t_show_applied_configurations_resp
        (ok_t_show_applied_configurations_resp d)"
  by (rule wireI, unfold ok_t_show_applied_configurations_resp_def read_t_show_applied_configurations_resp_def
        write_t_show_applied_configurations_resp_def,
      (rule wire_rules wire_ts_status t_show_applied_configurations_resp.equality | (insert assms, simp;
            fail))+)

end

end
