(* ===== verification/ThriftStatements.thy ===== *)
theory ThriftStatements
  imports ThriftCommon
begin

text \<open>
  Structures of \<^verbatim>\<open>src/protocol/client.rs\<close> for prepared and batch statements, metadata, time zones and
  string records, in the manner of \<open>ThriftReplies\<close>.
\<close>

subsection \<open>\<^verbatim>\<open>TSExecuteBatchStatementReq\<close>\<close>

record ts_execute_batch_statement_req =
  tebsr_session_id :: i64
  tebsr_statements :: "string list"

definition read_ts_execute_batch_statement_req :: "'i in_protocol \<Rightarrow> nat \<Rightarrow> ('i, ts_execute_batch_statement_req)
      rd" where
  "read_ts_execute_batch_statement_req P n =
     read_struct P n
       (\<lambda>k ty (f1, f2).
          if k = 1 then store (callp (ip_i64 P)) (\<lambda>v. (v, f2))
          else if k = 2 then store (read_list P (callp (ip_string P))) (\<lambda>v. (f1, v))
          else skip_field P ty (f1, f2))
       (None, None)
       (\<lambda>(f1, f2).
          bindp (required P ''TSExecuteBatchStatementReq.session_id'' f1) (\<lambda>f1.
          bindp (required P ''TSExecuteBatchStatementReq.statements'' f2) (\<lambda>f2.
          retp \<lparr>tebsr_session_id = f1, tebsr_statements = f2\<rparr>)))"

definition write_ts_execute_batch_statement_req :: "ts_execute_batch_statement_req \<Rightarrow> out_call list" where
  "write_ts_execute_batch_statement_req v =
     w_struct ''TSExecuteBatchStatementReq''
       (w_field ''sessionId'' TyI64 1 w_i64 (tebsr_session_id v) @
        w_field ''statements'' TyList 2 (w_list TyString w_string) (tebsr_statements v))"

definition ok_ts_execute_batch_statement_req :: "ts_execute_batch_statement_req \<Rightarrow> bool" where
  "ok_ts_execute_batch_statement_req v \<longleftrightarrow>
     list_ok str_ok (tebsr_statements v)"

context thrift_wire
begin

lemma wire_ts_execute_batch_statement_req:
  assumes "18 \<le> n"
  shows "wire (read_ts_execute_batch_statement_req P n) write_ts_execute_batch_statement_req
        ok_ts_execute_batch_statement_req"
  by (rule wireI, unfold ok_ts_execute_batch_statement_req_def read_ts_execute_batch_statement_req_def
        write_ts_execute_batch_statement_req_def,
      (rule wire_rules ts_execute_batch_statement_req.equality | (insert assms, simp; fail))+)

end

subsection \<open>\<^verbatim>\<open>TSGetOperationStatusReq\<close>\<close>

record ts_get_operation_status_req =
  tgosr_session_id :: i64
  tgosr_query_id :: i64

definition read_ts_get_operation_status_req :: "'i in_protocol \<Rightarrow> nat \<Rightarrow> ('i, ts_get_operation_status_req) rd"
      where
  "read_ts_get_operation_status_req P n =
     read_struct P n
       (\<lambda>k ty (f1, f2).
          if k = 1 then store (callp (ip_i64 P)) (\<lambda>v. (v, f2))
          else if k = 2 then store (callp (ip_i64 P)) (\<lambda>v. (f1, v))
          else skip_field P ty (f1, f2))
       (None, None)
       (\<lambda>(f1, f2).
          bindp (required P ''TSGetOperationStatusReq.session_id'' f1) (\<lambda>f1.
          bindp (required P ''TSGetOperationStatusReq.query_id'' f2) (\<lambda>f2.
          retp \<lparr>tgosr_session_id = f1, tgosr_query_id = f2\<rparr>)))"

definition write_ts_get_operation_status_req :: "ts_get_operation_status_req \<Rightarrow> out_call list" where
  "write_ts_get_operation_status_req v =
     w_struct ''TSGetOperationStatusReq''
       (w_field ''sessionId'' TyI64 1 w_i64 (tgosr_session_id v) @
        w_field ''queryId'' TyI64 2 w_i64 (tgosr_query_id v))"

definition ok_ts_get_operation_status_req :: "ts_get_operation_status_req \<Rightarrow> bool" where
  "ok_ts_get_operation_status_req v \<longleftrightarrow>
     True"

context thrift_wire
begin

lemma wire_ts_get_operation_status_req:
  assumes "18 \<le> n"
  shows "wire (read_ts_get_operation_status_req P n) write_ts_get_operation_status_req
        ok_ts_get_operation_status_req"
  by (rule wireI, unfold ok_ts_get_operation_status_req_def read_ts_get_operation_status_req_def
        write_ts_get_operation_status_req_def,
      (rule wire_rules ts_get_operation_status_req.equality | (insert assms, simp; fail))+)

end

subsection \<open>\<^verbatim>\<open>TSCancelOperationReq\<close>\<close>

record ts_cancel_operation_req =
  tcor_session_id :: i64
  tcor_query_id :: i64

definition read_ts_cancel_operation_req :: "'i in_protocol \<Rightarrow> nat \<Rightarrow> ('i, ts_cancel_operation_req) rd" where
  "read_ts_cancel_operation_req P n =
     read_struct P n
       (\<lambda>k ty (f1, f2).
          if k = 1 then store (callp (ip_i64 P)) (\<lambda>v. (v, f2))
          else if k = 2 then store (callp (ip_i64 P)) (\<lambda>v. (f1, v))
          else skip_field P ty (f1, f2))
       (None, None)
       (\<lambda>(f1, f2).
          bindp (required P ''TSCancelOperationReq.session_id'' f1) (\<lambda>f1.
          bindp (required P ''TSCancelOperationReq.query_id'' f2) (\<lambda>f2.
          retp \<lparr>tcor_session_id = f1, tcor_query_id = f2\<rparr>)))"

definition write_ts_cancel_operation_req :: "ts_cancel_operation_req \<Rightarrow> out_call list" where
  "write_ts_cancel_operation_req v =
     w_struct ''TSCancelOperationReq''
       (w_field ''sessionId'' TyI64 1 w_i64 (tcor_session_id v) @
        w_field ''queryId'' TyI64 2 w_i64 (tcor_query_id v))"

definition ok_ts_cancel_operation_req :: "ts_cancel_operation_req \<Rightarrow> bool" where
  "ok_ts_cancel_operation_req v \<longleftrightarrow>
     True"

context thrift_wire
begin

lemma wire_ts_cancel_operation_req:
  assumes "18 \<le> n"
  shows "wire (read_ts_cancel_operation_req P n) write_ts_cancel_operation_req ok_ts_cancel_operation_req"
  by (rule wireI, unfold ok_ts_cancel_operation_req_def read_ts_cancel_operation_req_def
        write_ts_cancel_operation_req_def,
      (rule wire_rules ts_cancel_operation_req.equality | (insert assms, simp; fail))+)

end

subsection \<open>\<^verbatim>\<open>TSPrepareReq\<close>\<close>

record ts_prepare_req =
  tpr_session_id :: i64
  tpr_sql :: string
  tpr_statement_name :: string

definition read_ts_prepare_req :: "'i in_protocol \<Rightarrow> nat \<Rightarrow> ('i, ts_prepare_req) rd" where
  "read_ts_prepare_req P n =
     read_struct P n
       (\<lambda>k ty (f1, f2, f3).
          if k = 1 then store (callp (ip_i64 P)) (\<lambda>v. (v, f2, f3))
          else if k = 2 then store (callp (ip_string P)) (\<lambda>v. (f1, v, f3))
          else if k = 3 then store (callp (ip_string P)) (\<lambda>v. (f1, f2, v))
          else skip_field P ty (f1, f2, f3))
       (None, None, None)
       (\<lambda>(f1, f2, f3).
          bindp (required P ''TSPrepareReq.session_id'' f1) (\<lambda>f1.
          bindp (required P ''TSPrepareReq.sql'' f2) (\<lambda>f2.
          bindp (required P ''TSPrepareReq.statement_name'' f3) (\<lambda>f3.
          retp \<lparr>tpr_session_id = f1, tpr_sql = f2, tpr_statement_name = f3\<rparr>))))"

definition write_ts_prepare_req :: "ts_prepare_req \<Rightarrow> out_call list" where
  "write_ts_prepare_req v =
     w_struct ''TSPrepareReq''
       (w_field ''sessionId'' TyI64 1 w_i64 (tpr_session_id v) @
        w_field ''sql'' TyString 2 w_string (tpr_sql v) @
        w_field ''statementName'' TyString 3 w_string (tpr_statement_name v))"

definition ok_ts_prepare_req :: "ts_prepare_req \<Rightarrow> bool" where
  "ok_ts_prepare_req v \<longleftrightarrow>
     str_ok (tpr_sql v) \<and>
     str_ok (tpr_statement_name v)"

context thrift_wire
begin

lemma wire_ts_prepare_req:
  assumes "18 \<le> n"
  shows "wire (read_ts_prepare_req P n) write_ts_prepare_req ok_ts_prepare_req"
  by (rule wireI, unfold ok_ts_prepare_req_def read_ts_prepare_req_def write_ts_prepare_req_def,
      (rule wire_rules ts_prepare_req.equality | (insert assms, simp; fail))+)

end

subsection \<open>\<^verbatim>\<open>TSPrepareResp\<close>\<close>

record ts_prepare_resp =
  tpr2_status :: ts_status
  tpr2_parameter_count :: "i32 option"

definition read_ts_prepare_resp :: "'i in_protocol \<Rightarrow> nat \<Rightarrow> ('i, ts_prepare_resp) rd" where
  "read_ts_prepare_resp P n =
     read_struct P n
       (\<lambda>k ty (f1, f2).
          if k = 1 then store (read_ts_status P n) (\<lambda>v. (v, f2))
          else if k = 2 then store (callp (ip_i32 P)) (\<lambda>v. (f1, v))
          else skip_field P ty (f1, f2))
       (None, None)
       (\<lambda>(f1, f2).
          bindp (required P ''TSPrepareResp.status'' f1) (\<lambda>f1.
          retp \<lparr>tpr2_status = f1, tpr2_parameter_count = f2\<rparr>))"

definition write_ts_prepare_resp :: "ts_prepare_resp \<Rightarrow> out_call list" where
  "write_ts_prepare_resp v =
     w_struct ''TSPrepareResp''
       (w_field ''status'' TyStruct 1 write_ts_status (tpr2_status v) @
        w_opt ''parameterCount'' TyI32 2 w_i32 (tpr2_parameter_count v))"

definition ok_ts_prepare_resp :: "nat \<Rightarrow> ts_prepare_resp \<Rightarrow> bool" where
  "ok_ts_prepare_resp d v \<longleftrightarrow>
     ok_ts_status d (tpr2_status v)"

context thrift_wire
begin

lemma wire_ts_prepare_resp:
  assumes "d + 18 \<le> n"
  shows "wire (read_ts_prepare_resp P n) write_ts_prepare_resp (ok_ts_prepare_resp d)"
  by (rule wireI, unfold ok_ts_prepare_resp_def read_ts_prepare_resp_def write_ts_prepare_resp_def,
      (rule wire_rules wire_ts_status ts_prepare_resp.equality | (insert assms, simp; fail))+)

end

subsection \<open>\<^verbatim>\<open>TSExecutePreparedReq\<close>\<close>

record ts_execute_prepared_req =
  tepr_session_id :: i64
  tepr_statement_name :: string
  tepr_parameters :: bytes
  tepr_fetch_size :: "i32 option"
  tepr_timeout :: "i64 option"
  tepr_statement_id :: i64

definition read_ts_execute_prepared_req :: "'i in_protocol \<Rightarrow> nat \<Rightarrow> ('i, ts_execute_prepared_req) rd" where
  "read_ts_execute_prepared_req P n =
     read_struct P n
       (\<lambda>k ty (f1, f2, f3, f4, f5, f6).
          if k = 1 then store (callp (ip_i64 P)) (\<lambda>v. (v, f2, f3, f4, f5, f6))
          else if k = 2 then store (callp (ip_string P)) (\<lambda>v. (f1, v, f3, f4, f5, f6))
          else if k = 3 then store (callp (ip_bytes P)) (\<lambda>v. (f1, f2, v, f4, f5, f6))
          else if k = 4 then store (callp (ip_i32 P)) (\<lambda>v. (f1, f2, f3, v, f5, f6))
          else if k = 5 then store (callp (ip_i64 P)) (\<lambda>v. (f1, f2, f3, f4, v, f6))
          else if k = 6 then store (callp (ip_i64 P)) (\<lambda>v. (f1, f2, f3, f4, f5, v))
          else skip_field P ty (f1, f2, f3, f4, f5, f6))
       (None, None, None, None, None, None)
       (\<lambda>(f1, f2, f3, f4, f5, f6).
          bindp (required P ''TSExecutePreparedReq.session_id'' f1) (\<lambda>f1.
          bindp (required P ''TSExecutePreparedReq.statement_name'' f2) (\<lambda>f2.
          bindp (required P ''TSExecutePreparedReq.parameters'' f3) (\<lambda>f3.
          bindp (required P ''TSExecutePreparedReq.statement_id'' f6) (\<lambda>f6.
          retp \<lparr>tepr_session_id = f1, tepr_statement_name = f2, tepr_parameters = f3, tepr_fetch_size = f4,
                tepr_timeout = f5, tepr_statement_id = f6\<rparr>)))))"

definition write_ts_execute_prepared_req :: "ts_execute_prepared_req \<Rightarrow> out_call list" where
  "write_ts_execute_prepared_req v =
     w_struct ''TSExecutePreparedReq''
       (w_field ''sessionId'' TyI64 1 w_i64 (tepr_session_id v) @
        w_field ''statementName'' TyString 2 w_string (tepr_statement_name v) @
        w_field ''parameters'' TyString 3 w_bytes (tepr_parameters v) @
        w_opt ''fetchSize'' TyI32 4 w_i32 (tepr_fetch_size v) @
        w_opt ''timeout'' TyI64 5 w_i64 (tepr_timeout v) @
        w_field ''statementId'' TyI64 6 w_i64 (tepr_statement_id v))"

definition ok_ts_execute_prepared_req :: "ts_execute_prepared_req \<Rightarrow> bool" where
  "ok_ts_execute_prepared_req v \<longleftrightarrow>
     str_ok (tepr_statement_name v) \<and>
     short (tepr_parameters v)"

context thrift_wire
begin

lemma wire_ts_execute_prepared_req:
  assumes "18 \<le> n"
  shows "wire (read_ts_execute_prepared_req P n) write_ts_execute_prepared_req ok_ts_execute_prepared_req"
  by (rule wireI, unfold ok_ts_execute_prepared_req_def read_ts_execute_prepared_req_def
        write_ts_execute_prepared_req_def,
      (rule wire_rules ts_execute_prepared_req.equality | (insert assms, simp; fail))+)

end

subsection \<open>\<^verbatim>\<open>TSDeallocatePreparedReq\<close>\<close>

record ts_deallocate_prepared_req =
  tdpr_session_id :: i64
  tdpr_statement_name :: string

definition read_ts_deallocate_prepared_req :: "'i in_protocol \<Rightarrow> nat \<Rightarrow> ('i, ts_deallocate_prepared_req) rd" where
  "read_ts_deallocate_prepared_req P n =
     read_struct P n
       (\<lambda>k ty (f1, f2).
          if k = 1 then store (callp (ip_i64 P)) (\<lambda>v. (v, f2))
          else if k = 2 then store (callp (ip_string P)) (\<lambda>v. (f1, v))
          else skip_field P ty (f1, f2))
       (None, None)
       (\<lambda>(f1, f2).
          bindp (required P ''TSDeallocatePreparedReq.session_id'' f1) (\<lambda>f1.
          bindp (required P ''TSDeallocatePreparedReq.statement_name'' f2) (\<lambda>f2.
          retp \<lparr>tdpr_session_id = f1, tdpr_statement_name = f2\<rparr>)))"

definition write_ts_deallocate_prepared_req :: "ts_deallocate_prepared_req \<Rightarrow> out_call list" where
  "write_ts_deallocate_prepared_req v =
     w_struct ''TSDeallocatePreparedReq''
       (w_field ''sessionId'' TyI64 1 w_i64 (tdpr_session_id v) @
        w_field ''statementName'' TyString 2 w_string (tdpr_statement_name v))"

definition ok_ts_deallocate_prepared_req :: "ts_deallocate_prepared_req \<Rightarrow> bool" where
  "ok_ts_deallocate_prepared_req v \<longleftrightarrow>
     str_ok (tdpr_statement_name v)"

context thrift_wire
begin

lemma wire_ts_deallocate_prepared_req:
  assumes "18 \<le> n"
  shows "wire (read_ts_deallocate_prepared_req P n) write_ts_deallocate_prepared_req
        ok_ts_deallocate_prepared_req"
  by (rule wireI, unfold ok_ts_deallocate_prepared_req_def read_ts_deallocate_prepared_req_def
        write_ts_deallocate_prepared_req_def,
      (rule wire_rules ts_deallocate_prepared_req.equality | (insert assms, simp; fail))+)

end

subsection \<open>\<^verbatim>\<open>TSFetchMetadataResp\<close>\<close>

record ts_fetch_metadata_resp =
  tfmr_status :: ts_status
  tfmr_metadata_in_json :: "string option"
  tfmr_columns_list :: "string list option"
  tfmr_data_type :: "string option"

definition read_ts_fetch_metadata_resp :: "'i in_protocol \<Rightarrow> nat \<Rightarrow> ('i, ts_fetch_metadata_resp) rd" where
  "read_ts_fetch_metadata_resp P n =
     read_struct P n
       (\<lambda>k ty (f1, f2, f3, f4).
          if k = 1 then store (read_ts_status P n) (\<lambda>v. (v, f2, f3, f4))
          else if k = 2 then store (callp (ip_string P)) (\<lambda>v. (f1, v, f3, f4))
          else if k = 3 then store (read_list P (callp (ip_string P))) (\<lambda>v. (f1, f2, v, f4))
          else if k = 4 then store (callp (ip_string P)) (\<lambda>v. (f1, f2, f3, v))
          else skip_field P ty (f1, f2, f3, f4))
       (None, None, None, None)
       (\<lambda>(f1, f2, f3, f4).
          bindp (required P ''TSFetchMetadataResp.status'' f1) (\<lambda>f1.
          retp \<lparr>tfmr_status = f1, tfmr_metadata_in_json = f2, tfmr_columns_list = f3, tfmr_data_type = f4\<rparr>))"

definition write_ts_fetch_metadata_resp :: "ts_fetch_metadata_resp \<Rightarrow> out_call list" where
  "write_ts_fetch_metadata_resp v =
     w_struct ''TSFetchMetadataResp''
       (w_field ''status'' TyStruct 1 write_ts_status (tfmr_status v) @
        w_opt ''metadataInJson'' TyString 2 w_string (tfmr_metadata_in_json v) @
        w_opt ''columnsList'' TyList 3 (w_list TyString w_string) (tfmr_columns_list v) @
        w_opt ''dataType'' TyString 4 w_string (tfmr_data_type v))"

definition ok_ts_fetch_metadata_resp :: "nat \<Rightarrow> ts_fetch_metadata_resp \<Rightarrow> bool" where
  "ok_ts_fetch_metadata_resp d v \<longleftrightarrow>
     ok_ts_status d (tfmr_status v) \<and>
     opt_ok str_ok (tfmr_metadata_in_json v) \<and>
     opt_ok (list_ok str_ok) (tfmr_columns_list v) \<and>
     opt_ok str_ok (tfmr_data_type v)"

context thrift_wire
begin

lemma wire_ts_fetch_metadata_resp:
  assumes "d + 18 \<le> n"
  shows "wire (read_ts_fetch_metadata_resp P n) write_ts_fetch_metadata_resp (ok_ts_fetch_metadata_resp d)"
  by (rule wireI, unfold ok_ts_fetch_metadata_resp_def read_ts_fetch_metadata_resp_def
        write_ts_fetch_metadata_resp_def,
      (rule wire_rules wire_ts_status ts_fetch_metadata_resp.equality | (insert assms, simp; fail))+)

end

subsection \<open>\<^verbatim>\<open>TSFetchMetadataReq\<close>\<close>

record ts_fetch_metadata_req =
  tfmr2_session_id :: i64
  tfmr2_type :: string
  tfmr2_column_path :: "string option"

definition read_ts_fetch_metadata_req :: "'i in_protocol \<Rightarrow> nat \<Rightarrow> ('i, ts_fetch_metadata_req) rd" where
  "read_ts_fetch_metadata_req P n =
     read_struct P n
       (\<lambda>k ty (f1, f2, f3).
          if k = 1 then store (callp (ip_i64 P)) (\<lambda>v. (v, f2, f3))
          else if k = 2 then store (callp (ip_string P)) (\<lambda>v. (f1, v, f3))
          else if k = 3 then store (callp (ip_string P)) (\<lambda>v. (f1, f2, v))
          else skip_field P ty (f1, f2, f3))
       (None, None, None)
       (\<lambda>(f1, f2, f3).
          bindp (required P ''TSFetchMetadataReq.session_id'' f1) (\<lambda>f1.
          bindp (required P ''TSFetchMetadataReq.type_'' f2) (\<lambda>f2.
          retp \<lparr>tfmr2_session_id = f1, tfmr2_type = f2, tfmr2_column_path = f3\<rparr>)))"

definition write_ts_fetch_metadata_req :: "ts_fetch_metadata_req \<Rightarrow> out_call list" where
  "write_ts_fetch_metadata_req v =
     w_struct ''TSFetchMetadataReq''
       (w_field ''sessionId'' TyI64 1 w_i64 (tfmr2_session_id v) @
        w_field ''type'' TyString 2 w_string (tfmr2_type v) @
        w_opt ''columnPath'' TyString 3 w_string (tfmr2_column_path v))"

definition ok_ts_fetch_metadata_req :: "ts_fetch_metadata_req \<Rightarrow> bool" where
  "ok_ts_fetch_metadata_req v \<longleftrightarrow>
     str_ok (tfmr2_type v) \<and>
     opt_ok str_ok (tfmr2_column_path v)"

context thrift_wire
begin

lemma wire_ts_fetch_metadata_req:
  assumes "18 \<le> n"
  shows "wire (read_ts_fetch_metadata_req P n) write_ts_fetch_metadata_req ok_ts_fetch_metadata_req"
  by (rule wireI, unfold ok_ts_fetch_metadata_req_def read_ts_fetch_metadata_req_def
        write_ts_fetch_metadata_req_def,
      (rule wire_rules ts_fetch_metadata_req.equality | (insert assms, simp; fail))+)

end

subsection \<open>\<^verbatim>\<open>TSGetTimeZoneResp\<close>\<close>

record ts_get_time_zone_resp =
  tgtzr_status :: ts_status
  tgtzr_time_zone :: string

definition read_ts_get_time_zone_resp :: "'i in_protocol \<Rightarrow> nat \<Rightarrow> ('i, ts_get_time_zone_resp) rd" where
  "read_ts_get_time_zone_resp P n =
     read_struct P n
       (\<lambda>k ty (f1, f2).
          if k = 1 then store (read_ts_status P n) (\<lambda>v. (v, f2))
          else if k = 2 then store (callp (ip_string P)) (\<lambda>v. (f1, v))
          else skip_field P ty (f1, f2))
       (None, None)
       (\<lambda>(f1, f2).
          bindp (required P ''TSGetTimeZoneResp.status'' f1) (\<lambda>f1.
          bindp (required P ''TSGetTimeZoneResp.time_zone'' f2) (\<lambda>f2.
          retp \<lparr>tgtzr_status = f1, tgtzr_time_zone = f2\<rparr>)))"

definition write_ts_get_time_zone_resp :: "ts_get_time_zone_resp \<Rightarrow> out_call list" where
  "write_ts_get_time_zone_resp v =
     w_struct ''TSGetTimeZoneResp''
       (w_field ''status'' TyStruct 1 write_ts_status (tgtzr_status v) @
        w_field ''timeZone'' TyString 2 w_string (tgtzr_time_zone v))"

definition ok_ts_get_time_zone_resp :: "nat \<Rightarrow> ts_get_time_zone_resp \<Rightarrow> bool" where
  "ok_ts_get_time_zone_resp d v \<longleftrightarrow>
     ok_ts_status d (tgtzr_status v) \<and>
     str_ok (tgtzr_time_zone v)"

context thrift_wire
begin

lemma wire_ts_get_time_zone_resp:
  assumes "d + 18 \<le> n"
  shows "wire (read_ts_get_time_zone_resp P n) write_ts_get_time_zone_resp (ok_ts_get_time_zone_resp d)"
  by (rule wireI, unfold ok_ts_get_time_zone_resp_def read_ts_get_time_zone_resp_def
        write_ts_get_time_zone_resp_def,
      (rule wire_rules wire_ts_status ts_get_time_zone_resp.equality | (insert assms, simp; fail))+)

end

subsection \<open>\<^verbatim>\<open>TSSetTimeZoneReq\<close>\<close>

record ts_set_time_zone_req =
  tstzr_session_id :: i64
  tstzr_time_zone :: string

definition read_ts_set_time_zone_req :: "'i in_protocol \<Rightarrow> nat \<Rightarrow> ('i, ts_set_time_zone_req) rd" where
  "read_ts_set_time_zone_req P n =
     read_struct P n
       (\<lambda>k ty (f1, f2).
          if k = 1 then store (callp (ip_i64 P)) (\<lambda>v. (v, f2))
          else if k = 2 then store (callp (ip_string P)) (\<lambda>v. (f1, v))
          else skip_field P ty (f1, f2))
       (None, None)
       (\<lambda>(f1, f2).
          bindp (required P ''TSSetTimeZoneReq.session_id'' f1) (\<lambda>f1.
          bindp (required P ''TSSetTimeZoneReq.time_zone'' f2) (\<lambda>f2.
          retp \<lparr>tstzr_session_id = f1, tstzr_time_zone = f2\<rparr>)))"

definition write_ts_set_time_zone_req :: "ts_set_time_zone_req \<Rightarrow> out_call list" where
  "write_ts_set_time_zone_req v =
     w_struct ''TSSetTimeZoneReq''
       (w_field ''sessionId'' TyI64 1 w_i64 (tstzr_session_id v) @
        w_field ''timeZone'' TyString 2 w_string (tstzr_time_zone v))"

definition ok_ts_set_time_zone_req :: "ts_set_time_zone_req \<Rightarrow> bool" where
  "ok_ts_set_time_zone_req v \<longleftrightarrow>
     str_ok (tstzr_time_zone v)"

context thrift_wire
begin

lemma wire_ts_set_time_zone_req:
  assumes "18 \<le> n"
  shows "wire (read_ts_set_time_zone_req P n) write_ts_set_time_zone_req ok_ts_set_time_zone_req"
  by (rule wireI, unfold ok_ts_set_time_zone_req_def read_ts_set_time_zone_req_def
        write_ts_set_time_zone_req_def,
      (rule wire_rules ts_set_time_zone_req.equality | (insert assms, simp; fail))+)

end

subsection \<open>\<^verbatim>\<open>TSInsertStringRecordReq\<close>\<close>

record ts_insert_string_record_req =
  tisrr_session_id :: i64
  tisrr_prefix_path :: string
  tisrr_measurements :: "string list"
  tisrr_values :: "string list"
  tisrr_timestamp :: i64
  tisrr_is_aligned :: "bool option"
  tisrr_timeout :: "i64 option"

definition read_ts_insert_string_record_req :: "'i in_protocol \<Rightarrow> nat \<Rightarrow> ('i, ts_insert_string_record_req) rd"
      where
  "read_ts_insert_string_record_req P n =
     read_struct P n
       (\<lambda>k ty (f1, f2, f3, f4, f5, f6, f7).
          if k = 1 then store (callp (ip_i64 P)) (\<lambda>v. (v, f2, f3, f4, f5, f6, f7))
          else if k = 2 then store (callp (ip_string P)) (\<lambda>v. (f1, v, f3, f4, f5, f6, f7))
          else if k = 3 then store (read_list P (callp (ip_string P))) (\<lambda>v. (f1, f2, v, f4, f5, f6, f7))
          else if k = 4 then store (read_list P (callp (ip_string P))) (\<lambda>v. (f1, f2, f3, v, f5, f6, f7))
          else if k = 5 then store (callp (ip_i64 P)) (\<lambda>v. (f1, f2, f3, f4, v, f6, f7))
          else if k = 6 then store (callp (ip_bool P)) (\<lambda>v. (f1, f2, f3, f4, f5, v, f7))
          else if k = 7 then store (callp (ip_i64 P)) (\<lambda>v. (f1, f2, f3, f4, f5, f6, v))
          else skip_field P ty (f1, f2, f3, f4, f5, f6, f7))
       (None, None, None, None, None, None, None)
       (\<lambda>(f1, f2, f3, f4, f5, f6, f7).
          bindp (required P ''TSInsertStringRecordReq.session_id'' f1) (\<lambda>f1.
          bindp (required P ''TSInsertStringRecordReq.prefix_path'' f2) (\<lambda>f2.
          bindp (required P ''TSInsertStringRecordReq.measurements'' f3) (\<lambda>f3.
          bindp (required P ''TSInsertStringRecordReq.values'' f4) (\<lambda>f4.
          bindp (required P ''TSInsertStringRecordReq.timestamp'' f5) (\<lambda>f5.
          retp \<lparr>tisrr_session_id = f1, tisrr_prefix_path = f2, tisrr_measurements = f3, tisrr_values = f4,
                tisrr_timestamp = f5, tisrr_is_aligned = f6, tisrr_timeout = f7\<rparr>))))))"

definition write_ts_insert_string_record_req :: "ts_insert_string_record_req \<Rightarrow> out_call list" where
  "write_ts_insert_string_record_req v =
     w_struct ''TSInsertStringRecordReq''
       (w_field ''sessionId'' TyI64 1 w_i64 (tisrr_session_id v) @
        w_field ''prefixPath'' TyString 2 w_string (tisrr_prefix_path v) @
        w_field ''measurements'' TyList 3 (w_list TyString w_string) (tisrr_measurements v) @
        w_field ''values'' TyList 4 (w_list TyString w_string) (tisrr_values v) @
        w_field ''timestamp'' TyI64 5 w_i64 (tisrr_timestamp v) @
        w_opt ''isAligned'' TyBool 6 w_bool (tisrr_is_aligned v) @
        w_opt ''timeout'' TyI64 7 w_i64 (tisrr_timeout v))"

definition ok_ts_insert_string_record_req :: "ts_insert_string_record_req \<Rightarrow> bool" where
  "ok_ts_insert_string_record_req v \<longleftrightarrow>
     str_ok (tisrr_prefix_path v) \<and>
     list_ok str_ok (tisrr_measurements v) \<and>
     list_ok str_ok (tisrr_values v)"

context thrift_wire
begin

lemma wire_ts_insert_string_record_req:
  assumes "18 \<le> n"
  shows "wire (read_ts_insert_string_record_req P n) write_ts_insert_string_record_req
        ok_ts_insert_string_record_req"
  by (rule wireI, unfold ok_ts_insert_string_record_req_def read_ts_insert_string_record_req_def
        write_ts_insert_string_record_req_def,
      (rule wire_rules ts_insert_string_record_req.equality | (insert assms, simp; fail))+)

end

subsection \<open>\<^verbatim>\<open>TSInsertStringRecordsOfOneDeviceReq\<close>\<close>

record ts_insert_string_records_of_one_device_req =
  tisroodr_session_id :: i64
  tisroodr_prefix_path :: string
  tisroodr_measurements_list :: "string list list"
  tisroodr_values_list :: "string list list"
  tisroodr_timestamps :: "i64 list"
  tisroodr_is_aligned :: "bool option"

definition read_ts_insert_string_records_of_one_device_req :: "'i in_protocol \<Rightarrow> nat \<Rightarrow> ('i,
      ts_insert_string_records_of_one_device_req) rd" where
  "read_ts_insert_string_records_of_one_device_req P n =
     read_struct P n
       (\<lambda>k ty (f1, f2, f3, f4, f5, f6).
          if k = 1 then store (callp (ip_i64 P)) (\<lambda>v. (v, f2, f3, f4, f5, f6))
          else if k = 2 then store (callp (ip_string P)) (\<lambda>v. (f1, v, f3, f4, f5, f6))
          else if k = 3 then store (read_list P (read_list P (callp (ip_string P)))) (\<lambda>v. (f1, f2, v, f4, f5,
                f6))
          else if k = 4 then store (read_list P (read_list P (callp (ip_string P)))) (\<lambda>v. (f1, f2, f3, v, f5,
                f6))
          else if k = 5 then store (read_list P (callp (ip_i64 P))) (\<lambda>v. (f1, f2, f3, f4, v, f6))
          else if k = 6 then store (callp (ip_bool P)) (\<lambda>v. (f1, f2, f3, f4, f5, v))
          else skip_field P ty (f1, f2, f3, f4, f5, f6))
       (None, None, None, None, None, None)
       (\<lambda>(f1, f2, f3, f4, f5, f6).
          bindp (required P ''TSInsertStringRecordsOfOneDeviceReq.session_id'' f1) (\<lambda>f1.
          bindp (required P ''TSInsertStringRecordsOfOneDeviceReq.prefix_path'' f2) (\<lambda>f2.
          bindp (required P ''TSInsertStringRecordsOfOneDeviceReq.measurements_list'' f3) (\<lambda>f3.
          bindp (required P ''TSInsertStringRecordsOfOneDeviceReq.values_list'' f4) (\<lambda>f4.
          bindp (required P ''TSInsertStringRecordsOfOneDeviceReq.timestamps'' f5) (\<lambda>f5.
          retp \<lparr>tisroodr_session_id = f1, tisroodr_prefix_path = f2, tisroodr_measurements_list = f3,
                tisroodr_values_list = f4, tisroodr_timestamps = f5, tisroodr_is_aligned = f6\<rparr>))))))"

definition write_ts_insert_string_records_of_one_device_req :: "ts_insert_string_records_of_one_device_req \<Rightarrow>
      out_call list" where
  "write_ts_insert_string_records_of_one_device_req v =
     w_struct ''TSInsertStringRecordsOfOneDeviceReq''
       (w_field ''sessionId'' TyI64 1 w_i64 (tisroodr_session_id v) @
        w_field ''prefixPath'' TyString 2 w_string (tisroodr_prefix_path v) @
        w_field ''measurementsList'' TyList 3 (w_list TyList (w_list TyString w_string))
              (tisroodr_measurements_list v) @
        w_field ''valuesList'' TyList 4 (w_list TyList (w_list TyString w_string)) (tisroodr_values_list v) @
        w_field ''timestamps'' TyList 5 (w_list TyI64 w_i64) (tisroodr_timestamps v) @
        w_opt ''isAligned'' TyBool 6 w_bool (tisroodr_is_aligned v))"

definition ok_ts_insert_string_records_of_one_device_req :: "ts_insert_string_records_of_one_device_req \<Rightarrow> bool"
      where
  "ok_ts_insert_string_records_of_one_device_req v \<longleftrightarrow>
     str_ok (tisroodr_prefix_path v) \<and>
     list_ok (list_ok str_ok) (tisroodr_measurements_list v) \<and>
     list_ok (list_ok str_ok) (tisroodr_values_list v) \<and>
     list_ok (\<lambda>_. True) (tisroodr_timestamps v)"

context thrift_wire
begin

lemma wire_ts_insert_string_records_of_one_device_req:
  assumes "18 \<le> n"
  shows "wire (read_ts_insert_string_records_of_one_device_req P n)
        write_ts_insert_string_records_of_one_device_req ok_ts_insert_string_records_of_one_device_req"
  by (rule wireI, unfold ok_ts_insert_string_records_of_one_device_req_def
        read_ts_insert_string_records_of_one_device_req_def
        write_ts_insert_string_records_of_one_device_req_def,
      (rule wire_rules ts_insert_string_records_of_one_device_req.equality | (insert assms, simp; fail))+)

end

subsection \<open>\<^verbatim>\<open>TSInsertStringRecordsReq\<close>\<close>

record ts_insert_string_records_req =
  tisrr2_session_id :: i64
  tisrr2_prefix_paths :: "string list"
  tisrr2_measurements_list :: "string list list"
  tisrr2_values_list :: "string list list"
  tisrr2_timestamps :: "i64 list"
  tisrr2_is_aligned :: "bool option"

definition read_ts_insert_string_records_req :: "'i in_protocol \<Rightarrow> nat \<Rightarrow> ('i, ts_insert_string_records_req) rd"
      where
  "read_ts_insert_string_records_req P n =
     read_struct P n
       (\<lambda>k ty (f1, f2, f3, f4, f5, f6).
          if k = 1 then store (callp (ip_i64 P)) (\<lambda>v. (v, f2, f3, f4, f5, f6))
          else if k = 2 then store (read_list P (callp (ip_string P))) (\<lambda>v. (f1, v, f3, f4, f5, f6))
          else if k = 3 then store (read_list P (read_list P (callp (ip_string P)))) (\<lambda>v. (f1, f2, v, f4, f5,
                f6))
          else if k = 4 then store (read_list P (read_list P (callp (ip_string P)))) (\<lambda>v. (f1, f2, f3, v, f5,
                f6))
          else if k = 5 then store (read_list P (callp (ip_i64 P))) (\<lambda>v. (f1, f2, f3, f4, v, f6))
          else if k = 6 then store (callp (ip_bool P)) (\<lambda>v. (f1, f2, f3, f4, f5, v))
          else skip_field P ty (f1, f2, f3, f4, f5, f6))
       (None, None, None, None, None, None)
       (\<lambda>(f1, f2, f3, f4, f5, f6).
          bindp (required P ''TSInsertStringRecordsReq.session_id'' f1) (\<lambda>f1.
          bindp (required P ''TSInsertStringRecordsReq.prefix_paths'' f2) (\<lambda>f2.
          bindp (required P ''TSInsertStringRecordsReq.measurements_list'' f3) (\<lambda>f3.
          bindp (required P ''TSInsertStringRecordsReq.values_list'' f4) (\<lambda>f4.
          bindp (required P ''TSInsertStringRecordsReq.timestamps'' f5) (\<lambda>f5.
          retp \<lparr>tisrr2_session_id = f1, tisrr2_prefix_paths = f2, tisrr2_measurements_list = f3,
                tisrr2_values_list = f4, tisrr2_timestamps = f5, tisrr2_is_aligned = f6\<rparr>))))))"

definition write_ts_insert_string_records_req :: "ts_insert_string_records_req \<Rightarrow> out_call list" where
  "write_ts_insert_string_records_req v =
     w_struct ''TSInsertStringRecordsReq''
       (w_field ''sessionId'' TyI64 1 w_i64 (tisrr2_session_id v) @
        w_field ''prefixPaths'' TyList 2 (w_list TyString w_string) (tisrr2_prefix_paths v) @
        w_field ''measurementsList'' TyList 3 (w_list TyList (w_list TyString w_string))
              (tisrr2_measurements_list v) @
        w_field ''valuesList'' TyList 4 (w_list TyList (w_list TyString w_string)) (tisrr2_values_list v) @
        w_field ''timestamps'' TyList 5 (w_list TyI64 w_i64) (tisrr2_timestamps v) @
        w_opt ''isAligned'' TyBool 6 w_bool (tisrr2_is_aligned v))"

definition ok_ts_insert_string_records_req :: "ts_insert_string_records_req \<Rightarrow> bool" where
  "ok_ts_insert_string_records_req v \<longleftrightarrow>
     list_ok str_ok (tisrr2_prefix_paths v) \<and>
     list_ok (list_ok str_ok) (tisrr2_measurements_list v) \<and>
     list_ok (list_ok str_ok) (tisrr2_values_list v) \<and>
     list_ok (\<lambda>_. True) (tisrr2_timestamps v)"

context thrift_wire
begin

lemma wire_ts_insert_string_records_req:
  assumes "18 \<le> n"
  shows "wire (read_ts_insert_string_records_req P n) write_ts_insert_string_records_req
        ok_ts_insert_string_records_req"
  by (rule wireI, unfold ok_ts_insert_string_records_req_def read_ts_insert_string_records_req_def
        write_ts_insert_string_records_req_def,
      (rule wire_rules ts_insert_string_records_req.equality | (insert assms, simp; fail))+)

end

subsection \<open>\<^verbatim>\<open>TSDeleteDataReq\<close>\<close>

record ts_delete_data_req =
  tddr_session_id :: i64
  tddr_paths :: "string list"
  tddr_start_time :: i64
  tddr_end_time :: i64

definition read_ts_delete_data_req :: "'i in_protocol \<Rightarrow> nat \<Rightarrow> ('i, ts_delete_data_req) rd" where
  "read_ts_delete_data_req P n =
     read_struct P n
       (\<lambda>k ty (f1, f2, f3, f4).
          if k = 1 then store (callp (ip_i64 P)) (\<lambda>v. (v, f2, f3, f4))
          else if k = 2 then store (read_list P (callp (ip_string P))) (\<lambda>v. (f1, v, f3, f4))
          else if k = 3 then store (callp (ip_i64 P)) (\<lambda>v. (f1, f2, v, f4))
          else if k = 4 then store (callp (ip_i64 P)) (\<lambda>v. (f1, f2, f3, v))
          else skip_field P ty (f1, f2, f3, f4))
       (None, None, None, None)
       (\<lambda>(f1, f2, f3, f4).
          bindp (required P ''TSDeleteDataReq.session_id'' f1) (\<lambda>f1.
          bindp (required P ''TSDeleteDataReq.paths'' f2) (\<lambda>f2.
          bindp (required P ''TSDeleteDataReq.start_time'' f3) (\<lambda>f3.
          bindp (required P ''TSDeleteDataReq.end_time'' f4) (\<lambda>f4.
          retp \<lparr>tddr_session_id = f1, tddr_paths = f2, tddr_start_time = f3, tddr_end_time = f4\<rparr>)))))"

definition write_ts_delete_data_req :: "ts_delete_data_req \<Rightarrow> out_call list" where
  "write_ts_delete_data_req v =
     w_struct ''TSDeleteDataReq''
       (w_field ''sessionId'' TyI64 1 w_i64 (tddr_session_id v) @
        w_field ''paths'' TyList 2 (w_list TyString w_string) (tddr_paths v) @
        w_field ''startTime'' TyI64 3 w_i64 (tddr_start_time v) @
        w_field ''endTime'' TyI64 4 w_i64 (tddr_end_time v))"

definition ok_ts_delete_data_req :: "ts_delete_data_req \<Rightarrow> bool" where
  "ok_ts_delete_data_req v \<longleftrightarrow>
     list_ok str_ok (tddr_paths v)"

context thrift_wire
begin

lemma wire_ts_delete_data_req:
  assumes "18 \<le> n"
  shows "wire (read_ts_delete_data_req P n) write_ts_delete_data_req ok_ts_delete_data_req"
  by (rule wireI, unfold ok_ts_delete_data_req_def read_ts_delete_data_req_def write_ts_delete_data_req_def,
      (rule wire_rules ts_delete_data_req.equality | (insert assms, simp; fail))+)

end

end
