(* ===== verification/ThriftSchemas.thy ===== *)
theory ThriftSchemas
  imports ThriftCommon
begin

text \<open>
  Structures of \<^verbatim>\<open>src/protocol/client.rs\<close> for time series, queries without SQL, schema templates, pipes,
  subscriptions and connections, in the manner of \<open>ThriftReplies\<close>. The reader of \<^verbatim>\<open>ServerProperties\<close> starts
  one optional field at zero instead of empty, so a value without that field does not come back.
\<close>

subsection \<open>\<^verbatim>\<open>TSConnectionType\<close>\<close>

datatype ts_connection_type =
    TSConnectionType_ThriftBased
  | TSConnectionType_MqttBased
  | TSConnectionType_Internal
  | TSConnectionType_RestBased

definition try_from_ts_connection_type :: "i32 \<Rightarrow> thrift_error + ts_connection_type" where
  "try_from_ts_connection_type i =
     (if i = 0 then Inr TSConnectionType_ThriftBased
      else if i = 1 then Inr TSConnectionType_MqttBased
      else if i = 2 then Inr TSConnectionType_Internal
      else if i = 3 then Inr TSConnectionType_RestBased
      else Inl (no_variant ''TSConnectionType'' i))"

definition read_ts_connection_type :: "'i in_protocol \<Rightarrow> ('i, ts_connection_type) rd" where
  "read_ts_connection_type P = bindp (callp (ip_i32 P)) (\<lambda>i. checkp (try_from_ts_connection_type i))"

fun write_ts_connection_type :: "ts_connection_type \<Rightarrow> out_call list" where
  "write_ts_connection_type TSConnectionType_ThriftBased = [OI32 0]"
| "write_ts_connection_type TSConnectionType_MqttBased = [OI32 1]"
| "write_ts_connection_type TSConnectionType_Internal = [OI32 2]"
| "write_ts_connection_type TSConnectionType_RestBased = [OI32 3]"

context thrift_wire
begin

lemma wire_ts_connection_type: "wire (read_ts_connection_type P) write_ts_connection_type (\<lambda>_. True)"
  unfolding read_ts_connection_type_def by (rule wire_enum) (case_tac v; simp add:
        try_from_ts_connection_type_def)

end

subsection \<open>\<^verbatim>\<open>TSCreateTimeseriesReq\<close>\<close>

record ts_create_timeseries_req =
  tctr_session_id :: i64
  tctr_path :: string
  tctr_data_type :: i32
  tctr_encoding :: i32
  tctr_compressor :: i32
  tctr_props :: "(string, string) btree_map option"
  tctr_tags :: "(string, string) btree_map option"
  tctr_attributes :: "(string, string) btree_map option"
  tctr_measurement_alias :: "string option"

definition read_ts_create_timeseries_req :: "'i in_protocol \<Rightarrow> nat \<Rightarrow> ('i, ts_create_timeseries_req) rd" where
  "read_ts_create_timeseries_req P n =
     read_struct P n
       (\<lambda>k ty (f1, f2, f3, f4, f5, f6, f7, f8, f9).
          if k = 1 then store (callp (ip_i64 P)) (\<lambda>v. (v, f2, f3, f4, f5, f6, f7, f8, f9))
          else if k = 2 then store (callp (ip_string P)) (\<lambda>v. (f1, v, f3, f4, f5, f6, f7, f8, f9))
          else if k = 3 then store (callp (ip_i32 P)) (\<lambda>v. (f1, f2, v, f4, f5, f6, f7, f8, f9))
          else if k = 4 then store (callp (ip_i32 P)) (\<lambda>v. (f1, f2, f3, v, f5, f6, f7, f8, f9))
          else if k = 5 then store (callp (ip_i32 P)) (\<lambda>v. (f1, f2, f3, f4, v, f6, f7, f8, f9))
          else if k = 6 then store (read_map P (callp (ip_string P)) (callp (ip_string P))) (\<lambda>v. (f1, f2, f3,
                f4, f5, v, f7, f8, f9))
          else if k = 7 then store (read_map P (callp (ip_string P)) (callp (ip_string P))) (\<lambda>v. (f1, f2, f3,
                f4, f5, f6, v, f8, f9))
          else if k = 8 then store (read_map P (callp (ip_string P)) (callp (ip_string P))) (\<lambda>v. (f1, f2, f3,
                f4, f5, f6, f7, v, f9))
          else if k = 9 then store (callp (ip_string P)) (\<lambda>v. (f1, f2, f3, f4, f5, f6, f7, f8, v))
          else skip_field P ty (f1, f2, f3, f4, f5, f6, f7, f8, f9))
       (None, None, None, None, None, None, None, None, None)
       (\<lambda>(f1, f2, f3, f4, f5, f6, f7, f8, f9).
          bindp (required P ''TSCreateTimeseriesReq.session_id'' f1) (\<lambda>f1.
          bindp (required P ''TSCreateTimeseriesReq.path'' f2) (\<lambda>f2.
          bindp (required P ''TSCreateTimeseriesReq.data_type'' f3) (\<lambda>f3.
          bindp (required P ''TSCreateTimeseriesReq.encoding'' f4) (\<lambda>f4.
          bindp (required P ''TSCreateTimeseriesReq.compressor'' f5) (\<lambda>f5.
          retp \<lparr>tctr_session_id = f1, tctr_path = f2, tctr_data_type = f3, tctr_encoding = f4, tctr_compressor =
                f5, tctr_props = f6, tctr_tags = f7, tctr_attributes = f8, tctr_measurement_alias = f9\<rparr>))))))"

definition write_ts_create_timeseries_req :: "ts_create_timeseries_req \<Rightarrow> out_call list" where
  "write_ts_create_timeseries_req v =
     w_struct ''TSCreateTimeseriesReq''
       (w_field ''sessionId'' TyI64 1 w_i64 (tctr_session_id v) @
        w_field ''path'' TyString 2 w_string (tctr_path v) @
        w_field ''dataType'' TyI32 3 w_i32 (tctr_data_type v) @
        w_field ''encoding'' TyI32 4 w_i32 (tctr_encoding v) @
        w_field ''compressor'' TyI32 5 w_i32 (tctr_compressor v) @
        w_opt ''props'' TyMap 6 (w_map TyString TyString w_string w_string) (tctr_props v) @
        w_opt ''tags'' TyMap 7 (w_map TyString TyString w_string w_string) (tctr_tags v) @
        w_opt ''attributes'' TyMap 8 (w_map TyString TyString w_string w_string) (tctr_attributes v) @
        w_opt ''measurementAlias'' TyString 9 w_string (tctr_measurement_alias v))"

definition ok_ts_create_timeseries_req :: "ts_create_timeseries_req \<Rightarrow> bool" where
  "ok_ts_create_timeseries_req v \<longleftrightarrow>
     str_ok (tctr_path v) \<and>
     opt_ok (map_ok str_ok str_ok) (tctr_props v) \<and>
     opt_ok (map_ok str_ok str_ok) (tctr_tags v) \<and>
     opt_ok (map_ok str_ok str_ok) (tctr_attributes v) \<and>
     opt_ok str_ok (tctr_measurement_alias v)"

context thrift_wire
begin

lemma wire_ts_create_timeseries_req:
  assumes "18 \<le> n"
  shows "wire (read_ts_create_timeseries_req P n) write_ts_create_timeseries_req ok_ts_create_timeseries_req"
  by (rule wireI, unfold ok_ts_create_timeseries_req_def read_ts_create_timeseries_req_def
        write_ts_create_timeseries_req_def,
      (rule wire_rules ts_create_timeseries_req.equality | (insert assms, simp; fail))+)

end

subsection \<open>\<^verbatim>\<open>TSCreateAlignedTimeseriesReq\<close>\<close>

record ts_create_aligned_timeseries_req =
  tcatr_session_id :: i64
  tcatr_prefix_path :: string
  tcatr_measurements :: "string list"
  tcatr_data_types :: "i32 list"
  tcatr_encodings :: "i32 list"
  tcatr_compressors :: "i32 list"
  tcatr_measurement_alias :: "string list option"
  tcatr_tags_list :: "(string, string) btree_map list option"
  tcatr_attributes_list :: "(string, string) btree_map list option"

definition read_ts_create_aligned_timeseries_req :: "'i in_protocol \<Rightarrow> nat \<Rightarrow> ('i,
      ts_create_aligned_timeseries_req) rd" where
  "read_ts_create_aligned_timeseries_req P n =
     read_struct P n
       (\<lambda>k ty (f1, f2, f3, f4, f5, f6, f7, f8, f9).
          if k = 1 then store (callp (ip_i64 P)) (\<lambda>v. (v, f2, f3, f4, f5, f6, f7, f8, f9))
          else if k = 2 then store (callp (ip_string P)) (\<lambda>v. (f1, v, f3, f4, f5, f6, f7, f8, f9))
          else if k = 3 then store (read_list P (callp (ip_string P))) (\<lambda>v. (f1, f2, v, f4, f5, f6, f7, f8, f9))
          else if k = 4 then store (read_list P (callp (ip_i32 P))) (\<lambda>v. (f1, f2, f3, v, f5, f6, f7, f8, f9))
          else if k = 5 then store (read_list P (callp (ip_i32 P))) (\<lambda>v. (f1, f2, f3, f4, v, f6, f7, f8, f9))
          else if k = 6 then store (read_list P (callp (ip_i32 P))) (\<lambda>v. (f1, f2, f3, f4, f5, v, f7, f8, f9))
          else if k = 7 then store (read_list P (callp (ip_string P))) (\<lambda>v. (f1, f2, f3, f4, f5, f6, v, f8, f9))
          else if k = 8 then store (read_list P (read_map P (callp (ip_string P)) (callp (ip_string P)))) (\<lambda>v.
                (f1, f2, f3, f4, f5, f6, f7, v, f9))
          else if k = 9 then store (read_list P (read_map P (callp (ip_string P)) (callp (ip_string P)))) (\<lambda>v.
                (f1, f2, f3, f4, f5, f6, f7, f8, v))
          else skip_field P ty (f1, f2, f3, f4, f5, f6, f7, f8, f9))
       (None, None, None, None, None, None, None, None, None)
       (\<lambda>(f1, f2, f3, f4, f5, f6, f7, f8, f9).
          bindp (required P ''TSCreateAlignedTimeseriesReq.session_id'' f1) (\<lambda>f1.
          bindp (required P ''TSCreateAlignedTimeseriesReq.prefix_path'' f2) (\<lambda>f2.
          bindp (required P ''TSCreateAlignedTimeseriesReq.measurements'' f3) (\<lambda>f3.
          bindp (required P ''TSCreateAlignedTimeseriesReq.data_types'' f4) (\<lambda>f4.
          bindp (required P ''TSCreateAlignedTimeseriesReq.encodings'' f5) (\<lambda>f5.
          bindp (required P ''TSCreateAlignedTimeseriesReq.compressors'' f6) (\<lambda>f6.
          retp \<lparr>tcatr_session_id = f1, tcatr_prefix_path = f2, tcatr_measurements = f3, tcatr_data_types = f4,
                tcatr_encodings = f5, tcatr_compressors = f6, tcatr_measurement_alias = f7, tcatr_tags_list =
                f8, tcatr_attributes_list = f9\<rparr>)))))))"

definition write_ts_create_aligned_timeseries_req :: "ts_create_aligned_timeseries_req \<Rightarrow> out_call list" where
  "write_ts_create_aligned_timeseries_req v =
     w_struct ''TSCreateAlignedTimeseriesReq''
       (w_field ''sessionId'' TyI64 1 w_i64 (tcatr_session_id v) @
        w_field ''prefixPath'' TyString 2 w_string (tcatr_prefix_path v) @
        w_field ''measurements'' TyList 3 (w_list TyString w_string) (tcatr_measurements v) @
        w_field ''dataTypes'' TyList 4 (w_list TyI32 w_i32) (tcatr_data_types v) @
        w_field ''encodings'' TyList 5 (w_list TyI32 w_i32) (tcatr_encodings v) @
        w_field ''compressors'' TyList 6 (w_list TyI32 w_i32) (tcatr_compressors v) @
        w_opt ''measurementAlias'' TyList 7 (w_list TyString w_string) (tcatr_measurement_alias v) @
        w_opt ''tagsList'' TyList 8 (w_list TyMap (w_map TyString TyString w_string w_string)) (tcatr_tags_list
              v) @
        w_opt ''attributesList'' TyList 9 (w_list TyMap (w_map TyString TyString w_string w_string))
              (tcatr_attributes_list v))"

definition ok_ts_create_aligned_timeseries_req :: "ts_create_aligned_timeseries_req \<Rightarrow> bool" where
  "ok_ts_create_aligned_timeseries_req v \<longleftrightarrow>
     str_ok (tcatr_prefix_path v) \<and>
     list_ok str_ok (tcatr_measurements v) \<and>
     list_ok (\<lambda>_. True) (tcatr_data_types v) \<and>
     list_ok (\<lambda>_. True) (tcatr_encodings v) \<and>
     list_ok (\<lambda>_. True) (tcatr_compressors v) \<and>
     opt_ok (list_ok str_ok) (tcatr_measurement_alias v) \<and>
     opt_ok (list_ok (map_ok str_ok str_ok)) (tcatr_tags_list v) \<and>
     opt_ok (list_ok (map_ok str_ok str_ok)) (tcatr_attributes_list v)"

context thrift_wire
begin

lemma wire_ts_create_aligned_timeseries_req:
  assumes "18 \<le> n"
  shows "wire (read_ts_create_aligned_timeseries_req P n) write_ts_create_aligned_timeseries_req
        ok_ts_create_aligned_timeseries_req"
  by (rule wireI, unfold ok_ts_create_aligned_timeseries_req_def read_ts_create_aligned_timeseries_req_def
        write_ts_create_aligned_timeseries_req_def,
      (rule wire_rules ts_create_aligned_timeseries_req.equality | (insert assms, simp; fail))+)

end

subsection \<open>\<^verbatim>\<open>TSRawDataQueryReq\<close>\<close>

record ts_raw_data_query_req =
  trdqr_session_id :: i64
  trdqr_paths :: "string list"
  trdqr_fetch_size :: "i32 option"
  trdqr_start_time :: i64
  trdqr_end_time :: i64
  trdqr_statement_id :: i64
  trdqr_enable_redirect_query :: "bool option"
  trdqr_jdbc_query :: "bool option"
  trdqr_timeout :: "i64 option"
  trdqr_legal_path_nodes :: "bool option"

definition read_ts_raw_data_query_req :: "'i in_protocol \<Rightarrow> nat \<Rightarrow> ('i, ts_raw_data_query_req) rd" where
  "read_ts_raw_data_query_req P n =
     read_struct P n
       (\<lambda>k ty (f1, f2, f3, f4, f5, f6, f7, f8, f9, f10).
          if k = 1 then store (callp (ip_i64 P)) (\<lambda>v. (v, f2, f3, f4, f5, f6, f7, f8, f9, f10))
          else if k = 2 then store (read_list P (callp (ip_string P))) (\<lambda>v. (f1, v, f3, f4, f5, f6, f7, f8, f9,
                f10))
          else if k = 3 then store (callp (ip_i32 P)) (\<lambda>v. (f1, f2, v, f4, f5, f6, f7, f8, f9, f10))
          else if k = 4 then store (callp (ip_i64 P)) (\<lambda>v. (f1, f2, f3, v, f5, f6, f7, f8, f9, f10))
          else if k = 5 then store (callp (ip_i64 P)) (\<lambda>v. (f1, f2, f3, f4, v, f6, f7, f8, f9, f10))
          else if k = 6 then store (callp (ip_i64 P)) (\<lambda>v. (f1, f2, f3, f4, f5, v, f7, f8, f9, f10))
          else if k = 7 then store (callp (ip_bool P)) (\<lambda>v. (f1, f2, f3, f4, f5, f6, v, f8, f9, f10))
          else if k = 8 then store (callp (ip_bool P)) (\<lambda>v. (f1, f2, f3, f4, f5, f6, f7, v, f9, f10))
          else if k = 9 then store (callp (ip_i64 P)) (\<lambda>v. (f1, f2, f3, f4, f5, f6, f7, f8, v, f10))
          else if k = 10 then store (callp (ip_bool P)) (\<lambda>v. (f1, f2, f3, f4, f5, f6, f7, f8, f9, v))
          else skip_field P ty (f1, f2, f3, f4, f5, f6, f7, f8, f9, f10))
       (None, None, None, None, None, None, None, None, None, None)
       (\<lambda>(f1, f2, f3, f4, f5, f6, f7, f8, f9, f10).
          bindp (required P ''TSRawDataQueryReq.session_id'' f1) (\<lambda>f1.
          bindp (required P ''TSRawDataQueryReq.paths'' f2) (\<lambda>f2.
          bindp (required P ''TSRawDataQueryReq.start_time'' f4) (\<lambda>f4.
          bindp (required P ''TSRawDataQueryReq.end_time'' f5) (\<lambda>f5.
          bindp (required P ''TSRawDataQueryReq.statement_id'' f6) (\<lambda>f6.
          retp \<lparr>trdqr_session_id = f1, trdqr_paths = f2, trdqr_fetch_size = f3, trdqr_start_time = f4,
                trdqr_end_time = f5, trdqr_statement_id = f6, trdqr_enable_redirect_query = f7, trdqr_jdbc_query
                = f8, trdqr_timeout = f9, trdqr_legal_path_nodes = f10\<rparr>))))))"

definition write_ts_raw_data_query_req :: "ts_raw_data_query_req \<Rightarrow> out_call list" where
  "write_ts_raw_data_query_req v =
     w_struct ''TSRawDataQueryReq''
       (w_field ''sessionId'' TyI64 1 w_i64 (trdqr_session_id v) @
        w_field ''paths'' TyList 2 (w_list TyString w_string) (trdqr_paths v) @
        w_opt ''fetchSize'' TyI32 3 w_i32 (trdqr_fetch_size v) @
        w_field ''startTime'' TyI64 4 w_i64 (trdqr_start_time v) @
        w_field ''endTime'' TyI64 5 w_i64 (trdqr_end_time v) @
        w_field ''statementId'' TyI64 6 w_i64 (trdqr_statement_id v) @
        w_opt ''enableRedirectQuery'' TyBool 7 w_bool (trdqr_enable_redirect_query v) @
        w_opt ''jdbcQuery'' TyBool 8 w_bool (trdqr_jdbc_query v) @
        w_opt ''timeout'' TyI64 9 w_i64 (trdqr_timeout v) @
        w_opt ''legalPathNodes'' TyBool 10 w_bool (trdqr_legal_path_nodes v))"

definition ok_ts_raw_data_query_req :: "ts_raw_data_query_req \<Rightarrow> bool" where
  "ok_ts_raw_data_query_req v \<longleftrightarrow>
     list_ok str_ok (trdqr_paths v)"

context thrift_wire
begin

lemma wire_ts_raw_data_query_req:
  assumes "18 \<le> n"
  shows "wire (read_ts_raw_data_query_req P n) write_ts_raw_data_query_req ok_ts_raw_data_query_req"
  by (rule wireI, unfold ok_ts_raw_data_query_req_def read_ts_raw_data_query_req_def
        write_ts_raw_data_query_req_def,
      (rule wire_rules ts_raw_data_query_req.equality | (insert assms, simp; fail))+)

end

subsection \<open>\<^verbatim>\<open>TSLastDataQueryReq\<close>\<close>

record ts_last_data_query_req =
  tldqr_session_id :: i64
  tldqr_paths :: "string list"
  tldqr_fetch_size :: "i32 option"
  tldqr_time :: i64
  tldqr_statement_id :: i64
  tldqr_enable_redirect_query :: "bool option"
  tldqr_jdbc_query :: "bool option"
  tldqr_timeout :: "i64 option"
  tldqr_legal_path_nodes :: "bool option"

definition read_ts_last_data_query_req :: "'i in_protocol \<Rightarrow> nat \<Rightarrow> ('i, ts_last_data_query_req) rd" where
  "read_ts_last_data_query_req P n =
     read_struct P n
       (\<lambda>k ty (f1, f2, f3, f4, f5, f6, f7, f8, f9).
          if k = 1 then store (callp (ip_i64 P)) (\<lambda>v. (v, f2, f3, f4, f5, f6, f7, f8, f9))
          else if k = 2 then store (read_list P (callp (ip_string P))) (\<lambda>v. (f1, v, f3, f4, f5, f6, f7, f8, f9))
          else if k = 3 then store (callp (ip_i32 P)) (\<lambda>v. (f1, f2, v, f4, f5, f6, f7, f8, f9))
          else if k = 4 then store (callp (ip_i64 P)) (\<lambda>v. (f1, f2, f3, v, f5, f6, f7, f8, f9))
          else if k = 5 then store (callp (ip_i64 P)) (\<lambda>v. (f1, f2, f3, f4, v, f6, f7, f8, f9))
          else if k = 6 then store (callp (ip_bool P)) (\<lambda>v. (f1, f2, f3, f4, f5, v, f7, f8, f9))
          else if k = 7 then store (callp (ip_bool P)) (\<lambda>v. (f1, f2, f3, f4, f5, f6, v, f8, f9))
          else if k = 8 then store (callp (ip_i64 P)) (\<lambda>v. (f1, f2, f3, f4, f5, f6, f7, v, f9))
          else if k = 9 then store (callp (ip_bool P)) (\<lambda>v. (f1, f2, f3, f4, f5, f6, f7, f8, v))
          else skip_field P ty (f1, f2, f3, f4, f5, f6, f7, f8, f9))
       (None, None, None, None, None, None, None, None, None)
       (\<lambda>(f1, f2, f3, f4, f5, f6, f7, f8, f9).
          bindp (required P ''TSLastDataQueryReq.session_id'' f1) (\<lambda>f1.
          bindp (required P ''TSLastDataQueryReq.paths'' f2) (\<lambda>f2.
          bindp (required P ''TSLastDataQueryReq.time'' f4) (\<lambda>f4.
          bindp (required P ''TSLastDataQueryReq.statement_id'' f5) (\<lambda>f5.
          retp \<lparr>tldqr_session_id = f1, tldqr_paths = f2, tldqr_fetch_size = f3, tldqr_time = f4,
                tldqr_statement_id = f5, tldqr_enable_redirect_query = f6, tldqr_jdbc_query = f7, tldqr_timeout
                = f8, tldqr_legal_path_nodes = f9\<rparr>)))))"

definition write_ts_last_data_query_req :: "ts_last_data_query_req \<Rightarrow> out_call list" where
  "write_ts_last_data_query_req v =
     w_struct ''TSLastDataQueryReq''
       (w_field ''sessionId'' TyI64 1 w_i64 (tldqr_session_id v) @
        w_field ''paths'' TyList 2 (w_list TyString w_string) (tldqr_paths v) @
        w_opt ''fetchSize'' TyI32 3 w_i32 (tldqr_fetch_size v) @
        w_field ''time'' TyI64 4 w_i64 (tldqr_time v) @
        w_field ''statementId'' TyI64 5 w_i64 (tldqr_statement_id v) @
        w_opt ''enableRedirectQuery'' TyBool 6 w_bool (tldqr_enable_redirect_query v) @
        w_opt ''jdbcQuery'' TyBool 7 w_bool (tldqr_jdbc_query v) @
        w_opt ''timeout'' TyI64 8 w_i64 (tldqr_timeout v) @
        w_opt ''legalPathNodes'' TyBool 9 w_bool (tldqr_legal_path_nodes v))"

definition ok_ts_last_data_query_req :: "ts_last_data_query_req \<Rightarrow> bool" where
  "ok_ts_last_data_query_req v \<longleftrightarrow>
     list_ok str_ok (tldqr_paths v)"

context thrift_wire
begin

lemma wire_ts_last_data_query_req:
  assumes "18 \<le> n"
  shows "wire (read_ts_last_data_query_req P n) write_ts_last_data_query_req ok_ts_last_data_query_req"
  by (rule wireI, unfold ok_ts_last_data_query_req_def read_ts_last_data_query_req_def
        write_ts_last_data_query_req_def,
      (rule wire_rules ts_last_data_query_req.equality | (insert assms, simp; fail))+)

end

subsection \<open>\<^verbatim>\<open>TSFastLastDataQueryForOnePrefixPathReq\<close>\<close>

record ts_fast_last_data_query_for_one_prefix_path_req =
  tfldqfoppr_session_id :: i64
  tfldqfoppr_prefixes :: "string list"
  tfldqfoppr_fetch_size :: "i32 option"
  tfldqfoppr_statement_id :: i64
  tfldqfoppr_enable_redirect_query :: "bool option"
  tfldqfoppr_jdbc_query :: "bool option"
  tfldqfoppr_timeout :: "i64 option"

definition read_ts_fast_last_data_query_for_one_prefix_path_req :: "'i in_protocol \<Rightarrow> nat \<Rightarrow> ('i,
      ts_fast_last_data_query_for_one_prefix_path_req) rd" where
  "read_ts_fast_last_data_query_for_one_prefix_path_req P n =
     read_struct P n
       (\<lambda>k ty (f1, f2, f3, f4, f5, f6, f7).
          if k = 1 then store (callp (ip_i64 P)) (\<lambda>v. (v, f2, f3, f4, f5, f6, f7))
          else if k = 2 then store (read_list P (callp (ip_string P))) (\<lambda>v. (f1, v, f3, f4, f5, f6, f7))
          else if k = 3 then store (callp (ip_i32 P)) (\<lambda>v. (f1, f2, v, f4, f5, f6, f7))
          else if k = 4 then store (callp (ip_i64 P)) (\<lambda>v. (f1, f2, f3, v, f5, f6, f7))
          else if k = 5 then store (callp (ip_bool P)) (\<lambda>v. (f1, f2, f3, f4, v, f6, f7))
          else if k = 6 then store (callp (ip_bool P)) (\<lambda>v. (f1, f2, f3, f4, f5, v, f7))
          else if k = 7 then store (callp (ip_i64 P)) (\<lambda>v. (f1, f2, f3, f4, f5, f6, v))
          else skip_field P ty (f1, f2, f3, f4, f5, f6, f7))
       (None, None, None, None, None, None, None)
       (\<lambda>(f1, f2, f3, f4, f5, f6, f7).
          bindp (required P ''TSFastLastDataQueryForOnePrefixPathReq.session_id'' f1) (\<lambda>f1.
          bindp (required P ''TSFastLastDataQueryForOnePrefixPathReq.prefixes'' f2) (\<lambda>f2.
          bindp (required P ''TSFastLastDataQueryForOnePrefixPathReq.statement_id'' f4) (\<lambda>f4.
          retp \<lparr>tfldqfoppr_session_id = f1, tfldqfoppr_prefixes = f2, tfldqfoppr_fetch_size = f3,
                tfldqfoppr_statement_id = f4, tfldqfoppr_enable_redirect_query = f5, tfldqfoppr_jdbc_query = f6,
                tfldqfoppr_timeout = f7\<rparr>))))"

definition write_ts_fast_last_data_query_for_one_prefix_path_req ::
      "ts_fast_last_data_query_for_one_prefix_path_req \<Rightarrow> out_call list" where
  "write_ts_fast_last_data_query_for_one_prefix_path_req v =
     w_struct ''TSFastLastDataQueryForOnePrefixPathReq''
       (w_field ''sessionId'' TyI64 1 w_i64 (tfldqfoppr_session_id v) @
        w_field ''prefixes'' TyList 2 (w_list TyString w_string) (tfldqfoppr_prefixes v) @
        w_opt ''fetchSize'' TyI32 3 w_i32 (tfldqfoppr_fetch_size v) @
        w_field ''statementId'' TyI64 4 w_i64 (tfldqfoppr_statement_id v) @
        w_opt ''enableRedirectQuery'' TyBool 5 w_bool (tfldqfoppr_enable_redirect_query v) @
        w_opt ''jdbcQuery'' TyBool 6 w_bool (tfldqfoppr_jdbc_query v) @
        w_opt ''timeout'' TyI64 7 w_i64 (tfldqfoppr_timeout v))"

definition ok_ts_fast_last_data_query_for_one_prefix_path_req ::
      "ts_fast_last_data_query_for_one_prefix_path_req \<Rightarrow> bool" where
  "ok_ts_fast_last_data_query_for_one_prefix_path_req v \<longleftrightarrow>
     list_ok str_ok (tfldqfoppr_prefixes v)"

context thrift_wire
begin

lemma wire_ts_fast_last_data_query_for_one_prefix_path_req:
  assumes "18 \<le> n"
  shows "wire (read_ts_fast_last_data_query_for_one_prefix_path_req P n)
        write_ts_fast_last_data_query_for_one_prefix_path_req
        ok_ts_fast_last_data_query_for_one_prefix_path_req"
  by (rule wireI, unfold ok_ts_fast_last_data_query_for_one_prefix_path_req_def
        read_ts_fast_last_data_query_for_one_prefix_path_req_def
        write_ts_fast_last_data_query_for_one_prefix_path_req_def,
      (rule wire_rules ts_fast_last_data_query_for_one_prefix_path_req.equality | (insert assms, simp; fail))+)

end

subsection \<open>\<^verbatim>\<open>TSFastLastDataQueryForOneDeviceReq\<close>\<close>

record ts_fast_last_data_query_for_one_device_req =
  tfldqfodr_session_id :: i64
  tfldqfodr_db :: string
  tfldqfodr_device_id :: string
  tfldqfodr_sensors :: "string list"
  tfldqfodr_fetch_size :: "i32 option"
  tfldqfodr_statement_id :: i64
  tfldqfodr_enable_redirect_query :: "bool option"
  tfldqfodr_jdbc_query :: "bool option"
  tfldqfodr_timeout :: "i64 option"
  tfldqfodr_legal_path_nodes :: "bool option"

definition read_ts_fast_last_data_query_for_one_device_req :: "'i in_protocol \<Rightarrow> nat \<Rightarrow> ('i,
      ts_fast_last_data_query_for_one_device_req) rd" where
  "read_ts_fast_last_data_query_for_one_device_req P n =
     read_struct P n
       (\<lambda>k ty (f1, f2, f3, f4, f5, f6, f7, f8, f9, f10).
          if k = 1 then store (callp (ip_i64 P)) (\<lambda>v. (v, f2, f3, f4, f5, f6, f7, f8, f9, f10))
          else if k = 2 then store (callp (ip_string P)) (\<lambda>v. (f1, v, f3, f4, f5, f6, f7, f8, f9, f10))
          else if k = 3 then store (callp (ip_string P)) (\<lambda>v. (f1, f2, v, f4, f5, f6, f7, f8, f9, f10))
          else if k = 4 then store (read_list P (callp (ip_string P))) (\<lambda>v. (f1, f2, f3, v, f5, f6, f7, f8, f9,
                f10))
          else if k = 5 then store (callp (ip_i32 P)) (\<lambda>v. (f1, f2, f3, f4, v, f6, f7, f8, f9, f10))
          else if k = 6 then store (callp (ip_i64 P)) (\<lambda>v. (f1, f2, f3, f4, f5, v, f7, f8, f9, f10))
          else if k = 7 then store (callp (ip_bool P)) (\<lambda>v. (f1, f2, f3, f4, f5, f6, v, f8, f9, f10))
          else if k = 8 then store (callp (ip_bool P)) (\<lambda>v. (f1, f2, f3, f4, f5, f6, f7, v, f9, f10))
          else if k = 9 then store (callp (ip_i64 P)) (\<lambda>v. (f1, f2, f3, f4, f5, f6, f7, f8, v, f10))
          else if k = 10 then store (callp (ip_bool P)) (\<lambda>v. (f1, f2, f3, f4, f5, f6, f7, f8, f9, v))
          else skip_field P ty (f1, f2, f3, f4, f5, f6, f7, f8, f9, f10))
       (None, None, None, None, None, None, None, None, None, None)
       (\<lambda>(f1, f2, f3, f4, f5, f6, f7, f8, f9, f10).
          bindp (required P ''TSFastLastDataQueryForOneDeviceReq.session_id'' f1) (\<lambda>f1.
          bindp (required P ''TSFastLastDataQueryForOneDeviceReq.db'' f2) (\<lambda>f2.
          bindp (required P ''TSFastLastDataQueryForOneDeviceReq.device_id'' f3) (\<lambda>f3.
          bindp (required P ''TSFastLastDataQueryForOneDeviceReq.sensors'' f4) (\<lambda>f4.
          bindp (required P ''TSFastLastDataQueryForOneDeviceReq.statement_id'' f6) (\<lambda>f6.
          retp \<lparr>tfldqfodr_session_id = f1, tfldqfodr_db = f2, tfldqfodr_device_id = f3, tfldqfodr_sensors = f4,
                tfldqfodr_fetch_size = f5, tfldqfodr_statement_id = f6, tfldqfodr_enable_redirect_query = f7,
                tfldqfodr_jdbc_query = f8, tfldqfodr_timeout = f9, tfldqfodr_legal_path_nodes = f10\<rparr>))))))"

definition write_ts_fast_last_data_query_for_one_device_req :: "ts_fast_last_data_query_for_one_device_req \<Rightarrow>
      out_call list" where
  "write_ts_fast_last_data_query_for_one_device_req v =
     w_struct ''TSFastLastDataQueryForOneDeviceReq''
       (w_field ''sessionId'' TyI64 1 w_i64 (tfldqfodr_session_id v) @
        w_field ''db'' TyString 2 w_string (tfldqfodr_db v) @
        w_field ''deviceId'' TyString 3 w_string (tfldqfodr_device_id v) @
        w_field ''sensors'' TyList 4 (w_list TyString w_string) (tfldqfodr_sensors v) @
        w_opt ''fetchSize'' TyI32 5 w_i32 (tfldqfodr_fetch_size v) @
        w_field ''statementId'' TyI64 6 w_i64 (tfldqfodr_statement_id v) @
        w_opt ''enableRedirectQuery'' TyBool 7 w_bool (tfldqfodr_enable_redirect_query v) @
        w_opt ''jdbcQuery'' TyBool 8 w_bool (tfldqfodr_jdbc_query v) @
        w_opt ''timeout'' TyI64 9 w_i64 (tfldqfodr_timeout v) @
        w_opt ''legalPathNodes'' TyBool 10 w_bool (tfldqfodr_legal_path_nodes v))"

definition ok_ts_fast_last_data_query_for_one_device_req :: "ts_fast_last_data_query_for_one_device_req \<Rightarrow> bool"
      where
  "ok_ts_fast_last_data_query_for_one_device_req v \<longleftrightarrow>
     str_ok (tfldqfodr_db v) \<and>
     str_ok (tfldqfodr_device_id v) \<and>
     list_ok str_ok (tfldqfodr_sensors v)"

context thrift_wire
begin

lemma wire_ts_fast_last_data_query_for_one_device_req:
  assumes "18 \<le> n"
  shows "wire (read_ts_fast_last_data_query_for_one_device_req P n)
        write_ts_fast_last_data_query_for_one_device_req ok_ts_fast_last_data_query_for_one_device_req"
  by (rule wireI, unfold ok_ts_fast_last_data_query_for_one_device_req_def
        read_ts_fast_last_data_query_for_one_device_req_def
        write_ts_fast_last_data_query_for_one_device_req_def,
      (rule wire_rules ts_fast_last_data_query_for_one_device_req.equality | (insert assms, simp; fail))+)

end

subsection \<open>\<^verbatim>\<open>TSAggregationQueryReq\<close>\<close>

record ts_aggregation_query_req =
  taqr_session_id :: i64
  taqr_statement_id :: i64
  taqr_paths :: "string list"
  taqr_aggregations :: "t_aggregation_type list"
  taqr_start_time :: "i64 option"
  taqr_end_time :: "i64 option"
  taqr_interval :: "i64 option"
  taqr_sliding_step :: "i64 option"
  taqr_fetch_size :: "i32 option"
  taqr_timeout :: "i64 option"
  taqr_legal_path_nodes :: "bool option"

definition read_ts_aggregation_query_req :: "'i in_protocol \<Rightarrow> nat \<Rightarrow> ('i, ts_aggregation_query_req) rd" where
  "read_ts_aggregation_query_req P n =
     read_struct P n
       (\<lambda>k ty (f1, f2, f3, f4, f5, f6, f7, f8, f9, f10, f11).
          if k = 1 then store (callp (ip_i64 P)) (\<lambda>v. (v, f2, f3, f4, f5, f6, f7, f8, f9, f10, f11))
          else if k = 2 then store (callp (ip_i64 P)) (\<lambda>v. (f1, v, f3, f4, f5, f6, f7, f8, f9, f10, f11))
          else if k = 3 then store (read_list P (callp (ip_string P))) (\<lambda>v. (f1, f2, v, f4, f5, f6, f7, f8, f9,
                f10, f11))
          else if k = 4 then store (read_list P (read_t_aggregation_type P)) (\<lambda>v. (f1, f2, f3, v, f5, f6, f7,
                f8, f9, f10, f11))
          else if k = 5 then store (callp (ip_i64 P)) (\<lambda>v. (f1, f2, f3, f4, v, f6, f7, f8, f9, f10, f11))
          else if k = 6 then store (callp (ip_i64 P)) (\<lambda>v. (f1, f2, f3, f4, f5, v, f7, f8, f9, f10, f11))
          else if k = 7 then store (callp (ip_i64 P)) (\<lambda>v. (f1, f2, f3, f4, f5, f6, v, f8, f9, f10, f11))
          else if k = 8 then store (callp (ip_i64 P)) (\<lambda>v. (f1, f2, f3, f4, f5, f6, f7, v, f9, f10, f11))
          else if k = 9 then store (callp (ip_i32 P)) (\<lambda>v. (f1, f2, f3, f4, f5, f6, f7, f8, v, f10, f11))
          else if k = 10 then store (callp (ip_i64 P)) (\<lambda>v. (f1, f2, f3, f4, f5, f6, f7, f8, f9, v, f11))
          else if k = 11 then store (callp (ip_bool P)) (\<lambda>v. (f1, f2, f3, f4, f5, f6, f7, f8, f9, f10, v))
          else skip_field P ty (f1, f2, f3, f4, f5, f6, f7, f8, f9, f10, f11))
       (None, None, None, None, None, None, None, None, None, None, None)
       (\<lambda>(f1, f2, f3, f4, f5, f6, f7, f8, f9, f10, f11).
          bindp (required P ''TSAggregationQueryReq.session_id'' f1) (\<lambda>f1.
          bindp (required P ''TSAggregationQueryReq.statement_id'' f2) (\<lambda>f2.
          bindp (required P ''TSAggregationQueryReq.paths'' f3) (\<lambda>f3.
          bindp (required P ''TSAggregationQueryReq.aggregations'' f4) (\<lambda>f4.
          retp \<lparr>taqr_session_id = f1, taqr_statement_id = f2, taqr_paths = f3, taqr_aggregations = f4,
                taqr_start_time = f5, taqr_end_time = f6, taqr_interval = f7, taqr_sliding_step = f8,
                taqr_fetch_size = f9, taqr_timeout = f10, taqr_legal_path_nodes = f11\<rparr>)))))"

definition write_ts_aggregation_query_req :: "ts_aggregation_query_req \<Rightarrow> out_call list" where
  "write_ts_aggregation_query_req v =
     w_struct ''TSAggregationQueryReq''
       (w_field ''sessionId'' TyI64 1 w_i64 (taqr_session_id v) @
        w_field ''statementId'' TyI64 2 w_i64 (taqr_statement_id v) @
        w_field ''paths'' TyList 3 (w_list TyString w_string) (taqr_paths v) @
        w_field ''aggregations'' TyList 4 (w_list TyI32 write_t_aggregation_type) (taqr_aggregations v) @
        w_opt ''startTime'' TyI64 5 w_i64 (taqr_start_time v) @
        w_opt ''endTime'' TyI64 6 w_i64 (taqr_end_time v) @
        w_opt ''interval'' TyI64 7 w_i64 (taqr_interval v) @
        w_opt ''slidingStep'' TyI64 8 w_i64 (taqr_sliding_step v) @
        w_opt ''fetchSize'' TyI32 9 w_i32 (taqr_fetch_size v) @
        w_opt ''timeout'' TyI64 10 w_i64 (taqr_timeout v) @
        w_opt ''legalPathNodes'' TyBool 11 w_bool (taqr_legal_path_nodes v))"

definition ok_ts_aggregation_query_req :: "ts_aggregation_query_req \<Rightarrow> bool" where
  "ok_ts_aggregation_query_req v \<longleftrightarrow>
     list_ok str_ok (taqr_paths v) \<and>
     list_ok (\<lambda>_. True) (taqr_aggregations v)"

context thrift_wire
begin

lemma wire_ts_aggregation_query_req:
  assumes "18 \<le> n"
  shows "wire (read_ts_aggregation_query_req P n) write_ts_aggregation_query_req ok_ts_aggregation_query_req"
  by (rule wireI, unfold ok_ts_aggregation_query_req_def read_ts_aggregation_query_req_def
        write_ts_aggregation_query_req_def,
      (rule wire_rules wire_t_aggregation_type ts_aggregation_query_req.equality | (insert assms, simp; fail))+)

end

subsection \<open>\<^verbatim>\<open>TSCreateMultiTimeseriesReq\<close>\<close>

record ts_create_multi_timeseries_req =
  tcmtr_session_id :: i64
  tcmtr_paths :: "string list"
  tcmtr_data_types :: "i32 list"
  tcmtr_encodings :: "i32 list"
  tcmtr_compressors :: "i32 list"
  tcmtr_props_list :: "(string, string) btree_map list option"
  tcmtr_tags_list :: "(string, string) btree_map list option"
  tcmtr_attributes_list :: "(string, string) btree_map list option"
  tcmtr_measurement_alias_list :: "string list option"

definition read_ts_create_multi_timeseries_req :: "'i in_protocol \<Rightarrow> nat \<Rightarrow> ('i, ts_create_multi_timeseries_req)
      rd" where
  "read_ts_create_multi_timeseries_req P n =
     read_struct P n
       (\<lambda>k ty (f1, f2, f3, f4, f5, f6, f7, f8, f9).
          if k = 1 then store (callp (ip_i64 P)) (\<lambda>v. (v, f2, f3, f4, f5, f6, f7, f8, f9))
          else if k = 2 then store (read_list P (callp (ip_string P))) (\<lambda>v. (f1, v, f3, f4, f5, f6, f7, f8, f9))
          else if k = 3 then store (read_list P (callp (ip_i32 P))) (\<lambda>v. (f1, f2, v, f4, f5, f6, f7, f8, f9))
          else if k = 4 then store (read_list P (callp (ip_i32 P))) (\<lambda>v. (f1, f2, f3, v, f5, f6, f7, f8, f9))
          else if k = 5 then store (read_list P (callp (ip_i32 P))) (\<lambda>v. (f1, f2, f3, f4, v, f6, f7, f8, f9))
          else if k = 6 then store (read_list P (read_map P (callp (ip_string P)) (callp (ip_string P)))) (\<lambda>v.
                (f1, f2, f3, f4, f5, v, f7, f8, f9))
          else if k = 7 then store (read_list P (read_map P (callp (ip_string P)) (callp (ip_string P)))) (\<lambda>v.
                (f1, f2, f3, f4, f5, f6, v, f8, f9))
          else if k = 8 then store (read_list P (read_map P (callp (ip_string P)) (callp (ip_string P)))) (\<lambda>v.
                (f1, f2, f3, f4, f5, f6, f7, v, f9))
          else if k = 9 then store (read_list P (callp (ip_string P))) (\<lambda>v. (f1, f2, f3, f4, f5, f6, f7, f8, v))
          else skip_field P ty (f1, f2, f3, f4, f5, f6, f7, f8, f9))
       (None, None, None, None, None, None, None, None, None)
       (\<lambda>(f1, f2, f3, f4, f5, f6, f7, f8, f9).
          bindp (required P ''TSCreateMultiTimeseriesReq.session_id'' f1) (\<lambda>f1.
          bindp (required P ''TSCreateMultiTimeseriesReq.paths'' f2) (\<lambda>f2.
          bindp (required P ''TSCreateMultiTimeseriesReq.data_types'' f3) (\<lambda>f3.
          bindp (required P ''TSCreateMultiTimeseriesReq.encodings'' f4) (\<lambda>f4.
          bindp (required P ''TSCreateMultiTimeseriesReq.compressors'' f5) (\<lambda>f5.
          retp \<lparr>tcmtr_session_id = f1, tcmtr_paths = f2, tcmtr_data_types = f3, tcmtr_encodings = f4,
                tcmtr_compressors = f5, tcmtr_props_list = f6, tcmtr_tags_list = f7, tcmtr_attributes_list = f8,
                tcmtr_measurement_alias_list = f9\<rparr>))))))"

definition write_ts_create_multi_timeseries_req :: "ts_create_multi_timeseries_req \<Rightarrow> out_call list" where
  "write_ts_create_multi_timeseries_req v =
     w_struct ''TSCreateMultiTimeseriesReq''
       (w_field ''sessionId'' TyI64 1 w_i64 (tcmtr_session_id v) @
        w_field ''paths'' TyList 2 (w_list TyString w_string) (tcmtr_paths v) @
        w_field ''dataTypes'' TyList 3 (w_list TyI32 w_i32) (tcmtr_data_types v) @
        w_field ''encodings'' TyList 4 (w_list TyI32 w_i32) (tcmtr_encodings v) @
        w_field ''compressors'' TyList 5 (w_list TyI32 w_i32) (tcmtr_compressors v) @
        w_opt ''propsList'' TyList 6 (w_list TyMap (w_map TyString TyString w_string w_string))
              (tcmtr_props_list v) @
        w_opt ''tagsList'' TyList 7 (w_list TyMap (w_map TyString TyString w_string w_string)) (tcmtr_tags_list
              v) @
        w_opt ''attributesList'' TyList 8 (w_list TyMap (w_map TyString TyString w_string w_string))
              (tcmtr_attributes_list v) @
        w_opt ''measurementAliasList'' TyList 9 (w_list TyString w_string) (tcmtr_measurement_alias_list v))"

definition ok_ts_create_multi_timeseries_req :: "ts_create_multi_timeseries_req \<Rightarrow> bool" where
  "ok_ts_create_multi_timeseries_req v \<longleftrightarrow>
     list_ok str_ok (tcmtr_paths v) \<and>
     list_ok (\<lambda>_. True) (tcmtr_data_types v) \<and>
     list_ok (\<lambda>_. True) (tcmtr_encodings v) \<and>
     list_ok (\<lambda>_. True) (tcmtr_compressors v) \<and>
     opt_ok (list_ok (map_ok str_ok str_ok)) (tcmtr_props_list v) \<and>
     opt_ok (list_ok (map_ok str_ok str_ok)) (tcmtr_tags_list v) \<and>
     opt_ok (list_ok (map_ok str_ok str_ok)) (tcmtr_attributes_list v) \<and>
     opt_ok (list_ok str_ok) (tcmtr_measurement_alias_list v)"

context thrift_wire
begin

lemma wire_ts_create_multi_timeseries_req:
  assumes "18 \<le> n"
  shows "wire (read_ts_create_multi_timeseries_req P n) write_ts_create_multi_timeseries_req
        ok_ts_create_multi_timeseries_req"
  by (rule wireI, unfold ok_ts_create_multi_timeseries_req_def read_ts_create_multi_timeseries_req_def
        write_ts_create_multi_timeseries_req_def,
      (rule wire_rules ts_create_multi_timeseries_req.equality | (insert assms, simp; fail))+)

end

subsection \<open>\<^verbatim>\<open>ServerProperties\<close>\<close>

record server_properties =
  sp_version :: string
  sp_supported_time_aggregation_operations :: "string list"
  sp_timestamp_precision :: string
  sp_max_concurrent_client_num :: "i32 option"
  sp_thrift_max_frame_size :: "i32 option"
  sp_is_read_only :: "bool option"
  sp_build_info :: "string option"
  sp_logo :: "string option"

definition read_server_properties :: "'i in_protocol \<Rightarrow> nat \<Rightarrow> ('i, server_properties) rd" where
  "read_server_properties P n =
     read_struct P n
       (\<lambda>k ty (f1, f2, f3, f4, f5, f6, f7, f8).
          if k = 1 then store (callp (ip_string P)) (\<lambda>v. (v, f2, f3, f4, f5, f6, f7, f8))
          else if k = 2 then store (read_list P (callp (ip_string P))) (\<lambda>v. (f1, v, f3, f4, f5, f6, f7, f8))
          else if k = 3 then store (callp (ip_string P)) (\<lambda>v. (f1, f2, v, f4, f5, f6, f7, f8))
          else if k = 4 then store (callp (ip_i32 P)) (\<lambda>v. (f1, f2, f3, v, f5, f6, f7, f8))
          else if k = 5 then store (callp (ip_i32 P)) (\<lambda>v. (f1, f2, f3, f4, v, f6, f7, f8))
          else if k = 6 then store (callp (ip_bool P)) (\<lambda>v. (f1, f2, f3, f4, f5, v, f7, f8))
          else if k = 7 then store (callp (ip_string P)) (\<lambda>v. (f1, f2, f3, f4, f5, f6, v, f8))
          else if k = 8 then store (callp (ip_string P)) (\<lambda>v. (f1, f2, f3, f4, f5, f6, f7, v))
          else skip_field P ty (f1, f2, f3, f4, f5, f6, f7, f8))
       (None, None, None, Some 0, None, None, None, None)
       (\<lambda>(f1, f2, f3, f4, f5, f6, f7, f8).
          bindp (required P ''ServerProperties.version'' f1) (\<lambda>f1.
          bindp (required P ''ServerProperties.supported_time_aggregation_operations'' f2) (\<lambda>f2.
          bindp (required P ''ServerProperties.timestamp_precision'' f3) (\<lambda>f3.
          retp \<lparr>sp_version = f1, sp_supported_time_aggregation_operations = f2, sp_timestamp_precision = f3,
                sp_max_concurrent_client_num = f4, sp_thrift_max_frame_size = f5, sp_is_read_only = f6,
                sp_build_info = f7, sp_logo = f8\<rparr>))))"

definition write_server_properties :: "server_properties \<Rightarrow> out_call list" where
  "write_server_properties v =
     w_struct ''ServerProperties''
       (w_field ''version'' TyString 1 w_string (sp_version v) @
        w_field ''supportedTimeAggregationOperations'' TyList 2 (w_list TyString w_string)
              (sp_supported_time_aggregation_operations v) @
        w_field ''timestampPrecision'' TyString 3 w_string (sp_timestamp_precision v) @
        w_opt ''maxConcurrentClientNum'' TyI32 4 w_i32 (sp_max_concurrent_client_num v) @
        w_opt ''thriftMaxFrameSize'' TyI32 5 w_i32 (sp_thrift_max_frame_size v) @
        w_opt ''isReadOnly'' TyBool 6 w_bool (sp_is_read_only v) @
        w_opt ''buildInfo'' TyString 7 w_string (sp_build_info v) @
        w_opt ''logo'' TyString 8 w_string (sp_logo v))"

text \<open>
  What the reader makes of properties that were written: it starts the optional
  \<^verbatim>\<open>maxConcurrentClientNum\<close> at \<^verbatim>\<open>Some(0)\<close>, so an absent one is read as zero.
\<close>

definition received_server_properties :: "server_properties \<Rightarrow> server_properties" where
  "received_server_properties v =
     v\<lparr>sp_max_concurrent_client_num := Some (case sp_max_concurrent_client_num v of None \<Rightarrow> 0 | Some k \<Rightarrow> k)\<rparr>"

definition ok_server_properties :: "server_properties \<Rightarrow> bool" where
  "ok_server_properties v \<longleftrightarrow>
     str_ok (sp_version v) \<and>
     list_ok str_ok (sp_supported_time_aggregation_operations v) \<and>
     str_ok (sp_timestamp_precision v) \<and>
     opt_ok str_ok (sp_build_info v) \<and>
     opt_ok str_ok (sp_logo v)"

context thrift_wire
begin

lemma reads_server_properties_present:
  assumes "18 \<le> n" "ok_server_properties v" "sp_max_concurrent_client_num v \<noteq> None"
  shows "reads (read_server_properties P n) (write_server_properties v) v"
  by (insert assms(2,3), unfold ok_server_properties_def read_server_properties_def write_server_properties_def,
      ((rule reads_fields_default, simp, simp, rule wire_prims, (simp; fail), (simp; fail)) |
       rule wire_rules server_properties.equality | (insert assms(1), simp; fail))+)

lemma reads_server_properties_absent:
  assumes "18 \<le> n" "ok_server_properties v" "sp_max_concurrent_client_num v = None"
  shows "reads (read_server_properties P n) (write_server_properties v) (v\<lparr>sp_max_concurrent_client_num := Some 0\<rparr>)"
proof -
  have "w_opt name ty k w None = []" for name ty k and w :: "i32 \<Rightarrow> out_call list" by (simp add: w_opt_def)
  then show ?thesis
    using assms unfolding ok_server_properties_def read_server_properties_def write_server_properties_def
    by - (simp only: append_Nil, (rule wire_rules server_properties.equality | (simp; fail))+)
qed

lemma reads_server_properties:
  assumes "18 \<le> n" "ok_server_properties v"
  shows "reads (read_server_properties P n) (write_server_properties v) (received_server_properties v)"
proof (cases "sp_max_concurrent_client_num v")
  case None
  with reads_server_properties_absent [OF assms] show ?thesis by (simp add: received_server_properties_def)
next
  case (Some k)
  then have "received_server_properties v = v" by (simp add: received_server_properties_def)
  with reads_server_properties_present [OF assms] Some show ?thesis by simp
qed

end

subsection \<open>\<^verbatim>\<open>TSSetSchemaTemplateReq\<close>\<close>

record ts_set_schema_template_req =
  tsstr_session_id :: i64
  tsstr_template_name :: string
  tsstr_prefix_path :: string

definition read_ts_set_schema_template_req :: "'i in_protocol \<Rightarrow> nat \<Rightarrow> ('i, ts_set_schema_template_req) rd" where
  "read_ts_set_schema_template_req P n =
     read_struct P n
       (\<lambda>k ty (f1, f2, f3).
          if k = 1 then store (callp (ip_i64 P)) (\<lambda>v. (v, f2, f3))
          else if k = 2 then store (callp (ip_string P)) (\<lambda>v. (f1, v, f3))
          else if k = 3 then store (callp (ip_string P)) (\<lambda>v. (f1, f2, v))
          else skip_field P ty (f1, f2, f3))
       (None, None, None)
       (\<lambda>(f1, f2, f3).
          bindp (required P ''TSSetSchemaTemplateReq.session_id'' f1) (\<lambda>f1.
          bindp (required P ''TSSetSchemaTemplateReq.template_name'' f2) (\<lambda>f2.
          bindp (required P ''TSSetSchemaTemplateReq.prefix_path'' f3) (\<lambda>f3.
          retp \<lparr>tsstr_session_id = f1, tsstr_template_name = f2, tsstr_prefix_path = f3\<rparr>))))"

definition write_ts_set_schema_template_req :: "ts_set_schema_template_req \<Rightarrow> out_call list" where
  "write_ts_set_schema_template_req v =
     w_struct ''TSSetSchemaTemplateReq''
       (w_field ''sessionId'' TyI64 1 w_i64 (tsstr_session_id v) @
        w_field ''templateName'' TyString 2 w_string (tsstr_template_name v) @
        w_field ''prefixPath'' TyString 3 w_string (tsstr_prefix_path v))"

definition ok_ts_set_schema_template_req :: "ts_set_schema_template_req \<Rightarrow> bool" where
  "ok_ts_set_schema_template_req v \<longleftrightarrow>
     str_ok (tsstr_template_name v) \<and>
     str_ok (tsstr_prefix_path v)"

context thrift_wire
begin

lemma wire_ts_set_schema_template_req:
  assumes "18 \<le> n"
  shows "wire (read_ts_set_schema_template_req P n) write_ts_set_schema_template_req
        ok_ts_set_schema_template_req"
  by (rule wireI, unfold ok_ts_set_schema_template_req_def read_ts_set_schema_template_req_def
        write_ts_set_schema_template_req_def,
      (rule wire_rules ts_set_schema_template_req.equality | (insert assms, simp; fail))+)

end

subsection \<open>\<^verbatim>\<open>TSCreateSchemaTemplateReq\<close>\<close>

record ts_create_schema_template_req =
  tcstr_session_id :: i64
  tcstr_name :: string
  tcstr_serialized_template :: bytes

definition read_ts_create_schema_template_req :: "'i in_protocol \<Rightarrow> nat \<Rightarrow> ('i, ts_create_schema_template_req) rd"
      where
  "read_ts_create_schema_template_req P n =
     read_struct P n
       (\<lambda>k ty (f1, f2, f3).
          if k = 1 then store (callp (ip_i64 P)) (\<lambda>v. (v, f2, f3))
          else if k = 2 then store (callp (ip_string P)) (\<lambda>v. (f1, v, f3))
          else if k = 3 then store (callp (ip_bytes P)) (\<lambda>v. (f1, f2, v))
          else skip_field P ty (f1, f2, f3))
       (None, None, None)
       (\<lambda>(f1, f2, f3).
          bindp (required P ''TSCreateSchemaTemplateReq.session_id'' f1) (\<lambda>f1.
          bindp (required P ''TSCreateSchemaTemplateReq.name'' f2) (\<lambda>f2.
          bindp (required P ''TSCreateSchemaTemplateReq.serialized_template'' f3) (\<lambda>f3.
          retp \<lparr>tcstr_session_id = f1, tcstr_name = f2, tcstr_serialized_template = f3\<rparr>))))"

definition write_ts_create_schema_template_req :: "ts_create_schema_template_req \<Rightarrow> out_call list" where
  "write_ts_create_schema_template_req v =
     w_struct ''TSCreateSchemaTemplateReq''
       (w_field ''sessionId'' TyI64 1 w_i64 (tcstr_session_id v) @
        w_field ''name'' TyString 2 w_string (tcstr_name v) @
        w_field ''serializedTemplate'' TyString 3 w_bytes (tcstr_serialized_template v))"

definition ok_ts_create_schema_template_req :: "ts_create_schema_template_req \<Rightarrow> bool" where
  "ok_ts_create_schema_template_req v \<longleftrightarrow>
     str_ok (tcstr_name v) \<and>
     short (tcstr_serialized_template v)"

context thrift_wire
begin

lemma wire_ts_create_schema_template_req:
  assumes "18 \<le> n"
  shows "wire (read_ts_create_schema_template_req P n) write_ts_create_schema_template_req
        ok_ts_create_schema_template_req"
  by (rule wireI, unfold ok_ts_create_schema_template_req_def read_ts_create_schema_template_req_def
        write_ts_create_schema_template_req_def,
      (rule wire_rules ts_create_schema_template_req.equality | (insert assms, simp; fail))+)

end

subsection \<open>\<^verbatim>\<open>TSAppendSchemaTemplateReq\<close>\<close>

record ts_append_schema_template_req =
  tastr_session_id :: i64
  tastr_name :: string
  tastr_is_aligned :: bool
  tastr_measurements :: "string list"
  tastr_data_types :: "i32 list"
  tastr_encodings :: "i32 list"
  tastr_compressors :: "i32 list"

definition read_ts_append_schema_template_req :: "'i in_protocol \<Rightarrow> nat \<Rightarrow> ('i, ts_append_schema_template_req) rd"
      where
  "read_ts_append_schema_template_req P n =
     read_struct P n
       (\<lambda>k ty (f1, f2, f3, f4, f5, f6, f7).
          if k = 1 then store (callp (ip_i64 P)) (\<lambda>v. (v, f2, f3, f4, f5, f6, f7))
          else if k = 2 then store (callp (ip_string P)) (\<lambda>v. (f1, v, f3, f4, f5, f6, f7))
          else if k = 3 then store (callp (ip_bool P)) (\<lambda>v. (f1, f2, v, f4, f5, f6, f7))
          else if k = 4 then store (read_list P (callp (ip_string P))) (\<lambda>v. (f1, f2, f3, v, f5, f6, f7))
          else if k = 5 then store (read_list P (callp (ip_i32 P))) (\<lambda>v. (f1, f2, f3, f4, v, f6, f7))
          else if k = 6 then store (read_list P (callp (ip_i32 P))) (\<lambda>v. (f1, f2, f3, f4, f5, v, f7))
          else if k = 7 then store (read_list P (callp (ip_i32 P))) (\<lambda>v. (f1, f2, f3, f4, f5, f6, v))
          else skip_field P ty (f1, f2, f3, f4, f5, f6, f7))
       (None, None, None, None, None, None, None)
       (\<lambda>(f1, f2, f3, f4, f5, f6, f7).
          bindp (required P ''TSAppendSchemaTemplateReq.session_id'' f1) (\<lambda>f1.
          bindp (required P ''TSAppendSchemaTemplateReq.name'' f2) (\<lambda>f2.
          bindp (required P ''TSAppendSchemaTemplateReq.is_aligned'' f3) (\<lambda>f3.
          bindp (required P ''TSAppendSchemaTemplateReq.measurements'' f4) (\<lambda>f4.
          bindp (required P ''TSAppendSchemaTemplateReq.data_types'' f5) (\<lambda>f5.
          bindp (required P ''TSAppendSchemaTemplateReq.encodings'' f6) (\<lambda>f6.
          bindp (required P ''TSAppendSchemaTemplateReq.compressors'' f7) (\<lambda>f7.
          retp \<lparr>tastr_session_id = f1, tastr_name = f2, tastr_is_aligned = f3, tastr_measurements = f4,
                tastr_data_types = f5, tastr_encodings = f6, tastr_compressors = f7\<rparr>))))))))"

definition write_ts_append_schema_template_req :: "ts_append_schema_template_req \<Rightarrow> out_call list" where
  "write_ts_append_schema_template_req v =
     w_struct ''TSAppendSchemaTemplateReq''
       (w_field ''sessionId'' TyI64 1 w_i64 (tastr_session_id v) @
        w_field ''name'' TyString 2 w_string (tastr_name v) @
        w_field ''isAligned'' TyBool 3 w_bool (tastr_is_aligned v) @
        w_field ''measurements'' TyList 4 (w_list TyString w_string) (tastr_measurements v) @
        w_field ''dataTypes'' TyList 5 (w_list TyI32 w_i32) (tastr_data_types v) @
        w_field ''encodings'' TyList 6 (w_list TyI32 w_i32) (tastr_encodings v) @
        w_field ''compressors'' TyList 7 (w_list TyI32 w_i32) (tastr_compressors v))"

definition ok_ts_append_schema_template_req :: "ts_append_schema_template_req \<Rightarrow> bool" where
  "ok_ts_append_schema_template_req v \<longleftrightarrow>
     str_ok (tastr_name v) \<and>
     list_ok str_ok (tastr_measurements v) \<and>
     list_ok (\<lambda>_. True) (tastr_data_types v) \<and>
     list_ok (\<lambda>_. True) (tastr_encodings v) \<and>
     list_ok (\<lambda>_. True) (tastr_compressors v)"

context thrift_wire
begin

lemma wire_ts_append_schema_template_req:
  assumes "18 \<le> n"
  shows "wire (read_ts_append_schema_template_req P n) write_ts_append_schema_template_req
        ok_ts_append_schema_template_req"
  by (rule wireI, unfold ok_ts_append_schema_template_req_def read_ts_append_schema_template_req_def
        write_ts_append_schema_template_req_def,
      (rule wire_rules ts_append_schema_template_req.equality | (insert assms, simp; fail))+)

end

subsection \<open>\<^verbatim>\<open>TSPruneSchemaTemplateReq\<close>\<close>

record ts_prune_schema_template_req =
  tpstr_session_id :: i64
  tpstr_name :: string
  tpstr_path :: string

definition read_ts_prune_schema_template_req :: "'i in_protocol \<Rightarrow> nat \<Rightarrow> ('i, ts_prune_schema_template_req) rd"
      where
  "read_ts_prune_schema_template_req P n =
     read_struct P n
       (\<lambda>k ty (f1, f2, f3).
          if k = 1 then store (callp (ip_i64 P)) (\<lambda>v. (v, f2, f3))
          else if k = 2 then store (callp (ip_string P)) (\<lambda>v. (f1, v, f3))
          else if k = 3 then store (callp (ip_string P)) (\<lambda>v. (f1, f2, v))
          else skip_field P ty (f1, f2, f3))
       (None, None, None)
       (\<lambda>(f1, f2, f3).
          bindp (required P ''TSPruneSchemaTemplateReq.session_id'' f1) (\<lambda>f1.
          bindp (required P ''TSPruneSchemaTemplateReq.name'' f2) (\<lambda>f2.
          bindp (required P ''TSPruneSchemaTemplateReq.path'' f3) (\<lambda>f3.
          retp \<lparr>tpstr_session_id = f1, tpstr_name = f2, tpstr_path = f3\<rparr>))))"

definition write_ts_prune_schema_template_req :: "ts_prune_schema_template_req \<Rightarrow> out_call list" where
  "write_ts_prune_schema_template_req v =
     w_struct ''TSPruneSchemaTemplateReq''
       (w_field ''sessionId'' TyI64 1 w_i64 (tpstr_session_id v) @
        w_field ''name'' TyString 2 w_string (tpstr_name v) @
        w_field ''path'' TyString 3 w_string (tpstr_path v))"

definition ok_ts_prune_schema_template_req :: "ts_prune_schema_template_req \<Rightarrow> bool" where
  "ok_ts_prune_schema_template_req v \<longleftrightarrow>
     str_ok (tpstr_name v) \<and>
     str_ok (tpstr_path v)"

context thrift_wire
begin

lemma wire_ts_prune_schema_template_req:
  assumes "18 \<le> n"
  shows "wire (read_ts_prune_schema_template_req P n) write_ts_prune_schema_template_req
        ok_ts_prune_schema_template_req"
  by (rule wireI, unfold ok_ts_prune_schema_template_req_def read_ts_prune_schema_template_req_def
        write_ts_prune_schema_template_req_def,
      (rule wire_rules ts_prune_schema_template_req.equality | (insert assms, simp; fail))+)

end

subsection \<open>\<^verbatim>\<open>TSQueryTemplateReq\<close>\<close>

record ts_query_template_req =
  tqtr_session_id :: i64
  tqtr_name :: string
  tqtr_query_type :: i32
  tqtr_measurement :: "string option"

definition read_ts_query_template_req :: "'i in_protocol \<Rightarrow> nat \<Rightarrow> ('i, ts_query_template_req) rd" where
  "read_ts_query_template_req P n =
     read_struct P n
       (\<lambda>k ty (f1, f2, f3, f4).
          if k = 1 then store (callp (ip_i64 P)) (\<lambda>v. (v, f2, f3, f4))
          else if k = 2 then store (callp (ip_string P)) (\<lambda>v. (f1, v, f3, f4))
          else if k = 3 then store (callp (ip_i32 P)) (\<lambda>v. (f1, f2, v, f4))
          else if k = 4 then store (callp (ip_string P)) (\<lambda>v. (f1, f2, f3, v))
          else skip_field P ty (f1, f2, f3, f4))
       (None, None, None, None)
       (\<lambda>(f1, f2, f3, f4).
          bindp (required P ''TSQueryTemplateReq.session_id'' f1) (\<lambda>f1.
          bindp (required P ''TSQueryTemplateReq.name'' f2) (\<lambda>f2.
          bindp (required P ''TSQueryTemplateReq.query_type'' f3) (\<lambda>f3.
          retp \<lparr>tqtr_session_id = f1, tqtr_name = f2, tqtr_query_type = f3, tqtr_measurement = f4\<rparr>))))"

definition write_ts_query_template_req :: "ts_query_template_req \<Rightarrow> out_call list" where
  "write_ts_query_template_req v =
     w_struct ''TSQueryTemplateReq''
       (w_field ''sessionId'' TyI64 1 w_i64 (tqtr_session_id v) @
        w_field ''name'' TyString 2 w_string (tqtr_name v) @
        w_field ''queryType'' TyI32 3 w_i32 (tqtr_query_type v) @
        w_opt ''measurement'' TyString 4 w_string (tqtr_measurement v))"

definition ok_ts_query_template_req :: "ts_query_template_req \<Rightarrow> bool" where
  "ok_ts_query_template_req v \<longleftrightarrow>
     str_ok (tqtr_name v) \<and>
     opt_ok str_ok (tqtr_measurement v)"

context thrift_wire
begin

lemma wire_ts_query_template_req:
  assumes "18 \<le> n"
  shows "wire (read_ts_query_template_req P n) write_ts_query_template_req ok_ts_query_template_req"
  by (rule wireI, unfold ok_ts_query_template_req_def read_ts_query_template_req_def
        write_ts_query_template_req_def,
      (rule wire_rules ts_query_template_req.equality | (insert assms, simp; fail))+)

end

subsection \<open>\<^verbatim>\<open>TSQueryTemplateResp\<close>\<close>

record ts_query_template_resp =
  tqtr2_status :: ts_status
  tqtr2_query_type :: i32
  tqtr2_result :: "bool option"
  tqtr2_count :: "i32 option"
  tqtr2_measurements :: "string list option"

definition read_ts_query_template_resp :: "'i in_protocol \<Rightarrow> nat \<Rightarrow> ('i, ts_query_template_resp) rd" where
  "read_ts_query_template_resp P n =
     read_struct P n
       (\<lambda>k ty (f1, f2, f3, f4, f5).
          if k = 1 then store (read_ts_status P n) (\<lambda>v. (v, f2, f3, f4, f5))
          else if k = 2 then store (callp (ip_i32 P)) (\<lambda>v. (f1, v, f3, f4, f5))
          else if k = 3 then store (callp (ip_bool P)) (\<lambda>v. (f1, f2, v, f4, f5))
          else if k = 4 then store (callp (ip_i32 P)) (\<lambda>v. (f1, f2, f3, v, f5))
          else if k = 5 then store (read_list P (callp (ip_string P))) (\<lambda>v. (f1, f2, f3, f4, v))
          else skip_field P ty (f1, f2, f3, f4, f5))
       (None, None, None, None, None)
       (\<lambda>(f1, f2, f3, f4, f5).
          bindp (required P ''TSQueryTemplateResp.status'' f1) (\<lambda>f1.
          bindp (required P ''TSQueryTemplateResp.query_type'' f2) (\<lambda>f2.
          retp \<lparr>tqtr2_status = f1, tqtr2_query_type = f2, tqtr2_result = f3, tqtr2_count = f4,
                tqtr2_measurements = f5\<rparr>)))"

definition write_ts_query_template_resp :: "ts_query_template_resp \<Rightarrow> out_call list" where
  "write_ts_query_template_resp v =
     w_struct ''TSQueryTemplateResp''
       (w_field ''status'' TyStruct 1 write_ts_status (tqtr2_status v) @
        w_field ''queryType'' TyI32 2 w_i32 (tqtr2_query_type v) @
        w_opt ''result'' TyBool 3 w_bool (tqtr2_result v) @
        w_opt ''count'' TyI32 4 w_i32 (tqtr2_count v) @
        w_opt ''measurements'' TyList 5 (w_list TyString w_string) (tqtr2_measurements v))"

definition ok_ts_query_template_resp :: "nat \<Rightarrow> ts_query_template_resp \<Rightarrow> bool" where
  "ok_ts_query_template_resp d v \<longleftrightarrow>
     ok_ts_status d (tqtr2_status v) \<and>
     opt_ok (list_ok str_ok) (tqtr2_measurements v)"

context thrift_wire
begin

lemma wire_ts_query_template_resp:
  assumes "d + 18 \<le> n"
  shows "wire (read_ts_query_template_resp P n) write_ts_query_template_resp (ok_ts_query_template_resp d)"
  by (rule wireI, unfold ok_ts_query_template_resp_def read_ts_query_template_resp_def
        write_ts_query_template_resp_def,
      (rule wire_rules wire_ts_status ts_query_template_resp.equality | (insert assms, simp; fail))+)

end

subsection \<open>\<^verbatim>\<open>TSUnsetSchemaTemplateReq\<close>\<close>

record ts_unset_schema_template_req =
  tustr_session_id :: i64
  tustr_prefix_path :: string
  tustr_template_name :: string

definition read_ts_unset_schema_template_req :: "'i in_protocol \<Rightarrow> nat \<Rightarrow> ('i, ts_unset_schema_template_req) rd"
      where
  "read_ts_unset_schema_template_req P n =
     read_struct P n
       (\<lambda>k ty (f1, f2, f3).
          if k = 1 then store (callp (ip_i64 P)) (\<lambda>v. (v, f2, f3))
          else if k = 2 then store (callp (ip_string P)) (\<lambda>v. (f1, v, f3))
          else if k = 3 then store (callp (ip_string P)) (\<lambda>v. (f1, f2, v))
          else skip_field P ty (f1, f2, f3))
       (None, None, None)
       (\<lambda>(f1, f2, f3).
          bindp (required P ''TSUnsetSchemaTemplateReq.session_id'' f1) (\<lambda>f1.
          bindp (required P ''TSUnsetSchemaTemplateReq.prefix_path'' f2) (\<lambda>f2.
          bindp (required P ''TSUnsetSchemaTemplateReq.template_name'' f3) (\<lambda>f3.
          retp \<lparr>tustr_session_id = f1, tustr_prefix_path = f2, tustr_template_name = f3\<rparr>))))"

definition write_ts_unset_schema_template_req :: "ts_unset_schema_template_req \<Rightarrow> out_call list" where
  "write_ts_unset_schema_template_req v =
     w_struct ''TSUnsetSchemaTemplateReq''
       (w_field ''sessionId'' TyI64 1 w_i64 (tustr_session_id v) @
        w_field ''prefixPath'' TyString 2 w_string (tustr_prefix_path v) @
        w_field ''templateName'' TyString 3 w_string (tustr_template_name v))"

definition ok_ts_unset_schema_template_req :: "ts_unset_schema_template_req \<Rightarrow> bool" where
  "ok_ts_unset_schema_template_req v \<longleftrightarrow>
     str_ok (tustr_prefix_path v) \<and>
     str_ok (tustr_template_name v)"

context thrift_wire
begin

lemma wire_ts_unset_schema_template_req:
  assumes "18 \<le> n"
  shows "wire (read_ts_unset_schema_template_req P n) write_ts_unset_schema_template_req
        ok_ts_unset_schema_template_req"
  by (rule wireI, unfold ok_ts_unset_schema_template_req_def read_ts_unset_schema_template_req_def
        write_ts_unset_schema_template_req_def,
      (rule wire_rules ts_unset_schema_template_req.equality | (insert assms, simp; fail))+)

end

subsection \<open>\<^verbatim>\<open>TSDropSchemaTemplateReq\<close>\<close>

record ts_drop_schema_template_req =
  tdstr_session_id :: i64
  tdstr_template_name :: string

definition read_ts_drop_schema_template_req :: "'i in_protocol \<Rightarrow> nat \<Rightarrow> ('i, ts_drop_schema_template_req) rd"
      where
  "read_ts_drop_schema_template_req P n =
     read_struct P n
       (\<lambda>k ty (f1, f2).
          if k = 1 then store (callp (ip_i64 P)) (\<lambda>v. (v, f2))
          else if k = 2 then store (callp (ip_string P)) (\<lambda>v. (f1, v))
          else skip_field P ty (f1, f2))
       (None, None)
       (\<lambda>(f1, f2).
          bindp (required P ''TSDropSchemaTemplateReq.session_id'' f1) (\<lambda>f1.
          bindp (required P ''TSDropSchemaTemplateReq.template_name'' f2) (\<lambda>f2.
          retp \<lparr>tdstr_session_id = f1, tdstr_template_name = f2\<rparr>)))"

definition write_ts_drop_schema_template_req :: "ts_drop_schema_template_req \<Rightarrow> out_call list" where
  "write_ts_drop_schema_template_req v =
     w_struct ''TSDropSchemaTemplateReq''
       (w_field ''sessionId'' TyI64 1 w_i64 (tdstr_session_id v) @
        w_field ''templateName'' TyString 2 w_string (tdstr_template_name v))"

definition ok_ts_drop_schema_template_req :: "ts_drop_schema_template_req \<Rightarrow> bool" where
  "ok_ts_drop_schema_template_req v \<longleftrightarrow>
     str_ok (tdstr_template_name v)"

context thrift_wire
begin

lemma wire_ts_drop_schema_template_req:
  assumes "18 \<le> n"
  shows "wire (read_ts_drop_schema_template_req P n) write_ts_drop_schema_template_req
        ok_ts_drop_schema_template_req"
  by (rule wireI, unfold ok_ts_drop_schema_template_req_def read_ts_drop_schema_template_req_def
        write_ts_drop_schema_template_req_def,
      (rule wire_rules ts_drop_schema_template_req.equality | (insert assms, simp; fail))+)

end

subsection \<open>\<^verbatim>\<open>TCreateTimeseriesUsingSchemaTemplateReq\<close>\<close>

record t_create_timeseries_using_schema_template_req =
  tctustr_session_id :: i64
  tctustr_device_path_list :: "string list"

definition read_t_create_timeseries_using_schema_template_req :: "'i in_protocol \<Rightarrow> nat \<Rightarrow> ('i,
      t_create_timeseries_using_schema_template_req) rd" where
  "read_t_create_timeseries_using_schema_template_req P n =
     read_struct P n
       (\<lambda>k ty (f1, f2).
          if k = 1 then store (callp (ip_i64 P)) (\<lambda>v. (v, f2))
          else if k = 2 then store (read_list P (callp (ip_string P))) (\<lambda>v. (f1, v))
          else skip_field P ty (f1, f2))
       (None, None)
       (\<lambda>(f1, f2).
          bindp (required P ''TCreateTimeseriesUsingSchemaTemplateReq.session_id'' f1) (\<lambda>f1.
          bindp (required P ''TCreateTimeseriesUsingSchemaTemplateReq.device_path_list'' f2) (\<lambda>f2.
          retp \<lparr>tctustr_session_id = f1, tctustr_device_path_list = f2\<rparr>)))"

definition write_t_create_timeseries_using_schema_template_req :: "t_create_timeseries_using_schema_template_req
      \<Rightarrow> out_call list" where
  "write_t_create_timeseries_using_schema_template_req v =
     w_struct ''TCreateTimeseriesUsingSchemaTemplateReq''
       (w_field ''sessionId'' TyI64 1 w_i64 (tctustr_session_id v) @
        w_field ''devicePathList'' TyList 2 (w_list TyString w_string) (tctustr_device_path_list v))"

definition ok_t_create_timeseries_using_schema_template_req :: "t_create_timeseries_using_schema_template_req \<Rightarrow>
      bool" where
  "ok_t_create_timeseries_using_schema_template_req v \<longleftrightarrow>
     list_ok str_ok (tctustr_device_path_list v)"

context thrift_wire
begin

lemma wire_t_create_timeseries_using_schema_template_req:
  assumes "18 \<le> n"
  shows "wire (read_t_create_timeseries_using_schema_template_req P n)
        write_t_create_timeseries_using_schema_template_req ok_t_create_timeseries_using_schema_template_req"
  by (rule wireI, unfold ok_t_create_timeseries_using_schema_template_req_def
        read_t_create_timeseries_using_schema_template_req_def
        write_t_create_timeseries_using_schema_template_req_def,
      (rule wire_rules t_create_timeseries_using_schema_template_req.equality | (insert assms, simp; fail))+)

end

subsection \<open>\<^verbatim>\<open>TSyncIdentityInfo\<close>\<close>

record t_sync_identity_info =
  tsii_pipe_name :: string
  tsii_create_time :: i64
  tsii_version :: string
  tsii_database :: string

definition read_t_sync_identity_info :: "'i in_protocol \<Rightarrow> nat \<Rightarrow> ('i, t_sync_identity_info) rd" where
  "read_t_sync_identity_info P n =
     read_struct P n
       (\<lambda>k ty (f1, f2, f3, f4).
          if k = 1 then store (callp (ip_string P)) (\<lambda>v. (v, f2, f3, f4))
          else if k = 2 then store (callp (ip_i64 P)) (\<lambda>v. (f1, v, f3, f4))
          else if k = 3 then store (callp (ip_string P)) (\<lambda>v. (f1, f2, v, f4))
          else if k = 4 then store (callp (ip_string P)) (\<lambda>v. (f1, f2, f3, v))
          else skip_field P ty (f1, f2, f3, f4))
       (None, None, None, None)
       (\<lambda>(f1, f2, f3, f4).
          bindp (required P ''TSyncIdentityInfo.pipe_name'' f1) (\<lambda>f1.
          bindp (required P ''TSyncIdentityInfo.create_time'' f2) (\<lambda>f2.
          bindp (required P ''TSyncIdentityInfo.version'' f3) (\<lambda>f3.
          bindp (required P ''TSyncIdentityInfo.database'' f4) (\<lambda>f4.
          retp \<lparr>tsii_pipe_name = f1, tsii_create_time = f2, tsii_version = f3, tsii_database = f4\<rparr>)))))"

definition write_t_sync_identity_info :: "t_sync_identity_info \<Rightarrow> out_call list" where
  "write_t_sync_identity_info v =
     w_struct ''TSyncIdentityInfo''
       (w_field ''pipeName'' TyString 1 w_string (tsii_pipe_name v) @
        w_field ''createTime'' TyI64 2 w_i64 (tsii_create_time v) @
        w_field ''version'' TyString 3 w_string (tsii_version v) @
        w_field ''database'' TyString 4 w_string (tsii_database v))"

definition ok_t_sync_identity_info :: "t_sync_identity_info \<Rightarrow> bool" where
  "ok_t_sync_identity_info v \<longleftrightarrow>
     str_ok (tsii_pipe_name v) \<and>
     str_ok (tsii_version v) \<and>
     str_ok (tsii_database v)"

context thrift_wire
begin

lemma wire_t_sync_identity_info:
  assumes "18 \<le> n"
  shows "wire (read_t_sync_identity_info P n) write_t_sync_identity_info ok_t_sync_identity_info"
  by (rule wireI, unfold ok_t_sync_identity_info_def read_t_sync_identity_info_def
        write_t_sync_identity_info_def,
      (rule wire_rules t_sync_identity_info.equality | (insert assms, simp; fail))+)

end

subsection \<open>\<^verbatim>\<open>TSyncTransportMetaInfo\<close>\<close>

record t_sync_transport_meta_info =
  tstmi_file_name :: string
  tstmi_start_index :: i64

definition read_t_sync_transport_meta_info :: "'i in_protocol \<Rightarrow> nat \<Rightarrow> ('i, t_sync_transport_meta_info) rd" where
  "read_t_sync_transport_meta_info P n =
     read_struct P n
       (\<lambda>k ty (f1, f2).
          if k = 1 then store (callp (ip_string P)) (\<lambda>v. (v, f2))
          else if k = 2 then store (callp (ip_i64 P)) (\<lambda>v. (f1, v))
          else skip_field P ty (f1, f2))
       (None, None)
       (\<lambda>(f1, f2).
          bindp (required P ''TSyncTransportMetaInfo.file_name'' f1) (\<lambda>f1.
          bindp (required P ''TSyncTransportMetaInfo.start_index'' f2) (\<lambda>f2.
          retp \<lparr>tstmi_file_name = f1, tstmi_start_index = f2\<rparr>)))"

definition write_t_sync_transport_meta_info :: "t_sync_transport_meta_info \<Rightarrow> out_call list" where
  "write_t_sync_transport_meta_info v =
     w_struct ''TSyncTransportMetaInfo''
       (w_field ''fileName'' TyString 1 w_string (tstmi_file_name v) @
        w_field ''startIndex'' TyI64 2 w_i64 (tstmi_start_index v))"

definition ok_t_sync_transport_meta_info :: "t_sync_transport_meta_info \<Rightarrow> bool" where
  "ok_t_sync_transport_meta_info v \<longleftrightarrow>
     str_ok (tstmi_file_name v)"

context thrift_wire
begin

lemma wire_t_sync_transport_meta_info:
  assumes "18 \<le> n"
  shows "wire (read_t_sync_transport_meta_info P n) write_t_sync_transport_meta_info
        ok_t_sync_transport_meta_info"
  by (rule wireI, unfold ok_t_sync_transport_meta_info_def read_t_sync_transport_meta_info_def
        write_t_sync_transport_meta_info_def,
      (rule wire_rules t_sync_transport_meta_info.equality | (insert assms, simp; fail))+)

end

subsection \<open>\<^verbatim>\<open>TPipeTransferReq\<close>\<close>

record t_pipe_transfer_req =
  tptr_version :: i8
  tptr_type :: i16
  tptr_body :: bytes

definition read_t_pipe_transfer_req :: "'i in_protocol \<Rightarrow> nat \<Rightarrow> ('i, t_pipe_transfer_req) rd" where
  "read_t_pipe_transfer_req P n =
     read_struct P n
       (\<lambda>k ty (f1, f2, f3).
          if k = 1 then store (callp (ip_i8 P)) (\<lambda>v. (v, f2, f3))
          else if k = 2 then store (callp (ip_i16 P)) (\<lambda>v. (f1, v, f3))
          else if k = 3 then store (callp (ip_bytes P)) (\<lambda>v. (f1, f2, v))
          else skip_field P ty (f1, f2, f3))
       (None, None, None)
       (\<lambda>(f1, f2, f3).
          bindp (required P ''TPipeTransferReq.version'' f1) (\<lambda>f1.
          bindp (required P ''TPipeTransferReq.type_'' f2) (\<lambda>f2.
          bindp (required P ''TPipeTransferReq.body'' f3) (\<lambda>f3.
          retp \<lparr>tptr_version = f1, tptr_type = f2, tptr_body = f3\<rparr>))))"

definition write_t_pipe_transfer_req :: "t_pipe_transfer_req \<Rightarrow> out_call list" where
  "write_t_pipe_transfer_req v =
     w_struct ''TPipeTransferReq''
       (w_field ''version'' TyI08 1 w_i8 (tptr_version v) @
        w_field ''type'' TyI16 2 w_i16 (tptr_type v) @
        w_field ''body'' TyString 3 w_bytes (tptr_body v))"

definition ok_t_pipe_transfer_req :: "t_pipe_transfer_req \<Rightarrow> bool" where
  "ok_t_pipe_transfer_req v \<longleftrightarrow>
     short (tptr_body v)"

context thrift_wire
begin

lemma wire_t_pipe_transfer_req:
  assumes "18 \<le> n"
  shows "wire (read_t_pipe_transfer_req P n) write_t_pipe_transfer_req ok_t_pipe_transfer_req"
  by (rule wireI, unfold ok_t_pipe_transfer_req_def read_t_pipe_transfer_req_def write_t_pipe_transfer_req_def,
      (rule wire_rules t_pipe_transfer_req.equality | (insert assms, simp; fail))+)

end

subsection \<open>\<^verbatim>\<open>TPipeTransferResp\<close>\<close>

record t_pipe_transfer_resp =
  tptr2_status :: ts_status
  tptr2_body :: "bytes option"

definition read_t_pipe_transfer_resp :: "'i in_protocol \<Rightarrow> nat \<Rightarrow> ('i, t_pipe_transfer_resp) rd" where
  "read_t_pipe_transfer_resp P n =
     read_struct P n
       (\<lambda>k ty (f1, f2).
          if k = 1 then store (read_ts_status P n) (\<lambda>v. (v, f2))
          else if k = 2 then store (callp (ip_bytes P)) (\<lambda>v. (f1, v))
          else skip_field P ty (f1, f2))
       (None, None)
       (\<lambda>(f1, f2).
          bindp (required P ''TPipeTransferResp.status'' f1) (\<lambda>f1.
          retp \<lparr>tptr2_status = f1, tptr2_body = f2\<rparr>))"

definition write_t_pipe_transfer_resp :: "t_pipe_transfer_resp \<Rightarrow> out_call list" where
  "write_t_pipe_transfer_resp v =
     w_struct ''TPipeTransferResp''
       (w_field ''status'' TyStruct 1 write_ts_status (tptr2_status v) @
        w_opt ''body'' TyString 2 w_bytes (tptr2_body v))"

definition ok_t_pipe_transfer_resp :: "nat \<Rightarrow> t_pipe_transfer_resp \<Rightarrow> bool" where
  "ok_t_pipe_transfer_resp d v \<longleftrightarrow>
     ok_ts_status d (tptr2_status v) \<and>
     opt_ok short (tptr2_body v)"

context thrift_wire
begin

lemma wire_t_pipe_transfer_resp:
  assumes "d + 18 \<le> n"
  shows "wire (read_t_pipe_transfer_resp P n) write_t_pipe_transfer_resp (ok_t_pipe_transfer_resp d)"
  by (rule wireI, unfold ok_t_pipe_transfer_resp_def read_t_pipe_transfer_resp_def
        write_t_pipe_transfer_resp_def,
      (rule wire_rules wire_ts_status t_pipe_transfer_resp.equality | (insert assms, simp; fail))+)

end

subsection \<open>\<^verbatim>\<open>TPipeSubscribeReq\<close>\<close>

record t_pipe_subscribe_req =
  tpsr_version :: i8
  tpsr_type :: i16
  tpsr_body :: "bytes option"

definition read_t_pipe_subscribe_req :: "'i in_protocol \<Rightarrow> nat \<Rightarrow> ('i, t_pipe_subscribe_req) rd" where
  "read_t_pipe_subscribe_req P n =
     read_struct P n
       (\<lambda>k ty (f1, f2, f3).
          if k = 1 then store (callp (ip_i8 P)) (\<lambda>v. (v, f2, f3))
          else if k = 2 then store (callp (ip_i16 P)) (\<lambda>v. (f1, v, f3))
          else if k = 3 then store (callp (ip_bytes P)) (\<lambda>v. (f1, f2, v))
          else skip_field P ty (f1, f2, f3))
       (None, None, None)
       (\<lambda>(f1, f2, f3).
          bindp (required P ''TPipeSubscribeReq.version'' f1) (\<lambda>f1.
          bindp (required P ''TPipeSubscribeReq.type_'' f2) (\<lambda>f2.
          retp \<lparr>tpsr_version = f1, tpsr_type = f2, tpsr_body = f3\<rparr>)))"

definition write_t_pipe_subscribe_req :: "t_pipe_subscribe_req \<Rightarrow> out_call list" where
  "write_t_pipe_subscribe_req v =
     w_struct ''TPipeSubscribeReq''
       (w_field ''version'' TyI08 1 w_i8 (tpsr_version v) @
        w_field ''type'' TyI16 2 w_i16 (tpsr_type v) @
        w_opt ''body'' TyString 3 w_bytes (tpsr_body v))"

definition ok_t_pipe_subscribe_req :: "t_pipe_subscribe_req \<Rightarrow> bool" where
  "ok_t_pipe_subscribe_req v \<longleftrightarrow>
     opt_ok short (tpsr_body v)"

context thrift_wire
begin

lemma wire_t_pipe_subscribe_req:
  assumes "18 \<le> n"
  shows "wire (read_t_pipe_subscribe_req P n) write_t_pipe_subscribe_req ok_t_pipe_subscribe_req"
  by (rule wireI, unfold ok_t_pipe_subscribe_req_def read_t_pipe_subscribe_req_def
        write_t_pipe_subscribe_req_def,
      (rule wire_rules t_pipe_subscribe_req.equality | (insert assms, simp; fail))+)

end

subsection \<open>\<^verbatim>\<open>TPipeSubscribeResp\<close>\<close>

record t_pipe_subscribe_resp =
  tpsr2_status :: ts_status
  tpsr2_version :: i8
  tpsr2_type :: i16
  tpsr2_body :: "bytes list option"

definition read_t_pipe_subscribe_resp :: "'i in_protocol \<Rightarrow> nat \<Rightarrow> ('i, t_pipe_subscribe_resp) rd" where
  "read_t_pipe_subscribe_resp P n =
     read_struct P n
       (\<lambda>k ty (f1, f2, f3, f4).
          if k = 1 then store (read_ts_status P n) (\<lambda>v. (v, f2, f3, f4))
          else if k = 2 then store (callp (ip_i8 P)) (\<lambda>v. (f1, v, f3, f4))
          else if k = 3 then store (callp (ip_i16 P)) (\<lambda>v. (f1, f2, v, f4))
          else if k = 4 then store (read_list P (callp (ip_bytes P))) (\<lambda>v. (f1, f2, f3, v))
          else skip_field P ty (f1, f2, f3, f4))
       (None, None, None, None)
       (\<lambda>(f1, f2, f3, f4).
          bindp (required P ''TPipeSubscribeResp.status'' f1) (\<lambda>f1.
          bindp (required P ''TPipeSubscribeResp.version'' f2) (\<lambda>f2.
          bindp (required P ''TPipeSubscribeResp.type_'' f3) (\<lambda>f3.
          retp \<lparr>tpsr2_status = f1, tpsr2_version = f2, tpsr2_type = f3, tpsr2_body = f4\<rparr>))))"

definition write_t_pipe_subscribe_resp :: "t_pipe_subscribe_resp \<Rightarrow> out_call list" where
  "write_t_pipe_subscribe_resp v =
     w_struct ''TPipeSubscribeResp''
       (w_field ''status'' TyStruct 1 write_ts_status (tpsr2_status v) @
        w_field ''version'' TyI08 2 w_i8 (tpsr2_version v) @
        w_field ''type'' TyI16 3 w_i16 (tpsr2_type v) @
        w_opt ''body'' TyList 4 (w_list TyString w_bytes) (tpsr2_body v))"

definition ok_t_pipe_subscribe_resp :: "nat \<Rightarrow> t_pipe_subscribe_resp \<Rightarrow> bool" where
  "ok_t_pipe_subscribe_resp d v \<longleftrightarrow>
     ok_ts_status d (tpsr2_status v) \<and>
     opt_ok (list_ok short) (tpsr2_body v)"

context thrift_wire
begin

lemma wire_t_pipe_subscribe_resp:
  assumes "d + 18 \<le> n"
  shows "wire (read_t_pipe_subscribe_resp P n) write_t_pipe_subscribe_resp (ok_t_pipe_subscribe_resp d)"
  by (rule wireI, unfold ok_t_pipe_subscribe_resp_def read_t_pipe_subscribe_resp_def
        write_t_pipe_subscribe_resp_def,
      (rule wire_rules wire_ts_status t_pipe_subscribe_resp.equality | (insert assms, simp; fail))+)

end

subsection \<open>\<^verbatim>\<open>TSBackupConfigurationResp\<close>\<close>

record ts_backup_configuration_resp =
  tbcr_status :: ts_status
  tbcr_enable_operation_sync :: "bool option"
  tbcr_secondary_address :: "string option"
  tbcr_secondary_port :: "i32 option"

definition read_ts_backup_configuration_resp :: "'i in_protocol \<Rightarrow> nat \<Rightarrow> ('i, ts_backup_configuration_resp) rd"
      where
  "read_ts_backup_configuration_resp P n =
     read_struct P n
       (\<lambda>k ty (f1, f2, f3, f4).
          if k = 1 then store (read_ts_status P n) (\<lambda>v. (v, f2, f3, f4))
          else if k = 2 then store (callp (ip_bool P)) (\<lambda>v. (f1, v, f3, f4))
          else if k = 3 then store (callp (ip_string P)) (\<lambda>v. (f1, f2, v, f4))
          else if k = 4 then store (callp (ip_i32 P)) (\<lambda>v. (f1, f2, f3, v))
          else skip_field P ty (f1, f2, f3, f4))
       (None, None, None, None)
       (\<lambda>(f1, f2, f3, f4).
          bindp (required P ''TSBackupConfigurationResp.status'' f1) (\<lambda>f1.
          retp \<lparr>tbcr_status = f1, tbcr_enable_operation_sync = f2, tbcr_secondary_address = f3,
                tbcr_secondary_port = f4\<rparr>))"

definition write_ts_backup_configuration_resp :: "ts_backup_configuration_resp \<Rightarrow> out_call list" where
  "write_ts_backup_configuration_resp v =
     w_struct ''TSBackupConfigurationResp''
       (w_field ''status'' TyStruct 1 write_ts_status (tbcr_status v) @
        w_opt ''enableOperationSync'' TyBool 2 w_bool (tbcr_enable_operation_sync v) @
        w_opt ''secondaryAddress'' TyString 3 w_string (tbcr_secondary_address v) @
        w_opt ''secondaryPort'' TyI32 4 w_i32 (tbcr_secondary_port v))"

definition ok_ts_backup_configuration_resp :: "nat \<Rightarrow> ts_backup_configuration_resp \<Rightarrow> bool" where
  "ok_ts_backup_configuration_resp d v \<longleftrightarrow>
     ok_ts_status d (tbcr_status v) \<and>
     opt_ok str_ok (tbcr_secondary_address v)"

context thrift_wire
begin

lemma wire_ts_backup_configuration_resp:
  assumes "d + 18 \<le> n"
  shows "wire (read_ts_backup_configuration_resp P n) write_ts_backup_configuration_resp
        (ok_ts_backup_configuration_resp d)"
  by (rule wireI, unfold ok_ts_backup_configuration_resp_def read_ts_backup_configuration_resp_def
        write_ts_backup_configuration_resp_def,
      (rule wire_rules wire_ts_status ts_backup_configuration_resp.equality | (insert assms, simp; fail))+)

end

subsection \<open>\<^verbatim>\<open>TSConnectionInfo\<close>\<close>

record ts_connection_info =
  tci_user_name :: string
  tci_log_in_time :: i64
  tci_connection_id :: string
  tci_type :: ts_connection_type

definition read_ts_connection_info :: "'i in_protocol \<Rightarrow> nat \<Rightarrow> ('i, ts_connection_info) rd" where
  "read_ts_connection_info P n =
     read_struct P n
       (\<lambda>k ty (f1, f2, f3, f4).
          if k = 1 then store (callp (ip_string P)) (\<lambda>v. (v, f2, f3, f4))
          else if k = 2 then store (callp (ip_i64 P)) (\<lambda>v. (f1, v, f3, f4))
          else if k = 3 then store (callp (ip_string P)) (\<lambda>v. (f1, f2, v, f4))
          else if k = 4 then store (read_ts_connection_type P) (\<lambda>v. (f1, f2, f3, v))
          else skip_field P ty (f1, f2, f3, f4))
       (None, None, None, None)
       (\<lambda>(f1, f2, f3, f4).
          bindp (required P ''TSConnectionInfo.user_name'' f1) (\<lambda>f1.
          bindp (required P ''TSConnectionInfo.log_in_time'' f2) (\<lambda>f2.
          bindp (required P ''TSConnectionInfo.connection_id'' f3) (\<lambda>f3.
          bindp (required P ''TSConnectionInfo.type_'' f4) (\<lambda>f4.
          retp \<lparr>tci_user_name = f1, tci_log_in_time = f2, tci_connection_id = f3, tci_type = f4\<rparr>)))))"

definition write_ts_connection_info :: "ts_connection_info \<Rightarrow> out_call list" where
  "write_ts_connection_info v =
     w_struct ''TSConnectionInfo''
       (w_field ''userName'' TyString 1 w_string (tci_user_name v) @
        w_field ''logInTime'' TyI64 2 w_i64 (tci_log_in_time v) @
        w_field ''connectionId'' TyString 3 w_string (tci_connection_id v) @
        w_field ''type'' TyI32 4 write_ts_connection_type (tci_type v))"

definition ok_ts_connection_info :: "ts_connection_info \<Rightarrow> bool" where
  "ok_ts_connection_info v \<longleftrightarrow>
     str_ok (tci_user_name v) \<and>
     str_ok (tci_connection_id v)"

context thrift_wire
begin

lemma wire_ts_connection_info:
  assumes "18 \<le> n"
  shows "wire (read_ts_connection_info P n) write_ts_connection_info ok_ts_connection_info"
  by (rule wireI, unfold ok_ts_connection_info_def read_ts_connection_info_def write_ts_connection_info_def,
      (rule wire_rules wire_ts_connection_type ts_connection_info.equality | (insert assms, simp; fail))+)

end

subsection \<open>\<^verbatim>\<open>TSConnectionInfoResp\<close>\<close>

record ts_connection_info_resp =
  tcir_connection_info_list :: "ts_connection_info list"

definition read_ts_connection_info_resp :: "'i in_protocol \<Rightarrow> nat \<Rightarrow> ('i, ts_connection_info_resp) rd" where
  "read_ts_connection_info_resp P n =
     read_struct P n
       (\<lambda>k ty f1.
          if k = 1 then store (read_list P (read_ts_connection_info P n)) (\<lambda>v. v)
          else skip_field P ty f1)
       None
       (\<lambda>f1.
          bindp (required P ''TSConnectionInfoResp.connection_info_list'' f1) (\<lambda>f1.
          retp \<lparr>tcir_connection_info_list = f1\<rparr>))"

definition write_ts_connection_info_resp :: "ts_connection_info_resp \<Rightarrow> out_call list" where
  "write_ts_connection_info_resp v =
     w_struct ''TSConnectionInfoResp''
       (w_field ''connectionInfoList'' TyList 1 (w_list TyStruct write_ts_connection_info)
             (tcir_connection_info_list v))"

definition ok_ts_connection_info_resp :: "ts_connection_info_resp \<Rightarrow> bool" where
  "ok_ts_connection_info_resp v \<longleftrightarrow>
     list_ok ok_ts_connection_info (tcir_connection_info_list v)"

context thrift_wire
begin

lemma wire_ts_connection_info_resp:
  assumes "18 \<le> n"
  shows "wire (read_ts_connection_info_resp P n) write_ts_connection_info_resp ok_ts_connection_info_resp"
  by (rule wireI, unfold ok_ts_connection_info_resp_def read_ts_connection_info_resp_def
        write_ts_connection_info_resp_def,
      (rule wire_rules wire_ts_connection_info ts_connection_info_resp.equality | (insert assms, simp; fail))+)

end

end
