(* ===== verification/RpcStatements.thy ===== *)
theory RpcStatements
  imports RpcCall ThriftRequests ThriftStatements ThriftSchemas
begin

text \<open>
  Calls of the RPC service that the session never makes, with the structures of their arguments and
  results: statements, metadata, time zones, storage groups, time series and string records.
\<close>

subsection \<open>\<^verbatim>\<open>execute_statement_v2\<close>\<close>

definition read_execute_statement_v2_args :: "'i in_protocol \<Rightarrow> nat \<Rightarrow> ('i, ts_execute_statement_req) rd" where
  "read_execute_statement_v2_args P n =
     read_struct P n
       (\<lambda>k ty f1.
          if k = 1 then store (read_ts_execute_statement_req P n) (\<lambda>v. v)
          else skip_field P ty f1)
       None
       (\<lambda>f1.
          bindp (required P ''IClientRPCServiceExecuteStatementV2Args.req'' f1) (\<lambda>f1.
          retp f1))"

definition write_execute_statement_v2_args :: "ts_execute_statement_req \<Rightarrow> out_call list" where
  "write_execute_statement_v2_args v =
     w_struct ''executeStatementV2_args'' (w_field ''req'' TyStruct 1 write_ts_execute_statement_req v)"

definition read_execute_statement_v2_result :: "'i in_protocol \<Rightarrow> nat \<Rightarrow> ('i, ts_execute_statement_resp option)
      rd" where
  "read_execute_statement_v2_result P n =
     read_struct P n
       (\<lambda>k ty f0.
          if k = 0 then store (read_ts_execute_statement_resp P n) (\<lambda>v. v)
          else skip_field P ty f0)
       None
       (\<lambda>f0.
          retp f0)"

definition write_execute_statement_v2_result :: "ts_execute_statement_resp option \<Rightarrow> out_call list" where
  "write_execute_statement_v2_result v =
     w_struct ''IClientRPCServiceExecuteStatementV2Result'' (w_opt ''result_value'' TyStruct 0
           write_ts_execute_statement_resp v)"

definition rpc_execute_statement_v2 ::
    "'i in_protocol \<Rightarrow> 'o out_protocol \<Rightarrow> nat \<Rightarrow> ts_execute_statement_req \<Rightarrow> ('i, 'o) rpc_client \<Rightarrow>
     ts_execute_statement_resp read_result \<times> ('i, 'o) rpc_client" where
  "rpc_execute_statement_v2 P Q n req =
     rpc_call P Q ''executeStatementV2'' ''IClientRPCServiceExecuteStatementV2''
       (write_execute_statement_v2_args req) (read_execute_statement_v2_result P n)"

context thrift_wire
begin

lemma wire_execute_statement_v2_args:
  "18 \<le> n \<Longrightarrow> wire (read_execute_statement_v2_args P n) write_execute_statement_v2_args
        ok_ts_execute_statement_req"
  unfolding read_execute_statement_v2_args_def write_execute_statement_v2_args_def
  by (rule wireI) ((rule wire_rules wire_ts_execute_statement_req | (simp; fail))+)

lemma wire_execute_statement_v2_result:
  "d + 18 \<le> n \<Longrightarrow>
     wire (read_execute_statement_v2_result P n) write_execute_statement_v2_result (opt_ok
           (ok_ts_execute_statement_resp d))"
  unfolding read_execute_statement_v2_result_def write_execute_statement_v2_result_def
  by (rule wireI) ((rule wire_rules wire_ts_execute_statement_resp | (simp; fail))+)

end

subsection \<open>\<^verbatim>\<open>execute_raw_data_query_v2\<close>\<close>

definition read_execute_raw_data_query_v2_args :: "'i in_protocol \<Rightarrow> nat \<Rightarrow> ('i, ts_raw_data_query_req) rd" where
  "read_execute_raw_data_query_v2_args P n =
     read_struct P n
       (\<lambda>k ty f1.
          if k = 1 then store (read_ts_raw_data_query_req P n) (\<lambda>v. v)
          else skip_field P ty f1)
       None
       (\<lambda>f1.
          bindp (required P ''IClientRPCServiceExecuteRawDataQueryV2Args.req'' f1) (\<lambda>f1.
          retp f1))"

definition write_execute_raw_data_query_v2_args :: "ts_raw_data_query_req \<Rightarrow> out_call list" where
  "write_execute_raw_data_query_v2_args v =
     w_struct ''executeRawDataQueryV2_args'' (w_field ''req'' TyStruct 1 write_ts_raw_data_query_req v)"

definition read_execute_raw_data_query_v2_result :: "'i in_protocol \<Rightarrow> nat \<Rightarrow> ('i, ts_execute_statement_resp
      option) rd" where
  "read_execute_raw_data_query_v2_result P n =
     read_struct P n
       (\<lambda>k ty f0.
          if k = 0 then store (read_ts_execute_statement_resp P n) (\<lambda>v. v)
          else skip_field P ty f0)
       None
       (\<lambda>f0.
          retp f0)"

definition write_execute_raw_data_query_v2_result :: "ts_execute_statement_resp option \<Rightarrow> out_call list" where
  "write_execute_raw_data_query_v2_result v =
     w_struct ''IClientRPCServiceExecuteRawDataQueryV2Result'' (w_opt ''result_value'' TyStruct 0
           write_ts_execute_statement_resp v)"

definition rpc_execute_raw_data_query_v2 ::
    "'i in_protocol \<Rightarrow> 'o out_protocol \<Rightarrow> nat \<Rightarrow> ts_raw_data_query_req \<Rightarrow> ('i, 'o) rpc_client \<Rightarrow>
     ts_execute_statement_resp read_result \<times> ('i, 'o) rpc_client" where
  "rpc_execute_raw_data_query_v2 P Q n req =
     rpc_call P Q ''executeRawDataQueryV2'' ''IClientRPCServiceExecuteRawDataQueryV2''
       (write_execute_raw_data_query_v2_args req) (read_execute_raw_data_query_v2_result P n)"

context thrift_wire
begin

lemma wire_execute_raw_data_query_v2_args:
  "18 \<le> n \<Longrightarrow> wire (read_execute_raw_data_query_v2_args P n) write_execute_raw_data_query_v2_args
        ok_ts_raw_data_query_req"
  unfolding read_execute_raw_data_query_v2_args_def write_execute_raw_data_query_v2_args_def
  by (rule wireI) ((rule wire_rules wire_ts_raw_data_query_req | (simp; fail))+)

lemma wire_execute_raw_data_query_v2_result:
  "d + 18 \<le> n \<Longrightarrow>
     wire (read_execute_raw_data_query_v2_result P n) write_execute_raw_data_query_v2_result (opt_ok
           (ok_ts_execute_statement_resp d))"
  unfolding read_execute_raw_data_query_v2_result_def write_execute_raw_data_query_v2_result_def
  by (rule wireI) ((rule wire_rules wire_ts_execute_statement_resp | (simp; fail))+)

end

subsection \<open>\<^verbatim>\<open>execute_last_data_query_v2\<close>\<close>

definition read_execute_last_data_query_v2_args :: "'i in_protocol \<Rightarrow> nat \<Rightarrow> ('i, ts_last_data_query_req) rd"
      where
  "read_execute_last_data_query_v2_args P n =
     read_struct P n
       (\<lambda>k ty f1.
          if k = 1 then store (read_ts_last_data_query_req P n) (\<lambda>v. v)
          else skip_field P ty f1)
       None
       (\<lambda>f1.
          bindp (required P ''IClientRPCServiceExecuteLastDataQueryV2Args.req'' f1) (\<lambda>f1.
          retp f1))"

definition write_execute_last_data_query_v2_args :: "ts_last_data_query_req \<Rightarrow> out_call list" where
  "write_execute_last_data_query_v2_args v =
     w_struct ''executeLastDataQueryV2_args'' (w_field ''req'' TyStruct 1 write_ts_last_data_query_req v)"

definition read_execute_last_data_query_v2_result :: "'i in_protocol \<Rightarrow> nat \<Rightarrow> ('i, ts_execute_statement_resp
      option) rd" where
  "read_execute_last_data_query_v2_result P n =
     read_struct P n
       (\<lambda>k ty f0.
          if k = 0 then store (read_ts_execute_statement_resp P n) (\<lambda>v. v)
          else skip_field P ty f0)
       None
       (\<lambda>f0.
          retp f0)"

definition write_execute_last_data_query_v2_result :: "ts_execute_statement_resp option \<Rightarrow> out_call list" where
  "write_execute_last_data_query_v2_result v =
     w_struct ''IClientRPCServiceExecuteLastDataQueryV2Result'' (w_opt ''result_value'' TyStruct 0
           write_ts_execute_statement_resp v)"

definition rpc_execute_last_data_query_v2 ::
    "'i in_protocol \<Rightarrow> 'o out_protocol \<Rightarrow> nat \<Rightarrow> ts_last_data_query_req \<Rightarrow> ('i, 'o) rpc_client \<Rightarrow>
     ts_execute_statement_resp read_result \<times> ('i, 'o) rpc_client" where
  "rpc_execute_last_data_query_v2 P Q n req =
     rpc_call P Q ''executeLastDataQueryV2'' ''IClientRPCServiceExecuteLastDataQueryV2''
       (write_execute_last_data_query_v2_args req) (read_execute_last_data_query_v2_result P n)"

context thrift_wire
begin

lemma wire_execute_last_data_query_v2_args:
  "18 \<le> n \<Longrightarrow> wire (read_execute_last_data_query_v2_args P n) write_execute_last_data_query_v2_args
        ok_ts_last_data_query_req"
  unfolding read_execute_last_data_query_v2_args_def write_execute_last_data_query_v2_args_def
  by (rule wireI) ((rule wire_rules wire_ts_last_data_query_req | (simp; fail))+)

lemma wire_execute_last_data_query_v2_result:
  "d + 18 \<le> n \<Longrightarrow>
     wire (read_execute_last_data_query_v2_result P n) write_execute_last_data_query_v2_result (opt_ok
           (ok_ts_execute_statement_resp d))"
  unfolding read_execute_last_data_query_v2_result_def write_execute_last_data_query_v2_result_def
  by (rule wireI) ((rule wire_rules wire_ts_execute_statement_resp | (simp; fail))+)

end

subsection \<open>\<^verbatim>\<open>execute_fast_last_data_query_for_one_prefix_path\<close>\<close>

definition read_execute_fast_last_data_query_for_one_prefix_path_args :: "'i in_protocol \<Rightarrow> nat \<Rightarrow> ('i,
      ts_fast_last_data_query_for_one_prefix_path_req) rd" where
  "read_execute_fast_last_data_query_for_one_prefix_path_args P n =
     read_struct P n
       (\<lambda>k ty f1.
          if k = 1 then store (read_ts_fast_last_data_query_for_one_prefix_path_req P n) (\<lambda>v. v)
          else skip_field P ty f1)
       None
       (\<lambda>f1.
          bindp (required P ''IClientRPCServiceExecuteFastLastDataQueryForOnePrefixPathArgs.req'' f1) (\<lambda>f1.
          retp f1))"

definition write_execute_fast_last_data_query_for_one_prefix_path_args ::
      "ts_fast_last_data_query_for_one_prefix_path_req \<Rightarrow> out_call list" where
  "write_execute_fast_last_data_query_for_one_prefix_path_args v =
     w_struct ''executeFastLastDataQueryForOnePrefixPath_args'' (w_field ''req'' TyStruct 1
           write_ts_fast_last_data_query_for_one_prefix_path_req v)"

definition read_execute_fast_last_data_query_for_one_prefix_path_result :: "'i in_protocol \<Rightarrow> nat \<Rightarrow> ('i,
      ts_execute_statement_resp option) rd" where
  "read_execute_fast_last_data_query_for_one_prefix_path_result P n =
     read_struct P n
       (\<lambda>k ty f0.
          if k = 0 then store (read_ts_execute_statement_resp P n) (\<lambda>v. v)
          else skip_field P ty f0)
       None
       (\<lambda>f0.
          retp f0)"

definition write_execute_fast_last_data_query_for_one_prefix_path_result :: "ts_execute_statement_resp option \<Rightarrow>
      out_call list" where
  "write_execute_fast_last_data_query_for_one_prefix_path_result v =
     w_struct ''IClientRPCServiceExecuteFastLastDataQueryForOnePrefixPathResult'' (w_opt ''result_value''
           TyStruct 0 write_ts_execute_statement_resp v)"

definition rpc_execute_fast_last_data_query_for_one_prefix_path ::
    "'i in_protocol \<Rightarrow> 'o out_protocol \<Rightarrow> nat \<Rightarrow> ts_fast_last_data_query_for_one_prefix_path_req \<Rightarrow> ('i, 'o)
          rpc_client \<Rightarrow>
     ts_execute_statement_resp read_result \<times> ('i, 'o) rpc_client" where
  "rpc_execute_fast_last_data_query_for_one_prefix_path P Q n req =
     rpc_call P Q ''executeFastLastDataQueryForOnePrefixPath''
           ''IClientRPCServiceExecuteFastLastDataQueryForOnePrefixPath''
       (write_execute_fast_last_data_query_for_one_prefix_path_args req)
             (read_execute_fast_last_data_query_for_one_prefix_path_result P n)"

context thrift_wire
begin

lemma wire_execute_fast_last_data_query_for_one_prefix_path_args:
  "18 \<le> n \<Longrightarrow> wire (read_execute_fast_last_data_query_for_one_prefix_path_args P n)
        write_execute_fast_last_data_query_for_one_prefix_path_args
        ok_ts_fast_last_data_query_for_one_prefix_path_req"
  unfolding read_execute_fast_last_data_query_for_one_prefix_path_args_def
        write_execute_fast_last_data_query_for_one_prefix_path_args_def
  by (rule wireI) ((rule wire_rules wire_ts_fast_last_data_query_for_one_prefix_path_req | (simp; fail))+)

lemma wire_execute_fast_last_data_query_for_one_prefix_path_result:
  "d + 18 \<le> n \<Longrightarrow>
     wire (read_execute_fast_last_data_query_for_one_prefix_path_result P n)
           write_execute_fast_last_data_query_for_one_prefix_path_result (opt_ok (ok_ts_execute_statement_resp
           d))"
  unfolding read_execute_fast_last_data_query_for_one_prefix_path_result_def
        write_execute_fast_last_data_query_for_one_prefix_path_result_def
  by (rule wireI) ((rule wire_rules wire_ts_execute_statement_resp | (simp; fail))+)

end

subsection \<open>\<^verbatim>\<open>execute_fast_last_data_query_for_one_device_v2\<close>\<close>

definition read_execute_fast_last_data_query_for_one_device_v2_args :: "'i in_protocol \<Rightarrow> nat \<Rightarrow> ('i,
      ts_fast_last_data_query_for_one_device_req) rd" where
  "read_execute_fast_last_data_query_for_one_device_v2_args P n =
     read_struct P n
       (\<lambda>k ty f1.
          if k = 1 then store (read_ts_fast_last_data_query_for_one_device_req P n) (\<lambda>v. v)
          else skip_field P ty f1)
       None
       (\<lambda>f1.
          bindp (required P ''IClientRPCServiceExecuteFastLastDataQueryForOneDeviceV2Args.req'' f1) (\<lambda>f1.
          retp f1))"

definition write_execute_fast_last_data_query_for_one_device_v2_args ::
      "ts_fast_last_data_query_for_one_device_req \<Rightarrow> out_call list" where
  "write_execute_fast_last_data_query_for_one_device_v2_args v =
     w_struct ''executeFastLastDataQueryForOneDeviceV2_args'' (w_field ''req'' TyStruct 1
           write_ts_fast_last_data_query_for_one_device_req v)"

definition read_execute_fast_last_data_query_for_one_device_v2_result :: "'i in_protocol \<Rightarrow> nat \<Rightarrow> ('i,
      ts_execute_statement_resp option) rd" where
  "read_execute_fast_last_data_query_for_one_device_v2_result P n =
     read_struct P n
       (\<lambda>k ty f0.
          if k = 0 then store (read_ts_execute_statement_resp P n) (\<lambda>v. v)
          else skip_field P ty f0)
       None
       (\<lambda>f0.
          retp f0)"

definition write_execute_fast_last_data_query_for_one_device_v2_result :: "ts_execute_statement_resp option \<Rightarrow>
      out_call list" where
  "write_execute_fast_last_data_query_for_one_device_v2_result v =
     w_struct ''IClientRPCServiceExecuteFastLastDataQueryForOneDeviceV2Result'' (w_opt ''result_value'' TyStruct
           0 write_ts_execute_statement_resp v)"

definition rpc_execute_fast_last_data_query_for_one_device_v2 ::
    "'i in_protocol \<Rightarrow> 'o out_protocol \<Rightarrow> nat \<Rightarrow> ts_fast_last_data_query_for_one_device_req \<Rightarrow> ('i, 'o) rpc_client \<Rightarrow>
     ts_execute_statement_resp read_result \<times> ('i, 'o) rpc_client" where
  "rpc_execute_fast_last_data_query_for_one_device_v2 P Q n req =
     rpc_call P Q ''executeFastLastDataQueryForOneDeviceV2''
           ''IClientRPCServiceExecuteFastLastDataQueryForOneDeviceV2''
       (write_execute_fast_last_data_query_for_one_device_v2_args req)
             (read_execute_fast_last_data_query_for_one_device_v2_result P n)"

context thrift_wire
begin

lemma wire_execute_fast_last_data_query_for_one_device_v2_args:
  "18 \<le> n \<Longrightarrow> wire (read_execute_fast_last_data_query_for_one_device_v2_args P n)
        write_execute_fast_last_data_query_for_one_device_v2_args ok_ts_fast_last_data_query_for_one_device_req"
  unfolding read_execute_fast_last_data_query_for_one_device_v2_args_def
        write_execute_fast_last_data_query_for_one_device_v2_args_def
  by (rule wireI) ((rule wire_rules wire_ts_fast_last_data_query_for_one_device_req | (simp; fail))+)

lemma wire_execute_fast_last_data_query_for_one_device_v2_result:
  "d + 18 \<le> n \<Longrightarrow>
     wire (read_execute_fast_last_data_query_for_one_device_v2_result P n)
           write_execute_fast_last_data_query_for_one_device_v2_result (opt_ok (ok_ts_execute_statement_resp
           d))"
  unfolding read_execute_fast_last_data_query_for_one_device_v2_result_def
        write_execute_fast_last_data_query_for_one_device_v2_result_def
  by (rule wireI) ((rule wire_rules wire_ts_execute_statement_resp | (simp; fail))+)

end

subsection \<open>\<^verbatim>\<open>execute_aggregation_query_v2\<close>\<close>

definition read_execute_aggregation_query_v2_args :: "'i in_protocol \<Rightarrow> nat \<Rightarrow> ('i, ts_aggregation_query_req) rd"
      where
  "read_execute_aggregation_query_v2_args P n =
     read_struct P n
       (\<lambda>k ty f1.
          if k = 1 then store (read_ts_aggregation_query_req P n) (\<lambda>v. v)
          else skip_field P ty f1)
       None
       (\<lambda>f1.
          bindp (required P ''IClientRPCServiceExecuteAggregationQueryV2Args.req'' f1) (\<lambda>f1.
          retp f1))"

definition write_execute_aggregation_query_v2_args :: "ts_aggregation_query_req \<Rightarrow> out_call list" where
  "write_execute_aggregation_query_v2_args v =
     w_struct ''executeAggregationQueryV2_args'' (w_field ''req'' TyStruct 1 write_ts_aggregation_query_req v)"

definition read_execute_aggregation_query_v2_result :: "'i in_protocol \<Rightarrow> nat \<Rightarrow> ('i, ts_execute_statement_resp
      option) rd" where
  "read_execute_aggregation_query_v2_result P n =
     read_struct P n
       (\<lambda>k ty f0.
          if k = 0 then store (read_ts_execute_statement_resp P n) (\<lambda>v. v)
          else skip_field P ty f0)
       None
       (\<lambda>f0.
          retp f0)"

definition write_execute_aggregation_query_v2_result :: "ts_execute_statement_resp option \<Rightarrow> out_call list" where
  "write_execute_aggregation_query_v2_result v =
     w_struct ''IClientRPCServiceExecuteAggregationQueryV2Result'' (w_opt ''result_value'' TyStruct 0
           write_ts_execute_statement_resp v)"

definition rpc_execute_aggregation_query_v2 ::
    "'i in_protocol \<Rightarrow> 'o out_protocol \<Rightarrow> nat \<Rightarrow> ts_aggregation_query_req \<Rightarrow> ('i, 'o) rpc_client \<Rightarrow>
     ts_execute_statement_resp read_result \<times> ('i, 'o) rpc_client" where
  "rpc_execute_aggregation_query_v2 P Q n req =
     rpc_call P Q ''executeAggregationQueryV2'' ''IClientRPCServiceExecuteAggregationQueryV2''
       (write_execute_aggregation_query_v2_args req) (read_execute_aggregation_query_v2_result P n)"

context thrift_wire
begin

lemma wire_execute_aggregation_query_v2_args:
  "18 \<le> n \<Longrightarrow> wire (read_execute_aggregation_query_v2_args P n) write_execute_aggregation_query_v2_args
        ok_ts_aggregation_query_req"
  unfolding read_execute_aggregation_query_v2_args_def write_execute_aggregation_query_v2_args_def
  by (rule wireI) ((rule wire_rules wire_ts_aggregation_query_req | (simp; fail))+)

lemma wire_execute_aggregation_query_v2_result:
  "d + 18 \<le> n \<Longrightarrow>
     wire (read_execute_aggregation_query_v2_result P n) write_execute_aggregation_query_v2_result (opt_ok
           (ok_ts_execute_statement_resp d))"
  unfolding read_execute_aggregation_query_v2_result_def write_execute_aggregation_query_v2_result_def
  by (rule wireI) ((rule wire_rules wire_ts_execute_statement_resp | (simp; fail))+)

end

subsection \<open>\<^verbatim>\<open>execute_statement\<close>\<close>

definition read_execute_statement_args :: "'i in_protocol \<Rightarrow> nat \<Rightarrow> ('i, ts_execute_statement_req) rd" where
  "read_execute_statement_args P n =
     read_struct P n
       (\<lambda>k ty f1.
          if k = 1 then store (read_ts_execute_statement_req P n) (\<lambda>v. v)
          else skip_field P ty f1)
       None
       (\<lambda>f1.
          bindp (required P ''IClientRPCServiceExecuteStatementArgs.req'' f1) (\<lambda>f1.
          retp f1))"

definition write_execute_statement_args :: "ts_execute_statement_req \<Rightarrow> out_call list" where
  "write_execute_statement_args v =
     w_struct ''executeStatement_args'' (w_field ''req'' TyStruct 1 write_ts_execute_statement_req v)"

definition read_execute_statement_result :: "'i in_protocol \<Rightarrow> nat \<Rightarrow> ('i, ts_execute_statement_resp option) rd"
      where
  "read_execute_statement_result P n =
     read_struct P n
       (\<lambda>k ty f0.
          if k = 0 then store (read_ts_execute_statement_resp P n) (\<lambda>v. v)
          else skip_field P ty f0)
       None
       (\<lambda>f0.
          retp f0)"

definition write_execute_statement_result :: "ts_execute_statement_resp option \<Rightarrow> out_call list" where
  "write_execute_statement_result v =
     w_struct ''IClientRPCServiceExecuteStatementResult'' (w_opt ''result_value'' TyStruct 0
           write_ts_execute_statement_resp v)"

definition rpc_execute_statement ::
    "'i in_protocol \<Rightarrow> 'o out_protocol \<Rightarrow> nat \<Rightarrow> ts_execute_statement_req \<Rightarrow> ('i, 'o) rpc_client \<Rightarrow>
     ts_execute_statement_resp read_result \<times> ('i, 'o) rpc_client" where
  "rpc_execute_statement P Q n req =
     rpc_call P Q ''executeStatement'' ''IClientRPCServiceExecuteStatement''
       (write_execute_statement_args req) (read_execute_statement_result P n)"

context thrift_wire
begin

lemma wire_execute_statement_args:
  "18 \<le> n \<Longrightarrow> wire (read_execute_statement_args P n) write_execute_statement_args ok_ts_execute_statement_req"
  unfolding read_execute_statement_args_def write_execute_statement_args_def
  by (rule wireI) ((rule wire_rules wire_ts_execute_statement_req | (simp; fail))+)

lemma wire_execute_statement_result:
  "d + 18 \<le> n \<Longrightarrow>
     wire (read_execute_statement_result P n) write_execute_statement_result (opt_ok
           (ok_ts_execute_statement_resp d))"
  unfolding read_execute_statement_result_def write_execute_statement_result_def
  by (rule wireI) ((rule wire_rules wire_ts_execute_statement_resp | (simp; fail))+)

end

subsection \<open>\<^verbatim>\<open>execute_batch_statement\<close>\<close>

definition read_execute_batch_statement_args :: "'i in_protocol \<Rightarrow> nat \<Rightarrow> ('i, ts_execute_batch_statement_req) rd"
      where
  "read_execute_batch_statement_args P n =
     read_struct P n
       (\<lambda>k ty f1.
          if k = 1 then store (read_ts_execute_batch_statement_req P n) (\<lambda>v. v)
          else skip_field P ty f1)
       None
       (\<lambda>f1.
          bindp (required P ''IClientRPCServiceExecuteBatchStatementArgs.req'' f1) (\<lambda>f1.
          retp f1))"

definition write_execute_batch_statement_args :: "ts_execute_batch_statement_req \<Rightarrow> out_call list" where
  "write_execute_batch_statement_args v =
     w_struct ''executeBatchStatement_args'' (w_field ''req'' TyStruct 1 write_ts_execute_batch_statement_req
           v)"

definition read_execute_batch_statement_result :: "'i in_protocol \<Rightarrow> nat \<Rightarrow> ('i, ts_status option) rd" where
  "read_execute_batch_statement_result P n =
     read_struct P n
       (\<lambda>k ty f0.
          if k = 0 then store (read_ts_status P n) (\<lambda>v. v)
          else skip_field P ty f0)
       None
       (\<lambda>f0.
          retp f0)"

definition write_execute_batch_statement_result :: "ts_status option \<Rightarrow> out_call list" where
  "write_execute_batch_statement_result v =
     w_struct ''IClientRPCServiceExecuteBatchStatementResult'' (w_opt ''result_value'' TyStruct 0
           write_ts_status v)"

definition rpc_execute_batch_statement ::
    "'i in_protocol \<Rightarrow> 'o out_protocol \<Rightarrow> nat \<Rightarrow> ts_execute_batch_statement_req \<Rightarrow> ('i, 'o) rpc_client \<Rightarrow>
     ts_status read_result \<times> ('i, 'o) rpc_client" where
  "rpc_execute_batch_statement P Q n req =
     rpc_call P Q ''executeBatchStatement'' ''IClientRPCServiceExecuteBatchStatement''
       (write_execute_batch_statement_args req) (read_execute_batch_statement_result P n)"

context thrift_wire
begin

lemma wire_execute_batch_statement_args:
  "18 \<le> n \<Longrightarrow> wire (read_execute_batch_statement_args P n) write_execute_batch_statement_args
        ok_ts_execute_batch_statement_req"
  unfolding read_execute_batch_statement_args_def write_execute_batch_statement_args_def
  by (rule wireI) ((rule wire_rules wire_ts_execute_batch_statement_req | (simp; fail))+)

lemma wire_execute_batch_statement_result:
  "d + 18 \<le> n \<Longrightarrow>
     wire (read_execute_batch_statement_result P n) write_execute_batch_statement_result (opt_ok (ok_ts_status
           d))"
  unfolding read_execute_batch_statement_result_def write_execute_batch_statement_result_def
  by (rule wireI) ((rule wire_rules wire_ts_status | (simp; fail))+)

end

subsection \<open>\<^verbatim>\<open>execute_query_statement\<close>\<close>

definition read_execute_query_statement_args :: "'i in_protocol \<Rightarrow> nat \<Rightarrow> ('i, ts_execute_statement_req) rd" where
  "read_execute_query_statement_args P n =
     read_struct P n
       (\<lambda>k ty f1.
          if k = 1 then store (read_ts_execute_statement_req P n) (\<lambda>v. v)
          else skip_field P ty f1)
       None
       (\<lambda>f1.
          bindp (required P ''IClientRPCServiceExecuteQueryStatementArgs.req'' f1) (\<lambda>f1.
          retp f1))"

definition write_execute_query_statement_args :: "ts_execute_statement_req \<Rightarrow> out_call list" where
  "write_execute_query_statement_args v =
     w_struct ''executeQueryStatement_args'' (w_field ''req'' TyStruct 1 write_ts_execute_statement_req v)"

definition read_execute_query_statement_result :: "'i in_protocol \<Rightarrow> nat \<Rightarrow> ('i, ts_execute_statement_resp option)
      rd" where
  "read_execute_query_statement_result P n =
     read_struct P n
       (\<lambda>k ty f0.
          if k = 0 then store (read_ts_execute_statement_resp P n) (\<lambda>v. v)
          else skip_field P ty f0)
       None
       (\<lambda>f0.
          retp f0)"

definition write_execute_query_statement_result :: "ts_execute_statement_resp option \<Rightarrow> out_call list" where
  "write_execute_query_statement_result v =
     w_struct ''IClientRPCServiceExecuteQueryStatementResult'' (w_opt ''result_value'' TyStruct 0
           write_ts_execute_statement_resp v)"

definition rpc_execute_query_statement ::
    "'i in_protocol \<Rightarrow> 'o out_protocol \<Rightarrow> nat \<Rightarrow> ts_execute_statement_req \<Rightarrow> ('i, 'o) rpc_client \<Rightarrow>
     ts_execute_statement_resp read_result \<times> ('i, 'o) rpc_client" where
  "rpc_execute_query_statement P Q n req =
     rpc_call P Q ''executeQueryStatement'' ''IClientRPCServiceExecuteQueryStatement''
       (write_execute_query_statement_args req) (read_execute_query_statement_result P n)"

context thrift_wire
begin

lemma wire_execute_query_statement_args:
  "18 \<le> n \<Longrightarrow> wire (read_execute_query_statement_args P n) write_execute_query_statement_args
        ok_ts_execute_statement_req"
  unfolding read_execute_query_statement_args_def write_execute_query_statement_args_def
  by (rule wireI) ((rule wire_rules wire_ts_execute_statement_req | (simp; fail))+)

lemma wire_execute_query_statement_result:
  "d + 18 \<le> n \<Longrightarrow>
     wire (read_execute_query_statement_result P n) write_execute_query_statement_result (opt_ok
           (ok_ts_execute_statement_resp d))"
  unfolding read_execute_query_statement_result_def write_execute_query_statement_result_def
  by (rule wireI) ((rule wire_rules wire_ts_execute_statement_resp | (simp; fail))+)

end

subsection \<open>\<^verbatim>\<open>execute_update_statement\<close>\<close>

definition read_execute_update_statement_args :: "'i in_protocol \<Rightarrow> nat \<Rightarrow> ('i, ts_execute_statement_req) rd"
      where
  "read_execute_update_statement_args P n =
     read_struct P n
       (\<lambda>k ty f1.
          if k = 1 then store (read_ts_execute_statement_req P n) (\<lambda>v. v)
          else skip_field P ty f1)
       None
       (\<lambda>f1.
          bindp (required P ''IClientRPCServiceExecuteUpdateStatementArgs.req'' f1) (\<lambda>f1.
          retp f1))"

definition write_execute_update_statement_args :: "ts_execute_statement_req \<Rightarrow> out_call list" where
  "write_execute_update_statement_args v =
     w_struct ''executeUpdateStatement_args'' (w_field ''req'' TyStruct 1 write_ts_execute_statement_req v)"

definition read_execute_update_statement_result :: "'i in_protocol \<Rightarrow> nat \<Rightarrow> ('i, ts_execute_statement_resp
      option) rd" where
  "read_execute_update_statement_result P n =
     read_struct P n
       (\<lambda>k ty f0.
          if k = 0 then store (read_ts_execute_statement_resp P n) (\<lambda>v. v)
          else skip_field P ty f0)
       None
       (\<lambda>f0.
          retp f0)"

definition write_execute_update_statement_result :: "ts_execute_statement_resp option \<Rightarrow> out_call list" where
  "write_execute_update_statement_result v =
     w_struct ''IClientRPCServiceExecuteUpdateStatementResult'' (w_opt ''result_value'' TyStruct 0
           write_ts_execute_statement_resp v)"

definition rpc_execute_update_statement ::
    "'i in_protocol \<Rightarrow> 'o out_protocol \<Rightarrow> nat \<Rightarrow> ts_execute_statement_req \<Rightarrow> ('i, 'o) rpc_client \<Rightarrow>
     ts_execute_statement_resp read_result \<times> ('i, 'o) rpc_client" where
  "rpc_execute_update_statement P Q n req =
     rpc_call P Q ''executeUpdateStatement'' ''IClientRPCServiceExecuteUpdateStatement''
       (write_execute_update_statement_args req) (read_execute_update_statement_result P n)"

context thrift_wire
begin

lemma wire_execute_update_statement_args:
  "18 \<le> n \<Longrightarrow> wire (read_execute_update_statement_args P n) write_execute_update_statement_args
        ok_ts_execute_statement_req"
  unfolding read_execute_update_statement_args_def write_execute_update_statement_args_def
  by (rule wireI) ((rule wire_rules wire_ts_execute_statement_req | (simp; fail))+)

lemma wire_execute_update_statement_result:
  "d + 18 \<le> n \<Longrightarrow>
     wire (read_execute_update_statement_result P n) write_execute_update_statement_result (opt_ok
           (ok_ts_execute_statement_resp d))"
  unfolding read_execute_update_statement_result_def write_execute_update_statement_result_def
  by (rule wireI) ((rule wire_rules wire_ts_execute_statement_resp | (simp; fail))+)

end

subsection \<open>\<^verbatim>\<open>fetch_results\<close>\<close>

definition read_fetch_results_args :: "'i in_protocol \<Rightarrow> nat \<Rightarrow> ('i, ts_fetch_results_req) rd" where
  "read_fetch_results_args P n =
     read_struct P n
       (\<lambda>k ty f1.
          if k = 1 then store (read_ts_fetch_results_req P n) (\<lambda>v. v)
          else skip_field P ty f1)
       None
       (\<lambda>f1.
          bindp (required P ''IClientRPCServiceFetchResultsArgs.req'' f1) (\<lambda>f1.
          retp f1))"

definition write_fetch_results_args :: "ts_fetch_results_req \<Rightarrow> out_call list" where
  "write_fetch_results_args v =
     w_struct ''fetchResults_args'' (w_field ''req'' TyStruct 1 write_ts_fetch_results_req v)"

definition read_fetch_results_result :: "'i in_protocol \<Rightarrow> nat \<Rightarrow> ('i, ts_fetch_results_resp option) rd" where
  "read_fetch_results_result P n =
     read_struct P n
       (\<lambda>k ty f0.
          if k = 0 then store (read_ts_fetch_results_resp P n) (\<lambda>v. v)
          else skip_field P ty f0)
       None
       (\<lambda>f0.
          retp f0)"

definition write_fetch_results_result :: "ts_fetch_results_resp option \<Rightarrow> out_call list" where
  "write_fetch_results_result v =
     w_struct ''IClientRPCServiceFetchResultsResult'' (w_opt ''result_value'' TyStruct 0
           write_ts_fetch_results_resp v)"

definition rpc_fetch_results ::
    "'i in_protocol \<Rightarrow> 'o out_protocol \<Rightarrow> nat \<Rightarrow> ts_fetch_results_req \<Rightarrow> ('i, 'o) rpc_client \<Rightarrow>
     ts_fetch_results_resp read_result \<times> ('i, 'o) rpc_client" where
  "rpc_fetch_results P Q n req =
     rpc_call P Q ''fetchResults'' ''IClientRPCServiceFetchsResult''
       (write_fetch_results_args req) (read_fetch_results_result P n)"

context thrift_wire
begin

lemma wire_fetch_results_args:
  "18 \<le> n \<Longrightarrow> wire (read_fetch_results_args P n) write_fetch_results_args ok_ts_fetch_results_req"
  unfolding read_fetch_results_args_def write_fetch_results_args_def
  by (rule wireI) ((rule wire_rules wire_ts_fetch_results_req | (simp; fail))+)

lemma wire_fetch_results_result:
  "d + 18 \<le> n \<Longrightarrow>
     wire (read_fetch_results_result P n) write_fetch_results_result (opt_ok (ok_ts_fetch_results_resp d))"
  unfolding read_fetch_results_result_def write_fetch_results_result_def
  by (rule wireI) ((rule wire_rules wire_ts_fetch_results_resp | (simp; fail))+)

end

subsection \<open>\<^verbatim>\<open>fetch_metadata\<close>\<close>

definition read_fetch_metadata_args :: "'i in_protocol \<Rightarrow> nat \<Rightarrow> ('i, ts_fetch_metadata_req) rd" where
  "read_fetch_metadata_args P n =
     read_struct P n
       (\<lambda>k ty f1.
          if k = 1 then store (read_ts_fetch_metadata_req P n) (\<lambda>v. v)
          else skip_field P ty f1)
       None
       (\<lambda>f1.
          bindp (required P ''IClientRPCServiceFetchMetadataArgs.req'' f1) (\<lambda>f1.
          retp f1))"

definition write_fetch_metadata_args :: "ts_fetch_metadata_req \<Rightarrow> out_call list" where
  "write_fetch_metadata_args v =
     w_struct ''fetchMetadata_args'' (w_field ''req'' TyStruct 1 write_ts_fetch_metadata_req v)"

definition read_fetch_metadata_result :: "'i in_protocol \<Rightarrow> nat \<Rightarrow> ('i, ts_fetch_metadata_resp option) rd" where
  "read_fetch_metadata_result P n =
     read_struct P n
       (\<lambda>k ty f0.
          if k = 0 then store (read_ts_fetch_metadata_resp P n) (\<lambda>v. v)
          else skip_field P ty f0)
       None
       (\<lambda>f0.
          retp f0)"

definition write_fetch_metadata_result :: "ts_fetch_metadata_resp option \<Rightarrow> out_call list" where
  "write_fetch_metadata_result v =
     w_struct ''IClientRPCServiceFetchMetadataResult'' (w_opt ''result_value'' TyStruct 0
           write_ts_fetch_metadata_resp v)"

definition rpc_fetch_metadata ::
    "'i in_protocol \<Rightarrow> 'o out_protocol \<Rightarrow> nat \<Rightarrow> ts_fetch_metadata_req \<Rightarrow> ('i, 'o) rpc_client \<Rightarrow>
     ts_fetch_metadata_resp read_result \<times> ('i, 'o) rpc_client" where
  "rpc_fetch_metadata P Q n req =
     rpc_call P Q ''fetchMetadata'' ''IClientRPCServiceFetchMetadata''
       (write_fetch_metadata_args req) (read_fetch_metadata_result P n)"

context thrift_wire
begin

lemma wire_fetch_metadata_args:
  "18 \<le> n \<Longrightarrow> wire (read_fetch_metadata_args P n) write_fetch_metadata_args ok_ts_fetch_metadata_req"
  unfolding read_fetch_metadata_args_def write_fetch_metadata_args_def
  by (rule wireI) ((rule wire_rules wire_ts_fetch_metadata_req | (simp; fail))+)

lemma wire_fetch_metadata_result:
  "d + 18 \<le> n \<Longrightarrow>
     wire (read_fetch_metadata_result P n) write_fetch_metadata_result (opt_ok (ok_ts_fetch_metadata_resp d))"
  unfolding read_fetch_metadata_result_def write_fetch_metadata_result_def
  by (rule wireI) ((rule wire_rules wire_ts_fetch_metadata_resp | (simp; fail))+)

end

subsection \<open>\<^verbatim>\<open>cancel_operation\<close>\<close>

definition read_cancel_operation_args :: "'i in_protocol \<Rightarrow> nat \<Rightarrow> ('i, ts_cancel_operation_req) rd" where
  "read_cancel_operation_args P n =
     read_struct P n
       (\<lambda>k ty f1.
          if k = 1 then store (read_ts_cancel_operation_req P n) (\<lambda>v. v)
          else skip_field P ty f1)
       None
       (\<lambda>f1.
          bindp (required P ''IClientRPCServiceCancelOperationArgs.req'' f1) (\<lambda>f1.
          retp f1))"

definition write_cancel_operation_args :: "ts_cancel_operation_req \<Rightarrow> out_call list" where
  "write_cancel_operation_args v =
     w_struct ''cancelOperation_args'' (w_field ''req'' TyStruct 1 write_ts_cancel_operation_req v)"

definition read_cancel_operation_result :: "'i in_protocol \<Rightarrow> nat \<Rightarrow> ('i, ts_status option) rd" where
  "read_cancel_operation_result P n =
     read_struct P n
       (\<lambda>k ty f0.
          if k = 0 then store (read_ts_status P n) (\<lambda>v. v)
          else skip_field P ty f0)
       None
       (\<lambda>f0.
          retp f0)"

definition write_cancel_operation_result :: "ts_status option \<Rightarrow> out_call list" where
  "write_cancel_operation_result v =
     w_struct ''IClientRPCServiceCancelOperationResult'' (w_opt ''result_value'' TyStruct 0 write_ts_status v)"

definition rpc_cancel_operation ::
    "'i in_protocol \<Rightarrow> 'o out_protocol \<Rightarrow> nat \<Rightarrow> ts_cancel_operation_req \<Rightarrow> ('i, 'o) rpc_client \<Rightarrow>
     ts_status read_result \<times> ('i, 'o) rpc_client" where
  "rpc_cancel_operation P Q n req =
     rpc_call P Q ''cancelOperation'' ''IClientRPCServiceCancelOperation''
       (write_cancel_operation_args req) (read_cancel_operation_result P n)"

context thrift_wire
begin

lemma wire_cancel_operation_args:
  "18 \<le> n \<Longrightarrow> wire (read_cancel_operation_args P n) write_cancel_operation_args ok_ts_cancel_operation_req"
  unfolding read_cancel_operation_args_def write_cancel_operation_args_def
  by (rule wireI) ((rule wire_rules wire_ts_cancel_operation_req | (simp; fail))+)

lemma wire_cancel_operation_result:
  "d + 18 \<le> n \<Longrightarrow>
     wire (read_cancel_operation_result P n) write_cancel_operation_result (opt_ok (ok_ts_status d))"
  unfolding read_cancel_operation_result_def write_cancel_operation_result_def
  by (rule wireI) ((rule wire_rules wire_ts_status | (simp; fail))+)

end

subsection \<open>\<^verbatim>\<open>prepare_statement\<close>\<close>

definition read_prepare_statement_args :: "'i in_protocol \<Rightarrow> nat \<Rightarrow> ('i, ts_prepare_req) rd" where
  "read_prepare_statement_args P n =
     read_struct P n
       (\<lambda>k ty f1.
          if k = 1 then store (read_ts_prepare_req P n) (\<lambda>v. v)
          else skip_field P ty f1)
       None
       (\<lambda>f1.
          bindp (required P ''IClientRPCServicePrepareStatementArgs.req'' f1) (\<lambda>f1.
          retp f1))"

definition write_prepare_statement_args :: "ts_prepare_req \<Rightarrow> out_call list" where
  "write_prepare_statement_args v =
     w_struct ''prepareStatement_args'' (w_field ''req'' TyStruct 1 write_ts_prepare_req v)"

definition read_prepare_statement_result :: "'i in_protocol \<Rightarrow> nat \<Rightarrow> ('i, ts_prepare_resp option) rd" where
  "read_prepare_statement_result P n =
     read_struct P n
       (\<lambda>k ty f0.
          if k = 0 then store (read_ts_prepare_resp P n) (\<lambda>v. v)
          else skip_field P ty f0)
       None
       (\<lambda>f0.
          retp f0)"

definition write_prepare_statement_result :: "ts_prepare_resp option \<Rightarrow> out_call list" where
  "write_prepare_statement_result v =
     w_struct ''IClientRPCServicePrepareStatementResult'' (w_opt ''result_value'' TyStruct 0
           write_ts_prepare_resp v)"

definition rpc_prepare_statement ::
    "'i in_protocol \<Rightarrow> 'o out_protocol \<Rightarrow> nat \<Rightarrow> ts_prepare_req \<Rightarrow> ('i, 'o) rpc_client \<Rightarrow>
     ts_prepare_resp read_result \<times> ('i, 'o) rpc_client" where
  "rpc_prepare_statement P Q n req =
     rpc_call P Q ''prepareStatement'' ''IClientRPCServicePrepareStatement''
       (write_prepare_statement_args req) (read_prepare_statement_result P n)"

context thrift_wire
begin

lemma wire_prepare_statement_args:
  "18 \<le> n \<Longrightarrow> wire (read_prepare_statement_args P n) write_prepare_statement_args ok_ts_prepare_req"
  unfolding read_prepare_statement_args_def write_prepare_statement_args_def
  by (rule wireI) ((rule wire_rules wire_ts_prepare_req | (simp; fail))+)

lemma wire_prepare_statement_result:
  "d + 18 \<le> n \<Longrightarrow>
     wire (read_prepare_statement_result P n) write_prepare_statement_result (opt_ok (ok_ts_prepare_resp d))"
  unfolding read_prepare_statement_result_def write_prepare_statement_result_def
  by (rule wireI) ((rule wire_rules wire_ts_prepare_resp | (simp; fail))+)

end

subsection \<open>\<^verbatim>\<open>execute_prepared_statement\<close>\<close>

definition read_execute_prepared_statement_args :: "'i in_protocol \<Rightarrow> nat \<Rightarrow> ('i, ts_execute_prepared_req) rd"
      where
  "read_execute_prepared_statement_args P n =
     read_struct P n
       (\<lambda>k ty f1.
          if k = 1 then store (read_ts_execute_prepared_req P n) (\<lambda>v. v)
          else skip_field P ty f1)
       None
       (\<lambda>f1.
          bindp (required P ''IClientRPCServiceExecutePreparedStatementArgs.req'' f1) (\<lambda>f1.
          retp f1))"

definition write_execute_prepared_statement_args :: "ts_execute_prepared_req \<Rightarrow> out_call list" where
  "write_execute_prepared_statement_args v =
     w_struct ''executePreparedStatement_args'' (w_field ''req'' TyStruct 1 write_ts_execute_prepared_req v)"

definition read_execute_prepared_statement_result :: "'i in_protocol \<Rightarrow> nat \<Rightarrow> ('i, ts_execute_statement_resp
      option) rd" where
  "read_execute_prepared_statement_result P n =
     read_struct P n
       (\<lambda>k ty f0.
          if k = 0 then store (read_ts_execute_statement_resp P n) (\<lambda>v. v)
          else skip_field P ty f0)
       None
       (\<lambda>f0.
          retp f0)"

definition write_execute_prepared_statement_result :: "ts_execute_statement_resp option \<Rightarrow> out_call list" where
  "write_execute_prepared_statement_result v =
     w_struct ''IClientRPCServiceExecutePreparedStatementResult'' (w_opt ''result_value'' TyStruct 0
           write_ts_execute_statement_resp v)"

definition rpc_execute_prepared_statement ::
    "'i in_protocol \<Rightarrow> 'o out_protocol \<Rightarrow> nat \<Rightarrow> ts_execute_prepared_req \<Rightarrow> ('i, 'o) rpc_client \<Rightarrow>
     ts_execute_statement_resp read_result \<times> ('i, 'o) rpc_client" where
  "rpc_execute_prepared_statement P Q n req =
     rpc_call P Q ''executePreparedStatement'' ''IClientRPCServiceExecutePreparedStatement''
       (write_execute_prepared_statement_args req) (read_execute_prepared_statement_result P n)"

context thrift_wire
begin

lemma wire_execute_prepared_statement_args:
  "18 \<le> n \<Longrightarrow> wire (read_execute_prepared_statement_args P n) write_execute_prepared_statement_args
        ok_ts_execute_prepared_req"
  unfolding read_execute_prepared_statement_args_def write_execute_prepared_statement_args_def
  by (rule wireI) ((rule wire_rules wire_ts_execute_prepared_req | (simp; fail))+)

lemma wire_execute_prepared_statement_result:
  "d + 18 \<le> n \<Longrightarrow>
     wire (read_execute_prepared_statement_result P n) write_execute_prepared_statement_result (opt_ok
           (ok_ts_execute_statement_resp d))"
  unfolding read_execute_prepared_statement_result_def write_execute_prepared_statement_result_def
  by (rule wireI) ((rule wire_rules wire_ts_execute_statement_resp | (simp; fail))+)

end

subsection \<open>\<^verbatim>\<open>deallocate_prepared_statement\<close>\<close>

definition read_deallocate_prepared_statement_args :: "'i in_protocol \<Rightarrow> nat \<Rightarrow> ('i, ts_deallocate_prepared_req)
      rd" where
  "read_deallocate_prepared_statement_args P n =
     read_struct P n
       (\<lambda>k ty f1.
          if k = 1 then store (read_ts_deallocate_prepared_req P n) (\<lambda>v. v)
          else skip_field P ty f1)
       None
       (\<lambda>f1.
          bindp (required P ''IClientRPCServiceDeallocatePreparedStatementArgs.req'' f1) (\<lambda>f1.
          retp f1))"

definition write_deallocate_prepared_statement_args :: "ts_deallocate_prepared_req \<Rightarrow> out_call list" where
  "write_deallocate_prepared_statement_args v =
     w_struct ''deallocatePreparedStatement_args'' (w_field ''req'' TyStruct 1 write_ts_deallocate_prepared_req
           v)"

definition read_deallocate_prepared_statement_result :: "'i in_protocol \<Rightarrow> nat \<Rightarrow> ('i, ts_status option) rd" where
  "read_deallocate_prepared_statement_result P n =
     read_struct P n
       (\<lambda>k ty f0.
          if k = 0 then store (read_ts_status P n) (\<lambda>v. v)
          else skip_field P ty f0)
       None
       (\<lambda>f0.
          retp f0)"

definition write_deallocate_prepared_statement_result :: "ts_status option \<Rightarrow> out_call list" where
  "write_deallocate_prepared_statement_result v =
     w_struct ''IClientRPCServiceDeallocatePreparedStatementResult'' (w_opt ''result_value'' TyStruct 0
           write_ts_status v)"

definition rpc_deallocate_prepared_statement ::
    "'i in_protocol \<Rightarrow> 'o out_protocol \<Rightarrow> nat \<Rightarrow> ts_deallocate_prepared_req \<Rightarrow> ('i, 'o) rpc_client \<Rightarrow>
     ts_status read_result \<times> ('i, 'o) rpc_client" where
  "rpc_deallocate_prepared_statement P Q n req =
     rpc_call P Q ''deallocatePreparedStatement'' ''IClientRPCServiceDeallocatePreparedStatement''
       (write_deallocate_prepared_statement_args req) (read_deallocate_prepared_statement_result P n)"

context thrift_wire
begin

lemma wire_deallocate_prepared_statement_args:
  "18 \<le> n \<Longrightarrow> wire (read_deallocate_prepared_statement_args P n) write_deallocate_prepared_statement_args
        ok_ts_deallocate_prepared_req"
  unfolding read_deallocate_prepared_statement_args_def write_deallocate_prepared_statement_args_def
  by (rule wireI) ((rule wire_rules wire_ts_deallocate_prepared_req | (simp; fail))+)

lemma wire_deallocate_prepared_statement_result:
  "d + 18 \<le> n \<Longrightarrow>
     wire (read_deallocate_prepared_statement_result P n) write_deallocate_prepared_statement_result (opt_ok
           (ok_ts_status d))"
  unfolding read_deallocate_prepared_statement_result_def write_deallocate_prepared_statement_result_def
  by (rule wireI) ((rule wire_rules wire_ts_status | (simp; fail))+)

end

subsection \<open>\<^verbatim>\<open>get_time_zone\<close>\<close>

definition read_get_time_zone_args :: "'i in_protocol \<Rightarrow> nat \<Rightarrow> ('i, i64) rd" where
  "read_get_time_zone_args P n =
     read_struct P n
       (\<lambda>k ty f1.
          if k = 1 then store (callp (ip_i64 P)) (\<lambda>v. v)
          else skip_field P ty f1)
       None
       (\<lambda>f1.
          bindp (required P ''IClientRPCServiceGetTimeZoneArgs.session_id'' f1) (\<lambda>f1.
          retp f1))"

definition write_get_time_zone_args :: "i64 \<Rightarrow> out_call list" where
  "write_get_time_zone_args v =
     w_struct ''getTimeZone_args'' (w_field ''sessionId'' TyI64 1 w_i64 v)"

definition read_get_time_zone_result :: "'i in_protocol \<Rightarrow> nat \<Rightarrow> ('i, ts_get_time_zone_resp option) rd" where
  "read_get_time_zone_result P n =
     read_struct P n
       (\<lambda>k ty f0.
          if k = 0 then store (read_ts_get_time_zone_resp P n) (\<lambda>v. v)
          else skip_field P ty f0)
       None
       (\<lambda>f0.
          retp f0)"

definition write_get_time_zone_result :: "ts_get_time_zone_resp option \<Rightarrow> out_call list" where
  "write_get_time_zone_result v =
     w_struct ''IClientRPCServiceGetTimeZoneResult'' (w_opt ''result_value'' TyStruct 0
           write_ts_get_time_zone_resp v)"

definition rpc_get_time_zone ::
    "'i in_protocol \<Rightarrow> 'o out_protocol \<Rightarrow> nat \<Rightarrow> i64 \<Rightarrow> ('i, 'o) rpc_client \<Rightarrow>
     ts_get_time_zone_resp read_result \<times> ('i, 'o) rpc_client" where
  "rpc_get_time_zone P Q n req =
     rpc_call P Q ''getTimeZone'' ''IClientRPCServiceGetTimeZone''
       (write_get_time_zone_args req) (read_get_time_zone_result P n)"

context thrift_wire
begin

lemma wire_get_time_zone_args:
  "18 \<le> n \<Longrightarrow> wire (read_get_time_zone_args P n) write_get_time_zone_args (\<lambda>_. True)"
  unfolding read_get_time_zone_args_def write_get_time_zone_args_def
  by (rule wireI) ((rule wire_rules | (simp; fail))+)

lemma wire_get_time_zone_result:
  "d + 18 \<le> n \<Longrightarrow>
     wire (read_get_time_zone_result P n) write_get_time_zone_result (opt_ok (ok_ts_get_time_zone_resp d))"
  unfolding read_get_time_zone_result_def write_get_time_zone_result_def
  by (rule wireI) ((rule wire_rules wire_ts_get_time_zone_resp | (simp; fail))+)

end

subsection \<open>\<^verbatim>\<open>set_time_zone\<close>\<close>

definition read_set_time_zone_args :: "'i in_protocol \<Rightarrow> nat \<Rightarrow> ('i, ts_set_time_zone_req) rd" where
  "read_set_time_zone_args P n =
     read_struct P n
       (\<lambda>k ty f1.
          if k = 1 then store (read_ts_set_time_zone_req P n) (\<lambda>v. v)
          else skip_field P ty f1)
       None
       (\<lambda>f1.
          bindp (required P ''IClientRPCServiceSetTimeZoneArgs.req'' f1) (\<lambda>f1.
          retp f1))"

definition write_set_time_zone_args :: "ts_set_time_zone_req \<Rightarrow> out_call list" where
  "write_set_time_zone_args v =
     w_struct ''setTimeZone_args'' (w_field ''req'' TyStruct 1 write_ts_set_time_zone_req v)"

definition read_set_time_zone_result :: "'i in_protocol \<Rightarrow> nat \<Rightarrow> ('i, ts_status option) rd" where
  "read_set_time_zone_result P n =
     read_struct P n
       (\<lambda>k ty f0.
          if k = 0 then store (read_ts_status P n) (\<lambda>v. v)
          else skip_field P ty f0)
       None
       (\<lambda>f0.
          retp f0)"

definition write_set_time_zone_result :: "ts_status option \<Rightarrow> out_call list" where
  "write_set_time_zone_result v =
     w_struct ''IClientRPCServiceSetTimeZoneResult'' (w_opt ''result_value'' TyStruct 0 write_ts_status v)"

definition rpc_set_time_zone ::
    "'i in_protocol \<Rightarrow> 'o out_protocol \<Rightarrow> nat \<Rightarrow> ts_set_time_zone_req \<Rightarrow> ('i, 'o) rpc_client \<Rightarrow>
     ts_status read_result \<times> ('i, 'o) rpc_client" where
  "rpc_set_time_zone P Q n req =
     rpc_call P Q ''setTimeZone'' ''IClientRPCServiceSetTimeZone''
       (write_set_time_zone_args req) (read_set_time_zone_result P n)"

context thrift_wire
begin

lemma wire_set_time_zone_args:
  "18 \<le> n \<Longrightarrow> wire (read_set_time_zone_args P n) write_set_time_zone_args ok_ts_set_time_zone_req"
  unfolding read_set_time_zone_args_def write_set_time_zone_args_def
  by (rule wireI) ((rule wire_rules wire_ts_set_time_zone_req | (simp; fail))+)

lemma wire_set_time_zone_result:
  "d + 18 \<le> n \<Longrightarrow>
     wire (read_set_time_zone_result P n) write_set_time_zone_result (opt_ok (ok_ts_status d))"
  unfolding read_set_time_zone_result_def write_set_time_zone_result_def
  by (rule wireI) ((rule wire_rules wire_ts_status | (simp; fail))+)

end

subsection \<open>\<^verbatim>\<open>get_properties\<close>\<close>

definition read_get_properties_args :: "'i in_protocol \<Rightarrow> nat \<Rightarrow> ('i, unit) rd" where
  "read_get_properties_args P n =
     read_struct P n
       (\<lambda>k ty u. skip_field P ty u)
       ()
       (\<lambda>u.
          retp ())"

definition write_get_properties_args :: "unit \<Rightarrow> out_call list" where
  "write_get_properties_args u = w_struct ''getProperties_args'' []"

definition read_get_properties_result :: "'i in_protocol \<Rightarrow> nat \<Rightarrow> ('i, server_properties option) rd" where
  "read_get_properties_result P n =
     read_struct P n
       (\<lambda>k ty f0.
          if k = 0 then store (read_server_properties P n) (\<lambda>v. v)
          else skip_field P ty f0)
       None
       (\<lambda>f0.
          retp f0)"

definition write_get_properties_result :: "server_properties option \<Rightarrow> out_call list" where
  "write_get_properties_result v =
     w_struct ''IClientRPCServiceGetPropertiesResult'' (w_opt ''result_value'' TyStruct 0
           write_server_properties v)"

definition rpc_get_properties ::
    "'i in_protocol \<Rightarrow> 'o out_protocol \<Rightarrow> nat \<Rightarrow> unit \<Rightarrow> ('i, 'o) rpc_client \<Rightarrow>
     server_properties read_result \<times> ('i, 'o) rpc_client" where
  "rpc_get_properties P Q n req =
     rpc_call P Q ''getProperties'' ''IClientRPCServiceGetProperties''
       (write_get_properties_args req) (read_get_properties_result P n)"

context thrift_wire
begin

lemma wire_get_properties_args:
  "18 \<le> n \<Longrightarrow> wire (read_get_properties_args P n) write_get_properties_args (\<lambda>_. True)"
  unfolding read_get_properties_args_def write_get_properties_args_def
  by (rule wireI) ((rule wire_rules | (simp; fail))+)

lemma reads_get_properties_result:
  assumes "18 \<le> n" "ok_server_properties v"
  shows "reads (read_get_properties_result P n) (write_get_properties_result (Some v)) (Some (received_server_properties v))"
proof -
  let ?w = "\<lambda>_. write_server_properties v" and ?ok = "\<lambda>x. x = received_server_properties v"
  have w: "wire (read_server_properties P n) ?w ?ok"
    using reads_server_properties [OF assms] by (simp add: wire_def)
  have "write_get_properties_result (Some v) = w_struct ''IClientRPCServiceGetPropertiesResult''
      (w_opt ''result_value'' TyStruct 0 ?w (Some (received_server_properties v)))"
    by (simp add: write_get_properties_result_def w_opt_def w_field_def)
  then show ?thesis
    unfolding read_get_properties_result_def using assms(1)
    by simp ((rule wire_rules w | (simp add: opt_ok_def; fail))+)
qed

end

subsection \<open>\<^verbatim>\<open>set_storage_group\<close>\<close>

definition read_set_storage_group_args :: "'i in_protocol \<Rightarrow> nat \<Rightarrow> ('i, i64 \<times> string) rd" where
  "read_set_storage_group_args P n =
     read_struct P n
       (\<lambda>k ty (f1, f2).
          if k = 1 then store (callp (ip_i64 P)) (\<lambda>v. (v, f2))
          else if k = 2 then store (callp (ip_string P)) (\<lambda>v. (f1, v))
          else skip_field P ty (f1, f2))
       (None, None)
       (\<lambda>(f1, f2).
          bindp (required P ''IClientRPCServiceSetStorageGroupArgs.session_id'' f1) (\<lambda>f1.
          bindp (required P ''IClientRPCServiceSetStorageGroupArgs.storage_group'' f2) (\<lambda>f2.
          retp (f1, f2))))"

definition write_set_storage_group_args :: "i64 \<times> string \<Rightarrow> out_call list" where
  "write_set_storage_group_args = (\<lambda>(session_id, storage_group).
     w_struct ''setStorageGroup_args''
       (w_field ''sessionId'' TyI64 1 w_i64 session_id @
        w_field ''storageGroup'' TyString 2 w_string storage_group))"

definition read_set_storage_group_result :: "'i in_protocol \<Rightarrow> nat \<Rightarrow> ('i, ts_status option) rd" where
  "read_set_storage_group_result P n =
     read_struct P n
       (\<lambda>k ty f0.
          if k = 0 then store (read_ts_status P n) (\<lambda>v. v)
          else skip_field P ty f0)
       None
       (\<lambda>f0.
          retp f0)"

definition write_set_storage_group_result :: "ts_status option \<Rightarrow> out_call list" where
  "write_set_storage_group_result v =
     w_struct ''IClientRPCServiceSetStorageGroupResult'' (w_opt ''result_value'' TyStruct 0 write_ts_status v)"

definition rpc_set_storage_group ::
    "'i in_protocol \<Rightarrow> 'o out_protocol \<Rightarrow> nat \<Rightarrow> i64 \<times> string \<Rightarrow> ('i, 'o) rpc_client \<Rightarrow>
     ts_status read_result \<times> ('i, 'o) rpc_client" where
  "rpc_set_storage_group P Q n req =
     rpc_call P Q ''setStorageGroup'' ''IClientRPCServiceSetStorageGroup''
       (write_set_storage_group_args req) (read_set_storage_group_result P n)"

context thrift_wire
begin

lemma wire_set_storage_group_args:
  "18 \<le> n \<Longrightarrow> wire (read_set_storage_group_args P n) write_set_storage_group_args (\<lambda>(_, storage_group). str_ok
        storage_group)"
  unfolding read_set_storage_group_args_def write_set_storage_group_args_def
  by (rule wireI2, rule reads_struct) ((rule wire_rules | (simp; fail))+)

lemma wire_set_storage_group_result:
  "d + 18 \<le> n \<Longrightarrow>
     wire (read_set_storage_group_result P n) write_set_storage_group_result (opt_ok (ok_ts_status d))"
  unfolding read_set_storage_group_result_def write_set_storage_group_result_def
  by (rule wireI) ((rule wire_rules wire_ts_status | (simp; fail))+)

end

subsection \<open>\<^verbatim>\<open>create_timeseries\<close>\<close>

definition read_create_timeseries_args :: "'i in_protocol \<Rightarrow> nat \<Rightarrow> ('i, ts_create_timeseries_req) rd" where
  "read_create_timeseries_args P n =
     read_struct P n
       (\<lambda>k ty f1.
          if k = 1 then store (read_ts_create_timeseries_req P n) (\<lambda>v. v)
          else skip_field P ty f1)
       None
       (\<lambda>f1.
          bindp (required P ''IClientRPCServiceCreateTimeseriesArgs.req'' f1) (\<lambda>f1.
          retp f1))"

definition write_create_timeseries_args :: "ts_create_timeseries_req \<Rightarrow> out_call list" where
  "write_create_timeseries_args v =
     w_struct ''createTimeseries_args'' (w_field ''req'' TyStruct 1 write_ts_create_timeseries_req v)"

definition read_create_timeseries_result :: "'i in_protocol \<Rightarrow> nat \<Rightarrow> ('i, ts_status option) rd" where
  "read_create_timeseries_result P n =
     read_struct P n
       (\<lambda>k ty f0.
          if k = 0 then store (read_ts_status P n) (\<lambda>v. v)
          else skip_field P ty f0)
       None
       (\<lambda>f0.
          retp f0)"

definition write_create_timeseries_result :: "ts_status option \<Rightarrow> out_call list" where
  "write_create_timeseries_result v =
     w_struct ''IClientRPCServiceCreateTimeseriesResult'' (w_opt ''result_value'' TyStruct 0 write_ts_status v)"

definition rpc_create_timeseries ::
    "'i in_protocol \<Rightarrow> 'o out_protocol \<Rightarrow> nat \<Rightarrow> ts_create_timeseries_req \<Rightarrow> ('i, 'o) rpc_client \<Rightarrow>
     ts_status read_result \<times> ('i, 'o) rpc_client" where
  "rpc_create_timeseries P Q n req =
     rpc_call P Q ''createTimeseries'' ''IClientRPCServiceCreateTimeseries''
       (write_create_timeseries_args req) (read_create_timeseries_result P n)"

context thrift_wire
begin

lemma wire_create_timeseries_args:
  "18 \<le> n \<Longrightarrow> wire (read_create_timeseries_args P n) write_create_timeseries_args ok_ts_create_timeseries_req"
  unfolding read_create_timeseries_args_def write_create_timeseries_args_def
  by (rule wireI) ((rule wire_rules wire_ts_create_timeseries_req | (simp; fail))+)

lemma wire_create_timeseries_result:
  "d + 18 \<le> n \<Longrightarrow>
     wire (read_create_timeseries_result P n) write_create_timeseries_result (opt_ok (ok_ts_status d))"
  unfolding read_create_timeseries_result_def write_create_timeseries_result_def
  by (rule wireI) ((rule wire_rules wire_ts_status | (simp; fail))+)

end

subsection \<open>\<^verbatim>\<open>create_aligned_timeseries\<close>\<close>

definition read_create_aligned_timeseries_args :: "'i in_protocol \<Rightarrow> nat \<Rightarrow> ('i, ts_create_aligned_timeseries_req)
      rd" where
  "read_create_aligned_timeseries_args P n =
     read_struct P n
       (\<lambda>k ty f1.
          if k = 1 then store (read_ts_create_aligned_timeseries_req P n) (\<lambda>v. v)
          else skip_field P ty f1)
       None
       (\<lambda>f1.
          bindp (required P ''IClientRPCServiceCreateAlignedTimeseriesArgs.req'' f1) (\<lambda>f1.
          retp f1))"

definition write_create_aligned_timeseries_args :: "ts_create_aligned_timeseries_req \<Rightarrow> out_call list" where
  "write_create_aligned_timeseries_args v =
     w_struct ''createAlignedTimeseries_args'' (w_field ''req'' TyStruct 1
           write_ts_create_aligned_timeseries_req v)"

definition read_create_aligned_timeseries_result :: "'i in_protocol \<Rightarrow> nat \<Rightarrow> ('i, ts_status option) rd" where
  "read_create_aligned_timeseries_result P n =
     read_struct P n
       (\<lambda>k ty f0.
          if k = 0 then store (read_ts_status P n) (\<lambda>v. v)
          else skip_field P ty f0)
       None
       (\<lambda>f0.
          retp f0)"

definition write_create_aligned_timeseries_result :: "ts_status option \<Rightarrow> out_call list" where
  "write_create_aligned_timeseries_result v =
     w_struct ''IClientRPCServiceCreateAlignedTimeseriesResult'' (w_opt ''result_value'' TyStruct 0
           write_ts_status v)"

definition rpc_create_aligned_timeseries ::
    "'i in_protocol \<Rightarrow> 'o out_protocol \<Rightarrow> nat \<Rightarrow> ts_create_aligned_timeseries_req \<Rightarrow> ('i, 'o) rpc_client \<Rightarrow>
     ts_status read_result \<times> ('i, 'o) rpc_client" where
  "rpc_create_aligned_timeseries P Q n req =
     rpc_call P Q ''createAlignedTimeseries'' ''IClientRPCServiceCreateAlignedTimeseries''
       (write_create_aligned_timeseries_args req) (read_create_aligned_timeseries_result P n)"

context thrift_wire
begin

lemma wire_create_aligned_timeseries_args:
  "18 \<le> n \<Longrightarrow> wire (read_create_aligned_timeseries_args P n) write_create_aligned_timeseries_args
        ok_ts_create_aligned_timeseries_req"
  unfolding read_create_aligned_timeseries_args_def write_create_aligned_timeseries_args_def
  by (rule wireI) ((rule wire_rules wire_ts_create_aligned_timeseries_req | (simp; fail))+)

lemma wire_create_aligned_timeseries_result:
  "d + 18 \<le> n \<Longrightarrow>
     wire (read_create_aligned_timeseries_result P n) write_create_aligned_timeseries_result (opt_ok
           (ok_ts_status d))"
  unfolding read_create_aligned_timeseries_result_def write_create_aligned_timeseries_result_def
  by (rule wireI) ((rule wire_rules wire_ts_status | (simp; fail))+)

end

subsection \<open>\<^verbatim>\<open>create_multi_timeseries\<close>\<close>

definition read_create_multi_timeseries_args :: "'i in_protocol \<Rightarrow> nat \<Rightarrow> ('i, ts_create_multi_timeseries_req) rd"
      where
  "read_create_multi_timeseries_args P n =
     read_struct P n
       (\<lambda>k ty f1.
          if k = 1 then store (read_ts_create_multi_timeseries_req P n) (\<lambda>v. v)
          else skip_field P ty f1)
       None
       (\<lambda>f1.
          bindp (required P ''IClientRPCServiceCreateMultiTimeseriesArgs.req'' f1) (\<lambda>f1.
          retp f1))"

definition write_create_multi_timeseries_args :: "ts_create_multi_timeseries_req \<Rightarrow> out_call list" where
  "write_create_multi_timeseries_args v =
     w_struct ''createMultiTimeseries_args'' (w_field ''req'' TyStruct 1 write_ts_create_multi_timeseries_req
           v)"

definition read_create_multi_timeseries_result :: "'i in_protocol \<Rightarrow> nat \<Rightarrow> ('i, ts_status option) rd" where
  "read_create_multi_timeseries_result P n =
     read_struct P n
       (\<lambda>k ty f0.
          if k = 0 then store (read_ts_status P n) (\<lambda>v. v)
          else skip_field P ty f0)
       None
       (\<lambda>f0.
          retp f0)"

definition write_create_multi_timeseries_result :: "ts_status option \<Rightarrow> out_call list" where
  "write_create_multi_timeseries_result v =
     w_struct ''IClientRPCServiceCreateMultiTimeseriesResult'' (w_opt ''result_value'' TyStruct 0
           write_ts_status v)"

definition rpc_create_multi_timeseries ::
    "'i in_protocol \<Rightarrow> 'o out_protocol \<Rightarrow> nat \<Rightarrow> ts_create_multi_timeseries_req \<Rightarrow> ('i, 'o) rpc_client \<Rightarrow>
     ts_status read_result \<times> ('i, 'o) rpc_client" where
  "rpc_create_multi_timeseries P Q n req =
     rpc_call P Q ''createMultiTimeseries'' ''IClientRPCServiceCreateMultiTimeseries''
       (write_create_multi_timeseries_args req) (read_create_multi_timeseries_result P n)"

context thrift_wire
begin

lemma wire_create_multi_timeseries_args:
  "18 \<le> n \<Longrightarrow> wire (read_create_multi_timeseries_args P n) write_create_multi_timeseries_args
        ok_ts_create_multi_timeseries_req"
  unfolding read_create_multi_timeseries_args_def write_create_multi_timeseries_args_def
  by (rule wireI) ((rule wire_rules wire_ts_create_multi_timeseries_req | (simp; fail))+)

lemma wire_create_multi_timeseries_result:
  "d + 18 \<le> n \<Longrightarrow>
     wire (read_create_multi_timeseries_result P n) write_create_multi_timeseries_result (opt_ok (ok_ts_status
           d))"
  unfolding read_create_multi_timeseries_result_def write_create_multi_timeseries_result_def
  by (rule wireI) ((rule wire_rules wire_ts_status | (simp; fail))+)

end

subsection \<open>\<^verbatim>\<open>delete_timeseries\<close>\<close>

definition read_delete_timeseries_args :: "'i in_protocol \<Rightarrow> nat \<Rightarrow> ('i, i64 \<times> string list) rd" where
  "read_delete_timeseries_args P n =
     read_struct P n
       (\<lambda>k ty (f1, f2).
          if k = 1 then store (callp (ip_i64 P)) (\<lambda>v. (v, f2))
          else if k = 2 then store (read_list P (callp (ip_string P))) (\<lambda>v. (f1, v))
          else skip_field P ty (f1, f2))
       (None, None)
       (\<lambda>(f1, f2).
          bindp (required P ''IClientRPCServiceDeleteTimeseriesArgs.session_id'' f1) (\<lambda>f1.
          bindp (required P ''IClientRPCServiceDeleteTimeseriesArgs.path'' f2) (\<lambda>f2.
          retp (f1, f2))))"

definition write_delete_timeseries_args :: "i64 \<times> string list \<Rightarrow> out_call list" where
  "write_delete_timeseries_args = (\<lambda>(session_id, path).
     w_struct ''deleteTimeseries_args''
       (w_field ''sessionId'' TyI64 1 w_i64 session_id @
        w_field ''path'' TyList 2 (w_list TyString w_string) path))"

definition read_delete_timeseries_result :: "'i in_protocol \<Rightarrow> nat \<Rightarrow> ('i, ts_status option) rd" where
  "read_delete_timeseries_result P n =
     read_struct P n
       (\<lambda>k ty f0.
          if k = 0 then store (read_ts_status P n) (\<lambda>v. v)
          else skip_field P ty f0)
       None
       (\<lambda>f0.
          retp f0)"

definition write_delete_timeseries_result :: "ts_status option \<Rightarrow> out_call list" where
  "write_delete_timeseries_result v =
     w_struct ''IClientRPCServiceDeleteTimeseriesResult'' (w_opt ''result_value'' TyStruct 0 write_ts_status v)"

definition rpc_delete_timeseries ::
    "'i in_protocol \<Rightarrow> 'o out_protocol \<Rightarrow> nat \<Rightarrow> i64 \<times> string list \<Rightarrow> ('i, 'o) rpc_client \<Rightarrow>
     ts_status read_result \<times> ('i, 'o) rpc_client" where
  "rpc_delete_timeseries P Q n req =
     rpc_call P Q ''deleteTimeseries'' ''IClientRPCServiceDeleteTimeseries''
       (write_delete_timeseries_args req) (read_delete_timeseries_result P n)"

context thrift_wire
begin

lemma wire_delete_timeseries_args:
  "18 \<le> n \<Longrightarrow> wire (read_delete_timeseries_args P n) write_delete_timeseries_args (\<lambda>(_, path). list_ok str_ok
        path)"
  unfolding read_delete_timeseries_args_def write_delete_timeseries_args_def
  by (rule wireI2, rule reads_struct) ((rule wire_rules | (simp; fail))+)

lemma wire_delete_timeseries_result:
  "d + 18 \<le> n \<Longrightarrow>
     wire (read_delete_timeseries_result P n) write_delete_timeseries_result (opt_ok (ok_ts_status d))"
  unfolding read_delete_timeseries_result_def write_delete_timeseries_result_def
  by (rule wireI) ((rule wire_rules wire_ts_status | (simp; fail))+)

end

subsection \<open>\<^verbatim>\<open>delete_storage_groups\<close>\<close>

definition read_delete_storage_groups_args :: "'i in_protocol \<Rightarrow> nat \<Rightarrow> ('i, i64 \<times> string list) rd" where
  "read_delete_storage_groups_args P n =
     read_struct P n
       (\<lambda>k ty (f1, f2).
          if k = 1 then store (callp (ip_i64 P)) (\<lambda>v. (v, f2))
          else if k = 2 then store (read_list P (callp (ip_string P))) (\<lambda>v. (f1, v))
          else skip_field P ty (f1, f2))
       (None, None)
       (\<lambda>(f1, f2).
          bindp (required P ''IClientRPCServiceDeleteStorageGroupsArgs.session_id'' f1) (\<lambda>f1.
          bindp (required P ''IClientRPCServiceDeleteStorageGroupsArgs.storage_group'' f2) (\<lambda>f2.
          retp (f1, f2))))"

definition write_delete_storage_groups_args :: "i64 \<times> string list \<Rightarrow> out_call list" where
  "write_delete_storage_groups_args = (\<lambda>(session_id, storage_group).
     w_struct ''deleteStorageGroups_args''
       (w_field ''sessionId'' TyI64 1 w_i64 session_id @
        w_field ''storageGroup'' TyList 2 (w_list TyString w_string) storage_group))"

definition read_delete_storage_groups_result :: "'i in_protocol \<Rightarrow> nat \<Rightarrow> ('i, ts_status option) rd" where
  "read_delete_storage_groups_result P n =
     read_struct P n
       (\<lambda>k ty f0.
          if k = 0 then store (read_ts_status P n) (\<lambda>v. v)
          else skip_field P ty f0)
       None
       (\<lambda>f0.
          retp f0)"

definition write_delete_storage_groups_result :: "ts_status option \<Rightarrow> out_call list" where
  "write_delete_storage_groups_result v =
     w_struct ''IClientRPCServiceDeleteStorageGroupsResult'' (w_opt ''result_value'' TyStruct 0 write_ts_status
           v)"

definition rpc_delete_storage_groups ::
    "'i in_protocol \<Rightarrow> 'o out_protocol \<Rightarrow> nat \<Rightarrow> i64 \<times> string list \<Rightarrow> ('i, 'o) rpc_client \<Rightarrow>
     ts_status read_result \<times> ('i, 'o) rpc_client" where
  "rpc_delete_storage_groups P Q n req =
     rpc_call P Q ''deleteStorageGroups'' ''IClientRPCServiceDeleteStorageGroups''
       (write_delete_storage_groups_args req) (read_delete_storage_groups_result P n)"

context thrift_wire
begin

lemma wire_delete_storage_groups_args:
  "18 \<le> n \<Longrightarrow> wire (read_delete_storage_groups_args P n) write_delete_storage_groups_args (\<lambda>(_, storage_group).
        list_ok str_ok storage_group)"
  unfolding read_delete_storage_groups_args_def write_delete_storage_groups_args_def
  by (rule wireI2, rule reads_struct) ((rule wire_rules | (simp; fail))+)

lemma wire_delete_storage_groups_result:
  "d + 18 \<le> n \<Longrightarrow>
     wire (read_delete_storage_groups_result P n) write_delete_storage_groups_result (opt_ok (ok_ts_status d))"
  unfolding read_delete_storage_groups_result_def write_delete_storage_groups_result_def
  by (rule wireI) ((rule wire_rules wire_ts_status | (simp; fail))+)

end

subsection \<open>\<^verbatim>\<open>insert_string_record\<close>\<close>

definition read_insert_string_record_args :: "'i in_protocol \<Rightarrow> nat \<Rightarrow> ('i, ts_insert_string_record_req) rd" where
  "read_insert_string_record_args P n =
     read_struct P n
       (\<lambda>k ty f1.
          if k = 1 then store (read_ts_insert_string_record_req P n) (\<lambda>v. v)
          else skip_field P ty f1)
       None
       (\<lambda>f1.
          bindp (required P ''IClientRPCServiceInsertStringRecordArgs.req'' f1) (\<lambda>f1.
          retp f1))"

definition write_insert_string_record_args :: "ts_insert_string_record_req \<Rightarrow> out_call list" where
  "write_insert_string_record_args v =
     w_struct ''insertStringRecord_args'' (w_field ''req'' TyStruct 1 write_ts_insert_string_record_req v)"

definition read_insert_string_record_result :: "'i in_protocol \<Rightarrow> nat \<Rightarrow> ('i, ts_status option) rd" where
  "read_insert_string_record_result P n =
     read_struct P n
       (\<lambda>k ty f0.
          if k = 0 then store (read_ts_status P n) (\<lambda>v. v)
          else skip_field P ty f0)
       None
       (\<lambda>f0.
          retp f0)"

definition write_insert_string_record_result :: "ts_status option \<Rightarrow> out_call list" where
  "write_insert_string_record_result v =
     w_struct ''IClientRPCServiceInsertStringRecordResult'' (w_opt ''result_value'' TyStruct 0 write_ts_status
           v)"

definition rpc_insert_string_record ::
    "'i in_protocol \<Rightarrow> 'o out_protocol \<Rightarrow> nat \<Rightarrow> ts_insert_string_record_req \<Rightarrow> ('i, 'o) rpc_client \<Rightarrow>
     ts_status read_result \<times> ('i, 'o) rpc_client" where
  "rpc_insert_string_record P Q n req =
     rpc_call P Q ''insertStringRecord'' ''IClientRPCServiceInsertStringRecord''
       (write_insert_string_record_args req) (read_insert_string_record_result P n)"

context thrift_wire
begin

lemma wire_insert_string_record_args:
  "18 \<le> n \<Longrightarrow> wire (read_insert_string_record_args P n) write_insert_string_record_args
        ok_ts_insert_string_record_req"
  unfolding read_insert_string_record_args_def write_insert_string_record_args_def
  by (rule wireI) ((rule wire_rules wire_ts_insert_string_record_req | (simp; fail))+)

lemma wire_insert_string_record_result:
  "d + 18 \<le> n \<Longrightarrow>
     wire (read_insert_string_record_result P n) write_insert_string_record_result (opt_ok (ok_ts_status d))"
  unfolding read_insert_string_record_result_def write_insert_string_record_result_def
  by (rule wireI) ((rule wire_rules wire_ts_status | (simp; fail))+)

end

subsection \<open>\<^verbatim>\<open>insert_string_records_of_one_device\<close>\<close>

definition read_insert_string_records_of_one_device_args :: "'i in_protocol \<Rightarrow> nat \<Rightarrow> ('i,
      ts_insert_string_records_of_one_device_req) rd" where
  "read_insert_string_records_of_one_device_args P n =
     read_struct P n
       (\<lambda>k ty f1.
          if k = 1 then store (read_ts_insert_string_records_of_one_device_req P n) (\<lambda>v. v)
          else skip_field P ty f1)
       None
       (\<lambda>f1.
          bindp (required P ''IClientRPCServiceInsertStringRecordsOfOneDeviceArgs.req'' f1) (\<lambda>f1.
          retp f1))"

definition write_insert_string_records_of_one_device_args :: "ts_insert_string_records_of_one_device_req \<Rightarrow>
      out_call list" where
  "write_insert_string_records_of_one_device_args v =
     w_struct ''insertStringRecordsOfOneDevice_args'' (w_field ''req'' TyStruct 1
           write_ts_insert_string_records_of_one_device_req v)"

definition read_insert_string_records_of_one_device_result :: "'i in_protocol \<Rightarrow> nat \<Rightarrow> ('i, ts_status option) rd"
      where
  "read_insert_string_records_of_one_device_result P n =
     read_struct P n
       (\<lambda>k ty f0.
          if k = 0 then store (read_ts_status P n) (\<lambda>v. v)
          else skip_field P ty f0)
       None
       (\<lambda>f0.
          retp f0)"

definition write_insert_string_records_of_one_device_result :: "ts_status option \<Rightarrow> out_call list" where
  "write_insert_string_records_of_one_device_result v =
     w_struct ''IClientRPCServiceInsertStringRecordsOfOneDeviceResult'' (w_opt ''result_value'' TyStruct 0
           write_ts_status v)"

definition rpc_insert_string_records_of_one_device ::
    "'i in_protocol \<Rightarrow> 'o out_protocol \<Rightarrow> nat \<Rightarrow> ts_insert_string_records_of_one_device_req \<Rightarrow> ('i, 'o) rpc_client \<Rightarrow>
     ts_status read_result \<times> ('i, 'o) rpc_client" where
  "rpc_insert_string_records_of_one_device P Q n req =
     rpc_call P Q ''insertStringRecordsOfOneDevice'' ''IClientRPCServiceInsertStringRecordsOfOneDevice''
       (write_insert_string_records_of_one_device_args req) (read_insert_string_records_of_one_device_result P
             n)"

context thrift_wire
begin

lemma wire_insert_string_records_of_one_device_args:
  "18 \<le> n \<Longrightarrow> wire (read_insert_string_records_of_one_device_args P n)
        write_insert_string_records_of_one_device_args ok_ts_insert_string_records_of_one_device_req"
  unfolding read_insert_string_records_of_one_device_args_def write_insert_string_records_of_one_device_args_def
  by (rule wireI) ((rule wire_rules wire_ts_insert_string_records_of_one_device_req | (simp; fail))+)

lemma wire_insert_string_records_of_one_device_result:
  "d + 18 \<le> n \<Longrightarrow>
     wire (read_insert_string_records_of_one_device_result P n) write_insert_string_records_of_one_device_result
           (opt_ok (ok_ts_status d))"
  unfolding read_insert_string_records_of_one_device_result_def
        write_insert_string_records_of_one_device_result_def
  by (rule wireI) ((rule wire_rules wire_ts_status | (simp; fail))+)

end

subsection \<open>\<^verbatim>\<open>insert_string_records\<close>\<close>

definition read_insert_string_records_args :: "'i in_protocol \<Rightarrow> nat \<Rightarrow> ('i, ts_insert_string_records_req) rd"
      where
  "read_insert_string_records_args P n =
     read_struct P n
       (\<lambda>k ty f1.
          if k = 1 then store (read_ts_insert_string_records_req P n) (\<lambda>v. v)
          else skip_field P ty f1)
       None
       (\<lambda>f1.
          bindp (required P ''IClientRPCServiceInsertStringRecordsArgs.req'' f1) (\<lambda>f1.
          retp f1))"

definition write_insert_string_records_args :: "ts_insert_string_records_req \<Rightarrow> out_call list" where
  "write_insert_string_records_args v =
     w_struct ''insertStringRecords_args'' (w_field ''req'' TyStruct 1 write_ts_insert_string_records_req v)"

definition read_insert_string_records_result :: "'i in_protocol \<Rightarrow> nat \<Rightarrow> ('i, ts_status option) rd" where
  "read_insert_string_records_result P n =
     read_struct P n
       (\<lambda>k ty f0.
          if k = 0 then store (read_ts_status P n) (\<lambda>v. v)
          else skip_field P ty f0)
       None
       (\<lambda>f0.
          retp f0)"

definition write_insert_string_records_result :: "ts_status option \<Rightarrow> out_call list" where
  "write_insert_string_records_result v =
     w_struct ''IClientRPCServiceInsertStringRecordsResult'' (w_opt ''result_value'' TyStruct 0 write_ts_status
           v)"

definition rpc_insert_string_records ::
    "'i in_protocol \<Rightarrow> 'o out_protocol \<Rightarrow> nat \<Rightarrow> ts_insert_string_records_req \<Rightarrow> ('i, 'o) rpc_client \<Rightarrow>
     ts_status read_result \<times> ('i, 'o) rpc_client" where
  "rpc_insert_string_records P Q n req =
     rpc_call P Q ''insertStringRecords'' ''IClientRPCServiceInsertStringRecords''
       (write_insert_string_records_args req) (read_insert_string_records_result P n)"

context thrift_wire
begin

lemma wire_insert_string_records_args:
  "18 \<le> n \<Longrightarrow> wire (read_insert_string_records_args P n) write_insert_string_records_args
        ok_ts_insert_string_records_req"
  unfolding read_insert_string_records_args_def write_insert_string_records_args_def
  by (rule wireI) ((rule wire_rules wire_ts_insert_string_records_req | (simp; fail))+)

lemma wire_insert_string_records_result:
  "d + 18 \<le> n \<Longrightarrow>
     wire (read_insert_string_records_result P n) write_insert_string_records_result (opt_ok (ok_ts_status d))"
  unfolding read_insert_string_records_result_def write_insert_string_records_result_def
  by (rule wireI) ((rule wire_rules wire_ts_status | (simp; fail))+)

end

end
