(* ===== verification/RpcAdmin.thy ===== *)
theory RpcAdmin
  imports RpcCall ThriftRequests ThriftStatements ThriftSchemas
begin

text \<open>
  Calls of the RPC service that the session never makes, with the structures of their arguments and
  results: test inserts, queries without SQL, schema templates, pipes, subscriptions and connections.
  Three of the argument readers match on the identifier \<^verbatim>\<open>neg1\<close>, which the generator meant as the number
  minus one and which binds any number: they take every field for the argument.
\<close>

subsection \<open>\<^verbatim>\<open>test_insert_tablet\<close>\<close>

definition read_test_insert_tablet_args :: "'i in_protocol \<Rightarrow> nat \<Rightarrow> ('i, ts_insert_tablet_req) rd" where
  "read_test_insert_tablet_args P n =
     read_struct P n
       (\<lambda>k ty f1.
          if k = 1 then store (read_ts_insert_tablet_req P n) (\<lambda>v. v)
          else skip_field P ty f1)
       None
       (\<lambda>f1.
          bindp (required P ''IClientRPCServiceTestInsertTabletArgs.req'' f1) (\<lambda>f1.
          retp f1))"

definition write_test_insert_tablet_args :: "ts_insert_tablet_req \<Rightarrow> out_call list" where
  "write_test_insert_tablet_args v =
     w_struct ''testInsertTablet_args'' (w_field ''req'' TyStruct 1 write_ts_insert_tablet_req v)"

definition read_test_insert_tablet_result :: "'i in_protocol \<Rightarrow> nat \<Rightarrow> ('i, ts_status option) rd" where
  "read_test_insert_tablet_result P n =
     read_struct P n
       (\<lambda>k ty f0.
          if k = 0 then store (read_ts_status P n) (\<lambda>v. v)
          else skip_field P ty f0)
       None
       (\<lambda>f0.
          retp f0)"

definition write_test_insert_tablet_result :: "ts_status option \<Rightarrow> out_call list" where
  "write_test_insert_tablet_result v =
     w_struct ''IClientRPCServiceTestInsertTabletResult'' (w_opt ''result_value'' TyStruct 0 write_ts_status v)"

definition rpc_test_insert_tablet ::
    "'i in_protocol \<Rightarrow> 'o out_protocol \<Rightarrow> nat \<Rightarrow> ts_insert_tablet_req \<Rightarrow> ('i, 'o) rpc_client \<Rightarrow>
     ts_status read_result \<times> ('i, 'o) rpc_client" where
  "rpc_test_insert_tablet P Q n req =
     rpc_call P Q ''testInsertTablet'' ''IClientRPCServiceTestInsertTablet''
       (write_test_insert_tablet_args req) (read_test_insert_tablet_result P n)"

context thrift_wire
begin

lemma wire_test_insert_tablet_args:
  "18 \<le> n \<Longrightarrow> wire (read_test_insert_tablet_args P n) write_test_insert_tablet_args ok_ts_insert_tablet_req"
  unfolding read_test_insert_tablet_args_def write_test_insert_tablet_args_def
  by (rule wireI) ((rule wire_rules wire_ts_insert_tablet_req | (simp; fail))+)

lemma wire_test_insert_tablet_result:
  "d + 18 \<le> n \<Longrightarrow>
     wire (read_test_insert_tablet_result P n) write_test_insert_tablet_result (opt_ok (ok_ts_status d))"
  unfolding read_test_insert_tablet_result_def write_test_insert_tablet_result_def
  by (rule wireI) ((rule wire_rules wire_ts_status | (simp; fail))+)

end

subsection \<open>\<^verbatim>\<open>test_insert_tablets\<close>\<close>

definition read_test_insert_tablets_args :: "'i in_protocol \<Rightarrow> nat \<Rightarrow> ('i, ts_insert_tablets_req) rd" where
  "read_test_insert_tablets_args P n =
     read_struct P n
       (\<lambda>k ty f1.
          if k = 1 then store (read_ts_insert_tablets_req P n) (\<lambda>v. v)
          else skip_field P ty f1)
       None
       (\<lambda>f1.
          bindp (required P ''IClientRPCServiceTestInsertTabletsArgs.req'' f1) (\<lambda>f1.
          retp f1))"

definition write_test_insert_tablets_args :: "ts_insert_tablets_req \<Rightarrow> out_call list" where
  "write_test_insert_tablets_args v =
     w_struct ''testInsertTablets_args'' (w_field ''req'' TyStruct 1 write_ts_insert_tablets_req v)"

definition read_test_insert_tablets_result :: "'i in_protocol \<Rightarrow> nat \<Rightarrow> ('i, ts_status option) rd" where
  "read_test_insert_tablets_result P n =
     read_struct P n
       (\<lambda>k ty f0.
          if k = 0 then store (read_ts_status P n) (\<lambda>v. v)
          else skip_field P ty f0)
       None
       (\<lambda>f0.
          retp f0)"

definition write_test_insert_tablets_result :: "ts_status option \<Rightarrow> out_call list" where
  "write_test_insert_tablets_result v =
     w_struct ''IClientRPCServiceTestInsertTabletsResult'' (w_opt ''result_value'' TyStruct 0 write_ts_status
           v)"

definition rpc_test_insert_tablets ::
    "'i in_protocol \<Rightarrow> 'o out_protocol \<Rightarrow> nat \<Rightarrow> ts_insert_tablets_req \<Rightarrow> ('i, 'o) rpc_client \<Rightarrow>
     ts_status read_result \<times> ('i, 'o) rpc_client" where
  "rpc_test_insert_tablets P Q n req =
     rpc_call P Q ''testInsertTablets'' ''IClientRPCServiceTestInsertTablets''
       (write_test_insert_tablets_args req) (read_test_insert_tablets_result P n)"

context thrift_wire
begin

lemma wire_test_insert_tablets_args:
  "18 \<le> n \<Longrightarrow> wire (read_test_insert_tablets_args P n) write_test_insert_tablets_args ok_ts_insert_tablets_req"
  unfolding read_test_insert_tablets_args_def write_test_insert_tablets_args_def
  by (rule wireI) ((rule wire_rules wire_ts_insert_tablets_req | (simp; fail))+)

lemma wire_test_insert_tablets_result:
  "d + 18 \<le> n \<Longrightarrow>
     wire (read_test_insert_tablets_result P n) write_test_insert_tablets_result (opt_ok (ok_ts_status d))"
  unfolding read_test_insert_tablets_result_def write_test_insert_tablets_result_def
  by (rule wireI) ((rule wire_rules wire_ts_status | (simp; fail))+)

end

subsection \<open>\<^verbatim>\<open>test_insert_record\<close>\<close>

definition read_test_insert_record_args :: "'i in_protocol \<Rightarrow> nat \<Rightarrow> ('i, ts_insert_record_req) rd" where
  "read_test_insert_record_args P n =
     read_struct P n
       (\<lambda>k ty f1.
          if k = 1 then store (read_ts_insert_record_req P n) (\<lambda>v. v)
          else skip_field P ty f1)
       None
       (\<lambda>f1.
          bindp (required P ''IClientRPCServiceTestInsertRecordArgs.req'' f1) (\<lambda>f1.
          retp f1))"

definition write_test_insert_record_args :: "ts_insert_record_req \<Rightarrow> out_call list" where
  "write_test_insert_record_args v =
     w_struct ''testInsertRecord_args'' (w_field ''req'' TyStruct 1 write_ts_insert_record_req v)"

definition read_test_insert_record_result :: "'i in_protocol \<Rightarrow> nat \<Rightarrow> ('i, ts_status option) rd" where
  "read_test_insert_record_result P n =
     read_struct P n
       (\<lambda>k ty f0.
          if k = 0 then store (read_ts_status P n) (\<lambda>v. v)
          else skip_field P ty f0)
       None
       (\<lambda>f0.
          retp f0)"

definition write_test_insert_record_result :: "ts_status option \<Rightarrow> out_call list" where
  "write_test_insert_record_result v =
     w_struct ''IClientRPCServiceTestInsertRecordResult'' (w_opt ''result_value'' TyStruct 0 write_ts_status v)"

definition rpc_test_insert_record ::
    "'i in_protocol \<Rightarrow> 'o out_protocol \<Rightarrow> nat \<Rightarrow> ts_insert_record_req \<Rightarrow> ('i, 'o) rpc_client \<Rightarrow>
     ts_status read_result \<times> ('i, 'o) rpc_client" where
  "rpc_test_insert_record P Q n req =
     rpc_call P Q ''testInsertRecord'' ''IClientRPCServiceTestInsertRecord''
       (write_test_insert_record_args req) (read_test_insert_record_result P n)"

context thrift_wire
begin

lemma wire_test_insert_record_args:
  "18 \<le> n \<Longrightarrow> wire (read_test_insert_record_args P n) write_test_insert_record_args ok_ts_insert_record_req"
  unfolding read_test_insert_record_args_def write_test_insert_record_args_def
  by (rule wireI) ((rule wire_rules wire_ts_insert_record_req | (simp; fail))+)

lemma wire_test_insert_record_result:
  "d + 18 \<le> n \<Longrightarrow>
     wire (read_test_insert_record_result P n) write_test_insert_record_result (opt_ok (ok_ts_status d))"
  unfolding read_test_insert_record_result_def write_test_insert_record_result_def
  by (rule wireI) ((rule wire_rules wire_ts_status | (simp; fail))+)

end

subsection \<open>\<^verbatim>\<open>test_insert_string_record\<close>\<close>

definition read_test_insert_string_record_args :: "'i in_protocol \<Rightarrow> nat \<Rightarrow> ('i, ts_insert_string_record_req) rd"
      where
  "read_test_insert_string_record_args P n =
     read_struct P n
       (\<lambda>k ty f1.
          if k = 1 then store (read_ts_insert_string_record_req P n) (\<lambda>v. v)
          else skip_field P ty f1)
       None
       (\<lambda>f1.
          bindp (required P ''IClientRPCServiceTestInsertStringRecordArgs.req'' f1) (\<lambda>f1.
          retp f1))"

definition write_test_insert_string_record_args :: "ts_insert_string_record_req \<Rightarrow> out_call list" where
  "write_test_insert_string_record_args v =
     w_struct ''testInsertStringRecord_args'' (w_field ''req'' TyStruct 1 write_ts_insert_string_record_req v)"

definition read_test_insert_string_record_result :: "'i in_protocol \<Rightarrow> nat \<Rightarrow> ('i, ts_status option) rd" where
  "read_test_insert_string_record_result P n =
     read_struct P n
       (\<lambda>k ty f0.
          if k = 0 then store (read_ts_status P n) (\<lambda>v. v)
          else skip_field P ty f0)
       None
       (\<lambda>f0.
          retp f0)"

definition write_test_insert_string_record_result :: "ts_status option \<Rightarrow> out_call list" where
  "write_test_insert_string_record_result v =
     w_struct ''IClientRPCServiceTestInsertStringRecordResult'' (w_opt ''result_value'' TyStruct 0
           write_ts_status v)"

definition rpc_test_insert_string_record ::
    "'i in_protocol \<Rightarrow> 'o out_protocol \<Rightarrow> nat \<Rightarrow> ts_insert_string_record_req \<Rightarrow> ('i, 'o) rpc_client \<Rightarrow>
     ts_status read_result \<times> ('i, 'o) rpc_client" where
  "rpc_test_insert_string_record P Q n req =
     rpc_call P Q ''testInsertStringRecord'' ''IClientRPCServiceTestInsertStringRecord''
       (write_test_insert_string_record_args req) (read_test_insert_string_record_result P n)"

context thrift_wire
begin

lemma wire_test_insert_string_record_args:
  "18 \<le> n \<Longrightarrow> wire (read_test_insert_string_record_args P n) write_test_insert_string_record_args
        ok_ts_insert_string_record_req"
  unfolding read_test_insert_string_record_args_def write_test_insert_string_record_args_def
  by (rule wireI) ((rule wire_rules wire_ts_insert_string_record_req | (simp; fail))+)

lemma wire_test_insert_string_record_result:
  "d + 18 \<le> n \<Longrightarrow>
     wire (read_test_insert_string_record_result P n) write_test_insert_string_record_result (opt_ok
           (ok_ts_status d))"
  unfolding read_test_insert_string_record_result_def write_test_insert_string_record_result_def
  by (rule wireI) ((rule wire_rules wire_ts_status | (simp; fail))+)

end

subsection \<open>\<^verbatim>\<open>test_insert_records\<close>\<close>

definition read_test_insert_records_args :: "'i in_protocol \<Rightarrow> nat \<Rightarrow> ('i, ts_insert_records_req) rd" where
  "read_test_insert_records_args P n =
     read_struct P n
       (\<lambda>k ty f1.
          if k = 1 then store (read_ts_insert_records_req P n) (\<lambda>v. v)
          else skip_field P ty f1)
       None
       (\<lambda>f1.
          bindp (required P ''IClientRPCServiceTestInsertRecordsArgs.req'' f1) (\<lambda>f1.
          retp f1))"

definition write_test_insert_records_args :: "ts_insert_records_req \<Rightarrow> out_call list" where
  "write_test_insert_records_args v =
     w_struct ''testInsertRecords_args'' (w_field ''req'' TyStruct 1 write_ts_insert_records_req v)"

definition read_test_insert_records_result :: "'i in_protocol \<Rightarrow> nat \<Rightarrow> ('i, ts_status option) rd" where
  "read_test_insert_records_result P n =
     read_struct P n
       (\<lambda>k ty f0.
          if k = 0 then store (read_ts_status P n) (\<lambda>v. v)
          else skip_field P ty f0)
       None
       (\<lambda>f0.
          retp f0)"

definition write_test_insert_records_result :: "ts_status option \<Rightarrow> out_call list" where
  "write_test_insert_records_result v =
     w_struct ''IClientRPCServiceTestInsertRecordsResult'' (w_opt ''result_value'' TyStruct 0 write_ts_status
           v)"

definition rpc_test_insert_records ::
    "'i in_protocol \<Rightarrow> 'o out_protocol \<Rightarrow> nat \<Rightarrow> ts_insert_records_req \<Rightarrow> ('i, 'o) rpc_client \<Rightarrow>
     ts_status read_result \<times> ('i, 'o) rpc_client" where
  "rpc_test_insert_records P Q n req =
     rpc_call P Q ''testInsertRecords'' ''IClientRPCServiceTestInsertRecords''
       (write_test_insert_records_args req) (read_test_insert_records_result P n)"

context thrift_wire
begin

lemma wire_test_insert_records_args:
  "18 \<le> n \<Longrightarrow> wire (read_test_insert_records_args P n) write_test_insert_records_args ok_ts_insert_records_req"
  unfolding read_test_insert_records_args_def write_test_insert_records_args_def
  by (rule wireI) ((rule wire_rules wire_ts_insert_records_req | (simp; fail))+)

lemma wire_test_insert_records_result:
  "d + 18 \<le> n \<Longrightarrow>
     wire (read_test_insert_records_result P n) write_test_insert_records_result (opt_ok (ok_ts_status d))"
  unfolding read_test_insert_records_result_def write_test_insert_records_result_def
  by (rule wireI) ((rule wire_rules wire_ts_status | (simp; fail))+)

end

subsection \<open>\<^verbatim>\<open>test_insert_records_of_one_device\<close>\<close>

definition read_test_insert_records_of_one_device_args :: "'i in_protocol \<Rightarrow> nat \<Rightarrow> ('i,
      ts_insert_records_of_one_device_req) rd" where
  "read_test_insert_records_of_one_device_args P n =
     read_struct P n
       (\<lambda>k ty f1.
          if k = 1 then store (read_ts_insert_records_of_one_device_req P n) (\<lambda>v. v)
          else skip_field P ty f1)
       None
       (\<lambda>f1.
          bindp (required P ''IClientRPCServiceTestInsertRecordsOfOneDeviceArgs.req'' f1) (\<lambda>f1.
          retp f1))"

definition write_test_insert_records_of_one_device_args :: "ts_insert_records_of_one_device_req \<Rightarrow> out_call list"
      where
  "write_test_insert_records_of_one_device_args v =
     w_struct ''testInsertRecordsOfOneDevice_args'' (w_field ''req'' TyStruct 1
           write_ts_insert_records_of_one_device_req v)"

definition read_test_insert_records_of_one_device_result :: "'i in_protocol \<Rightarrow> nat \<Rightarrow> ('i, ts_status option) rd"
      where
  "read_test_insert_records_of_one_device_result P n =
     read_struct P n
       (\<lambda>k ty f0.
          if k = 0 then store (read_ts_status P n) (\<lambda>v. v)
          else skip_field P ty f0)
       None
       (\<lambda>f0.
          retp f0)"

definition write_test_insert_records_of_one_device_result :: "ts_status option \<Rightarrow> out_call list" where
  "write_test_insert_records_of_one_device_result v =
     w_struct ''IClientRPCServiceTestInsertRecordsOfOneDeviceResult'' (w_opt ''result_value'' TyStruct 0
           write_ts_status v)"

definition rpc_test_insert_records_of_one_device ::
    "'i in_protocol \<Rightarrow> 'o out_protocol \<Rightarrow> nat \<Rightarrow> ts_insert_records_of_one_device_req \<Rightarrow> ('i, 'o) rpc_client \<Rightarrow>
     ts_status read_result \<times> ('i, 'o) rpc_client" where
  "rpc_test_insert_records_of_one_device P Q n req =
     rpc_call P Q ''testInsertRecordsOfOneDevice'' ''IClientRPCServiceTestInsertRecordsOfOneDevice''
       (write_test_insert_records_of_one_device_args req) (read_test_insert_records_of_one_device_result P n)"

context thrift_wire
begin

lemma wire_test_insert_records_of_one_device_args:
  "18 \<le> n \<Longrightarrow> wire (read_test_insert_records_of_one_device_args P n) write_test_insert_records_of_one_device_args
        ok_ts_insert_records_of_one_device_req"
  unfolding read_test_insert_records_of_one_device_args_def write_test_insert_records_of_one_device_args_def
  by (rule wireI) ((rule wire_rules wire_ts_insert_records_of_one_device_req | (simp; fail))+)

lemma wire_test_insert_records_of_one_device_result:
  "d + 18 \<le> n \<Longrightarrow>
     wire (read_test_insert_records_of_one_device_result P n) write_test_insert_records_of_one_device_result
           (opt_ok (ok_ts_status d))"
  unfolding read_test_insert_records_of_one_device_result_def write_test_insert_records_of_one_device_result_def
  by (rule wireI) ((rule wire_rules wire_ts_status | (simp; fail))+)

end

subsection \<open>\<^verbatim>\<open>test_insert_string_records\<close>\<close>

definition read_test_insert_string_records_args :: "'i in_protocol \<Rightarrow> nat \<Rightarrow> ('i, ts_insert_string_records_req)
      rd" where
  "read_test_insert_string_records_args P n =
     read_struct P n
       (\<lambda>k ty f1.
          if k = 1 then store (read_ts_insert_string_records_req P n) (\<lambda>v. v)
          else skip_field P ty f1)
       None
       (\<lambda>f1.
          bindp (required P ''IClientRPCServiceTestInsertStringRecordsArgs.req'' f1) (\<lambda>f1.
          retp f1))"

definition write_test_insert_string_records_args :: "ts_insert_string_records_req \<Rightarrow> out_call list" where
  "write_test_insert_string_records_args v =
     w_struct ''testInsertStringRecords_args'' (w_field ''req'' TyStruct 1 write_ts_insert_string_records_req
           v)"

definition read_test_insert_string_records_result :: "'i in_protocol \<Rightarrow> nat \<Rightarrow> ('i, ts_status option) rd" where
  "read_test_insert_string_records_result P n =
     read_struct P n
       (\<lambda>k ty f0.
          if k = 0 then store (read_ts_status P n) (\<lambda>v. v)
          else skip_field P ty f0)
       None
       (\<lambda>f0.
          retp f0)"

definition write_test_insert_string_records_result :: "ts_status option \<Rightarrow> out_call list" where
  "write_test_insert_string_records_result v =
     w_struct ''IClientRPCServiceTestInsertStringRecordsResult'' (w_opt ''result_value'' TyStruct 0
           write_ts_status v)"

definition rpc_test_insert_string_records ::
    "'i in_protocol \<Rightarrow> 'o out_protocol \<Rightarrow> nat \<Rightarrow> ts_insert_string_records_req \<Rightarrow> ('i, 'o) rpc_client \<Rightarrow>
     ts_status read_result \<times> ('i, 'o) rpc_client" where
  "rpc_test_insert_string_records P Q n req =
     rpc_call P Q ''testInsertStringRecords'' ''IClientRPCServiceTestInsertStringRecords''
       (write_test_insert_string_records_args req) (read_test_insert_string_records_result P n)"

context thrift_wire
begin

lemma wire_test_insert_string_records_args:
  "18 \<le> n \<Longrightarrow> wire (read_test_insert_string_records_args P n) write_test_insert_string_records_args
        ok_ts_insert_string_records_req"
  unfolding read_test_insert_string_records_args_def write_test_insert_string_records_args_def
  by (rule wireI) ((rule wire_rules wire_ts_insert_string_records_req | (simp; fail))+)

lemma wire_test_insert_string_records_result:
  "d + 18 \<le> n \<Longrightarrow>
     wire (read_test_insert_string_records_result P n) write_test_insert_string_records_result (opt_ok
           (ok_ts_status d))"
  unfolding read_test_insert_string_records_result_def write_test_insert_string_records_result_def
  by (rule wireI) ((rule wire_rules wire_ts_status | (simp; fail))+)

end

subsection \<open>\<^verbatim>\<open>delete_data\<close>\<close>

definition read_delete_data_args :: "'i in_protocol \<Rightarrow> nat \<Rightarrow> ('i, ts_delete_data_req) rd" where
  "read_delete_data_args P n =
     read_struct P n
       (\<lambda>k ty f1.
          if k = 1 then store (read_ts_delete_data_req P n) (\<lambda>v. v)
          else skip_field P ty f1)
       None
       (\<lambda>f1.
          bindp (required P ''IClientRPCServiceDeleteDataArgs.req'' f1) (\<lambda>f1.
          retp f1))"

definition write_delete_data_args :: "ts_delete_data_req \<Rightarrow> out_call list" where
  "write_delete_data_args v =
     w_struct ''deleteData_args'' (w_field ''req'' TyStruct 1 write_ts_delete_data_req v)"

definition read_delete_data_result :: "'i in_protocol \<Rightarrow> nat \<Rightarrow> ('i, ts_status option) rd" where
  "read_delete_data_result P n =
     read_struct P n
       (\<lambda>k ty f0.
          if k = 0 then store (read_ts_status P n) (\<lambda>v. v)
          else skip_field P ty f0)
       None
       (\<lambda>f0.
          retp f0)"

definition write_delete_data_result :: "ts_status option \<Rightarrow> out_call list" where
  "write_delete_data_result v =
     w_struct ''IClientRPCServiceDeleteDataResult'' (w_opt ''result_value'' TyStruct 0 write_ts_status v)"

definition rpc_delete_data ::
    "'i in_protocol \<Rightarrow> 'o out_protocol \<Rightarrow> nat \<Rightarrow> ts_delete_data_req \<Rightarrow> ('i, 'o) rpc_client \<Rightarrow>
     ts_status read_result \<times> ('i, 'o) rpc_client" where
  "rpc_delete_data P Q n req =
     rpc_call P Q ''deleteData'' ''IClientRPCServiceDeleteData''
       (write_delete_data_args req) (read_delete_data_result P n)"

context thrift_wire
begin

lemma wire_delete_data_args:
  "18 \<le> n \<Longrightarrow> wire (read_delete_data_args P n) write_delete_data_args ok_ts_delete_data_req"
  unfolding read_delete_data_args_def write_delete_data_args_def
  by (rule wireI) ((rule wire_rules wire_ts_delete_data_req | (simp; fail))+)

lemma wire_delete_data_result:
  "d + 18 \<le> n \<Longrightarrow>
     wire (read_delete_data_result P n) write_delete_data_result (opt_ok (ok_ts_status d))"
  unfolding read_delete_data_result_def write_delete_data_result_def
  by (rule wireI) ((rule wire_rules wire_ts_status | (simp; fail))+)

end

subsection \<open>\<^verbatim>\<open>execute_raw_data_query\<close>\<close>

definition read_execute_raw_data_query_args :: "'i in_protocol \<Rightarrow> nat \<Rightarrow> ('i, ts_raw_data_query_req) rd" where
  "read_execute_raw_data_query_args P n =
     read_struct P n
       (\<lambda>k ty f1.
          if k = 1 then store (read_ts_raw_data_query_req P n) (\<lambda>v. v)
          else skip_field P ty f1)
       None
       (\<lambda>f1.
          bindp (required P ''IClientRPCServiceExecuteRawDataQueryArgs.req'' f1) (\<lambda>f1.
          retp f1))"

definition write_execute_raw_data_query_args :: "ts_raw_data_query_req \<Rightarrow> out_call list" where
  "write_execute_raw_data_query_args v =
     w_struct ''executeRawDataQuery_args'' (w_field ''req'' TyStruct 1 write_ts_raw_data_query_req v)"

definition read_execute_raw_data_query_result :: "'i in_protocol \<Rightarrow> nat \<Rightarrow> ('i, ts_execute_statement_resp option)
      rd" where
  "read_execute_raw_data_query_result P n =
     read_struct P n
       (\<lambda>k ty f0.
          if k = 0 then store (read_ts_execute_statement_resp P n) (\<lambda>v. v)
          else skip_field P ty f0)
       None
       (\<lambda>f0.
          retp f0)"

definition write_execute_raw_data_query_result :: "ts_execute_statement_resp option \<Rightarrow> out_call list" where
  "write_execute_raw_data_query_result v =
     w_struct ''IClientRPCServiceExecuteRawDataQueryResult'' (w_opt ''result_value'' TyStruct 0
           write_ts_execute_statement_resp v)"

definition rpc_execute_raw_data_query ::
    "'i in_protocol \<Rightarrow> 'o out_protocol \<Rightarrow> nat \<Rightarrow> ts_raw_data_query_req \<Rightarrow> ('i, 'o) rpc_client \<Rightarrow>
     ts_execute_statement_resp read_result \<times> ('i, 'o) rpc_client" where
  "rpc_execute_raw_data_query P Q n req =
     rpc_call P Q ''executeRawDataQuery'' ''IClientRPCServiceExecuteRawDataQuery''
       (write_execute_raw_data_query_args req) (read_execute_raw_data_query_result P n)"

context thrift_wire
begin

lemma wire_execute_raw_data_query_args:
  "18 \<le> n \<Longrightarrow> wire (read_execute_raw_data_query_args P n) write_execute_raw_data_query_args
        ok_ts_raw_data_query_req"
  unfolding read_execute_raw_data_query_args_def write_execute_raw_data_query_args_def
  by (rule wireI) ((rule wire_rules wire_ts_raw_data_query_req | (simp; fail))+)

lemma wire_execute_raw_data_query_result:
  "d + 18 \<le> n \<Longrightarrow>
     wire (read_execute_raw_data_query_result P n) write_execute_raw_data_query_result (opt_ok
           (ok_ts_execute_statement_resp d))"
  unfolding read_execute_raw_data_query_result_def write_execute_raw_data_query_result_def
  by (rule wireI) ((rule wire_rules wire_ts_execute_statement_resp | (simp; fail))+)

end

subsection \<open>\<^verbatim>\<open>execute_last_data_query\<close>\<close>

definition read_execute_last_data_query_args :: "'i in_protocol \<Rightarrow> nat \<Rightarrow> ('i, ts_last_data_query_req) rd" where
  "read_execute_last_data_query_args P n =
     read_struct P n
       (\<lambda>k ty f1.
          if k = 1 then store (read_ts_last_data_query_req P n) (\<lambda>v. v)
          else skip_field P ty f1)
       None
       (\<lambda>f1.
          bindp (required P ''IClientRPCServiceExecuteLastDataQueryArgs.req'' f1) (\<lambda>f1.
          retp f1))"

definition write_execute_last_data_query_args :: "ts_last_data_query_req \<Rightarrow> out_call list" where
  "write_execute_last_data_query_args v =
     w_struct ''executeLastDataQuery_args'' (w_field ''req'' TyStruct 1 write_ts_last_data_query_req v)"

definition read_execute_last_data_query_result :: "'i in_protocol \<Rightarrow> nat \<Rightarrow> ('i, ts_execute_statement_resp option)
      rd" where
  "read_execute_last_data_query_result P n =
     read_struct P n
       (\<lambda>k ty f0.
          if k = 0 then store (read_ts_execute_statement_resp P n) (\<lambda>v. v)
          else skip_field P ty f0)
       None
       (\<lambda>f0.
          retp f0)"

definition write_execute_last_data_query_result :: "ts_execute_statement_resp option \<Rightarrow> out_call list" where
  "write_execute_last_data_query_result v =
     w_struct ''IClientRPCServiceExecuteLastDataQueryResult'' (w_opt ''result_value'' TyStruct 0
           write_ts_execute_statement_resp v)"

definition rpc_execute_last_data_query ::
    "'i in_protocol \<Rightarrow> 'o out_protocol \<Rightarrow> nat \<Rightarrow> ts_last_data_query_req \<Rightarrow> ('i, 'o) rpc_client \<Rightarrow>
     ts_execute_statement_resp read_result \<times> ('i, 'o) rpc_client" where
  "rpc_execute_last_data_query P Q n req =
     rpc_call P Q ''executeLastDataQuery'' ''IClientRPCServiceExecuteLastDataQuery''
       (write_execute_last_data_query_args req) (read_execute_last_data_query_result P n)"

context thrift_wire
begin

lemma wire_execute_last_data_query_args:
  "18 \<le> n \<Longrightarrow> wire (read_execute_last_data_query_args P n) write_execute_last_data_query_args
        ok_ts_last_data_query_req"
  unfolding read_execute_last_data_query_args_def write_execute_last_data_query_args_def
  by (rule wireI) ((rule wire_rules wire_ts_last_data_query_req | (simp; fail))+)

lemma wire_execute_last_data_query_result:
  "d + 18 \<le> n \<Longrightarrow>
     wire (read_execute_last_data_query_result P n) write_execute_last_data_query_result (opt_ok
           (ok_ts_execute_statement_resp d))"
  unfolding read_execute_last_data_query_result_def write_execute_last_data_query_result_def
  by (rule wireI) ((rule wire_rules wire_ts_execute_statement_resp | (simp; fail))+)

end

subsection \<open>\<^verbatim>\<open>execute_aggregation_query\<close>\<close>

definition read_execute_aggregation_query_args :: "'i in_protocol \<Rightarrow> nat \<Rightarrow> ('i, ts_aggregation_query_req) rd"
      where
  "read_execute_aggregation_query_args P n =
     read_struct P n
       (\<lambda>k ty f1.
          if k = 1 then store (read_ts_aggregation_query_req P n) (\<lambda>v. v)
          else skip_field P ty f1)
       None
       (\<lambda>f1.
          bindp (required P ''IClientRPCServiceExecuteAggregationQueryArgs.req'' f1) (\<lambda>f1.
          retp f1))"

definition write_execute_aggregation_query_args :: "ts_aggregation_query_req \<Rightarrow> out_call list" where
  "write_execute_aggregation_query_args v =
     w_struct ''executeAggregationQuery_args'' (w_field ''req'' TyStruct 1 write_ts_aggregation_query_req v)"

definition read_execute_aggregation_query_result :: "'i in_protocol \<Rightarrow> nat \<Rightarrow> ('i, ts_execute_statement_resp
      option) rd" where
  "read_execute_aggregation_query_result P n =
     read_struct P n
       (\<lambda>k ty f0.
          if k = 0 then store (read_ts_execute_statement_resp P n) (\<lambda>v. v)
          else skip_field P ty f0)
       None
       (\<lambda>f0.
          retp f0)"

definition write_execute_aggregation_query_result :: "ts_execute_statement_resp option \<Rightarrow> out_call list" where
  "write_execute_aggregation_query_result v =
     w_struct ''IClientRPCServiceExecuteAggregationQueryResult'' (w_opt ''result_value'' TyStruct 0
           write_ts_execute_statement_resp v)"

definition rpc_execute_aggregation_query ::
    "'i in_protocol \<Rightarrow> 'o out_protocol \<Rightarrow> nat \<Rightarrow> ts_aggregation_query_req \<Rightarrow> ('i, 'o) rpc_client \<Rightarrow>
     ts_execute_statement_resp read_result \<times> ('i, 'o) rpc_client" where
  "rpc_execute_aggregation_query P Q n req =
     rpc_call P Q ''executeAggregationQuery'' ''IClientRPCServiceExecuteAggregationQuery''
       (write_execute_aggregation_query_args req) (read_execute_aggregation_query_result P n)"

context thrift_wire
begin

lemma wire_execute_aggregation_query_args:
  "18 \<le> n \<Longrightarrow> wire (read_execute_aggregation_query_args P n) write_execute_aggregation_query_args
        ok_ts_aggregation_query_req"
  unfolding read_execute_aggregation_query_args_def write_execute_aggregation_query_args_def
  by (rule wireI) ((rule wire_rules wire_ts_aggregation_query_req | (simp; fail))+)

lemma wire_execute_aggregation_query_result:
  "d + 18 \<le> n \<Longrightarrow>
     wire (read_execute_aggregation_query_result P n) write_execute_aggregation_query_result (opt_ok
           (ok_ts_execute_statement_resp d))"
  unfolding read_execute_aggregation_query_result_def write_execute_aggregation_query_result_def
  by (rule wireI) ((rule wire_rules wire_ts_execute_statement_resp | (simp; fail))+)

end

subsection \<open>\<^verbatim>\<open>create_schema_template\<close>\<close>

definition read_create_schema_template_args :: "'i in_protocol \<Rightarrow> nat \<Rightarrow> ('i, ts_create_schema_template_req) rd"
      where
  "read_create_schema_template_args P n =
     read_struct P n
       (\<lambda>k ty f1.
          if k = 1 then store (read_ts_create_schema_template_req P n) (\<lambda>v. v)
          else skip_field P ty f1)
       None
       (\<lambda>f1.
          bindp (required P ''IClientRPCServiceCreateSchemaTemplateArgs.req'' f1) (\<lambda>f1.
          retp f1))"

definition write_create_schema_template_args :: "ts_create_schema_template_req \<Rightarrow> out_call list" where
  "write_create_schema_template_args v =
     w_struct ''createSchemaTemplate_args'' (w_field ''req'' TyStruct 1 write_ts_create_schema_template_req v)"

definition read_create_schema_template_result :: "'i in_protocol \<Rightarrow> nat \<Rightarrow> ('i, ts_status option) rd" where
  "read_create_schema_template_result P n =
     read_struct P n
       (\<lambda>k ty f0.
          if k = 0 then store (read_ts_status P n) (\<lambda>v. v)
          else skip_field P ty f0)
       None
       (\<lambda>f0.
          retp f0)"

definition write_create_schema_template_result :: "ts_status option \<Rightarrow> out_call list" where
  "write_create_schema_template_result v =
     w_struct ''IClientRPCServiceCreateSchemaTemplateResult'' (w_opt ''result_value'' TyStruct 0 write_ts_status
           v)"

definition rpc_create_schema_template ::
    "'i in_protocol \<Rightarrow> 'o out_protocol \<Rightarrow> nat \<Rightarrow> ts_create_schema_template_req \<Rightarrow> ('i, 'o) rpc_client \<Rightarrow>
     ts_status read_result \<times> ('i, 'o) rpc_client" where
  "rpc_create_schema_template P Q n req =
     rpc_call P Q ''createSchemaTemplate'' ''IClientRPCServiceCreateSchemaTemplate''
       (write_create_schema_template_args req) (read_create_schema_template_result P n)"

context thrift_wire
begin

lemma wire_create_schema_template_args:
  "18 \<le> n \<Longrightarrow> wire (read_create_schema_template_args P n) write_create_schema_template_args
        ok_ts_create_schema_template_req"
  unfolding read_create_schema_template_args_def write_create_schema_template_args_def
  by (rule wireI) ((rule wire_rules wire_ts_create_schema_template_req | (simp; fail))+)

lemma wire_create_schema_template_result:
  "d + 18 \<le> n \<Longrightarrow>
     wire (read_create_schema_template_result P n) write_create_schema_template_result (opt_ok (ok_ts_status
           d))"
  unfolding read_create_schema_template_result_def write_create_schema_template_result_def
  by (rule wireI) ((rule wire_rules wire_ts_status | (simp; fail))+)

end

subsection \<open>\<^verbatim>\<open>append_schema_template\<close>\<close>

definition read_append_schema_template_args :: "'i in_protocol \<Rightarrow> nat \<Rightarrow> ('i, ts_append_schema_template_req) rd"
      where
  "read_append_schema_template_args P n =
     read_struct P n
       (\<lambda>k ty f1.
          if k = 1 then store (read_ts_append_schema_template_req P n) (\<lambda>v. v)
          else skip_field P ty f1)
       None
       (\<lambda>f1.
          bindp (required P ''IClientRPCServiceAppendSchemaTemplateArgs.req'' f1) (\<lambda>f1.
          retp f1))"

definition write_append_schema_template_args :: "ts_append_schema_template_req \<Rightarrow> out_call list" where
  "write_append_schema_template_args v =
     w_struct ''appendSchemaTemplate_args'' (w_field ''req'' TyStruct 1 write_ts_append_schema_template_req v)"

definition read_append_schema_template_result :: "'i in_protocol \<Rightarrow> nat \<Rightarrow> ('i, ts_status option) rd" where
  "read_append_schema_template_result P n =
     read_struct P n
       (\<lambda>k ty f0.
          if k = 0 then store (read_ts_status P n) (\<lambda>v. v)
          else skip_field P ty f0)
       None
       (\<lambda>f0.
          retp f0)"

definition write_append_schema_template_result :: "ts_status option \<Rightarrow> out_call list" where
  "write_append_schema_template_result v =
     w_struct ''IClientRPCServiceAppendSchemaTemplateResult'' (w_opt ''result_value'' TyStruct 0 write_ts_status
           v)"

definition rpc_append_schema_template ::
    "'i in_protocol \<Rightarrow> 'o out_protocol \<Rightarrow> nat \<Rightarrow> ts_append_schema_template_req \<Rightarrow> ('i, 'o) rpc_client \<Rightarrow>
     ts_status read_result \<times> ('i, 'o) rpc_client" where
  "rpc_append_schema_template P Q n req =
     rpc_call P Q ''appendSchemaTemplate'' ''IClientRPCServiceAppendSchemaTemplate''
       (write_append_schema_template_args req) (read_append_schema_template_result P n)"

context thrift_wire
begin

lemma wire_append_schema_template_args:
  "18 \<le> n \<Longrightarrow> wire (read_append_schema_template_args P n) write_append_schema_template_args
        ok_ts_append_schema_template_req"
  unfolding read_append_schema_template_args_def write_append_schema_template_args_def
  by (rule wireI) ((rule wire_rules wire_ts_append_schema_template_req | (simp; fail))+)

lemma wire_append_schema_template_result:
  "d + 18 \<le> n \<Longrightarrow>
     wire (read_append_schema_template_result P n) write_append_schema_template_result (opt_ok (ok_ts_status
           d))"
  unfolding read_append_schema_template_result_def write_append_schema_template_result_def
  by (rule wireI) ((rule wire_rules wire_ts_status | (simp; fail))+)

end

subsection \<open>\<^verbatim>\<open>prune_schema_template\<close>\<close>

definition read_prune_schema_template_args :: "'i in_protocol \<Rightarrow> nat \<Rightarrow> ('i, ts_prune_schema_template_req) rd"
      where
  "read_prune_schema_template_args P n =
     read_struct P n
       (\<lambda>k ty f1.
          if k = 1 then store (read_ts_prune_schema_template_req P n) (\<lambda>v. v)
          else skip_field P ty f1)
       None
       (\<lambda>f1.
          bindp (required P ''IClientRPCServicePruneSchemaTemplateArgs.req'' f1) (\<lambda>f1.
          retp f1))"

definition write_prune_schema_template_args :: "ts_prune_schema_template_req \<Rightarrow> out_call list" where
  "write_prune_schema_template_args v =
     w_struct ''pruneSchemaTemplate_args'' (w_field ''req'' TyStruct 1 write_ts_prune_schema_template_req v)"

definition read_prune_schema_template_result :: "'i in_protocol \<Rightarrow> nat \<Rightarrow> ('i, ts_status option) rd" where
  "read_prune_schema_template_result P n =
     read_struct P n
       (\<lambda>k ty f0.
          if k = 0 then store (read_ts_status P n) (\<lambda>v. v)
          else skip_field P ty f0)
       None
       (\<lambda>f0.
          retp f0)"

definition write_prune_schema_template_result :: "ts_status option \<Rightarrow> out_call list" where
  "write_prune_schema_template_result v =
     w_struct ''IClientRPCServicePruneSchemaTemplateResult'' (w_opt ''result_value'' TyStruct 0 write_ts_status
           v)"

definition rpc_prune_schema_template ::
    "'i in_protocol \<Rightarrow> 'o out_protocol \<Rightarrow> nat \<Rightarrow> ts_prune_schema_template_req \<Rightarrow> ('i, 'o) rpc_client \<Rightarrow>
     ts_status read_result \<times> ('i, 'o) rpc_client" where
  "rpc_prune_schema_template P Q n req =
     rpc_call P Q ''pruneSchemaTemplate'' ''IClientRPCServicePruneSchemaTemplate''
       (write_prune_schema_template_args req) (read_prune_schema_template_result P n)"

context thrift_wire
begin

lemma wire_prune_schema_template_args:
  "18 \<le> n \<Longrightarrow> wire (read_prune_schema_template_args P n) write_prune_schema_template_args
        ok_ts_prune_schema_template_req"
  unfolding read_prune_schema_template_args_def write_prune_schema_template_args_def
  by (rule wireI) ((rule wire_rules wire_ts_prune_schema_template_req | (simp; fail))+)

lemma wire_prune_schema_template_result:
  "d + 18 \<le> n \<Longrightarrow>
     wire (read_prune_schema_template_result P n) write_prune_schema_template_result (opt_ok (ok_ts_status d))"
  unfolding read_prune_schema_template_result_def write_prune_schema_template_result_def
  by (rule wireI) ((rule wire_rules wire_ts_status | (simp; fail))+)

end

subsection \<open>\<^verbatim>\<open>query_schema_template\<close>\<close>

definition read_query_schema_template_args :: "'i in_protocol \<Rightarrow> nat \<Rightarrow> ('i, ts_query_template_req) rd" where
  "read_query_schema_template_args P n =
     read_struct P n
       (\<lambda>k ty f1.
          if k = 1 then store (read_ts_query_template_req P n) (\<lambda>v. v)
          else skip_field P ty f1)
       None
       (\<lambda>f1.
          bindp (required P ''IClientRPCServiceQuerySchemaTemplateArgs.req'' f1) (\<lambda>f1.
          retp f1))"

definition write_query_schema_template_args :: "ts_query_template_req \<Rightarrow> out_call list" where
  "write_query_schema_template_args v =
     w_struct ''querySchemaTemplate_args'' (w_field ''req'' TyStruct 1 write_ts_query_template_req v)"

definition read_query_schema_template_result :: "'i in_protocol \<Rightarrow> nat \<Rightarrow> ('i, ts_query_template_resp option) rd"
      where
  "read_query_schema_template_result P n =
     read_struct P n
       (\<lambda>k ty f0.
          if k = 0 then store (read_ts_query_template_resp P n) (\<lambda>v. v)
          else skip_field P ty f0)
       None
       (\<lambda>f0.
          retp f0)"

definition write_query_schema_template_result :: "ts_query_template_resp option \<Rightarrow> out_call list" where
  "write_query_schema_template_result v =
     w_struct ''IClientRPCServiceQuerySchemaTemplateResult'' (w_opt ''result_value'' TyStruct 0
           write_ts_query_template_resp v)"

definition rpc_query_schema_template ::
    "'i in_protocol \<Rightarrow> 'o out_protocol \<Rightarrow> nat \<Rightarrow> ts_query_template_req \<Rightarrow> ('i, 'o) rpc_client \<Rightarrow>
     ts_query_template_resp read_result \<times> ('i, 'o) rpc_client" where
  "rpc_query_schema_template P Q n req =
     rpc_call P Q ''querySchemaTemplate'' ''IClientRPCServiceQuerySchemaTemplate''
       (write_query_schema_template_args req) (read_query_schema_template_result P n)"

context thrift_wire
begin

lemma wire_query_schema_template_args:
  "18 \<le> n \<Longrightarrow> wire (read_query_schema_template_args P n) write_query_schema_template_args
        ok_ts_query_template_req"
  unfolding read_query_schema_template_args_def write_query_schema_template_args_def
  by (rule wireI) ((rule wire_rules wire_ts_query_template_req | (simp; fail))+)

lemma wire_query_schema_template_result:
  "d + 18 \<le> n \<Longrightarrow>
     wire (read_query_schema_template_result P n) write_query_schema_template_result (opt_ok
           (ok_ts_query_template_resp d))"
  unfolding read_query_schema_template_result_def write_query_schema_template_result_def
  by (rule wireI) ((rule wire_rules wire_ts_query_template_resp | (simp; fail))+)

end

subsection \<open>\<^verbatim>\<open>show_configuration_template\<close>\<close>

definition read_show_configuration_template_args :: "'i in_protocol \<Rightarrow> nat \<Rightarrow> ('i, unit) rd" where
  "read_show_configuration_template_args P n =
     read_struct P n
       (\<lambda>k ty u. skip_field P ty u)
       ()
       (\<lambda>u.
          retp ())"

definition write_show_configuration_template_args :: "unit \<Rightarrow> out_call list" where
  "write_show_configuration_template_args u = w_struct ''showConfigurationTemplate_args'' []"

definition read_show_configuration_template_result :: "'i in_protocol \<Rightarrow> nat \<Rightarrow> ('i,
      t_show_configuration_template_resp option) rd" where
  "read_show_configuration_template_result P n =
     read_struct P n
       (\<lambda>k ty f0.
          if k = 0 then store (read_t_show_configuration_template_resp P n) (\<lambda>v. v)
          else skip_field P ty f0)
       None
       (\<lambda>f0.
          retp f0)"

definition write_show_configuration_template_result :: "t_show_configuration_template_resp option \<Rightarrow> out_call
      list" where
  "write_show_configuration_template_result v =
     w_struct ''IClientRPCServiceShowConfigurationTemplateResult'' (w_opt ''result_value'' TyStruct 0
           write_t_show_configuration_template_resp v)"

definition rpc_show_configuration_template ::
    "'i in_protocol \<Rightarrow> 'o out_protocol \<Rightarrow> nat \<Rightarrow> unit \<Rightarrow> ('i, 'o) rpc_client \<Rightarrow>
     t_show_configuration_template_resp read_result \<times> ('i, 'o) rpc_client" where
  "rpc_show_configuration_template P Q n req =
     rpc_call P Q ''showConfigurationTemplate'' ''IClientRPCServiceShowConfigurationTemplate''
       (write_show_configuration_template_args req) (read_show_configuration_template_result P n)"

context thrift_wire
begin

lemma wire_show_configuration_template_args:
  "18 \<le> n \<Longrightarrow> wire (read_show_configuration_template_args P n) write_show_configuration_template_args (\<lambda>_. True)"
  unfolding read_show_configuration_template_args_def write_show_configuration_template_args_def
  by (rule wireI) ((rule wire_rules | (simp; fail))+)

lemma wire_show_configuration_template_result:
  "d + 18 \<le> n \<Longrightarrow>
     wire (read_show_configuration_template_result P n) write_show_configuration_template_result (opt_ok
           (ok_t_show_configuration_template_resp d))"
  unfolding read_show_configuration_template_result_def write_show_configuration_template_result_def
  by (rule wireI) ((rule wire_rules wire_t_show_configuration_template_resp | (simp; fail))+)

end

subsection \<open>\<^verbatim>\<open>show_configuration\<close>\<close>

definition read_show_configuration_args :: "'i in_protocol \<Rightarrow> nat \<Rightarrow> ('i, i32) rd" where
  "read_show_configuration_args P n =
     read_struct P n
       (\<lambda>k ty f1.
          if k = 1 then store (callp (ip_i32 P)) (\<lambda>v. v)
          else skip_field P ty f1)
       None
       (\<lambda>f1.
          bindp (required P ''IClientRPCServiceShowConfigurationArgs.node_id'' f1) (\<lambda>f1.
          retp f1))"

definition write_show_configuration_args :: "i32 \<Rightarrow> out_call list" where
  "write_show_configuration_args v =
     w_struct ''showConfiguration_args'' (w_field ''nodeId'' TyI32 1 w_i32 v)"

definition read_show_configuration_result :: "'i in_protocol \<Rightarrow> nat \<Rightarrow> ('i, t_show_configuration_resp option) rd"
      where
  "read_show_configuration_result P n =
     read_struct P n
       (\<lambda>k ty f0.
          if k = 0 then store (read_t_show_configuration_resp P n) (\<lambda>v. v)
          else skip_field P ty f0)
       None
       (\<lambda>f0.
          retp f0)"

definition write_show_configuration_result :: "t_show_configuration_resp option \<Rightarrow> out_call list" where
  "write_show_configuration_result v =
     w_struct ''IClientRPCServiceShowConfigurationResult'' (w_opt ''result_value'' TyStruct 0
           write_t_show_configuration_resp v)"

definition rpc_show_configuration ::
    "'i in_protocol \<Rightarrow> 'o out_protocol \<Rightarrow> nat \<Rightarrow> i32 \<Rightarrow> ('i, 'o) rpc_client \<Rightarrow>
     t_show_configuration_resp read_result \<times> ('i, 'o) rpc_client" where
  "rpc_show_configuration P Q n req =
     rpc_call P Q ''showConfiguration'' ''IClientRPCServiceShowConfiguration''
       (write_show_configuration_args req) (read_show_configuration_result P n)"

context thrift_wire
begin

lemma wire_show_configuration_args:
  "18 \<le> n \<Longrightarrow> wire (read_show_configuration_args P n) write_show_configuration_args (\<lambda>_. True)"
  unfolding read_show_configuration_args_def write_show_configuration_args_def
  by (rule wireI) ((rule wire_rules | (simp; fail))+)

lemma wire_show_configuration_result:
  "d + 18 \<le> n \<Longrightarrow>
     wire (read_show_configuration_result P n) write_show_configuration_result (opt_ok
           (ok_t_show_configuration_resp d))"
  unfolding read_show_configuration_result_def write_show_configuration_result_def
  by (rule wireI) ((rule wire_rules wire_t_show_configuration_resp | (simp; fail))+)

end

subsection \<open>\<^verbatim>\<open>set_schema_template\<close>\<close>

definition read_set_schema_template_args :: "'i in_protocol \<Rightarrow> nat \<Rightarrow> ('i, ts_set_schema_template_req) rd" where
  "read_set_schema_template_args P n =
     read_struct P n
       (\<lambda>k ty f1.
          if k = 1 then store (read_ts_set_schema_template_req P n) (\<lambda>v. v)
          else skip_field P ty f1)
       None
       (\<lambda>f1.
          bindp (required P ''IClientRPCServiceSetSchemaTemplateArgs.req'' f1) (\<lambda>f1.
          retp f1))"

definition write_set_schema_template_args :: "ts_set_schema_template_req \<Rightarrow> out_call list" where
  "write_set_schema_template_args v =
     w_struct ''setSchemaTemplate_args'' (w_field ''req'' TyStruct 1 write_ts_set_schema_template_req v)"

definition read_set_schema_template_result :: "'i in_protocol \<Rightarrow> nat \<Rightarrow> ('i, ts_status option) rd" where
  "read_set_schema_template_result P n =
     read_struct P n
       (\<lambda>k ty f0.
          if k = 0 then store (read_ts_status P n) (\<lambda>v. v)
          else skip_field P ty f0)
       None
       (\<lambda>f0.
          retp f0)"

definition write_set_schema_template_result :: "ts_status option \<Rightarrow> out_call list" where
  "write_set_schema_template_result v =
     w_struct ''IClientRPCServiceSetSchemaTemplateResult'' (w_opt ''result_value'' TyStruct 0 write_ts_status
           v)"

definition rpc_set_schema_template ::
    "'i in_protocol \<Rightarrow> 'o out_protocol \<Rightarrow> nat \<Rightarrow> ts_set_schema_template_req \<Rightarrow> ('i, 'o) rpc_client \<Rightarrow>
     ts_status read_result \<times> ('i, 'o) rpc_client" where
  "rpc_set_schema_template P Q n req =
     rpc_call P Q ''setSchemaTemplate'' ''IClientRPCServiceSetSchemaTemplate''
       (write_set_schema_template_args req) (read_set_schema_template_result P n)"

context thrift_wire
begin

lemma wire_set_schema_template_args:
  "18 \<le> n \<Longrightarrow> wire (read_set_schema_template_args P n) write_set_schema_template_args
        ok_ts_set_schema_template_req"
  unfolding read_set_schema_template_args_def write_set_schema_template_args_def
  by (rule wireI) ((rule wire_rules wire_ts_set_schema_template_req | (simp; fail))+)

lemma wire_set_schema_template_result:
  "d + 18 \<le> n \<Longrightarrow>
     wire (read_set_schema_template_result P n) write_set_schema_template_result (opt_ok (ok_ts_status d))"
  unfolding read_set_schema_template_result_def write_set_schema_template_result_def
  by (rule wireI) ((rule wire_rules wire_ts_status | (simp; fail))+)

end

subsection \<open>\<^verbatim>\<open>unset_schema_template\<close>\<close>

definition read_unset_schema_template_args :: "'i in_protocol \<Rightarrow> nat \<Rightarrow> ('i, ts_unset_schema_template_req) rd"
      where
  "read_unset_schema_template_args P n =
     read_struct P n
       (\<lambda>k ty f1.
          if k = 1 then store (read_ts_unset_schema_template_req P n) (\<lambda>v. v)
          else skip_field P ty f1)
       None
       (\<lambda>f1.
          bindp (required P ''IClientRPCServiceUnsetSchemaTemplateArgs.req'' f1) (\<lambda>f1.
          retp f1))"

definition write_unset_schema_template_args :: "ts_unset_schema_template_req \<Rightarrow> out_call list" where
  "write_unset_schema_template_args v =
     w_struct ''unsetSchemaTemplate_args'' (w_field ''req'' TyStruct 1 write_ts_unset_schema_template_req v)"

definition read_unset_schema_template_result :: "'i in_protocol \<Rightarrow> nat \<Rightarrow> ('i, ts_status option) rd" where
  "read_unset_schema_template_result P n =
     read_struct P n
       (\<lambda>k ty f0.
          if k = 0 then store (read_ts_status P n) (\<lambda>v. v)
          else skip_field P ty f0)
       None
       (\<lambda>f0.
          retp f0)"

definition write_unset_schema_template_result :: "ts_status option \<Rightarrow> out_call list" where
  "write_unset_schema_template_result v =
     w_struct ''IClientRPCServiceUnsetSchemaTemplateResult'' (w_opt ''result_value'' TyStruct 0 write_ts_status
           v)"

definition rpc_unset_schema_template ::
    "'i in_protocol \<Rightarrow> 'o out_protocol \<Rightarrow> nat \<Rightarrow> ts_unset_schema_template_req \<Rightarrow> ('i, 'o) rpc_client \<Rightarrow>
     ts_status read_result \<times> ('i, 'o) rpc_client" where
  "rpc_unset_schema_template P Q n req =
     rpc_call P Q ''unsetSchemaTemplate'' ''IClientRPCServiceUnsetSchemaTemplate''
       (write_unset_schema_template_args req) (read_unset_schema_template_result P n)"

context thrift_wire
begin

lemma wire_unset_schema_template_args:
  "18 \<le> n \<Longrightarrow> wire (read_unset_schema_template_args P n) write_unset_schema_template_args
        ok_ts_unset_schema_template_req"
  unfolding read_unset_schema_template_args_def write_unset_schema_template_args_def
  by (rule wireI) ((rule wire_rules wire_ts_unset_schema_template_req | (simp; fail))+)

lemma wire_unset_schema_template_result:
  "d + 18 \<le> n \<Longrightarrow>
     wire (read_unset_schema_template_result P n) write_unset_schema_template_result (opt_ok (ok_ts_status d))"
  unfolding read_unset_schema_template_result_def write_unset_schema_template_result_def
  by (rule wireI) ((rule wire_rules wire_ts_status | (simp; fail))+)

end

subsection \<open>\<^verbatim>\<open>drop_schema_template\<close>\<close>

definition read_drop_schema_template_args :: "'i in_protocol \<Rightarrow> nat \<Rightarrow> ('i, ts_drop_schema_template_req) rd" where
  "read_drop_schema_template_args P n =
     read_struct P n
       (\<lambda>k ty f1.
          if k = 1 then store (read_ts_drop_schema_template_req P n) (\<lambda>v. v)
          else skip_field P ty f1)
       None
       (\<lambda>f1.
          bindp (required P ''IClientRPCServiceDropSchemaTemplateArgs.req'' f1) (\<lambda>f1.
          retp f1))"

definition write_drop_schema_template_args :: "ts_drop_schema_template_req \<Rightarrow> out_call list" where
  "write_drop_schema_template_args v =
     w_struct ''dropSchemaTemplate_args'' (w_field ''req'' TyStruct 1 write_ts_drop_schema_template_req v)"

definition read_drop_schema_template_result :: "'i in_protocol \<Rightarrow> nat \<Rightarrow> ('i, ts_status option) rd" where
  "read_drop_schema_template_result P n =
     read_struct P n
       (\<lambda>k ty f0.
          if k = 0 then store (read_ts_status P n) (\<lambda>v. v)
          else skip_field P ty f0)
       None
       (\<lambda>f0.
          retp f0)"

definition write_drop_schema_template_result :: "ts_status option \<Rightarrow> out_call list" where
  "write_drop_schema_template_result v =
     w_struct ''IClientRPCServiceDropSchemaTemplateResult'' (w_opt ''result_value'' TyStruct 0 write_ts_status
           v)"

definition rpc_drop_schema_template ::
    "'i in_protocol \<Rightarrow> 'o out_protocol \<Rightarrow> nat \<Rightarrow> ts_drop_schema_template_req \<Rightarrow> ('i, 'o) rpc_client \<Rightarrow>
     ts_status read_result \<times> ('i, 'o) rpc_client" where
  "rpc_drop_schema_template P Q n req =
     rpc_call P Q ''dropSchemaTemplate'' ''IClientRPCServiceDropSchemaTemplate''
       (write_drop_schema_template_args req) (read_drop_schema_template_result P n)"

context thrift_wire
begin

lemma wire_drop_schema_template_args:
  "18 \<le> n \<Longrightarrow> wire (read_drop_schema_template_args P n) write_drop_schema_template_args
        ok_ts_drop_schema_template_req"
  unfolding read_drop_schema_template_args_def write_drop_schema_template_args_def
  by (rule wireI) ((rule wire_rules wire_ts_drop_schema_template_req | (simp; fail))+)

lemma wire_drop_schema_template_result:
  "d + 18 \<le> n \<Longrightarrow>
     wire (read_drop_schema_template_result P n) write_drop_schema_template_result (opt_ok (ok_ts_status d))"
  unfolding read_drop_schema_template_result_def write_drop_schema_template_result_def
  by (rule wireI) ((rule wire_rules wire_ts_status | (simp; fail))+)

end

subsection \<open>\<^verbatim>\<open>create_timeseries_using_schema_template\<close>\<close>

definition read_create_timeseries_using_schema_template_args :: "'i in_protocol \<Rightarrow> nat \<Rightarrow> ('i,
      t_create_timeseries_using_schema_template_req) rd" where
  "read_create_timeseries_using_schema_template_args P n =
     read_struct P n
       (\<lambda>k ty f1.
          if k = 1 then store (read_t_create_timeseries_using_schema_template_req P n) (\<lambda>v. v)
          else skip_field P ty f1)
       None
       (\<lambda>f1.
          bindp (required P ''IClientRPCServiceCreateTimeseriesUsingSchemaTemplateArgs.req'' f1) (\<lambda>f1.
          retp f1))"

definition write_create_timeseries_using_schema_template_args :: "t_create_timeseries_using_schema_template_req
      \<Rightarrow> out_call list" where
  "write_create_timeseries_using_schema_template_args v =
     w_struct ''createTimeseriesUsingSchemaTemplate_args'' (w_field ''req'' TyStruct 1
           write_t_create_timeseries_using_schema_template_req v)"

definition read_create_timeseries_using_schema_template_result :: "'i in_protocol \<Rightarrow> nat \<Rightarrow> ('i, ts_status option)
      rd" where
  "read_create_timeseries_using_schema_template_result P n =
     read_struct P n
       (\<lambda>k ty f0.
          if k = 0 then store (read_ts_status P n) (\<lambda>v. v)
          else skip_field P ty f0)
       None
       (\<lambda>f0.
          retp f0)"

definition write_create_timeseries_using_schema_template_result :: "ts_status option \<Rightarrow> out_call list" where
  "write_create_timeseries_using_schema_template_result v =
     w_struct ''IClientRPCServiceCreateTimeseriesUsingSchemaTemplateResult'' (w_opt ''result_value'' TyStruct 0
           write_ts_status v)"

definition rpc_create_timeseries_using_schema_template ::
    "'i in_protocol \<Rightarrow> 'o out_protocol \<Rightarrow> nat \<Rightarrow> t_create_timeseries_using_schema_template_req \<Rightarrow> ('i, 'o)
          rpc_client \<Rightarrow>
     ts_status read_result \<times> ('i, 'o) rpc_client" where
  "rpc_create_timeseries_using_schema_template P Q n req =
     rpc_call P Q ''createTimeseriesUsingSchemaTemplate''
           ''IClientRPCServiceCreateTimeseriesUsingSchemaTemplate''
       (write_create_timeseries_using_schema_template_args req)
             (read_create_timeseries_using_schema_template_result P n)"

context thrift_wire
begin

lemma wire_create_timeseries_using_schema_template_args:
  "18 \<le> n \<Longrightarrow> wire (read_create_timeseries_using_schema_template_args P n)
        write_create_timeseries_using_schema_template_args ok_t_create_timeseries_using_schema_template_req"
  unfolding read_create_timeseries_using_schema_template_args_def
        write_create_timeseries_using_schema_template_args_def
  by (rule wireI) ((rule wire_rules wire_t_create_timeseries_using_schema_template_req | (simp; fail))+)

lemma wire_create_timeseries_using_schema_template_result:
  "d + 18 \<le> n \<Longrightarrow>
     wire (read_create_timeseries_using_schema_template_result P n)
           write_create_timeseries_using_schema_template_result (opt_ok (ok_ts_status d))"
  unfolding read_create_timeseries_using_schema_template_result_def
        write_create_timeseries_using_schema_template_result_def
  by (rule wireI) ((rule wire_rules wire_ts_status | (simp; fail))+)

end

subsection \<open>\<^verbatim>\<open>handshake\<close>\<close>

definition read_handshake_args :: "'i in_protocol \<Rightarrow> nat \<Rightarrow> ('i, t_sync_identity_info) rd" where
  "read_handshake_args P n =
     read_struct P n
       (\<lambda>k ty fneg1. store (read_t_sync_identity_info P n) (\<lambda>v. v))
       None
       (\<lambda>fneg1.
          bindp (required P ''IClientRPCServiceHandshakeArgs.info'' fneg1) (\<lambda>fneg1.
          retp fneg1))"

definition write_handshake_args :: "t_sync_identity_info \<Rightarrow> out_call list" where
  "write_handshake_args v =
     w_struct ''handshake_args'' (w_field ''info'' TyStruct (- 1) write_t_sync_identity_info v)"

definition read_handshake_result :: "'i in_protocol \<Rightarrow> nat \<Rightarrow> ('i, ts_status option) rd" where
  "read_handshake_result P n =
     read_struct P n
       (\<lambda>k ty f0.
          if k = 0 then store (read_ts_status P n) (\<lambda>v. v)
          else skip_field P ty f0)
       None
       (\<lambda>f0.
          retp f0)"

definition write_handshake_result :: "ts_status option \<Rightarrow> out_call list" where
  "write_handshake_result v =
     w_struct ''IClientRPCServiceHandshakeResult'' (w_opt ''result_value'' TyStruct 0 write_ts_status v)"

definition rpc_handshake ::
    "'i in_protocol \<Rightarrow> 'o out_protocol \<Rightarrow> nat \<Rightarrow> t_sync_identity_info \<Rightarrow> ('i, 'o) rpc_client \<Rightarrow>
     ts_status read_result \<times> ('i, 'o) rpc_client" where
  "rpc_handshake P Q n req =
     rpc_call P Q ''handshake'' ''IClientRPCServiceHandshake''
       (write_handshake_args req) (read_handshake_result P n)"

context thrift_wire
begin

lemma wire_handshake_args:
  "18 \<le> n \<Longrightarrow> wire (read_handshake_args P n) write_handshake_args ok_t_sync_identity_info"
  unfolding read_handshake_args_def write_handshake_args_def
  by (rule wireI) ((rule wire_rules wire_t_sync_identity_info | (simp; fail))+)

lemma wire_handshake_result:
  "d + 18 \<le> n \<Longrightarrow>
     wire (read_handshake_result P n) write_handshake_result (opt_ok (ok_ts_status d))"
  unfolding read_handshake_result_def write_handshake_result_def
  by (rule wireI) ((rule wire_rules wire_ts_status | (simp; fail))+)

end

subsection \<open>\<^verbatim>\<open>send_pipe_data\<close>\<close>

definition read_send_pipe_data_args :: "'i in_protocol \<Rightarrow> nat \<Rightarrow> ('i, bytes) rd" where
  "read_send_pipe_data_args P n =
     read_struct P n
       (\<lambda>k ty f1.
          if k = 1 then store (callp (ip_bytes P)) (\<lambda>v. v)
          else skip_field P ty f1)
       None
       (\<lambda>f1.
          bindp (required P ''IClientRPCServiceSendPipeDataArgs.buff'' f1) (\<lambda>f1.
          retp f1))"

definition write_send_pipe_data_args :: "bytes \<Rightarrow> out_call list" where
  "write_send_pipe_data_args v =
     w_struct ''sendPipeData_args'' (w_field ''buff'' TyString 1 w_bytes v)"

definition read_send_pipe_data_result :: "'i in_protocol \<Rightarrow> nat \<Rightarrow> ('i, ts_status option) rd" where
  "read_send_pipe_data_result P n =
     read_struct P n
       (\<lambda>k ty f0.
          if k = 0 then store (read_ts_status P n) (\<lambda>v. v)
          else skip_field P ty f0)
       None
       (\<lambda>f0.
          retp f0)"

definition write_send_pipe_data_result :: "ts_status option \<Rightarrow> out_call list" where
  "write_send_pipe_data_result v =
     w_struct ''IClientRPCServiceSendPipeDataResult'' (w_opt ''result_value'' TyStruct 0 write_ts_status v)"

definition rpc_send_pipe_data ::
    "'i in_protocol \<Rightarrow> 'o out_protocol \<Rightarrow> nat \<Rightarrow> bytes \<Rightarrow> ('i, 'o) rpc_client \<Rightarrow>
     ts_status read_result \<times> ('i, 'o) rpc_client" where
  "rpc_send_pipe_data P Q n req =
     rpc_call P Q ''sendPipeData'' ''IClientRPCServiceSendPipeData''
       (write_send_pipe_data_args req) (read_send_pipe_data_result P n)"

context thrift_wire
begin

lemma wire_send_pipe_data_args:
  "18 \<le> n \<Longrightarrow> wire (read_send_pipe_data_args P n) write_send_pipe_data_args short"
  unfolding read_send_pipe_data_args_def write_send_pipe_data_args_def
  by (rule wireI) ((rule wire_rules | (simp; fail))+)

lemma wire_send_pipe_data_result:
  "d + 18 \<le> n \<Longrightarrow>
     wire (read_send_pipe_data_result P n) write_send_pipe_data_result (opt_ok (ok_ts_status d))"
  unfolding read_send_pipe_data_result_def write_send_pipe_data_result_def
  by (rule wireI) ((rule wire_rules wire_ts_status | (simp; fail))+)

end

subsection \<open>\<^verbatim>\<open>send_file\<close>\<close>

definition read_send_file_args :: "'i in_protocol \<Rightarrow> nat \<Rightarrow> ('i, t_sync_transport_meta_info \<times> bytes) rd" where
  "read_send_file_args P n =
     read_struct P n
       (\<lambda>k ty (f1, f2).
          if k = 1 then store (read_t_sync_transport_meta_info P n) (\<lambda>v. (v, f2))
          else if k = 2 then store (callp (ip_bytes P)) (\<lambda>v. (f1, v))
          else skip_field P ty (f1, f2))
       (None, None)
       (\<lambda>(f1, f2).
          bindp (required P ''IClientRPCServiceSendFileArgs.meta_info'' f1) (\<lambda>f1.
          bindp (required P ''IClientRPCServiceSendFileArgs.buff'' f2) (\<lambda>f2.
          retp (f1, f2))))"

definition write_send_file_args :: "t_sync_transport_meta_info \<times> bytes \<Rightarrow> out_call list" where
  "write_send_file_args = (\<lambda>(meta_info, buff).
     w_struct ''sendFile_args''
       (w_field ''metaInfo'' TyStruct 1 write_t_sync_transport_meta_info meta_info @
        w_field ''buff'' TyString 2 w_bytes buff))"

definition read_send_file_result :: "'i in_protocol \<Rightarrow> nat \<Rightarrow> ('i, ts_status option) rd" where
  "read_send_file_result P n =
     read_struct P n
       (\<lambda>k ty f0.
          if k = 0 then store (read_ts_status P n) (\<lambda>v. v)
          else skip_field P ty f0)
       None
       (\<lambda>f0.
          retp f0)"

definition write_send_file_result :: "ts_status option \<Rightarrow> out_call list" where
  "write_send_file_result v =
     w_struct ''IClientRPCServiceSendFileResult'' (w_opt ''result_value'' TyStruct 0 write_ts_status v)"

definition rpc_send_file ::
    "'i in_protocol \<Rightarrow> 'o out_protocol \<Rightarrow> nat \<Rightarrow> t_sync_transport_meta_info \<times> bytes \<Rightarrow> ('i, 'o) rpc_client \<Rightarrow>
     ts_status read_result \<times> ('i, 'o) rpc_client" where
  "rpc_send_file P Q n req =
     rpc_call P Q ''sendFile'' ''IClientRPCServiceSendFile''
       (write_send_file_args req) (read_send_file_result P n)"

context thrift_wire
begin

lemma wire_send_file_args:
  "18 \<le> n \<Longrightarrow> wire (read_send_file_args P n) write_send_file_args (\<lambda>(meta_info, buff).
        ok_t_sync_transport_meta_info meta_info \<and> short buff)"
  unfolding read_send_file_args_def write_send_file_args_def
  by (rule wireI2, rule reads_struct) ((rule wire_rules wire_t_sync_transport_meta_info | (simp; fail))+)

lemma wire_send_file_result:
  "d + 18 \<le> n \<Longrightarrow>
     wire (read_send_file_result P n) write_send_file_result (opt_ok (ok_ts_status d))"
  unfolding read_send_file_result_def write_send_file_result_def
  by (rule wireI) ((rule wire_rules wire_ts_status | (simp; fail))+)

end

subsection \<open>\<^verbatim>\<open>pipe_transfer\<close>\<close>

definition read_pipe_transfer_args :: "'i in_protocol \<Rightarrow> nat \<Rightarrow> ('i, t_pipe_transfer_req) rd" where
  "read_pipe_transfer_args P n =
     read_struct P n
       (\<lambda>k ty fneg1. store (read_t_pipe_transfer_req P n) (\<lambda>v. v))
       None
       (\<lambda>fneg1.
          bindp (required P ''IClientRPCServicePipeTransferArgs.req'' fneg1) (\<lambda>fneg1.
          retp fneg1))"

definition write_pipe_transfer_args :: "t_pipe_transfer_req \<Rightarrow> out_call list" where
  "write_pipe_transfer_args v =
     w_struct ''pipeTransfer_args'' (w_field ''req'' TyStruct (- 1) write_t_pipe_transfer_req v)"

definition read_pipe_transfer_result :: "'i in_protocol \<Rightarrow> nat \<Rightarrow> ('i, t_pipe_transfer_resp option) rd" where
  "read_pipe_transfer_result P n =
     read_struct P n
       (\<lambda>k ty f0.
          if k = 0 then store (read_t_pipe_transfer_resp P n) (\<lambda>v. v)
          else skip_field P ty f0)
       None
       (\<lambda>f0.
          retp f0)"

definition write_pipe_transfer_result :: "t_pipe_transfer_resp option \<Rightarrow> out_call list" where
  "write_pipe_transfer_result v =
     w_struct ''IClientRPCServicePipeTransferResult'' (w_opt ''result_value'' TyStruct 0
           write_t_pipe_transfer_resp v)"

definition rpc_pipe_transfer ::
    "'i in_protocol \<Rightarrow> 'o out_protocol \<Rightarrow> nat \<Rightarrow> t_pipe_transfer_req \<Rightarrow> ('i, 'o) rpc_client \<Rightarrow>
     t_pipe_transfer_resp read_result \<times> ('i, 'o) rpc_client" where
  "rpc_pipe_transfer P Q n req =
     rpc_call P Q ''pipeTransfer'' ''IClientRPCServicePipeTransfer''
       (write_pipe_transfer_args req) (read_pipe_transfer_result P n)"

context thrift_wire
begin

lemma wire_pipe_transfer_args:
  "18 \<le> n \<Longrightarrow> wire (read_pipe_transfer_args P n) write_pipe_transfer_args ok_t_pipe_transfer_req"
  unfolding read_pipe_transfer_args_def write_pipe_transfer_args_def
  by (rule wireI) ((rule wire_rules wire_t_pipe_transfer_req | (simp; fail))+)

lemma wire_pipe_transfer_result:
  "d + 18 \<le> n \<Longrightarrow>
     wire (read_pipe_transfer_result P n) write_pipe_transfer_result (opt_ok (ok_t_pipe_transfer_resp d))"
  unfolding read_pipe_transfer_result_def write_pipe_transfer_result_def
  by (rule wireI) ((rule wire_rules wire_t_pipe_transfer_resp | (simp; fail))+)

end

subsection \<open>\<^verbatim>\<open>pipe_subscribe\<close>\<close>

definition read_pipe_subscribe_args :: "'i in_protocol \<Rightarrow> nat \<Rightarrow> ('i, t_pipe_subscribe_req) rd" where
  "read_pipe_subscribe_args P n =
     read_struct P n
       (\<lambda>k ty fneg1. store (read_t_pipe_subscribe_req P n) (\<lambda>v. v))
       None
       (\<lambda>fneg1.
          bindp (required P ''IClientRPCServicePipeSubscribeArgs.req'' fneg1) (\<lambda>fneg1.
          retp fneg1))"

definition write_pipe_subscribe_args :: "t_pipe_subscribe_req \<Rightarrow> out_call list" where
  "write_pipe_subscribe_args v =
     w_struct ''pipeSubscribe_args'' (w_field ''req'' TyStruct (- 1) write_t_pipe_subscribe_req v)"

definition read_pipe_subscribe_result :: "'i in_protocol \<Rightarrow> nat \<Rightarrow> ('i, t_pipe_subscribe_resp option) rd" where
  "read_pipe_subscribe_result P n =
     read_struct P n
       (\<lambda>k ty f0.
          if k = 0 then store (read_t_pipe_subscribe_resp P n) (\<lambda>v. v)
          else skip_field P ty f0)
       None
       (\<lambda>f0.
          retp f0)"

definition write_pipe_subscribe_result :: "t_pipe_subscribe_resp option \<Rightarrow> out_call list" where
  "write_pipe_subscribe_result v =
     w_struct ''IClientRPCServicePipeSubscribeResult'' (w_opt ''result_value'' TyStruct 0
           write_t_pipe_subscribe_resp v)"

definition rpc_pipe_subscribe ::
    "'i in_protocol \<Rightarrow> 'o out_protocol \<Rightarrow> nat \<Rightarrow> t_pipe_subscribe_req \<Rightarrow> ('i, 'o) rpc_client \<Rightarrow>
     t_pipe_subscribe_resp read_result \<times> ('i, 'o) rpc_client" where
  "rpc_pipe_subscribe P Q n req =
     rpc_call P Q ''pipeSubscribe'' ''IClientRPCServicePipeSubscribe''
       (write_pipe_subscribe_args req) (read_pipe_subscribe_result P n)"

context thrift_wire
begin

lemma wire_pipe_subscribe_args:
  "18 \<le> n \<Longrightarrow> wire (read_pipe_subscribe_args P n) write_pipe_subscribe_args ok_t_pipe_subscribe_req"
  unfolding read_pipe_subscribe_args_def write_pipe_subscribe_args_def
  by (rule wireI) ((rule wire_rules wire_t_pipe_subscribe_req | (simp; fail))+)

lemma wire_pipe_subscribe_result:
  "d + 18 \<le> n \<Longrightarrow>
     wire (read_pipe_subscribe_result P n) write_pipe_subscribe_result (opt_ok (ok_t_pipe_subscribe_resp d))"
  unfolding read_pipe_subscribe_result_def write_pipe_subscribe_result_def
  by (rule wireI) ((rule wire_rules wire_t_pipe_subscribe_resp | (simp; fail))+)

end

subsection \<open>\<^verbatim>\<open>get_backup_configuration\<close>\<close>

definition read_get_backup_configuration_args :: "'i in_protocol \<Rightarrow> nat \<Rightarrow> ('i, unit) rd" where
  "read_get_backup_configuration_args P n =
     read_struct P n
       (\<lambda>k ty u. skip_field P ty u)
       ()
       (\<lambda>u.
          retp ())"

definition write_get_backup_configuration_args :: "unit \<Rightarrow> out_call list" where
  "write_get_backup_configuration_args u = w_struct ''getBackupConfiguration_args'' []"

definition read_get_backup_configuration_result :: "'i in_protocol \<Rightarrow> nat \<Rightarrow> ('i, ts_backup_configuration_resp
      option) rd" where
  "read_get_backup_configuration_result P n =
     read_struct P n
       (\<lambda>k ty f0.
          if k = 0 then store (read_ts_backup_configuration_resp P n) (\<lambda>v. v)
          else skip_field P ty f0)
       None
       (\<lambda>f0.
          retp f0)"

definition write_get_backup_configuration_result :: "ts_backup_configuration_resp option \<Rightarrow> out_call list" where
  "write_get_backup_configuration_result v =
     w_struct ''IClientRPCServiceGetBackupConfigurationResult'' (w_opt ''result_value'' TyStruct 0
           write_ts_backup_configuration_resp v)"

definition rpc_get_backup_configuration ::
    "'i in_protocol \<Rightarrow> 'o out_protocol \<Rightarrow> nat \<Rightarrow> unit \<Rightarrow> ('i, 'o) rpc_client \<Rightarrow>
     ts_backup_configuration_resp read_result \<times> ('i, 'o) rpc_client" where
  "rpc_get_backup_configuration P Q n req =
     rpc_call P Q ''getBackupConfiguration'' ''IClientRPCServiceGetBackupConfiguration''
       (write_get_backup_configuration_args req) (read_get_backup_configuration_result P n)"

context thrift_wire
begin

lemma wire_get_backup_configuration_args:
  "18 \<le> n \<Longrightarrow> wire (read_get_backup_configuration_args P n) write_get_backup_configuration_args (\<lambda>_. True)"
  unfolding read_get_backup_configuration_args_def write_get_backup_configuration_args_def
  by (rule wireI) ((rule wire_rules | (simp; fail))+)

lemma wire_get_backup_configuration_result:
  "d + 18 \<le> n \<Longrightarrow>
     wire (read_get_backup_configuration_result P n) write_get_backup_configuration_result (opt_ok
           (ok_ts_backup_configuration_resp d))"
  unfolding read_get_backup_configuration_result_def write_get_backup_configuration_result_def
  by (rule wireI) ((rule wire_rules wire_ts_backup_configuration_resp | (simp; fail))+)

end

subsection \<open>\<^verbatim>\<open>fetch_all_connections_info\<close>\<close>

definition read_fetch_all_connections_info_args :: "'i in_protocol \<Rightarrow> nat \<Rightarrow> ('i, unit) rd" where
  "read_fetch_all_connections_info_args P n =
     read_struct P n
       (\<lambda>k ty u. skip_field P ty u)
       ()
       (\<lambda>u.
          retp ())"

definition write_fetch_all_connections_info_args :: "unit \<Rightarrow> out_call list" where
  "write_fetch_all_connections_info_args u = w_struct ''fetchAllConnectionsInfo_args'' []"

definition read_fetch_all_connections_info_result :: "'i in_protocol \<Rightarrow> nat \<Rightarrow> ('i, ts_connection_info_resp
      option) rd" where
  "read_fetch_all_connections_info_result P n =
     read_struct P n
       (\<lambda>k ty f0.
          if k = 0 then store (read_ts_connection_info_resp P n) (\<lambda>v. v)
          else skip_field P ty f0)
       None
       (\<lambda>f0.
          retp f0)"

definition write_fetch_all_connections_info_result :: "ts_connection_info_resp option \<Rightarrow> out_call list" where
  "write_fetch_all_connections_info_result v =
     w_struct ''IClientRPCServiceFetchAllConnectionsInfoResult'' (w_opt ''result_value'' TyStruct 0
           write_ts_connection_info_resp v)"

definition rpc_fetch_all_connections_info ::
    "'i in_protocol \<Rightarrow> 'o out_protocol \<Rightarrow> nat \<Rightarrow> unit \<Rightarrow> ('i, 'o) rpc_client \<Rightarrow>
     ts_connection_info_resp read_result \<times> ('i, 'o) rpc_client" where
  "rpc_fetch_all_connections_info P Q n req =
     rpc_call P Q ''fetchAllConnectionsInfo'' ''IClientRPCServiceFetchAllConnectionsInfo''
       (write_fetch_all_connections_info_args req) (read_fetch_all_connections_info_result P n)"

context thrift_wire
begin

lemma wire_fetch_all_connections_info_args:
  "18 \<le> n \<Longrightarrow> wire (read_fetch_all_connections_info_args P n) write_fetch_all_connections_info_args (\<lambda>_. True)"
  unfolding read_fetch_all_connections_info_args_def write_fetch_all_connections_info_args_def
  by (rule wireI) ((rule wire_rules | (simp; fail))+)

lemma wire_fetch_all_connections_info_result:
  "18 \<le> n \<Longrightarrow>
     wire (read_fetch_all_connections_info_result P n) write_fetch_all_connections_info_result (opt_ok
           ok_ts_connection_info_resp)"
  unfolding read_fetch_all_connections_info_result_def write_fetch_all_connections_info_result_def
  by (rule wireI) ((rule wire_rules wire_ts_connection_info_resp | (simp; fail))+)

end

subsection \<open>\<^verbatim>\<open>test_connection_empty_r_p_c\<close>\<close>

definition read_test_connection_empty_r_p_c_args :: "'i in_protocol \<Rightarrow> nat \<Rightarrow> ('i, unit) rd" where
  "read_test_connection_empty_r_p_c_args P n =
     read_struct P n
       (\<lambda>k ty u. skip_field P ty u)
       ()
       (\<lambda>u.
          retp ())"

definition write_test_connection_empty_r_p_c_args :: "unit \<Rightarrow> out_call list" where
  "write_test_connection_empty_r_p_c_args u = w_struct ''testConnectionEmptyRPC_args'' []"

definition read_test_connection_empty_r_p_c_result :: "'i in_protocol \<Rightarrow> nat \<Rightarrow> ('i, ts_status option) rd" where
  "read_test_connection_empty_r_p_c_result P n =
     read_struct P n
       (\<lambda>k ty f0.
          if k = 0 then store (read_ts_status P n) (\<lambda>v. v)
          else skip_field P ty f0)
       None
       (\<lambda>f0.
          retp f0)"

definition write_test_connection_empty_r_p_c_result :: "ts_status option \<Rightarrow> out_call list" where
  "write_test_connection_empty_r_p_c_result v =
     w_struct ''IClientRPCServiceTestConnectionEmptyRPCResult'' (w_opt ''result_value'' TyStruct 0
           write_ts_status v)"

definition rpc_test_connection_empty_r_p_c ::
    "'i in_protocol \<Rightarrow> 'o out_protocol \<Rightarrow> nat \<Rightarrow> unit \<Rightarrow> ('i, 'o) rpc_client \<Rightarrow>
     ts_status read_result \<times> ('i, 'o) rpc_client" where
  "rpc_test_connection_empty_r_p_c P Q n req =
     rpc_call P Q ''testConnectionEmptyRPC'' ''IClientRPCServiceTestConnectionEmptyRPC''
       (write_test_connection_empty_r_p_c_args req) (read_test_connection_empty_r_p_c_result P n)"

context thrift_wire
begin

lemma wire_test_connection_empty_r_p_c_args:
  "18 \<le> n \<Longrightarrow> wire (read_test_connection_empty_r_p_c_args P n) write_test_connection_empty_r_p_c_args (\<lambda>_. True)"
  unfolding read_test_connection_empty_r_p_c_args_def write_test_connection_empty_r_p_c_args_def
  by (rule wireI) ((rule wire_rules | (simp; fail))+)

lemma wire_test_connection_empty_r_p_c_result:
  "d + 18 \<le> n \<Longrightarrow>
     wire (read_test_connection_empty_r_p_c_result P n) write_test_connection_empty_r_p_c_result (opt_ok
           (ok_ts_status d))"
  unfolding read_test_connection_empty_r_p_c_result_def write_test_connection_empty_r_p_c_result_def
  by (rule wireI) ((rule wire_rules wire_ts_status | (simp; fail))+)

end

end
