(* ===== verification/RpcQuirks.thy ===== *)
theory RpcQuirks
  imports RpcStatements RpcAdmin
begin

text \<open>
  Two places where the generated code of \<^verbatim>\<open>src/protocol/client.rs\<close> does not do what its interface says.
\<close>

context thrift_wire
begin

lemma reads_pipe_transfer_any_field:
  assumes "18 \<le> n" "ok_t_pipe_transfer_req v"
  shows "reads (read_pipe_transfer_args P n)
    (w_struct ''pipeTransfer_args'' (w_field ''other'' TyStruct k write_t_pipe_transfer_req v)) v"
  using assms unfolding read_pipe_transfer_args_def
  by - ((rule wire_rules wire_t_pipe_transfer_req | (simp; fail))+)

end

text \<open>
  Properties without a \<^verbatim>\<open>maxConcurrentClientNum\<close> come back with one: the reader starts that optional field at
  \<^verbatim>\<open>Some(0)\<close>, so over the wire absent becomes zero.
\<close>

theorem server_properties_absent_becomes_zero:
  assumes "thrift_wire P holds" "18 \<le> n" "ok_server_properties v"
    and "sp_max_concurrent_client_num v = None" "holds (write_server_properties v @ rest) i"
  shows "\<exists>i'. read_server_properties P n i = (Done (v\<lparr>sp_max_concurrent_client_num := Some 0\<rparr>), i') \<and> holds rest i'"
  using thrift_wire.reads_dest [OF assms(1) thrift_wire.reads_server_properties_absent [OF assms(1-4)], of rest i]
    assms(5) by blast

text \<open>
  The arguments of \<^verbatim>\<open>pipeTransfer\<close> (and likewise of \<^verbatim>\<open>handshake\<close> and \<^verbatim>\<open>pipeSubscribe\<close>) are taken from whatever
  field comes: \<^verbatim>\<open>neg1\<close> in the match is a pattern that binds any identifier, and the arm that skips unknown
  fields is dead.
\<close>

theorem pipe_transfer_takes_any_field:
  assumes "thrift_wire P holds" "18 \<le> n" "ok_t_pipe_transfer_req v"
    and "holds (w_struct ''pipeTransfer_args'' (w_field ''other'' TyStruct k write_t_pipe_transfer_req v) @ rest) i"
  shows "\<exists>i'. read_pipe_transfer_args P n i = (Done v, i') \<and> holds rest i'"
  using thrift_wire.reads_dest [OF assms(1) thrift_wire.reads_pipe_transfer_any_field [OF assms(1-3), of k], of rest i]
    assms(4) by blast

end
