(* ===== verification/RpcClient.thy ===== *)
theory RpcClient
  imports RpcCall ThriftRequests
begin

text \<open>
  The twelve calls of the RPC service that the session makes, with the structures of their arguments
  and results, as \<^verbatim>\<open>src/protocol/client.rs\<close> has them.
\<close>

subsection \<open>\<^verbatim>\<open>open_session\<close>\<close>

definition read_open_session_args :: "'i in_protocol \<Rightarrow> nat \<Rightarrow> ('i, ts_open_session_req) rd" where
  "read_open_session_args P n =
     read_struct P n
       (\<lambda>k ty f1.
          if k = 1 then store (read_ts_open_session_req P n) (\<lambda>v. v)
          else skip_field P ty f1)
       None
       (\<lambda>f1.
          bindp (required P ''IClientRPCServiceOpenSessionArgs.req'' f1) (\<lambda>f1.
          retp f1))"

definition write_open_session_args :: "ts_open_session_req \<Rightarrow> out_call list" where
  "write_open_session_args v =
     w_struct ''openSession_args'' (w_field ''req'' TyStruct 1 write_ts_open_session_req v)"

definition read_open_session_result :: "'i in_protocol \<Rightarrow> nat \<Rightarrow> ('i, ts_open_session_resp option) rd" where
  "read_open_session_result P n =
     read_struct P n
       (\<lambda>k ty f0.
          if k = 0 then store (read_ts_open_session_resp P n) (\<lambda>v. v)
          else skip_field P ty f0)
       None
       (\<lambda>f0.
          retp f0)"

definition write_open_session_result :: "ts_open_session_resp option \<Rightarrow> out_call list" where
  "write_open_session_result v =
     w_struct ''IClientRPCServiceOpenSessionResult'' (w_opt ''result_value'' TyStruct 0
           write_ts_open_session_resp v)"

definition rpc_open_session ::
    "'i in_protocol \<Rightarrow> 'o out_protocol \<Rightarrow> nat \<Rightarrow> ts_open_session_req \<Rightarrow> ('i, 'o) rpc_client \<Rightarrow>
     ts_open_session_resp read_result \<times> ('i, 'o) rpc_client" where
  "rpc_open_session P Q n req =
     rpc_call P Q ''openSession'' ''IClientRPCServiceOpenSession''
       (write_open_session_args req) (read_open_session_result P n)"

context thrift_wire
begin

lemma wire_open_session_args:
  "18 \<le> n \<Longrightarrow> wire (read_open_session_args P n) write_open_session_args ok_ts_open_session_req"
  unfolding read_open_session_args_def write_open_session_args_def
  by (rule wireI) ((rule wire_rules wire_ts_open_session_req | (simp; fail))+)

lemma wire_open_session_result:
  "d + 18 \<le> n \<Longrightarrow>
     wire (read_open_session_result P n) write_open_session_result (opt_ok (ok_ts_open_session_resp d))"
  unfolding read_open_session_result_def write_open_session_result_def
  by (rule wireI) ((rule wire_rules wire_ts_open_session_resp | (simp; fail))+)

end

subsection \<open>\<^verbatim>\<open>close_session\<close>\<close>

definition read_close_session_args :: "'i in_protocol \<Rightarrow> nat \<Rightarrow> ('i, ts_close_session_req) rd" where
  "read_close_session_args P n =
     read_struct P n
       (\<lambda>k ty f1.
          if k = 1 then store (read_ts_close_session_req P n) (\<lambda>v. v)
          else skip_field P ty f1)
       None
       (\<lambda>f1.
          bindp (required P ''IClientRPCServiceCloseSessionArgs.req'' f1) (\<lambda>f1.
          retp f1))"

definition write_close_session_args :: "ts_close_session_req \<Rightarrow> out_call list" where
  "write_close_session_args v =
     w_struct ''closeSession_args'' (w_field ''req'' TyStruct 1 write_ts_close_session_req v)"

definition read_close_session_result :: "'i in_protocol \<Rightarrow> nat \<Rightarrow> ('i, ts_status option) rd" where
  "read_close_session_result P n =
     read_struct P n
       (\<lambda>k ty f0.
          if k = 0 then store (read_ts_status P n) (\<lambda>v. v)
          else skip_field P ty f0)
       None
       (\<lambda>f0.
          retp f0)"

definition write_close_session_result :: "ts_status option \<Rightarrow> out_call list" where
  "write_close_session_result v =
     w_struct ''IClientRPCServiceCloseSessionResult'' (w_opt ''result_value'' TyStruct 0 write_ts_status v)"

definition rpc_close_session ::
    "'i in_protocol \<Rightarrow> 'o out_protocol \<Rightarrow> nat \<Rightarrow> ts_close_session_req \<Rightarrow> ('i, 'o) rpc_client \<Rightarrow>
     ts_status read_result \<times> ('i, 'o) rpc_client" where
  "rpc_close_session P Q n req =
     rpc_call P Q ''closeSession'' ''IClientRPCServiceCloseSession''
       (write_close_session_args req) (read_close_session_result P n)"

context thrift_wire
begin

lemma wire_close_session_args:
  "18 \<le> n \<Longrightarrow> wire (read_close_session_args P n) write_close_session_args ok_ts_close_session_req"
  unfolding read_close_session_args_def write_close_session_args_def
  by (rule wireI) ((rule wire_rules wire_ts_close_session_req | (simp; fail))+)

lemma wire_close_session_result:
  "d + 18 \<le> n \<Longrightarrow>
     wire (read_close_session_result P n) write_close_session_result (opt_ok (ok_ts_status d))"
  unfolding read_close_session_result_def write_close_session_result_def
  by (rule wireI) ((rule wire_rules wire_ts_status | (simp; fail))+)

end

subsection \<open>\<^verbatim>\<open>request_statement_id\<close>\<close>

definition read_request_statement_id_args :: "'i in_protocol \<Rightarrow> nat \<Rightarrow> ('i, i64) rd" where
  "read_request_statement_id_args P n =
     read_struct P n
       (\<lambda>k ty f1.
          if k = 1 then store (callp (ip_i64 P)) (\<lambda>v. v)
          else skip_field P ty f1)
       None
       (\<lambda>f1.
          bindp (required P ''IClientRPCServiceRequestStatementIdArgs.session_id'' f1) (\<lambda>f1.
          retp f1))"

definition write_request_statement_id_args :: "i64 \<Rightarrow> out_call list" where
  "write_request_statement_id_args v =
     w_struct ''requestStatementId_args'' (w_field ''sessionId'' TyI64 1 w_i64 v)"

definition read_request_statement_id_result :: "'i in_protocol \<Rightarrow> nat \<Rightarrow> ('i, i64 option) rd" where
  "read_request_statement_id_result P n =
     read_struct P n
       (\<lambda>k ty f0.
          if k = 0 then store (callp (ip_i64 P)) (\<lambda>v. v)
          else skip_field P ty f0)
       None
       (\<lambda>f0.
          retp f0)"

definition write_request_statement_id_result :: "i64 option \<Rightarrow> out_call list" where
  "write_request_statement_id_result v =
     w_struct ''IClientRPCServiceRequestStatementIdResult'' (w_opt ''result_value'' TyI64 0 w_i64 v)"

definition rpc_request_statement_id ::
    "'i in_protocol \<Rightarrow> 'o out_protocol \<Rightarrow> nat \<Rightarrow> i64 \<Rightarrow> ('i, 'o) rpc_client \<Rightarrow>
     i64 read_result \<times> ('i, 'o) rpc_client" where
  "rpc_request_statement_id P Q n req =
     rpc_call P Q ''requestStatementId'' ''IClientRPCServiceRequestStatementId''
       (write_request_statement_id_args req) (read_request_statement_id_result P n)"

context thrift_wire
begin

lemma wire_request_statement_id_args:
  "18 \<le> n \<Longrightarrow> wire (read_request_statement_id_args P n) write_request_statement_id_args (\<lambda>_. True)"
  unfolding read_request_statement_id_args_def write_request_statement_id_args_def
  by (rule wireI) ((rule wire_rules | (simp; fail))+)

lemma wire_request_statement_id_result:
  "18 \<le> n \<Longrightarrow>
     wire (read_request_statement_id_result P n) write_request_statement_id_result (opt_ok (\<lambda>_. True))"
  unfolding read_request_statement_id_result_def write_request_statement_id_result_def
  by (rule wireI) ((rule wire_rules | (simp; fail))+)

end

subsection \<open>\<^verbatim>\<open>execute_query_statement_v2\<close>\<close>

definition read_execute_query_statement_v2_args :: "'i in_protocol \<Rightarrow> nat \<Rightarrow> ('i, ts_execute_statement_req) rd"
      where
  "read_execute_query_statement_v2_args P n =
     read_struct P n
       (\<lambda>k ty f1.
          if k = 1 then store (read_ts_execute_statement_req P n) (\<lambda>v. v)
          else skip_field P ty f1)
       None
       (\<lambda>f1.
          bindp (required P ''IClientRPCServiceExecuteQueryStatementV2Args.req'' f1) (\<lambda>f1.
          retp f1))"

definition write_execute_query_statement_v2_args :: "ts_execute_statement_req \<Rightarrow> out_call list" where
  "write_execute_query_statement_v2_args v =
     w_struct ''executeQueryStatementV2_args'' (w_field ''req'' TyStruct 1 write_ts_execute_statement_req v)"

definition read_execute_query_statement_v2_result :: "'i in_protocol \<Rightarrow> nat \<Rightarrow> ('i, ts_execute_statement_resp
      option) rd" where
  "read_execute_query_statement_v2_result P n =
     read_struct P n
       (\<lambda>k ty f0.
          if k = 0 then store (read_ts_execute_statement_resp P n) (\<lambda>v. v)
          else skip_field P ty f0)
       None
       (\<lambda>f0.
          retp f0)"

definition write_execute_query_statement_v2_result :: "ts_execute_statement_resp option \<Rightarrow> out_call list" where
  "write_execute_query_statement_v2_result v =
     w_struct ''IClientRPCServiceExecuteQueryStatementV2Result'' (w_opt ''result_value'' TyStruct 0
           write_ts_execute_statement_resp v)"

definition rpc_execute_query_statement_v2 ::
    "'i in_protocol \<Rightarrow> 'o out_protocol \<Rightarrow> nat \<Rightarrow> ts_execute_statement_req \<Rightarrow> ('i, 'o) rpc_client \<Rightarrow>
     ts_execute_statement_resp read_result \<times> ('i, 'o) rpc_client" where
  "rpc_execute_query_statement_v2 P Q n req =
     rpc_call P Q ''executeQueryStatementV2'' ''IClientRPCServiceExecuteQueryStatementV2''
       (write_execute_query_statement_v2_args req) (read_execute_query_statement_v2_result P n)"

context thrift_wire
begin

lemma wire_execute_query_statement_v2_args:
  "18 \<le> n \<Longrightarrow> wire (read_execute_query_statement_v2_args P n) write_execute_query_statement_v2_args
        ok_ts_execute_statement_req"
  unfolding read_execute_query_statement_v2_args_def write_execute_query_statement_v2_args_def
  by (rule wireI) ((rule wire_rules wire_ts_execute_statement_req | (simp; fail))+)

lemma wire_execute_query_statement_v2_result:
  "d + 18 \<le> n \<Longrightarrow>
     wire (read_execute_query_statement_v2_result P n) write_execute_query_statement_v2_result (opt_ok
           (ok_ts_execute_statement_resp d))"
  unfolding read_execute_query_statement_v2_result_def write_execute_query_statement_v2_result_def
  by (rule wireI) ((rule wire_rules wire_ts_execute_statement_resp | (simp; fail))+)

end

subsection \<open>\<^verbatim>\<open>execute_update_statement_v2\<close>\<close>

definition read_execute_update_statement_v2_args :: "'i in_protocol \<Rightarrow> nat \<Rightarrow> ('i, ts_execute_statement_req) rd"
      where
  "read_execute_update_statement_v2_args P n =
     read_struct P n
       (\<lambda>k ty f1.
          if k = 1 then store (read_ts_execute_statement_req P n) (\<lambda>v. v)
          else skip_field P ty f1)
       None
       (\<lambda>f1.
          bindp (required P ''IClientRPCServiceExecuteUpdateStatementV2Args.req'' f1) (\<lambda>f1.
          retp f1))"

definition write_execute_update_statement_v2_args :: "ts_execute_statement_req \<Rightarrow> out_call list" where
  "write_execute_update_statement_v2_args v =
     w_struct ''executeUpdateStatementV2_args'' (w_field ''req'' TyStruct 1 write_ts_execute_statement_req v)"

definition read_execute_update_statement_v2_result :: "'i in_protocol \<Rightarrow> nat \<Rightarrow> ('i, ts_execute_statement_resp
      option) rd" where
  "read_execute_update_statement_v2_result P n =
     read_struct P n
       (\<lambda>k ty f0.
          if k = 0 then store (read_ts_execute_statement_resp P n) (\<lambda>v. v)
          else skip_field P ty f0)
       None
       (\<lambda>f0.
          retp f0)"

definition write_execute_update_statement_v2_result :: "ts_execute_statement_resp option \<Rightarrow> out_call list" where
  "write_execute_update_statement_v2_result v =
     w_struct ''IClientRPCServiceExecuteUpdateStatementV2Result'' (w_opt ''result_value'' TyStruct 0
           write_ts_execute_statement_resp v)"

definition rpc_execute_update_statement_v2 ::
    "'i in_protocol \<Rightarrow> 'o out_protocol \<Rightarrow> nat \<Rightarrow> ts_execute_statement_req \<Rightarrow> ('i, 'o) rpc_client \<Rightarrow>
     ts_execute_statement_resp read_result \<times> ('i, 'o) rpc_client" where
  "rpc_execute_update_statement_v2 P Q n req =
     rpc_call P Q ''executeUpdateStatementV2'' ''IClientRPCServiceExecuteUpdateStatementV2''
       (write_execute_update_statement_v2_args req) (read_execute_update_statement_v2_result P n)"

context thrift_wire
begin

lemma wire_execute_update_statement_v2_args:
  "18 \<le> n \<Longrightarrow> wire (read_execute_update_statement_v2_args P n) write_execute_update_statement_v2_args
        ok_ts_execute_statement_req"
  unfolding read_execute_update_statement_v2_args_def write_execute_update_statement_v2_args_def
  by (rule wireI) ((rule wire_rules wire_ts_execute_statement_req | (simp; fail))+)

lemma wire_execute_update_statement_v2_result:
  "d + 18 \<le> n \<Longrightarrow>
     wire (read_execute_update_statement_v2_result P n) write_execute_update_statement_v2_result (opt_ok
           (ok_ts_execute_statement_resp d))"
  unfolding read_execute_update_statement_v2_result_def write_execute_update_statement_v2_result_def
  by (rule wireI) ((rule wire_rules wire_ts_execute_statement_resp | (simp; fail))+)

end

subsection \<open>\<^verbatim>\<open>fetch_results_v2\<close>\<close>

definition read_fetch_results_v2_args :: "'i in_protocol \<Rightarrow> nat \<Rightarrow> ('i, ts_fetch_results_req) rd" where
  "read_fetch_results_v2_args P n =
     read_struct P n
       (\<lambda>k ty f1.
          if k = 1 then store (read_ts_fetch_results_req P n) (\<lambda>v. v)
          else skip_field P ty f1)
       None
       (\<lambda>f1.
          bindp (required P ''IClientRPCServiceFetchResultsV2Args.req'' f1) (\<lambda>f1.
          retp f1))"

definition write_fetch_results_v2_args :: "ts_fetch_results_req \<Rightarrow> out_call list" where
  "write_fetch_results_v2_args v =
     w_struct ''fetchResultsV2_args'' (w_field ''req'' TyStruct 1 write_ts_fetch_results_req v)"

definition read_fetch_results_v2_result :: "'i in_protocol \<Rightarrow> nat \<Rightarrow> ('i, ts_fetch_results_resp option) rd" where
  "read_fetch_results_v2_result P n =
     read_struct P n
       (\<lambda>k ty f0.
          if k = 0 then store (read_ts_fetch_results_resp P n) (\<lambda>v. v)
          else skip_field P ty f0)
       None
       (\<lambda>f0.
          retp f0)"

definition write_fetch_results_v2_result :: "ts_fetch_results_resp option \<Rightarrow> out_call list" where
  "write_fetch_results_v2_result v =
     w_struct ''IClientRPCServiceFetchResultsV2Result'' (w_opt ''result_value'' TyStruct 0
           write_ts_fetch_results_resp v)"

definition rpc_fetch_results_v2 ::
    "'i in_protocol \<Rightarrow> 'o out_protocol \<Rightarrow> nat \<Rightarrow> ts_fetch_results_req \<Rightarrow> ('i, 'o) rpc_client \<Rightarrow>
     ts_fetch_results_resp read_result \<times> ('i, 'o) rpc_client" where
  "rpc_fetch_results_v2 P Q n req =
     rpc_call P Q ''fetchResultsV2'' ''IClientRPCServiceFetchsV2Result''
       (write_fetch_results_v2_args req) (read_fetch_results_v2_result P n)"

context thrift_wire
begin

lemma wire_fetch_results_v2_args:
  "18 \<le> n \<Longrightarrow> wire (read_fetch_results_v2_args P n) write_fetch_results_v2_args ok_ts_fetch_results_req"
  unfolding read_fetch_results_v2_args_def write_fetch_results_v2_args_def
  by (rule wireI) ((rule wire_rules wire_ts_fetch_results_req | (simp; fail))+)

lemma wire_fetch_results_v2_result:
  "d + 18 \<le> n \<Longrightarrow>
     wire (read_fetch_results_v2_result P n) write_fetch_results_v2_result (opt_ok (ok_ts_fetch_results_resp
           d))"
  unfolding read_fetch_results_v2_result_def write_fetch_results_v2_result_def
  by (rule wireI) ((rule wire_rules wire_ts_fetch_results_resp | (simp; fail))+)

end

subsection \<open>\<^verbatim>\<open>close_operation\<close>\<close>

definition read_close_operation_args :: "'i in_protocol \<Rightarrow> nat \<Rightarrow> ('i, ts_close_operation_req) rd" where
  "read_close_operation_args P n =
     read_struct P n
       (\<lambda>k ty f1.
          if k = 1 then store (read_ts_close_operation_req P n) (\<lambda>v. v)
          else skip_field P ty f1)
       None
       (\<lambda>f1.
          bindp (required P ''IClientRPCServiceCloseOperationArgs.req'' f1) (\<lambda>f1.
          retp f1))"

definition write_close_operation_args :: "ts_close_operation_req \<Rightarrow> out_call list" where
  "write_close_operation_args v =
     w_struct ''closeOperation_args'' (w_field ''req'' TyStruct 1 write_ts_close_operation_req v)"

definition read_close_operation_result :: "'i in_protocol \<Rightarrow> nat \<Rightarrow> ('i, ts_status option) rd" where
  "read_close_operation_result P n =
     read_struct P n
       (\<lambda>k ty f0.
          if k = 0 then store (read_ts_status P n) (\<lambda>v. v)
          else skip_field P ty f0)
       None
       (\<lambda>f0.
          retp f0)"

definition write_close_operation_result :: "ts_status option \<Rightarrow> out_call list" where
  "write_close_operation_result v =
     w_struct ''IClientRPCServiceCloseOperationResult'' (w_opt ''result_value'' TyStruct 0 write_ts_status v)"

definition rpc_close_operation ::
    "'i in_protocol \<Rightarrow> 'o out_protocol \<Rightarrow> nat \<Rightarrow> ts_close_operation_req \<Rightarrow> ('i, 'o) rpc_client \<Rightarrow>
     ts_status read_result \<times> ('i, 'o) rpc_client" where
  "rpc_close_operation P Q n req =
     rpc_call P Q ''closeOperation'' ''IClientRPCServiceCloseOperation''
       (write_close_operation_args req) (read_close_operation_result P n)"

context thrift_wire
begin

lemma wire_close_operation_args:
  "18 \<le> n \<Longrightarrow> wire (read_close_operation_args P n) write_close_operation_args ok_ts_close_operation_req"
  unfolding read_close_operation_args_def write_close_operation_args_def
  by (rule wireI) ((rule wire_rules wire_ts_close_operation_req | (simp; fail))+)

lemma wire_close_operation_result:
  "d + 18 \<le> n \<Longrightarrow>
     wire (read_close_operation_result P n) write_close_operation_result (opt_ok (ok_ts_status d))"
  unfolding read_close_operation_result_def write_close_operation_result_def
  by (rule wireI) ((rule wire_rules wire_ts_status | (simp; fail))+)

end

subsection \<open>\<^verbatim>\<open>insert_record\<close>\<close>

definition read_insert_record_args :: "'i in_protocol \<Rightarrow> nat \<Rightarrow> ('i, ts_insert_record_req) rd" where
  "read_insert_record_args P n =
     read_struct P n
       (\<lambda>k ty f1.
          if k = 1 then store (read_ts_insert_record_req P n) (\<lambda>v. v)
          else skip_field P ty f1)
       None
       (\<lambda>f1.
          bindp (required P ''IClientRPCServiceInsertRecordArgs.req'' f1) (\<lambda>f1.
          retp f1))"

definition write_insert_record_args :: "ts_insert_record_req \<Rightarrow> out_call list" where
  "write_insert_record_args v =
     w_struct ''insertRecord_args'' (w_field ''req'' TyStruct 1 write_ts_insert_record_req v)"

definition read_insert_record_result :: "'i in_protocol \<Rightarrow> nat \<Rightarrow> ('i, ts_status option) rd" where
  "read_insert_record_result P n =
     read_struct P n
       (\<lambda>k ty f0.
          if k = 0 then store (read_ts_status P n) (\<lambda>v. v)
          else skip_field P ty f0)
       None
       (\<lambda>f0.
          retp f0)"

definition write_insert_record_result :: "ts_status option \<Rightarrow> out_call list" where
  "write_insert_record_result v =
     w_struct ''IClientRPCServiceInsertRecordResult'' (w_opt ''result_value'' TyStruct 0 write_ts_status v)"

definition rpc_insert_record ::
    "'i in_protocol \<Rightarrow> 'o out_protocol \<Rightarrow> nat \<Rightarrow> ts_insert_record_req \<Rightarrow> ('i, 'o) rpc_client \<Rightarrow>
     ts_status read_result \<times> ('i, 'o) rpc_client" where
  "rpc_insert_record P Q n req =
     rpc_call P Q ''insertRecord'' ''IClientRPCServiceInsertRecord''
       (write_insert_record_args req) (read_insert_record_result P n)"

context thrift_wire
begin

lemma wire_insert_record_args:
  "18 \<le> n \<Longrightarrow> wire (read_insert_record_args P n) write_insert_record_args ok_ts_insert_record_req"
  unfolding read_insert_record_args_def write_insert_record_args_def
  by (rule wireI) ((rule wire_rules wire_ts_insert_record_req | (simp; fail))+)

lemma wire_insert_record_result:
  "d + 18 \<le> n \<Longrightarrow>
     wire (read_insert_record_result P n) write_insert_record_result (opt_ok (ok_ts_status d))"
  unfolding read_insert_record_result_def write_insert_record_result_def
  by (rule wireI) ((rule wire_rules wire_ts_status | (simp; fail))+)

end

subsection \<open>\<^verbatim>\<open>insert_tablet\<close>\<close>

definition read_insert_tablet_args :: "'i in_protocol \<Rightarrow> nat \<Rightarrow> ('i, ts_insert_tablet_req) rd" where
  "read_insert_tablet_args P n =
     read_struct P n
       (\<lambda>k ty f1.
          if k = 1 then store (read_ts_insert_tablet_req P n) (\<lambda>v. v)
          else skip_field P ty f1)
       None
       (\<lambda>f1.
          bindp (required P ''IClientRPCServiceInsertTabletArgs.req'' f1) (\<lambda>f1.
          retp f1))"

definition write_insert_tablet_args :: "ts_insert_tablet_req \<Rightarrow> out_call list" where
  "write_insert_tablet_args v =
     w_struct ''insertTablet_args'' (w_field ''req'' TyStruct 1 write_ts_insert_tablet_req v)"

definition read_insert_tablet_result :: "'i in_protocol \<Rightarrow> nat \<Rightarrow> ('i, ts_status option) rd" where
  "read_insert_tablet_result P n =
     read_struct P n
       (\<lambda>k ty f0.
          if k = 0 then store (read_ts_status P n) (\<lambda>v. v)
          else skip_field P ty f0)
       None
       (\<lambda>f0.
          retp f0)"

definition write_insert_tablet_result :: "ts_status option \<Rightarrow> out_call list" where
  "write_insert_tablet_result v =
     w_struct ''IClientRPCServiceInsertTabletResult'' (w_opt ''result_value'' TyStruct 0 write_ts_status v)"

definition rpc_insert_tablet ::
    "'i in_protocol \<Rightarrow> 'o out_protocol \<Rightarrow> nat \<Rightarrow> ts_insert_tablet_req \<Rightarrow> ('i, 'o) rpc_client \<Rightarrow>
     ts_status read_result \<times> ('i, 'o) rpc_client" where
  "rpc_insert_tablet P Q n req =
     rpc_call P Q ''insertTablet'' ''IClientRPCServiceInsertTablet''
       (write_insert_tablet_args req) (read_insert_tablet_result P n)"

context thrift_wire
begin

lemma wire_insert_tablet_args:
  "18 \<le> n \<Longrightarrow> wire (read_insert_tablet_args P n) write_insert_tablet_args ok_ts_insert_tablet_req"
  unfolding read_insert_tablet_args_def write_insert_tablet_args_def
  by (rule wireI) ((rule wire_rules wire_ts_insert_tablet_req | (simp; fail))+)

lemma wire_insert_tablet_result:
  "d + 18 \<le> n \<Longrightarrow>
     wire (read_insert_tablet_result P n) write_insert_tablet_result (opt_ok (ok_ts_status d))"
  unfolding read_insert_tablet_result_def write_insert_tablet_result_def
  by (rule wireI) ((rule wire_rules wire_ts_status | (simp; fail))+)

end

subsection \<open>\<^verbatim>\<open>insert_tablets\<close>\<close>

definition read_insert_tablets_args :: "'i in_protocol \<Rightarrow> nat \<Rightarrow> ('i, ts_insert_tablets_req) rd" where
  "read_insert_tablets_args P n =
     read_struct P n
       (\<lambda>k ty f1.
          if k = 1 then store (read_ts_insert_tablets_req P n) (\<lambda>v. v)
          else skip_field P ty f1)
       None
       (\<lambda>f1.
          bindp (required P ''IClientRPCServiceInsertTabletsArgs.req'' f1) (\<lambda>f1.
          retp f1))"

definition write_insert_tablets_args :: "ts_insert_tablets_req \<Rightarrow> out_call list" where
  "write_insert_tablets_args v =
     w_struct ''insertTablets_args'' (w_field ''req'' TyStruct 1 write_ts_insert_tablets_req v)"

definition read_insert_tablets_result :: "'i in_protocol \<Rightarrow> nat \<Rightarrow> ('i, ts_status option) rd" where
  "read_insert_tablets_result P n =
     read_struct P n
       (\<lambda>k ty f0.
          if k = 0 then store (read_ts_status P n) (\<lambda>v. v)
          else skip_field P ty f0)
       None
       (\<lambda>f0.
          retp f0)"

definition write_insert_tablets_result :: "ts_status option \<Rightarrow> out_call list" where
  "write_insert_tablets_result v =
     w_struct ''IClientRPCServiceInsertTabletsResult'' (w_opt ''result_value'' TyStruct 0 write_ts_status v)"

definition rpc_insert_tablets ::
    "'i in_protocol \<Rightarrow> 'o out_protocol \<Rightarrow> nat \<Rightarrow> ts_insert_tablets_req \<Rightarrow> ('i, 'o) rpc_client \<Rightarrow>
     ts_status read_result \<times> ('i, 'o) rpc_client" where
  "rpc_insert_tablets P Q n req =
     rpc_call P Q ''insertTablets'' ''IClientRPCServiceInsertTablets''
       (write_insert_tablets_args req) (read_insert_tablets_result P n)"

context thrift_wire
begin

lemma wire_insert_tablets_args:
  "18 \<le> n \<Longrightarrow> wire (read_insert_tablets_args P n) write_insert_tablets_args ok_ts_insert_tablets_req"
  unfolding read_insert_tablets_args_def write_insert_tablets_args_def
  by (rule wireI) ((rule wire_rules wire_ts_insert_tablets_req | (simp; fail))+)

lemma wire_insert_tablets_result:
  "d + 18 \<le> n \<Longrightarrow>
     wire (read_insert_tablets_result P n) write_insert_tablets_result (opt_ok (ok_ts_status d))"
  unfolding read_insert_tablets_result_def write_insert_tablets_result_def
  by (rule wireI) ((rule wire_rules wire_ts_status | (simp; fail))+)

end

subsection \<open>\<^verbatim>\<open>insert_records\<close>\<close>

definition read_insert_records_args :: "'i in_protocol \<Rightarrow> nat \<Rightarrow> ('i, ts_insert_records_req) rd" where
  "read_insert_records_args P n =
     read_struct P n
       (\<lambda>k ty f1.
          if k = 1 then store (read_ts_insert_records_req P n) (\<lambda>v. v)
          else skip_field P ty f1)
       None
       (\<lambda>f1.
          bindp (required P ''IClientRPCServiceInsertRecordsArgs.req'' f1) (\<lambda>f1.
          retp f1))"

definition write_insert_records_args :: "ts_insert_records_req \<Rightarrow> out_call list" where
  "write_insert_records_args v =
     w_struct ''insertRecords_args'' (w_field ''req'' TyStruct 1 write_ts_insert_records_req v)"

definition read_insert_records_result :: "'i in_protocol \<Rightarrow> nat \<Rightarrow> ('i, ts_status option) rd" where
  "read_insert_records_result P n =
     read_struct P n
       (\<lambda>k ty f0.
          if k = 0 then store (read_ts_status P n) (\<lambda>v. v)
          else skip_field P ty f0)
       None
       (\<lambda>f0.
          retp f0)"

definition write_insert_records_result :: "ts_status option \<Rightarrow> out_call list" where
  "write_insert_records_result v =
     w_struct ''IClientRPCServiceInsertRecordsResult'' (w_opt ''result_value'' TyStruct 0 write_ts_status v)"

definition rpc_insert_records ::
    "'i in_protocol \<Rightarrow> 'o out_protocol \<Rightarrow> nat \<Rightarrow> ts_insert_records_req \<Rightarrow> ('i, 'o) rpc_client \<Rightarrow>
     ts_status read_result \<times> ('i, 'o) rpc_client" where
  "rpc_insert_records P Q n req =
     rpc_call P Q ''insertRecords'' ''IClientRPCServiceInsertRecords''
       (write_insert_records_args req) (read_insert_records_result P n)"

context thrift_wire
begin

lemma wire_insert_records_args:
  "18 \<le> n \<Longrightarrow> wire (read_insert_records_args P n) write_insert_records_args ok_ts_insert_records_req"
  unfolding read_insert_records_args_def write_insert_records_args_def
  by (rule wireI) ((rule wire_rules wire_ts_insert_records_req | (simp; fail))+)

lemma wire_insert_records_result:
  "d + 18 \<le> n \<Longrightarrow>
     wire (read_insert_records_result P n) write_insert_records_result (opt_ok (ok_ts_status d))"
  unfolding read_insert_records_result_def write_insert_records_result_def
  by (rule wireI) ((rule wire_rules wire_ts_status | (simp; fail))+)

end

subsection \<open>\<^verbatim>\<open>insert_records_of_one_device\<close>\<close>

definition read_insert_records_of_one_device_args :: "'i in_protocol \<Rightarrow> nat \<Rightarrow> ('i,
      ts_insert_records_of_one_device_req) rd" where
  "read_insert_records_of_one_device_args P n =
     read_struct P n
       (\<lambda>k ty f1.
          if k = 1 then store (read_ts_insert_records_of_one_device_req P n) (\<lambda>v. v)
          else skip_field P ty f1)
       None
       (\<lambda>f1.
          bindp (required P ''IClientRPCServiceInsertRecordsOfOneDeviceArgs.req'' f1) (\<lambda>f1.
          retp f1))"

definition write_insert_records_of_one_device_args :: "ts_insert_records_of_one_device_req \<Rightarrow> out_call list"
      where
  "write_insert_records_of_one_device_args v =
     w_struct ''insertRecordsOfOneDevice_args'' (w_field ''req'' TyStruct 1
           write_ts_insert_records_of_one_device_req v)"

definition read_insert_records_of_one_device_result :: "'i in_protocol \<Rightarrow> nat \<Rightarrow> ('i, ts_status option) rd" where
  "read_insert_records_of_one_device_result P n =
     read_struct P n
       (\<lambda>k ty f0.
          if k = 0 then store (read_ts_status P n) (\<lambda>v. v)
          else skip_field P ty f0)
       None
       (\<lambda>f0.
          retp f0)"

definition write_insert_records_of_one_device_result :: "ts_status option \<Rightarrow> out_call list" where
  "write_insert_records_of_one_device_result v =
     w_struct ''IClientRPCServiceInsertRecordsOfOneDeviceResult'' (w_opt ''result_value'' TyStruct 0
           write_ts_status v)"

definition rpc_insert_records_of_one_device ::
    "'i in_protocol \<Rightarrow> 'o out_protocol \<Rightarrow> nat \<Rightarrow> ts_insert_records_of_one_device_req \<Rightarrow> ('i, 'o) rpc_client \<Rightarrow>
     ts_status read_result \<times> ('i, 'o) rpc_client" where
  "rpc_insert_records_of_one_device P Q n req =
     rpc_call P Q ''insertRecordsOfOneDevice'' ''IClientRPCServiceInsertRecordsOfOneDevice''
       (write_insert_records_of_one_device_args req) (read_insert_records_of_one_device_result P n)"

context thrift_wire
begin

lemma wire_insert_records_of_one_device_args:
  "18 \<le> n \<Longrightarrow> wire (read_insert_records_of_one_device_args P n) write_insert_records_of_one_device_args
        ok_ts_insert_records_of_one_device_req"
  unfolding read_insert_records_of_one_device_args_def write_insert_records_of_one_device_args_def
  by (rule wireI) ((rule wire_rules wire_ts_insert_records_of_one_device_req | (simp; fail))+)

lemma wire_insert_records_of_one_device_result:
  "d + 18 \<le> n \<Longrightarrow>
     wire (read_insert_records_of_one_device_result P n) write_insert_records_of_one_device_result (opt_ok
           (ok_ts_status d))"
  unfolding read_insert_records_of_one_device_result_def write_insert_records_of_one_device_result_def
  by (rule wireI) ((rule wire_rules wire_ts_status | (simp; fail))+)

end

end
