(* ===== verification/RpcServer.thy ===== *)
theory RpcServer
  imports RpcClient RpcStatements RpcAdmin
begin

text \<open>
  The server side of the RPC service in \<^verbatim>\<open>src/protocol/client.rs\<close>: the handler a server implements, the
  processing of each call and the dispatch on the name of a message. The handler may change a state \<open>'s\<close>
  of the server. What the \<^verbatim>\<open>thrift\<close> crate adds is the parameter \<open>thrift_server\<close>: how it writes an
  application error, how it describes another error, and what it does with the outcome of a call.
\<close>

section \<open>The handler\<close>

record 's rpc_handler =
  handle_execute_query_statement_v2 ::
    "ts_execute_statement_req \<Rightarrow> 's \<Rightarrow> (thrift_error + ts_execute_statement_resp) \<times> 's"
  handle_execute_update_statement_v2 ::
    "ts_execute_statement_req \<Rightarrow> 's \<Rightarrow> (thrift_error + ts_execute_statement_resp) \<times> 's"
  handle_execute_statement_v2 ::
    "ts_execute_statement_req \<Rightarrow> 's \<Rightarrow> (thrift_error + ts_execute_statement_resp) \<times> 's"
  handle_execute_raw_data_query_v2 ::
    "ts_raw_data_query_req \<Rightarrow> 's \<Rightarrow> (thrift_error + ts_execute_statement_resp) \<times> 's"
  handle_execute_last_data_query_v2 ::
    "ts_last_data_query_req \<Rightarrow> 's \<Rightarrow> (thrift_error + ts_execute_statement_resp) \<times> 's"
  handle_execute_fast_last_data_query_for_one_prefix_path ::
    "ts_fast_last_data_query_for_one_prefix_path_req \<Rightarrow> 's \<Rightarrow> (thrift_error + ts_execute_statement_resp) \<times> 's"
  handle_execute_fast_last_data_query_for_one_device_v2 ::
    "ts_fast_last_data_query_for_one_device_req \<Rightarrow> 's \<Rightarrow> (thrift_error + ts_execute_statement_resp) \<times> 's"
  handle_execute_aggregation_query_v2 ::
    "ts_aggregation_query_req \<Rightarrow> 's \<Rightarrow> (thrift_error + ts_execute_statement_resp) \<times> 's"
  handle_fetch_results_v2 ::
    "ts_fetch_results_req \<Rightarrow> 's \<Rightarrow> (thrift_error + ts_fetch_results_resp) \<times> 's"
  handle_open_session ::
    "ts_open_session_req \<Rightarrow> 's \<Rightarrow> (thrift_error + ts_open_session_resp) \<times> 's"
  handle_close_session ::
    "ts_close_session_req \<Rightarrow> 's \<Rightarrow> (thrift_error + ts_status) \<times> 's"
  handle_execute_statement ::
    "ts_execute_statement_req \<Rightarrow> 's \<Rightarrow> (thrift_error + ts_execute_statement_resp) \<times> 's"
  handle_execute_batch_statement ::
    "ts_execute_batch_statement_req \<Rightarrow> 's \<Rightarrow> (thrift_error + ts_status) \<times> 's"
  handle_execute_query_statement ::
    "ts_execute_statement_req \<Rightarrow> 's \<Rightarrow> (thrift_error + ts_execute_statement_resp) \<times> 's"
  handle_execute_update_statement ::
    "ts_execute_statement_req \<Rightarrow> 's \<Rightarrow> (thrift_error + ts_execute_statement_resp) \<times> 's"
  handle_fetch_results ::
    "ts_fetch_results_req \<Rightarrow> 's \<Rightarrow> (thrift_error + ts_fetch_results_resp) \<times> 's"
  handle_fetch_metadata ::
    "ts_fetch_metadata_req \<Rightarrow> 's \<Rightarrow> (thrift_error + ts_fetch_metadata_resp) \<times> 's"
  handle_cancel_operation ::
    "ts_cancel_operation_req \<Rightarrow> 's \<Rightarrow> (thrift_error + ts_status) \<times> 's"
  handle_close_operation ::
    "ts_close_operation_req \<Rightarrow> 's \<Rightarrow> (thrift_error + ts_status) \<times> 's"
  handle_prepare_statement ::
    "ts_prepare_req \<Rightarrow> 's \<Rightarrow> (thrift_error + ts_prepare_resp) \<times> 's"
  handle_execute_prepared_statement ::
    "ts_execute_prepared_req \<Rightarrow> 's \<Rightarrow> (thrift_error + ts_execute_statement_resp) \<times> 's"
  handle_deallocate_prepared_statement ::
    "ts_deallocate_prepared_req \<Rightarrow> 's \<Rightarrow> (thrift_error + ts_status) \<times> 's"
  handle_get_time_zone ::
    "i64 \<Rightarrow> 's \<Rightarrow> (thrift_error + ts_get_time_zone_resp) \<times> 's"
  handle_set_time_zone ::
    "ts_set_time_zone_req \<Rightarrow> 's \<Rightarrow> (thrift_error + ts_status) \<times> 's"
  handle_get_properties ::
    "unit \<Rightarrow> 's \<Rightarrow> (thrift_error + server_properties) \<times> 's"
  handle_set_storage_group ::
    "(i64 \<times> string) \<Rightarrow> 's \<Rightarrow> (thrift_error + ts_status) \<times> 's"
  handle_create_timeseries ::
    "ts_create_timeseries_req \<Rightarrow> 's \<Rightarrow> (thrift_error + ts_status) \<times> 's"
  handle_create_aligned_timeseries ::
    "ts_create_aligned_timeseries_req \<Rightarrow> 's \<Rightarrow> (thrift_error + ts_status) \<times> 's"
  handle_create_multi_timeseries ::
    "ts_create_multi_timeseries_req \<Rightarrow> 's \<Rightarrow> (thrift_error + ts_status) \<times> 's"
  handle_delete_timeseries ::
    "(i64 \<times> string list) \<Rightarrow> 's \<Rightarrow> (thrift_error + ts_status) \<times> 's"
  handle_delete_storage_groups ::
    "(i64 \<times> string list) \<Rightarrow> 's \<Rightarrow> (thrift_error + ts_status) \<times> 's"
  handle_insert_record ::
    "ts_insert_record_req \<Rightarrow> 's \<Rightarrow> (thrift_error + ts_status) \<times> 's"
  handle_insert_string_record ::
    "ts_insert_string_record_req \<Rightarrow> 's \<Rightarrow> (thrift_error + ts_status) \<times> 's"
  handle_insert_tablet ::
    "ts_insert_tablet_req \<Rightarrow> 's \<Rightarrow> (thrift_error + ts_status) \<times> 's"
  handle_insert_tablets ::
    "ts_insert_tablets_req \<Rightarrow> 's \<Rightarrow> (thrift_error + ts_status) \<times> 's"
  handle_insert_records ::
    "ts_insert_records_req \<Rightarrow> 's \<Rightarrow> (thrift_error + ts_status) \<times> 's"
  handle_insert_records_of_one_device ::
    "ts_insert_records_of_one_device_req \<Rightarrow> 's \<Rightarrow> (thrift_error + ts_status) \<times> 's"
  handle_insert_string_records_of_one_device ::
    "ts_insert_string_records_of_one_device_req \<Rightarrow> 's \<Rightarrow> (thrift_error + ts_status) \<times> 's"
  handle_insert_string_records ::
    "ts_insert_string_records_req \<Rightarrow> 's \<Rightarrow> (thrift_error + ts_status) \<times> 's"
  handle_test_insert_tablet ::
    "ts_insert_tablet_req \<Rightarrow> 's \<Rightarrow> (thrift_error + ts_status) \<times> 's"
  handle_test_insert_tablets ::
    "ts_insert_tablets_req \<Rightarrow> 's \<Rightarrow> (thrift_error + ts_status) \<times> 's"
  handle_test_insert_record ::
    "ts_insert_record_req \<Rightarrow> 's \<Rightarrow> (thrift_error + ts_status) \<times> 's"
  handle_test_insert_string_record ::
    "ts_insert_string_record_req \<Rightarrow> 's \<Rightarrow> (thrift_error + ts_status) \<times> 's"
  handle_test_insert_records ::
    "ts_insert_records_req \<Rightarrow> 's \<Rightarrow> (thrift_error + ts_status) \<times> 's"
  handle_test_insert_records_of_one_device ::
    "ts_insert_records_of_one_device_req \<Rightarrow> 's \<Rightarrow> (thrift_error + ts_status) \<times> 's"
  handle_test_insert_string_records ::
    "ts_insert_string_records_req \<Rightarrow> 's \<Rightarrow> (thrift_error + ts_status) \<times> 's"
  handle_delete_data ::
    "ts_delete_data_req \<Rightarrow> 's \<Rightarrow> (thrift_error + ts_status) \<times> 's"
  handle_execute_raw_data_query ::
    "ts_raw_data_query_req \<Rightarrow> 's \<Rightarrow> (thrift_error + ts_execute_statement_resp) \<times> 's"
  handle_execute_last_data_query ::
    "ts_last_data_query_req \<Rightarrow> 's \<Rightarrow> (thrift_error + ts_execute_statement_resp) \<times> 's"
  handle_execute_aggregation_query ::
    "ts_aggregation_query_req \<Rightarrow> 's \<Rightarrow> (thrift_error + ts_execute_statement_resp) \<times> 's"
  handle_request_statement_id ::
    "i64 \<Rightarrow> 's \<Rightarrow> (thrift_error + i64) \<times> 's"
  handle_create_schema_template ::
    "ts_create_schema_template_req \<Rightarrow> 's \<Rightarrow> (thrift_error + ts_status) \<times> 's"
  handle_append_schema_template ::
    "ts_append_schema_template_req \<Rightarrow> 's \<Rightarrow> (thrift_error + ts_status) \<times> 's"
  handle_prune_schema_template ::
    "ts_prune_schema_template_req \<Rightarrow> 's \<Rightarrow> (thrift_error + ts_status) \<times> 's"
  handle_query_schema_template ::
    "ts_query_template_req \<Rightarrow> 's \<Rightarrow> (thrift_error + ts_query_template_resp) \<times> 's"
  handle_show_configuration_template ::
    "unit \<Rightarrow> 's \<Rightarrow> (thrift_error + t_show_configuration_template_resp) \<times> 's"
  handle_show_configuration ::
    "i32 \<Rightarrow> 's \<Rightarrow> (thrift_error + t_show_configuration_resp) \<times> 's"
  handle_set_schema_template ::
    "ts_set_schema_template_req \<Rightarrow> 's \<Rightarrow> (thrift_error + ts_status) \<times> 's"
  handle_unset_schema_template ::
    "ts_unset_schema_template_req \<Rightarrow> 's \<Rightarrow> (thrift_error + ts_status) \<times> 's"
  handle_drop_schema_template ::
    "ts_drop_schema_template_req \<Rightarrow> 's \<Rightarrow> (thrift_error + ts_status) \<times> 's"
  handle_create_timeseries_using_schema_template ::
    "t_create_timeseries_using_schema_template_req \<Rightarrow> 's \<Rightarrow> (thrift_error + ts_status) \<times> 's"
  handle_handshake ::
    "t_sync_identity_info \<Rightarrow> 's \<Rightarrow> (thrift_error + ts_status) \<times> 's"
  handle_send_pipe_data ::
    "bytes \<Rightarrow> 's \<Rightarrow> (thrift_error + ts_status) \<times> 's"
  handle_send_file ::
    "(t_sync_transport_meta_info \<times> bytes) \<Rightarrow> 's \<Rightarrow> (thrift_error + ts_status) \<times> 's"
  handle_pipe_transfer ::
    "t_pipe_transfer_req \<Rightarrow> 's \<Rightarrow> (thrift_error + t_pipe_transfer_resp) \<times> 's"
  handle_pipe_subscribe ::
    "t_pipe_subscribe_req \<Rightarrow> 's \<Rightarrow> (thrift_error + t_pipe_subscribe_resp) \<times> 's"
  handle_get_backup_configuration ::
    "unit \<Rightarrow> 's \<Rightarrow> (thrift_error + ts_backup_configuration_resp) \<times> 's"
  handle_fetch_all_connections_info ::
    "unit \<Rightarrow> 's \<Rightarrow> (thrift_error + ts_connection_info_resp) \<times> 's"
  handle_test_connection_empty_r_p_c ::
    "unit \<Rightarrow> 's \<Rightarrow> (thrift_error + ts_status) \<times> 's"

record 'o thrift_server =
  sl_application_error :: "string \<Rightarrow> out_call list"
  sl_describe :: "thrift_error \<Rightarrow> string"
  sl_process_result :: "string \<times> message_type \<times> i32 \<Rightarrow> thrift_error + unit \<Rightarrow> 'o \<Rightarrow> (thrift_error + unit) \<times> 'o"

section \<open>Processing a call\<close>

type_synonym ('i, 'o, 's) processing = "'i \<Rightarrow> 'o \<Rightarrow> 's \<Rightarrow> unit read_result \<times> 'i \<times> 'o \<times> 's"

definition outcome_of :: "thrift_error + unit \<Rightarrow> unit read_result" where
  "outcome_of r = (case r of Inl e \<Rightarrow> Fail e | Inr _ \<Rightarrow> Done ())"

text \<open>An application error is passed on, any other error is described in one.\<close>

definition app_message :: "'o thrift_server \<Rightarrow> thrift_error \<Rightarrow> string" where
  "app_message T e = (case e of ApplicationError m \<Rightarrow> m | _ \<Rightarrow> sl_describe T e)"

definition process_call ::
    "'o out_protocol \<Rightarrow> 'o thrift_server \<Rightarrow> string \<Rightarrow> ('i, 'q) rd \<Rightarrow> ('a option \<Rightarrow> out_call list) \<Rightarrow>
     ('q \<Rightarrow> 's \<Rightarrow> (thrift_error + 'a) \<times> 's) \<Rightarrow> i32 \<Rightarrow> ('i, 'o, 's) processing" where
  "process_call Q T name rargs wres handle sn i ob s =
     (case rargs i of
        (Done req, i) \<Rightarrow>
          (case handle req s of
             (Inr v, s) \<Rightarrow>
               let (r, ob) = emit Q (OMessageBegin name MReply sn # wres (Some v) @ [OMessageEnd, OFlush]) ob
               in (outcome_of r, i, ob, s)
           | (Inl e, s) \<Rightarrow>
               let (r, ob) = emit Q (OMessageBegin name MException sn #
                     sl_application_error T (app_message T e) @ [OMessageEnd, OFlush]) ob
               in (outcome_of r, i, ob, s))
      | (Fail e, i) \<Rightarrow> (Fail e, i, ob, s)
      | (Crash, i) \<Rightarrow> (Crash, i, ob, s)
      | (Starved, i) \<Rightarrow> (Starved, i, ob, s))"

type_synonym ('i, 'o, 's) service_method =
  "'i in_protocol \<Rightarrow> 'o out_protocol \<Rightarrow> 'o thrift_server \<Rightarrow> nat \<Rightarrow> 's rpc_handler \<Rightarrow> i32 \<Rightarrow> ('i, 'o, 's) processing"

definition process_execute_query_statement_v2 :: "('i, 'o, 's) service_method" where
  "process_execute_query_statement_v2 P Q T n H =
     process_call Q T ''executeQueryStatementV2'' (read_execute_query_statement_v2_args P n)
           write_execute_query_statement_v2_result
       (handle_execute_query_statement_v2 H)"

definition process_execute_update_statement_v2 :: "('i, 'o, 's) service_method" where
  "process_execute_update_statement_v2 P Q T n H =
     process_call Q T ''executeUpdateStatementV2'' (read_execute_update_statement_v2_args P n)
           write_execute_update_statement_v2_result
       (handle_execute_update_statement_v2 H)"

definition process_execute_statement_v2 :: "('i, 'o, 's) service_method" where
  "process_execute_statement_v2 P Q T n H =
     process_call Q T ''executeStatementV2'' (read_execute_statement_v2_args P n)
           write_execute_statement_v2_result
       (handle_execute_statement_v2 H)"

definition process_execute_raw_data_query_v2 :: "('i, 'o, 's) service_method" where
  "process_execute_raw_data_query_v2 P Q T n H =
     process_call Q T ''executeRawDataQueryV2'' (read_execute_raw_data_query_v2_args P n)
           write_execute_raw_data_query_v2_result
       (handle_execute_raw_data_query_v2 H)"

definition process_execute_last_data_query_v2 :: "('i, 'o, 's) service_method" where
  "process_execute_last_data_query_v2 P Q T n H =
     process_call Q T ''executeLastDataQueryV2'' (read_execute_last_data_query_v2_args P n)
           write_execute_last_data_query_v2_result
       (handle_execute_last_data_query_v2 H)"

definition process_execute_fast_last_data_query_for_one_prefix_path :: "('i, 'o, 's) service_method" where
  "process_execute_fast_last_data_query_for_one_prefix_path P Q T n H =
     process_call Q T ''executeFastLastDataQueryForOnePrefixPath''
           (read_execute_fast_last_data_query_for_one_prefix_path_args P n)
           write_execute_fast_last_data_query_for_one_prefix_path_result
       (handle_execute_fast_last_data_query_for_one_prefix_path H)"

definition process_execute_fast_last_data_query_for_one_device_v2 :: "('i, 'o, 's) service_method" where
  "process_execute_fast_last_data_query_for_one_device_v2 P Q T n H =
     process_call Q T ''executeFastLastDataQueryForOneDeviceV2''
           (read_execute_fast_last_data_query_for_one_device_v2_args P n)
           write_execute_fast_last_data_query_for_one_device_v2_result
       (handle_execute_fast_last_data_query_for_one_device_v2 H)"

definition process_execute_aggregation_query_v2 :: "('i, 'o, 's) service_method" where
  "process_execute_aggregation_query_v2 P Q T n H =
     process_call Q T ''executeAggregationQueryV2'' (read_execute_aggregation_query_v2_args P n)
           write_execute_aggregation_query_v2_result
       (handle_execute_aggregation_query_v2 H)"

definition process_fetch_results_v2 :: "('i, 'o, 's) service_method" where
  "process_fetch_results_v2 P Q T n H =
     process_call Q T ''fetchResultsV2'' (read_fetch_results_v2_args P n) write_fetch_results_v2_result
       (handle_fetch_results_v2 H)"

definition process_open_session :: "('i, 'o, 's) service_method" where
  "process_open_session P Q T n H =
     process_call Q T ''openSession'' (read_open_session_args P n) write_open_session_result
       (handle_open_session H)"

definition process_close_session :: "('i, 'o, 's) service_method" where
  "process_close_session P Q T n H =
     process_call Q T ''closeSession'' (read_close_session_args P n) write_close_session_result
       (handle_close_session H)"

definition process_execute_statement :: "('i, 'o, 's) service_method" where
  "process_execute_statement P Q T n H =
     process_call Q T ''executeStatement'' (read_execute_statement_args P n) write_execute_statement_result
       (handle_execute_statement H)"

definition process_execute_batch_statement :: "('i, 'o, 's) service_method" where
  "process_execute_batch_statement P Q T n H =
     process_call Q T ''executeBatchStatement'' (read_execute_batch_statement_args P n)
           write_execute_batch_statement_result
       (handle_execute_batch_statement H)"

definition process_execute_query_statement :: "('i, 'o, 's) service_method" where
  "process_execute_query_statement P Q T n H =
     process_call Q T ''executeQueryStatement'' (read_execute_query_statement_args P n)
           write_execute_query_statement_result
       (handle_execute_query_statement H)"

definition process_execute_update_statement :: "('i, 'o, 's) service_method" where
  "process_execute_update_statement P Q T n H =
     process_call Q T ''executeUpdateStatement'' (read_execute_update_statement_args P n)
           write_execute_update_statement_result
       (handle_execute_update_statement H)"

definition process_fetch_results :: "('i, 'o, 's) service_method" where
  "process_fetch_results P Q T n H =
     process_call Q T ''fetchResults'' (read_fetch_results_args P n) write_fetch_results_result
       (handle_fetch_results H)"

definition process_fetch_metadata :: "('i, 'o, 's) service_method" where
  "process_fetch_metadata P Q T n H =
     process_call Q T ''fetchMetadata'' (read_fetch_metadata_args P n) write_fetch_metadata_result
       (handle_fetch_metadata H)"

definition process_cancel_operation :: "('i, 'o, 's) service_method" where
  "process_cancel_operation P Q T n H =
     process_call Q T ''cancelOperation'' (read_cancel_operation_args P n) write_cancel_operation_result
       (handle_cancel_operation H)"

definition process_close_operation :: "('i, 'o, 's) service_method" where
  "process_close_operation P Q T n H =
     process_call Q T ''closeOperation'' (read_close_operation_args P n) write_close_operation_result
       (handle_close_operation H)"

definition process_prepare_statement :: "('i, 'o, 's) service_method" where
  "process_prepare_statement P Q T n H =
     process_call Q T ''prepareStatement'' (read_prepare_statement_args P n) write_prepare_statement_result
       (handle_prepare_statement H)"

definition process_execute_prepared_statement :: "('i, 'o, 's) service_method" where
  "process_execute_prepared_statement P Q T n H =
     process_call Q T ''executePreparedStatement'' (read_execute_prepared_statement_args P n)
           write_execute_prepared_statement_result
       (handle_execute_prepared_statement H)"

definition process_deallocate_prepared_statement :: "('i, 'o, 's) service_method" where
  "process_deallocate_prepared_statement P Q T n H =
     process_call Q T ''deallocatePreparedStatement'' (read_deallocate_prepared_statement_args P n)
           write_deallocate_prepared_statement_result
       (handle_deallocate_prepared_statement H)"

definition process_get_time_zone :: "('i, 'o, 's) service_method" where
  "process_get_time_zone P Q T n H =
     process_call Q T ''getTimeZone'' (read_get_time_zone_args P n) write_get_time_zone_result
       (handle_get_time_zone H)"

definition process_set_time_zone :: "('i, 'o, 's) service_method" where
  "process_set_time_zone P Q T n H =
     process_call Q T ''setTimeZone'' (read_set_time_zone_args P n) write_set_time_zone_result
       (handle_set_time_zone H)"

definition process_get_properties :: "('i, 'o, 's) service_method" where
  "process_get_properties P Q T n H =
     process_call Q T ''getProperties'' (read_get_properties_args P n) write_get_properties_result
       (handle_get_properties H)"

definition process_set_storage_group :: "('i, 'o, 's) service_method" where
  "process_set_storage_group P Q T n H =
     process_call Q T ''setStorageGroup'' (read_set_storage_group_args P n) write_set_storage_group_result
       (handle_set_storage_group H)"

definition process_create_timeseries :: "('i, 'o, 's) service_method" where
  "process_create_timeseries P Q T n H =
     process_call Q T ''createTimeseries'' (read_create_timeseries_args P n) write_create_timeseries_result
       (handle_create_timeseries H)"

definition process_create_aligned_timeseries :: "('i, 'o, 's) service_method" where
  "process_create_aligned_timeseries P Q T n H =
     process_call Q T ''createAlignedTimeseries'' (read_create_aligned_timeseries_args P n)
           write_create_aligned_timeseries_result
       (handle_create_aligned_timeseries H)"

definition process_create_multi_timeseries :: "('i, 'o, 's) service_method" where
  "process_create_multi_timeseries P Q T n H =
     process_call Q T ''createMultiTimeseries'' (read_create_multi_timeseries_args P n)
           write_create_multi_timeseries_result
       (handle_create_multi_timeseries H)"

definition process_delete_timeseries :: "('i, 'o, 's) service_method" where
  "process_delete_timeseries P Q T n H =
     process_call Q T ''deleteTimeseries'' (read_delete_timeseries_args P n) write_delete_timeseries_result
       (handle_delete_timeseries H)"

definition process_delete_storage_groups :: "('i, 'o, 's) service_method" where
  "process_delete_storage_groups P Q T n H =
     process_call Q T ''deleteStorageGroups'' (read_delete_storage_groups_args P n)
           write_delete_storage_groups_result
       (handle_delete_storage_groups H)"

definition process_insert_record :: "('i, 'o, 's) service_method" where
  "process_insert_record P Q T n H =
     process_call Q T ''insertRecord'' (read_insert_record_args P n) write_insert_record_result
       (handle_insert_record H)"

definition process_insert_string_record :: "('i, 'o, 's) service_method" where
  "process_insert_string_record P Q T n H =
     process_call Q T ''insertStringRecord'' (read_insert_string_record_args P n)
           write_insert_string_record_result
       (handle_insert_string_record H)"

definition process_insert_tablet :: "('i, 'o, 's) service_method" where
  "process_insert_tablet P Q T n H =
     process_call Q T ''insertTablet'' (read_insert_tablet_args P n) write_insert_tablet_result
       (handle_insert_tablet H)"

definition process_insert_tablets :: "('i, 'o, 's) service_method" where
  "process_insert_tablets P Q T n H =
     process_call Q T ''insertTablets'' (read_insert_tablets_args P n) write_insert_tablets_result
       (handle_insert_tablets H)"

definition process_insert_records :: "('i, 'o, 's) service_method" where
  "process_insert_records P Q T n H =
     process_call Q T ''insertRecords'' (read_insert_records_args P n) write_insert_records_result
       (handle_insert_records H)"

definition process_insert_records_of_one_device :: "('i, 'o, 's) service_method" where
  "process_insert_records_of_one_device P Q T n H =
     process_call Q T ''insertRecordsOfOneDevice'' (read_insert_records_of_one_device_args P n)
           write_insert_records_of_one_device_result
       (handle_insert_records_of_one_device H)"

definition process_insert_string_records_of_one_device :: "('i, 'o, 's) service_method" where
  "process_insert_string_records_of_one_device P Q T n H =
     process_call Q T ''insertStringRecordsOfOneDevice'' (read_insert_string_records_of_one_device_args P n)
           write_insert_string_records_of_one_device_result
       (handle_insert_string_records_of_one_device H)"

definition process_insert_string_records :: "('i, 'o, 's) service_method" where
  "process_insert_string_records P Q T n H =
     process_call Q T ''insertStringRecords'' (read_insert_string_records_args P n)
           write_insert_string_records_result
       (handle_insert_string_records H)"

definition process_test_insert_tablet :: "('i, 'o, 's) service_method" where
  "process_test_insert_tablet P Q T n H =
     process_call Q T ''testInsertTablet'' (read_test_insert_tablet_args P n) write_test_insert_tablet_result
       (handle_test_insert_tablet H)"

definition process_test_insert_tablets :: "('i, 'o, 's) service_method" where
  "process_test_insert_tablets P Q T n H =
     process_call Q T ''testInsertTablets'' (read_test_insert_tablets_args P n) write_test_insert_tablets_result
       (handle_test_insert_tablets H)"

definition process_test_insert_record :: "('i, 'o, 's) service_method" where
  "process_test_insert_record P Q T n H =
     process_call Q T ''testInsertRecord'' (read_test_insert_record_args P n) write_test_insert_record_result
       (handle_test_insert_record H)"

definition process_test_insert_string_record :: "('i, 'o, 's) service_method" where
  "process_test_insert_string_record P Q T n H =
     process_call Q T ''testInsertStringRecord'' (read_test_insert_string_record_args P n)
           write_test_insert_string_record_result
       (handle_test_insert_string_record H)"

definition process_test_insert_records :: "('i, 'o, 's) service_method" where
  "process_test_insert_records P Q T n H =
     process_call Q T ''testInsertRecords'' (read_test_insert_records_args P n) write_test_insert_records_result
       (handle_test_insert_records H)"

definition process_test_insert_records_of_one_device :: "('i, 'o, 's) service_method" where
  "process_test_insert_records_of_one_device P Q T n H =
     process_call Q T ''testInsertRecordsOfOneDevice'' (read_test_insert_records_of_one_device_args P n)
           write_test_insert_records_of_one_device_result
       (handle_test_insert_records_of_one_device H)"

definition process_test_insert_string_records :: "('i, 'o, 's) service_method" where
  "process_test_insert_string_records P Q T n H =
     process_call Q T ''testInsertStringRecords'' (read_test_insert_string_records_args P n)
           write_test_insert_string_records_result
       (handle_test_insert_string_records H)"

definition process_delete_data :: "('i, 'o, 's) service_method" where
  "process_delete_data P Q T n H =
     process_call Q T ''deleteData'' (read_delete_data_args P n) write_delete_data_result
       (handle_delete_data H)"

definition process_execute_raw_data_query :: "('i, 'o, 's) service_method" where
  "process_execute_raw_data_query P Q T n H =
     process_call Q T ''executeRawDataQuery'' (read_execute_raw_data_query_args P n)
           write_execute_raw_data_query_result
       (handle_execute_raw_data_query H)"

definition process_execute_last_data_query :: "('i, 'o, 's) service_method" where
  "process_execute_last_data_query P Q T n H =
     process_call Q T ''executeLastDataQuery'' (read_execute_last_data_query_args P n)
           write_execute_last_data_query_result
       (handle_execute_last_data_query H)"

definition process_execute_aggregation_query :: "('i, 'o, 's) service_method" where
  "process_execute_aggregation_query P Q T n H =
     process_call Q T ''executeAggregationQuery'' (read_execute_aggregation_query_args P n)
           write_execute_aggregation_query_result
       (handle_execute_aggregation_query H)"

definition process_request_statement_id :: "('i, 'o, 's) service_method" where
  "process_request_statement_id P Q T n H =
     process_call Q T ''requestStatementId'' (read_request_statement_id_args P n)
           write_request_statement_id_result
       (handle_request_statement_id H)"

definition process_create_schema_template :: "('i, 'o, 's) service_method" where
  "process_create_schema_template P Q T n H =
     process_call Q T ''createSchemaTemplate'' (read_create_schema_template_args P n)
           write_create_schema_template_result
       (handle_create_schema_template H)"

definition process_append_schema_template :: "('i, 'o, 's) service_method" where
  "process_append_schema_template P Q T n H =
     process_call Q T ''appendSchemaTemplate'' (read_append_schema_template_args P n)
           write_append_schema_template_result
       (handle_append_schema_template H)"

definition process_prune_schema_template :: "('i, 'o, 's) service_method" where
  "process_prune_schema_template P Q T n H =
     process_call Q T ''pruneSchemaTemplate'' (read_prune_schema_template_args P n)
           write_prune_schema_template_result
       (handle_prune_schema_template H)"

definition process_query_schema_template :: "('i, 'o, 's) service_method" where
  "process_query_schema_template P Q T n H =
     process_call Q T ''querySchemaTemplate'' (read_query_schema_template_args P n)
           write_query_schema_template_result
       (handle_query_schema_template H)"

definition process_show_configuration_template :: "('i, 'o, 's) service_method" where
  "process_show_configuration_template P Q T n H =
     process_call Q T ''showConfigurationTemplate'' (read_show_configuration_template_args P n)
           write_show_configuration_template_result
       (handle_show_configuration_template H)"

definition process_show_configuration :: "('i, 'o, 's) service_method" where
  "process_show_configuration P Q T n H =
     process_call Q T ''showConfiguration'' (read_show_configuration_args P n) write_show_configuration_result
       (handle_show_configuration H)"

definition process_set_schema_template :: "('i, 'o, 's) service_method" where
  "process_set_schema_template P Q T n H =
     process_call Q T ''setSchemaTemplate'' (read_set_schema_template_args P n) write_set_schema_template_result
       (handle_set_schema_template H)"

definition process_unset_schema_template :: "('i, 'o, 's) service_method" where
  "process_unset_schema_template P Q T n H =
     process_call Q T ''unsetSchemaTemplate'' (read_unset_schema_template_args P n)
           write_unset_schema_template_result
       (handle_unset_schema_template H)"

definition process_drop_schema_template :: "('i, 'o, 's) service_method" where
  "process_drop_schema_template P Q T n H =
     process_call Q T ''dropSchemaTemplate'' (read_drop_schema_template_args P n)
           write_drop_schema_template_result
       (handle_drop_schema_template H)"

definition process_create_timeseries_using_schema_template :: "('i, 'o, 's) service_method" where
  "process_create_timeseries_using_schema_template P Q T n H =
     process_call Q T ''createTimeseriesUsingSchemaTemplate'' (read_create_timeseries_using_schema_template_args
           P n) write_create_timeseries_using_schema_template_result
       (handle_create_timeseries_using_schema_template H)"

definition process_handshake :: "('i, 'o, 's) service_method" where
  "process_handshake P Q T n H =
     process_call Q T ''handshake'' (read_handshake_args P n) write_handshake_result
       (handle_handshake H)"

definition process_send_pipe_data :: "('i, 'o, 's) service_method" where
  "process_send_pipe_data P Q T n H =
     process_call Q T ''sendPipeData'' (read_send_pipe_data_args P n) write_send_pipe_data_result
       (handle_send_pipe_data H)"

definition process_send_file :: "('i, 'o, 's) service_method" where
  "process_send_file P Q T n H =
     process_call Q T ''sendFile'' (read_send_file_args P n) write_send_file_result
       (handle_send_file H)"

definition process_pipe_transfer :: "('i, 'o, 's) service_method" where
  "process_pipe_transfer P Q T n H =
     process_call Q T ''pipeTransfer'' (read_pipe_transfer_args P n) write_pipe_transfer_result
       (handle_pipe_transfer H)"

definition process_pipe_subscribe :: "('i, 'o, 's) service_method" where
  "process_pipe_subscribe P Q T n H =
     process_call Q T ''pipeSubscribe'' (read_pipe_subscribe_args P n) write_pipe_subscribe_result
       (handle_pipe_subscribe H)"

definition process_get_backup_configuration :: "('i, 'o, 's) service_method" where
  "process_get_backup_configuration P Q T n H =
     process_call Q T ''getBackupConfiguration'' (read_get_backup_configuration_args P n)
           write_get_backup_configuration_result
       (handle_get_backup_configuration H)"

definition process_fetch_all_connections_info :: "('i, 'o, 's) service_method" where
  "process_fetch_all_connections_info P Q T n H =
     process_call Q T ''fetchAllConnectionsInfo'' (read_fetch_all_connections_info_args P n)
           write_fetch_all_connections_info_result
       (handle_fetch_all_connections_info H)"

definition process_test_connection_empty_r_p_c :: "('i, 'o, 's) service_method" where
  "process_test_connection_empty_r_p_c P Q T n H =
     process_call Q T ''testConnectionEmptyRPC'' (read_test_connection_empty_r_p_c_args P n)
           write_test_connection_empty_r_p_c_result
       (handle_test_connection_empty_r_p_c H)"

section \<open>Dispatch\<close>

text \<open>The arms of the \<^verbatim>\<open>match\<close> on the name of the message; the names are all different.\<close>

definition process_table ::
    "'i in_protocol \<Rightarrow> 'o out_protocol \<Rightarrow> 'o thrift_server \<Rightarrow> nat \<Rightarrow> 's rpc_handler \<Rightarrow>
     (string \<times> (i32 \<Rightarrow> ('i, 'o, 's) processing)) list" where
  "process_table P Q T n H =
     [(''executeQueryStatementV2'', process_execute_query_statement_v2 P Q T n H),
      (''executeUpdateStatementV2'', process_execute_update_statement_v2 P Q T n H),
      (''executeStatementV2'', process_execute_statement_v2 P Q T n H),
      (''executeRawDataQueryV2'', process_execute_raw_data_query_v2 P Q T n H),
      (''executeLastDataQueryV2'', process_execute_last_data_query_v2 P Q T n H),
      (''executeFastLastDataQueryForOnePrefixPath'', process_execute_fast_last_data_query_for_one_prefix_path P
            Q T n H),
      (''executeFastLastDataQueryForOneDeviceV2'', process_execute_fast_last_data_query_for_one_device_v2 P Q T
            n H),
      (''executeAggregationQueryV2'', process_execute_aggregation_query_v2 P Q T n H),
      (''fetchResultsV2'', process_fetch_results_v2 P Q T n H),
      (''openSession'', process_open_session P Q T n H),
      (''closeSession'', process_close_session P Q T n H),
      (''executeStatement'', process_execute_statement P Q T n H),
      (''executeBatchStatement'', process_execute_batch_statement P Q T n H),
      (''executeQueryStatement'', process_execute_query_statement P Q T n H),
      (''executeUpdateStatement'', process_execute_update_statement P Q T n H),
      (''fetchResults'', process_fetch_results P Q T n H),
      (''fetchMetadata'', process_fetch_metadata P Q T n H),
      (''cancelOperation'', process_cancel_operation P Q T n H),
      (''closeOperation'', process_close_operation P Q T n H),
      (''prepareStatement'', process_prepare_statement P Q T n H),
      (''executePreparedStatement'', process_execute_prepared_statement P Q T n H),
      (''deallocatePreparedStatement'', process_deallocate_prepared_statement P Q T n H),
      (''getTimeZone'', process_get_time_zone P Q T n H),
      (''setTimeZone'', process_set_time_zone P Q T n H),
      (''getProperties'', process_get_properties P Q T n H),
      (''setStorageGroup'', process_set_storage_group P Q T n H),
      (''createTimeseries'', process_create_timeseries P Q T n H),
      (''createAlignedTimeseries'', process_create_aligned_timeseries P Q T n H),
      (''createMultiTimeseries'', process_create_multi_timeseries P Q T n H),
      (''deleteTimeseries'', process_delete_timeseries P Q T n H),
      (''deleteStorageGroups'', process_delete_storage_groups P Q T n H),
      (''insertRecord'', process_insert_record P Q T n H),
      (''insertStringRecord'', process_insert_string_record P Q T n H),
      (''insertTablet'', process_insert_tablet P Q T n H),
      (''insertTablets'', process_insert_tablets P Q T n H),
      (''insertRecords'', process_insert_records P Q T n H),
      (''insertRecordsOfOneDevice'', process_insert_records_of_one_device P Q T n H),
      (''insertStringRecordsOfOneDevice'', process_insert_string_records_of_one_device P Q T n H),
      (''insertStringRecords'', process_insert_string_records P Q T n H),
      (''testInsertTablet'', process_test_insert_tablet P Q T n H),
      (''testInsertTablets'', process_test_insert_tablets P Q T n H),
      (''testInsertRecord'', process_test_insert_record P Q T n H),
      (''testInsertStringRecord'', process_test_insert_string_record P Q T n H),
      (''testInsertRecords'', process_test_insert_records P Q T n H),
      (''testInsertRecordsOfOneDevice'', process_test_insert_records_of_one_device P Q T n H),
      (''testInsertStringRecords'', process_test_insert_string_records P Q T n H),
      (''deleteData'', process_delete_data P Q T n H),
      (''executeRawDataQuery'', process_execute_raw_data_query P Q T n H),
      (''executeLastDataQuery'', process_execute_last_data_query P Q T n H),
      (''executeAggregationQuery'', process_execute_aggregation_query P Q T n H),
      (''requestStatementId'', process_request_statement_id P Q T n H),
      (''createSchemaTemplate'', process_create_schema_template P Q T n H),
      (''appendSchemaTemplate'', process_append_schema_template P Q T n H),
      (''pruneSchemaTemplate'', process_prune_schema_template P Q T n H),
      (''querySchemaTemplate'', process_query_schema_template P Q T n H),
      (''showConfigurationTemplate'', process_show_configuration_template P Q T n H),
      (''showConfiguration'', process_show_configuration P Q T n H),
      (''setSchemaTemplate'', process_set_schema_template P Q T n H),
      (''unsetSchemaTemplate'', process_unset_schema_template P Q T n H),
      (''dropSchemaTemplate'', process_drop_schema_template P Q T n H),
      (''createTimeseriesUsingSchemaTemplate'', process_create_timeseries_using_schema_template P Q T n H),
      (''handshake'', process_handshake P Q T n H),
      (''sendPipeData'', process_send_pipe_data P Q T n H),
      (''sendFile'', process_send_file P Q T n H),
      (''pipeTransfer'', process_pipe_transfer P Q T n H),
      (''pipeSubscribe'', process_pipe_subscribe P Q T n H),
      (''getBackupConfiguration'', process_get_backup_configuration P Q T n H),
      (''fetchAllConnectionsInfo'', process_fetch_all_connections_info P Q T n H),
      (''testConnectionEmptyRPC'', process_test_connection_empty_r_p_c P Q T n H)]"

definition process ::
    "'i in_protocol \<Rightarrow> 'o out_protocol \<Rightarrow> 'o thrift_server \<Rightarrow> nat \<Rightarrow> 's rpc_handler \<Rightarrow> ('i, 'o, 's) processing" where
  "process P Q T n H i ob s =
     (case ip_message_begin P i of
        (Inl e, i) \<Rightarrow> (Fail e, i, ob, s)
      | (Inr (name, mt, sn), i) \<Rightarrow>
          let (r, i, ob, s) =
            (case map_of (process_table P Q T n H) name of
               Some f \<Rightarrow> f sn i ob s
             | None \<Rightarrow> (Fail (ApplicationError (''unknown method '' @ name)), i, ob, s))
          in case r of
               Done _ \<Rightarrow> let (r, ob) = sl_process_result T (name, mt, sn) (Inr ()) ob in (outcome_of r, i, ob, s)
             | Fail e \<Rightarrow> let (r, ob) = sl_process_result T (name, mt, sn) (Inl e) ob in (outcome_of r, i, ob, s)
             | Crash \<Rightarrow> (Crash, i, ob, s)
             | Starved \<Rightarrow> (Starved, i, ob, s))"

lemma process_names: "map fst (process_table P Q T n H) =
    [''executeQueryStatementV2'', ''executeUpdateStatementV2'', ''executeStatementV2'',
          ''executeRawDataQueryV2'', ''executeLastDataQueryV2'', ''executeFastLastDataQueryForOnePrefixPath'',
          ''executeFastLastDataQueryForOneDeviceV2'', ''executeAggregationQueryV2'', ''fetchResultsV2'',
          ''openSession'', ''closeSession'', ''executeStatement'', ''executeBatchStatement'',
          ''executeQueryStatement'', ''executeUpdateStatement'', ''fetchResults'', ''fetchMetadata'',
          ''cancelOperation'', ''closeOperation'', ''prepareStatement'', ''executePreparedStatement'',
          ''deallocatePreparedStatement'', ''getTimeZone'', ''setTimeZone'', ''getProperties'',
          ''setStorageGroup'', ''createTimeseries'', ''createAlignedTimeseries'', ''createMultiTimeseries'',
          ''deleteTimeseries'', ''deleteStorageGroups'', ''insertRecord'', ''insertStringRecord'',
          ''insertTablet'', ''insertTablets'', ''insertRecords'', ''insertRecordsOfOneDevice'',
          ''insertStringRecordsOfOneDevice'', ''insertStringRecords'', ''testInsertTablet'',
          ''testInsertTablets'', ''testInsertRecord'', ''testInsertStringRecord'', ''testInsertRecords'',
          ''testInsertRecordsOfOneDevice'', ''testInsertStringRecords'', ''deleteData'',
          ''executeRawDataQuery'', ''executeLastDataQuery'', ''executeAggregationQuery'',
          ''requestStatementId'', ''createSchemaTemplate'', ''appendSchemaTemplate'', ''pruneSchemaTemplate'',
          ''querySchemaTemplate'', ''showConfigurationTemplate'', ''showConfiguration'', ''setSchemaTemplate'',
          ''unsetSchemaTemplate'', ''dropSchemaTemplate'', ''createTimeseriesUsingSchemaTemplate'',
          ''handshake'', ''sendPipeData'', ''sendFile'', ''pipeTransfer'', ''pipeSubscribe'',
          ''getBackupConfiguration'', ''fetchAllConnectionsInfo'', ''testConnectionEmptyRPC'']"
  by (simp add: process_table_def)

lemma distinct_process_names: "distinct (map fst (process_table P Q T n H))"
  unfolding process_names by code_simp

lemma process_table_lookup: "(name, f) \<in> set (process_table P Q T n H) \<Longrightarrow> map_of (process_table P Q T n H) name =
      Some f"
  by (simp add: distinct_process_names)

end
