(* ===== verification/BinaryProtocol.thy ===== *)
theory BinaryProtocol
  imports TabletWire ThriftProtocol
begin

text \<open>
  The Thrift binary protocol over a buffer of bytes, from its public specification: the strict
  message header, a type byte and a 16-bit identifier before each field, 32-bit sizes, big-endian
  integers. It is not code of the client (the \<^verbatim>\<open>thrift\<close> crate implements it) and nothing of the client is
  stated of it alone; it shows that a protocol with the laws of \<open>thrift_wire\<close> exists, and it is the one
  the client talks unless compact encoding is asked for. Skipping covers the types of fixed size and
  strings, and refuses the rest.
\<close>

section \<open>Encoding\<close>

fun type_code :: "t_type \<Rightarrow> u8" where
  "type_code TyStop = 0"
| "type_code TyBool = 2"
| "type_code TyI08 = 3"
| "type_code TyDouble = 4"
| "type_code TyI16 = 6"
| "type_code TyI32 = 8"
| "type_code TyI64 = 10"
| "type_code TyString = 11"
| "type_code TyStruct = 12"
| "type_code TyMap = 13"
| "type_code TySet = 14"
| "type_code TyList = 15"

definition all_types :: "t_type list" where
  "all_types = [TyStop, TyBool, TyI08, TyDouble, TyI16, TyI32, TyI64, TyString, TyStruct, TyMap, TySet, TyList]"

fun message_code :: "message_type \<Rightarrow> u8" where
  "message_code MCall = 1"
| "message_code MReply = 2"
| "message_code MException = 3"
| "message_code MOneWay = 4"

fun encode :: "out_call \<Rightarrow> bytes" where
  "encode (OMessageBegin name mt sn) = [0x80, 0x01, 0x00, message_code mt] @ write_binary (as_bytes name) @ to_be 4 sn"
| "encode (OFieldBegin name ty k) = type_code ty # to_be 2 k"
| "encode OFieldStop = [0]"
| "encode (OBool b) = [if b then 1 else 0]"
| "encode (OI8 x) = [x]"
| "encode (OI16 x) = to_be 2 x"
| "encode (OI32 x) = to_be 4 x"
| "encode (OI64 x) = to_be 8 x"
| "encode (ODouble x) = to_be 8 x"
| "encode (OString s) = write_binary (as_bytes s)"
| "encode (OBytes bs) = write_binary bs"
| "encode (OListBegin ty n) = type_code ty # to_be 4 n"
| "encode (OMapBegin kt vt n) = type_code kt # type_code vt # to_be 4 n"
| "encode _ = []"

definition encoded :: "out_call list \<Rightarrow> bytes \<Rightarrow> bool" where
  "encoded cs bs \<longleftrightarrow> (\<exists>rest. bs = concat (map encode cs) @ rest)"

section \<open>Decoding\<close>

definition taking :: "(bytes \<Rightarrow> ('a \<times> bytes) option) \<Rightarrow> (bytes, 'a) in_call" where
  "taking dec bs =
     (case dec bs of None \<Rightarrow> (Inl (TransportError ''unreadable''), bs) | Some (x, r) \<Rightarrow> (Inr x, r))"

definition read_byte :: "bytes \<Rightarrow> (u8 \<times> bytes) option" where
  "read_byte bs = (case bs of [] \<Rightarrow> None | b # r \<Rightarrow> Some (b, r))"

definition read_bool :: "bytes \<Rightarrow> (bool \<times> bytes) option" where
  "read_bool bs = map_option (apfst (\<lambda>b. b = 1)) (read_byte bs)"

definition read_type :: "bytes \<Rightarrow> (t_type \<times> bytes) option" where
  "read_type bs =
     (case bs of [] \<Rightarrow> None
      | b # r \<Rightarrow> map_option (\<lambda>ty. (ty, r)) (find (\<lambda>ty. type_code ty = b) all_types))"

definition read_utf8 :: "bytes \<Rightarrow> (string \<times> bytes) option" where
  "read_utf8 bs =
     (case read_binary bs of None \<Rightarrow> None | Some (b, r) \<Rightarrow> map_option (\<lambda>s. (s, r)) (from_utf8 b))"

definition read_header :: "bytes \<Rightarrow> ((string \<times> message_type \<times> i32) \<times> bytes) option" where
  "read_header bs =
     (case bs of v1 # v2 # v3 # b # r \<Rightarrow>
        (case find (\<lambda>mt. message_code mt = b) [MCall, MReply, MException, MOneWay] of None \<Rightarrow> None
         | Some mt \<Rightarrow>
             (case read_utf8 r of None \<Rightarrow> None
              | Some (name, r) \<Rightarrow> map_option (apfst (\<lambda>sn. (name, mt, sn))) (read_be 4 r)))
      | _ \<Rightarrow> None)"

definition read_field_header :: "bytes \<Rightarrow> ((t_type \<times> i16 option) \<times> bytes) option" where
  "read_field_header bs =
     (case read_type bs of None \<Rightarrow> None
      | Some (TyStop, r) \<Rightarrow> Some ((TyStop, Some 0), r)
      | Some (ty, r) \<Rightarrow> map_option (apfst (\<lambda>k. (ty, Some k))) (read_be 2 r))"

text \<open>A negative size is refused.\<close>

definition read_size :: "bytes \<Rightarrow> (i32 \<times> bytes) option" where
  "read_size bs =
     (case read_be 4 bs of None \<Rightarrow> None | Some (n, r) \<Rightarrow> if sint (n :: i32) < 0 then None else Some (n, r))"

definition read_list_header :: "bytes \<Rightarrow> ((t_type \<times> i32) \<times> bytes) option" where
  "read_list_header bs =
     (case read_type bs of None \<Rightarrow> None | Some (ty, r) \<Rightarrow> map_option (apfst (Pair ty)) (read_size r))"

definition read_map_header :: "bytes \<Rightarrow> (i32 \<times> bytes) option" where
  "read_map_header bs =
     (case read_type bs of None \<Rightarrow> None
      | Some (_, r) \<Rightarrow> (case read_type r of None \<Rightarrow> None | Some (_, r) \<Rightarrow> read_size r))"

definition skip_bytes :: "nat \<Rightarrow> bytes \<Rightarrow> (unit \<times> bytes) option" where
  "skip_bytes n bs = (if length bs < n then None else Some ((), drop n bs))"

fun skip_type :: "t_type \<Rightarrow> bytes \<Rightarrow> (unit \<times> bytes) option" where
  "skip_type TyBool bs = skip_bytes 1 bs"
| "skip_type TyI08 bs = skip_bytes 1 bs"
| "skip_type TyI16 bs = skip_bytes 2 bs"
| "skip_type TyI32 bs = skip_bytes 4 bs"
| "skip_type TyI64 bs = skip_bytes 8 bs"
| "skip_type TyDouble bs = skip_bytes 8 bs"
| "skip_type TyString bs = map_option (apfst (\<lambda>_. ())) (read_binary bs)"
| "skip_type _ bs = None"

definition accept :: "string \<Rightarrow> bool \<Rightarrow> thrift_error + unit" where
  "accept message ok = (if ok then Inr () else Inl (ProtocolError message))"

text \<open>The protocol but for application errors, which are structures written with it.\<close>

definition binary_base :: "bytes in_protocol" where
  "binary_base =
     \<lparr>ip_message_begin = taking read_header,
      ip_message_end = (\<lambda>i. (Inr (), i)),
      ip_struct_begin = (\<lambda>i. (Inr (), i)),
      ip_struct_end = (\<lambda>i. (Inr (), i)),
      ip_field_begin = taking read_field_header,
      ip_field_end = (\<lambda>i. (Inr (), i)),
      ip_bool = taking read_bool,
      ip_i8 = taking read_byte,
      ip_i16 = taking (read_be 2),
      ip_i32 = taking (read_be 4),
      ip_i64 = taking (read_be 8),
      ip_double = taking (read_be 8),
      ip_string = taking read_utf8,
      ip_bytes = taking read_binary,
      ip_list_begin = taking read_list_header,
      ip_list_end = (\<lambda>i. (Inr (), i)),
      ip_map_begin = taking read_map_header,
      ip_map_end = (\<lambda>i. (Inr (), i)),
      ip_skip = (\<lambda>ty. taking (skip_type ty)),
      ip_application_error = (\<lambda>i. (Inl (ProtocolError ''no application error''), i)),
      ip_field_id = (\<lambda>k. case k of None \<Rightarrow> Inl (ProtocolError ''missing field id'') | Some k \<Rightarrow> Inr k),
      ip_required = (\<lambda>field ok. accept (''missing required field '' @ field) ok),
      ip_sequence_number = (\<lambda>a b. if a = b then Inr () else Inl (ApplicationError ''out of sequence'')),
      ip_service_call = (\<lambda>a b. if a = b then Inr () else Inl (ApplicationError ''wrong method'')),
      ip_message_type = (\<lambda>a b. if a = b then Inr () else Inl (ApplicationError ''wrong message type''))\<rparr>"

text \<open>An application error is a structure with a message and a kind; the kind is not kept.\<close>

definition write_application_error :: "string \<Rightarrow> out_call list" where
  "write_application_error m =
     w_struct ''TApplicationException'' (w_field ''message'' TyString 1 w_string m @ w_field ''type'' TyI32 2 w_i32 0)"

definition read_application_error :: "(bytes, thrift_error) in_call" where
  "read_application_error i =
     (case read_struct binary_base (Suc (length i))
             (\<lambda>k ty (m, t).
                if k = 1 then store (callp (ip_string binary_base)) (\<lambda>v. (v, t))
                else if k = 2 then store (callp (ip_i32 binary_base)) (\<lambda>v. (m, v))
                else skip_field binary_base ty (m, t))
             (None, None)
             (\<lambda>(m, t). retp (case m of None \<Rightarrow> ''general remote error'' | Some m \<Rightarrow> m)) i of
        (Done m, i) \<Rightarrow> (Inr (ApplicationError m), i)
      | (Fail e, i) \<Rightarrow> (Inl e, i)
      | (_, i) \<Rightarrow> (Inl (ProtocolError ''no application error''), i))"

definition binary_protocol :: "bytes in_protocol" where
  "binary_protocol = binary_base\<lparr>ip_application_error := read_application_error\<rparr>"

section \<open>The laws hold\<close>

lemma encoded_Cons: "encoded (c # cs) bs \<longleftrightarrow> (\<exists>r. bs = encode c @ r \<and> encoded cs r)"
  by (auto simp: encoded_def)

lemma taking_encoded:
  assumes "\<And>r. dec (encode c @ r) = Some (x, r)" "encoded (c # cs) i"
  shows "\<exists>i'. taking dec i = (Inr x, i') \<and> encoded cs i'"
  using assms by (auto simp: encoded_Cons taking_def)

lemma read_type_code [simp]: "read_type (type_code ty # r) = Some (ty, r)"
  by (cases ty) (simp_all add: read_type_def all_types_def)

lemma find_message_code [simp]:
  "find (\<lambda>m. message_code m = message_code mt) [MCall, MReply, MException, MOneWay] = Some mt"
  by (cases mt) simp_all

lemma read_be_to_be [simp]:
  "read_be 2 (to_be 2 (k :: i16) @ r) = Some (k, r)"
  "read_be 4 (to_be 4 (n :: i32) @ r) = Some (n, r)"
  "read_be 8 (to_be 8 (m :: i64) @ r) = Some (m, r)"
  by (simp_all add: read_be_def from_be_to_be)

lemma read_utf8_write: "str_ok s \<Longrightarrow> read_utf8 (write_binary (as_bytes s) @ r) = Some (s, r)"
  by (simp add: read_utf8_def str_ok_def short_def read_write_binary from_utf8_as_bytes)

lemma read_headers [simp]:
  "str_ok name \<Longrightarrow> read_header (encode (OMessageBegin name mt sn) @ r) = Some ((name, mt, sn), r)"
  "ty \<noteq> TyStop \<Longrightarrow> read_field_header (encode (OFieldBegin name ty k) @ r) = Some ((ty, Some k), r)"
  "read_field_header (encode OFieldStop @ r) = Some ((TyStop, Some 0), r)"
  "0 \<le> sint n \<Longrightarrow> read_list_header (encode (OListBegin ty n) @ r) = Some ((ty, n), r)"
  "0 \<le> sint n \<Longrightarrow> read_map_header (encode (OMapBegin kt vt n) @ r) = Some (n, r)"
  using read_type_code [of TyStop]
  by (simp_all add: read_header_def read_field_header_def read_list_header_def read_map_header_def read_size_def read_utf8_write
      del: find.simps split: t_type.split)

lemma read_values [simp]:
  "read_bool (encode (OBool b) @ r) = Some (b, r)"
  "read_be 2 (encode (OI16 u) @ r) = Some (u, r)"
  "read_be 4 (encode (OI32 y) @ r) = Some (y, r)"
  "read_be 8 (encode (OI64 z) @ r) = Some (z, r)"
  "read_be 8 (encode (ODouble f) @ r) = Some (f, r)"
  "read_byte (encode (OI8 x) @ r) = Some (x, r)"
  "str_ok s \<Longrightarrow> read_utf8 (encode (OString s) @ r) = Some (s, r)"
  "short bs \<Longrightarrow> read_binary (encode (OBytes bs) @ r) = Some (bs, r)"
  by (simp_all add: read_byte_def read_bool_def read_utf8_write read_write_binary short_def)

lemma encoded_silent [simp]:
  "c \<in> {OStructBegin name, OMessageEnd, OStructEnd, OFieldEnd, OListEnd, OMapEnd, OFlush} \<Longrightarrow>
     encoded (c # cs) bs \<longleftrightarrow> encoded cs bs"
  by (auto simp: encoded_Cons)

lemma encoded_field_stop:
  "encoded (OFieldStop # cs) i \<Longrightarrow> \<exists>i'. (\<exists>k. taking read_field_header i = (Inr (TyStop, k), i')) \<and> encoded cs i'"
  using taking_encoded [of read_field_header OFieldStop "(TyStop, Some 0)" cs i] read_headers(3) by auto

lemma binary_laws: "thrift_wire (binary_base\<lparr>ip_application_error := f\<rparr>) encoded"
  unfolding binary_base_def
  by unfold_locales
    (auto simp del: encode.simps simp: accept_def intro!: taking_encoded encoded_field_stop)

interpretation base: thrift_wire binary_base encoded
  using binary_laws [of "ip_application_error binary_base"] by simp

interpretation binary: thrift_wire binary_protocol encoded
  unfolding binary_protocol_def by (rule binary_laws)

lemma encoded_length: "encoded cs i \<Longrightarrow> length (concat (map encode cs)) \<le> length i"
  by (auto simp: encoded_def)

lemma application_error_encoded:
  assumes "str_ok m" "encoded (write_application_error m @ cs) i"
  shows "\<exists>i'. ip_application_error binary_protocol i = (Inr (ApplicationError m), i') \<and> encoded cs i'"
proof -
  have "12 \<le> length i"
    using encoded_length [OF assms(2)]
    by (simp add: write_application_error_def w_struct_def w_field_def write_binary_def)
  then have n: "Suc (Suc (Suc 0)) \<le> Suc (length i)" by simp
  have "base.reads (read_struct binary_base (Suc (length i))
      (\<lambda>k ty (m, t).
         if k = 1 then store (callp (ip_string binary_base)) (\<lambda>v. (v, t))
         else if k = 2 then store (callp (ip_i32 binary_base)) (\<lambda>v. (m, v))
         else skip_field binary_base ty (m, t))
      (None, None)
      (\<lambda>(m, t). retp (case m of None \<Rightarrow> ''general remote error'' | Some m \<Rightarrow> m)))
      (write_application_error m) m"
    unfolding write_application_error_def using assms(1) n
    by - ((rule base.wire_rules | (simp; fail))+)
  from base.reads_dest [OF this assms(2)] show ?thesis
    by (auto simp: binary_protocol_def read_application_error_def)
qed

end
