(* ===== verification/RpcProps.thy ===== *)
theory RpcProps
  imports RpcClient BinaryProtocol
begin

text \<open>
  What the twelve calls promise over any protocol with the laws of \<open>thrift_wire\<close>: the server reads the
  request the client wrote; the client returns the result the server wrote, and leaves the stream right
  behind it; and a message that is not the reply to this call is never taken for one.
\<close>

section \<open>Round trips\<close>

definition round_trips ::
    "(out_call list \<Rightarrow> 'i \<Rightarrow> bool) \<Rightarrow> ('i, 'a) rd \<Rightarrow> ('a \<Rightarrow> out_call list) \<Rightarrow> ('a \<Rightarrow> bool) \<Rightarrow> bool" where
  "round_trips holds f w ok \<longleftrightarrow>
     (\<forall>x rest i. ok x \<longrightarrow> holds (w x @ rest) i \<longrightarrow> (\<exists>i'. f i = (Done x, i') \<and> holds rest i'))"

text \<open>
  \<open>answers\<close>: when the request \<open>req\<close> could be written and the stream carries a reply with the number of
  this call and the result \<open>v\<close>, the call returns \<open>v\<close>.
\<close>

definition answers ::
    "(out_call list \<Rightarrow> 'i \<Rightarrow> bool) \<Rightarrow> 'o out_protocol \<Rightarrow> string \<Rightarrow> ('q \<Rightarrow> out_call list) \<Rightarrow>
     ('a option \<Rightarrow> out_call list) \<Rightarrow> ('a \<Rightarrow> bool) \<Rightarrow>
     ('q \<Rightarrow> ('i, 'o) rpc_client \<Rightarrow> 'a read_result \<times> ('i, 'o) rpc_client) \<Rightarrow> bool" where
  "answers holds Q name args w ok call \<longleftrightarrow>
     (\<forall>req c v ob rest.
        ok v \<longrightarrow>
        emit Q (OMessageBegin name MCall (rc_sequence_number c + 1) # args req @ [OMessageEnd, OFlush]) (rc_out c)
          = (Inr (), ob) \<longrightarrow>
        holds (OMessageBegin name MReply (rc_sequence_number c + 1) # w (Some v) @ OMessageEnd # rest) (rc_in c) \<longrightarrow>
        (\<exists>i. call req c = (Done v, \<lparr>rc_in = i, rc_out = ob, rc_sequence_number = rc_sequence_number c + 1\<rparr>) \<and>
             holds rest i))"

lemma rpc_call_eq:
  assumes "emit Q (OMessageBegin name MCall (rc_sequence_number c + 1) # args @ [OMessageEnd, OFlush]) (rc_out c) = (r, ob)"
  shows "rpc_call P Q name service args reader c =
    (case r of
       Inl e \<Rightarrow> (Fail e, c\<lparr>rc_sequence_number := rc_sequence_number c + 1, rc_out := ob\<rparr>)
     | Inr _ \<Rightarrow>
         (case read_reply P name service reader (rc_sequence_number c + 1) (rc_in c) of
            (x, i) \<Rightarrow> (x, c\<lparr>rc_sequence_number := rc_sequence_number c + 1, rc_out := ob, rc_in := i\<rparr>)))"
  using assms by (simp add: rpc_call_def increment_sequence_number_def Let_def del: emit.simps split: sum.split)

lemma rpc_call_counts:
  "rc_sequence_number (snd (rpc_call P Q name service args reader c)) = rc_sequence_number c + 1"
proof -
  obtain r ob where "emit Q (OMessageBegin name MCall (rc_sequence_number c + 1) # args @ [OMessageEnd, OFlush])
      (rc_out c) = (r, ob)" by fastforce
  note eq = rpc_call_eq [OF this]
  show ?thesis by (simp add: eq split: sum.split prod.split)
qed

lemma call_names:
  "str_ok ''openSession''"
  "str_ok ''closeSession''"
  "str_ok ''requestStatementId''"
  "str_ok ''executeQueryStatementV2''"
  "str_ok ''executeUpdateStatementV2''"
  "str_ok ''fetchResultsV2''"
  "str_ok ''closeOperation''"
  "str_ok ''insertRecord''"
  "str_ok ''insertTablet''"
  "str_ok ''insertTablets''"
  "str_ok ''insertRecords''"
  "str_ok ''insertRecordsOfOneDevice''"
  by (simp_all add: str_ok_def short_def, code_simp+)

context thrift_wire
begin

lemma round_trips_wire: "round_trips holds f w ok \<longleftrightarrow> wire f w ok"
  by (auto simp: round_trips_def wire_def reads_def)

lemma checkp_ok [simp]: "bindp (checkp (Inr x)) f = f x"
  by (simp add: fun_eq_iff bindp_def checkp_def)

lemma reads_reply:
  assumes "reads reader body (Some v)" "str_ok name"
  shows "reads (read_reply P name service reader sn) (OMessageBegin name MReply sn # body @ [OMessageEnd]) v"
proof -
  have fin: "reads (callp (ip_message_end P)) [OMessageEnd] ()"
    using reads_marker [OF reads_end [of "ip_message_end P"], of OMessageEnd] by simp
  have "reads (ok_or service (Some v)) [] v" by (simp add: ok_or_def reads_retp)
  then have 1: "reads (bindp (callp (ip_message_end P)) (\<lambda>_. ok_or service (Some v))) [OMessageEnd] v"
    by (rule reads_bindp_end [OF fin])
  from assms(1) 1 have "reads (bindp reader (\<lambda>r. bindp (callp (ip_message_end P)) (\<lambda>_. ok_or service r)))
      (body @ [OMessageEnd]) v" by (rule reads_bindp)
  then show ?thesis
    unfolding read_reply_def
    by (intro reads_bindpI [OF reads_begin(5) [OF assms(2)]]) (simp_all add: same_sequence same_service same_type)
qed

lemma rpc_call_answers:
  fixes Q :: "'o out_protocol"
  assumes "wire reader w (opt_ok ok)" "str_ok name"
  shows "answers holds Q name args w ok (\<lambda>req. rpc_call P Q name service (args req) reader)"
  unfolding answers_def
proof (intro allI impI)
  fix req and c :: "('i, 'o) rpc_client" and v ob rest
  let ?sn = "rc_sequence_number c + 1"
  assume ok: "ok v"
    and sent: "emit Q (OMessageBegin name MCall ?sn # args req @ [OMessageEnd, OFlush]) (rc_out c) = (Inr (), ob)"
    and reply: "holds (OMessageBegin name MReply ?sn # w (Some v) @ OMessageEnd # rest) (rc_in c)"
  have "reads reader (w (Some v)) (Some v)" using wireD [OF assms(1), of "Some v"] ok by (simp add: opt_ok_def)
  with reply obtain i where "read_reply P name service reader ?sn (rc_in c) = (Done v, i)" "holds rest i"
    using reads_dest [OF reads_reply [OF _ assms(2)], of reader "w (Some v)" v ?sn rest "rc_in c" service] by auto
  then show "\<exists>i. rpc_call P Q name service (args req) reader c =
      (Done v, \<lparr>rc_in = i, rc_out = ob, rc_sequence_number = ?sn\<rparr>) \<and> holds rest i"
    unfolding rpc_call_eq [OF sent] by (cases c) simp
qed

lemma rpc_call_other:
  assumes "str_ok name'" "holds (OMessageBegin name' mt sn' # cs) (rc_in c)"
    and "emit Q (OMessageBegin name MCall (rc_sequence_number c + 1) # args @ [OMessageEnd, OFlush]) (rc_out c) = (r, ob)"
    and "(name', mt, sn') \<noteq> (name, MReply, rc_sequence_number c + 1)"
  shows "\<exists>e. fst (rpc_call P Q name service args reader c) = Fail e"
proof -
  obtain i where i: "ip_message_begin P (rc_in c) = (Inr (name', mt, sn'), i)"
    using message_begin [OF assms(1,2)] by blast
  have "\<exists>e. fst (read_reply P name service reader (rc_sequence_number c + 1) (rc_in c)) = Fail e"
    using assms(4) other_sequence [of "rc_sequence_number c + 1" sn'] other_service [of name name']
      other_type [of MReply mt]
    by (auto simp: read_reply_def i bindp_def callp_def checkp_def failp_def same_sequence same_service isl_def
        split: sum.split prod.split)
  then show ?thesis
    by (auto simp: rpc_call_eq [OF assms(3)] split: sum.split prod.split)
qed

end

context thrift_wire
begin

lemmas wire_args =
  wire_open_session_args
  wire_close_session_args
  wire_request_statement_id_args
  wire_execute_query_statement_v2_args
  wire_execute_update_statement_v2_args
  wire_fetch_results_v2_args
  wire_close_operation_args
  wire_insert_record_args
  wire_insert_tablet_args
  wire_insert_tablets_args
  wire_insert_records_args
  wire_insert_records_of_one_device_args

lemmas wire_results =
  wire_open_session_result
  wire_close_session_result
  wire_request_statement_id_result
  wire_execute_query_statement_v2_result
  wire_execute_update_statement_v2_result
  wire_fetch_results_v2_result
  wire_close_operation_result
  wire_insert_record_result
  wire_insert_tablet_result
  wire_insert_tablets_result
  wire_insert_records_result
  wire_insert_records_of_one_device_result

lemmas rpc_defs =
  rpc_open_session_def
  rpc_close_session_def
  rpc_request_statement_id_def
  rpc_execute_query_statement_v2_def
  rpc_execute_update_statement_v2_def
  rpc_fetch_results_v2_def
  rpc_close_operation_def
  rpc_insert_record_def
  rpc_insert_tablet_def
  rpc_insert_tablets_def
  rpc_insert_records_def
  rpc_insert_records_of_one_device_def

lemma args_round_trip:
  assumes "18 \<le> n"
  shows
    "round_trips holds (read_open_session_args P n) write_open_session_args ok_ts_open_session_req \<and>
     round_trips holds (read_close_session_args P n) write_close_session_args ok_ts_close_session_req \<and>
     round_trips holds (read_request_statement_id_args P n) write_request_statement_id_args (\<lambda>_. True) \<and>
     round_trips holds (read_execute_query_statement_v2_args P n) write_execute_query_statement_v2_args ok_ts_execute_statement_req \<and>
     round_trips holds (read_execute_update_statement_v2_args P n) write_execute_update_statement_v2_args ok_ts_execute_statement_req \<and>
     round_trips holds (read_fetch_results_v2_args P n) write_fetch_results_v2_args ok_ts_fetch_results_req \<and>
     round_trips holds (read_close_operation_args P n) write_close_operation_args ok_ts_close_operation_req \<and>
     round_trips holds (read_insert_record_args P n) write_insert_record_args ok_ts_insert_record_req \<and>
     round_trips holds (read_insert_tablet_args P n) write_insert_tablet_args ok_ts_insert_tablet_req \<and>
     round_trips holds (read_insert_tablets_args P n) write_insert_tablets_args ok_ts_insert_tablets_req \<and>
     round_trips holds (read_insert_records_args P n) write_insert_records_args ok_ts_insert_records_req \<and>
     round_trips holds (read_insert_records_of_one_device_args P n) write_insert_records_of_one_device_args ok_ts_insert_records_of_one_device_req"
  unfolding round_trips_wire by (intro conjI; rule wire_args [OF assms])

lemma calls_answered:
  assumes "d + 18 \<le> n"
  shows
    "answers holds Q ''openSession'' write_open_session_args write_open_session_result
       (ok_ts_open_session_resp d) (rpc_open_session P Q n) \<and>
     answers holds Q ''closeSession'' write_close_session_args write_close_session_result
       (ok_ts_status d) (rpc_close_session P Q n) \<and>
     answers holds Q ''requestStatementId'' write_request_statement_id_args write_request_statement_id_result
       (\<lambda>_. True) (rpc_request_statement_id P Q n) \<and>
     answers holds Q ''executeQueryStatementV2'' write_execute_query_statement_v2_args write_execute_query_statement_v2_result
       (ok_ts_execute_statement_resp d) (rpc_execute_query_statement_v2 P Q n) \<and>
     answers holds Q ''executeUpdateStatementV2'' write_execute_update_statement_v2_args write_execute_update_statement_v2_result
       (ok_ts_execute_statement_resp d) (rpc_execute_update_statement_v2 P Q n) \<and>
     answers holds Q ''fetchResultsV2'' write_fetch_results_v2_args write_fetch_results_v2_result
       (ok_ts_fetch_results_resp d) (rpc_fetch_results_v2 P Q n) \<and>
     answers holds Q ''closeOperation'' write_close_operation_args write_close_operation_result
       (ok_ts_status d) (rpc_close_operation P Q n) \<and>
     answers holds Q ''insertRecord'' write_insert_record_args write_insert_record_result
       (ok_ts_status d) (rpc_insert_record P Q n) \<and>
     answers holds Q ''insertTablet'' write_insert_tablet_args write_insert_tablet_result
       (ok_ts_status d) (rpc_insert_tablet P Q n) \<and>
     answers holds Q ''insertTablets'' write_insert_tablets_args write_insert_tablets_result
       (ok_ts_status d) (rpc_insert_tablets P Q n) \<and>
     answers holds Q ''insertRecords'' write_insert_records_args write_insert_records_result
       (ok_ts_status d) (rpc_insert_records P Q n) \<and>
     answers holds Q ''insertRecordsOfOneDevice'' write_insert_records_of_one_device_args write_insert_records_of_one_device_result
       (ok_ts_status d) (rpc_insert_records_of_one_device P Q n)"
proof -
  have n: "18 \<le> n" using assms by simp
  show ?thesis
    unfolding rpc_defs
    by (intro conjI; rule
      rpc_call_answers [OF wire_open_session_result [OF assms]]
      rpc_call_answers [OF wire_close_session_result [OF assms]]
      rpc_call_answers [OF wire_request_statement_id_result [OF n]]
      rpc_call_answers [OF wire_execute_query_statement_v2_result [OF assms]]
      rpc_call_answers [OF wire_execute_update_statement_v2_result [OF assms]]
      rpc_call_answers [OF wire_fetch_results_v2_result [OF assms]]
      rpc_call_answers [OF wire_close_operation_result [OF assms]]
      rpc_call_answers [OF wire_insert_record_result [OF assms]]
      rpc_call_answers [OF wire_insert_tablet_result [OF assms]]
      rpc_call_answers [OF wire_insert_tablets_result [OF assms]]
      rpc_call_answers [OF wire_insert_records_result [OF assms]]
      rpc_call_answers [OF wire_insert_records_of_one_device_result [OF assms]];
      rule call_names)
qed

end

section \<open>The calls\<close>

text \<open>A buffer the binary protocol writes to, and a reply, for the witness.\<close>

definition append_encoded :: "bytes out_protocol" where
  "append_encoded c ob = (Inr (), ob @ encode c)"

definition statement_id_reply :: bytes where
  "statement_id_reply = concat (map encode
     (OMessageBegin ''requestStatementId'' MReply 1 # write_request_statement_id_result (Some 42) @ [OMessageEnd]))"

lemma emit_append_encoded: "emit append_encoded cs ob = (Inr (), ob @ concat (map encode cs))"
  by (induction cs arbitrary: ob) (simp_all add: append_encoded_def)

text \<open>
  C13: A message that is not the reply to this call is never taken for its result. Whatever name,
  kind and number the message in the stream has, unless they are this call's name, \<^verbatim>\<open>Reply\<close> and this
  call's number, the call fails with an error; the number has been counted all the same.
\<close>

theorem rpc_only_own_reply:
  assumes "thrift_wire P holds" "str_ok name'" "holds (OMessageBegin name' mt sn' # cs) (rc_in c)"
    and "(name', mt, sn') \<noteq> (name, MReply, rc_sequence_number c + 1)"
  shows "(\<exists>e. fst (rpc_call P Q name service args reader c) = Fail e) \<and>
    rc_sequence_number (snd (rpc_call P Q name service args reader c)) = rc_sequence_number c + 1"
proof
  obtain r ob where "emit Q (OMessageBegin name MCall (rc_sequence_number c + 1) # args @ [OMessageEnd, OFlush])
      (rc_out c) = (r, ob)" by fastforce
  then show "\<exists>e. fst (rpc_call P Q name service args reader c) = Fail e"
    by (rule thrift_wire.rpc_call_other [OF assms(1,2,3) _ assms(4)])
qed (rule rpc_call_counts)

theorem rpc_only_own_reply_witness:
  "\<exists>e. fst (rpc_request_statement_id binary_protocol append_encoded 19 3
     \<lparr>rc_in = statement_id_reply, rc_out = [], rc_sequence_number = 1\<rparr>) = Fail e"
proof -
  let ?c = "\<lparr>rc_in = statement_id_reply, rc_out = [], rc_sequence_number = 1\<rparr> :: (bytes, bytes) rpc_client"
  have "encoded (OMessageBegin ''requestStatementId'' MReply 1 #
      write_request_statement_id_result (Some 42) @ [OMessageEnd]) (rc_in ?c)"
    by (auto simp: statement_id_reply_def encoded_def)
  moreover have "(''requestStatementId'', MReply, 1) \<noteq> (''requestStatementId'', MReply, rc_sequence_number ?c + 1)"
    by simp
  ultimately show ?thesis
    unfolding rpc_request_statement_id_def
    by (rule rpc_only_own_reply [OF binary.thrift_wire_axioms call_names(3), THEN conjunct1])
qed

end
