(* ===== verification/RpcLink.thy ===== *)
theory RpcLink
  imports RpcServer RpcProps
begin

text \<open>
  Both sides of the RPC service over one medium. The locale \<open>thrift_link\<close> extends \<open>thrift_wire\<close> by a
  medium that delivers what was written to it, and by what the \<^verbatim>\<open>thrift\<close> crate does on a server. Over such
  a medium a call is transparent: the client gets what the handler of the server returned for the
  request the client made, for each of the sixty-nine calls of the service; only the properties of the
  server can arrive changed, with a number where the handler left it absent.
\<close>

section \<open>An exchange\<close>

text \<open>
  The client writes its request to a fresh medium, the server processes what was delivered and writes
  its answer to another, and the client reads that. What a call writes does not depend on what it
  reads, so the request is what the call writes over an empty input.
\<close>

definition exchange ::
    "'i in_protocol \<Rightarrow> 'o out_protocol \<Rightarrow> 'o thrift_server \<Rightarrow> nat \<Rightarrow> 's rpc_handler \<Rightarrow> ('o \<Rightarrow> 'i) \<Rightarrow> 'o \<Rightarrow>
     (('i, 'o) rpc_client \<Rightarrow> 'a read_result \<times> ('i, 'o) rpc_client) \<Rightarrow> i32 \<Rightarrow> 's \<Rightarrow> 'a read_result \<times> i32 \<times> 's" where
  "exchange P Q T n H deliver fresh call sn s =
     (let request = rc_out (snd (call \<lparr>rc_in = deliver fresh, rc_out = fresh, rc_sequence_number = sn\<rparr>));
          (_, _, reply, s) = process P Q T n H (deliver request) fresh s;
          (r, c) = call \<lparr>rc_in = deliver reply, rc_out = fresh, rc_sequence_number = sn\<rparr>
      in (r, rc_sequence_number c, s))"

text \<open>What the client is to get for what the handler returned.\<close>

definition answer_of :: "'o thrift_server \<Rightarrow> thrift_error + 'a \<Rightarrow> 'a read_result" where
  "answer_of T a = (case a of Inr v \<Rightarrow> Done v | Inl e \<Rightarrow> Fail (ApplicationError (app_message T e)))"

definition answer_ok :: "'o thrift_server \<Rightarrow> ('a \<Rightarrow> bool) \<Rightarrow> thrift_error + 'a \<Rightarrow> bool" where
  "answer_ok T okr a \<longleftrightarrow> (case a of Inr v \<Rightarrow> okr v | Inl e \<Rightarrow> str_ok (app_message T e))"

definition transparent ::
    "'i in_protocol \<Rightarrow> 'o out_protocol \<Rightarrow> 'o thrift_server \<Rightarrow> nat \<Rightarrow> 's rpc_handler \<Rightarrow> ('o \<Rightarrow> 'i) \<Rightarrow> 'o \<Rightarrow>
     ('q \<Rightarrow> bool) \<Rightarrow> ('a \<Rightarrow> bool) \<Rightarrow> ('q \<Rightarrow> ('i, 'o) rpc_client \<Rightarrow> 'a read_result \<times> ('i, 'o) rpc_client) \<Rightarrow>
     ('q \<Rightarrow> 's \<Rightarrow> (thrift_error + 'a) \<times> 's) \<Rightarrow> bool" where
  "transparent P Q T n H deliver fresh okq okr call handle \<longleftrightarrow>
     (\<forall>req sn s. okq req \<longrightarrow> answer_ok T okr (fst (handle req s)) \<longrightarrow>
        exchange P Q T n H deliver fresh (call req) sn s =
          (answer_of T (fst (handle req s)), sn + 1, snd (handle req s)))"

section \<open>The medium\<close>

locale thrift_link = thrift_wire P holds for P :: "'i in_protocol" and holds +
  fixes Q :: "'o out_protocol" and T :: "'o thrift_server" and deliver :: "'o \<Rightarrow> 'i" and fresh :: 'o
  assumes delivered: "emit Q cs fresh = (r, ob) \<Longrightarrow> r = Inr () \<and> holds cs (deliver ob)"
    and application_error: "str_ok m \<Longrightarrow> holds (sl_application_error T m @ cs) i \<Longrightarrow>
      \<exists>i'. ip_application_error P i = (Inr (ApplicationError m), i') \<and> holds cs i'"
    and process_result: "sl_process_result T ident (Inr ()) ob = (Inr (), ob)"
begin

lemma written: "\<exists>ob. emit Q cs fresh = (Inr (), ob) \<and> holds cs (deliver ob)"
  using delivered [of cs] by (metis surj_pair)

lemma serves_call:
  assumes rargs: "wire rargs args okq" and name: "str_ok name" and ok: "okq req"
    and arm: "map_of (process_table P Q T n H) name = Some (process_call Q T name rargs wres handle)"
    and i: "holds (OMessageBegin name MCall sn # args req @ [OMessageEnd, OFlush]) i"
  shows "\<exists>i' ob. process P Q T n H i fresh s = (Done (), i', ob, snd (handle req s)) \<and>
    holds (case fst (handle req s) of
        Inr v \<Rightarrow> OMessageBegin name MReply sn # wres (Some v) @ [OMessageEnd, OFlush]
      | Inl e \<Rightarrow> OMessageBegin name MException sn # sl_application_error T (app_message T e) @ [OMessageEnd,
            OFlush])
      (deliver ob)"
proof -
  obtain i1 where 1: "ip_message_begin P i = (Inr (name, MCall, sn), i1)"
      "holds (args req @ [OMessageEnd, OFlush]) i1"
    using message_begin [OF name i] by blast
  obtain i2 where 2: "rargs i1 = (Done req, i2)" using reads_dest [OF wireD [OF rargs ok] 1(2)] by blast
  obtain a s' where a: "handle req s = (a, s')" by fastforce
  obtain ob where "emit Q (case a of
        Inr v \<Rightarrow> OMessageBegin name MReply sn # wres (Some v) @ [OMessageEnd, OFlush]
      | Inl e \<Rightarrow> OMessageBegin name MException sn # sl_application_error T (app_message T e) @ [OMessageEnd,
            OFlush])
      fresh = (Inr (), ob)"
    "holds (case a of
        Inr v \<Rightarrow> OMessageBegin name MReply sn # wres (Some v) @ [OMessageEnd, OFlush]
      | Inl e \<Rightarrow> OMessageBegin name MException sn # sl_application_error T (app_message T e) @ [OMessageEnd,
            OFlush])
      (deliver ob)"
    using written by blast
  then show ?thesis
    by (cases a) (simp_all add: process_def 1 arm process_call_def 2 a process_result outcome_of_def del:
          emit.simps)
qed

lemma reads_exception:
  assumes "str_ok name" "str_ok m"
    and i: "holds (OMessageBegin name MException sn # sl_application_error T m @ [OMessageEnd, OFlush]) i"
  shows "\<exists>i'. read_reply P name service reader sn i = (Fail (ApplicationError m), i')"
proof -
  obtain i1 where 1: "ip_message_begin P i = (Inr (name, MException, sn), i1)"
      "holds (sl_application_error T m @ [OMessageEnd, OFlush]) i1"
    using message_begin [OF assms(1) i] by blast
  obtain i2 where 2: "ip_application_error P i1 = (Inr (ApplicationError m), i2)" "holds [OMessageEnd, OFlush]
        i2"
    using application_error [OF assms(2) 1(2)] by blast
  obtain i3 where "ip_message_end P i2 = (Inr (), i3)" using ends [of "ip_message_end P", OF _ 2(2)] by blast
  then show ?thesis
    by (simp add: read_reply_def bindp_def callp_def checkp_def failp_def 1 2 same_sequence same_service)
qed

text \<open>The client reads \<open>f v\<close> where the handler returned \<open>v\<close>; but for one call \<open>f\<close> is the identity.\<close>

lemma reads_answer:
  assumes "\<And>v. okr (f v) \<Longrightarrow> reads rres (wres (Some v)) (Some (f v))" "str_ok name" "answer_ok T okr (map_sum id f a)"
    and i: "holds (case a of
        Inr v \<Rightarrow> OMessageBegin name MReply sn # wres (Some v) @ [OMessageEnd, OFlush]
      | Inl e \<Rightarrow> OMessageBegin name MException sn # sl_application_error T (app_message T e) @ [OMessageEnd,
            OFlush]) i"
  shows "\<exists>i'. read_reply P name service rres sn i = (answer_of T (map_sum id f a), i')"
proof (cases a)
  case (Inl e)
  then show ?thesis
    using reads_exception [OF assms(2), of "app_message T e" sn i service rres] assms(3) i
    by (simp add: answer_ok_def answer_of_def)
next
  case (Inr v)
  then have "okr (f v)" using assms(3) by (simp add: answer_ok_def)
  from reads_dest [OF reads_reply [OF assms(1) [OF this] assms(2)], of sn "[OFlush]" i service] i Inr show ?thesis
    by (auto simp: answer_of_def)
qed

lemma transparentI_as:
  assumes "wire rargs args okq" "\<And>v. okr (f v) \<Longrightarrow> reads rres (wres (Some v)) (Some (f v))" "str_ok name"
    and arm: "(name, process_call Q T name rargs wres handle) \<in> set (process_table P Q T n H)"
  shows "transparent P Q T n H deliver fresh okq okr
    (\<lambda>req. rpc_call P Q name service (args req) rres) (\<lambda>req s. apfst (map_sum id f) (handle req s))"
  unfolding transparent_def
proof (intro allI impI)
  fix req sn s
  assume okq: "okq req" and "answer_ok T okr (fst (apfst (map_sum id f) (handle req s)))"
  then have ok: "answer_ok T okr (map_sum id f (fst (handle req s)))" by simp
  let ?msg = "OMessageBegin name MCall (sn + 1) # args req @ [OMessageEnd, OFlush]"
  let ?c = "\<lambda>i. \<lparr>rc_in = i, rc_out = fresh, rc_sequence_number = sn\<rparr>"
  obtain ob where ob: "emit Q ?msg fresh = (Inr (), ob)" "holds ?msg (deliver ob)" using written by blast
  have call: "rpc_call P Q name service (args req) rres (?c i) =
      (case read_reply P name service rres (sn + 1) i of
         (x, i) \<Rightarrow> (x, \<lparr>rc_in = i, rc_out = ob, rc_sequence_number = sn + 1\<rparr>))" for i
  proof -
    have "emit Q (OMessageBegin name MCall (rc_sequence_number (?c i) + 1) # args req @ [OMessageEnd, OFlush])
        (rc_out (?c i)) = (Inr (), ob)" using ob(1) by (simp del: emit.simps)
    from rpc_call_eq [OF this, of P service rres] show ?thesis by simp
  qed
  obtain i' reply where p: "process P Q T n H (deliver ob) fresh s = (Done (), i', reply, snd (handle req s))"
    and reply: "holds (case fst (handle req s) of
        Inr v \<Rightarrow> OMessageBegin name MReply (sn + 1) # wres (Some v) @ [OMessageEnd, OFlush]
      | Inl e \<Rightarrow> OMessageBegin name MException (sn + 1) # sl_application_error T (app_message T e) @
            [OMessageEnd, OFlush])
      (deliver reply)"
    using serves_call [OF assms(1,3) okq process_table_lookup [OF arm] ob(2)] by blast
  obtain j where "read_reply P name service rres (sn + 1) (deliver reply) =
      (answer_of T (map_sum id f (fst (handle req s))), j)"
    using reads_answer [OF assms(2,3) ok reply] by blast
  then show "exchange P Q T n H deliver fresh (rpc_call P Q name service (args req) rres) sn s =
      (answer_of T (fst (apfst (map_sum id f) (handle req s))), sn + 1, snd (apfst (map_sum id f) (handle req s)))"
    by (simp add: exchange_def call p split: prod.split)
qed

lemma transparentI:
  assumes "wire rargs args okq" "wire rres wres (opt_ok okr)" "str_ok name"
    and "(name, process_call Q T name rargs wres handle) \<in> set (process_table P Q T n H)"
  shows "transparent P Q T n H deliver fresh okq okr
    (\<lambda>req. rpc_call P Q name service (args req) rres) handle"
proof -
  have "(\<lambda>req s. apfst (map_sum id id) (handle req s)) = handle" by (simp add: sum.map_id0 fun_eq_iff)
  with transparentI_as [OF assms(1) _ assms(3,4), of okr id] assms(2) show ?thesis by (simp add: wire_def opt_ok_def)
qed

end

section \<open>The sixty-nine calls\<close>

lemma other_names:
  "str_ok ''executeStatementV2''"
  "str_ok ''executeRawDataQueryV2''"
  "str_ok ''executeLastDataQueryV2''"
  "str_ok ''executeFastLastDataQueryForOnePrefixPath''"
  "str_ok ''executeFastLastDataQueryForOneDeviceV2''"
  "str_ok ''executeAggregationQueryV2''"
  "str_ok ''executeStatement''"
  "str_ok ''executeBatchStatement''"
  "str_ok ''executeQueryStatement''"
  "str_ok ''executeUpdateStatement''"
  "str_ok ''fetchResults''"
  "str_ok ''fetchMetadata''"
  "str_ok ''cancelOperation''"
  "str_ok ''prepareStatement''"
  "str_ok ''executePreparedStatement''"
  "str_ok ''deallocatePreparedStatement''"
  "str_ok ''getTimeZone''"
  "str_ok ''setTimeZone''"
  "str_ok ''getProperties''"
  "str_ok ''setStorageGroup''"
  "str_ok ''createTimeseries''"
  "str_ok ''createAlignedTimeseries''"
  "str_ok ''createMultiTimeseries''"
  "str_ok ''deleteTimeseries''"
  "str_ok ''deleteStorageGroups''"
  "str_ok ''insertStringRecord''"
  "str_ok ''insertStringRecordsOfOneDevice''"
  "str_ok ''insertStringRecords''"
  "str_ok ''testInsertTablet''"
  "str_ok ''testInsertTablets''"
  "str_ok ''testInsertRecord''"
  "str_ok ''testInsertStringRecord''"
  "str_ok ''testInsertRecords''"
  "str_ok ''testInsertRecordsOfOneDevice''"
  "str_ok ''testInsertStringRecords''"
  "str_ok ''deleteData''"
  "str_ok ''executeRawDataQuery''"
  "str_ok ''executeLastDataQuery''"
  "str_ok ''executeAggregationQuery''"
  "str_ok ''createSchemaTemplate''"
  "str_ok ''appendSchemaTemplate''"
  "str_ok ''pruneSchemaTemplate''"
  "str_ok ''querySchemaTemplate''"
  "str_ok ''showConfigurationTemplate''"
  "str_ok ''showConfiguration''"
  "str_ok ''setSchemaTemplate''"
  "str_ok ''unsetSchemaTemplate''"
  "str_ok ''dropSchemaTemplate''"
  "str_ok ''createTimeseriesUsingSchemaTemplate''"
  "str_ok ''handshake''"
  "str_ok ''sendPipeData''"
  "str_ok ''sendFile''"
  "str_ok ''pipeTransfer''"
  "str_ok ''pipeSubscribe''"
  "str_ok ''getBackupConfiguration''"
  "str_ok ''fetchAllConnectionsInfo''"
  "str_ok ''testConnectionEmptyRPC''"
  by (simp_all add: str_ok_def short_def, code_simp+)

lemma process_arms:
  "(''executeQueryStatementV2'', process_call Q T ''executeQueryStatementV2''
        (read_execute_query_statement_v2_args P n) write_execute_query_statement_v2_result
        (handle_execute_query_statement_v2 H))
     \<in> set (process_table P Q T n H)"
  "(''executeUpdateStatementV2'', process_call Q T ''executeUpdateStatementV2''
        (read_execute_update_statement_v2_args P n) write_execute_update_statement_v2_result
        (handle_execute_update_statement_v2 H))
     \<in> set (process_table P Q T n H)"
  "(''executeStatementV2'', process_call Q T ''executeStatementV2'' (read_execute_statement_v2_args P n)
        write_execute_statement_v2_result (handle_execute_statement_v2 H))
     \<in> set (process_table P Q T n H)"
  "(''executeRawDataQueryV2'', process_call Q T ''executeRawDataQueryV2'' (read_execute_raw_data_query_v2_args P
        n) write_execute_raw_data_query_v2_result (handle_execute_raw_data_query_v2 H))
     \<in> set (process_table P Q T n H)"
  "(''executeLastDataQueryV2'', process_call Q T ''executeLastDataQueryV2''
        (read_execute_last_data_query_v2_args P n) write_execute_last_data_query_v2_result
        (handle_execute_last_data_query_v2 H))
     \<in> set (process_table P Q T n H)"
  "(''executeFastLastDataQueryForOnePrefixPath'', process_call Q T ''executeFastLastDataQueryForOnePrefixPath''
        (read_execute_fast_last_data_query_for_one_prefix_path_args P n)
        write_execute_fast_last_data_query_for_one_prefix_path_result
        (handle_execute_fast_last_data_query_for_one_prefix_path H))
     \<in> set (process_table P Q T n H)"
  "(''executeFastLastDataQueryForOneDeviceV2'', process_call Q T ''executeFastLastDataQueryForOneDeviceV2''
        (read_execute_fast_last_data_query_for_one_device_v2_args P n)
        write_execute_fast_last_data_query_for_one_device_v2_result
        (handle_execute_fast_last_data_query_for_one_device_v2 H))
     \<in> set (process_table P Q T n H)"
  "(''executeAggregationQueryV2'', process_call Q T ''executeAggregationQueryV2''
        (read_execute_aggregation_query_v2_args P n) write_execute_aggregation_query_v2_result
        (handle_execute_aggregation_query_v2 H))
     \<in> set (process_table P Q T n H)"
  "(''fetchResultsV2'', process_call Q T ''fetchResultsV2'' (read_fetch_results_v2_args P n)
        write_fetch_results_v2_result (handle_fetch_results_v2 H))
     \<in> set (process_table P Q T n H)"
  "(''openSession'', process_call Q T ''openSession'' (read_open_session_args P n) write_open_session_result
        (handle_open_session H))
     \<in> set (process_table P Q T n H)"
  "(''closeSession'', process_call Q T ''closeSession'' (read_close_session_args P n) write_close_session_result
        (handle_close_session H))
     \<in> set (process_table P Q T n H)"
  "(''executeStatement'', process_call Q T ''executeStatement'' (read_execute_statement_args P n)
        write_execute_statement_result (handle_execute_statement H))
     \<in> set (process_table P Q T n H)"
  "(''executeBatchStatement'', process_call Q T ''executeBatchStatement'' (read_execute_batch_statement_args P
        n) write_execute_batch_statement_result (handle_execute_batch_statement H))
     \<in> set (process_table P Q T n H)"
  "(''executeQueryStatement'', process_call Q T ''executeQueryStatement'' (read_execute_query_statement_args P
        n) write_execute_query_statement_result (handle_execute_query_statement H))
     \<in> set (process_table P Q T n H)"
  "(''executeUpdateStatement'', process_call Q T ''executeUpdateStatement'' (read_execute_update_statement_args
        P n) write_execute_update_statement_result (handle_execute_update_statement H))
     \<in> set (process_table P Q T n H)"
  "(''fetchResults'', process_call Q T ''fetchResults'' (read_fetch_results_args P n) write_fetch_results_result
        (handle_fetch_results H))
     \<in> set (process_table P Q T n H)"
  "(''fetchMetadata'', process_call Q T ''fetchMetadata'' (read_fetch_metadata_args P n)
        write_fetch_metadata_result (handle_fetch_metadata H))
     \<in> set (process_table P Q T n H)"
  "(''cancelOperation'', process_call Q T ''cancelOperation'' (read_cancel_operation_args P n)
        write_cancel_operation_result (handle_cancel_operation H))
     \<in> set (process_table P Q T n H)"
  "(''closeOperation'', process_call Q T ''closeOperation'' (read_close_operation_args P n)
        write_close_operation_result (handle_close_operation H))
     \<in> set (process_table P Q T n H)"
  "(''prepareStatement'', process_call Q T ''prepareStatement'' (read_prepare_statement_args P n)
        write_prepare_statement_result (handle_prepare_statement H))
     \<in> set (process_table P Q T n H)"
  "(''executePreparedStatement'', process_call Q T ''executePreparedStatement''
        (read_execute_prepared_statement_args P n) write_execute_prepared_statement_result
        (handle_execute_prepared_statement H))
     \<in> set (process_table P Q T n H)"
  "(''deallocatePreparedStatement'', process_call Q T ''deallocatePreparedStatement''
        (read_deallocate_prepared_statement_args P n) write_deallocate_prepared_statement_result
        (handle_deallocate_prepared_statement H))
     \<in> set (process_table P Q T n H)"
  "(''getTimeZone'', process_call Q T ''getTimeZone'' (read_get_time_zone_args P n) write_get_time_zone_result
        (handle_get_time_zone H))
     \<in> set (process_table P Q T n H)"
  "(''setTimeZone'', process_call Q T ''setTimeZone'' (read_set_time_zone_args P n) write_set_time_zone_result
        (handle_set_time_zone H))
     \<in> set (process_table P Q T n H)"
  "(''getProperties'', process_call Q T ''getProperties'' (read_get_properties_args P n)
        write_get_properties_result (handle_get_properties H))
     \<in> set (process_table P Q T n H)"
  "(''setStorageGroup'', process_call Q T ''setStorageGroup'' (read_set_storage_group_args P n)
        write_set_storage_group_result (handle_set_storage_group H))
     \<in> set (process_table P Q T n H)"
  "(''createTimeseries'', process_call Q T ''createTimeseries'' (read_create_timeseries_args P n)
        write_create_timeseries_result (handle_create_timeseries H))
     \<in> set (process_table P Q T n H)"
  "(''createAlignedTimeseries'', process_call Q T ''createAlignedTimeseries''
        (read_create_aligned_timeseries_args P n) write_create_aligned_timeseries_result
        (handle_create_aligned_timeseries H))
     \<in> set (process_table P Q T n H)"
  "(''createMultiTimeseries'', process_call Q T ''createMultiTimeseries'' (read_create_multi_timeseries_args P
        n) write_create_multi_timeseries_result (handle_create_multi_timeseries H))
     \<in> set (process_table P Q T n H)"
  "(''deleteTimeseries'', process_call Q T ''deleteTimeseries'' (read_delete_timeseries_args P n)
        write_delete_timeseries_result (handle_delete_timeseries H))
     \<in> set (process_table P Q T n H)"
  "(''deleteStorageGroups'', process_call Q T ''deleteStorageGroups'' (read_delete_storage_groups_args P n)
        write_delete_storage_groups_result (handle_delete_storage_groups H))
     \<in> set (process_table P Q T n H)"
  "(''insertRecord'', process_call Q T ''insertRecord'' (read_insert_record_args P n) write_insert_record_result
        (handle_insert_record H))
     \<in> set (process_table P Q T n H)"
  "(''insertStringRecord'', process_call Q T ''insertStringRecord'' (read_insert_string_record_args P n)
        write_insert_string_record_result (handle_insert_string_record H))
     \<in> set (process_table P Q T n H)"
  "(''insertTablet'', process_call Q T ''insertTablet'' (read_insert_tablet_args P n) write_insert_tablet_result
        (handle_insert_tablet H))
     \<in> set (process_table P Q T n H)"
  "(''insertTablets'', process_call Q T ''insertTablets'' (read_insert_tablets_args P n)
        write_insert_tablets_result (handle_insert_tablets H))
     \<in> set (process_table P Q T n H)"
  "(''insertRecords'', process_call Q T ''insertRecords'' (read_insert_records_args P n)
        write_insert_records_result (handle_insert_records H))
     \<in> set (process_table P Q T n H)"
  "(''insertRecordsOfOneDevice'', process_call Q T ''insertRecordsOfOneDevice''
        (read_insert_records_of_one_device_args P n) write_insert_records_of_one_device_result
        (handle_insert_records_of_one_device H))
     \<in> set (process_table P Q T n H)"
  "(''insertStringRecordsOfOneDevice'', process_call Q T ''insertStringRecordsOfOneDevice''
        (read_insert_string_records_of_one_device_args P n) write_insert_string_records_of_one_device_result
        (handle_insert_string_records_of_one_device H))
     \<in> set (process_table P Q T n H)"
  "(''insertStringRecords'', process_call Q T ''insertStringRecords'' (read_insert_string_records_args P n)
        write_insert_string_records_result (handle_insert_string_records H))
     \<in> set (process_table P Q T n H)"
  "(''testInsertTablet'', process_call Q T ''testInsertTablet'' (read_test_insert_tablet_args P n)
        write_test_insert_tablet_result (handle_test_insert_tablet H))
     \<in> set (process_table P Q T n H)"
  "(''testInsertTablets'', process_call Q T ''testInsertTablets'' (read_test_insert_tablets_args P n)
        write_test_insert_tablets_result (handle_test_insert_tablets H))
     \<in> set (process_table P Q T n H)"
  "(''testInsertRecord'', process_call Q T ''testInsertRecord'' (read_test_insert_record_args P n)
        write_test_insert_record_result (handle_test_insert_record H))
     \<in> set (process_table P Q T n H)"
  "(''testInsertStringRecord'', process_call Q T ''testInsertStringRecord'' (read_test_insert_string_record_args
        P n) write_test_insert_string_record_result (handle_test_insert_string_record H))
     \<in> set (process_table P Q T n H)"
  "(''testInsertRecords'', process_call Q T ''testInsertRecords'' (read_test_insert_records_args P n)
        write_test_insert_records_result (handle_test_insert_records H))
     \<in> set (process_table P Q T n H)"
  "(''testInsertRecordsOfOneDevice'', process_call Q T ''testInsertRecordsOfOneDevice''
        (read_test_insert_records_of_one_device_args P n) write_test_insert_records_of_one_device_result
        (handle_test_insert_records_of_one_device H))
     \<in> set (process_table P Q T n H)"
  "(''testInsertStringRecords'', process_call Q T ''testInsertStringRecords''
        (read_test_insert_string_records_args P n) write_test_insert_string_records_result
        (handle_test_insert_string_records H))
     \<in> set (process_table P Q T n H)"
  "(''deleteData'', process_call Q T ''deleteData'' (read_delete_data_args P n) write_delete_data_result
        (handle_delete_data H))
     \<in> set (process_table P Q T n H)"
  "(''executeRawDataQuery'', process_call Q T ''executeRawDataQuery'' (read_execute_raw_data_query_args P n)
        write_execute_raw_data_query_result (handle_execute_raw_data_query H))
     \<in> set (process_table P Q T n H)"
  "(''executeLastDataQuery'', process_call Q T ''executeLastDataQuery'' (read_execute_last_data_query_args P n)
        write_execute_last_data_query_result (handle_execute_last_data_query H))
     \<in> set (process_table P Q T n H)"
  "(''executeAggregationQuery'', process_call Q T ''executeAggregationQuery''
        (read_execute_aggregation_query_args P n) write_execute_aggregation_query_result
        (handle_execute_aggregation_query H))
     \<in> set (process_table P Q T n H)"
  "(''requestStatementId'', process_call Q T ''requestStatementId'' (read_request_statement_id_args P n)
        write_request_statement_id_result (handle_request_statement_id H))
     \<in> set (process_table P Q T n H)"
  "(''createSchemaTemplate'', process_call Q T ''createSchemaTemplate'' (read_create_schema_template_args P n)
        write_create_schema_template_result (handle_create_schema_template H))
     \<in> set (process_table P Q T n H)"
  "(''appendSchemaTemplate'', process_call Q T ''appendSchemaTemplate'' (read_append_schema_template_args P n)
        write_append_schema_template_result (handle_append_schema_template H))
     \<in> set (process_table P Q T n H)"
  "(''pruneSchemaTemplate'', process_call Q T ''pruneSchemaTemplate'' (read_prune_schema_template_args P n)
        write_prune_schema_template_result (handle_prune_schema_template H))
     \<in> set (process_table P Q T n H)"
  "(''querySchemaTemplate'', process_call Q T ''querySchemaTemplate'' (read_query_schema_template_args P n)
        write_query_schema_template_result (handle_query_schema_template H))
     \<in> set (process_table P Q T n H)"
  "(''showConfigurationTemplate'', process_call Q T ''showConfigurationTemplate''
        (read_show_configuration_template_args P n) write_show_configuration_template_result
        (handle_show_configuration_template H))
     \<in> set (process_table P Q T n H)"
  "(''showConfiguration'', process_call Q T ''showConfiguration'' (read_show_configuration_args P n)
        write_show_configuration_result (handle_show_configuration H))
     \<in> set (process_table P Q T n H)"
  "(''setSchemaTemplate'', process_call Q T ''setSchemaTemplate'' (read_set_schema_template_args P n)
        write_set_schema_template_result (handle_set_schema_template H))
     \<in> set (process_table P Q T n H)"
  "(''unsetSchemaTemplate'', process_call Q T ''unsetSchemaTemplate'' (read_unset_schema_template_args P n)
        write_unset_schema_template_result (handle_unset_schema_template H))
     \<in> set (process_table P Q T n H)"
  "(''dropSchemaTemplate'', process_call Q T ''dropSchemaTemplate'' (read_drop_schema_template_args P n)
        write_drop_schema_template_result (handle_drop_schema_template H))
     \<in> set (process_table P Q T n H)"
  "(''createTimeseriesUsingSchemaTemplate'', process_call Q T ''createTimeseriesUsingSchemaTemplate''
        (read_create_timeseries_using_schema_template_args P n)
        write_create_timeseries_using_schema_template_result (handle_create_timeseries_using_schema_template H))
     \<in> set (process_table P Q T n H)"
  "(''handshake'', process_call Q T ''handshake'' (read_handshake_args P n) write_handshake_result
        (handle_handshake H))
     \<in> set (process_table P Q T n H)"
  "(''sendPipeData'', process_call Q T ''sendPipeData'' (read_send_pipe_data_args P n)
        write_send_pipe_data_result (handle_send_pipe_data H))
     \<in> set (process_table P Q T n H)"
  "(''sendFile'', process_call Q T ''sendFile'' (read_send_file_args P n) write_send_file_result
        (handle_send_file H))
     \<in> set (process_table P Q T n H)"
  "(''pipeTransfer'', process_call Q T ''pipeTransfer'' (read_pipe_transfer_args P n) write_pipe_transfer_result
        (handle_pipe_transfer H))
     \<in> set (process_table P Q T n H)"
  "(''pipeSubscribe'', process_call Q T ''pipeSubscribe'' (read_pipe_subscribe_args P n)
        write_pipe_subscribe_result (handle_pipe_subscribe H))
     \<in> set (process_table P Q T n H)"
  "(''getBackupConfiguration'', process_call Q T ''getBackupConfiguration'' (read_get_backup_configuration_args
        P n) write_get_backup_configuration_result (handle_get_backup_configuration H))
     \<in> set (process_table P Q T n H)"
  "(''fetchAllConnectionsInfo'', process_call Q T ''fetchAllConnectionsInfo''
        (read_fetch_all_connections_info_args P n) write_fetch_all_connections_info_result
        (handle_fetch_all_connections_info H))
     \<in> set (process_table P Q T n H)"
  "(''testConnectionEmptyRPC'', process_call Q T ''testConnectionEmptyRPC''
        (read_test_connection_empty_r_p_c_args P n) write_test_connection_empty_r_p_c_result
        (handle_test_connection_empty_r_p_c H))
     \<in> set (process_table P Q T n H)"
  by (simp_all only: process_table_def list.set insert_iff prod.inject simp_thms
      process_execute_query_statement_v2_def
      process_execute_update_statement_v2_def
      process_execute_statement_v2_def
      process_execute_raw_data_query_v2_def
      process_execute_last_data_query_v2_def
      process_execute_fast_last_data_query_for_one_prefix_path_def
      process_execute_fast_last_data_query_for_one_device_v2_def
      process_execute_aggregation_query_v2_def
      process_fetch_results_v2_def
      process_open_session_def
      process_close_session_def
      process_execute_statement_def
      process_execute_batch_statement_def
      process_execute_query_statement_def
      process_execute_update_statement_def
      process_fetch_results_def
      process_fetch_metadata_def
      process_cancel_operation_def
      process_close_operation_def
      process_prepare_statement_def
      process_execute_prepared_statement_def
      process_deallocate_prepared_statement_def
      process_get_time_zone_def
      process_set_time_zone_def
      process_get_properties_def
      process_set_storage_group_def
      process_create_timeseries_def
      process_create_aligned_timeseries_def
      process_create_multi_timeseries_def
      process_delete_timeseries_def
      process_delete_storage_groups_def
      process_insert_record_def
      process_insert_string_record_def
      process_insert_tablet_def
      process_insert_tablets_def
      process_insert_records_def
      process_insert_records_of_one_device_def
      process_insert_string_records_of_one_device_def
      process_insert_string_records_def
      process_test_insert_tablet_def
      process_test_insert_tablets_def
      process_test_insert_record_def
      process_test_insert_string_record_def
      process_test_insert_records_def
      process_test_insert_records_of_one_device_def
      process_test_insert_string_records_def
      process_delete_data_def
      process_execute_raw_data_query_def
      process_execute_last_data_query_def
      process_execute_aggregation_query_def
      process_request_statement_id_def
      process_create_schema_template_def
      process_append_schema_template_def
      process_prune_schema_template_def
      process_query_schema_template_def
      process_show_configuration_template_def
      process_show_configuration_def
      process_set_schema_template_def
      process_unset_schema_template_def
      process_drop_schema_template_def
      process_create_timeseries_using_schema_template_def
      process_handshake_def
      process_send_pipe_data_def
      process_send_file_def
      process_pipe_transfer_def
      process_pipe_subscribe_def
      process_get_backup_configuration_def
      process_fetch_all_connections_info_def
      process_test_connection_empty_r_p_c_def)

context thrift_link
begin

lemma session_calls_transparent:
  assumes "d + 18 \<le> n"
  shows
    "transparent P Q T n H deliver fresh ok_ts_open_session_req (ok_ts_open_session_resp d)
       (rpc_open_session P Q n) (handle_open_session H) \<and>
     transparent P Q T n H deliver fresh ok_ts_close_session_req (ok_ts_status d)
       (rpc_close_session P Q n) (handle_close_session H) \<and>
     transparent P Q T n H deliver fresh (\<lambda>_. True) (\<lambda>_. True)
       (rpc_request_statement_id P Q n) (handle_request_statement_id H) \<and>
     transparent P Q T n H deliver fresh ok_ts_execute_statement_req (ok_ts_execute_statement_resp d)
       (rpc_execute_query_statement_v2 P Q n) (handle_execute_query_statement_v2 H) \<and>
     transparent P Q T n H deliver fresh ok_ts_execute_statement_req (ok_ts_execute_statement_resp d)
       (rpc_execute_update_statement_v2 P Q n) (handle_execute_update_statement_v2 H) \<and>
     transparent P Q T n H deliver fresh ok_ts_fetch_results_req (ok_ts_fetch_results_resp d)
       (rpc_fetch_results_v2 P Q n) (handle_fetch_results_v2 H) \<and>
     transparent P Q T n H deliver fresh ok_ts_close_operation_req (ok_ts_status d)
       (rpc_close_operation P Q n) (handle_close_operation H) \<and>
     transparent P Q T n H deliver fresh ok_ts_insert_record_req (ok_ts_status d)
       (rpc_insert_record P Q n) (handle_insert_record H) \<and>
     transparent P Q T n H deliver fresh ok_ts_insert_tablet_req (ok_ts_status d)
       (rpc_insert_tablet P Q n) (handle_insert_tablet H) \<and>
     transparent P Q T n H deliver fresh ok_ts_insert_tablets_req (ok_ts_status d)
       (rpc_insert_tablets P Q n) (handle_insert_tablets H) \<and>
     transparent P Q T n H deliver fresh ok_ts_insert_records_req (ok_ts_status d)
       (rpc_insert_records P Q n) (handle_insert_records H) \<and>
     transparent P Q T n H deliver fresh ok_ts_insert_records_of_one_device_req (ok_ts_status d)
       (rpc_insert_records_of_one_device P Q n) (handle_insert_records_of_one_device H)"
proof -
  have n: "18 \<le> n" using assms by simp
  show ?thesis
    unfolding rpc_open_session_def
      rpc_close_session_def
      rpc_request_statement_id_def
      rpc_execute_query_statement_v2_def
      rpc_execute_update_statement_v2_def
      rpc_fetch_results_v2_def
      rpc_close_operation_def
      rpc_insert_record_def
      rpc_insert_tablet_def
      rpc_insert_tablets_def
      rpc_insert_records_def
      rpc_insert_records_of_one_device_def
    by (intro conjI; rule
      transparentI [OF wire_open_session_args [OF n] wire_open_session_result [OF assms]]
      transparentI [OF wire_close_session_args [OF n] wire_close_session_result [OF assms]]
      transparentI [OF wire_request_statement_id_args [OF n] wire_request_statement_id_result [OF n]]
      transparentI [OF wire_execute_query_statement_v2_args [OF n] wire_execute_query_statement_v2_result [OF
            assms]]
      transparentI [OF wire_execute_update_statement_v2_args [OF n] wire_execute_update_statement_v2_result [OF
            assms]]
      transparentI [OF wire_fetch_results_v2_args [OF n] wire_fetch_results_v2_result [OF assms]]
      transparentI [OF wire_close_operation_args [OF n] wire_close_operation_result [OF assms]]
      transparentI [OF wire_insert_record_args [OF n] wire_insert_record_result [OF assms]]
      transparentI [OF wire_insert_tablet_args [OF n] wire_insert_tablet_result [OF assms]]
      transparentI [OF wire_insert_tablets_args [OF n] wire_insert_tablets_result [OF assms]]
      transparentI [OF wire_insert_records_args [OF n] wire_insert_records_result [OF assms]]
      transparentI [OF wire_insert_records_of_one_device_args [OF n] wire_insert_records_of_one_device_result
            [OF assms]];
      rule call_names other_names process_arms)
qed

lemma get_properties_transparent:
  assumes "18 \<le> n"
  shows "transparent P Q T n H deliver fresh (\<lambda>_. True) ok_server_properties
    (rpc_get_properties P Q n) (\<lambda>u s. apfst (map_sum id received_server_properties) (handle_get_properties H u s))"
  unfolding rpc_get_properties_def
proof (rule transparentI_as)
  show "reads (read_get_properties_result P n) (write_get_properties_result (Some v)) (Some (received_server_properties v))"
    if "ok_server_properties (received_server_properties v)" for v
    using that by (intro reads_get_properties_result [OF assms])
      (simp add: ok_server_properties_def received_server_properties_def)
qed (rule wire_get_properties_args [OF assms] other_names process_arms)+

lemma other_calls_transparent_1:
  assumes "d + 18 \<le> n"
  shows
    "transparent P Q T n H deliver fresh ok_ts_execute_statement_req (ok_ts_execute_statement_resp d)
       (rpc_execute_statement_v2 P Q n) (handle_execute_statement_v2 H) \<and>
     transparent P Q T n H deliver fresh ok_ts_raw_data_query_req (ok_ts_execute_statement_resp d)
       (rpc_execute_raw_data_query_v2 P Q n) (handle_execute_raw_data_query_v2 H) \<and>
     transparent P Q T n H deliver fresh ok_ts_last_data_query_req (ok_ts_execute_statement_resp d)
       (rpc_execute_last_data_query_v2 P Q n) (handle_execute_last_data_query_v2 H) \<and>
     transparent P Q T n H deliver fresh ok_ts_fast_last_data_query_for_one_prefix_path_req
           (ok_ts_execute_statement_resp d)
       (rpc_execute_fast_last_data_query_for_one_prefix_path P Q n)
             (handle_execute_fast_last_data_query_for_one_prefix_path H) \<and>
     transparent P Q T n H deliver fresh ok_ts_fast_last_data_query_for_one_device_req
           (ok_ts_execute_statement_resp d)
       (rpc_execute_fast_last_data_query_for_one_device_v2 P Q n)
             (handle_execute_fast_last_data_query_for_one_device_v2 H) \<and>
     transparent P Q T n H deliver fresh ok_ts_aggregation_query_req (ok_ts_execute_statement_resp d)
       (rpc_execute_aggregation_query_v2 P Q n) (handle_execute_aggregation_query_v2 H) \<and>
     transparent P Q T n H deliver fresh ok_ts_execute_statement_req (ok_ts_execute_statement_resp d)
       (rpc_execute_statement P Q n) (handle_execute_statement H) \<and>
     transparent P Q T n H deliver fresh ok_ts_execute_batch_statement_req (ok_ts_status d)
       (rpc_execute_batch_statement P Q n) (handle_execute_batch_statement H) \<and>
     transparent P Q T n H deliver fresh ok_ts_execute_statement_req (ok_ts_execute_statement_resp d)
       (rpc_execute_query_statement P Q n) (handle_execute_query_statement H) \<and>
     transparent P Q T n H deliver fresh ok_ts_execute_statement_req (ok_ts_execute_statement_resp d)
       (rpc_execute_update_statement P Q n) (handle_execute_update_statement H) \<and>
     transparent P Q T n H deliver fresh ok_ts_fetch_results_req (ok_ts_fetch_results_resp d)
       (rpc_fetch_results P Q n) (handle_fetch_results H) \<and>
     transparent P Q T n H deliver fresh ok_ts_fetch_metadata_req (ok_ts_fetch_metadata_resp d)
       (rpc_fetch_metadata P Q n) (handle_fetch_metadata H) \<and>
     transparent P Q T n H deliver fresh ok_ts_cancel_operation_req (ok_ts_status d)
       (rpc_cancel_operation P Q n) (handle_cancel_operation H) \<and>
     transparent P Q T n H deliver fresh ok_ts_prepare_req (ok_ts_prepare_resp d)
       (rpc_prepare_statement P Q n) (handle_prepare_statement H) \<and>
     transparent P Q T n H deliver fresh ok_ts_execute_prepared_req (ok_ts_execute_statement_resp d)
       (rpc_execute_prepared_statement P Q n) (handle_execute_prepared_statement H) \<and>
     transparent P Q T n H deliver fresh ok_ts_deallocate_prepared_req (ok_ts_status d)
       (rpc_deallocate_prepared_statement P Q n) (handle_deallocate_prepared_statement H) \<and>
     transparent P Q T n H deliver fresh (\<lambda>_. True) (ok_ts_get_time_zone_resp d)
       (rpc_get_time_zone P Q n) (handle_get_time_zone H) \<and>
     transparent P Q T n H deliver fresh ok_ts_set_time_zone_req (ok_ts_status d)
       (rpc_set_time_zone P Q n) (handle_set_time_zone H) \<and>
     transparent P Q T n H deliver fresh (\<lambda>_. True) ok_server_properties
       (rpc_get_properties P Q n) (\<lambda>u s. apfst (map_sum id received_server_properties) (handle_get_properties H u s)) \<and>
     transparent P Q T n H deliver fresh (\<lambda>(_, storage_group). str_ok storage_group) (ok_ts_status d)
       (rpc_set_storage_group P Q n) (handle_set_storage_group H)"
proof -
  have n: "18 \<le> n" using assms by simp
  show ?thesis
    unfolding rpc_execute_statement_v2_def
      rpc_execute_raw_data_query_v2_def
      rpc_execute_last_data_query_v2_def
      rpc_execute_fast_last_data_query_for_one_prefix_path_def
      rpc_execute_fast_last_data_query_for_one_device_v2_def
      rpc_execute_aggregation_query_v2_def
      rpc_execute_statement_def
      rpc_execute_batch_statement_def
      rpc_execute_query_statement_def
      rpc_execute_update_statement_def
      rpc_fetch_results_def
      rpc_fetch_metadata_def
      rpc_cancel_operation_def
      rpc_prepare_statement_def
      rpc_execute_prepared_statement_def
      rpc_deallocate_prepared_statement_def
      rpc_get_time_zone_def
      rpc_set_time_zone_def
      rpc_set_storage_group_def
    by (intro conjI; rule
      transparentI [OF wire_execute_statement_v2_args [OF n] wire_execute_statement_v2_result [OF assms]]
      transparentI [OF wire_execute_raw_data_query_v2_args [OF n] wire_execute_raw_data_query_v2_result [OF
            assms]]
      transparentI [OF wire_execute_last_data_query_v2_args [OF n] wire_execute_last_data_query_v2_result [OF
            assms]]
      transparentI [OF wire_execute_fast_last_data_query_for_one_prefix_path_args [OF n]
            wire_execute_fast_last_data_query_for_one_prefix_path_result [OF assms]]
      transparentI [OF wire_execute_fast_last_data_query_for_one_device_v2_args [OF n]
            wire_execute_fast_last_data_query_for_one_device_v2_result [OF assms]]
      transparentI [OF wire_execute_aggregation_query_v2_args [OF n] wire_execute_aggregation_query_v2_result
            [OF assms]]
      transparentI [OF wire_execute_statement_args [OF n] wire_execute_statement_result [OF assms]]
      transparentI [OF wire_execute_batch_statement_args [OF n] wire_execute_batch_statement_result [OF assms]]
      transparentI [OF wire_execute_query_statement_args [OF n] wire_execute_query_statement_result [OF assms]]
      transparentI [OF wire_execute_update_statement_args [OF n] wire_execute_update_statement_result [OF
            assms]]
      transparentI [OF wire_fetch_results_args [OF n] wire_fetch_results_result [OF assms]]
      transparentI [OF wire_fetch_metadata_args [OF n] wire_fetch_metadata_result [OF assms]]
      transparentI [OF wire_cancel_operation_args [OF n] wire_cancel_operation_result [OF assms]]
      transparentI [OF wire_prepare_statement_args [OF n] wire_prepare_statement_result [OF assms]]
      transparentI [OF wire_execute_prepared_statement_args [OF n] wire_execute_prepared_statement_result [OF
            assms]]
      transparentI [OF wire_deallocate_prepared_statement_args [OF n] wire_deallocate_prepared_statement_result
            [OF assms]]
      transparentI [OF wire_get_time_zone_args [OF n] wire_get_time_zone_result [OF assms]]
      transparentI [OF wire_set_time_zone_args [OF n] wire_set_time_zone_result [OF assms]]
      get_properties_transparent [OF n]
      transparentI [OF wire_set_storage_group_args [OF n] wire_set_storage_group_result [OF assms]];
      (rule call_names other_names process_arms)?)
qed

lemma other_calls_transparent_2:
  assumes "d + 18 \<le> n"
  shows
    "transparent P Q T n H deliver fresh ok_ts_create_timeseries_req (ok_ts_status d)
       (rpc_create_timeseries P Q n) (handle_create_timeseries H) \<and>
     transparent P Q T n H deliver fresh ok_ts_create_aligned_timeseries_req (ok_ts_status d)
       (rpc_create_aligned_timeseries P Q n) (handle_create_aligned_timeseries H) \<and>
     transparent P Q T n H deliver fresh ok_ts_create_multi_timeseries_req (ok_ts_status d)
       (rpc_create_multi_timeseries P Q n) (handle_create_multi_timeseries H) \<and>
     transparent P Q T n H deliver fresh (\<lambda>(_, path). list_ok str_ok path) (ok_ts_status d)
       (rpc_delete_timeseries P Q n) (handle_delete_timeseries H) \<and>
     transparent P Q T n H deliver fresh (\<lambda>(_, storage_group). list_ok str_ok storage_group) (ok_ts_status d)
       (rpc_delete_storage_groups P Q n) (handle_delete_storage_groups H) \<and>
     transparent P Q T n H deliver fresh ok_ts_insert_string_record_req (ok_ts_status d)
       (rpc_insert_string_record P Q n) (handle_insert_string_record H) \<and>
     transparent P Q T n H deliver fresh ok_ts_insert_string_records_of_one_device_req (ok_ts_status d)
       (rpc_insert_string_records_of_one_device P Q n) (handle_insert_string_records_of_one_device H) \<and>
     transparent P Q T n H deliver fresh ok_ts_insert_string_records_req (ok_ts_status d)
       (rpc_insert_string_records P Q n) (handle_insert_string_records H) \<and>
     transparent P Q T n H deliver fresh ok_ts_insert_tablet_req (ok_ts_status d)
       (rpc_test_insert_tablet P Q n) (handle_test_insert_tablet H) \<and>
     transparent P Q T n H deliver fresh ok_ts_insert_tablets_req (ok_ts_status d)
       (rpc_test_insert_tablets P Q n) (handle_test_insert_tablets H) \<and>
     transparent P Q T n H deliver fresh ok_ts_insert_record_req (ok_ts_status d)
       (rpc_test_insert_record P Q n) (handle_test_insert_record H) \<and>
     transparent P Q T n H deliver fresh ok_ts_insert_string_record_req (ok_ts_status d)
       (rpc_test_insert_string_record P Q n) (handle_test_insert_string_record H) \<and>
     transparent P Q T n H deliver fresh ok_ts_insert_records_req (ok_ts_status d)
       (rpc_test_insert_records P Q n) (handle_test_insert_records H) \<and>
     transparent P Q T n H deliver fresh ok_ts_insert_records_of_one_device_req (ok_ts_status d)
       (rpc_test_insert_records_of_one_device P Q n) (handle_test_insert_records_of_one_device H) \<and>
     transparent P Q T n H deliver fresh ok_ts_insert_string_records_req (ok_ts_status d)
       (rpc_test_insert_string_records P Q n) (handle_test_insert_string_records H) \<and>
     transparent P Q T n H deliver fresh ok_ts_delete_data_req (ok_ts_status d)
       (rpc_delete_data P Q n) (handle_delete_data H) \<and>
     transparent P Q T n H deliver fresh ok_ts_raw_data_query_req (ok_ts_execute_statement_resp d)
       (rpc_execute_raw_data_query P Q n) (handle_execute_raw_data_query H) \<and>
     transparent P Q T n H deliver fresh ok_ts_last_data_query_req (ok_ts_execute_statement_resp d)
       (rpc_execute_last_data_query P Q n) (handle_execute_last_data_query H) \<and>
     transparent P Q T n H deliver fresh ok_ts_aggregation_query_req (ok_ts_execute_statement_resp d)
       (rpc_execute_aggregation_query P Q n) (handle_execute_aggregation_query H) \<and>
     transparent P Q T n H deliver fresh ok_ts_create_schema_template_req (ok_ts_status d)
       (rpc_create_schema_template P Q n) (handle_create_schema_template H)"
proof -
  have n: "18 \<le> n" using assms by simp
  show ?thesis
    unfolding rpc_create_timeseries_def
      rpc_create_aligned_timeseries_def
      rpc_create_multi_timeseries_def
      rpc_delete_timeseries_def
      rpc_delete_storage_groups_def
      rpc_insert_string_record_def
      rpc_insert_string_records_of_one_device_def
      rpc_insert_string_records_def
      rpc_test_insert_tablet_def
      rpc_test_insert_tablets_def
      rpc_test_insert_record_def
      rpc_test_insert_string_record_def
      rpc_test_insert_records_def
      rpc_test_insert_records_of_one_device_def
      rpc_test_insert_string_records_def
      rpc_delete_data_def
      rpc_execute_raw_data_query_def
      rpc_execute_last_data_query_def
      rpc_execute_aggregation_query_def
      rpc_create_schema_template_def
    by (intro conjI; rule
      transparentI [OF wire_create_timeseries_args [OF n] wire_create_timeseries_result [OF assms]]
      transparentI [OF wire_create_aligned_timeseries_args [OF n] wire_create_aligned_timeseries_result [OF
            assms]]
      transparentI [OF wire_create_multi_timeseries_args [OF n] wire_create_multi_timeseries_result [OF assms]]
      transparentI [OF wire_delete_timeseries_args [OF n] wire_delete_timeseries_result [OF assms]]
      transparentI [OF wire_delete_storage_groups_args [OF n] wire_delete_storage_groups_result [OF assms]]
      transparentI [OF wire_insert_string_record_args [OF n] wire_insert_string_record_result [OF assms]]
      transparentI [OF wire_insert_string_records_of_one_device_args [OF n]
            wire_insert_string_records_of_one_device_result [OF assms]]
      transparentI [OF wire_insert_string_records_args [OF n] wire_insert_string_records_result [OF assms]]
      transparentI [OF wire_test_insert_tablet_args [OF n] wire_test_insert_tablet_result [OF assms]]
      transparentI [OF wire_test_insert_tablets_args [OF n] wire_test_insert_tablets_result [OF assms]]
      transparentI [OF wire_test_insert_record_args [OF n] wire_test_insert_record_result [OF assms]]
      transparentI [OF wire_test_insert_string_record_args [OF n] wire_test_insert_string_record_result [OF
            assms]]
      transparentI [OF wire_test_insert_records_args [OF n] wire_test_insert_records_result [OF assms]]
      transparentI [OF wire_test_insert_records_of_one_device_args [OF n]
            wire_test_insert_records_of_one_device_result [OF assms]]
      transparentI [OF wire_test_insert_string_records_args [OF n] wire_test_insert_string_records_result [OF
            assms]]
      transparentI [OF wire_delete_data_args [OF n] wire_delete_data_result [OF assms]]
      transparentI [OF wire_execute_raw_data_query_args [OF n] wire_execute_raw_data_query_result [OF assms]]
      transparentI [OF wire_execute_last_data_query_args [OF n] wire_execute_last_data_query_result [OF assms]]
      transparentI [OF wire_execute_aggregation_query_args [OF n] wire_execute_aggregation_query_result [OF
            assms]]
      transparentI [OF wire_create_schema_template_args [OF n] wire_create_schema_template_result [OF assms]];
      rule call_names other_names process_arms)
qed

lemma other_calls_transparent_3:
  assumes "d + 18 \<le> n"
  shows
    "transparent P Q T n H deliver fresh ok_ts_append_schema_template_req (ok_ts_status d)
       (rpc_append_schema_template P Q n) (handle_append_schema_template H) \<and>
     transparent P Q T n H deliver fresh ok_ts_prune_schema_template_req (ok_ts_status d)
       (rpc_prune_schema_template P Q n) (handle_prune_schema_template H) \<and>
     transparent P Q T n H deliver fresh ok_ts_query_template_req (ok_ts_query_template_resp d)
       (rpc_query_schema_template P Q n) (handle_query_schema_template H) \<and>
     transparent P Q T n H deliver fresh (\<lambda>_. True) (ok_t_show_configuration_template_resp d)
       (rpc_show_configuration_template P Q n) (handle_show_configuration_template H) \<and>
     transparent P Q T n H deliver fresh (\<lambda>_. True) (ok_t_show_configuration_resp d)
       (rpc_show_configuration P Q n) (handle_show_configuration H) \<and>
     transparent P Q T n H deliver fresh ok_ts_set_schema_template_req (ok_ts_status d)
       (rpc_set_schema_template P Q n) (handle_set_schema_template H) \<and>
     transparent P Q T n H deliver fresh ok_ts_unset_schema_template_req (ok_ts_status d)
       (rpc_unset_schema_template P Q n) (handle_unset_schema_template H) \<and>
     transparent P Q T n H deliver fresh ok_ts_drop_schema_template_req (ok_ts_status d)
       (rpc_drop_schema_template P Q n) (handle_drop_schema_template H) \<and>
     transparent P Q T n H deliver fresh ok_t_create_timeseries_using_schema_template_req (ok_ts_status d)
       (rpc_create_timeseries_using_schema_template P Q n) (handle_create_timeseries_using_schema_template H) \<and>
     transparent P Q T n H deliver fresh ok_t_sync_identity_info (ok_ts_status d)
       (rpc_handshake P Q n) (handle_handshake H) \<and>
     transparent P Q T n H deliver fresh short (ok_ts_status d)
       (rpc_send_pipe_data P Q n) (handle_send_pipe_data H) \<and>
     transparent P Q T n H deliver fresh (\<lambda>(meta_info, buff). ok_t_sync_transport_meta_info meta_info \<and> short
           buff) (ok_ts_status d)
       (rpc_send_file P Q n) (handle_send_file H) \<and>
     transparent P Q T n H deliver fresh ok_t_pipe_transfer_req (ok_t_pipe_transfer_resp d)
       (rpc_pipe_transfer P Q n) (handle_pipe_transfer H) \<and>
     transparent P Q T n H deliver fresh ok_t_pipe_subscribe_req (ok_t_pipe_subscribe_resp d)
       (rpc_pipe_subscribe P Q n) (handle_pipe_subscribe H) \<and>
     transparent P Q T n H deliver fresh (\<lambda>_. True) (ok_ts_backup_configuration_resp d)
       (rpc_get_backup_configuration P Q n) (handle_get_backup_configuration H) \<and>
     transparent P Q T n H deliver fresh (\<lambda>_. True) ok_ts_connection_info_resp
       (rpc_fetch_all_connections_info P Q n) (handle_fetch_all_connections_info H) \<and>
     transparent P Q T n H deliver fresh (\<lambda>_. True) (ok_ts_status d)
       (rpc_test_connection_empty_r_p_c P Q n) (handle_test_connection_empty_r_p_c H)"
proof -
  have n: "18 \<le> n" using assms by simp
  show ?thesis
    unfolding rpc_append_schema_template_def
      rpc_prune_schema_template_def
      rpc_query_schema_template_def
      rpc_show_configuration_template_def
      rpc_show_configuration_def
      rpc_set_schema_template_def
      rpc_unset_schema_template_def
      rpc_drop_schema_template_def
      rpc_create_timeseries_using_schema_template_def
      rpc_handshake_def
      rpc_send_pipe_data_def
      rpc_send_file_def
      rpc_pipe_transfer_def
      rpc_pipe_subscribe_def
      rpc_get_backup_configuration_def
      rpc_fetch_all_connections_info_def
      rpc_test_connection_empty_r_p_c_def
    by (intro conjI; rule
      transparentI [OF wire_append_schema_template_args [OF n] wire_append_schema_template_result [OF assms]]
      transparentI [OF wire_prune_schema_template_args [OF n] wire_prune_schema_template_result [OF assms]]
      transparentI [OF wire_query_schema_template_args [OF n] wire_query_schema_template_result [OF assms]]
      transparentI [OF wire_show_configuration_template_args [OF n] wire_show_configuration_template_result [OF
            assms]]
      transparentI [OF wire_show_configuration_args [OF n] wire_show_configuration_result [OF assms]]
      transparentI [OF wire_set_schema_template_args [OF n] wire_set_schema_template_result [OF assms]]
      transparentI [OF wire_unset_schema_template_args [OF n] wire_unset_schema_template_result [OF assms]]
      transparentI [OF wire_drop_schema_template_args [OF n] wire_drop_schema_template_result [OF assms]]
      transparentI [OF wire_create_timeseries_using_schema_template_args [OF n]
            wire_create_timeseries_using_schema_template_result [OF assms]]
      transparentI [OF wire_handshake_args [OF n] wire_handshake_result [OF assms]]
      transparentI [OF wire_send_pipe_data_args [OF n] wire_send_pipe_data_result [OF assms]]
      transparentI [OF wire_send_file_args [OF n] wire_send_file_result [OF assms]]
      transparentI [OF wire_pipe_transfer_args [OF n] wire_pipe_transfer_result [OF assms]]
      transparentI [OF wire_pipe_subscribe_args [OF n] wire_pipe_subscribe_result [OF assms]]
      transparentI [OF wire_get_backup_configuration_args [OF n] wire_get_backup_configuration_result [OF
            assms]]
      transparentI [OF wire_fetch_all_connections_info_args [OF n] wire_fetch_all_connections_info_result [OF
            n]]
      transparentI [OF wire_test_connection_empty_r_p_c_args [OF n] wire_test_connection_empty_r_p_c_result [OF
            assms]];
      rule call_names other_names process_arms)
qed

end

section \<open>The binary protocol as a medium\<close>

text \<open>
  A buffer that holds what was encoded to it, and a server that answers a failed call with an application
  error and otherwise adds nothing.
\<close>

definition describe_error :: "thrift_error \<Rightarrow> string" where
  "describe_error e =
     (case e of TransportError m \<Rightarrow> m | ProtocolError m \<Rightarrow> m | ApplicationError m \<Rightarrow> m | UserError m \<Rightarrow> m)"

definition binary_server :: "bytes thrift_server" where
  "binary_server =
     \<lparr>sl_application_error = write_application_error,
      sl_describe = describe_error,
      sl_process_result = (\<lambda>(name, _, sn) r ob.
        case r of
          Inr _ \<Rightarrow> (Inr (), ob)
        | Inl e \<Rightarrow> emit append_encoded (OMessageBegin name MException sn #
            write_application_error (describe_error e) @ [OMessageEnd, OFlush]) ob)\<rparr>"

interpretation buffered: thrift_link binary_protocol encoded append_encoded binary_server "\<lambda>ob. ob" "[]"
  by unfold_locales
    (auto simp: binary_server_def emit_append_encoded encoded_def [of _ "concat _"] application_error_encoded
      split: prod.split)

section \<open>The calls of the session\<close>

text \<open>A server that numbers statements and refuses everything else, for the witness.\<close>

abbreviation refuse :: "'q \<Rightarrow> 's \<Rightarrow> (thrift_error + 'a) \<times> 's" where
  "refuse \<equiv> \<lambda>_ s. (Inl (UserError ''refused''), s)"

definition counting_handler :: "nat rpc_handler" where
  "counting_handler =
     \<lparr>handle_execute_query_statement_v2 = refuse,
      handle_execute_update_statement_v2 = refuse,
      handle_execute_statement_v2 = refuse,
      handle_execute_raw_data_query_v2 = refuse,
      handle_execute_last_data_query_v2 = refuse,
      handle_execute_fast_last_data_query_for_one_prefix_path = refuse,
      handle_execute_fast_last_data_query_for_one_device_v2 = refuse,
      handle_execute_aggregation_query_v2 = refuse,
      handle_fetch_results_v2 = refuse,
      handle_open_session = refuse,
      handle_close_session = refuse,
      handle_execute_statement = refuse,
      handle_execute_batch_statement = refuse,
      handle_execute_query_statement = refuse,
      handle_execute_update_statement = refuse,
      handle_fetch_results = refuse,
      handle_fetch_metadata = refuse,
      handle_cancel_operation = refuse,
      handle_close_operation = refuse,
      handle_prepare_statement = refuse,
      handle_execute_prepared_statement = refuse,
      handle_deallocate_prepared_statement = refuse,
      handle_get_time_zone = refuse,
      handle_set_time_zone = refuse,
      handle_get_properties = refuse,
      handle_set_storage_group = refuse,
      handle_create_timeseries = refuse,
      handle_create_aligned_timeseries = refuse,
      handle_create_multi_timeseries = refuse,
      handle_delete_timeseries = refuse,
      handle_delete_storage_groups = refuse,
      handle_insert_record = refuse,
      handle_insert_string_record = refuse,
      handle_insert_tablet = refuse,
      handle_insert_tablets = refuse,
      handle_insert_records = refuse,
      handle_insert_records_of_one_device = refuse,
      handle_insert_string_records_of_one_device = refuse,
      handle_insert_string_records = refuse,
      handle_test_insert_tablet = refuse,
      handle_test_insert_tablets = refuse,
      handle_test_insert_record = refuse,
      handle_test_insert_string_record = refuse,
      handle_test_insert_records = refuse,
      handle_test_insert_records_of_one_device = refuse,
      handle_test_insert_string_records = refuse,
      handle_delete_data = refuse,
      handle_execute_raw_data_query = refuse,
      handle_execute_last_data_query = refuse,
      handle_execute_aggregation_query = refuse,
      handle_request_statement_id = (\<lambda>_ s. (Inr 42, s + 1)),
      handle_create_schema_template = refuse,
      handle_append_schema_template = refuse,
      handle_prune_schema_template = refuse,
      handle_query_schema_template = refuse,
      handle_show_configuration_template = refuse,
      handle_show_configuration = refuse,
      handle_set_schema_template = refuse,
      handle_unset_schema_template = refuse,
      handle_drop_schema_template = refuse,
      handle_create_timeseries_using_schema_template = refuse,
      handle_handshake = refuse,
      handle_send_pipe_data = refuse,
      handle_send_file = refuse,
      handle_pipe_transfer = refuse,
      handle_pipe_subscribe = refuse,
      handle_get_backup_configuration = refuse,
      handle_fetch_all_connections_info = refuse,
      handle_test_connection_empty_r_p_c = refuse\<rparr>"

text \<open>
  C7: The twelve calls of the session are transparent: over any protocol and medium with the laws of
  \<open>thrift_link\<close>, and whatever the handler of the server is, the client's call returns what the handler
  returned for exactly the request the client made, or the message of its error; the call is counted, and
  the handler has run once. The turns needed are eighteen, plus one for each level of nesting of the
  status. Requests and answers have to fit on the wire: strings of valid UTF-8, sizes below \<open>2 ^ 31\<close>, maps
  sorted by key.
\<close>

theorem rpc_transparent:
  assumes "thrift_link P holds Q T deliver fresh" "d + 18 \<le> n"
  shows
    "transparent P Q T n H deliver fresh ok_ts_open_session_req (ok_ts_open_session_resp d)
       (rpc_open_session P Q n) (handle_open_session H) \<and>
     transparent P Q T n H deliver fresh ok_ts_close_session_req (ok_ts_status d)
       (rpc_close_session P Q n) (handle_close_session H) \<and>
     transparent P Q T n H deliver fresh (\<lambda>_. True) (\<lambda>_. True)
       (rpc_request_statement_id P Q n) (handle_request_statement_id H) \<and>
     transparent P Q T n H deliver fresh ok_ts_execute_statement_req (ok_ts_execute_statement_resp d)
       (rpc_execute_query_statement_v2 P Q n) (handle_execute_query_statement_v2 H) \<and>
     transparent P Q T n H deliver fresh ok_ts_execute_statement_req (ok_ts_execute_statement_resp d)
       (rpc_execute_update_statement_v2 P Q n) (handle_execute_update_statement_v2 H) \<and>
     transparent P Q T n H deliver fresh ok_ts_fetch_results_req (ok_ts_fetch_results_resp d)
       (rpc_fetch_results_v2 P Q n) (handle_fetch_results_v2 H) \<and>
     transparent P Q T n H deliver fresh ok_ts_close_operation_req (ok_ts_status d)
       (rpc_close_operation P Q n) (handle_close_operation H) \<and>
     transparent P Q T n H deliver fresh ok_ts_insert_record_req (ok_ts_status d)
       (rpc_insert_record P Q n) (handle_insert_record H) \<and>
     transparent P Q T n H deliver fresh ok_ts_insert_tablet_req (ok_ts_status d)
       (rpc_insert_tablet P Q n) (handle_insert_tablet H) \<and>
     transparent P Q T n H deliver fresh ok_ts_insert_tablets_req (ok_ts_status d)
       (rpc_insert_tablets P Q n) (handle_insert_tablets H) \<and>
     transparent P Q T n H deliver fresh ok_ts_insert_records_req (ok_ts_status d)
       (rpc_insert_records P Q n) (handle_insert_records H) \<and>
     transparent P Q T n H deliver fresh ok_ts_insert_records_of_one_device_req (ok_ts_status d)
       (rpc_insert_records_of_one_device P Q n) (handle_insert_records_of_one_device H)"
  by (rule thrift_link.session_calls_transparent [OF assms])

theorem rpc_transparent_witness:
  "thrift_link binary_protocol encoded append_encoded binary_server (\<lambda>ob. ob) [] \<and> 1 + 18 \<le> (19::nat) \<and>
   exchange binary_protocol append_encoded binary_server 19 counting_handler (\<lambda>ob. ob) []
     (rpc_request_statement_id binary_protocol append_encoded 19 7) 5 0 = (Done 42, 6, 1)"
proof -
  have "transparent binary_protocol append_encoded binary_server 19 counting_handler (\<lambda>ob. ob) []
      (\<lambda>_. True) (\<lambda>_. True) (rpc_request_statement_id binary_protocol append_encoded 19)
      (handle_request_statement_id counting_handler)"
    using rpc_transparent [OF buffered.thrift_link_axioms, of 1 19 counting_handler] by simp
  then show ?thesis
    using buffered.thrift_link_axioms
    by (simp add: transparent_def counting_handler_def answer_ok_def answer_of_def)
qed

text \<open>
  C8: The other fifty-seven calls of the service are transparent in the same way: schema, templates,
  string records, batches, raw and last queries, prepared statements, time zone, pipes, and the test
  calls. The exception is \<^verbatim>\<open>getProperties\<close>: its client gets the properties the handler returned, but where
  \<^verbatim>\<open>maxConcurrentClientNum\<close> is absent it gets \<^verbatim>\<open>Some(0)\<close> instead (\<open>received_server_properties\<close>), so that this call
  is transparent only for properties that have it.
\<close>

theorem other_calls_transparent:
  assumes "thrift_link P holds Q T deliver fresh" "d + 18 \<le> n"
  shows
    "(transparent P Q T n H deliver fresh ok_ts_execute_statement_req (ok_ts_execute_statement_resp d)
       (rpc_execute_statement_v2 P Q n) (handle_execute_statement_v2 H) \<and>
     transparent P Q T n H deliver fresh ok_ts_raw_data_query_req (ok_ts_execute_statement_resp d)
       (rpc_execute_raw_data_query_v2 P Q n) (handle_execute_raw_data_query_v2 H) \<and>
     transparent P Q T n H deliver fresh ok_ts_last_data_query_req (ok_ts_execute_statement_resp d)
       (rpc_execute_last_data_query_v2 P Q n) (handle_execute_last_data_query_v2 H) \<and>
     transparent P Q T n H deliver fresh ok_ts_fast_last_data_query_for_one_prefix_path_req
           (ok_ts_execute_statement_resp d)
       (rpc_execute_fast_last_data_query_for_one_prefix_path P Q n)
             (handle_execute_fast_last_data_query_for_one_prefix_path H) \<and>
     transparent P Q T n H deliver fresh ok_ts_fast_last_data_query_for_one_device_req
           (ok_ts_execute_statement_resp d)
       (rpc_execute_fast_last_data_query_for_one_device_v2 P Q n)
             (handle_execute_fast_last_data_query_for_one_device_v2 H) \<and>
     transparent P Q T n H deliver fresh ok_ts_aggregation_query_req (ok_ts_execute_statement_resp d)
       (rpc_execute_aggregation_query_v2 P Q n) (handle_execute_aggregation_query_v2 H) \<and>
     transparent P Q T n H deliver fresh ok_ts_execute_statement_req (ok_ts_execute_statement_resp d)
       (rpc_execute_statement P Q n) (handle_execute_statement H) \<and>
     transparent P Q T n H deliver fresh ok_ts_execute_batch_statement_req (ok_ts_status d)
       (rpc_execute_batch_statement P Q n) (handle_execute_batch_statement H) \<and>
     transparent P Q T n H deliver fresh ok_ts_execute_statement_req (ok_ts_execute_statement_resp d)
       (rpc_execute_query_statement P Q n) (handle_execute_query_statement H) \<and>
     transparent P Q T n H deliver fresh ok_ts_execute_statement_req (ok_ts_execute_statement_resp d)
       (rpc_execute_update_statement P Q n) (handle_execute_update_statement H) \<and>
     transparent P Q T n H deliver fresh ok_ts_fetch_results_req (ok_ts_fetch_results_resp d)
       (rpc_fetch_results P Q n) (handle_fetch_results H) \<and>
     transparent P Q T n H deliver fresh ok_ts_fetch_metadata_req (ok_ts_fetch_metadata_resp d)
       (rpc_fetch_metadata P Q n) (handle_fetch_metadata H) \<and>
     transparent P Q T n H deliver fresh ok_ts_cancel_operation_req (ok_ts_status d)
       (rpc_cancel_operation P Q n) (handle_cancel_operation H) \<and>
     transparent P Q T n H deliver fresh ok_ts_prepare_req (ok_ts_prepare_resp d)
       (rpc_prepare_statement P Q n) (handle_prepare_statement H) \<and>
     transparent P Q T n H deliver fresh ok_ts_execute_prepared_req (ok_ts_execute_statement_resp d)
       (rpc_execute_prepared_statement P Q n) (handle_execute_prepared_statement H) \<and>
     transparent P Q T n H deliver fresh ok_ts_deallocate_prepared_req (ok_ts_status d)
       (rpc_deallocate_prepared_statement P Q n) (handle_deallocate_prepared_statement H) \<and>
     transparent P Q T n H deliver fresh (\<lambda>_. True) (ok_ts_get_time_zone_resp d)
       (rpc_get_time_zone P Q n) (handle_get_time_zone H) \<and>
     transparent P Q T n H deliver fresh ok_ts_set_time_zone_req (ok_ts_status d)
       (rpc_set_time_zone P Q n) (handle_set_time_zone H) \<and>
     transparent P Q T n H deliver fresh (\<lambda>_. True) ok_server_properties
       (rpc_get_properties P Q n) (\<lambda>u s. apfst (map_sum id received_server_properties) (handle_get_properties H u s)) \<and>
     transparent P Q T n H deliver fresh (\<lambda>(_, storage_group). str_ok storage_group) (ok_ts_status d)
       (rpc_set_storage_group P Q n) (handle_set_storage_group H)) \<and>
     (transparent P Q T n H deliver fresh ok_ts_create_timeseries_req (ok_ts_status d)
       (rpc_create_timeseries P Q n) (handle_create_timeseries H) \<and>
     transparent P Q T n H deliver fresh ok_ts_create_aligned_timeseries_req (ok_ts_status d)
       (rpc_create_aligned_timeseries P Q n) (handle_create_aligned_timeseries H) \<and>
     transparent P Q T n H deliver fresh ok_ts_create_multi_timeseries_req (ok_ts_status d)
       (rpc_create_multi_timeseries P Q n) (handle_create_multi_timeseries H) \<and>
     transparent P Q T n H deliver fresh (\<lambda>(_, path). list_ok str_ok path) (ok_ts_status d)
       (rpc_delete_timeseries P Q n) (handle_delete_timeseries H) \<and>
     transparent P Q T n H deliver fresh (\<lambda>(_, storage_group). list_ok str_ok storage_group) (ok_ts_status d)
       (rpc_delete_storage_groups P Q n) (handle_delete_storage_groups H) \<and>
     transparent P Q T n H deliver fresh ok_ts_insert_string_record_req (ok_ts_status d)
       (rpc_insert_string_record P Q n) (handle_insert_string_record H) \<and>
     transparent P Q T n H deliver fresh ok_ts_insert_string_records_of_one_device_req (ok_ts_status d)
       (rpc_insert_string_records_of_one_device P Q n) (handle_insert_string_records_of_one_device H) \<and>
     transparent P Q T n H deliver fresh ok_ts_insert_string_records_req (ok_ts_status d)
       (rpc_insert_string_records P Q n) (handle_insert_string_records H) \<and>
     transparent P Q T n H deliver fresh ok_ts_insert_tablet_req (ok_ts_status d)
       (rpc_test_insert_tablet P Q n) (handle_test_insert_tablet H) \<and>
     transparent P Q T n H deliver fresh ok_ts_insert_tablets_req (ok_ts_status d)
       (rpc_test_insert_tablets P Q n) (handle_test_insert_tablets H) \<and>
     transparent P Q T n H deliver fresh ok_ts_insert_record_req (ok_ts_status d)
       (rpc_test_insert_record P Q n) (handle_test_insert_record H) \<and>
     transparent P Q T n H deliver fresh ok_ts_insert_string_record_req (ok_ts_status d)
       (rpc_test_insert_string_record P Q n) (handle_test_insert_string_record H) \<and>
     transparent P Q T n H deliver fresh ok_ts_insert_records_req (ok_ts_status d)
       (rpc_test_insert_records P Q n) (handle_test_insert_records H) \<and>
     transparent P Q T n H deliver fresh ok_ts_insert_records_of_one_device_req (ok_ts_status d)
       (rpc_test_insert_records_of_one_device P Q n) (handle_test_insert_records_of_one_device H) \<and>
     transparent P Q T n H deliver fresh ok_ts_insert_string_records_req (ok_ts_status d)
       (rpc_test_insert_string_records P Q n) (handle_test_insert_string_records H) \<and>
     transparent P Q T n H deliver fresh ok_ts_delete_data_req (ok_ts_status d)
       (rpc_delete_data P Q n) (handle_delete_data H) \<and>
     transparent P Q T n H deliver fresh ok_ts_raw_data_query_req (ok_ts_execute_statement_resp d)
       (rpc_execute_raw_data_query P Q n) (handle_execute_raw_data_query H) \<and>
     transparent P Q T n H deliver fresh ok_ts_last_data_query_req (ok_ts_execute_statement_resp d)
       (rpc_execute_last_data_query P Q n) (handle_execute_last_data_query H) \<and>
     transparent P Q T n H deliver fresh ok_ts_aggregation_query_req (ok_ts_execute_statement_resp d)
       (rpc_execute_aggregation_query P Q n) (handle_execute_aggregation_query H) \<and>
     transparent P Q T n H deliver fresh ok_ts_create_schema_template_req (ok_ts_status d)
       (rpc_create_schema_template P Q n) (handle_create_schema_template H)) \<and>
     (transparent P Q T n H deliver fresh ok_ts_append_schema_template_req (ok_ts_status d)
       (rpc_append_schema_template P Q n) (handle_append_schema_template H) \<and>
     transparent P Q T n H deliver fresh ok_ts_prune_schema_template_req (ok_ts_status d)
       (rpc_prune_schema_template P Q n) (handle_prune_schema_template H) \<and>
     transparent P Q T n H deliver fresh ok_ts_query_template_req (ok_ts_query_template_resp d)
       (rpc_query_schema_template P Q n) (handle_query_schema_template H) \<and>
     transparent P Q T n H deliver fresh (\<lambda>_. True) (ok_t_show_configuration_template_resp d)
       (rpc_show_configuration_template P Q n) (handle_show_configuration_template H) \<and>
     transparent P Q T n H deliver fresh (\<lambda>_. True) (ok_t_show_configuration_resp d)
       (rpc_show_configuration P Q n) (handle_show_configuration H) \<and>
     transparent P Q T n H deliver fresh ok_ts_set_schema_template_req (ok_ts_status d)
       (rpc_set_schema_template P Q n) (handle_set_schema_template H) \<and>
     transparent P Q T n H deliver fresh ok_ts_unset_schema_template_req (ok_ts_status d)
       (rpc_unset_schema_template P Q n) (handle_unset_schema_template H) \<and>
     transparent P Q T n H deliver fresh ok_ts_drop_schema_template_req (ok_ts_status d)
       (rpc_drop_schema_template P Q n) (handle_drop_schema_template H) \<and>
     transparent P Q T n H deliver fresh ok_t_create_timeseries_using_schema_template_req (ok_ts_status d)
       (rpc_create_timeseries_using_schema_template P Q n) (handle_create_timeseries_using_schema_template H) \<and>
     transparent P Q T n H deliver fresh ok_t_sync_identity_info (ok_ts_status d)
       (rpc_handshake P Q n) (handle_handshake H) \<and>
     transparent P Q T n H deliver fresh short (ok_ts_status d)
       (rpc_send_pipe_data P Q n) (handle_send_pipe_data H) \<and>
     transparent P Q T n H deliver fresh (\<lambda>(meta_info, buff). ok_t_sync_transport_meta_info meta_info \<and> short
           buff) (ok_ts_status d)
       (rpc_send_file P Q n) (handle_send_file H) \<and>
     transparent P Q T n H deliver fresh ok_t_pipe_transfer_req (ok_t_pipe_transfer_resp d)
       (rpc_pipe_transfer P Q n) (handle_pipe_transfer H) \<and>
     transparent P Q T n H deliver fresh ok_t_pipe_subscribe_req (ok_t_pipe_subscribe_resp d)
       (rpc_pipe_subscribe P Q n) (handle_pipe_subscribe H) \<and>
     transparent P Q T n H deliver fresh (\<lambda>_. True) (ok_ts_backup_configuration_resp d)
       (rpc_get_backup_configuration P Q n) (handle_get_backup_configuration H) \<and>
     transparent P Q T n H deliver fresh (\<lambda>_. True) ok_ts_connection_info_resp
       (rpc_fetch_all_connections_info P Q n) (handle_fetch_all_connections_info H) \<and>
     transparent P Q T n H deliver fresh (\<lambda>_. True) (ok_ts_status d)
       (rpc_test_connection_empty_r_p_c P Q n) (handle_test_connection_empty_r_p_c H))"
  by (intro conjI [OF thrift_link.other_calls_transparent_1 [OF assms]
        conjI [OF thrift_link.other_calls_transparent_2 [OF assms] thrift_link.other_calls_transparent_3 [OF assms]]])

theorem other_calls_transparent_witness:
  "thrift_link binary_protocol encoded append_encoded binary_server (\<lambda>ob. ob) [] \<and> 1 + 18 \<le> (19::nat) \<and>
   exchange binary_protocol append_encoded binary_server 19 counting_handler (\<lambda>ob. ob) []
     (rpc_test_connection_empty_r_p_c binary_protocol append_encoded 19 ()) 5 0 =
       (Fail (ApplicationError ''refused''), 6, 0)"
proof -
  have "transparent binary_protocol append_encoded binary_server 19 counting_handler (\<lambda>ob. ob) []
      (\<lambda>_. True) (ok_ts_status 1) (rpc_test_connection_empty_r_p_c binary_protocol append_encoded 19)
      (handle_test_connection_empty_r_p_c counting_handler)"
    using other_calls_transparent [OF buffered.thrift_link_axioms, of 1 19 counting_handler] by simp
  moreover have "str_ok ''refused''" by (simp add: str_ok_def short_def) code_simp
  ultimately show ?thesis
    using buffered.thrift_link_axioms
    by (simp add: transparent_def counting_handler_def answer_ok_def answer_of_def app_message_def
        binary_server_def describe_error_def)
qed

end
