(* ===== verification/WireFits.thy ===== *)
theory WireFits
  imports InsertProps ThriftRequests
begin

text \<open>
  What of the arguments of a session's operations fits into one message, and that the requests built from
  fitting arguments do: strings of valid UTF-8, lists, strings and buffers below \<open>2 ^ 31\<close>.
\<close>

section \<open>Opening a session\<close>

text \<open>The strings a handshake sends.\<close>

definition session_fits :: "session \<Rightarrow> bool" where
  "session_fits s \<longleftrightarrow>
     str_ok (sc_zone_id (ss_config s)) \<and> str_ok (sc_username (ss_config s)) \<and> str_ok (sc_password (ss_config s)) \<and>
     str_ok (sc_sql_dialect (ss_config s)) \<and> opt_ok str_ok (ss_database s)"

lemma configuration_keys: "str_ok ''db''" "str_ok ''sql_dialect''"
  by (simp_all add: str_ok_def short_def, code_simp+)

lemma open_session_req_ok: "session_fits s \<Longrightarrow> ok_ts_open_session_req (open_session_req s)"
  by (auto simp: session_fits_def ok_ts_open_session_req_def open_session_req_def opt_ok_def map_ok_def
      configuration_keys short_def Let_def wf_btree_def split: option.splits)

lemma statement_reqs_ok:
  "str_ok sql \<Longrightarrow> ok_ts_execute_statement_req (statement_req s sql)"
  "ok_ts_close_session_req q"
  by (simp_all add: ok_ts_execute_statement_req_def statement_req_def ok_ts_close_session_req_def)

section \<open>Tablets\<close>

text \<open>What of a tablet fits into one message: sizes and buffers below \<open>2 ^ 31\<close> bytes.\<close>

definition tablet_fits :: "tablet \<Rightarrow> bool" where
  "tablet_fits t \<longleftrightarrow>
     wf_tablet t \<and> writable t \<and> str_ok (tb_target t) \<and> list_ok str_ok (tb_measurements t) \<and>
     8 * row_count t < 2 ^ 31 \<and> short (the (fst (serialize_values t)))"

lemma length_serialize_timestamps: "length (fst (serialize_timestamps t)) = 8 * row_count t"
proof -
  have "length (concat (map (to_be 8) xs)) = 8 * length xs" for xs :: "i64 list" by (induction xs) simp_all
  moreover have "length (tb_timestamps (sort_by_timestamp t)) = row_count t"
    using sort_fields(6) [of t] by (simp only: row_count_def)
  ultimately show ?thesis by (simp add: serialize_timestamps_def Let_def)
qed

lemma tablet_request_ok:
  assumes "tablet_fits t" "fst (serialize_values t) = Some vals"
  shows "ok_ts_insert_tablet_req ((tablet_request sid t vals)\<lparr>itq_session_id := sid'\<rparr>)"
proof -
  have "length (tb_types t) < 2 ^ 31" "cats_ok (tb_categories t) (length (tb_types t)) (tb_aligned t)"
    using assms(1) by (auto simp: tablet_fits_def wf_tablet_def list_ok_def short_def)
  then have "opt_ok (list_ok (\<lambda>_. True)) (map_option (map category_code) (tb_categories t))"
    "list_ok (\<lambda>_. True) (map type_code_of (tb_types t))"
    by (auto simp: opt_ok_def list_ok_def short_def list_all_iff split: option.split)
  then show ?thesis
    using assms length_serialize_timestamps [of t]
    by (simp add: ok_ts_insert_tablet_req_def tablet_request_def tablet_fits_def opt_ok_def short_def)
qed


lemma tablet_fits_serializes:
  assumes "tablet_fits t"
  obtains vals where "serialize_values t = (Some vals, sort_by_timestamp t)" "short vals"
  using assms serialize_values_decode [of t] by (auto simp: tablet_fits_def)

lemma list_ok_map: "list_ok ok (map f xs) \<longleftrightarrow> short xs \<and> list_all (\<lambda>x. ok (f x)) xs"
  by (simp add: list_ok_def short_def list.pred_map comp_def)

text \<open>A batch: either one tablet is refused, or every entry fits.\<close>

definition entry_fits :: "tablet_entry \<Rightarrow> bool" where
  "entry_fits e \<longleftrightarrow>
     str_ok (en_prefix_path e) \<and> list_ok str_ok (en_measurements e) \<and> short (en_values e) \<and>
     short (en_timestamps e) \<and> list_ok (\<lambda>_. True) (en_types e)"

lemma tablet_entries_fit:
  assumes "list_all tablet_fits ts"
  shows "\<exists>r. tablet_entries ts = Some r \<and>
    (case r of Inl e \<Rightarrow> True | Inr es \<Rightarrow> length es = length ts \<and> list_all entry_fits es)"
  using assms
proof (induction ts)
  case (Cons t ts)
  then obtain r where r: "tablet_entries ts = Some r"
    "case r of Inl e \<Rightarrow> True | Inr es \<Rightarrow> length es = length ts \<and> list_all entry_fits es" by auto
  have t: "tablet_fits t" using Cons.prems by simp
  obtain vals where vals: "serialize_values t = (Some vals, sort_by_timestamp t)" "short vals"
    using tablet_fits_serializes [OF t] .
  have times: "serialize_timestamps (sort_by_timestamp t) = (fst (serialize_timestamps t), sort_by_timestamp t)"
    by (simp add: serialize_timestamps_def Let_def sort_by_timestamp_idem)
  have "short (fst (serialize_timestamps t))" "short (tb_types t)"
    using t length_serialize_timestamps [of t] by (auto simp: tablet_fits_def short_def wf_tablet_def list_ok_def)
  with r vals times t show ?case
    by (cases r) (auto simp: entry_fits_def tablet_fits_def list_ok_map list_all_iff)
qed simp

lemma insert_tablets_req_ok:
  assumes "list_all tablet_fits ts" "short ts"
  shows "\<exists>r. build_insert_tablets_req sid ts al = Some r \<and>
    (case r of Inl e \<Rightarrow> True | Inr req \<Rightarrow> ok_ts_insert_tablets_req (req\<lparr>isq_session_id := sid'\<rparr>))"
proof -
  obtain r where r: "tablet_entries ts = Some r"
    "case r of Inl e \<Rightarrow> True | Inr es \<Rightarrow> length es = length ts \<and> list_all entry_fits es"
    using tablet_entries_fit [OF assms(1)] by blast
  then show ?thesis
    using assms(2)
    by (cases r) (auto simp: build_insert_tablets_req_def ok_ts_insert_tablets_req_def list_ok_map entry_fits_def
        list_all_iff short_def)
qed

section \<open>Records\<close>

definition row_fits :: "string list \<Rightarrow> ts_value list \<Rightarrow> bool" where
  "row_fits ms vs \<longleftrightarrow> list_ok str_ok ms \<and> short (serialize_record_values vs)"

lemma short_le: "length xs \<le> length ys \<Longrightarrow> short ys \<Longrightarrow> short xs"
  by (simp add: short_def)

lemma serialize_filter_shorter:
  "length (serialize_record_values (filter P vs)) \<le> length (serialize_record_values vs)"
  by (induction vs) (auto simp: serialize_record_values_def)

text \<open>Dropping null cells leaves less to send.\<close>

lemma cells_fit:
  assumes "row_fits ms vs" "length ms = length vs"
  shows "row_fits (map fst (cells ms vs)) (map snd (cells ms vs))"
proof -
  have "length (cells ms vs) \<le> length ms" unfolding cells_def by (rule le_trans [OF length_filter_le]) simp
  moreover have "set (map fst (cells ms vs)) \<subseteq> set ms" by (auto simp: cells_def dest: set_zip_leftD)
  moreover have "short (serialize_record_values (map snd (cells ms vs)))"
    using assms serialize_filter_shorter short_le unfolding snd_cells [OF assms(2)] row_fits_def by blast
  ultimately show ?thesis using assms(1) by (auto simp: row_fits_def list_ok_def list_all_iff short_def)
qed

lemma rows_fit:
  assumes "list_all okk ks" "list_all2 row_fits mss vss"
  shows "list_all (\<lambda>(k, ms, vs). okk k \<and> row_fits ms vs) (zip ks (zip mss vss))"
  using assms by (fastforce simp: list_all_iff list_all2_iff dest: set_zip_leftD set_zip_rightD)

lemma keep_rows_arity: "keep_rows rows = Inr kept \<Longrightarrow> list_all arity_ok rows"
  by (induction rows arbitrary: kept rule: keep_rows.induct)
    (auto simp: arity_ok_def check_record_arity_def bindr_eq_Inr split: if_splits prod.splits)

lemma keep_rows_fit:
  assumes "keep_rows rows = Inr kept" "list_all (\<lambda>(k, ms, vs). okk k \<and> row_fits ms vs) rows"
  shows "list_all (\<lambda>(k, ms, vs). okk k \<and> row_fits ms vs) kept \<and> length kept \<le> length rows"
proof -
  have ar: "list_all arity_ok rows" by (rule keep_rows_arity [OF assms(1)])
  then have "kept = sent_rows rows" using keep_rows_Inr assms(1) by fastforce
  moreover have "list_all (\<lambda>(k, ms, vs). okk k \<and> row_fits ms vs) (sent_rows rows)"
    using assms(2) ar cells_fit by (fastforce simp: sent_rows_def sent_row_def list_all_iff arity_ok_def)
  moreover have "length (sent_rows rows) \<le> length rows"
    unfolding sent_rows_def by (rule le_trans [OF length_filter_le]) simp
  ultimately show ?thesis by simp
qed

end
