(* ===== verification/SameService.thy ===== *)
theory SameService
  imports WireFits DataSet
begin

text \<open>
  Two environments that cannot be told apart by a session whose arguments fit on the wire: they share
  network and clock and agree on every request that fits. The locale \<open>same_service\<close> states that, and inside
  it every operation of a session, and every sequence of them, is shown to do the same in both.
\<close>

section \<open>Sequences of operations\<close>

datatype session_call =
    COpen "64 word"
  | CNonQuery string
  | CQuery string
  | CFetch i64 string
  | CCloseQuery i64
  | CTablet tablet
  | CTabletRaw string "string list" "i32 list" bytes bytes i32 bool "bool option" "i8 list option"
  | CTablets "tablet list" bool
  | CRecord string i64 "string list" "ts_value list" bool
  | CRecords "string list" "i64 list" "string list list" "ts_value list list" bool
  | COneDevice string "i64 list" "string list list" "ts_value list list" bool
  | CHint string
  | CClear
  | CClose

datatype session_reply =
    ROpened "64 word" "unit result"
  | RDone "unit result"
  | RHandle "query_handle result"
  | RPage "(bytes list \<times> bool) result"
  | RHint "endpoint option"
  | RNothing

text \<open>One operation with what it returns; \<open>None\<close> is a panic.\<close>

fun run_call :: "'w env \<Rightarrow> session_call \<Rightarrow> session \<Rightarrow> 'w \<Rightarrow> (session_reply \<times> session \<times> 'w) option" where
  "run_call env (COpen index) s w = (let (r, index, s, w) = session_open env index s w in Some (ROpened index r, s, w))"
| "run_call env (CNonQuery sql) s w = Some (apfst RDone (execute_non_query env sql s w))"
| "run_call env (CQuery sql) s w = Some (apfst RHandle (execute_query_raw env sql s w))"
| "run_call env (CFetch qid sql) s w = Some (apfst RPage (fetch_results env qid sql s w))"
| "run_call env (CCloseQuery qid) s w = Some (RNothing, close_query env qid s w)"
| "run_call env (CTablet t) s w = map_option (apfst RDone) (insert_tablet env t s w)"
| "run_call env (CTabletRaw p ms tys vals tss n al wt cats) s w =
     Some (apfst RDone (insert_tablet_raw env p ms tys vals tss n al wt cats s w))"
| "run_call env (CTablets ts al) s w = map_option (apfst RDone) (insert_tablets env ts al s w)"
| "run_call env (CRecord d tm ms vs al) s w = Some (apfst RDone (insert_record env d tm ms vs al s w))"
| "run_call env (CRecords ds tms mss vss al) s w = Some (apfst RDone (insert_records env ds tms mss vss al s w))"
| "run_call env (COneDevice d tms mss vss al) s w =
     Some (apfst RDone (insert_records_of_one_device env d tms mss vss al s w))"
| "run_call env (CHint d) s w = Some (apfst RHint (redirect_hint env d s w))"
| "run_call env CClear s w = Some (RNothing, clear_redirect_cache s, w)"
| "run_call env CClose s w = Some (RNothing, session_close env s w)"

text \<open>A program that uses a session: its replies, up to the first panic.\<close>

fun run_calls :: "'w env \<Rightarrow> session_call list \<Rightarrow> session \<Rightarrow> 'w \<Rightarrow> session_reply option list \<times> session \<times> 'w" where
  "run_calls env [] s w = ([], s, w)"
| "run_calls env (call # calls) s w =
     (case run_call env call s w of
        None \<Rightarrow> ([None], s, w)
      | Some (r, s, w) \<Rightarrow> apfst (Cons (Some r)) (run_calls env calls s w))"

fun call_fits :: "session_call \<Rightarrow> bool" where
  "call_fits (CNonQuery sql) \<longleftrightarrow> str_ok sql"
| "call_fits (CQuery sql) \<longleftrightarrow> str_ok sql"
| "call_fits (CFetch qid sql) \<longleftrightarrow> str_ok sql"
| "call_fits (CTablet t) \<longleftrightarrow> tablet_fits t"
| "call_fits (CTabletRaw p ms tys vals tss n al wt cats) \<longleftrightarrow>
     str_ok p \<and> list_ok str_ok ms \<and> list_ok (\<lambda>_. True) tys \<and> short vals \<and> short tss \<and> opt_ok (list_ok (\<lambda>_. True)) cats"
| "call_fits (CTablets ts al) \<longleftrightarrow> list_all tablet_fits ts \<and> short ts"
| "call_fits (CRecord d tm ms vs al) \<longleftrightarrow> str_ok d \<and> row_fits ms vs"
| "call_fits (CRecords ds tms mss vss al) \<longleftrightarrow> list_ok str_ok ds \<and> list_all2 row_fits mss vss"
| "call_fits (COneDevice d tms mss vss al) \<longleftrightarrow> str_ok d \<and> short tms \<and> list_all2 row_fits mss vss"
| "call_fits _ \<longleftrightarrow> True"

section \<open>Sessions that still fit\<close>

lemma session_fits_cong:
  "ss_config s' = ss_config s \<Longrightarrow> ss_database s' = ss_database s \<Longrightarrow> session_fits s' = session_fits s"
  by (simp add: session_fits_def)

lemma reconnect_keeps:
  "reconnect env s w = (r, s', w') \<Longrightarrow> ss_config s' = ss_config s \<and> ss_database s' = ss_database s"
  by (auto simp: reconnect_def drop_connection_def install_def Let_def split: if_splits prod.splits sum.splits)

lemma rpc_keeps: "rpc f s w = (r, s', w') \<Longrightarrow> s' = s"
  by (auto simp: rpc_def split: option.splits prod.splits)

lemma with_retry_keeps:
  assumes "with_retry env (\<lambda>s. rpc (f s) s) s w = (r, s', w')"
  shows "ss_config s' = ss_config s \<and> ss_database s' = ss_database s"
  using assms
  by (auto simp: with_retry_def dest!: rpc_keeps reconnect_keeps split: prod.splits sum.splits if_splits)

lemma insert_keeps:
  assumes "bindo (with_retry env (\<lambda>s. rpc (f s) s)) (check_insert_status env' devices) s w = (r, s', w')"
  shows "ss_config s' = ss_config s \<and> ss_database s' = ss_database s"
  using assms
  by (auto simp: bindo_def check_insert_status_def Let_def dest!: with_retry_keeps
      split: prod.splits sum.splits if_splits)

text \<open>\<open>keeps s s'\<close>: the parts of a session that a handshake sends are the same.\<close>

definition keeps :: "session \<Rightarrow> session \<Rightarrow> bool" where
  "keeps s s' \<longleftrightarrow> ss_config s' = ss_config s \<and> ss_database s' = ss_database s"

lemma keeps_fits: "keeps s s' \<Longrightarrow> session_fits s \<Longrightarrow> session_fits s'"
  using session_fits_cong [of s' s] by (simp add: keeps_def)

lemma keeps_refl [simp]: "keeps s s"
  by (simp add: keeps_def)

lemma keeps_updates:
  "keeps s (s\<lparr>ss_redirect_cache := c\<rparr>)"
  "keeps s (s\<lparr>ss_connection := None, ss_session_id := x, ss_statement_id := y\<rparr>)"
  by (simp_all add: keeps_def)

lemma session_open_keeps: "session_open env index s w = (r, index', s', w') \<Longrightarrow> keeps s s'"
  by (auto simp: session_open_def install_def keeps_def Let_def split: if_splits prod.splits sum.splits)

lemma execute_query_raw_keeps: "execute_query_raw env sql s w = (r, s', w') \<Longrightarrow> keeps s s'"
  by (auto simp: execute_query_raw_def bindo_def pureo_def keeps_def dest!: with_retry_keeps
      split: prod.splits sum.splits)

lemma fetch_results_keeps: "fetch_results env qid sql s w = (r, s', w') \<Longrightarrow> keeps s s'"
  by (auto simp: fetch_results_def bindo_def pureo_def Let_def dest!: rpc_keeps split: prod.splits sum.splits)

lemma insert_tablet_raw_keeps: "insert_tablet_raw env p ms tys vals tss n al wt cats s w = (r, s', w') \<Longrightarrow> keeps s s'"
  by (auto simp: insert_tablet_raw_def keeps_def Let_def dest!: insert_keeps)

lemma insert_tablet_keeps: "insert_tablet env t s w = Some (r, s', w') \<Longrightarrow> keeps s s'"
  by (auto simp: insert_tablet_def insert_tablet_raw_def keeps_def Let_def dest!: insert_keeps
      split: prod.splits option.splits)

lemma insert_tablets_keeps: "insert_tablets env ts al s w = Some (r, s', w') \<Longrightarrow> keeps s s'"
  by (cases "build_insert_tablets_req (ss_session_id s) ts al")
    (auto simp: insert_tablets_def keeps_def dest!: insert_keeps split: sum.splits)

lemma insert_record_keeps: "insert_record env d tm ms vs al s w = (r, s', w') \<Longrightarrow> keeps s s'"
  by (auto simp: insert_record_def bindo_def [of "pureo _"] pureo_def keeps_def Let_def dest!: insert_keeps
      split: prod.splits sum.splits if_splits)

lemma insert_records_keeps: "insert_records env ds tms mss vss al s w = (r, s', w') \<Longrightarrow> keeps s s'"
  by (auto simp: insert_records_def bindo_def [of "pureo _"] pureo_def keeps_def Let_def dest!: insert_keeps
      split: prod.splits sum.splits if_splits)

lemma insert_one_device_keeps: "insert_records_of_one_device env d tms mss vss al s w = (r, s', w') \<Longrightarrow> keeps s s'"
  by (auto simp: insert_records_of_one_device_def bindo_def [of "pureo _"] pureo_def keeps_def Let_def
      dest!: insert_keeps split: prod.splits sum.splits if_splits)

lemma apfst_eq_iff: "apfst f x = (a, b) \<longleftrightarrow> (\<exists>y. x = (y, b) \<and> a = f y)"
  by (cases x) auto

lemmas call_keeps = session_open_keeps execute_query_raw_keeps fetch_results_keeps insert_tablet_raw_keeps insert_tablet_keeps
  insert_tablets_keeps insert_record_keeps insert_records_keeps insert_one_device_keeps

lemma run_call_keeps:
  assumes "run_call env call s w = Some (r, s', w')" "\<And>sql. call \<noteq> CNonQuery sql"
  shows "keeps s s'"
proof (cases call)
  case (CCloseQuery qid)
  with assms show ?thesis by (auto simp: close_query_def split: option.splits)
qed (use assms in \<open>auto simp: redirect_hint_def clear_redirect_cache_def session_close_def keeps_updates
    apfst_eq_iff split: prod.splits dest!: call_keeps\<close>)

text \<open>A retried call that succeeds returns what one of its attempts returned.\<close>

lemma rpc_result: "rpc f s w = (Inr x, s', w') \<Longrightarrow> \<exists>c. fst (f c w) = Inr x"
  by (auto simp: rpc_def lift_thrift_def map_sum_def split: option.splits prod.splits sum.splits) (metis fst_conv)

lemma with_retry_result:
  "with_retry env (\<lambda>s. rpc (f s) s) s w = (Inr x, s', w') \<Longrightarrow> \<exists>s c w. fst (f s c w) = Inr x"
  by (auto simp: with_retry_def dest!: rpc_result split: prod.splits sum.splits if_splits)

text \<open>A loop whose turns are the same returns the same.\<close>

lemma next_row_loop_simulates:
  assumes "next_row_loop env d w = Some y" "P d"
    and same: "\<And>d w. P d \<Longrightarrow> next_row_turn env' d w = next_row_turn env d w"
    and kept: "\<And>d w r d' w'. next_row_turn env d w = (r, d', w') \<Longrightarrow> P d \<Longrightarrow> P d'"
  shows "next_row_loop env' d w = Some y"
proof (rule next_row_loop.raw_induct [where P = "\<lambda>e d w y. e = env \<longrightarrow> P d \<longrightarrow> next_row_loop env' d w = Some y",
      OF _ assms(1), THEN mp, OF _ refl, THEN mp, OF _ assms(2)], intro impI)
  fix loop e d w y
  assume IH: "\<And>e d w y. loop e d w = Some y \<Longrightarrow> e = env \<longrightarrow> P d \<longrightarrow> next_row_loop env' d w = Some y"
    and turn: "(case next_row_turn e d w of (None, d, w) \<Rightarrow> loop e d w | (Some r, d, w) \<Rightarrow> Some (r, d, w)) = Some y"
    and e: "e = env" and p: "P d"
  obtain r d1 w1 where t: "next_row_turn env d w = (r, d1, w1)" by (rule prod_cases3)
  then have t': "next_row_turn env' d w = (r, d1, w1)" by (simp add: same [OF p])
  show "next_row_loop env' d w = Some y"
  proof (cases r)
    case None
    with turn t e IH kept [OF t p] have "next_row_loop env' d1 w1 = Some y" by simp
    with t' None show ?thesis by (subst next_row_loop.simps) simp
  next
    case (Some x)
    with turn t t' e show ?thesis by (subst next_row_loop.simps) simp
  qed
qed

section \<open>Two environments\<close>

locale same_service =
  fixes E :: "'w env" and E' :: "'w env"
  assumes net: "e_net E = e_net E'"
    and clock: "e_now E = e_now E'" "e_sleep E = e_sleep E'" "e_drop E = e_drop E'"
    and open_session: "ok_ts_open_session_req q1 \<Longrightarrow> e_open_session E c q1 = e_open_session E' c q1"
    and statement_id: "e_request_statement_id E c q2 = e_request_statement_id E' c q2"
    and execute_update: "ok_ts_execute_statement_req q3 \<Longrightarrow> e_execute_update E c q3 = e_execute_update E' c q3"
    and execute_query: "ok_ts_execute_statement_req q4 \<Longrightarrow> e_execute_query E c q4 = e_execute_query E' c q4"
    and fetch: "ok_ts_fetch_results_req q5 \<Longrightarrow> e_fetch_results E c q5 = e_fetch_results E' c q5"
    and close_operation: "ok_ts_close_operation_req q6 \<Longrightarrow> e_close_operation E c q6 = e_close_operation E' c q6"
    and close_session: "ok_ts_close_session_req q7 \<Longrightarrow> e_close_session E c q7 = e_close_session E' c q7"
    and tablet: "ok_ts_insert_tablet_req q8 \<Longrightarrow> e_insert_tablet E c q8 = e_insert_tablet E' c q8"
    and tablets: "ok_ts_insert_tablets_req q9 \<Longrightarrow> e_insert_tablets E c q9 = e_insert_tablets E' c q9"
    and one_record: "ok_ts_insert_record_req q10 \<Longrightarrow> e_insert_record E c q10 = e_insert_record E' c q10"
    and records: "ok_ts_insert_records_req q11 \<Longrightarrow> e_insert_records E c q11 = e_insert_records E' c q11"
    and one_device: "ok_ts_insert_records_of_one_device_req q12 \<Longrightarrow>
      e_insert_records_of_one_device E c q12 = e_insert_records_of_one_device E' c q12"
    and database: "fst (e_execute_update E' c q w) = Inr resp \<Longrightarrow> opt_ok str_ok (esr_database resp)"
begin

subsection \<open>Opening and reconnecting\<close>

lemma authenticate_same: "session_fits s \<Longrightarrow> authenticate E s c = authenticate E' s c"
  unfolding authenticate_def by (simp add: open_session [OF open_session_req_ok] statement_id)

lemma open_loop_same: "open_loop E opts eps last_err w = open_loop E' opts eps last_err w"
  by (induction eps arbitrary: last_err w) (simp_all add: net split: prod.split sum.split)

lemma session_open_same: "session_fits s \<Longrightarrow> session_open E index s w = session_open E' index s w"
  by (simp add: session_open_def authenticate_same open_loop_same clock Let_def split: prod.split sum.split)

lemma open_and_authenticate_same:
  "session_fits s \<Longrightarrow> open_and_authenticate E s opts ep w = open_and_authenticate E' s opts ep w"
  by (simp add: open_and_authenticate_def authenticate_same net clock split: prod.split sum.split)

lemma reconnect_pass_same:
  "session_fits s \<Longrightarrow> reconnect_pass E s opts eps last_err w = reconnect_pass E' s opts eps last_err w"
  by (induction eps arbitrary: last_err w)
    (simp_all add: open_and_authenticate_same split: prod.split sum.split)

lemma reconnect_loop_same:
  "session_fits s \<Longrightarrow> reconnect_loop E s opts eps attempt left last_err w =
     reconnect_loop E' s opts eps attempt left last_err w"
  by (induction left arbitrary: attempt last_err w)
    (simp_all add: reconnect_pass_same clock Let_def split: prod.split sum.split)

lemma reconnect_same: "session_fits s \<Longrightarrow> reconnect E s w = reconnect E' s w"
  by (simp add: reconnect_def drop_connection_def clock reconnect_loop_same session_fits_cong [of "s\<lparr>ss_connection := None\<rparr>" s]
      Let_def split: option.split)

lemma with_retry_same:
  assumes "session_fits s" "\<And>s c. f s c = f' s c"
  shows "with_retry E (\<lambda>s. rpc (f s) s) s w = with_retry E' (\<lambda>s. rpc (f' s) s) s w"
proof -
  have "f = f'" using assms(2) by (simp add: fun_eq_iff)
  then show ?thesis
    using assms(1) by (auto simp: with_retry_def reconnect_same dest!: rpc_keeps split: prod.split sum.split)
qed

subsection \<open>Statements and queries\<close>

lemma execute_non_query_same:
  assumes "session_fits s" "str_ok sql"
  shows "execute_non_query E sql s w = execute_non_query E' sql s w"
  unfolding execute_non_query_def bindo_def
  by (simp add: with_retry_same [OF assms(1), OF execute_update [OF statement_reqs_ok(1) [OF assms(2)]]])

lemma execute_query_raw_same:
  assumes "session_fits s" "str_ok sql"
  shows "execute_query_raw E sql s w = execute_query_raw E' sql s w"
  unfolding execute_query_raw_def bindo_def
  by (simp add: with_retry_same [OF assms(1), OF execute_query [OF statement_reqs_ok(1) [OF assms(2)]]])

lemma fetch_results_same: "str_ok sql \<Longrightarrow> fetch_results E qid sql s w = fetch_results E' qid sql s w"
  by (simp add: fetch_results_def fetch ok_ts_fetch_results_req_def)

lemma close_query_same: "close_query E qid s w = close_query E' qid s w"
  by (simp add: close_query_def close_operation ok_ts_close_operation_req_def opt_ok_def split: option.split)

lemma session_close_same: "session_close E s w = session_close E' s w"
  by (simp add: session_close_def close_session statement_reqs_ok clock split: option.split)

subsection \<open>Inserts\<close>

lemma check_insert_status_same: "check_insert_status E = check_insert_status E'"
  by (simp add: check_insert_status_def fun_eq_iff clock)

lemma insert_same:
  assumes "session_fits s" "\<And>s c. f s c = f' s c"
  shows "bindo (with_retry E (\<lambda>s. rpc (f s) s)) (check_insert_status E devices) s w =
    bindo (with_retry E' (\<lambda>s. rpc (f' s) s)) (check_insert_status E' devices) s w"
  by (simp add: bindo_def check_insert_status_same with_retry_same [OF assms])

lemma insert_tablet_same:
  assumes "session_fits s" "tablet_fits t"
  shows "insert_tablet E t s w = insert_tablet E' t s w"
proof -
  obtain vals where "serialize_values t = (Some vals, sort_by_timestamp t)"
    using tablet_fits_serializes [OF assms(2)] by metis
  then have vals: "fst (serialize_values t) = Some vals" by simp
  show ?thesis
    unfolding insert_tablet_request [OF vals]
    by (simp add: insert_same [OF assms(1), OF tablet [OF tablet_request_ok [OF assms(2) vals]]])
qed

lemma insert_tablet_raw_same:
  assumes "session_fits s" "call_fits (CTabletRaw p ms tys vals tss n al wt cats)"
  shows "insert_tablet_raw E p ms tys vals tss n al wt cats s w = insert_tablet_raw E' p ms tys vals tss n al wt cats s w"
proof -
  have "ok_ts_insert_tablet_req
      \<lparr>itq_session_id = sid, itq_prefix_path = p, itq_measurements = ms, itq_values = vals, itq_timestamps = tss,
       itq_types = tys, itq_size = n, itq_is_aligned = Some al, itq_write_to_table = wt, itq_column_categories = cats,
       itq_is_compressed = None, itq_encoding_types = None, itq_compress_type = None\<rparr>" for sid
    using assms(2) by (simp add: ok_ts_insert_tablet_req_def opt_ok_def)
  from insert_same [OF assms(1), OF tablet [OF this]] show ?thesis by (simp add: insert_tablet_raw_def Let_def)
qed

lemma insert_tablets_same:
  assumes "session_fits s" "list_all tablet_fits ts" "short ts"
  shows "insert_tablets E ts al s w = insert_tablets E' ts al s w"
proof -
  obtain r where r: "build_insert_tablets_req (ss_session_id s) ts al = Some r"
    using insert_tablets_req_ok [OF assms(2,3)] by metis
  show ?thesis
  proof (cases r)
    case (Inr req)
    then have "ok_ts_insert_tablets_req (req\<lparr>isq_session_id := sid\<rparr>)" for sid
      using insert_tablets_req_ok [OF assms(2,3), of "ss_session_id s" al sid] r by simp
    from insert_same [OF assms(1), OF tablets [OF this]] Inr r show ?thesis by (simp add: insert_tablets_def)
  qed (simp add: insert_tablets_def r)
qed

lemma insert_record_same:
  assumes "session_fits s" "str_ok d" "row_fits ms vs"
  shows "insert_record E d tm ms vs al s w = insert_record E' d tm ms vs al s w"
proof (cases "length ms = length vs")
  case True
  obtain ms' vs' where cells: "filter_null_cells ms vs = (ms', vs')" "row_fits ms' vs'"
    using cells_fit [OF assms(3) True] by (simp add: filter_null_cells_eq [OF True])
  then have "ok_ts_insert_record_req
      \<lparr>irq_session_id = sid, irq_prefix_path = d, irq_measurements = ms', irq_values = serialize_record_values vs',
       irq_timestamp = tm, irq_is_aligned = Some al, irq_is_write_to_table = None, irq_column_categoryies = None\<rparr>" for sid
    using assms(2) by (simp add: ok_ts_insert_record_req_def row_fits_def opt_ok_def)
  from insert_same [OF assms(1), OF one_record [OF this]] True cells(1) show ?thesis
    by (simp add: insert_record_def bindo_def [of "pureo _"] pureo_def check_record_arity_def)
qed (simp add: insert_record_def bindo_def pureo_def check_record_arity_def)

lemma insert_records_same:
  assumes "session_fits s" "list_ok str_ok ds" "list_all2 row_fits mss vss"
  shows "insert_records E ds tms mss vss al s w = insert_records E' ds tms mss vss al s w"
proof (cases "length tms = length ds \<and> length mss = length ds \<and> length vss = length ds")
  case True
  let ?rows = "zip (zip ds tms) (zip mss vss)"
  have rows: "list_all (\<lambda>(k, ms, vs). str_ok (fst k) \<and> row_fits ms vs) ?rows"
    by (rule rows_fit [OF _ assms(3)]) (use assms(2) in \<open>auto simp: list_all_iff list_ok_def dest: set_zip_leftD\<close>)
  show ?thesis
  proof (cases "keep_rows ?rows")
    case (Inr kept)
    note kept = keep_rows_fit [OF Inr rows]
    have "short kept" using kept assms(2) True by (simp add: list_ok_def short_def)
    with kept have "ok_ts_insert_records_req
        \<lparr>rsq_session_id = sid, rsq_prefix_paths = map (fst \<circ> fst) kept, rsq_measurements_list = map (fst \<circ> snd) kept,
         rsq_values_list = map (serialize_record_values \<circ> snd \<circ> snd) kept,
         rsq_timestamps = map (snd \<circ> fst) kept, rsq_is_aligned = Some al\<rparr>" for sid
      by (auto simp: ok_ts_insert_records_req_def list_ok_map row_fits_def list_all_iff)
    from insert_same [OF assms(1), OF records [OF this]] True Inr show ?thesis
      by (simp add: insert_records_def bindo_def [of "pureo _"] pureo_def Let_def)
  qed (use True in \<open>simp add: insert_records_def bindo_def pureo_def\<close>)
qed (auto simp: insert_records_def bindo_def pureo_def Let_def)

lemma insert_one_device_same:
  assumes "session_fits s" "str_ok d" "short tms" "list_all2 row_fits mss vss"
  shows "insert_records_of_one_device E d tms mss vss al s w = insert_records_of_one_device E' d tms mss vss al s w"
proof (cases "length mss = length tms \<and> length vss = length tms")
  case True
  let ?rows = "zip tms (zip mss vss)"
  have rows: "list_all (\<lambda>(k, ms, vs). True \<and> row_fits ms vs) ?rows"
    by (rule rows_fit [OF _ assms(4)]) (simp add: list_all_iff)
  show ?thesis
  proof (cases "keep_rows ?rows")
    case (Inr kept)
    note kept = keep_rows_fit [OF Inr rows]
    define sorted where "sorted = sort_key (\<lambda>r. sint (fst r)) kept"
    have "short sorted" using kept assms(3) True by (simp add: sorted_def short_def)
    with kept assms(2) have "ok_ts_insert_records_of_one_device_req
        \<lparr>odq_session_id = sid, odq_prefix_path = d, odq_measurements_list = map (fst \<circ> snd) sorted,
         odq_values_list = map (serialize_record_values \<circ> snd \<circ> snd) sorted, odq_timestamps = map fst sorted,
         odq_is_aligned = Some al\<rparr>" for sid
      by (auto simp: ok_ts_insert_records_of_one_device_req_def list_ok_map row_fits_def list_all_iff sorted_def)
    from insert_same [OF assms(1), OF one_device [OF this]] True Inr show ?thesis
      by (simp add: insert_records_of_one_device_def bindo_def [of "pureo _"] pureo_def sort_one_device_rows_eq Let_def
          sorted_def)
  qed (use True in \<open>simp add: insert_records_of_one_device_def bindo_def pureo_def\<close>)
qed (auto simp: insert_records_of_one_device_def bindo_def pureo_def Let_def)

subsection \<open>Sequences\<close>

lemma run_call_same:
  assumes "session_fits s" "call_fits call"
  shows "run_call E call s w = run_call E' call s w"
  using assms
  by (cases call)
    (simp_all add: session_open_same execute_non_query_same execute_query_raw_same fetch_results_same
      close_query_same session_close_same insert_tablet_raw_same insert_tablet_same insert_tablets_same insert_record_same
      insert_records_same insert_one_device_same redirect_hint_def clock)

lemma execute_non_query_fits:
  assumes "execute_non_query E' sql s w = (r, s', w')" "session_fits s"
  shows "session_fits s'"
proof -
  let ?op = "\<lambda>s. rpc (\<lambda>c. e_execute_update E' c (statement_req s sql)) s"
  obtain r0 s0 w0 where 0: "with_retry E' ?op s w = (r0, s0, w0)" by (rule prod_cases3)
  from with_retry_keeps [OF this] assms(2) have s0: "session_fits s0" using session_fits_cong [of s0 s] by blast
  have "opt_ok str_ok (esr_database resp)" if "r0 = Inr resp" for resp
    using with_retry_result [OF 0 [unfolded that]] database by blast
  with s0 assms(1) 0 show ?thesis
    by (auto simp: execute_non_query_def bindo_def pureo_def session_fits_def opt_ok_def
        split: sum.splits option.splits)
qed

lemma run_call_fits:
  assumes "run_call E' call s w = Some (r, s', w')" "session_fits s"
  shows "session_fits s'"
proof (cases "\<exists>sql. call = CNonQuery sql")
  case True
  with assms execute_non_query_fits show ?thesis by (auto simp: apfst_eq_iff)
next
  case False
  then show ?thesis using run_call_keeps [OF assms(1)] keeps_fits assms(2) by blast
qed

lemma run_calls_same:
  "session_fits s \<Longrightarrow> list_all call_fits calls \<Longrightarrow> run_calls E calls s w = run_calls E' calls s w"
proof (induction calls arbitrary: s w)
  case (Cons call calls)
  have "run_calls E calls s' w' = run_calls E' calls s' w'" if "run_call E' call s w = Some (r, s', w')" for r s' w'
    using that Cons run_call_fits by simp
  then show ?case using Cons.prems by (auto simp: run_call_same split: option.split)
qed simp

subsection \<open>Result sets\<close>

lemma ds_close_same: "ds_close E d w = ds_close E' d w"
  by (simp add: ds_close_def close_query_same)

lemma next_row_turn_same: "str_ok (ds_statement d) \<Longrightarrow> next_row_turn E d w = next_row_turn E' d w"
  by (simp add: next_row_turn_def fetch_results_same ds_close_same Let_def split: option.split list.split
      outcome.split prod.split sum.split)

lemma next_row_turn_statement: "next_row_turn env d w = (r, d', w') \<Longrightarrow> ds_statement d' = ds_statement d"
  by (auto simp: next_row_turn_def ds_close_def Let_def split: if_splits list.splits outcome.splits prod.splits
      sum.splits)

lemma next_row_same:
  assumes "str_ok (ds_statement d)"
  shows "next_row E d w = next_row E' d w"
proof -
  have "next_row_loop E d w = Some y \<longleftrightarrow> next_row_loop E' d w = Some y" for y
    using next_row_loop_simulates [where P = "\<lambda>d. str_ok (ds_statement d)" and d = d and w = w and y = y]
      next_row_turn_same next_row_turn_statement assms by (metis (no_types, lifting))
  then have "next_row_loop E d w = next_row_loop E' d w" by (metis not_None_eq)
  then show ?thesis by (simp add: next_row_def)
qed

end

end
