(* ===== verification/SessionWire.thy ===== *)
theory SessionWire
  imports RpcLink SameService
begin

text \<open>
  The session put together with the RPC layer. \<open>wire_env\<close> is the environment in which every call of a
  session is a message: written by the generated client, read and dispatched by the generated processor,
  answered by the handler, and read back. \<open>server_env\<close> is the one in which the session calls the handler
  itself. A program that uses a session cannot tell the two apart.
\<close>

section \<open>The two environments\<close>

text \<open>
  The world of a session: the state of the server, and the sequence number of the client of each
  connection. A reader that crashes or starves, which does not happen below, counts as an error.
\<close>

type_synonym 's linked = "'s \<times> (connection \<Rightarrow> i32)"

definition wire_result :: "'a read_result \<Rightarrow> thrift_error + 'a" where
  "wire_result r =
     (case r of Done v \<Rightarrow> Inr v | Fail e \<Rightarrow> Inl e
      | Crash \<Rightarrow> Inl (UserError ''crash'') | Starved \<Rightarrow> Inl (UserError ''starved''))"

definition over_wire ::
    "'i in_protocol \<Rightarrow> 'o out_protocol \<Rightarrow> 'o thrift_server \<Rightarrow> nat \<Rightarrow> 's rpc_handler \<Rightarrow> ('o \<Rightarrow> 'i) \<Rightarrow> 'o \<Rightarrow>
     ('q \<Rightarrow> ('i, 'o) rpc_client \<Rightarrow> 'a read_result \<times> ('i, 'o) rpc_client) \<Rightarrow>
     connection \<Rightarrow> 'q \<Rightarrow> 's linked \<Rightarrow> (thrift_error + 'a) \<times> 's linked" where
  "over_wire P Q T n H deliver fresh call c q = (\<lambda>(s, numbers).
     let (r, sn, s) = exchange P Q T n H deliver fresh (call q) (numbers c) s
     in (wire_result r, s, numbers(c := sn)))"

definition at_server ::
    "'o thrift_server \<Rightarrow> ('q \<Rightarrow> 's \<Rightarrow> (thrift_error + 'a) \<times> 's) \<Rightarrow>
     connection \<Rightarrow> 'q \<Rightarrow> 's linked \<Rightarrow> (thrift_error + 'a) \<times> 's linked" where
  "at_server T handle c q = (\<lambda>(s, numbers).
     let (a, s) = handle q s
     in (map_sum (\<lambda>e. ApplicationError (app_message T e)) id a, s, numbers(c := numbers c + 1)))"

definition wire_env ::
    "'i in_protocol \<Rightarrow> 'o out_protocol \<Rightarrow> 'o thrift_server \<Rightarrow> nat \<Rightarrow> 's rpc_handler \<Rightarrow> ('o \<Rightarrow> 'i) \<Rightarrow> 'o \<Rightarrow>
     's linked env \<Rightarrow> 's linked env" where
  "wire_env P Q T n H deliver fresh E =
     E\<lparr>e_open_session := over_wire P Q T n H deliver fresh (rpc_open_session P Q n),
        e_request_statement_id := over_wire P Q T n H deliver fresh (rpc_request_statement_id P Q n),
        e_execute_update := over_wire P Q T n H deliver fresh (rpc_execute_update_statement_v2 P Q n),
        e_execute_query := over_wire P Q T n H deliver fresh (rpc_execute_query_statement_v2 P Q n),
        e_fetch_results := over_wire P Q T n H deliver fresh (rpc_fetch_results_v2 P Q n),
        e_close_operation := over_wire P Q T n H deliver fresh (rpc_close_operation P Q n),
        e_close_session := over_wire P Q T n H deliver fresh (rpc_close_session P Q n),
        e_insert_tablet := over_wire P Q T n H deliver fresh (rpc_insert_tablet P Q n),
        e_insert_tablets := over_wire P Q T n H deliver fresh (rpc_insert_tablets P Q n),
        e_insert_record := over_wire P Q T n H deliver fresh (rpc_insert_record P Q n),
        e_insert_records := over_wire P Q T n H deliver fresh (rpc_insert_records P Q n),
        e_insert_records_of_one_device := over_wire P Q T n H deliver fresh (rpc_insert_records_of_one_device P Q n)\<rparr>"

definition server_env :: "'o thrift_server \<Rightarrow> 's rpc_handler \<Rightarrow> 's linked env \<Rightarrow> 's linked env" where
  "server_env T H E =
     E\<lparr>e_open_session := at_server T (handle_open_session H),
        e_request_statement_id := at_server T (handle_request_statement_id H),
        e_execute_update := at_server T (handle_execute_update_statement_v2 H),
        e_execute_query := at_server T (handle_execute_query_statement_v2 H),
        e_fetch_results := at_server T (handle_fetch_results_v2 H),
        e_close_operation := at_server T (handle_close_operation H),
        e_close_session := at_server T (handle_close_session H),
        e_insert_tablet := at_server T (handle_insert_tablet H),
        e_insert_tablets := at_server T (handle_insert_tablets H),
        e_insert_record := at_server T (handle_insert_record H),
        e_insert_records := at_server T (handle_insert_records H),
        e_insert_records_of_one_device := at_server T (handle_insert_records_of_one_device H)\<rparr>"

text \<open>A handler all of whose answers fit on the wire, with statuses nested \<open>d\<close> deep at most.\<close>

definition handler_fits :: "'o thrift_server \<Rightarrow> nat \<Rightarrow> 's rpc_handler \<Rightarrow> bool" where
  "handler_fits T d H \<longleftrightarrow>
     (\<forall>q s. answer_ok T (ok_ts_open_session_resp d) (fst (handle_open_session H q s))) \<and>
     (\<forall>q s. answer_ok T (\<lambda>_. True) (fst (handle_request_statement_id H q s))) \<and>
     (\<forall>q s. answer_ok T (ok_ts_execute_statement_resp d) (fst (handle_execute_update_statement_v2 H q s))) \<and>
     (\<forall>q s. answer_ok T (ok_ts_execute_statement_resp d) (fst (handle_execute_query_statement_v2 H q s))) \<and>
     (\<forall>q s. answer_ok T (ok_ts_fetch_results_resp d) (fst (handle_fetch_results_v2 H q s))) \<and>
     (\<forall>q s. answer_ok T (ok_ts_status d) (fst (handle_close_operation H q s))) \<and>
     (\<forall>q s. answer_ok T (ok_ts_status d) (fst (handle_close_session H q s))) \<and>
     (\<forall>q s. answer_ok T (ok_ts_status d) (fst (handle_insert_tablet H q s))) \<and>
     (\<forall>q s. answer_ok T (ok_ts_status d) (fst (handle_insert_tablets H q s))) \<and>
     (\<forall>q s. answer_ok T (ok_ts_status d) (fst (handle_insert_record H q s))) \<and>
     (\<forall>q s. answer_ok T (ok_ts_status d) (fst (handle_insert_records H q s))) \<and>
     (\<forall>q s. answer_ok T (ok_ts_status d) (fst (handle_insert_records_of_one_device H q s)))"

lemma over_wire_at_server:
  assumes "transparent P Q T n H deliver fresh okq okr call handle" "okq q" "\<forall>q s. answer_ok T okr (fst (handle q s))"
  shows "over_wire P Q T n H deliver fresh call c q = at_server T handle c q"
proof -
  have "exchange P Q T n H deliver fresh (call q) sn s =
      (answer_of T (fst (handle q s)), sn + 1, snd (handle q s))" for sn s
    using assms unfolding transparent_def by blast
  then show ?thesis
    by (auto simp: over_wire_def at_server_def fun_eq_iff answer_of_def wire_result_def split: prod.split sum.split)
qed

lemma at_server_fits:
  assumes "fst (at_server T handle c q w) = Inr v" "\<forall>q s. answer_ok T okr (fst (handle q s))"
  shows "okr v"
proof (cases "handle q (fst w)")
  case (Pair a s)
  then have "a = Inr v"
    using assms(1) by (cases a) (auto simp: at_server_def split_beta)
  moreover have "answer_ok T okr a" using assms(2) Pair by (metis fst_conv)
  ultimately show ?thesis by (simp add: answer_ok_def)
qed

lemma handler_database:
  assumes "handler_fits T d H" "fst (at_server T (handle_execute_update_statement_v2 H) c q w) = Inr resp"
  shows "opt_ok str_ok (esr_database resp)"
proof -
  have "ok_ts_execute_statement_resp d resp"
    by (rule at_server_fits [OF assms(2)]) (use assms(1) in \<open>simp add: handler_fits_def\<close>)
  then show ?thesis by (simp add: ok_ts_execute_statement_resp_def)
qed

section \<open>They are the same service\<close>

locale served_link = thrift_link P holds Q T deliver fresh
  for P :: "'i in_protocol" and holds and Q :: "'o out_protocol" and T and deliver and fresh +
  fixes H :: "'s rpc_handler" and d n :: nat and E :: "'s linked env"
  assumes turns: "d + 18 \<le> n" and answers_fit: "handler_fits T d H"

sublocale served_link \<subseteq> served: same_service "wire_env P Q T n H deliver fresh E" "server_env T H E"
proof
  show "opt_ok str_ok (esr_database resp)" if "fst (e_execute_update (server_env T H E) c q w) = Inr resp" for c q w resp
    using that by (intro handler_database [OF answers_fit]) (simp add: server_env_def)
qed (insert session_calls_transparent [OF turns, of H] answers_fit,
  auto simp: wire_env_def server_env_def handler_fits_def intro: over_wire_at_server)

context served_link
begin

lemma calls_over_link:
  assumes "session_fits s" "list_all call_fits calls"
  shows "run_calls (wire_env P Q T n H deliver fresh E) calls s w = run_calls (server_env T H E) calls s w"
  by (rule served.run_calls_same [OF assms])

lemma rows_over_link:
  assumes "str_ok (ds_statement ds)"
  shows "next_row (wire_env P Q T n H deliver fresh E) ds w = next_row (server_env T H E) ds w"
  by (rule served.next_row_same [OF assms])

end

section \<open>Properties\<close>

text \<open>A server on which every call of a session succeeds, and which counts the calls, for the witness.\<close>

abbreviation answer :: "'a \<Rightarrow> 'q \<Rightarrow> nat \<Rightarrow> (thrift_error + 'a) \<times> nat" where
  "answer v \<equiv> \<lambda>_ s. (Inr v, s + 1)"

definition quiet_handler :: "nat rpc_handler" where
  "quiet_handler =
     \<lparr>handle_execute_query_statement_v2 = answer empty_exec_resp,
      handle_execute_update_statement_v2 = answer empty_exec_resp,
      handle_execute_statement_v2 = refuse,
      handle_execute_raw_data_query_v2 = refuse,
      handle_execute_last_data_query_v2 = refuse,
      handle_execute_fast_last_data_query_for_one_prefix_path = refuse,
      handle_execute_fast_last_data_query_for_one_device_v2 = refuse,
      handle_execute_aggregation_query_v2 = refuse,
      handle_fetch_results_v2 = refuse,
      handle_open_session = answer \<lparr>osr_status = ok_status, osr_server_protocol_version = IotdbServiceProtocolV3,
        osr_session_id = Some 11, osr_configuration = None\<rparr>,
      handle_close_session = answer ok_status,
      handle_execute_statement = refuse,
      handle_execute_batch_statement = refuse,
      handle_execute_query_statement = refuse,
      handle_execute_update_statement = refuse,
      handle_fetch_results = refuse,
      handle_fetch_metadata = refuse,
      handle_cancel_operation = refuse,
      handle_close_operation = answer ok_status,
      handle_prepare_statement = refuse,
      handle_execute_prepared_statement = refuse,
      handle_deallocate_prepared_statement = refuse,
      handle_get_time_zone = refuse,
      handle_set_time_zone = refuse,
      handle_get_properties = refuse,
      handle_set_storage_group = refuse,
      handle_create_timeseries = refuse,
      handle_create_aligned_timeseries = refuse,
      handle_create_multi_timeseries = refuse,
      handle_delete_timeseries = refuse,
      handle_delete_storage_groups = refuse,
      handle_insert_record = answer ok_status,
      handle_insert_string_record = refuse,
      handle_insert_tablet = answer ok_status,
      handle_insert_tablets = answer ok_status,
      handle_insert_records = answer ok_status,
      handle_insert_records_of_one_device = answer ok_status,
      handle_insert_string_records_of_one_device = refuse,
      handle_insert_string_records = refuse,
      handle_test_insert_tablet = refuse,
      handle_test_insert_tablets = refuse,
      handle_test_insert_record = refuse,
      handle_test_insert_string_record = refuse,
      handle_test_insert_records = refuse,
      handle_test_insert_records_of_one_device = refuse,
      handle_test_insert_string_records = refuse,
      handle_delete_data = refuse,
      handle_execute_raw_data_query = refuse,
      handle_execute_last_data_query = refuse,
      handle_execute_aggregation_query = refuse,
      handle_request_statement_id = answer 12,
      handle_create_schema_template = refuse,
      handle_append_schema_template = refuse,
      handle_prune_schema_template = refuse,
      handle_query_schema_template = refuse,
      handle_show_configuration_template = refuse,
      handle_show_configuration = refuse,
      handle_set_schema_template = refuse,
      handle_unset_schema_template = refuse,
      handle_drop_schema_template = refuse,
      handle_create_timeseries_using_schema_template = refuse,
      handle_handshake = refuse,
      handle_send_pipe_data = refuse,
      handle_send_file = refuse,
      handle_pipe_transfer = refuse,
      handle_pipe_subscribe = refuse,
      handle_get_backup_configuration = refuse,
      handle_fetch_all_connections_info = refuse,
      handle_test_connection_empty_r_p_c = refuse\<rparr>"

lemma quiet_handler_fits: "handler_fits binary_server 1 quiet_handler"
proof -
  have "str_ok ''refused''" by (simp add: str_ok_def short_def) code_simp
  then show ?thesis
    by (simp add: handler_fits_def quiet_handler_def answer_ok_def app_message_def binary_server_def describe_error_def
        ok_status_def empty_exec_resp_def ok_ts_open_session_resp_def ok_ts_execute_statement_resp_def opt_ok_def)
qed

interpretation quiet: served_link binary_protocol encoded append_encoded binary_server "\<lambda>ob. ob" "[]"
    quiet_handler 1 19 quiet_env
  by unfold_locales (simp, rule quiet_handler_fits)

text \<open>
  C4: A program that uses a session gets over the wire what it would get by calling the handlers of the
  server itself. For every sequence of public operations whose arguments fit into messages, every
  protocol and medium with the laws of \<open>thrift_link\<close>, every handler whose answers fit, and every network and
  clock: the replies, the session and the state of the server are the same when each call is written,
  dispatched by the generated processor, answered and read back, as when it goes to the handler
  directly; reconnects and retries included. The same holds of each row of a result set.
\<close>

theorem session_over_wire:
  assumes "thrift_link P holds Q T deliver fresh" "d + 18 \<le> n" "handler_fits T d H"
    and "session_fits s" "list_all call_fits calls" "str_ok (ds_statement ds)"
  shows "run_calls (wire_env P Q T n H deliver fresh E) calls s w = run_calls (server_env T H E) calls s w \<and>
    next_row (wire_env P Q T n H deliver fresh E) ds w = next_row (server_env T H E) ds w"
proof -
  have "served_link P holds Q T deliver fresh H d n"
    using assms(1-3) by (simp add: served_link_def served_link_axioms_def)
  from served_link.calls_over_link [OF this assms(4,5)] served_link.rows_over_link [OF this assms(6)]
  show ?thesis by blast
qed


theorem session_over_wire_witness:
  "let run = run_calls (wire_env binary_protocol append_encoded binary_server 19 quiet_handler (\<lambda>ob. ob) [] quiet_env)
       [COpen 0, CNonQuery ''FLUSH''] (session_new session_config_default) (0, \<lambda>_. 0)
   in fst run = [Some (ROpened 1 (Inr ())), Some (RDone (Inr ()))] \<and> fst (snd (snd run)) = 3"
proof -
  let ?s = "session_new session_config_default" and ?calls = "[COpen 0, CNonQuery ''FLUSH'']"
  let ?d = "data_set_new ?s \<lparr>qh_query_id = 1, qh_statement = ''FLUSH'', qh_columns = [], qh_data_type_list = [],
    qh_ignore_time_stamp = False, qh_query_result = [], qh_more_data = False, qh_column_index_map = None\<rparr>"
  have "str_ok ''UTC+8''" "str_ok ''root''" "str_ok ''tree''" "str_ok ''FLUSH''"
    by (simp_all add: str_ok_def short_def, code_simp+)
  then have fits: "session_fits ?s" "list_all call_fits ?calls" "str_ok (ds_statement ?d)"
    by (simp_all add: session_fits_def session_new_def session_config_default_def opt_ok_def data_set_new_def)
  have "run_calls (wire_env binary_protocol append_encoded binary_server 19 quiet_handler (\<lambda>ob. ob) [] quiet_env)
      ?calls ?s (0, \<lambda>_. 0) = run_calls (server_env binary_server quiet_handler quiet_env) ?calls ?s (0, \<lambda>_. 0)"
    using session_over_wire [OF buffered.thrift_link_axioms _ quiet_handler_fits fits, of 19 quiet_env "(0, \<lambda>_. 0)"] by simp
  then show ?thesis
    by (simp add: server_env_def at_server_def session_open_def rotation_def connection_open_def connect_stream_def
        authenticate_def execute_non_query_def bindo_def pureo_def with_retry_def rpc_def lift_thrift_def
        session_connection_options_def eval_sample Let_def quiet_handler_def empty_exec_resp_def)
qed

end
