(* ===== verification/ReaderSafety.thy ===== *)
theory ReaderSafety
  imports RpcCall
begin

text \<open>
  Readers on any input, however malformed. A stream has a size that no call makes larger and that the
  header of every field makes smaller; sizes of lists are not negative; a required field that is missing
  is refused. These are the laws of the locale \<open>finite_stream\<close>. They say nothing of what the stream holds.
  From them, every reader that has at least as many turns as the stream is long settles: it returns a
  value or an error. It does not panic, and its loops come to an end.
\<close>

section \<open>Settling\<close>

definition shrinking :: "('i \<Rightarrow> nat) \<Rightarrow> ('i, 'a) in_call \<Rightarrow> bool" where
  "shrinking sz f \<longleftrightarrow> (\<forall>i. sz (snd (f i)) \<le> sz i)"

definition settled :: "'a read_result \<Rightarrow> bool" where
  "settled r \<longleftrightarrow> (case r of Done _ \<Rightarrow> True | Fail _ \<Rightarrow> True | Crash \<Rightarrow> False | Starved \<Rightarrow> False)"

lemma settled_simps [simp]: "settled (Done x)" "settled (Fail e)" "\<not> settled Crash" "\<not> settled Starved"
  by (simp_all add: settled_def)

text \<open>On every stream shorter than \<open>m\<close> the reader settles, and what it leaves is not longer.\<close>

definition settles :: "('i \<Rightarrow> nat) \<Rightarrow> nat \<Rightarrow> ('i, 'a) rd \<Rightarrow> bool" where
  "settles sz m f \<longleftrightarrow> (\<forall>i. sz i < m \<longrightarrow> settled (fst (f i)) \<and> sz (snd (f i)) \<le> sz i)"

named_theorems settle_intros \<open>how a reader settles, from its parts\<close>

lemma settlesI:
  "(\<And>i. sz i < m \<Longrightarrow> settled (fst (f i)) \<and> sz (snd (f i)) \<le> sz i) \<Longrightarrow> settles sz m f"
  by (simp add: settles_def)

lemma settlesD: "settles sz m f \<Longrightarrow> f i = (r, i') \<Longrightarrow> sz i < m \<Longrightarrow> settled r \<and> sz i' \<le> sz i"
  unfolding settles_def by (metis fst_conv snd_conv)

lemma settles_mono: "settles sz m f \<Longrightarrow> m' \<le> m \<Longrightarrow> settles sz m' f"
  by (simp add: settles_def)

lemma settles_retp [settle_intros]: "settles sz m (retp x)"
  by (simp add: settles_def retp_def)

lemma settles_failp [settle_intros]: "settles sz m (failp e)"
  by (simp add: settles_def failp_def)

lemma settles_checkp [settle_intros]: "settles sz m (checkp r)"
  by (simp add: settles_def checkp_def split: sum.split)

lemma settles_callp [settle_intros]: "shrinking sz f \<Longrightarrow> settles sz m (callp f)"
  by (auto simp: settles_def shrinking_def callp_def split_beta split: sum.split)

lemma settles_bindp [settle_intros]:
  assumes "settles sz m f" "\<And>x. settles sz m (g x)"
  shows "settles sz m (bindp f g)"
proof (rule settlesI)
  fix i assume i: "sz i < m"
  obtain r i' where f: "f i = (r, i')" by fastforce
  from settlesD [OF assms(1) this i] have r: "settled r" "sz i' \<le> sz i" by auto
  then have "settled (fst (g x i')) \<and> sz (snd (g x i')) \<le> sz i" for x
    using settlesD [OF assms(2), of x i'] i by (metis le_less_trans le_trans prod.collapse)
  with r f show "settled (fst (bindp f g i)) \<and> sz (snd (bindp f g i)) \<le> sz i"
    by (cases r) (auto simp: bindp_def)
qed

lemma settles_call_then:
  assumes "shrinking sz c" "\<And>i x i'. c i = (Inr x, i') \<Longrightarrow> settles sz m (g x)"
  shows "settles sz m (bindp (callp c) g)"
proof (rule settlesI)
  fix i assume i: "sz i < m"
  obtain a i' where c: "c i = (a, i')" by fastforce
  have le: "sz i' \<le> sz i" using assms(1) c unfolding shrinking_def by (metis snd_conv)
  show "settled (fst (bindp (callp c) g i)) \<and> sz (snd (bindp (callp c) g i)) \<le> sz i"
  proof (cases a)
    case (Inl e)
    with c le show ?thesis by (simp add: bindp_def callp_def)
  next
    case (Inr x)
    with assms(2) c i le have "settled (fst (g x i')) \<and> sz (snd (g x i')) \<le> sz i'" unfolding settles_def by fastforce
    with Inr c le show ?thesis by (simp add: bindp_def callp_def)
  qed
qed

lemma settles_if [settle_intros]: "settles sz m f \<Longrightarrow> settles sz m g \<Longrightarrow> settles sz m (if b then f else g)"
  by simp

lemma settles_prod [settle_intros]: "(\<And>a b. settles sz m (f a b)) \<Longrightarrow> settles sz m (case p of (a, b) \<Rightarrow> f a b)"
  by (cases p) simp

lemma settles_ok_or [settle_intros]: "settles sz m (ok_or service r)"
  by (cases r) (simp_all add: ok_or_def settle_intros)

lemma settles_times [settle_intros]: "settles sz m f \<Longrightarrow> settles sz m (read_times k f)"
  by (induction k) (auto intro: settle_intros)

lemma settles_pair [settle_intros]: "settles sz m f \<Longrightarrow> settles sz m g \<Longrightarrow> settles sz m (read_pair f g)"
  unfolding read_pair_def by (intro settle_intros)

lemma settles_store [settle_intros]: "settles sz m f \<Longrightarrow> settles sz m (store f put)"
  unfolding store_def by (intro settle_intros)

section \<open>Streams\<close>

locale finite_stream =
  fixes P :: "'i in_protocol" and sz :: "'i \<Rightarrow> nat"
  assumes marks: "shrinking sz (ip_message_begin P)" "shrinking sz (ip_message_end P)"
      "shrinking sz (ip_struct_begin P)" "shrinking sz (ip_struct_end P)"
      "shrinking sz (ip_field_begin P)" "shrinking sz (ip_field_end P)"
      "shrinking sz (ip_list_begin P)" "shrinking sz (ip_list_end P)"
      "shrinking sz (ip_map_begin P)" "shrinking sz (ip_map_end P)"
    and scalars: "shrinking sz (ip_bool P)" "shrinking sz (ip_i8 P)" "shrinking sz (ip_i16 P)"
      "shrinking sz (ip_i32 P)" "shrinking sz (ip_i64 P)" "shrinking sz (ip_double P)"
      "shrinking sz (ip_string P)" "shrinking sz (ip_bytes P)"
    and skips: "shrinking sz (ip_skip P ty)" "shrinking sz (ip_application_error P)"
    and field_header: "ip_field_begin P i = (Inr (ty, k), i') \<Longrightarrow> ty \<noteq> TyStop \<Longrightarrow> sz i' < sz i"
    and list_size: "ip_list_begin P i = (Inr (ty, n), i') \<Longrightarrow> 0 \<le> sint n"
    and missing: "isl (ip_required P field False)"
begin

lemmas shrink = marks scalars skips

declare shrink [settle_intros]

lemma settles_required [settle_intros]: "settles sz m (required P field x)"
  using missing [of field]
  by (cases x) (auto simp: required_def settles_def bindp_def checkp_def retp_def isl_def split: sum.split)

lemma settles_skip [settle_intros]: "settles sz m (skip_field P ty acc)"
  unfolding skip_field_def by (intro settle_intros)

lemma settles_list [settle_intros]:
  assumes "settles sz m elem"
  shows "settles sz m (read_list P elem)"
  unfolding read_list_def
proof (rule settles_call_then [OF marks(7)], clarify)
  fix i ty n i'
  assume "ip_list_begin P i = (Inr (ty, n), i')"
  then have "\<not> sint n < 0" using list_size by (simp add: not_less)
  moreover have "settles sz m (bindp (read_times (nat (sint n)) elem) (\<lambda>xs. bindp (callp (ip_list_end P)) (\<lambda>_. retp xs)))"
    by (intro settle_intros assms)
  ultimately show "settles sz m (if sint n < 0 then crashp
      else bindp (read_times (nat (sint n)) elem) (\<lambda>xs. bindp (callp (ip_list_end P)) (\<lambda>_. retp xs)))" by simp
qed

lemma settles_map [settle_intros]:
  "settles sz m f \<Longrightarrow> settles sz m g \<Longrightarrow> settles sz m (read_map P f g)"
  unfolding read_map_def by (intro settle_intros)

text \<open>Each turn of the loop takes the header of a field off the stream.\<close>

lemma settles_fields:
  assumes "m \<le> n" "\<And>k ty acc. settles sz (m - 1) (h k ty acc)"
  shows "settles sz m (read_fields P n h acc)"
  using assms
proof (induction n arbitrary: m acc)
  case 0
  then show ?case by (simp add: settles_def)
next
  case (Suc n)
  show ?case
  proof (rule settlesI)
    fix i assume i: "sz i < m"
    let ?turn = "\<lambda>ty ident. bindp (checkp (ip_field_id P ident)) (\<lambda>k. bindp (h k ty acc) (\<lambda>acc.
        bindp (callp (ip_field_end P)) (\<lambda>_. read_fields P n h acc)))"
    have "settles sz (m - 1) (read_fields P n h acc)" for acc
      using Suc.prems by (intro Suc.IH) (auto intro: settles_mono [of sz "m - 1"])
    then have turn: "settles sz (m - 1) (?turn ty ident)" for ty ident
      by (intro settle_intros Suc.prems(2))
    obtain a i' where b: "ip_field_begin P i = (a, i')" by fastforce
    have le: "sz i' \<le> sz i" using marks(5) b unfolding shrinking_def by (metis snd_conv)
    show "settled (fst (read_fields P (Suc n) h acc i)) \<and> sz (snd (read_fields P (Suc n) h acc i)) \<le> sz i"
    proof (cases "\<exists>ty ident. a = Inr (ty, ident) \<and> ty \<noteq> TyStop")
      case True
      then obtain ty ident where a: "a = Inr (ty, ident)" "ty \<noteq> TyStop" by auto
      then have lt: "sz i' < sz i" using field_header b by blast
      then have "sz i' < m - 1" using i by simp
      with turn have "settled (fst (?turn ty ident i')) \<and> sz (snd (?turn ty ident i')) \<le> sz i'"
        unfolding settles_def by blast
      with a b lt show ?thesis by (simp add: bindp_def [of "callp (ip_field_begin P)"] callp_def [of "ip_field_begin P"])
    next
      case False
      with b le show ?thesis
        by (cases a) (auto simp: bindp_def [of "callp (ip_field_begin P)"] callp_def [of "ip_field_begin P"] retp_def)
    qed
  qed
qed

lemma settles_struct [settle_intros]:
  assumes "m \<le> n" "\<And>k ty acc. settles sz (m - 1) (h k ty acc)" "\<And>acc. settles sz m (finish acc)"
  shows "settles sz m (read_struct P n h start finish)"
  unfolding read_struct_def by (intro settle_intros settles_fields assms)

text \<open>A reply, and with it a whole call, settles when the reader of its result does.\<close>

lemma settles_reply:
  assumes "settles sz m reader"
  shows "settles sz m (read_reply P name service reader sn)"
  unfolding read_reply_def by (intro settle_intros assms)

lemma settles_call:
  assumes "settles sz m reader" "sz (rc_in c) < m"
  shows "settled (fst (rpc_call P Q name service args reader c))"
proof -
  let ?sn = "rc_sequence_number c + 1"
  obtain x i where "read_reply P name service reader ?sn (rc_in c) = (x, i)" by fastforce
  with settlesD [OF settles_reply [OF assms(1)] this assms(2)] show ?thesis
    by (auto simp: rpc_call_def increment_sequence_number_def Let_def split: prod.split sum.split simp del: emit.simps)
qed

end

end
