(* ===== verification/StructSafety.thy ===== *)
theory StructSafety
  imports ReaderSafety ThriftRequests ThriftStatements ThriftSchemas
begin

text \<open>
  Every structure and enumeration of the service settles on any finite stream.
\<close>

section \<open>Results\<close>

context finite_stream
begin

lemma settles_ts_protocol_version [settle_intros]: "settles sz m (read_ts_protocol_version P)"
  unfolding read_ts_protocol_version_def by (intro settle_intros)

lemma settles_t_end_point [settle_intros]: "m \<le> n \<Longrightarrow> settles sz m (read_t_end_point P n)"
  unfolding read_t_end_point_def by (intro settle_intros; simp)

lemma settles_ts_status [settle_intros]: "m \<le> n \<Longrightarrow> settles sz m (read_ts_status P n)"
proof (induction n arbitrary: m)
  case (Suc n)
  then show ?case
    unfolding read_ts_status.simps by (intro settle_intros; simp)
qed (simp add: settles_def)

lemma settles_ts_query_data_set [settle_intros]: "m \<le> n \<Longrightarrow> settles sz m (read_ts_query_data_set P n)"
  unfolding read_ts_query_data_set_def by (intro settle_intros; simp)

lemma settles_ts_query_non_align_data_set [settle_intros]: "m \<le> n \<Longrightarrow> settles sz m (read_ts_query_non_align_data_set P n)"
  unfolding read_ts_query_non_align_data_set_def by (intro settle_intros; simp)

lemma settles_ts_tracing_info [settle_intros]: "m \<le> n \<Longrightarrow> settles sz m (read_ts_tracing_info P n)"
  unfolding read_ts_tracing_info_def by (intro settle_intros; simp)

lemma settles_ts_execute_statement_resp [settle_intros]: "m \<le> n \<Longrightarrow> settles sz m (read_ts_execute_statement_resp P n)"
  unfolding read_ts_execute_statement_resp_def by (intro settle_intros; simp)

lemma settles_ts_fetch_results_resp [settle_intros]: "m \<le> n \<Longrightarrow> settles sz m (read_ts_fetch_results_resp P n)"
  unfolding read_ts_fetch_results_resp_def by (intro settle_intros; simp)

lemma settles_ts_open_session_resp [settle_intros]: "m \<le> n \<Longrightarrow> settles sz m (read_ts_open_session_resp P n)"
  unfolding read_ts_open_session_resp_def by (intro settle_intros; simp)

end

section \<open>Requests\<close>

context finite_stream
begin

lemma settles_ts_open_session_req [settle_intros]: "m \<le> n \<Longrightarrow> settles sz m (read_ts_open_session_req P n)"
  unfolding read_ts_open_session_req_def by (intro settle_intros; simp)

lemma settles_ts_close_session_req [settle_intros]: "m \<le> n \<Longrightarrow> settles sz m (read_ts_close_session_req P n)"
  unfolding read_ts_close_session_req_def by (intro settle_intros; simp)

lemma settles_ts_execute_statement_req [settle_intros]: "m \<le> n \<Longrightarrow> settles sz m (read_ts_execute_statement_req P n)"
  unfolding read_ts_execute_statement_req_def by (intro settle_intros; simp)

lemma settles_ts_close_operation_req [settle_intros]: "m \<le> n \<Longrightarrow> settles sz m (read_ts_close_operation_req P n)"
  unfolding read_ts_close_operation_req_def by (intro settle_intros; simp)

lemma settles_ts_fetch_results_req [settle_intros]: "m \<le> n \<Longrightarrow> settles sz m (read_ts_fetch_results_req P n)"
  unfolding read_ts_fetch_results_req_def by (intro settle_intros; simp)

lemma settles_ts_insert_record_req [settle_intros]: "m \<le> n \<Longrightarrow> settles sz m (read_ts_insert_record_req P n)"
  unfolding read_ts_insert_record_req_def by (intro settle_intros; simp)

lemma settles_ts_insert_tablet_req [settle_intros]: "m \<le> n \<Longrightarrow> settles sz m (read_ts_insert_tablet_req P n)"
  unfolding read_ts_insert_tablet_req_def by (intro settle_intros; simp)

lemma settles_ts_insert_tablets_req [settle_intros]: "m \<le> n \<Longrightarrow> settles sz m (read_ts_insert_tablets_req P n)"
  unfolding read_ts_insert_tablets_req_def by (intro settle_intros; simp)

lemma settles_ts_insert_records_req [settle_intros]: "m \<le> n \<Longrightarrow> settles sz m (read_ts_insert_records_req P n)"
  unfolding read_ts_insert_records_req_def by (intro settle_intros; simp)

lemma settles_ts_insert_records_of_one_device_req [settle_intros]: "m \<le> n \<Longrightarrow> settles sz m (read_ts_insert_records_of_one_device_req P n)"
  unfolding read_ts_insert_records_of_one_device_req_def by (intro settle_intros; simp)

end

section \<open>Nodes, regions and quotas\<close>

context finite_stream
begin

lemma settles_t_consensus_group_type [settle_intros]: "settles sz m (read_t_consensus_group_type P)"
  unfolding read_t_consensus_group_type_def by (intro settle_intros)

lemma settles_t_region_migrate_failed_type [settle_intros]: "settles sz m (read_t_region_migrate_failed_type P)"
  unfolding read_t_region_migrate_failed_type_def by (intro settle_intros)

lemma settles_t_region_maintain_task_status [settle_intros]: "settles sz m (read_t_region_maintain_task_status P)"
  unfolding read_t_region_maintain_task_status_def by (intro settle_intros)

lemma settles_throttle_type [settle_intros]: "settles sz m (read_throttle_type P)"
  unfolding read_throttle_type_def by (intro settle_intros)

lemma settles_t_service_type [settle_intros]: "settles sz m (read_t_service_type P)"
  unfolding read_t_service_type_def by (intro settle_intros)

lemma settles_t_aggregation_type [settle_intros]: "settles sz m (read_t_aggregation_type P)"
  unfolding read_t_aggregation_type_def by (intro settle_intros)

lemma settles_training_state [settle_intros]: "settles sz m (read_training_state P)"
  unfolding read_training_state_def by (intro settle_intros)

lemma settles_model [settle_intros]: "settles sz m (read_model P)"
  unfolding read_model_def by (intro settle_intros)

lemma settles_function_type [settle_intros]: "settles sz m (read_function_type P)"
  unfolding read_function_type_def by (intro settle_intros)

lemma settles_t_consensus_group_id [settle_intros]: "m \<le> n \<Longrightarrow> settles sz m (read_t_consensus_group_id P n)"
  unfolding read_t_consensus_group_id_def by (intro settle_intros; simp)

lemma settles_t_series_partition_slot [settle_intros]: "m \<le> n \<Longrightarrow> settles sz m (read_t_series_partition_slot P n)"
  unfolding read_t_series_partition_slot_def by (intro settle_intros; simp)

lemma settles_t_time_partition_slot [settle_intros]: "m \<le> n \<Longrightarrow> settles sz m (read_t_time_partition_slot P n)"
  unfolding read_t_time_partition_slot_def by (intro settle_intros; simp)

lemma settles_t_data_node_location [settle_intros]: "m \<le> n \<Longrightarrow> settles sz m (read_t_data_node_location P n)"
  unfolding read_t_data_node_location_def by (intro settle_intros; simp)

lemma settles_t_region_replica_set [settle_intros]: "m \<le> n \<Longrightarrow> settles sz m (read_t_region_replica_set P n)"
  unfolding read_t_region_replica_set_def by (intro settle_intros; simp)

lemma settles_t_node_resource [settle_intros]: "m \<le> n \<Longrightarrow> settles sz m (read_t_node_resource P n)"
  unfolding read_t_node_resource_def by (intro settle_intros; simp)

lemma settles_t_config_node_location [settle_intros]: "m \<le> n \<Longrightarrow> settles sz m (read_t_config_node_location P n)"
  unfolding read_t_config_node_location_def by (intro settle_intros; simp)

lemma settles_tai_node_location [settle_intros]: "m \<le> n \<Longrightarrow> settles sz m (read_tai_node_location P n)"
  unfolding read_tai_node_location_def by (intro settle_intros; simp)

lemma settles_t_data_node_configuration [settle_intros]: "m \<le> n \<Longrightarrow> settles sz m (read_t_data_node_configuration P n)"
  unfolding read_t_data_node_configuration_def by (intro settle_intros; simp)

lemma settles_tai_node_configuration [settle_intros]: "m \<le> n \<Longrightarrow> settles sz m (read_tai_node_configuration P n)"
  unfolding read_tai_node_configuration_def by (intro settle_intros; simp)

lemma settles_t_flush_req [settle_intros]: "m \<le> n \<Longrightarrow> settles sz m (read_t_flush_req P n)"
  unfolding read_t_flush_req_def by (intro settle_intros; simp)

lemma settles_t_settle_req [settle_intros]: "m \<le> n \<Longrightarrow> settles sz m (read_t_settle_req P n)"
  unfolding read_t_settle_req_def by (intro settle_intros; simp)

lemma settles_t_schema_node [settle_intros]: "m \<le> n \<Longrightarrow> settles sz m (read_t_schema_node P n)"
  unfolding read_t_schema_node_def by (intro settle_intros; simp)

lemma settles_t_set_configuration_req [settle_intros]: "m \<le> n \<Longrightarrow> settles sz m (read_t_set_configuration_req P n)"
  unfolding read_t_set_configuration_req_def by (intro settle_intros; simp)

lemma settles_t_set_ttl_req [settle_intros]: "m \<le> n \<Longrightarrow> settles sz m (read_t_set_ttl_req P n)"
  unfolding read_t_set_ttl_req_def by (intro settle_intros; simp)

lemma settles_t_show_ttl_req [settle_intros]: "m \<le> n \<Longrightarrow> settles sz m (read_t_show_ttl_req P n)"
  unfolding read_t_show_ttl_req_def by (intro settle_intros; simp)

lemma settles_t_file [settle_intros]: "m \<le> n \<Longrightarrow> settles sz m (read_t_file P n)"
  unfolding read_t_file_def by (intro settle_intros; simp)

lemma settles_t_files_resp [settle_intros]: "m \<le> n \<Longrightarrow> settles sz m (read_t_files_resp P n)"
  unfolding read_t_files_resp_def by (intro settle_intros; simp)

lemma settles_t_space_quota [settle_intros]: "m \<le> n \<Longrightarrow> settles sz m (read_t_space_quota P n)"
  unfolding read_t_space_quota_def by (intro settle_intros; simp)

lemma settles_t_timed_quota [settle_intros]: "m \<le> n \<Longrightarrow> settles sz m (read_t_timed_quota P n)"
  unfolding read_t_timed_quota_def by (intro settle_intros; simp)

lemma settles_t_throttle_quota [settle_intros]: "m \<le> n \<Longrightarrow> settles sz m (read_t_throttle_quota P n)"
  unfolding read_t_throttle_quota_def by (intro settle_intros; simp)

lemma settles_t_set_space_quota_req [settle_intros]: "m \<le> n \<Longrightarrow> settles sz m (read_t_set_space_quota_req P n)"
  unfolding read_t_set_space_quota_req_def by (intro settle_intros; simp)

lemma settles_t_set_throttle_quota_req [settle_intros]: "m \<le> n \<Longrightarrow> settles sz m (read_t_set_throttle_quota_req P n)"
  unfolding read_t_set_throttle_quota_req_def by (intro settle_intros; simp)

lemma settles_t_pipe_heartbeat_resp [settle_intros]: "m \<le> n \<Longrightarrow> settles sz m (read_t_pipe_heartbeat_resp P n)"
  unfolding read_t_pipe_heartbeat_resp_def by (intro settle_intros; simp)

lemma settles_t_license [settle_intros]: "m \<le> n \<Longrightarrow> settles sz m (read_t_license P n)"
  unfolding read_t_license_def by (intro settle_intros; simp)

lemma settles_t_load_sample [settle_intros]: "m \<le> n \<Longrightarrow> settles sz m (read_t_load_sample P n)"
  unfolding read_t_load_sample_def by (intro settle_intros; simp)

lemma settles_t_service_provider [settle_intros]: "m \<le> n \<Longrightarrow> settles sz m (read_t_service_provider P n)"
  unfolding read_t_service_provider_def by (intro settle_intros; simp)

lemma settles_t_sender [settle_intros]: "m \<le> n \<Longrightarrow> settles sz m (read_t_sender P n)"
  unfolding read_t_sender_def by (intro settle_intros; simp)

lemma settles_t_test_connection_result [settle_intros]: "m \<le> n \<Longrightarrow> settles sz m (read_t_test_connection_result P n)"
  unfolding read_t_test_connection_result_def by (intro settle_intros; simp)

lemma settles_t_test_connection_resp [settle_intros]: "m \<le> n \<Longrightarrow> settles sz m (read_t_test_connection_resp P n)"
  unfolding read_t_test_connection_resp_def by (intro settle_intros; simp)

lemma settles_t_node_locations [settle_intros]: "m \<le> n \<Longrightarrow> settles sz m (read_t_node_locations P n)"
  unfolding read_t_node_locations_def by (intro settle_intros; simp)

lemma settles_t_external_service_entry [settle_intros]: "m \<le> n \<Longrightarrow> settles sz m (read_t_external_service_entry P n)"
  unfolding read_t_external_service_entry_def by (intro settle_intros; simp)

lemma settles_t_external_service_list_resp [settle_intros]: "m \<le> n \<Longrightarrow> settles sz m (read_t_external_service_list_resp P n)"
  unfolding read_t_external_service_list_resp_def by (intro settle_intros; simp)

lemma settles_t_show_configuration_template_resp [settle_intros]: "m \<le> n \<Longrightarrow> settles sz m (read_t_show_configuration_template_resp P n)"
  unfolding read_t_show_configuration_template_resp_def by (intro settle_intros; simp)

lemma settles_t_show_configuration_resp [settle_intros]: "m \<le> n \<Longrightarrow> settles sz m (read_t_show_configuration_resp P n)"
  unfolding read_t_show_configuration_resp_def by (intro settle_intros; simp)

lemma settles_t_show_applied_configurations_resp [settle_intros]: "m \<le> n \<Longrightarrow> settles sz m (read_t_show_applied_configurations_resp P n)"
  unfolding read_t_show_applied_configurations_resp_def by (intro settle_intros; simp)

end

section \<open>Statements\<close>

context finite_stream
begin

lemma settles_ts_execute_batch_statement_req [settle_intros]: "m \<le> n \<Longrightarrow> settles sz m (read_ts_execute_batch_statement_req P n)"
  unfolding read_ts_execute_batch_statement_req_def by (intro settle_intros; simp)

lemma settles_ts_get_operation_status_req [settle_intros]: "m \<le> n \<Longrightarrow> settles sz m (read_ts_get_operation_status_req P n)"
  unfolding read_ts_get_operation_status_req_def by (intro settle_intros; simp)

lemma settles_ts_cancel_operation_req [settle_intros]: "m \<le> n \<Longrightarrow> settles sz m (read_ts_cancel_operation_req P n)"
  unfolding read_ts_cancel_operation_req_def by (intro settle_intros; simp)

lemma settles_ts_prepare_req [settle_intros]: "m \<le> n \<Longrightarrow> settles sz m (read_ts_prepare_req P n)"
  unfolding read_ts_prepare_req_def by (intro settle_intros; simp)

lemma settles_ts_prepare_resp [settle_intros]: "m \<le> n \<Longrightarrow> settles sz m (read_ts_prepare_resp P n)"
  unfolding read_ts_prepare_resp_def by (intro settle_intros; simp)

lemma settles_ts_execute_prepared_req [settle_intros]: "m \<le> n \<Longrightarrow> settles sz m (read_ts_execute_prepared_req P n)"
  unfolding read_ts_execute_prepared_req_def by (intro settle_intros; simp)

lemma settles_ts_deallocate_prepared_req [settle_intros]: "m \<le> n \<Longrightarrow> settles sz m (read_ts_deallocate_prepared_req P n)"
  unfolding read_ts_deallocate_prepared_req_def by (intro settle_intros; simp)

lemma settles_ts_fetch_metadata_resp [settle_intros]: "m \<le> n \<Longrightarrow> settles sz m (read_ts_fetch_metadata_resp P n)"
  unfolding read_ts_fetch_metadata_resp_def by (intro settle_intros; simp)

lemma settles_ts_fetch_metadata_req [settle_intros]: "m \<le> n \<Longrightarrow> settles sz m (read_ts_fetch_metadata_req P n)"
  unfolding read_ts_fetch_metadata_req_def by (intro settle_intros; simp)

lemma settles_ts_get_time_zone_resp [settle_intros]: "m \<le> n \<Longrightarrow> settles sz m (read_ts_get_time_zone_resp P n)"
  unfolding read_ts_get_time_zone_resp_def by (intro settle_intros; simp)

lemma settles_ts_set_time_zone_req [settle_intros]: "m \<le> n \<Longrightarrow> settles sz m (read_ts_set_time_zone_req P n)"
  unfolding read_ts_set_time_zone_req_def by (intro settle_intros; simp)

lemma settles_ts_insert_string_record_req [settle_intros]: "m \<le> n \<Longrightarrow> settles sz m (read_ts_insert_string_record_req P n)"
  unfolding read_ts_insert_string_record_req_def by (intro settle_intros; simp)

lemma settles_ts_insert_string_records_of_one_device_req [settle_intros]: "m \<le> n \<Longrightarrow> settles sz m (read_ts_insert_string_records_of_one_device_req P n)"
  unfolding read_ts_insert_string_records_of_one_device_req_def by (intro settle_intros; simp)

lemma settles_ts_insert_string_records_req [settle_intros]: "m \<le> n \<Longrightarrow> settles sz m (read_ts_insert_string_records_req P n)"
  unfolding read_ts_insert_string_records_req_def by (intro settle_intros; simp)

lemma settles_ts_delete_data_req [settle_intros]: "m \<le> n \<Longrightarrow> settles sz m (read_ts_delete_data_req P n)"
  unfolding read_ts_delete_data_req_def by (intro settle_intros; simp)

end

section \<open>Schemas, pipes and administration\<close>

context finite_stream
begin

lemma settles_ts_connection_type [settle_intros]: "settles sz m (read_ts_connection_type P)"
  unfolding read_ts_connection_type_def by (intro settle_intros)

lemma settles_ts_create_timeseries_req [settle_intros]: "m \<le> n \<Longrightarrow> settles sz m (read_ts_create_timeseries_req P n)"
  unfolding read_ts_create_timeseries_req_def by (intro settle_intros; simp)

lemma settles_ts_create_aligned_timeseries_req [settle_intros]: "m \<le> n \<Longrightarrow> settles sz m (read_ts_create_aligned_timeseries_req P n)"
  unfolding read_ts_create_aligned_timeseries_req_def by (intro settle_intros; simp)

lemma settles_ts_raw_data_query_req [settle_intros]: "m \<le> n \<Longrightarrow> settles sz m (read_ts_raw_data_query_req P n)"
  unfolding read_ts_raw_data_query_req_def by (intro settle_intros; simp)

lemma settles_ts_last_data_query_req [settle_intros]: "m \<le> n \<Longrightarrow> settles sz m (read_ts_last_data_query_req P n)"
  unfolding read_ts_last_data_query_req_def by (intro settle_intros; simp)

lemma settles_ts_fast_last_data_query_for_one_prefix_path_req [settle_intros]: "m \<le> n \<Longrightarrow> settles sz m (read_ts_fast_last_data_query_for_one_prefix_path_req P n)"
  unfolding read_ts_fast_last_data_query_for_one_prefix_path_req_def by (intro settle_intros; simp)

lemma settles_ts_fast_last_data_query_for_one_device_req [settle_intros]: "m \<le> n \<Longrightarrow> settles sz m (read_ts_fast_last_data_query_for_one_device_req P n)"
  unfolding read_ts_fast_last_data_query_for_one_device_req_def by (intro settle_intros; simp)

lemma settles_ts_aggregation_query_req [settle_intros]: "m \<le> n \<Longrightarrow> settles sz m (read_ts_aggregation_query_req P n)"
  unfolding read_ts_aggregation_query_req_def by (intro settle_intros; simp)

lemma settles_ts_create_multi_timeseries_req [settle_intros]: "m \<le> n \<Longrightarrow> settles sz m (read_ts_create_multi_timeseries_req P n)"
  unfolding read_ts_create_multi_timeseries_req_def by (intro settle_intros; simp)

lemma settles_server_properties [settle_intros]: "m \<le> n \<Longrightarrow> settles sz m (read_server_properties P n)"
  unfolding read_server_properties_def by (intro settle_intros; simp)

lemma settles_ts_set_schema_template_req [settle_intros]: "m \<le> n \<Longrightarrow> settles sz m (read_ts_set_schema_template_req P n)"
  unfolding read_ts_set_schema_template_req_def by (intro settle_intros; simp)

lemma settles_ts_create_schema_template_req [settle_intros]: "m \<le> n \<Longrightarrow> settles sz m (read_ts_create_schema_template_req P n)"
  unfolding read_ts_create_schema_template_req_def by (intro settle_intros; simp)

lemma settles_ts_append_schema_template_req [settle_intros]: "m \<le> n \<Longrightarrow> settles sz m (read_ts_append_schema_template_req P n)"
  unfolding read_ts_append_schema_template_req_def by (intro settle_intros; simp)

lemma settles_ts_prune_schema_template_req [settle_intros]: "m \<le> n \<Longrightarrow> settles sz m (read_ts_prune_schema_template_req P n)"
  unfolding read_ts_prune_schema_template_req_def by (intro settle_intros; simp)

lemma settles_ts_query_template_req [settle_intros]: "m \<le> n \<Longrightarrow> settles sz m (read_ts_query_template_req P n)"
  unfolding read_ts_query_template_req_def by (intro settle_intros; simp)

lemma settles_ts_query_template_resp [settle_intros]: "m \<le> n \<Longrightarrow> settles sz m (read_ts_query_template_resp P n)"
  unfolding read_ts_query_template_resp_def by (intro settle_intros; simp)

lemma settles_ts_unset_schema_template_req [settle_intros]: "m \<le> n \<Longrightarrow> settles sz m (read_ts_unset_schema_template_req P n)"
  unfolding read_ts_unset_schema_template_req_def by (intro settle_intros; simp)

lemma settles_ts_drop_schema_template_req [settle_intros]: "m \<le> n \<Longrightarrow> settles sz m (read_ts_drop_schema_template_req P n)"
  unfolding read_ts_drop_schema_template_req_def by (intro settle_intros; simp)

lemma settles_t_create_timeseries_using_schema_template_req [settle_intros]: "m \<le> n \<Longrightarrow> settles sz m (read_t_create_timeseries_using_schema_template_req P n)"
  unfolding read_t_create_timeseries_using_schema_template_req_def by (intro settle_intros; simp)

lemma settles_t_sync_identity_info [settle_intros]: "m \<le> n \<Longrightarrow> settles sz m (read_t_sync_identity_info P n)"
  unfolding read_t_sync_identity_info_def by (intro settle_intros; simp)

lemma settles_t_sync_transport_meta_info [settle_intros]: "m \<le> n \<Longrightarrow> settles sz m (read_t_sync_transport_meta_info P n)"
  unfolding read_t_sync_transport_meta_info_def by (intro settle_intros; simp)

lemma settles_t_pipe_transfer_req [settle_intros]: "m \<le> n \<Longrightarrow> settles sz m (read_t_pipe_transfer_req P n)"
  unfolding read_t_pipe_transfer_req_def by (intro settle_intros; simp)

lemma settles_t_pipe_transfer_resp [settle_intros]: "m \<le> n \<Longrightarrow> settles sz m (read_t_pipe_transfer_resp P n)"
  unfolding read_t_pipe_transfer_resp_def by (intro settle_intros; simp)

lemma settles_t_pipe_subscribe_req [settle_intros]: "m \<le> n \<Longrightarrow> settles sz m (read_t_pipe_subscribe_req P n)"
  unfolding read_t_pipe_subscribe_req_def by (intro settle_intros; simp)

lemma settles_t_pipe_subscribe_resp [settle_intros]: "m \<le> n \<Longrightarrow> settles sz m (read_t_pipe_subscribe_resp P n)"
  unfolding read_t_pipe_subscribe_resp_def by (intro settle_intros; simp)

lemma settles_ts_backup_configuration_resp [settle_intros]: "m \<le> n \<Longrightarrow> settles sz m (read_ts_backup_configuration_resp P n)"
  unfolding read_ts_backup_configuration_resp_def by (intro settle_intros; simp)

lemma settles_ts_connection_info [settle_intros]: "m \<le> n \<Longrightarrow> settles sz m (read_ts_connection_info P n)"
  unfolding read_ts_connection_info_def by (intro settle_intros; simp)

lemma settles_ts_connection_info_resp [settle_intros]: "m \<le> n \<Longrightarrow> settles sz m (read_ts_connection_info_resp P n)"
  unfolding read_ts_connection_info_resp_def by (intro settle_intros; simp)

end

end
