(* ===== verification/BinarySafety.thy ===== *)
theory BinarySafety
  imports BinaryProtocol ReaderSafety
begin

text \<open>
  The binary protocol over bytes has the laws of \<open>finite_stream\<close>: the size of the stream is the number of
  bytes left.
\<close>

section \<open>Decoders that do not lengthen\<close>

definition decreasing :: "(bytes \<Rightarrow> ('a \<times> bytes) option) \<Rightarrow> bool" where
  "decreasing dec \<longleftrightarrow> (\<forall>bs x r. dec bs = Some (x, r) \<longrightarrow> length r \<le> length bs)"

named_theorems decreasing_intros \<open>decoders that leave no more than they were given\<close>

lemma decreasingD: "decreasing dec \<Longrightarrow> dec bs = Some (x, r) \<Longrightarrow> length r \<le> length bs"
  by (auto simp: decreasing_def)

lemma shrinking_taking: "decreasing dec \<Longrightarrow> shrinking length (taking dec)"
  by (auto simp: shrinking_def taking_def decreasing_def split: option.split)

lemma decreasing_parts [decreasing_intros]:
  "decreasing (read_be n)" "decreasing read_binary" "decreasing read_byte" "decreasing read_bool"
  "decreasing read_type" "decreasing (skip_bytes n)"
  by (auto simp: decreasing_def read_be_def read_binary_def read_byte_def read_bool_def read_type_def skip_bytes_def
      split: if_splits option.splits list.splits)

lemma decreasing_utf8 [decreasing_intros]: "decreasing read_utf8"
  using decreasing_parts(2) by (auto simp: decreasing_def read_utf8_def split: option.splits)

lemma decreasing_size [decreasing_intros]: "decreasing read_size"
  by (auto simp: decreasing_def read_size_def read_be_def split: option.splits if_splits)

lemma decreasing_header [decreasing_intros]: "decreasing read_header"
  by (fastforce simp: decreasing_def read_header_def split: list.splits option.splits
      dest: decreasingD [OF decreasing_utf8] decreasingD [OF decreasing_parts(1)])

lemma decreasing_field_header [decreasing_intros]: "decreasing read_field_header"
  by (fastforce simp: decreasing_def read_field_header_def split: option.splits t_type.splits
      dest: decreasingD [OF decreasing_parts(5)] decreasingD [OF decreasing_parts(1)])

lemma decreasing_list_header [decreasing_intros]: "decreasing read_list_header"
  by (fastforce simp: decreasing_def read_list_header_def split: option.splits
      dest: decreasingD [OF decreasing_parts(5)] decreasingD [OF decreasing_size])

lemma decreasing_map_header [decreasing_intros]: "decreasing read_map_header"
  by (fastforce simp: decreasing_def read_map_header_def split: option.splits
      dest: decreasingD [OF decreasing_parts(5)] decreasingD [OF decreasing_size])

lemma decreasing_skip [decreasing_intros]: "decreasing (skip_type ty)"
proof (cases ty)
  case TyString
  with decreasing_parts(2) show ?thesis by (auto simp: decreasing_def)
qed (use decreasing_parts(6) in \<open>auto simp: decreasing_def\<close>)

section \<open>The laws hold\<close>

lemma read_type_shortens: "read_type bs = Some (ty, r) \<Longrightarrow> length r < length bs"
  by (auto simp: read_type_def split: list.splits)

lemma field_header_shortens:
  assumes "taking read_field_header bs = (Inr (ty, k), r)"
  shows "length r < length bs"
proof -
  have "read_field_header bs = Some ((ty, k), r)" using assms by (auto simp: taking_def split: option.splits)
  then show ?thesis
    by (fastforce simp: read_field_header_def split: option.splits t_type.splits dest: read_type_shortens
        decreasingD [OF decreasing_parts(1)])
qed

lemma list_header_size: "taking read_list_header bs = (Inr (ty, n), r) \<Longrightarrow> 0 \<le> sint n"
  by (auto simp: taking_def read_list_header_def read_size_def split: option.splits if_splits)

lemma binary_finite:
  assumes "shrinking length f"
  shows "finite_stream (binary_base\<lparr>ip_application_error := f\<rparr>) length"
  using assms unfolding binary_base_def
  by unfold_locales
    (auto intro!: shrinking_taking decreasing_intros dest: field_header_shortens list_header_size
      simp: accept_def, simp_all add: shrinking_def)

interpretation base_stream: finite_stream binary_base length
  using binary_finite [of "ip_application_error binary_base"] by (simp add: binary_base_def shrinking_def)

lemma application_error_shrinking: "shrinking length read_application_error"
  unfolding shrinking_def
proof
  fix i :: bytes
  let ?read = "read_struct binary_base (Suc (length i))
      (\<lambda>k ty (m, t).
         if k = 1 then store (callp (ip_string binary_base)) (\<lambda>v. (v, t))
         else if k = 2 then store (callp (ip_i32 binary_base)) (\<lambda>v. (m, v))
         else skip_field binary_base ty (m, t))
      (None, None)
      (\<lambda>(m, t). retp (case m of None \<Rightarrow> ''general remote error'' | Some m \<Rightarrow> m))"
  have "settles length (Suc (length i)) ?read"
    by (intro settle_intros base_stream.settles_struct base_stream.settles_skip base_stream.shrink) simp
  then show "length (snd (read_application_error i)) \<le> length i"
    by (auto simp: settles_def read_application_error_def split: prod.split read_result.split) 
qed

interpretation binary_stream: finite_stream binary_protocol length
  unfolding binary_protocol_def by (rule binary_finite [OF application_error_shrinking])

end
