(* ===== verification/CallSafety.thy ===== *)
theory CallSafety
  imports StructSafety BinarySafety RpcServer RpcProps
begin

text \<open>
  Every call of the client and the processor of the server on any finite stream. Whatever the other side
  sends, a call returns a value or an error, and so does the processing of a message.
\<close>

section \<open>The calls of a session\<close>

context finite_stream
begin

lemma settles_open_session_args [settle_intros]: "m \<le> n \<Longrightarrow> settles sz m (read_open_session_args P n)"
  unfolding read_open_session_args_def by (intro settle_intros; simp)

lemma settles_open_session_result [settle_intros]: "m \<le> n \<Longrightarrow> settles sz m (read_open_session_result P n)"
  unfolding read_open_session_result_def by (intro settle_intros; simp)

lemma settles_close_session_args [settle_intros]: "m \<le> n \<Longrightarrow> settles sz m (read_close_session_args P n)"
  unfolding read_close_session_args_def by (intro settle_intros; simp)

lemma settles_close_session_result [settle_intros]: "m \<le> n \<Longrightarrow> settles sz m (read_close_session_result P n)"
  unfolding read_close_session_result_def by (intro settle_intros; simp)

lemma settles_request_statement_id_args [settle_intros]: "m \<le> n \<Longrightarrow> settles sz m (read_request_statement_id_args P n)"
  unfolding read_request_statement_id_args_def by (intro settle_intros; simp)

lemma settles_request_statement_id_result [settle_intros]: "m \<le> n \<Longrightarrow> settles sz m (read_request_statement_id_result P n)"
  unfolding read_request_statement_id_result_def by (intro settle_intros; simp)

lemma settles_execute_query_statement_v2_args [settle_intros]: "m \<le> n \<Longrightarrow> settles sz m (read_execute_query_statement_v2_args P n)"
  unfolding read_execute_query_statement_v2_args_def by (intro settle_intros; simp)

lemma settles_execute_query_statement_v2_result [settle_intros]: "m \<le> n \<Longrightarrow> settles sz m (read_execute_query_statement_v2_result P n)"
  unfolding read_execute_query_statement_v2_result_def by (intro settle_intros; simp)

lemma settles_execute_update_statement_v2_args [settle_intros]: "m \<le> n \<Longrightarrow> settles sz m (read_execute_update_statement_v2_args P n)"
  unfolding read_execute_update_statement_v2_args_def by (intro settle_intros; simp)

lemma settles_execute_update_statement_v2_result [settle_intros]: "m \<le> n \<Longrightarrow> settles sz m (read_execute_update_statement_v2_result P n)"
  unfolding read_execute_update_statement_v2_result_def by (intro settle_intros; simp)

lemma settles_fetch_results_v2_args [settle_intros]: "m \<le> n \<Longrightarrow> settles sz m (read_fetch_results_v2_args P n)"
  unfolding read_fetch_results_v2_args_def by (intro settle_intros; simp)

lemma settles_fetch_results_v2_result [settle_intros]: "m \<le> n \<Longrightarrow> settles sz m (read_fetch_results_v2_result P n)"
  unfolding read_fetch_results_v2_result_def by (intro settle_intros; simp)

lemma settles_close_operation_args [settle_intros]: "m \<le> n \<Longrightarrow> settles sz m (read_close_operation_args P n)"
  unfolding read_close_operation_args_def by (intro settle_intros; simp)

lemma settles_close_operation_result [settle_intros]: "m \<le> n \<Longrightarrow> settles sz m (read_close_operation_result P n)"
  unfolding read_close_operation_result_def by (intro settle_intros; simp)

lemma settles_insert_record_args [settle_intros]: "m \<le> n \<Longrightarrow> settles sz m (read_insert_record_args P n)"
  unfolding read_insert_record_args_def by (intro settle_intros; simp)

lemma settles_insert_record_result [settle_intros]: "m \<le> n \<Longrightarrow> settles sz m (read_insert_record_result P n)"
  unfolding read_insert_record_result_def by (intro settle_intros; simp)

lemma settles_insert_tablet_args [settle_intros]: "m \<le> n \<Longrightarrow> settles sz m (read_insert_tablet_args P n)"
  unfolding read_insert_tablet_args_def by (intro settle_intros; simp)

lemma settles_insert_tablet_result [settle_intros]: "m \<le> n \<Longrightarrow> settles sz m (read_insert_tablet_result P n)"
  unfolding read_insert_tablet_result_def by (intro settle_intros; simp)

lemma settles_insert_tablets_args [settle_intros]: "m \<le> n \<Longrightarrow> settles sz m (read_insert_tablets_args P n)"
  unfolding read_insert_tablets_args_def by (intro settle_intros; simp)

lemma settles_insert_tablets_result [settle_intros]: "m \<le> n \<Longrightarrow> settles sz m (read_insert_tablets_result P n)"
  unfolding read_insert_tablets_result_def by (intro settle_intros; simp)

lemma settles_insert_records_args [settle_intros]: "m \<le> n \<Longrightarrow> settles sz m (read_insert_records_args P n)"
  unfolding read_insert_records_args_def by (intro settle_intros; simp)

lemma settles_insert_records_result [settle_intros]: "m \<le> n \<Longrightarrow> settles sz m (read_insert_records_result P n)"
  unfolding read_insert_records_result_def by (intro settle_intros; simp)

lemma settles_insert_records_of_one_device_args [settle_intros]: "m \<le> n \<Longrightarrow> settles sz m (read_insert_records_of_one_device_args P n)"
  unfolding read_insert_records_of_one_device_args_def by (intro settle_intros; simp)

lemma settles_insert_records_of_one_device_result [settle_intros]: "m \<le> n \<Longrightarrow> settles sz m (read_insert_records_of_one_device_result P n)"
  unfolding read_insert_records_of_one_device_result_def by (intro settle_intros; simp)

end

section \<open>Statements and records\<close>

context finite_stream
begin

lemma settles_execute_statement_v2_args [settle_intros]: "m \<le> n \<Longrightarrow> settles sz m (read_execute_statement_v2_args P n)"
  unfolding read_execute_statement_v2_args_def by (intro settle_intros; simp)

lemma settles_execute_statement_v2_result [settle_intros]: "m \<le> n \<Longrightarrow> settles sz m (read_execute_statement_v2_result P n)"
  unfolding read_execute_statement_v2_result_def by (intro settle_intros; simp)

lemma settles_execute_raw_data_query_v2_args [settle_intros]: "m \<le> n \<Longrightarrow> settles sz m (read_execute_raw_data_query_v2_args P n)"
  unfolding read_execute_raw_data_query_v2_args_def by (intro settle_intros; simp)

lemma settles_execute_raw_data_query_v2_result [settle_intros]: "m \<le> n \<Longrightarrow> settles sz m (read_execute_raw_data_query_v2_result P n)"
  unfolding read_execute_raw_data_query_v2_result_def by (intro settle_intros; simp)

lemma settles_execute_last_data_query_v2_args [settle_intros]: "m \<le> n \<Longrightarrow> settles sz m (read_execute_last_data_query_v2_args P n)"
  unfolding read_execute_last_data_query_v2_args_def by (intro settle_intros; simp)

lemma settles_execute_last_data_query_v2_result [settle_intros]: "m \<le> n \<Longrightarrow> settles sz m (read_execute_last_data_query_v2_result P n)"
  unfolding read_execute_last_data_query_v2_result_def by (intro settle_intros; simp)

lemma settles_execute_fast_last_data_query_for_one_prefix_path_args [settle_intros]: "m \<le> n \<Longrightarrow> settles sz m (read_execute_fast_last_data_query_for_one_prefix_path_args P n)"
  unfolding read_execute_fast_last_data_query_for_one_prefix_path_args_def by (intro settle_intros; simp)

lemma settles_execute_fast_last_data_query_for_one_prefix_path_result [settle_intros]: "m \<le> n \<Longrightarrow> settles sz m (read_execute_fast_last_data_query_for_one_prefix_path_result P n)"
  unfolding read_execute_fast_last_data_query_for_one_prefix_path_result_def by (intro settle_intros; simp)

lemma settles_execute_fast_last_data_query_for_one_device_v2_args [settle_intros]: "m \<le> n \<Longrightarrow> settles sz m (read_execute_fast_last_data_query_for_one_device_v2_args P n)"
  unfolding read_execute_fast_last_data_query_for_one_device_v2_args_def by (intro settle_intros; simp)

lemma settles_execute_fast_last_data_query_for_one_device_v2_result [settle_intros]: "m \<le> n \<Longrightarrow> settles sz m (read_execute_fast_last_data_query_for_one_device_v2_result P n)"
  unfolding read_execute_fast_last_data_query_for_one_device_v2_result_def by (intro settle_intros; simp)

lemma settles_execute_aggregation_query_v2_args [settle_intros]: "m \<le> n \<Longrightarrow> settles sz m (read_execute_aggregation_query_v2_args P n)"
  unfolding read_execute_aggregation_query_v2_args_def by (intro settle_intros; simp)

lemma settles_execute_aggregation_query_v2_result [settle_intros]: "m \<le> n \<Longrightarrow> settles sz m (read_execute_aggregation_query_v2_result P n)"
  unfolding read_execute_aggregation_query_v2_result_def by (intro settle_intros; simp)

lemma settles_execute_statement_args [settle_intros]: "m \<le> n \<Longrightarrow> settles sz m (read_execute_statement_args P n)"
  unfolding read_execute_statement_args_def by (intro settle_intros; simp)

lemma settles_execute_statement_result [settle_intros]: "m \<le> n \<Longrightarrow> settles sz m (read_execute_statement_result P n)"
  unfolding read_execute_statement_result_def by (intro settle_intros; simp)

lemma settles_execute_batch_statement_args [settle_intros]: "m \<le> n \<Longrightarrow> settles sz m (read_execute_batch_statement_args P n)"
  unfolding read_execute_batch_statement_args_def by (intro settle_intros; simp)

lemma settles_execute_batch_statement_result [settle_intros]: "m \<le> n \<Longrightarrow> settles sz m (read_execute_batch_statement_result P n)"
  unfolding read_execute_batch_statement_result_def by (intro settle_intros; simp)

lemma settles_execute_query_statement_args [settle_intros]: "m \<le> n \<Longrightarrow> settles sz m (read_execute_query_statement_args P n)"
  unfolding read_execute_query_statement_args_def by (intro settle_intros; simp)

lemma settles_execute_query_statement_result [settle_intros]: "m \<le> n \<Longrightarrow> settles sz m (read_execute_query_statement_result P n)"
  unfolding read_execute_query_statement_result_def by (intro settle_intros; simp)

lemma settles_execute_update_statement_args [settle_intros]: "m \<le> n \<Longrightarrow> settles sz m (read_execute_update_statement_args P n)"
  unfolding read_execute_update_statement_args_def by (intro settle_intros; simp)

lemma settles_execute_update_statement_result [settle_intros]: "m \<le> n \<Longrightarrow> settles sz m (read_execute_update_statement_result P n)"
  unfolding read_execute_update_statement_result_def by (intro settle_intros; simp)

lemma settles_fetch_results_args [settle_intros]: "m \<le> n \<Longrightarrow> settles sz m (read_fetch_results_args P n)"
  unfolding read_fetch_results_args_def by (intro settle_intros; simp)

lemma settles_fetch_results_result [settle_intros]: "m \<le> n \<Longrightarrow> settles sz m (read_fetch_results_result P n)"
  unfolding read_fetch_results_result_def by (intro settle_intros; simp)

lemma settles_fetch_metadata_args [settle_intros]: "m \<le> n \<Longrightarrow> settles sz m (read_fetch_metadata_args P n)"
  unfolding read_fetch_metadata_args_def by (intro settle_intros; simp)

lemma settles_fetch_metadata_result [settle_intros]: "m \<le> n \<Longrightarrow> settles sz m (read_fetch_metadata_result P n)"
  unfolding read_fetch_metadata_result_def by (intro settle_intros; simp)

lemma settles_cancel_operation_args [settle_intros]: "m \<le> n \<Longrightarrow> settles sz m (read_cancel_operation_args P n)"
  unfolding read_cancel_operation_args_def by (intro settle_intros; simp)

lemma settles_cancel_operation_result [settle_intros]: "m \<le> n \<Longrightarrow> settles sz m (read_cancel_operation_result P n)"
  unfolding read_cancel_operation_result_def by (intro settle_intros; simp)

lemma settles_prepare_statement_args [settle_intros]: "m \<le> n \<Longrightarrow> settles sz m (read_prepare_statement_args P n)"
  unfolding read_prepare_statement_args_def by (intro settle_intros; simp)

lemma settles_prepare_statement_result [settle_intros]: "m \<le> n \<Longrightarrow> settles sz m (read_prepare_statement_result P n)"
  unfolding read_prepare_statement_result_def by (intro settle_intros; simp)

lemma settles_execute_prepared_statement_args [settle_intros]: "m \<le> n \<Longrightarrow> settles sz m (read_execute_prepared_statement_args P n)"
  unfolding read_execute_prepared_statement_args_def by (intro settle_intros; simp)

lemma settles_execute_prepared_statement_result [settle_intros]: "m \<le> n \<Longrightarrow> settles sz m (read_execute_prepared_statement_result P n)"
  unfolding read_execute_prepared_statement_result_def by (intro settle_intros; simp)

lemma settles_deallocate_prepared_statement_args [settle_intros]: "m \<le> n \<Longrightarrow> settles sz m (read_deallocate_prepared_statement_args P n)"
  unfolding read_deallocate_prepared_statement_args_def by (intro settle_intros; simp)

lemma settles_deallocate_prepared_statement_result [settle_intros]: "m \<le> n \<Longrightarrow> settles sz m (read_deallocate_prepared_statement_result P n)"
  unfolding read_deallocate_prepared_statement_result_def by (intro settle_intros; simp)

lemma settles_get_time_zone_args [settle_intros]: "m \<le> n \<Longrightarrow> settles sz m (read_get_time_zone_args P n)"
  unfolding read_get_time_zone_args_def by (intro settle_intros; simp)

lemma settles_get_time_zone_result [settle_intros]: "m \<le> n \<Longrightarrow> settles sz m (read_get_time_zone_result P n)"
  unfolding read_get_time_zone_result_def by (intro settle_intros; simp)

lemma settles_set_time_zone_args [settle_intros]: "m \<le> n \<Longrightarrow> settles sz m (read_set_time_zone_args P n)"
  unfolding read_set_time_zone_args_def by (intro settle_intros; simp)

lemma settles_set_time_zone_result [settle_intros]: "m \<le> n \<Longrightarrow> settles sz m (read_set_time_zone_result P n)"
  unfolding read_set_time_zone_result_def by (intro settle_intros; simp)

lemma settles_get_properties_args [settle_intros]: "m \<le> n \<Longrightarrow> settles sz m (read_get_properties_args P n)"
  unfolding read_get_properties_args_def by (intro settle_intros; simp)

lemma settles_get_properties_result [settle_intros]: "m \<le> n \<Longrightarrow> settles sz m (read_get_properties_result P n)"
  unfolding read_get_properties_result_def by (intro settle_intros; simp)

lemma settles_set_storage_group_args [settle_intros]: "m \<le> n \<Longrightarrow> settles sz m (read_set_storage_group_args P n)"
  unfolding read_set_storage_group_args_def by (intro settle_intros; simp)

lemma settles_set_storage_group_result [settle_intros]: "m \<le> n \<Longrightarrow> settles sz m (read_set_storage_group_result P n)"
  unfolding read_set_storage_group_result_def by (intro settle_intros; simp)

lemma settles_create_timeseries_args [settle_intros]: "m \<le> n \<Longrightarrow> settles sz m (read_create_timeseries_args P n)"
  unfolding read_create_timeseries_args_def by (intro settle_intros; simp)

lemma settles_create_timeseries_result [settle_intros]: "m \<le> n \<Longrightarrow> settles sz m (read_create_timeseries_result P n)"
  unfolding read_create_timeseries_result_def by (intro settle_intros; simp)

lemma settles_create_aligned_timeseries_args [settle_intros]: "m \<le> n \<Longrightarrow> settles sz m (read_create_aligned_timeseries_args P n)"
  unfolding read_create_aligned_timeseries_args_def by (intro settle_intros; simp)

lemma settles_create_aligned_timeseries_result [settle_intros]: "m \<le> n \<Longrightarrow> settles sz m (read_create_aligned_timeseries_result P n)"
  unfolding read_create_aligned_timeseries_result_def by (intro settle_intros; simp)

lemma settles_create_multi_timeseries_args [settle_intros]: "m \<le> n \<Longrightarrow> settles sz m (read_create_multi_timeseries_args P n)"
  unfolding read_create_multi_timeseries_args_def by (intro settle_intros; simp)

lemma settles_create_multi_timeseries_result [settle_intros]: "m \<le> n \<Longrightarrow> settles sz m (read_create_multi_timeseries_result P n)"
  unfolding read_create_multi_timeseries_result_def by (intro settle_intros; simp)

lemma settles_delete_timeseries_args [settle_intros]: "m \<le> n \<Longrightarrow> settles sz m (read_delete_timeseries_args P n)"
  unfolding read_delete_timeseries_args_def by (intro settle_intros; simp)

lemma settles_delete_timeseries_result [settle_intros]: "m \<le> n \<Longrightarrow> settles sz m (read_delete_timeseries_result P n)"
  unfolding read_delete_timeseries_result_def by (intro settle_intros; simp)

lemma settles_delete_storage_groups_args [settle_intros]: "m \<le> n \<Longrightarrow> settles sz m (read_delete_storage_groups_args P n)"
  unfolding read_delete_storage_groups_args_def by (intro settle_intros; simp)

lemma settles_delete_storage_groups_result [settle_intros]: "m \<le> n \<Longrightarrow> settles sz m (read_delete_storage_groups_result P n)"
  unfolding read_delete_storage_groups_result_def by (intro settle_intros; simp)

lemma settles_insert_string_record_args [settle_intros]: "m \<le> n \<Longrightarrow> settles sz m (read_insert_string_record_args P n)"
  unfolding read_insert_string_record_args_def by (intro settle_intros; simp)

lemma settles_insert_string_record_result [settle_intros]: "m \<le> n \<Longrightarrow> settles sz m (read_insert_string_record_result P n)"
  unfolding read_insert_string_record_result_def by (intro settle_intros; simp)

lemma settles_insert_string_records_of_one_device_args [settle_intros]: "m \<le> n \<Longrightarrow> settles sz m (read_insert_string_records_of_one_device_args P n)"
  unfolding read_insert_string_records_of_one_device_args_def by (intro settle_intros; simp)

lemma settles_insert_string_records_of_one_device_result [settle_intros]: "m \<le> n \<Longrightarrow> settles sz m (read_insert_string_records_of_one_device_result P n)"
  unfolding read_insert_string_records_of_one_device_result_def by (intro settle_intros; simp)

lemma settles_insert_string_records_args [settle_intros]: "m \<le> n \<Longrightarrow> settles sz m (read_insert_string_records_args P n)"
  unfolding read_insert_string_records_args_def by (intro settle_intros; simp)

lemma settles_insert_string_records_result [settle_intros]: "m \<le> n \<Longrightarrow> settles sz m (read_insert_string_records_result P n)"
  unfolding read_insert_string_records_result_def by (intro settle_intros; simp)

end

section \<open>Schemas, pipes and administration\<close>

context finite_stream
begin

lemma settles_test_insert_tablet_args [settle_intros]: "m \<le> n \<Longrightarrow> settles sz m (read_test_insert_tablet_args P n)"
  unfolding read_test_insert_tablet_args_def by (intro settle_intros; simp)

lemma settles_test_insert_tablet_result [settle_intros]: "m \<le> n \<Longrightarrow> settles sz m (read_test_insert_tablet_result P n)"
  unfolding read_test_insert_tablet_result_def by (intro settle_intros; simp)

lemma settles_test_insert_tablets_args [settle_intros]: "m \<le> n \<Longrightarrow> settles sz m (read_test_insert_tablets_args P n)"
  unfolding read_test_insert_tablets_args_def by (intro settle_intros; simp)

lemma settles_test_insert_tablets_result [settle_intros]: "m \<le> n \<Longrightarrow> settles sz m (read_test_insert_tablets_result P n)"
  unfolding read_test_insert_tablets_result_def by (intro settle_intros; simp)

lemma settles_test_insert_record_args [settle_intros]: "m \<le> n \<Longrightarrow> settles sz m (read_test_insert_record_args P n)"
  unfolding read_test_insert_record_args_def by (intro settle_intros; simp)

lemma settles_test_insert_record_result [settle_intros]: "m \<le> n \<Longrightarrow> settles sz m (read_test_insert_record_result P n)"
  unfolding read_test_insert_record_result_def by (intro settle_intros; simp)

lemma settles_test_insert_string_record_args [settle_intros]: "m \<le> n \<Longrightarrow> settles sz m (read_test_insert_string_record_args P n)"
  unfolding read_test_insert_string_record_args_def by (intro settle_intros; simp)

lemma settles_test_insert_string_record_result [settle_intros]: "m \<le> n \<Longrightarrow> settles sz m (read_test_insert_string_record_result P n)"
  unfolding read_test_insert_string_record_result_def by (intro settle_intros; simp)

lemma settles_test_insert_records_args [settle_intros]: "m \<le> n \<Longrightarrow> settles sz m (read_test_insert_records_args P n)"
  unfolding read_test_insert_records_args_def by (intro settle_intros; simp)

lemma settles_test_insert_records_result [settle_intros]: "m \<le> n \<Longrightarrow> settles sz m (read_test_insert_records_result P n)"
  unfolding read_test_insert_records_result_def by (intro settle_intros; simp)

lemma settles_test_insert_records_of_one_device_args [settle_intros]: "m \<le> n \<Longrightarrow> settles sz m (read_test_insert_records_of_one_device_args P n)"
  unfolding read_test_insert_records_of_one_device_args_def by (intro settle_intros; simp)

lemma settles_test_insert_records_of_one_device_result [settle_intros]: "m \<le> n \<Longrightarrow> settles sz m (read_test_insert_records_of_one_device_result P n)"
  unfolding read_test_insert_records_of_one_device_result_def by (intro settle_intros; simp)

lemma settles_test_insert_string_records_args [settle_intros]: "m \<le> n \<Longrightarrow> settles sz m (read_test_insert_string_records_args P n)"
  unfolding read_test_insert_string_records_args_def by (intro settle_intros; simp)

lemma settles_test_insert_string_records_result [settle_intros]: "m \<le> n \<Longrightarrow> settles sz m (read_test_insert_string_records_result P n)"
  unfolding read_test_insert_string_records_result_def by (intro settle_intros; simp)

lemma settles_delete_data_args [settle_intros]: "m \<le> n \<Longrightarrow> settles sz m (read_delete_data_args P n)"
  unfolding read_delete_data_args_def by (intro settle_intros; simp)

lemma settles_delete_data_result [settle_intros]: "m \<le> n \<Longrightarrow> settles sz m (read_delete_data_result P n)"
  unfolding read_delete_data_result_def by (intro settle_intros; simp)

lemma settles_execute_raw_data_query_args [settle_intros]: "m \<le> n \<Longrightarrow> settles sz m (read_execute_raw_data_query_args P n)"
  unfolding read_execute_raw_data_query_args_def by (intro settle_intros; simp)

lemma settles_execute_raw_data_query_result [settle_intros]: "m \<le> n \<Longrightarrow> settles sz m (read_execute_raw_data_query_result P n)"
  unfolding read_execute_raw_data_query_result_def by (intro settle_intros; simp)

lemma settles_execute_last_data_query_args [settle_intros]: "m \<le> n \<Longrightarrow> settles sz m (read_execute_last_data_query_args P n)"
  unfolding read_execute_last_data_query_args_def by (intro settle_intros; simp)

lemma settles_execute_last_data_query_result [settle_intros]: "m \<le> n \<Longrightarrow> settles sz m (read_execute_last_data_query_result P n)"
  unfolding read_execute_last_data_query_result_def by (intro settle_intros; simp)

lemma settles_execute_aggregation_query_args [settle_intros]: "m \<le> n \<Longrightarrow> settles sz m (read_execute_aggregation_query_args P n)"
  unfolding read_execute_aggregation_query_args_def by (intro settle_intros; simp)

lemma settles_execute_aggregation_query_result [settle_intros]: "m \<le> n \<Longrightarrow> settles sz m (read_execute_aggregation_query_result P n)"
  unfolding read_execute_aggregation_query_result_def by (intro settle_intros; simp)

lemma settles_create_schema_template_args [settle_intros]: "m \<le> n \<Longrightarrow> settles sz m (read_create_schema_template_args P n)"
  unfolding read_create_schema_template_args_def by (intro settle_intros; simp)

lemma settles_create_schema_template_result [settle_intros]: "m \<le> n \<Longrightarrow> settles sz m (read_create_schema_template_result P n)"
  unfolding read_create_schema_template_result_def by (intro settle_intros; simp)

lemma settles_append_schema_template_args [settle_intros]: "m \<le> n \<Longrightarrow> settles sz m (read_append_schema_template_args P n)"
  unfolding read_append_schema_template_args_def by (intro settle_intros; simp)

lemma settles_append_schema_template_result [settle_intros]: "m \<le> n \<Longrightarrow> settles sz m (read_append_schema_template_result P n)"
  unfolding read_append_schema_template_result_def by (intro settle_intros; simp)

lemma settles_prune_schema_template_args [settle_intros]: "m \<le> n \<Longrightarrow> settles sz m (read_prune_schema_template_args P n)"
  unfolding read_prune_schema_template_args_def by (intro settle_intros; simp)

lemma settles_prune_schema_template_result [settle_intros]: "m \<le> n \<Longrightarrow> settles sz m (read_prune_schema_template_result P n)"
  unfolding read_prune_schema_template_result_def by (intro settle_intros; simp)

lemma settles_query_schema_template_args [settle_intros]: "m \<le> n \<Longrightarrow> settles sz m (read_query_schema_template_args P n)"
  unfolding read_query_schema_template_args_def by (intro settle_intros; simp)

lemma settles_query_schema_template_result [settle_intros]: "m \<le> n \<Longrightarrow> settles sz m (read_query_schema_template_result P n)"
  unfolding read_query_schema_template_result_def by (intro settle_intros; simp)

lemma settles_show_configuration_template_args [settle_intros]: "m \<le> n \<Longrightarrow> settles sz m (read_show_configuration_template_args P n)"
  unfolding read_show_configuration_template_args_def by (intro settle_intros; simp)

lemma settles_show_configuration_template_result [settle_intros]: "m \<le> n \<Longrightarrow> settles sz m (read_show_configuration_template_result P n)"
  unfolding read_show_configuration_template_result_def by (intro settle_intros; simp)

lemma settles_show_configuration_args [settle_intros]: "m \<le> n \<Longrightarrow> settles sz m (read_show_configuration_args P n)"
  unfolding read_show_configuration_args_def by (intro settle_intros; simp)

lemma settles_show_configuration_result [settle_intros]: "m \<le> n \<Longrightarrow> settles sz m (read_show_configuration_result P n)"
  unfolding read_show_configuration_result_def by (intro settle_intros; simp)

lemma settles_set_schema_template_args [settle_intros]: "m \<le> n \<Longrightarrow> settles sz m (read_set_schema_template_args P n)"
  unfolding read_set_schema_template_args_def by (intro settle_intros; simp)

lemma settles_set_schema_template_result [settle_intros]: "m \<le> n \<Longrightarrow> settles sz m (read_set_schema_template_result P n)"
  unfolding read_set_schema_template_result_def by (intro settle_intros; simp)

lemma settles_unset_schema_template_args [settle_intros]: "m \<le> n \<Longrightarrow> settles sz m (read_unset_schema_template_args P n)"
  unfolding read_unset_schema_template_args_def by (intro settle_intros; simp)

lemma settles_unset_schema_template_result [settle_intros]: "m \<le> n \<Longrightarrow> settles sz m (read_unset_schema_template_result P n)"
  unfolding read_unset_schema_template_result_def by (intro settle_intros; simp)

lemma settles_drop_schema_template_args [settle_intros]: "m \<le> n \<Longrightarrow> settles sz m (read_drop_schema_template_args P n)"
  unfolding read_drop_schema_template_args_def by (intro settle_intros; simp)

lemma settles_drop_schema_template_result [settle_intros]: "m \<le> n \<Longrightarrow> settles sz m (read_drop_schema_template_result P n)"
  unfolding read_drop_schema_template_result_def by (intro settle_intros; simp)

lemma settles_create_timeseries_using_schema_template_args [settle_intros]: "m \<le> n \<Longrightarrow> settles sz m (read_create_timeseries_using_schema_template_args P n)"
  unfolding read_create_timeseries_using_schema_template_args_def by (intro settle_intros; simp)

lemma settles_create_timeseries_using_schema_template_result [settle_intros]: "m \<le> n \<Longrightarrow> settles sz m (read_create_timeseries_using_schema_template_result P n)"
  unfolding read_create_timeseries_using_schema_template_result_def by (intro settle_intros; simp)

lemma settles_handshake_args [settle_intros]: "m \<le> n \<Longrightarrow> settles sz m (read_handshake_args P n)"
  unfolding read_handshake_args_def by (intro settle_intros; simp)

lemma settles_handshake_result [settle_intros]: "m \<le> n \<Longrightarrow> settles sz m (read_handshake_result P n)"
  unfolding read_handshake_result_def by (intro settle_intros; simp)

lemma settles_send_pipe_data_args [settle_intros]: "m \<le> n \<Longrightarrow> settles sz m (read_send_pipe_data_args P n)"
  unfolding read_send_pipe_data_args_def by (intro settle_intros; simp)

lemma settles_send_pipe_data_result [settle_intros]: "m \<le> n \<Longrightarrow> settles sz m (read_send_pipe_data_result P n)"
  unfolding read_send_pipe_data_result_def by (intro settle_intros; simp)

lemma settles_send_file_args [settle_intros]: "m \<le> n \<Longrightarrow> settles sz m (read_send_file_args P n)"
  unfolding read_send_file_args_def by (intro settle_intros; simp)

lemma settles_send_file_result [settle_intros]: "m \<le> n \<Longrightarrow> settles sz m (read_send_file_result P n)"
  unfolding read_send_file_result_def by (intro settle_intros; simp)

lemma settles_pipe_transfer_args [settle_intros]: "m \<le> n \<Longrightarrow> settles sz m (read_pipe_transfer_args P n)"
  unfolding read_pipe_transfer_args_def by (intro settle_intros; simp)

lemma settles_pipe_transfer_result [settle_intros]: "m \<le> n \<Longrightarrow> settles sz m (read_pipe_transfer_result P n)"
  unfolding read_pipe_transfer_result_def by (intro settle_intros; simp)

lemma settles_pipe_subscribe_args [settle_intros]: "m \<le> n \<Longrightarrow> settles sz m (read_pipe_subscribe_args P n)"
  unfolding read_pipe_subscribe_args_def by (intro settle_intros; simp)

lemma settles_pipe_subscribe_result [settle_intros]: "m \<le> n \<Longrightarrow> settles sz m (read_pipe_subscribe_result P n)"
  unfolding read_pipe_subscribe_result_def by (intro settle_intros; simp)

lemma settles_get_backup_configuration_args [settle_intros]: "m \<le> n \<Longrightarrow> settles sz m (read_get_backup_configuration_args P n)"
  unfolding read_get_backup_configuration_args_def by (intro settle_intros; simp)

lemma settles_get_backup_configuration_result [settle_intros]: "m \<le> n \<Longrightarrow> settles sz m (read_get_backup_configuration_result P n)"
  unfolding read_get_backup_configuration_result_def by (intro settle_intros; simp)

lemma settles_fetch_all_connections_info_args [settle_intros]: "m \<le> n \<Longrightarrow> settles sz m (read_fetch_all_connections_info_args P n)"
  unfolding read_fetch_all_connections_info_args_def by (intro settle_intros; simp)

lemma settles_fetch_all_connections_info_result [settle_intros]: "m \<le> n \<Longrightarrow> settles sz m (read_fetch_all_connections_info_result P n)"
  unfolding read_fetch_all_connections_info_result_def by (intro settle_intros; simp)

lemma settles_test_connection_empty_r_p_c_args [settle_intros]: "m \<le> n \<Longrightarrow> settles sz m (read_test_connection_empty_r_p_c_args P n)"
  unfolding read_test_connection_empty_r_p_c_args_def by (intro settle_intros; simp)

lemma settles_test_connection_empty_r_p_c_result [settle_intros]: "m \<le> n \<Longrightarrow> settles sz m (read_test_connection_empty_r_p_c_result P n)"
  unfolding read_test_connection_empty_r_p_c_result_def by (intro settle_intros; simp)

end

section \<open>Calls and messages\<close>

lemma settled_outcome [simp]: "settled (outcome_of r)"
  by (simp add: outcome_of_def split: sum.split)

context finite_stream
begin

lemma calls_settle:
  assumes "sz (rc_in c) < n"
  shows
    "settled (fst (rpc_open_session P Q n q1 c)) \<and>
     settled (fst (rpc_close_session P Q n q2 c)) \<and>
     settled (fst (rpc_request_statement_id P Q n q3 c)) \<and>
     settled (fst (rpc_execute_query_statement_v2 P Q n q4 c)) \<and>
     settled (fst (rpc_execute_update_statement_v2 P Q n q5 c)) \<and>
     settled (fst (rpc_fetch_results_v2 P Q n q6 c)) \<and>
     settled (fst (rpc_close_operation P Q n q7 c)) \<and>
     settled (fst (rpc_insert_record P Q n q8 c)) \<and>
     settled (fst (rpc_insert_tablet P Q n q9 c)) \<and>
     settled (fst (rpc_insert_tablets P Q n q10 c)) \<and>
     settled (fst (rpc_insert_records P Q n q11 c)) \<and>
     settled (fst (rpc_insert_records_of_one_device P Q n q12 c)) \<and>
     settled (fst (rpc_execute_statement_v2 P Q n q13 c)) \<and>
     settled (fst (rpc_execute_raw_data_query_v2 P Q n q14 c)) \<and>
     settled (fst (rpc_execute_last_data_query_v2 P Q n q15 c)) \<and>
     settled (fst (rpc_execute_fast_last_data_query_for_one_prefix_path P Q n q16 c)) \<and>
     settled (fst (rpc_execute_fast_last_data_query_for_one_device_v2 P Q n q17 c)) \<and>
     settled (fst (rpc_execute_aggregation_query_v2 P Q n q18 c)) \<and>
     settled (fst (rpc_execute_statement P Q n q19 c)) \<and>
     settled (fst (rpc_execute_batch_statement P Q n q20 c)) \<and>
     settled (fst (rpc_execute_query_statement P Q n q21 c)) \<and>
     settled (fst (rpc_execute_update_statement P Q n q22 c)) \<and>
     settled (fst (rpc_fetch_results P Q n q23 c)) \<and>
     settled (fst (rpc_fetch_metadata P Q n q24 c)) \<and>
     settled (fst (rpc_cancel_operation P Q n q25 c)) \<and>
     settled (fst (rpc_prepare_statement P Q n q26 c)) \<and>
     settled (fst (rpc_execute_prepared_statement P Q n q27 c)) \<and>
     settled (fst (rpc_deallocate_prepared_statement P Q n q28 c)) \<and>
     settled (fst (rpc_get_time_zone P Q n q29 c)) \<and>
     settled (fst (rpc_set_time_zone P Q n q30 c)) \<and>
     settled (fst (rpc_get_properties P Q n q31 c)) \<and>
     settled (fst (rpc_set_storage_group P Q n q32 c)) \<and>
     settled (fst (rpc_create_timeseries P Q n q33 c)) \<and>
     settled (fst (rpc_create_aligned_timeseries P Q n q34 c)) \<and>
     settled (fst (rpc_create_multi_timeseries P Q n q35 c)) \<and>
     settled (fst (rpc_delete_timeseries P Q n q36 c)) \<and>
     settled (fst (rpc_delete_storage_groups P Q n q37 c)) \<and>
     settled (fst (rpc_insert_string_record P Q n q38 c)) \<and>
     settled (fst (rpc_insert_string_records_of_one_device P Q n q39 c)) \<and>
     settled (fst (rpc_insert_string_records P Q n q40 c)) \<and>
     settled (fst (rpc_test_insert_tablet P Q n q41 c)) \<and>
     settled (fst (rpc_test_insert_tablets P Q n q42 c)) \<and>
     settled (fst (rpc_test_insert_record P Q n q43 c)) \<and>
     settled (fst (rpc_test_insert_string_record P Q n q44 c)) \<and>
     settled (fst (rpc_test_insert_records P Q n q45 c)) \<and>
     settled (fst (rpc_test_insert_records_of_one_device P Q n q46 c)) \<and>
     settled (fst (rpc_test_insert_string_records P Q n q47 c)) \<and>
     settled (fst (rpc_delete_data P Q n q48 c)) \<and>
     settled (fst (rpc_execute_raw_data_query P Q n q49 c)) \<and>
     settled (fst (rpc_execute_last_data_query P Q n q50 c)) \<and>
     settled (fst (rpc_execute_aggregation_query P Q n q51 c)) \<and>
     settled (fst (rpc_create_schema_template P Q n q52 c)) \<and>
     settled (fst (rpc_append_schema_template P Q n q53 c)) \<and>
     settled (fst (rpc_prune_schema_template P Q n q54 c)) \<and>
     settled (fst (rpc_query_schema_template P Q n q55 c)) \<and>
     settled (fst (rpc_show_configuration_template P Q n q56 c)) \<and>
     settled (fst (rpc_show_configuration P Q n q57 c)) \<and>
     settled (fst (rpc_set_schema_template P Q n q58 c)) \<and>
     settled (fst (rpc_unset_schema_template P Q n q59 c)) \<and>
     settled (fst (rpc_drop_schema_template P Q n q60 c)) \<and>
     settled (fst (rpc_create_timeseries_using_schema_template P Q n q61 c)) \<and>
     settled (fst (rpc_handshake P Q n q62 c)) \<and>
     settled (fst (rpc_send_pipe_data P Q n q63 c)) \<and>
     settled (fst (rpc_send_file P Q n q64 c)) \<and>
     settled (fst (rpc_pipe_transfer P Q n q65 c)) \<and>
     settled (fst (rpc_pipe_subscribe P Q n q66 c)) \<and>
     settled (fst (rpc_get_backup_configuration P Q n q67 c)) \<and>
     settled (fst (rpc_fetch_all_connections_info P Q n q68 c)) \<and>
     settled (fst (rpc_test_connection_empty_r_p_c P Q n q69 c))"
  unfolding
      rpc_open_session_def
      rpc_close_session_def
      rpc_request_statement_id_def
      rpc_execute_query_statement_v2_def
      rpc_execute_update_statement_v2_def
      rpc_fetch_results_v2_def
      rpc_close_operation_def
      rpc_insert_record_def
      rpc_insert_tablet_def
      rpc_insert_tablets_def
      rpc_insert_records_def
      rpc_insert_records_of_one_device_def
      rpc_execute_statement_v2_def
      rpc_execute_raw_data_query_v2_def
      rpc_execute_last_data_query_v2_def
      rpc_execute_fast_last_data_query_for_one_prefix_path_def
      rpc_execute_fast_last_data_query_for_one_device_v2_def
      rpc_execute_aggregation_query_v2_def
      rpc_execute_statement_def
      rpc_execute_batch_statement_def
      rpc_execute_query_statement_def
      rpc_execute_update_statement_def
      rpc_fetch_results_def
      rpc_fetch_metadata_def
      rpc_cancel_operation_def
      rpc_prepare_statement_def
      rpc_execute_prepared_statement_def
      rpc_deallocate_prepared_statement_def
      rpc_get_time_zone_def
      rpc_set_time_zone_def
      rpc_get_properties_def
      rpc_set_storage_group_def
      rpc_create_timeseries_def
      rpc_create_aligned_timeseries_def
      rpc_create_multi_timeseries_def
      rpc_delete_timeseries_def
      rpc_delete_storage_groups_def
      rpc_insert_string_record_def
      rpc_insert_string_records_of_one_device_def
      rpc_insert_string_records_def
      rpc_test_insert_tablet_def
      rpc_test_insert_tablets_def
      rpc_test_insert_record_def
      rpc_test_insert_string_record_def
      rpc_test_insert_records_def
      rpc_test_insert_records_of_one_device_def
      rpc_test_insert_string_records_def
      rpc_delete_data_def
      rpc_execute_raw_data_query_def
      rpc_execute_last_data_query_def
      rpc_execute_aggregation_query_def
      rpc_create_schema_template_def
      rpc_append_schema_template_def
      rpc_prune_schema_template_def
      rpc_query_schema_template_def
      rpc_show_configuration_template_def
      rpc_show_configuration_def
      rpc_set_schema_template_def
      rpc_unset_schema_template_def
      rpc_drop_schema_template_def
      rpc_create_timeseries_using_schema_template_def
      rpc_handshake_def
      rpc_send_pipe_data_def
      rpc_send_file_def
      rpc_pipe_transfer_def
      rpc_pipe_subscribe_def
      rpc_get_backup_configuration_def
      rpc_fetch_all_connections_info_def
      rpc_test_connection_empty_r_p_c_def
  by (intro conjI settles_call [OF _ assms] settle_intros order_refl)

lemma process_call_settles:
  assumes "settles sz m rargs" "sz i < m"
  shows "settled (fst (process_call Q T name rargs wres handle sn i ob s))"
  using settlesD [OF assms(1) _ assms(2)]
  by (cases "rargs i"; cases "fst (rargs i)") (fastforce simp: process_call_def split: prod.split sum.split)+

lemmas process_defs =
    process_execute_query_statement_v2_def
    process_execute_update_statement_v2_def
    process_execute_statement_v2_def
    process_execute_raw_data_query_v2_def
    process_execute_last_data_query_v2_def
    process_execute_fast_last_data_query_for_one_prefix_path_def
    process_execute_fast_last_data_query_for_one_device_v2_def
    process_execute_aggregation_query_v2_def
    process_fetch_results_v2_def
    process_open_session_def
    process_close_session_def
    process_execute_statement_def
    process_execute_batch_statement_def
    process_execute_query_statement_def
    process_execute_update_statement_def
    process_fetch_results_def
    process_fetch_metadata_def
    process_cancel_operation_def
    process_close_operation_def
    process_prepare_statement_def
    process_execute_prepared_statement_def
    process_deallocate_prepared_statement_def
    process_get_time_zone_def
    process_set_time_zone_def
    process_get_properties_def
    process_set_storage_group_def
    process_create_timeseries_def
    process_create_aligned_timeseries_def
    process_create_multi_timeseries_def
    process_delete_timeseries_def
    process_delete_storage_groups_def
    process_insert_record_def
    process_insert_string_record_def
    process_insert_tablet_def
    process_insert_tablets_def
    process_insert_records_def
    process_insert_records_of_one_device_def
    process_insert_string_records_of_one_device_def
    process_insert_string_records_def
    process_test_insert_tablet_def
    process_test_insert_tablets_def
    process_test_insert_record_def
    process_test_insert_string_record_def
    process_test_insert_records_def
    process_test_insert_records_of_one_device_def
    process_test_insert_string_records_def
    process_delete_data_def
    process_execute_raw_data_query_def
    process_execute_last_data_query_def
    process_execute_aggregation_query_def
    process_request_statement_id_def
    process_create_schema_template_def
    process_append_schema_template_def
    process_prune_schema_template_def
    process_query_schema_template_def
    process_show_configuration_template_def
    process_show_configuration_def
    process_set_schema_template_def
    process_unset_schema_template_def
    process_drop_schema_template_def
    process_create_timeseries_using_schema_template_def
    process_handshake_def
    process_send_pipe_data_def
    process_send_file_def
    process_pipe_transfer_def
    process_pipe_subscribe_def
    process_get_backup_configuration_def
    process_fetch_all_connections_info_def
    process_test_connection_empty_r_p_c_def

lemma process_table_settles:
  assumes "(name, f) \<in> set (process_table P Q T n H)" "sz i < n"
  shows "settled (fst (f sn i ob s))"
proof -
  have "list_all (\<lambda>(name, f). settled (fst (f sn i ob s))) (process_table P Q T n H)"
    unfolding process_table_def list.pred_inject prod.case process_defs
    by (intro conjI process_call_settles [OF _ assms(2)] settle_intros order_refl) simp
  with assms(1) show ?thesis by (auto simp: list_all_iff)
qed

lemma process_settles:
  assumes "sz i < n"
  shows "settled (fst (process P Q T n H i ob s))"
proof (cases "ip_message_begin P i")
  case (Pair a i')
  then have i': "sz i' < n" using marks(1) assms unfolding shrinking_def by (metis le_less_trans snd_conv)
  have arm: "settled (fst (f sn i' ob s))" if "map_of (process_table P Q T n H) name = Some f" for name f sn
    using process_table_settles [OF map_of_SomeD [OF that] i'] .
  show ?thesis
  proof (cases a)
    case (Inr h)
    obtain name mt sn where h: "h = (name, mt, sn)" by (rule prod_cases3)
    show ?thesis
    proof (cases "map_of (process_table P Q T n H) name")
      case (Some f)
      obtain r j ob' s' where f: "f sn i' ob s = (r, j, ob', s')" by (rule prod_cases4)
      with arm [OF Some, of sn] have "settled r" by simp
      then show ?thesis using Pair Inr h Some f
        by (cases r) (simp_all add: process_def split_beta)
    qed (simp add: process_def Pair Inr h split_beta)
  qed (simp add: process_def Pair)
qed

end

section \<open>Properties\<close>

text \<open>
  C10: No message, however malformed, makes the generated code panic or run for ever. On any stream that
  is finite in the sense of \<open>finite_stream\<close>, whatever it holds, each of the sixty-nine calls of the client
  returns a value or an error, and so does the processor of the server for whatever message it is
  handed. Turns to the number of the bytes on the stream are always enough.
\<close>

theorem any_message_settles:
  assumes "finite_stream P sz" "sz (rc_in c) < n" "sz i < n"
  shows
    "settled (fst (process P Q' T n H i ob s)) \<and>
     settled (fst (rpc_open_session P Q n q1 c)) \<and>
     settled (fst (rpc_close_session P Q n q2 c)) \<and>
     settled (fst (rpc_request_statement_id P Q n q3 c)) \<and>
     settled (fst (rpc_execute_query_statement_v2 P Q n q4 c)) \<and>
     settled (fst (rpc_execute_update_statement_v2 P Q n q5 c)) \<and>
     settled (fst (rpc_fetch_results_v2 P Q n q6 c)) \<and>
     settled (fst (rpc_close_operation P Q n q7 c)) \<and>
     settled (fst (rpc_insert_record P Q n q8 c)) \<and>
     settled (fst (rpc_insert_tablet P Q n q9 c)) \<and>
     settled (fst (rpc_insert_tablets P Q n q10 c)) \<and>
     settled (fst (rpc_insert_records P Q n q11 c)) \<and>
     settled (fst (rpc_insert_records_of_one_device P Q n q12 c)) \<and>
     settled (fst (rpc_execute_statement_v2 P Q n q13 c)) \<and>
     settled (fst (rpc_execute_raw_data_query_v2 P Q n q14 c)) \<and>
     settled (fst (rpc_execute_last_data_query_v2 P Q n q15 c)) \<and>
     settled (fst (rpc_execute_fast_last_data_query_for_one_prefix_path P Q n q16 c)) \<and>
     settled (fst (rpc_execute_fast_last_data_query_for_one_device_v2 P Q n q17 c)) \<and>
     settled (fst (rpc_execute_aggregation_query_v2 P Q n q18 c)) \<and>
     settled (fst (rpc_execute_statement P Q n q19 c)) \<and>
     settled (fst (rpc_execute_batch_statement P Q n q20 c)) \<and>
     settled (fst (rpc_execute_query_statement P Q n q21 c)) \<and>
     settled (fst (rpc_execute_update_statement P Q n q22 c)) \<and>
     settled (fst (rpc_fetch_results P Q n q23 c)) \<and>
     settled (fst (rpc_fetch_metadata P Q n q24 c)) \<and>
     settled (fst (rpc_cancel_operation P Q n q25 c)) \<and>
     settled (fst (rpc_prepare_statement P Q n q26 c)) \<and>
     settled (fst (rpc_execute_prepared_statement P Q n q27 c)) \<and>
     settled (fst (rpc_deallocate_prepared_statement P Q n q28 c)) \<and>
     settled (fst (rpc_get_time_zone P Q n q29 c)) \<and>
     settled (fst (rpc_set_time_zone P Q n q30 c)) \<and>
     settled (fst (rpc_get_properties P Q n q31 c)) \<and>
     settled (fst (rpc_set_storage_group P Q n q32 c)) \<and>
     settled (fst (rpc_create_timeseries P Q n q33 c)) \<and>
     settled (fst (rpc_create_aligned_timeseries P Q n q34 c)) \<and>
     settled (fst (rpc_create_multi_timeseries P Q n q35 c)) \<and>
     settled (fst (rpc_delete_timeseries P Q n q36 c)) \<and>
     settled (fst (rpc_delete_storage_groups P Q n q37 c)) \<and>
     settled (fst (rpc_insert_string_record P Q n q38 c)) \<and>
     settled (fst (rpc_insert_string_records_of_one_device P Q n q39 c)) \<and>
     settled (fst (rpc_insert_string_records P Q n q40 c)) \<and>
     settled (fst (rpc_test_insert_tablet P Q n q41 c)) \<and>
     settled (fst (rpc_test_insert_tablets P Q n q42 c)) \<and>
     settled (fst (rpc_test_insert_record P Q n q43 c)) \<and>
     settled (fst (rpc_test_insert_string_record P Q n q44 c)) \<and>
     settled (fst (rpc_test_insert_records P Q n q45 c)) \<and>
     settled (fst (rpc_test_insert_records_of_one_device P Q n q46 c)) \<and>
     settled (fst (rpc_test_insert_string_records P Q n q47 c)) \<and>
     settled (fst (rpc_delete_data P Q n q48 c)) \<and>
     settled (fst (rpc_execute_raw_data_query P Q n q49 c)) \<and>
     settled (fst (rpc_execute_last_data_query P Q n q50 c)) \<and>
     settled (fst (rpc_execute_aggregation_query P Q n q51 c)) \<and>
     settled (fst (rpc_create_schema_template P Q n q52 c)) \<and>
     settled (fst (rpc_append_schema_template P Q n q53 c)) \<and>
     settled (fst (rpc_prune_schema_template P Q n q54 c)) \<and>
     settled (fst (rpc_query_schema_template P Q n q55 c)) \<and>
     settled (fst (rpc_show_configuration_template P Q n q56 c)) \<and>
     settled (fst (rpc_show_configuration P Q n q57 c)) \<and>
     settled (fst (rpc_set_schema_template P Q n q58 c)) \<and>
     settled (fst (rpc_unset_schema_template P Q n q59 c)) \<and>
     settled (fst (rpc_drop_schema_template P Q n q60 c)) \<and>
     settled (fst (rpc_create_timeseries_using_schema_template P Q n q61 c)) \<and>
     settled (fst (rpc_handshake P Q n q62 c)) \<and>
     settled (fst (rpc_send_pipe_data P Q n q63 c)) \<and>
     settled (fst (rpc_send_file P Q n q64 c)) \<and>
     settled (fst (rpc_pipe_transfer P Q n q65 c)) \<and>
     settled (fst (rpc_pipe_subscribe P Q n q66 c)) \<and>
     settled (fst (rpc_get_backup_configuration P Q n q67 c)) \<and>
     settled (fst (rpc_fetch_all_connections_info P Q n q68 c)) \<and>
     settled (fst (rpc_test_connection_empty_r_p_c P Q n q69 c))"
  by (rule conjI [OF finite_stream.process_settles [OF assms(1,3)] finite_stream.calls_settle [OF assms(1,2)]])

theorem any_message_settles_witness:
  "settled (fst (rpc_fetch_results_v2 binary_protocol append_encoded 9
     \<lparr>frq_session_id = 1, frq_statement = [], frq_fetch_size = 1, frq_query_id = 1, frq_is_align = True,
      frq_timeout = None, frq_statement_id = None\<rparr>
     \<lparr>rc_in = [0x80, 1, 0, 2, 0xFF, 0xFF, 0, 7], rc_out = [], rc_sequence_number = 0\<rparr>))"
proof -
  let ?c = "\<lparr>rc_in = [0x80, 1, 0, 2, 0xFF, 0xFF, 0, 7], rc_out = [], rc_sequence_number = 0\<rparr> :: (bytes, bytes) rpc_client"
  have "length (rc_in ?c) < 9" "length ([] :: bytes) < 9" by simp_all
  then show ?thesis
    by (rule any_message_settles [OF binary_stream.finite_stream_axioms, THEN conjunct2, THEN conjunct2,
          THEN conjunct2, THEN conjunct2, THEN conjunct2, THEN conjunct2, THEN conjunct1])
qed

end
