(* ===== verification/Benchmark.thy ===== *)
theory Benchmark
  imports DataSet Pool
begin

text \<open>
  The write benchmark of \<^verbatim>\<open>examples/benchmark.rs\<close>: its command line, the data it generates, the schedule of
  each worker, the loop in which a worker sends it, and the figures it reports. Floating-point numbers
  are their bits; the operations on them are the parameter \<open>float_ops\<close>. The \<^verbatim>\<open>usize\<close> values of the
  configuration and the indices computed from them are natural numbers, which is exact as long as the
  number of points of the run fits into 64 bits; where the code casts them to \<^verbatim>\<open>i64\<close> or \<^verbatim>\<open>u64\<close>, the cast keeps
  the low 64 bits. The counters of the statistics are 64-bit words. Printing, the progress reporter and the
  threads around the workers are left out.
\<close>

section \<open>Configuration\<close>

datatype bench_mode = ModeTree | ModeTable

record bench_config =
  bc_mode :: bench_mode
  bc_devices :: nat
  bc_sensors :: nat
  bc_batches :: nat
  bc_batch_size :: nat
  bc_clients :: nat
  bc_host :: string
  bc_port :: u16
  bc_user :: string
  bc_password :: string
  bc_base_ts :: i64
  bc_point_step :: i64
  bc_reuse_tablets :: nat
  bc_tablets_per_rpc :: nat
  bc_all_double :: bool
  bc_cleanup :: bool

definition total_points :: "bench_config \<Rightarrow> 64 word" where
  "total_points c = word_of_nat (bc_devices c * bc_sensors c * bc_batches c * bc_batch_size c)"

text \<open>\<^verbatim>\<open>str::parse::<usize>\<close>, and the process exit with a code as the left case of a sum.\<close>

definition parse_usize :: "string \<Rightarrow> nat option" where
  "parse_usize s =
     (let d = (case s of [] \<Rightarrow> [] | c # r \<Rightarrow> if c = CHR ''+'' then r else s) in
      if d = [] \<or> \<not> list_all is_digit d then None
      else let n = digits_val 0 d in if n < 2 ^ 64 then Some n else None)"

definition parse_num :: "string \<Rightarrow> nat + nat" where
  "parse_num s = (case parse_usize s of None \<Rightarrow> Inl 2 | Some n \<Rightarrow> Inr n)"

definition env_or :: "(string \<Rightarrow> string option) \<Rightarrow> string \<Rightarrow> string \<Rightarrow> string" where
  "env_or getenv key fallback = (case getenv key of None \<Rightarrow> fallback | Some v \<Rightarrow> v)"

definition default_config :: "(string \<Rightarrow> string option) \<Rightarrow> bench_config" where
  "default_config getenv =
     \<lparr>bc_mode = ModeTree, bc_devices = 100, bc_sensors = 10, bc_batches = 20, bc_batch_size = 1000, bc_clients = 8,
      bc_host = env_or getenv ''IOTDB_HOST'' ''127.0.0.1'',
      bc_port = (case parse_u16 (env_or getenv ''IOTDB_PORT'' ''6667'') of None \<Rightarrow> 6667 | Some p \<Rightarrow> p),
      bc_user = env_or getenv ''IOTDB_USER'' ''root'',
      bc_password = env_or getenv ''IOTDB_PASSWORD'' ''root'',
      bc_base_ts = 1720000000000, bc_point_step = 1000, bc_reuse_tablets = 0, bc_tablets_per_rpc = 1,
      bc_all_double = False, bc_cleanup = False\<rparr>"

text \<open>A flag with its value; \<open>None\<close> is a flag that takes none.\<close>

definition set_flag :: "string \<Rightarrow> (string \<Rightarrow> bench_config \<Rightarrow> nat + bench_config) option" where
  "set_flag flag =
     (if flag = ''--mode'' then Some (\<lambda>v c.
        if v = ''tree'' then Inr (c\<lparr>bc_mode := ModeTree\<rparr>)
        else if v = ''table'' then Inr (c\<lparr>bc_mode := ModeTable\<rparr>) else Inl 2)
      else if flag = ''--devices'' then Some (\<lambda>v c. bindr (parse_num v) (\<lambda>n. Inr (c\<lparr>bc_devices := n\<rparr>)))
      else if flag = ''--sensors'' then Some (\<lambda>v c. bindr (parse_num v) (\<lambda>n. Inr (c\<lparr>bc_sensors := n\<rparr>)))
      else if flag = ''--batches'' then Some (\<lambda>v c. bindr (parse_num v) (\<lambda>n. Inr (c\<lparr>bc_batches := n\<rparr>)))
      else if flag = ''--batch-size'' then Some (\<lambda>v c. bindr (parse_num v) (\<lambda>n. Inr (c\<lparr>bc_batch_size := n\<rparr>)))
      else if flag = ''--clients'' then Some (\<lambda>v c. bindr (parse_num v) (\<lambda>n. Inr (c\<lparr>bc_clients := n\<rparr>)))
      else if flag = ''--host'' then Some (\<lambda>v c. Inr (c\<lparr>bc_host := v\<rparr>))
      else if flag = ''--port'' then Some (\<lambda>v c. bindr (parse_num v) (\<lambda>n. Inr (c\<lparr>bc_port := word_of_nat n\<rparr>)))
      else if flag = ''--user'' then Some (\<lambda>v c. Inr (c\<lparr>bc_user := v\<rparr>))
      else if flag = ''--password'' then Some (\<lambda>v c. Inr (c\<lparr>bc_password := v\<rparr>))
      else if flag = ''--base-ts'' then Some (\<lambda>v c. bindr (parse_num v) (\<lambda>n. Inr (c\<lparr>bc_base_ts := word_of_nat n\<rparr>)))
      else if flag = ''--point-step'' then Some (\<lambda>v c. bindr (parse_num v) (\<lambda>n. Inr (c\<lparr>bc_point_step := word_of_nat n\<rparr>)))
      else if flag = ''--reuse-tablets'' then Some (\<lambda>v c. bindr (parse_num v) (\<lambda>n. Inr (c\<lparr>bc_reuse_tablets := n\<rparr>)))
      else if flag = ''--tablets-per-rpc'' then Some (\<lambda>v c. bindr (parse_num v) (\<lambda>n. Inr (c\<lparr>bc_tablets_per_rpc := n\<rparr>)))
      else if flag = ''--datatype'' then Some (\<lambda>v c.
        if v = ''double'' then Inr (c\<lparr>bc_all_double := True\<rparr>)
        else if v = ''mixed'' then Inr (c\<lparr>bc_all_double := False\<rparr>) else Inl 2)
      else None)"

fun parse_flags :: "string list \<Rightarrow> bench_config \<Rightarrow> nat + bench_config" where
  "parse_flags [] c = Inr c"
| "parse_flags (flag # rest) c =
     (case set_flag flag of
        Some put \<Rightarrow> (case rest of [] \<Rightarrow> Inl 2 | v # rest' \<Rightarrow> bindr (put v c) (parse_flags rest'))
      | None \<Rightarrow>
          if flag = ''--cleanup'' then parse_flags rest (c\<lparr>bc_cleanup := True\<rparr>)
          else if flag = ''--help'' \<or> flag = ''-h'' then Inl 0
          else Inl 2)"

definition check_config :: "bench_config \<Rightarrow> nat + bench_config" where
  "check_config c =
     (if 0 \<in> {bc_devices c, bc_sensors c, bc_batches c, bc_batch_size c, bc_clients c, bc_tablets_per_rpc c} then Inl 2
      else if 1 < bc_tablets_per_rpc c \<and> bc_mode c = ModeTable then Inl 2
      else Inr c)"

definition parse_args :: "(string \<Rightarrow> string option) \<Rightarrow> string list \<Rightarrow> nat + bench_config" where
  "parse_args getenv args = bindr (parse_flags args (default_config getenv)) check_config"

section \<open>Data\<close>

record float_ops =
  fo_f32_of :: "64 word \<Rightarrow> f32"
  fo_f32_mul :: "f32 \<Rightarrow> f32 \<Rightarrow> f32"
  fo_f64_of :: "64 word \<Rightarrow> f64"
  fo_f64_mul :: "f64 \<Rightarrow> f64 \<Rightarrow> f64"
  fo_f64_div :: "f64 \<Rightarrow> f64 \<Rightarrow> f64"
  fo_f64_lt :: "f64 \<Rightarrow> f64 \<Rightarrow> bool"
  fo_ceil :: "f64 \<Rightarrow> nat"
  fo_millis :: "nat \<Rightarrow> f64"

text \<open>The literals 0.3, 0.5, 0.7, 0.8 and 0.9 as doubles.\<close>

definition sensor_type :: "float_ops \<Rightarrow> nat \<Rightarrow> nat \<Rightarrow> ts_data_type" where
  "sensor_type fo i n =
     (let f = fo_f64_div fo (fo_f64_of fo (word_of_nat i)) (fo_f64_of fo (word_of_nat n)) in
      if fo_f64_lt fo f 0x3FD3333333333333 then TFloat
      else if fo_f64_lt fo f 0x3FE0000000000000 then TDouble
      else if fo_f64_lt fo f 0x3FE6666666666666 then TInt32
      else if fo_f64_lt fo f 0x3FE999999999999A then TInt64
      else if fo_f64_lt fo f 0x3FECCCCCCCCCCCCD then TText
      else TBoolean)"

text \<open>\<open>None\<close> is an \<^verbatim>\<open>unreachable!\<close>.\<close>

definition type_name :: "ts_data_type \<Rightarrow> string option" where
  "type_name ty =
     (case ty of
        TFloat \<Rightarrow> Some ''FLOAT'' | TDouble \<Rightarrow> Some ''DOUBLE'' | TInt32 \<Rightarrow> Some ''INT32'' | TInt64 \<Rightarrow> Some ''INT64''
      | TText \<Rightarrow> Some ''TEXT'' | TBoolean \<Rightarrow> Some ''BOOLEAN'' | _ \<Rightarrow> None)"

text \<open>\<^verbatim>\<open>format!("v{:0width$}", n, width = TEXT_LEN - 1)\<close>\<close>

definition TEXT_LEN :: nat where "TEXT_LEN = 16"

definition pad_zero :: "nat \<Rightarrow> string \<Rightarrow> string" where
  "pad_zero width s = replicate (width - length s) (CHR ''0'') @ s"

definition cell_value :: "float_ops \<Rightarrow> ts_data_type \<Rightarrow> nat \<Rightarrow> nat \<Rightarrow> nat \<Rightarrow> ts_value option" where
  "cell_value fo ty device sensor row =
     (let seed = word_of_nat row * 31 + word_of_nat sensor * 7 + word_of_nat device :: 64 word in
      case ty of
        TFloat \<Rightarrow> Some (VFloat (fo_f32_mul fo (fo_f32_of fo (seed mod 1000)) 0x3DCCCCCD))
      | TDouble \<Rightarrow> Some (VDouble (fo_f64_mul fo (fo_f64_of fo (seed mod 10000)) 0x3F847AE147AE147B))
      | TInt32 \<Rightarrow> Some (VInt32 (ucast (seed mod 100000)))
      | TInt64 \<Rightarrow> Some (VInt64 seed)
      | TText \<Rightarrow> Some (VText (''v'' @ pad_zero (TEXT_LEN - 1) (show_nat (unat (seed mod 1000000000)))))
      | TBoolean \<Rightarrow> Some (VBoolean (seed mod 2 = 0))
      | _ \<Rightarrow> None)"

definition TREE_DB :: string where "TREE_DB = ''root.benchmark''"
definition TABLE_DB :: string where "TABLE_DB = ''benchmark_db''"
definition TABLE_NAME :: string where "TABLE_NAME = ''benchmark_table''"

definition empty_tablet :: "bench_config \<Rightarrow> nat \<Rightarrow> string list \<Rightarrow> ts_data_type list \<Rightarrow> tablet result" where
  "empty_tablet c device names tys =
     (case bc_mode c of
        ModeTree \<Rightarrow> tablet_new (TREE_DB @ ''.d'' @ show_nat device) names tys
      | ModeTable \<Rightarrow> tablet_new_table TABLE_NAME (''device_id'' # names) (TString # tys) (Tag # replicate (length tys) Field))"

definition row_time :: "bench_config \<Rightarrow> nat \<Rightarrow> i64" where
  "row_time c row_index = bc_base_ts c + word_of_nat row_index * bc_point_step c"

definition bench_row ::
    "float_ops \<Rightarrow> bench_config \<Rightarrow> nat \<Rightarrow> ts_data_type list \<Rightarrow> nat \<Rightarrow> ts_value option list option" where
  "bench_row fo c device tys row_index =
     map_option (\<lambda>cells.
       (case bc_mode c of ModeTable \<Rightarrow> [Some (VString (''d'' @ show_nat device))] | ModeTree \<Rightarrow> []) @ map Some cells)
     (those (map (\<lambda>(s, ty). cell_value fo ty device s row_index) (enumerate 0 tys)))"

fun add_rows :: "float_ops \<Rightarrow> bench_config \<Rightarrow> nat \<Rightarrow> ts_data_type list \<Rightarrow> nat list \<Rightarrow> tablet \<Rightarrow> tablet result option" where
  "add_rows fo c device tys [] t = Some (Inr t)"
| "add_rows fo c device tys (row_index # rs) t =
     (case bench_row fo c device tys row_index of
        None \<Rightarrow> None
      | Some row \<Rightarrow>
          (case add_row t (row_time c row_index) row of
             Inl e \<Rightarrow> Some (Inl e)
           | Inr t \<Rightarrow> add_rows fo c device tys rs t))"

definition build_tablet ::
    "float_ops \<Rightarrow> bench_config \<Rightarrow> nat \<Rightarrow> nat \<Rightarrow> string list \<Rightarrow> ts_data_type list \<Rightarrow> tablet result option" where
  "build_tablet fo c device batch names tys =
     (case empty_tablet c device names tys of
        Inl e \<Rightarrow> Some (Inl e)
      | Inr t \<Rightarrow> add_rows fo c device tys (map (\<lambda>r. batch * bc_batch_size c + r) [0..<bc_batch_size c]) t)"

definition sensor_names :: "bench_config \<Rightarrow> string list" where
  "sensor_names c = map (\<lambda>i. ''s_'' @ show_nat i) [0..<bc_sensors c]"

definition sensor_types :: "float_ops \<Rightarrow> bench_config \<Rightarrow> ts_data_type list" where
  "sensor_types fo c = map (\<lambda>i. if bc_all_double c then TDouble else sensor_type fo i (bc_sensors c)) [0..<bc_sensors c]"

section \<open>Pool and schema\<close>

definition bench_pool_config :: "bench_config \<Rightarrow> session_pool_config result" where
  "bench_pool_config c =
     bindr (pool_with_node_urls
         (session_pool_config_default\<lparr>spc_max_size := word_of_nat (bc_clients c), spc_min_size := word_of_nat (bc_clients c)\<rparr>)
         [bc_host c @ '':'' @ show_nat (unat (bc_port c))])
       (\<lambda>pc. Inr (pc\<lparr>spc_session := (spc_session pc)\<lparr>sc_username := bc_user c, sc_password := bc_password c\<rparr>\<rparr>))"

definition create_pool :: "'w env \<Rightarrow> bench_config \<Rightarrow> 64 word \<Rightarrow> 'w \<Rightarrow> 'w pool result \<times> 64 word \<times> 'w" where
  "create_pool env c index w =
     (case bench_pool_config c of
        Inl e \<Rightarrow> (Inl e, index, w)
      | Inr pc \<Rightarrow> (case bc_mode c of ModeTree \<Rightarrow> pool_new env pc index w | ModeTable \<Rightarrow> table_pool_new env pc index w))"

text \<open>
  The statements of the setup in order, each with whether its error is ignored; \<open>None\<close> when the name of a
  type is unreachable.
\<close>

fun join :: "string \<Rightarrow> string list \<Rightarrow> string" where
  "join sep [] = []"
| "join sep [x] = x"
| "join sep (x # y # xs) = x @ sep @ join sep (y # xs)"

definition setup_statements ::
    "bench_config \<Rightarrow> string list \<Rightarrow> ts_data_type list \<Rightarrow> (string \<times> bool) list option" where
  "setup_statements c names tys =
     map_option (\<lambda>columns.
       case bc_mode c of
         ModeTree \<Rightarrow>
           (''DELETE DATABASE '' @ TREE_DB, True) # (''CREATE DATABASE '' @ TREE_DB, False) #
           concat (map (\<lambda>device. map (\<lambda>(name, ty).
             (''CREATE TIMESERIES '' @ TREE_DB @ ''.d'' @ show_nat device @ ''.'' @ name @ '' WITH DATATYPE='' @ ty @
              '', ENCODING=PLAIN'', False)) columns) [0..<bc_devices c])
       | ModeTable \<Rightarrow>
           [(''DROP DATABASE IF EXISTS '' @ TABLE_DB, True), (''CREATE DATABASE '' @ TABLE_DB, False),
            (''USE '' @ TABLE_DB, False),
            (''CREATE TABLE IF NOT EXISTS '' @ TABLE_NAME @ '' ('' @
               join '', '' (''device_id STRING TAG'' # map (\<lambda>(name, ty). name @ '' '' @ ty @ '' FIELD'') columns) @ '')'', False)])
     (those (map (\<lambda>(name, ty). map_option (Pair name) (type_name ty)) (zip names tys)))"

definition cleanup_statement :: "bench_mode \<Rightarrow> string" where
  "cleanup_statement mode =
     (case mode of ModeTree \<Rightarrow> ''DELETE DATABASE '' @ TREE_DB | ModeTable \<Rightarrow> ''DROP DATABASE '' @ TABLE_DB)"

text \<open>The check after the run: the query, what it expects, and the sum over the rows of its answer.\<close>

definition verify_statement :: "bench_mode \<Rightarrow> string" where
  "verify_statement mode =
     (case mode of
        ModeTree \<Rightarrow> ''SELECT COUNT(s_0) FROM '' @ TREE_DB @ ''.*''
      | ModeTable \<Rightarrow> ''SELECT COUNT(*) FROM '' @ TABLE_NAME)"

definition expected_rows :: "bench_config \<Rightarrow> i64" where
  "expected_rows c = word_of_nat (bc_devices c * bc_batches c * bc_batch_size c)"

definition count_rows :: "ts_value list list \<Rightarrow> i64" where
  "count_rows rows = fold (\<lambda>vs total. fold (\<lambda>v total. case v of VInt64 n \<Rightarrow> total + n | _ \<Rightarrow> total) vs total) rows 0"

section \<open>The schedule of a worker\<close>

text \<open>A worker walks its devices batch by batch; with \<^verbatim>\<open>--reuse-tablets\<close> only the first tablets are built.\<close>

definition worker_devices :: "bench_config \<Rightarrow> nat \<Rightarrow> nat list" where
  "worker_devices c w = filter (\<lambda>d. d mod bc_clients c = w) [0..<bc_devices c]"

definition schedule_len :: "bench_config \<Rightarrow> nat \<Rightarrow> nat" where
  "schedule_len c w = length (worker_devices c w) * bc_batches c"

definition materialized :: "bench_config \<Rightarrow> nat \<Rightarrow> nat" where
  "materialized c w =
     (if 0 < bc_reuse_tablets c then min (schedule_len c w) (bc_reuse_tablets c) else schedule_len c w)"

definition schedule :: "bench_config \<Rightarrow> nat \<Rightarrow> (nat \<times> nat) list" where
  "schedule c w = concat (map (\<lambda>batch. map (\<lambda>device. (batch, device)) (worker_devices c w)) [0..<bc_batches c])"

fun build_all ::
    "float_ops \<Rightarrow> bench_config \<Rightarrow> string list \<Rightarrow> ts_data_type list \<Rightarrow> (nat \<times> nat) list \<Rightarrow> tablet list result option" where
  "build_all fo c names tys [] = Some (Inr [])"
| "build_all fo c names tys ((batch, device) # rest) =
     (case build_tablet fo c device batch names tys of
        None \<Rightarrow> None
      | Some (Inl e) \<Rightarrow> Some (Inl e)
      | Some (Inr t) \<Rightarrow> map_option (\<lambda>r. bindr r (\<lambda>ts. Inr (t # ts))) (build_all fo c names tys rest))"

definition worker_tablets :: "float_ops \<Rightarrow> bench_config \<Rightarrow> nat \<Rightarrow> tablet list result option" where
  "worker_tablets fo c w =
     build_all fo c (sensor_names c) (sensor_types fo c) (take (materialized c w) (schedule c w))"

section \<open>The loop of a worker\<close>

record worker_stats =
  ws_latencies_ms :: "f64 list"
  ws_ops :: u64
  ws_fail_operations :: u64
  ws_points :: u64
  ws_fail_points :: u64
  ws_error_samples :: "error list"

definition worker_stats_default :: worker_stats where
  "worker_stats_default =
     \<lparr>ws_latencies_ms = [], ws_ops = 0, ws_fail_operations = 0, ws_points = 0, ws_fail_points = 0, ws_error_samples = []\<rparr>"

text \<open>Write the times of insert number \<open>j\<close> of a worker into a reused tablet.\<close>

definition rebase :: "bench_config \<Rightarrow> nat \<Rightarrow> tablet \<Rightarrow> tablet" where
  "rebase c j t =
     (let window = bc_base_ts c + word_of_nat (j * bc_batch_size c) * bc_point_step c
      in t\<lparr>tb_timestamps := map (\<lambda>r. window + word_of_nat r * bc_point_step c) [0..<row_count t]\<rparr>)"

definition chunk_at :: "bench_config \<Rightarrow> nat \<Rightarrow> nat \<Rightarrow> nat \<Rightarrow> nat" where
  "chunk_at c len m i = min (min (bc_tablets_per_rpc c) (len - i)) (m - i mod m)"

text \<open>A slice \<^verbatim>\<open>xs[a..b]\<close>; \<open>None\<close> is its panic.\<close>

definition slice :: "nat \<Rightarrow> nat \<Rightarrow> 'a list \<Rightarrow> 'a list option" where
  "slice a b xs = (if a \<le> b \<and> b \<le> length xs then Some (take (b - a) (drop a xs)) else None)"

text \<open>The ring after the reused tablets were moved, the batch, and its size; \<open>None\<close> is a panic.\<close>

definition prepare_batch ::
    "bench_config \<Rightarrow> nat \<Rightarrow> nat \<Rightarrow> tablet list \<Rightarrow> (tablet list \<times> tablet list \<times> nat) option" where
  "prepare_batch c len i tablets =
     (let m = length tablets; idx = i mod m; chunk = chunk_at c len m i;
          moved =
            (if 0 < bc_reuse_tablets c
             then map_option (\<lambda>part. take idx tablets @ map (\<lambda>(k, t). rebase c (i + k) t) (enumerate 0 part) @
                    drop (idx + chunk) tablets) (slice idx (idx + chunk) tablets)
             else Some tablets)
      in Option.bind moved (\<lambda>tablets.
           map_option (\<lambda>batch. (tablets, batch, chunk)) (slice idx (idx + chunk) tablets)))"

definition note_outcome :: "unit result \<Rightarrow> f64 \<Rightarrow> u64 \<Rightarrow> worker_stats \<Rightarrow> worker_stats" where
  "note_outcome r elapsed points st =
     (let st = st\<lparr>ws_ops := ws_ops st + 1\<rparr> in
      case r of
        Inr _ \<Rightarrow> st\<lparr>ws_latencies_ms := ws_latencies_ms st @ [elapsed], ws_points := ws_points st + points\<rparr>
      | Inl e \<Rightarrow>
          st\<lparr>ws_fail_operations := ws_fail_operations st + 1, ws_fail_points := ws_fail_points st + points,
             ws_error_samples := (if length (ws_error_samples st) < 5 then ws_error_samples st @ [e] else ws_error_samples st)\<rparr>)"

text \<open>Send one batch and time it; \<open>None\<close> is a panic of the insert.\<close>

definition send_batch ::
    "float_ops \<Rightarrow> 'w env \<Rightarrow> bench_config \<Rightarrow> nat \<Rightarrow> tablet list \<Rightarrow> session \<Rightarrow> 'w \<Rightarrow> worker_stats \<Rightarrow> (session \<times> 'w \<times> worker_stats) option" where
  "send_batch fo env c chunk batch s w st =
     (let (start, w) = e_now env w;
          points = sum_list (map (\<lambda>t. word_of_nat (row_count t * bc_sensors c)) batch)
      in map_option (\<lambda>(r, s, w).
           let (stop, w) = e_now env w in (s, w, note_outcome r (fo_millis fo (stop - start)) points st))
         (if chunk = 1 then insert_tablet env (hd batch) s w else insert_tablets env batch False s w))"

partial_function (option) worker_loop ::
    "float_ops \<Rightarrow> 'w env \<Rightarrow> bench_config \<Rightarrow> nat \<Rightarrow> nat \<Rightarrow> tablet list \<Rightarrow> session \<Rightarrow> 'w \<Rightarrow> worker_stats
      \<Rightarrow> (session \<times> 'w \<times> worker_stats) outcome option" where
  "worker_loop fo env c len i tablets s w st =
     (if len \<le> i then Some (Returns (s, w, st))
      else if tablets = [] then Some Panic
      else case prepare_batch c len i tablets of
             None \<Rightarrow> Some Panic
           | Some (tablets', batch, chunk) \<Rightarrow>
               (case send_batch fo env c chunk batch s w st of
                  None \<Rightarrow> Some Panic
                | Some (s', w', st') \<Rightarrow> worker_loop fo env c len (i + chunk) tablets' s' w' st'))"

section \<open>The figures\<close>

definition percentile :: "float_ops \<Rightarrow> f64 list \<Rightarrow> f64 \<Rightarrow> f64" where
  "percentile fo xs p =
     (if xs = [] then 0
      else let index = fo_ceil fo (fo_f64_mul fo (fo_f64_div fo p 0x4059000000000000) (fo_f64_of fo (word_of_nat (length xs)))) - 1
           in xs ! min index (length xs - 1))"

definition sum_ops :: "worker_stats list \<Rightarrow> u64" where "sum_ops ws = sum_list (map ws_ops ws)"
definition sum_failed :: "worker_stats list \<Rightarrow> u64" where "sum_failed ws = sum_list (map ws_fail_operations ws)"
definition ok_operations :: "worker_stats list \<Rightarrow> u64" where "ok_operations ws = sum_ops ws - sum_failed ws"
definition ok_points :: "worker_stats list \<Rightarrow> u64" where "ok_points ws = sum_list (map ws_points ws)"
definition fail_points :: "worker_stats list \<Rightarrow> u64" where "fail_points ws = sum_list (map ws_fail_points ws)"

end
