(* ===== verification/Spec2Isabelle.thy ===== *)
theory Spec2Isabelle
  imports RecordValues TsBlockFormat DataSetProps TableSession PoolProps RpcQuirks SessionWire CallSafety BenchmarkProps
begin

text \<open>
  \<^bold>\<open>A verification of the Apache IoTDB client for Rust.\<close>

  The client opens authenticated sessions on an IoTDB cluster over Thrift, sends statements and
  inserts, reads result sets page by page, follows redirect hints, reconnects after a transport
  failure, and pools sessions for threads. The development follows the sources file by file; names
  under \<^verbatim>\<open>src/\<close> are given with each theory.

  \<^bold>\<open>Foundations.\<close>
  \<^item> \<open>Prelude\<close>: words, big-endian bytes, the error monad on sums, generic facts about lists.
  \<^item> \<open>RustStd\<close>: what the sources use of Rust's library: UTF-8, trimming, splitting, decimal parsing.
  \<^item> \<open>Errors\<close> (\<^verbatim>\<open>error.rs\<close>): one constructor for each message the code formats.
  \<^item> \<open>Codec\<close>: the interface of a wire format, a locale that every format of the client interprets.

  \<^bold>\<open>Data.\<close>
  \<^item> \<open>DataTypes\<close>, \<open>Bitmap\<close> (\<^verbatim>\<open>data/mod.rs\<close>, \<^verbatim>\<open>data/value.rs\<close>, \<^verbatim>\<open>data/bitmap.rs\<close>): types, values, bitmaps.
  \<^item> \<open>Tablet\<close>, \<open>TabletWire\<close> (\<^verbatim>\<open>data/tablet.rs\<close>): building tablets, sorting by time, serializing. Well-formed
    tablets stay well-formed, sorting refines a stable sort of the rows, and a reference decoder reads the
    values back from the bytes; the panics of unsupported types are characterised.
  \<^item> \<open>RecordValues\<close> (\<^verbatim>\<open>data/record.rs\<close>): the values of single records and their round trip.
  \<^item> \<open>TsBlock\<close>, \<open>TsBlockProps\<close>, \<open>TsBlockFormat\<close> (\<^verbatim>\<open>data/tsblock.rs\<close>): the block decoder. It inverts the
    block layout, returns rectangular blocks of the declared types, and rejects every truncation.

  \<^bold>\<open>Connections and sessions.\<close>
  \<^item> \<open>Endpoint\<close>, \<open>Connection\<close> (\<^verbatim>\<open>connection/mod.rs\<close>): parsing and printing endpoints, and opening a
    connection over TCP or TLS. The network is the parameter \<open>net\<close>.
  \<^item> \<open>ThriftTypes\<close>: the structures of the RPC service the client uses.
  \<^item> \<open>Redirect\<close> (\<^verbatim>\<open>client/redirect.rs\<close>): the bounded cache of redirect hints, refined to a queue by age.
  \<^item> \<open>Env\<close>: the RPC service, the clock and the network as one parameter \<open>env\<close> over an arbitrary world, and
    the same service with a log of the calls, over which the properties speak of what was sent.
  \<^item> \<open>Session\<close>, \<open>SessionProps\<close>, \<open>SessionInv\<close> (\<^verbatim>\<open>client/session.rs\<close>): open, reconnect, the single retry,
    statements and queries. A statement is sent once, or once more after a successful reconnect;
    reconnecting visits the endpoints in order, within its bound; in every reachable state an
    open session carries the ids the server issued for its very connection.
  \<^item> \<open>Inserts\<close>, \<open>InsertProps\<close> (\<^verbatim>\<open>client/session.rs\<close>): what each insert sends, that it is what the caller
    gave in order of time, and that a refused insert sends nothing.
  \<^item> \<open>DataSet\<close>, \<open>DataSetProps\<close> (\<^verbatim>\<open>client/dataset.rs\<close>): the result set. Draining it yields the rows of all
    pages in order; it never panics, returns whenever the pages end, and is closed once.
  \<^item> \<open>TableSession\<close> (\<^verbatim>\<open>client/table_session.rs\<close>): the builder and the table dialect.
  \<^item> \<open>Pool\<close>, \<open>PoolProps\<close> (\<^verbatim>\<open>client/pool.rs\<close>): the pool as a step relation of threads over the shared state,
    one step for each access between two points where another thread can interfere. Under every
    interleaving the count of sessions is exact and bounded, and some thread can always move; a lost
    wake-up is exhibited.

  \<^bold>\<open>The Thrift layer.\<close>
  \<^item> \<open>ThriftProtocol\<close>: the idioms of the generated code over any protocol. A reader is a function from
    the stream to a value, an error or a panic; a writer is the list of calls it makes. The locale
    \<open>thrift_wire\<close> states the laws of a protocol, and its rules follow the shape of the types.
  \<^item> \<open>ThriftReplies\<close>, \<open>ThriftRequests\<close>, \<open>ThriftCommon\<close>, \<open>ThriftStatements\<close>, \<open>ThriftSchemas\<close>
    (\<^verbatim>\<open>protocol/common.rs\<close>, \<^verbatim>\<open>protocol/client.rs\<close>): every structure and enumeration of the service, first
    those a session exchanges; each reader inverts its writer.
  \<^item> \<open>RpcCall\<close>, \<open>RpcClient\<close>, \<open>RpcStatements\<close>, \<open>RpcAdmin\<close> (\<^verbatim>\<open>protocol/client.rs\<close>): what every call of the
    generated client does, the twelve calls a session makes, and the fifty-seven others, each with its
    argument and result structures.
  \<^item> \<open>RpcProps\<close>: requests and results survive the wire, and a foreign message is never taken for a reply.
  \<^item> \<open>RpcServer\<close> (\<^verbatim>\<open>protocol/client.rs\<close>): the generated processor: the handler interface, the processing of
    each call and the dispatch by name.
  \<^item> \<open>RpcLink\<close>: both sides over one medium. The locale \<open>thrift_link\<close> adds to \<open>thrift_wire\<close> that what is
    written is delivered, and what the \<^verbatim>\<open>thrift\<close> crate does on a server. All sixty-nine calls are
    transparent, the client gets what the handler returned for the request it made, with one exception
    that the theorem states: properties without a \<^verbatim>\<open>maxConcurrentClientNum\<close> arrive with the number zero.
  \<^item> \<open>BinaryProtocol\<close>: the Thrift binary protocol over bytes, which has the laws of both locales.
  \<^item> \<open>ReaderSafety\<close>, \<open>StructSafety\<close>, \<open>CallSafety\<close>: the locale \<open>finite_stream\<close> states that reading uses a stream up,
    that a protocol reports no list of negative size (the readers reserve room for the size they are
    told), and that it refuses a missing required field. Over any such protocol every reader of the
    service, every call and the processor return a value or an error, whatever the stream holds.
  \<^item> \<open>BinarySafety\<close>: the binary protocol on bytes is such a protocol.
  \<^item> \<open>RpcQuirks\<close>: an absent property that comes back as zero, and argument readers that take any field.

  \<^bold>\<open>Sessions over the wire.\<close>
  \<^item> \<open>WireFits\<close>: which arguments of a session's operations fit into messages, and that the requests
    built from them do.
  \<^item> \<open>SameService\<close>: two environments that agree on the requests that fit cannot be told apart by any
    sequence of session operations, nor by a result set.
  \<^item> \<open>SessionWire\<close>: a session whose calls are messages, through the generated client and processor, does
    what a session does that calls the handlers of the server directly. This is where the parameter
    \<open>env\<close> of the session theories meets the calls of \<open>RpcClient\<close>.

  \<^bold>\<open>The write benchmark.\<close>
  \<^item> \<open>Benchmark\<close>, \<open>BenchmarkProps\<close> (\<^verbatim>\<open>examples/benchmark.rs\<close>): the command line, the data, the schedule of every
    worker and the loop that sends it, on the model of tablets, inserts and the pool. The loop ends, and
    all workers together send the announced number of rows, no two with the same device and time.

  \<^bold>\<open>Bounds and fuel.\<close> Integers have the width of the source and wrap where it wraps, as in a build
  without overflow checks. Lengths and indices of lists are natural numbers, and so are instants and
  durations, which therefore never overflow. Two properties have a bound because of the width: the
  redirect cache is a queue as long as fewer than \<open>2 ^ 64 - 1\<close> hints were put into it, and the benchmark
  counts right as long as the number of its points fits into 64 bits. The loop of
  \<^verbatim>\<open>next_row\<close> is a partial function, proved to return whenever the pages that promise more are finite.
  The readers of Thrift structures take a number of turns: a structure has at most seventeen fields,
  so eighteen turns are enough, and one more for each level of nested statuses; the round trips are
  proved from that bound on. For arbitrary input the bound is the length of the stream: with more turns
  than bytes no reader runs out of them. The loop of a benchmark worker is a partial function, proved to
  return for every accepted command line. All other loops are total functions.

  \<^bold>\<open>Not modelled.\<close> The \<^verbatim>\<open>thrift\<close>, TLS and standard network code are parameters. Logging, \<^verbatim>\<open>Debug\<close> and \<^verbatim>\<open>Display\<close> of
  errors, accessors, the constructors of the generated structures, lock poisoning and the running out of
  memory or stack are left out, and so are the tests and the examples but for the benchmark; of that the
  threads, the progress report and the printing are left out, and floating-point operations are the
  parameter \<open>float_ops\<close>. In \<open>SessionWire\<close> a
  medium loses nothing and every exchange has a fresh one; what a session does when a call fails is the
  subject of the session theories, over any environment.

  The root theory puts both sides of one insert together: a tablet given to \<^verbatim>\<open>insert\<close> arrives at the
  server.
\<close>

section \<open>From a tablet to the server\<close>

lemma describes_tablet_session [simp]:
  "describes_tablet (req\<lparr>itq_session_id := sid\<rparr>) t \<longleftrightarrow> describes_tablet req t"
  by (simp add: describes_tablet_def)

text \<open>
  C9: A tablet given to \<^verbatim>\<open>insert\<close> arrives at the server. Whatever lawful protocol lies in between, the
  request that the session sends, read by the server's generated reader from the message the client's
  generated writer wrote, carries the session id of the attempt and describes the tablet: its target,
  measurements, types and flags, and, decoding the two buffers, exactly its rows in a stable order by
  timestamp.
\<close>

theorem insert_tablet_end_to_end:
  assumes "thrift_wire P holds" "18 \<le> n" "tablet_fits t"
  shows "\<exists>req r s' w' evs.
    insert_tablet (logged env) t s (w, l) = Some (r, s', w', l @ evs) \<and>
    sends (\<lambda>c s. EvInsertTablet c (req\<lparr>itq_session_id := ss_session_id s\<rparr>)) s r s' evs \<and>
    (\<forall>sid rest i. holds (write_insert_tablet_args (req\<lparr>itq_session_id := sid\<rparr>) @ rest) i \<longrightarrow>
       (\<exists>req' i'. read_insert_tablet_args P n i = (Done req', i') \<and> holds rest i' \<and>
          itq_session_id req' = sid \<and> describes_tablet req' t))"
proof -
  have t: "wf_tablet t" "writable t" "row_count t < 2 ^ 31" using assms(3) by (simp_all add: tablet_fits_def)
  obtain vals where vals: "fst (serialize_values t) = Some vals"
    "decode_values (tb_types t) (row_count t) vals = Some (tb_values (sort_by_timestamp t))"
    using serialize_values_decode [OF t(1,2)] by auto
  let ?req = "tablet_request (ss_session_id s) t vals"
  have desc: "describes_tablet (?req\<lparr>itq_session_id := sid\<rparr>) t" for sid
    using describes_tablet_request [OF t(1,3) vals(2)] by simp
  have "round_trips holds (read_insert_tablet_args P n) write_insert_tablet_args ok_ts_insert_tablet_req"
    using thrift_wire.args_round_trip [OF assms(1,2)] by simp
  then have "\<exists>req' i'. read_insert_tablet_args P n i = (Done req', i') \<and> holds rest i' \<and>
      itq_session_id req' = sid \<and> describes_tablet req' t"
    if "holds (write_insert_tablet_args (?req\<lparr>itq_session_id := sid\<rparr>) @ rest) i" for sid rest i
    using that tablet_request_ok [OF assms(3) vals(1), of sid "ss_session_id s"] desc [of sid]
    by (fastforce simp: round_trips_def)
  then show ?thesis using insert_tablet_logged [OF vals(1), of env s w l] by blast
qed

theorem insert_tablet_end_to_end_witness:
  "thrift_wire binary_protocol encoded \<and> (18::nat) \<le> 18 \<and> tablet_fits sample_tablet \<and>
   (\<exists>req req' i'. read_insert_tablet_args binary_protocol 18
        (concat (map encode (write_insert_tablet_args (req\<lparr>itq_session_id := 7\<rparr>)))) = (Done req', i') \<and>
      itq_session_id req' = 7 \<and> describes_tablet req' sample_tablet)"
proof -
  have "row_count sample_tablet = 3" by code_simp
  moreover have "length (the (fst (serialize_values sample_tablet))) = 29" by code_simp
  moreover have "valid_str (tb_target sample_tablet)" "list_all valid_str (tb_measurements sample_tablet)"
    by code_simp+
  ultimately have fits: "tablet_fits sample_tablet"
    using sample_tablet_wf sample_tablet_writable
    by (simp add: tablet_fits_def str_ok_def list_ok_def short_def list_all_iff) (simp add: sample_tablet_def)
  have "encoded (cs @ []) (concat (map encode cs))" for cs by (simp add: encoded_def)
  with insert_tablet_end_to_end [OF binary.thrift_wire_axioms order_refl fits, of quiet_env sample_session "()" "[]"]
  show ?thesis using fits binary.thrift_wire_axioms by blast
qed

end
